(* ===== verification/Prelude.thy ===== *)
theory Prelude
  imports Complex_Main "HOL-Library.AList" "HOL-Library.Multiset"
begin

text \<open>
  Shared ground of the development: the shape of a fallible, state-changing TypeScript call
  (\<open>outcome\<close>), JavaScript's insertion-ordered \<open>Map\<close> and \<open>Set\<close>, array operations with the
  language's own out-of-range behaviour, truthiness, and the reachability scheme that the state
  machines of the later theories instantiate.
\<close>

named_theorems outcome_rules \<open>introduction rules for facts about every way a call can end\<close>
named_theorems js_simps \<open>rewrite rules for the JavaScript containers\<close>

section \<open>Calls that may throw\<close>

text \<open>
  A method that mutates its object either returns a value or throws; in both cases the object
  is left in some state, because JavaScript does not undo the assignments made before a
  \<open>throw\<close>. The state is therefore part of both outcomes.
\<close>

datatype ('e, 'a, 's) outcome = Returns 'a 's | Throws 'e 's

fun and_then :: "('e, 'a, 's) outcome \<Rightarrow> ('a \<Rightarrow> 's \<Rightarrow> ('e, 'b, 's) outcome) \<Rightarrow> ('e, 'b, 's) outcome" where
  "and_then (Returns a s) k = k a s"
| "and_then (Throws e s) k = Throws e s"

fun final_state :: "('e, 'a, 's) outcome \<Rightarrow> 's" where
  "final_state (Returns a s) = s"
| "final_state (Throws e s) = s"

fun thrown :: "('e, 'a, 's) outcome \<Rightarrow> 'e option" where
  "thrown (Returns a s) = None"
| "thrown (Throws e s) = Some e"

fun returned :: "('e, 'a, 's) outcome \<Rightarrow> 'a option" where
  "returned (Returns a s) = Some a"
| "returned (Throws e s) = None"

text \<open>\<open>ends_in P c\<close>: whichever way \<open>c\<close> ends, \<open>P\<close> holds of the state it leaves.\<close>

definition ends_in :: "('s \<Rightarrow> bool) \<Rightarrow> ('e, 'a, 's) outcome \<Rightarrow> bool" where
  "ends_in P c \<longleftrightarrow> P (final_state c)"

lemma ends_in_simps [simp]:
  "ends_in P (Returns a s) = P s"
  "ends_in P (Throws e s) = P s"
  by (simp_all add: ends_in_def)

lemma ends_in_and_then [outcome_rules]:
  assumes "ends_in Q c" and "\<And>a s. c = Returns a s \<Longrightarrow> Q s \<Longrightarrow> ends_in P (k a s)"
    and "\<And>s. Q s \<Longrightarrow> P s"
  shows "ends_in P (and_then c k)"
  using assms by (cases c) auto

lemma ends_in_seq:
  assumes "ends_in P c" and "\<And>a s. P s \<Longrightarrow> ends_in P (k a s)"
  shows "ends_in P (and_then c k)"
  using assms by (cases c) auto

lemma ends_in_mono: "ends_in P c \<Longrightarrow> (\<And>s. P s \<Longrightarrow> Q s) \<Longrightarrow> ends_in Q c"
  by (simp add: ends_in_def)

lemma ends_in_if [outcome_rules]:
  "(b \<Longrightarrow> ends_in P c) \<Longrightarrow> (\<not> b \<Longrightarrow> ends_in P d) \<Longrightarrow> ends_in P (if b then c else d)"
  by simp

lemma ends_in_option [outcome_rules]:
  "(x = None \<Longrightarrow> ends_in P c) \<Longrightarrow> (\<And>v. x = Some v \<Longrightarrow> ends_in P (d v))
    \<Longrightarrow> ends_in P (case x of None \<Rightarrow> c | Some v \<Rightarrow> d v)"
  by (cases x) auto

lemma ends_in_sum [outcome_rules]:
  "(\<And>e. x = Inl e \<Longrightarrow> ends_in P (c e)) \<Longrightarrow> (\<And>v. x = Inr v \<Longrightarrow> ends_in P (d v))
    \<Longrightarrow> ends_in P (case x of Inl e \<Rightarrow> c e | Inr v \<Rightarrow> d v)"
  by (cases x) auto

lemma and_then_Returns_iff:
  "and_then c k = Returns b t \<longleftrightarrow> (\<exists>a s. c = Returns a s \<and> k a s = Returns b t)"
  by (cases c) auto

lemma and_then_Throws_iff:
  "and_then c k = Throws e t \<longleftrightarrow> c = Throws e t \<or> (\<exists>a s. c = Returns a s \<and> k a s = Throws e t)"
  by (cases c) auto

section \<open>Truthiness\<close>

text \<open>
  \<open>undefined\<close> and \<open>null\<close> are \<open>None\<close>; the empty string and the number zero are the falsy values
  among the rest.
\<close>

fun truthy_str :: "string option \<Rightarrow> bool" where
  "truthy_str None = False"
| "truthy_str (Some s) = (s \<noteq> [])"

fun truthy_num :: "'n::zero option \<Rightarrow> bool" where
  "truthy_num None = False"
| "truthy_num (Some n) = (n \<noteq> 0)"

fun truthy_bool :: "bool option \<Rightarrow> bool" where
  "truthy_bool None = False"
| "truthy_bool (Some b) = b"

fun nullish :: "'a option \<Rightarrow> 'a \<Rightarrow> 'a" where
  "nullish None d = d"
| "nullish (Some a) d = a"

lemma truthy_str_iff: "truthy_str x \<longleftrightarrow> (\<exists>s. x = Some s \<and> s \<noteq> [])"
  by (cases x) auto

lemma truthy_num_iff: "truthy_num x \<longleftrightarrow> (\<exists>n. x = Some n \<and> n \<noteq> 0)"
  by (cases x) auto

section \<open>Insertion-ordered maps and sets\<close>

text \<open>
  A JavaScript \<open>Map\<close> keeps its keys in the order of their first insertion; \<open>set\<close> on a present
  key replaces the value in place, \<open>delete\<close> drops the entry. \<open>AList.update\<close> and \<open>AList.delete\<close>
  are these operations on association lists. A \<open>Set\<close> is a list without duplicates.
\<close>

type_synonym ('k, 'v) js_map = "('k \<times> 'v) list"
type_synonym 'a js_set = "'a list"

definition js_map_wf :: "('k, 'v) js_map \<Rightarrow> bool" where
  "js_map_wf m \<longleftrightarrow> distinct (map fst m)"

fun js_map_of_entries :: "('k \<times> 'v) list \<Rightarrow> ('k, 'v) js_map \<Rightarrow> ('k, 'v) js_map" where
  "js_map_of_entries [] m = m"
| "js_map_of_entries ((k, v) # es) m = js_map_of_entries es (AList.update k v m)"

definition js_set_add :: "'a \<Rightarrow> 'a js_set \<Rightarrow> 'a js_set" where
  "js_set_add x s = (if x \<in> set s then s else s @ [x])"

definition js_set_delete :: "'a \<Rightarrow> 'a js_set \<Rightarrow> 'a js_set" where
  "js_set_delete x s = filter (\<lambda>y. y \<noteq> x) s"

fun js_set_of_list :: "'a list \<Rightarrow> 'a js_set \<Rightarrow> 'a js_set" where
  "js_set_of_list [] s = s"
| "js_set_of_list (x # xs) s = js_set_of_list xs (js_set_add x s)"

lemma js_map_get_set [js_simps, simp]:
  "map_of (AList.update k v m) k' = (if k' = k then Some v else map_of m k')"
  by (simp add: update_conv)

lemma js_map_get_delete [js_simps, simp]:
  "map_of (AList.delete k m) k' = (if k' = k then None else map_of m k')"
  by (simp add: delete_conv)

lemma js_map_wf_simps [js_simps, simp]:
  "js_map_wf []"
  "js_map_wf m \<Longrightarrow> js_map_wf (AList.update k v m)"
  "js_map_wf m \<Longrightarrow> js_map_wf (AList.delete k m)"
  by (simp_all add: js_map_wf_def distinct_update distinct_delete)

lemma js_set_add_simps [js_simps, simp]:
  "set (js_set_add x s) = insert x (set s)"
  "distinct s \<Longrightarrow> distinct (js_set_add x s)"
  by (auto simp: js_set_add_def)

lemma js_set_delete_simps [js_simps, simp]:
  "set (js_set_delete x s) = set s - {x}"
  "distinct s \<Longrightarrow> distinct (js_set_delete x s)"
  by (auto simp: js_set_delete_def)

lemma js_set_of_list_simps [js_simps, simp]:
  "set (js_set_of_list xs s) = set xs \<union> set s"
  by (induction xs s rule: js_set_of_list.induct) auto

lemma js_set_of_list_distinct [js_simps, simp]:
  "distinct s \<Longrightarrow> distinct (js_set_of_list xs s)"
  by (induction xs s rule: js_set_of_list.induct) auto

text \<open>
  The contract of a keyed store, which \<open>Grants.masks\<close>, \<open>Room.userRoles\<close>, \<open>Room.votes\<close> and the
  client manager's \<open>roomJoins\<close> rely on. It is interpreted below on the association lists that
  model \<open>Map\<close>.
\<close>

locale keyed_store =
  fixes lookup :: "'m \<Rightarrow> 'k \<Rightarrow> 'v option"
    and put :: "'k \<Rightarrow> 'v \<Rightarrow> 'm \<Rightarrow> 'm"
    and remove :: "'k \<Rightarrow> 'm \<Rightarrow> 'm"
  assumes lookup_put: "lookup (put k v m) k' = (if k' = k then Some v else lookup m k')"
    and lookup_remove: "lookup (remove k m) k' = (if k' = k then None else lookup m k')"
begin

lemma lookup_put_same: "lookup (put k v m) k = Some v"
  by (simp add: lookup_put)

lemma lookup_foldr_put:
  "lookup (foldr (\<lambda>k. put k (f k)) ks m) k' = (if k' \<in> set ks then Some (f k') else lookup m k')"
  by (induction ks) (auto simp: lookup_put)

lemma lookup_fold_remove:
  "lookup (fold remove ks m) k' = (if k' \<in> set ks then None else lookup m k')"
  by (induction ks arbitrary: m) (auto simp: lookup_remove)

lemma lookup_fold_put:
  "lookup (fold (\<lambda>k. put k (f k)) ks m) k' = (if k' \<in> set ks then Some (f k') else lookup m k')"
  by (induction ks arbitrary: m) (auto simp: lookup_put)

end

interpretation js: keyed_store map_of AList.update AList.delete
  by unfold_locales simp_all

section \<open>Arrays\<close>

text \<open>
  \<open>findIndex\<close> gives the first position, \<open>None\<close> for JavaScript's \<open>-1\<close>.
  \<open>splice(i, 1)\<close> and \<open>splice(i, 0, x)\<close> are used by the code with in-range positions only;
  beyond the end \<open>take\<close> and \<open>drop\<close> give what \<open>splice\<close> gives: nothing is removed, and the new
  element is appended.
\<close>

fun find_index :: "('a \<Rightarrow> bool) \<Rightarrow> 'a list \<Rightarrow> nat option" where
  "find_index p [] = None"
| "find_index p (x # xs) = (if p x then Some 0 else map_option Suc (find_index p xs))"

definition remove_at :: "nat \<Rightarrow> 'a list \<Rightarrow> 'a list" where
  "remove_at i xs = take i xs @ drop (Suc i) xs"

definition insert_at :: "nat \<Rightarrow> 'a \<Rightarrow> 'a list \<Rightarrow> 'a list" where
  "insert_at i x xs = take i xs @ x # drop i xs"

lemma find_index_None_iff: "find_index p xs = None \<longleftrightarrow> (\<forall>x\<in>set xs. \<not> p x)"
  by (induction xs) auto

lemma find_index_SomeD:
  "find_index p xs = Some i \<Longrightarrow> i < length xs \<and> p (xs ! i) \<and> (\<forall>j<i. \<not> p (xs ! j))"
proof (induction xs arbitrary: i)
  case (Cons x xs)
  show ?case
  proof (cases "p x")
    case False
    with Cons.prems obtain j where j: "find_index p xs = Some j" "i = Suc j" by auto
    with Cons.IH [OF j(1)] False show ?thesis by (auto simp: less_Suc_eq_0_disj)
  qed (use Cons.prems in auto)
qed simp

lemma find_find_index: "find p xs = map_option (\<lambda>i. xs ! i) (find_index p xs)"
  by (induction xs) (auto simp: option.map_comp comp_def)

lemma find_append:
  "find p (xs @ ys) = (case find p xs of None \<Rightarrow> find p ys | Some x \<Rightarrow> Some x)"
  by (induction xs) auto

lemma find_index_update:
  "find_index p xs = Some i \<Longrightarrow> p y \<Longrightarrow> find_index p (xs[i := y]) = Some i"
proof (induction xs arbitrary: i)
  case (Cons x xs)
  then show ?case by (cases "p x"; cases i) auto
qed simp

lemma find_index_append:
  "find_index p (xs @ ys) = (case find_index p xs of Some i \<Rightarrow> Some i
     | None \<Rightarrow> map_option (\<lambda>i. i + length xs) (find_index p ys))"
  by (induction xs) (auto split: option.splits simp: option.map_comp comp_def option.map_id0 option.map_ident)

lemma length_remove_at [simp]: "i < length xs \<Longrightarrow> length (remove_at i xs) = length xs - 1"
  by (simp add: remove_at_def)

lemma length_insert_at [simp]: "i \<le> length xs \<Longrightarrow> length (insert_at i x xs) = Suc (length xs)"
  by (simp add: insert_at_def)

lemma mset_insert_at [simp]: "mset (insert_at i x xs) = add_mset x (mset xs)"
proof -
  have "mset (insert_at i x xs) = add_mset x (mset (take i xs @ drop i xs))"
    unfolding insert_at_def by (simp only: mset_append) simp
  then show ?thesis by simp
qed

lemma mset_remove_at:
  "i < length xs \<Longrightarrow> add_mset (xs ! i) (mset (remove_at i xs)) = mset xs"
proof -
  assume "i < length xs"
  then have "mset xs = mset (take i xs @ xs ! i # drop (Suc i) xs)"
    by (simp add: id_take_nth_drop [symmetric])
  then show ?thesis by (simp add: remove_at_def)
qed

lemma remove_insert_at [simp]: "i \<le> length xs \<Longrightarrow> remove_at i (insert_at i x xs) = xs"
  by (simp add: remove_at_def insert_at_def min_def)

lemma insert_remove_at: "i < length xs \<Longrightarrow> insert_at i (xs ! i) (remove_at i xs) = xs"
  by (simp add: remove_at_def insert_at_def min_def id_take_nth_drop [symmetric])

lemma nth_insert_at: "i \<le> length xs \<Longrightarrow> insert_at i x xs ! i = x"
  by (simp add: insert_at_def nth_append)

lemma set_insert_at [simp]: "set (insert_at i x xs) = insert x (set xs)"
  by (metis mset_insert_at set_mset_add_mset_insert set_mset_mset)

lemma set_remove_at_subset: "set (remove_at i xs) \<subseteq> set xs"
  by (auto simp: remove_at_def dest: in_set_takeD in_set_dropD)

lemma sort_key_Nil_iff [simp]: "sort_key f xs = [] \<longleftrightarrow> xs = []"
  by (metis length_0_conv length_sort)

section \<open>Several results\<close>

text \<open>\<open>Promise.all\<close> and loops that throw: all results in order, or the first failure.\<close>

fun all_ok :: "('e + 'a) list \<Rightarrow> 'e + 'a list" where
  "all_ok [] = Inr []"
| "all_ok (Inl e # rs) = Inl e"
| "all_ok (Inr a # rs) = (case all_ok rs of Inl e \<Rightarrow> Inl e | Inr as \<Rightarrow> Inr (a # as))"

lemma all_ok_iff: "(\<exists>as. all_ok rs = Inr as) \<longleftrightarrow> (\<forall>r\<in>set rs. \<exists>a. r = Inr a)"
  by (induction rs rule: all_ok.induct) (auto split: sum.split)

section \<open>Strings\<close>

definition ascii_lower :: "char \<Rightarrow> char" where
  "ascii_lower c = (let n = (of_char c :: nat) in if 65 \<le> n \<and> n \<le> 90 then char_of (n + 32) else c)"

text \<open>\<open>toLowerCase\<close> on the ASCII names that \<open>ROOM_NAME_REGEX\<close> admits.\<close>

definition to_lower :: "string \<Rightarrow> string" where
  "to_lower s = map ascii_lower s"

definition starts_with :: "string \<Rightarrow> string \<Rightarrow> bool" where
  "starts_with pre s \<longleftrightarrow> take (length pre) s = pre"

definition ends_with :: "string \<Rightarrow> string \<Rightarrow> bool" where
  "ends_with suf s \<longleftrightarrow> length suf \<le> length s \<and> drop (length s - length suf) s = suf"

fun split_on :: "char \<Rightarrow> string \<Rightarrow> string list" where
  "split_on c [] = [[]]"
| "split_on c (x # xs) =
     (if x = c then [] # split_on c xs
      else (case split_on c xs of [] \<Rightarrow> [[x]] | w # ws \<Rightarrow> (x # w) # ws))"

lemma split_on_nonempty [simp]: "split_on c s \<noteq> []"
  by (induction s) (auto split: list.splits)

lemma starts_with_append [simp]: "starts_with p (p @ s)"
  by (simp add: starts_with_def)

lemma starts_with_Nil [simp]: "starts_with [] s"
  by (simp add: starts_with_def)

text \<open>Template literals print numbers in decimal.\<close>

fun show_nat :: "nat \<Rightarrow> string" where
  "show_nat n = (if n < 10 then [char_of (48 + n)] else show_nat (n div 10) @ [char_of (48 + n mod 10)])"

declare show_nat.simps [simp del]

definition show_int :: "int \<Rightarrow> string" where
  "show_int i = (if i < 0 then CHR ''-'' # show_nat (nat (- i)) else show_nat (nat i))"

definition dquote :: string where
  "dquote = [CHR 0x22]"

definition quoted :: "string \<Rightarrow> string" where
  "quoted s = dquote @ s @ dquote"

definition squoted :: "string \<Rightarrow> string" where
  "squoted s = CHR 0x27 # s @ [CHR 0x27]"

definition is_js_space :: "char \<Rightarrow> bool" where
  "is_js_space c = (let n = (of_char c :: nat) in n = 32 \<or> (9 \<le> n \<and> n \<le> 13))"

text \<open>\<open>s.trim().length > 0\<close>\<close>

definition nonblank :: "string \<Rightarrow> bool" where
  "nonblank s \<longleftrightarrow> list_ex (\<lambda>c. \<not> is_js_space c) s"

definition is_alnum :: "char \<Rightarrow> bool" where
  "is_alnum c = (let n = (of_char c :: nat) in
     (48 \<le> n \<and> n \<le> 57) \<or> (65 \<le> n \<and> n \<le> 90) \<or> (97 \<le> n \<and> n \<le> 122))"

section \<open>Reachable states\<close>

text \<open>
  The scheme of every state machine below: an initial state, a step function over a type of
  events, and an invariant. The lemma is proved once and used through interpretations.
\<close>

fun run_steps :: "('s \<Rightarrow> 'ev \<Rightarrow> 's) \<Rightarrow> 's \<Rightarrow> 'ev list \<Rightarrow> 's" where
  "run_steps step s [] = s"
| "run_steps step s (e # es) = run_steps step (step s e) es"

locale invariant_machine =
  fixes step :: "'s \<Rightarrow> 'ev \<Rightarrow> 's"
    and inv :: "'s \<Rightarrow> bool"
    and admissible :: "'ev \<Rightarrow> bool"
  assumes step_inv: "inv s \<Longrightarrow> admissible e \<Longrightarrow> inv (step s e)"
begin

lemma run_inv: "inv s \<Longrightarrow> list_all admissible es \<Longrightarrow> inv (run_steps step s es)"
  by (induction es arbitrary: s) (auto intro: step_inv)

lemma run_prefix_inv:
  "inv s \<Longrightarrow> list_all admissible (es @ fs) \<Longrightarrow> inv (run_steps step s es)"
  by (auto intro: run_inv)

end

end
