(* ===== verification/Ott_Types.thy ===== *)
theory Ott_Types
  imports Prelude
begin

text \<open>
  The data of \<open>common/models/types.ts\<close>, \<open>common/models/video.ts\<close>, \<open>common/constants.ts\<close> and the
  exception classes of \<open>common/exceptions.ts\<close> and \<open>server/exceptions.ts\<close>, with the name and the
  message each exception carries. JavaScript numbers that the room computes with (positions,
  speeds, lengths) are rationals; identifiers and roles are integers.
\<close>

section \<open>Enumerations\<close>

datatype visibility = Public | Unlisted | Private

datatype queueMode = Manual | Vote | Loop | Dj

datatype behaviorOption = Never | Prompt | Always

fun behavior_num :: "behaviorOption \<Rightarrow> int" where
  "behavior_num Always = 2"
| "behavior_num Prompt = 1"
| "behavior_num Never = 0"

text \<open>The enum is ordered by its numeric values, as comparisons in the code would order it.\<close>

instantiation behaviorOption :: linorder
begin

definition less_eq_behaviorOption :: "behaviorOption \<Rightarrow> behaviorOption \<Rightarrow> bool" where
  "less_eq_behaviorOption a b \<longleftrightarrow> behavior_num a \<le> behavior_num b"

definition less_behaviorOption :: "behaviorOption \<Rightarrow> behaviorOption \<Rightarrow> bool" where
  "less_behaviorOption a b \<longleftrightarrow> behavior_num a < behavior_num b"

instance
proof
  fix a b c :: behaviorOption
  show "a < b \<longleftrightarrow> a \<le> b \<and> \<not> b \<le> a"
    by (auto simp: less_eq_behaviorOption_def less_behaviorOption_def)
  show "a \<le> a" by (simp add: less_eq_behaviorOption_def)
  show "a \<le> b \<Longrightarrow> b \<le> c \<Longrightarrow> a \<le> c" by (simp add: less_eq_behaviorOption_def)
  show "a \<le> b \<Longrightarrow> b \<le> a \<Longrightarrow> a = b"
    by (cases a; cases b) (simp_all add: less_eq_behaviorOption_def)
  show "a \<le> b \<or> b \<le> a" by (auto simp: less_eq_behaviorOption_def)
qed

end

datatype ottWebsocketError =
  AWAY | UNKNOWN | INVALID_CONNECTION_URL | ROOM_NOT_FOUND | ROOM_UNLOADED | MISSING_TOKEN | KICKED

fun ws_code :: "ottWebsocketError \<Rightarrow> int" where
  "ws_code AWAY = 1001"
| "ws_code UNKNOWN = 4000"
| "ws_code INVALID_CONNECTION_URL = 4001"
| "ws_code ROOM_NOT_FOUND = 4002"
| "ws_code ROOM_UNLOADED = 4003"
| "ws_code MISSING_TOKEN = 4004"
| "ws_code KICKED = 4005"

datatype playerStatus = PsNone | PsReady | PsBuffering | PsError

text \<open>
  \<open>Role\<close> is a numeric enum, and role numbers arrive from clients unchecked (a promotion request
  carries one), so a role is an integer and the members are named constants.
\<close>

type_synonym role = int

abbreviation Administrator :: role where "Administrator \<equiv> 4"
abbreviation Moderator :: role where "Moderator \<equiv> 3"
abbreviation TrustedUser :: role where "TrustedUser \<equiv> 2"
abbreviation RegisteredUser :: role where "RegisteredUser \<equiv> 1"
abbreviation UnregisteredUser :: role where "UnregisteredUser \<equiv> 0"
abbreviation Owner :: role where "Owner \<equiv> - 1"

definition all_roles :: "role list" where
  "all_roles = [Administrator, Moderator, TrustedUser, RegisteredUser, UnregisteredUser, Owner]"

type_synonym clientId = string
type_synonym authToken = string

section \<open>Videos\<close>

record videoId =
  vi_service :: string
  vi_id :: string

text \<open>
  \<open>Video\<close> and \<open>QueueItem\<close> are structurally interchangeable in the code; one record carries the
  optional metadata and the queue extras.
\<close>

record video =
  v_service :: string
  v_id :: string
  v_title :: "string option"
  v_description :: "string option"
  v_length :: "rat option"
  v_thumbnail :: "string option"
  v_mime :: "string option"
  v_highlight :: bool
  v_hls_url :: "string option"
  v_dash_url :: "string option"
  v_src_url :: "string option"
  v_subtitleUrl :: "string option"
  v_startAt :: "rat option"
  v_endAt :: "rat option"

type_synonym queueItem = video

text \<open>
  \<open>QueueItemExtras\<close> is used as a patch for \<open>Object.assign\<close>, which distinguishes an absent key
  (\<open>None\<close>) from a key present with the value \<open>undefined\<close> (\<open>Some None\<close>).
\<close>

record queueItemExtras =
  qe_startAt :: "rat option option"
  qe_endAt :: "rat option option"
  qe_subtitleUrl :: "string option option"

record videoAdd =
  va_service :: string
  va_id :: string
  va_startAt :: "rat option"
  va_endAt :: "rat option"
  va_subtitleUrl :: "string option"

definition videoId_of :: "video \<Rightarrow> videoId" where
  "videoId_of v = \<lparr>vi_service = v_service v, vi_id = v_id v\<rparr>"

definition videoAdd_id :: "videoAdd \<Rightarrow> videoId" where
  "videoAdd_id v = \<lparr>vi_service = va_service v, vi_id = va_id v\<rparr>"

definition same_video :: "videoId \<Rightarrow> video \<Rightarrow> bool" where
  "same_video vid item \<longleftrightarrow> v_service item = vi_service vid \<and> v_id item = vi_id vid"

lemma same_video_iff: "same_video vid item \<longleftrightarrow> videoId_of item = vid"
  by (cases vid) (auto simp: same_video_def videoId_of_def)

definition bare_video :: "string \<Rightarrow> string \<Rightarrow> video" where
  "bare_video s i = \<lparr>v_service = s, v_id = i, v_title = None, v_description = None,
     v_length = None, v_thumbnail = None, v_mime = None, v_highlight = False, v_hls_url = None,
     v_dash_url = None, v_src_url = None, v_subtitleUrl = None, v_startAt = None, v_endAt = None\<rparr>"

definition ALL_VIDEO_SERVICES :: "string list" where
  "ALL_VIDEO_SERVICES =
    [''youtube'', ''vimeo'', ''direct'', ''hls'', ''dash'', ''tubi'', ''reddit'', ''googledrive'',
     ''peertube'', ''pluto'', ''invidious'', ''odysee'']"

definition ALL_SKIP_CATEGORIES :: "string list" where
  "ALL_SKIP_CATEGORIES =
    [''sponsor'', ''intro'', ''outro'', ''interaction'', ''selfpromo'', ''music_offtopic'', ''preview'']"

text \<open>A Sponsorblock segment, as far as the room reads it.\<close>

record segment =
  sg_startTime :: rat
  sg_endTime :: rat
  sg_category :: string

section \<open>Users and clients\<close>

record user =
  u_id :: int
  u_username :: string
  u_email :: "string option"
  u_discordId :: "string option"

record clientInfo =
  ci_id :: clientId
  ci_username :: "string option"
  ci_user_id :: "int option"
  ci_status :: "playerStatus option"

record roomUserInfo =
  ui_id :: clientId
  ui_name :: string
  ui_isLoggedIn :: bool
  ui_status :: playerStatus
  ui_role :: role

record roomEventContext =
  ec_video :: "video option"
  ec_videos :: "video list option"
  ec_prevPosition :: "rat option"
  ec_queueIdx :: "int option"
  ec_user :: "roomUserInfo option"

definition no_context :: roomEventContext where
  "no_context = \<lparr>ec_video = None, ec_videos = None, ec_prevPosition = None, ec_queueIdx = None,
     ec_user = None\<rparr>"

text \<open>\<open>SessionInfo\<close> of \<open>server/auth/tokens.ts\<close>.\<close>

datatype sessionInfo = LoggedOut string | LoggedIn int

section \<open>Unload reasons and room names\<close>

datatype unloadReason = Keepalive | Admin | Commanded | Shutdown

text \<open>\<open>/^[a-z0-9_-]+$/i\<close>\<close>

definition room_name_char :: "char \<Rightarrow> bool" where
  "room_name_char c \<longleftrightarrow> is_alnum c \<or> c = CHR ''_'' \<or> c = CHR ''-''"

definition ROOM_NAME_REGEX :: "string \<Rightarrow> bool" where
  "ROOM_NAME_REGEX s \<longleftrightarrow> s \<noteq> [] \<and> list_all room_name_char s"

end
