(* ===== verification/Exceptions.thy ===== *)
theory Exceptions
  imports Ott_Types
begin

text \<open>
  Every class of \<open>common/exceptions.ts\<close> and \<open>server/exceptions.ts\<close> is a constructor of \<open>exn\<close>,
  with the constructor arguments that reach its message, and so is \<open>M3u8ParseError\<close> of
  \<open>server/services/hls.ts\<close>; \<open>JsError\<close> and \<open>JsTypeError\<close> are the plain errors the runtime and the code
  throw, \<open>AxiosError\<close> those of the HTTP client. \<open>exn_name\<close> and \<open>exn_message\<close> are the \<open>name\<close> and
  \<open>message\<close> a handler sees, \<open>is_ott_exception\<close> is \<open>instanceof OttException\<close>.
\<close>

datatype exn =
    OttException string
  | PermissionDeniedException string
  | InvalidRoleException role
  | InvalidTokenException
  | UnsupportedServiceException string string
  | OdyseeUnavailableVideo "string option"
  | UpstreamInvidiousException string "int option"
  | InvalidAddPreviewInputException int
  | FfprobeTimeoutError
  | OutOfQuotaException string
  | InvalidVideoIdException string string
  | ServiceLinkParseException string string
  | FeatureDisabledException string
  | UnsupportedMimeTypeException string
  | LocalFileException
  | MissingMetadataException "string option"
  | IncompleteServiceAdapterException string
  | ImpossiblePromotionException
  | RoomNotFoundException string
  | RoomAlreadyLoadedException string
  | RoomNameTakenException string
  | VideoAlreadyQueuedException
  | VideoNotFoundException
  | BadApiArgumentException string string
  | UnsupportedVideoType string
  | UnsupportedSubtitleType
  | ClientNotFoundInRoomException string
  | LengthOutOfRangeException string "int option" "int option"
  | MissingToken
  | NoEmail
  | InvalidVerifyKey
  | UserNotFound
  | M3u8ParseError string
  | AxiosError string
  | JsError string
  | JsTypeError string

text \<open>
  \<open>FILE_EXTENSION_PATH_REGEX\<close> is \<open>/\/*\.([a-z0-9])$/i\<close>: a dot and exactly one alphanumeric
  character at the end of the path.
\<close>

definition file_extension_path :: "string \<Rightarrow> bool" where
  "file_extension_path path \<longleftrightarrow> (case rev path of c # d # _ \<Rightarrow> is_alnum c \<and> d = CHR ''.'' | _ \<Rightarrow> False)"

text \<open>
  The second argument of \<open>UnsupportedServiceException\<close> is the \<open>pathname\<close> that the WHATWG parser
  (not part of the repository) finds in the URL.
\<close>

definition unsupported_service_message :: "string \<Rightarrow> string \<Rightarrow> string" where
  "unsupported_service_message url pathname =
    (if pathname \<noteq> [] \<and> file_extension_path (hd (split_on CHR ''?'' pathname))
     then ''If this is a direct link to a video file, please open a '' @ quoted ''service support request''
       @ '' issue on github, so we can see if this file format works. Otherwise, '' @ quoted url
       @ '' is not a valid URL for any supported service.''
     else quoted url @ '' is not a valid URL for any supported service.'')"

definition odysee_message :: "string option \<Rightarrow> string" where
  "odysee_message m = (case m of
      Some s \<Rightarrow> (if nonblank s then s else ''This video is not available to us to play.'')
    | None \<Rightarrow> ''This video is not available to us to play.'')"

definition invidious_status :: "int option \<Rightarrow> int" where
  "invidious_status st = (case st of Some n \<Rightarrow> (if 400 \<le> n \<and> n \<le> 599 then n else 502) | None \<Rightarrow> 502)"

definition invidious_code :: "int option \<Rightarrow> string" where
  "invidious_code st = (if st = Some 429 then ''UPSTREAM_RATE_LIMITED'' else ''UPSTREAM_INVIDIOUS_ERROR'')"

definition invidious_message :: "int option \<Rightarrow> string" where
  "invidious_message st =
    (if st = Some 429
     then ''The video provider is rate limiting requests right now. Please try again later or choose another instance.''
     else ''The video provider returned an error''
       @ (if truthy_num st then '' (HTTP '' @ show_int (nullish st 0) @ '')'' else '''')
       @ ''. Please try again later.'')"

definition length_range_message :: "string \<Rightarrow> int option \<Rightarrow> int option \<Rightarrow> string" where
  "length_range_message thing mn mx = (case (mn, mx) of
      (Some a, Some b) \<Rightarrow> thing @ '' must be between '' @ show_int a @ '' and '' @ show_int b @ ''.''
    | (None, Some b) \<Rightarrow> thing @ '' must be less than or equal to '' @ show_int b @ ''.''
    | (Some a, None) \<Rightarrow> thing @ '' must be greater than or equal to '' @ show_int a @ ''.''
    | (None, None) \<Rightarrow> ''LengthOutOfRangeException'')"

definition common_exn_message :: "exn \<Rightarrow> string" where
  "common_exn_message e = (case e of
      OttException m \<Rightarrow> m
    | PermissionDeniedException p \<Rightarrow> ''Permission denied: '' @ p
    | InvalidRoleException r \<Rightarrow> ''Role '' @ show_int r @ '' (type: number) is not valid.''
    | InvalidTokenException \<Rightarrow> ''Invalid or missing token.''
    | _ \<Rightarrow> '''')"

definition media_exn_message :: "exn \<Rightarrow> string" where
  "media_exn_message e = (case e of
      UnsupportedServiceException url path \<Rightarrow> unsupported_service_message url path
    | OdyseeUnavailableVideo m \<Rightarrow> odysee_message m
    | UpstreamInvidiousException host st \<Rightarrow> invidious_message st
    | InvalidAddPreviewInputException n \<Rightarrow> ''Your search query must at least '' @ show_int n
     @ '' characters, or supply a Youtube video, playlist, or channel link.''
    | FfprobeTimeoutError \<Rightarrow> ''The provided direct file took too long to probe for metadata. Please try another file.''
    | OutOfQuotaException service \<Rightarrow> (if service = ''youtube''
      then ''We don't have enough Youtube API quota to complete the request. We currently have a limit of 50,000 quota per day.''
      else if service = ''googledrive''
      then ''We don't have enough Google Drive API quota to complete the request.''
      else ''We don't have enough API quota to complete the request. Try again later.'')
    | InvalidVideoIdException service i \<Rightarrow> dquote @ i @ '' is an invalid '' @ service @ '' video ID.'' @ dquote
    | ServiceLinkParseException service url \<Rightarrow> service @ '': failed to parse url: '' @ url
    | FeatureDisabledException reason \<Rightarrow> ''Sorry, this feature is disabled: '' @ reason
    | UnsupportedMimeTypeException mime \<Rightarrow> (if starts_with ''video/'' mime
      then ''Files that are '' @ mime @ '' are not supported. Mp4 videos work the best.''
      else ''The requested resource was not actually a video, it was a '' @ mime)
    | LocalFileException \<Rightarrow> ''The video URL provided references a local file. It is not possible to play videos on your computer, nor files located on the server. Videos must be hosted somewhere all users in the room can access.''
    | MissingMetadataException m \<Rightarrow> nullish m ''The video provided is missing metadata required to let playback work correctly (probably length). For best results, reencode the video as an mp4.''
    | IncompleteServiceAdapterException m \<Rightarrow> m
    | _ \<Rightarrow> common_exn_message e)"

definition exn_message :: "exn \<Rightarrow> string" where
  "exn_message e = (case e of
      ImpossiblePromotionException \<Rightarrow> ''Can't promote/demote unregistered user''
    | RoomNotFoundException n \<Rightarrow> ''The room '' @ quoted n @ '' could not be found.''
    | RoomAlreadyLoadedException n \<Rightarrow> ''The room '' @ quoted n @ '' is already loaded.''
    | RoomNameTakenException n \<Rightarrow> ''The room '' @ quoted n @ '' is taken.''
    | VideoAlreadyQueuedException \<Rightarrow> ''Video(s) are already in the queue''
    | VideoNotFoundException \<Rightarrow> ''Video not found.''
    | BadApiArgumentException arg reason \<Rightarrow> ''Bad argument: '' @ arg @ '': '' @ reason
    | UnsupportedVideoType t \<Rightarrow> ''Unsupported video type: '' @ t
    | UnsupportedSubtitleType \<Rightarrow> ''Subtitle URL must end with .vtt''
    | ClientNotFoundInRoomException n \<Rightarrow> ''The server was unable to find a client in the room '' @ quoted n
     @ '' associated with the session. This might mean that your browser isn't saving cookies, try refreshing. If you aren't connected to the room, reconnect to the room and try again. This could also mean that the room does not exist at all.''
    | LengthOutOfRangeException thing mn mx \<Rightarrow> length_range_message thing mn mx
    | MissingToken \<Rightarrow> ''Missing token''
    | NoEmail \<Rightarrow> ''The account does not have an email address.''
    | InvalidVerifyKey \<Rightarrow> ''Invalid verify key''
    | UserNotFound \<Rightarrow> ''User not found''
    | M3u8ParseError m \<Rightarrow> m
    | AxiosError m \<Rightarrow> m
    | JsError m \<Rightarrow> m
    | JsTypeError m \<Rightarrow> m
    | _ \<Rightarrow> media_exn_message e)"

text \<open>A class that sets no \<open>name\<close> inherits \<open>Error\<close>'s.\<close>

primrec exn_name :: "exn \<Rightarrow> string" where
  "exn_name (OttException a) = ''Error''"
| "exn_name (PermissionDeniedException a) = ''PermissionDeniedException''"
| "exn_name (InvalidRoleException a) = ''InvalidRoleException''"
| "exn_name InvalidTokenException = ''InvalidTokenException''"
| "exn_name (UnsupportedServiceException a b) = ''UnsupportedServiceException''"
| "exn_name (OdyseeUnavailableVideo a) = ''OdyseeUnavailableVideo''"
| "exn_name (UpstreamInvidiousException a b) = ''UpstreamInvidiousException''"
| "exn_name (InvalidAddPreviewInputException a) = ''InvalidAddPreviewInputException''"
| "exn_name FfprobeTimeoutError = ''FfprobeTimeoutError''"
| "exn_name (OutOfQuotaException a) = ''OutOfQuotaException''"
| "exn_name (InvalidVideoIdException a b) = ''InvalidVideoIdException''"
| "exn_name (ServiceLinkParseException a b) = ''ServiceLinkParseException''"
| "exn_name (FeatureDisabledException a) = ''FeatureDisabledException''"
| "exn_name (UnsupportedMimeTypeException a) = ''UnsupportedMimeTypeException''"
| "exn_name LocalFileException = ''LocalFileException''"
| "exn_name (MissingMetadataException a) = ''MissingMetadataException''"
| "exn_name (IncompleteServiceAdapterException a) = ''Error''"
| "exn_name ImpossiblePromotionException = ''ImpossiblePromotionException''"
| "exn_name (RoomNotFoundException a) = ''RoomNotFoundException''"
| "exn_name (RoomAlreadyLoadedException a) = ''RoomAlreadyLoadedException''"
| "exn_name (RoomNameTakenException a) = ''RoomNameTakenException''"
| "exn_name VideoAlreadyQueuedException = ''VideoAlreadyQueuedException''"
| "exn_name VideoNotFoundException = ''VideoNotFoundException''"
| "exn_name (BadApiArgumentException a b) = ''BadApiArgumentException''"
| "exn_name (UnsupportedVideoType a) = ''UnsupportedVideoType''"
| "exn_name UnsupportedSubtitleType = ''UnsupportedSubtitleType''"
| "exn_name (ClientNotFoundInRoomException a) = ''ClientNotFoundInRoomException''"
| "exn_name (LengthOutOfRangeException a b c) = ''LengthOutOfRangeException''"
| "exn_name MissingToken = ''MissingToken''"
| "exn_name NoEmail = ''NoEmail''"
| "exn_name InvalidVerifyKey = ''InvalidVerifyKey''"
| "exn_name UserNotFound = ''UserNotFound''"
| "exn_name (M3u8ParseError a) = ''M3u8ParseError''"
| "exn_name (AxiosError a) = ''AxiosError''"
| "exn_name (JsError a) = ''Error''"
| "exn_name (JsTypeError a) = ''TypeError''"

definition is_ott_exception :: "exn \<Rightarrow> bool" where
  "is_ott_exception e = (case e of
      UpstreamInvidiousException _ _ \<Rightarrow> False
    | AxiosError _ \<Rightarrow> False
    | JsError _ \<Rightarrow> False
    | JsTypeError _ \<Rightarrow> False
    | _ \<Rightarrow> True)"

text \<open>The \<open>status\<close> property of the classes that carry one for the HTTP layer.\<close>

definition exn_status :: "exn \<Rightarrow> int option" where
  "exn_status e = (case e of
      OdyseeUnavailableVideo _ \<Rightarrow> Some 401
    | UpstreamInvidiousException host st \<Rightarrow> Some (invidious_status st)
    | FfprobeTimeoutError \<Rightarrow> Some 408
    | _ \<Rightarrow> None)"

lemma exn_status_is_http_error:
  "exn_status e = Some n \<Longrightarrow> 400 \<le> n \<and> n \<le> 599"
  by (cases e) (auto simp: exn_status_def invidious_status_def split: option.splits if_splits)

lemma rate_limit_only_on_429:
  "invidious_code st = ''UPSTREAM_RATE_LIMITED'' \<longleftrightarrow> st = Some 429"
  by (simp add: invidious_code_def)

end
