(* ===== verification/Permissions.thy ===== *)
theory Permissions
  imports Exceptions "HOL-Library.Word"
begin

text \<open>
  \<open>common/permissions.ts\<close>: the permission table, the parser from permission names to grant masks,
  and the \<open>Grants\<close> class with its inheritance between roles. A grant mask is a 32-bit word: every
  mask goes through JavaScript's bitwise operators, which convert to 32-bit integers. \<open>Grants\<close> is
  its one field \<open>masks\<close>, a \<open>Map\<close> from roles to masks; methods that throw return \<open>exn + grants\<close>.
\<close>

unbundle bit_operations_syntax

named_theorems perm_simps \<open>the grants operations on lookups\<close>

type_synonym grantMask = "32 word"
type_synonym permissionName = string
type_synonym grants = "(role, grantMask) js_map"

section \<open>The permission table\<close>

record permission =
  p_name :: permissionName
  p_mask :: grantMask
  p_minRole :: role

definition mk_perm :: "permissionName \<Rightarrow> nat \<Rightarrow> role \<Rightarrow> permission" where
  "mk_perm n k r = \<lparr>p_name = n, p_mask = push_bit k 1, p_minRole = r\<rparr>"

definition PERMISSIONS :: "permission list" where
  "PERMISSIONS = [
    mk_perm ''playback.play-pause'' 0 UnregisteredUser,
    mk_perm ''playback.skip'' 1 UnregisteredUser,
    mk_perm ''playback.seek'' 2 UnregisteredUser,
    mk_perm ''manage-queue.add'' 3 UnregisteredUser,
    mk_perm ''manage-queue.remove'' 4 UnregisteredUser,
    mk_perm ''manage-queue.order'' 5 UnregisteredUser,
    mk_perm ''manage-queue.vote'' 6 UnregisteredUser,
    mk_perm ''chat'' 7 UnregisteredUser,
    mk_perm ''configure-room.set-title'' 8 UnregisteredUser,
    mk_perm ''configure-room.set-description'' 9 UnregisteredUser,
    mk_perm ''configure-room.set-visibility'' 10 UnregisteredUser,
    mk_perm ''configure-room.set-queue-mode'' 11 UnregisteredUser,
    mk_perm ''configure-room.set-permissions.for-moderator'' 12 Administrator,
    mk_perm ''configure-room.set-permissions.for-trusted-users'' 13 Moderator,
    mk_perm ''configure-room.set-permissions.for-all-registered-users'' 14 TrustedUser,
    mk_perm ''configure-room.set-permissions.for-all-unregistered-users'' 15 RegisteredUser,
    mk_perm ''manage-users.promote-admin'' 16 Administrator,
    mk_perm ''manage-users.demote-admin'' 17 Administrator,
    mk_perm ''manage-users.promote-moderator'' 18 Moderator,
    mk_perm ''manage-users.demote-moderator'' 19 Moderator,
    mk_perm ''manage-users.promote-trusted-user'' 20 TrustedUser,
    mk_perm ''manage-users.demote-trusted-user'' 21 TrustedUser,
    mk_perm ''configure-room.other'' 22 UnregisteredUser,
    mk_perm ''playback.speed'' 23 UnregisteredUser,
    mk_perm ''manage-users.kick'' 24 TrustedUser,
    mk_perm ''manage-queue.play-now'' 25 UnregisteredUser,
    mk_perm ''manage-queue.edit'' 26 UnregisteredUser]"

definition ROLE_NAMES :: "(role \<times> string) list" where
  "ROLE_NAMES = [(Administrator, ''admin''), (Moderator, ''mod''), (TrustedUser, ''trusted''),
     (RegisteredUser, ''registered''), (UnregisteredUser, ''unregistered''), (Owner, ''owner'')]"

definition ROLE_DISPLAY_NAMES :: "(role \<times> string) list" where
  "ROLE_DISPLAY_NAMES = [(Administrator, ''Administrator''), (Moderator, ''Moderator''),
     (TrustedUser, ''Trusted User''), (RegisteredUser, ''Registered User''),
     (UnregisteredUser, ''Unregistered User''), (Owner, ''Owner'')]"

text \<open>
  \<open>permMaskMap\<close> has one entry per permission, because the names of the table are distinct, so
  iterating it is iterating the table.
\<close>

fun or_masks :: "permission list \<Rightarrow> grantMask" where
  "or_masks [] = 0"
| "or_masks (p # ps) = p_mask p OR or_masks ps"

definition perm_matches :: "permissionName \<Rightarrow> permission \<Rightarrow> bool" where
  "perm_matches perm p \<longleftrightarrow> starts_with perm (p_name p) \<or> perm = ''*''"

fun parseIntoGrantMask :: "permissionName list \<Rightarrow> grantMask" where
  "parseIntoGrantMask [] = 0"
| "parseIntoGrantMask (perm # perms) =
     or_masks (filter (perm_matches perm) PERMISSIONS) OR parseIntoGrantMask perms"

definition getValidationMask :: "role \<Rightarrow> grantMask" where
  "getValidationMask role =
    (let masks = filter (\<lambda>p. p_minRole p \<le> role) PERMISSIONS
     in if masks = [] then parseIntoGrantMask [''*''] else or_masks masks)"

definition isRoleValid :: "role \<Rightarrow> bool" where
  "isRoleValid role \<longleftrightarrow> - 1 \<le> role \<and> role \<le> 4"

section \<open>Grants\<close>

definition getMask :: "grants \<Rightarrow> role \<Rightarrow> grantMask option" where
  "getMask g role = map_of g role"

text \<open>\<open>undefined\<close> in a bitwise operation is zero.\<close>

definition mask_num :: "grantMask option \<Rightarrow> grantMask" where
  "mask_num m = (case m of None \<Rightarrow> 0 | Some w \<Rightarrow> w)"

definition inherited_roles :: "role list" where
  "inherited_roles = [UnregisteredUser, RegisteredUser, TrustedUser, Moderator, Administrator]"

fun inherit_from :: "grantMask \<Rightarrow> role list \<Rightarrow> grants \<Rightarrow> grants" where
  "inherit_from fullmask [] g = g"
| "inherit_from fullmask (i # is) g =
     (let fullmask' = fullmask OR mask_num (getMask g i)
      in inherit_from fullmask' is (AList.update i fullmask' g))"

definition processInheiritance :: "grants \<Rightarrow> grants" where
  "processInheiritance g = inherit_from 0 inherited_roles g"

definition setRoleGrants :: "role \<Rightarrow> grantMask \<Rightarrow> grants \<Rightarrow> exn + grants" where
  "setRoleGrants role permissions g =
    (if \<not> isRoleValid role then Inl (InvalidRoleException role)
     else Inr (processInheiritance (AList.update role (permissions AND getValidationMask role) g)))"

definition setRoleGrantNames :: "role \<Rightarrow> permissionName list \<Rightarrow> grants \<Rightarrow> exn + grants" where
  "setRoleGrantNames role perms g = setRoleGrants role (parseIntoGrantMask perms) g"

text \<open>
  \<open>setAllGrants\<close> on a \<open>Map\<close>, a \<open>Grants\<close> or an array of pairs: entries with a falsy mask are
  skipped. The deprecated object form sets every own entry, zero masks included.
\<close>

fun set_map_grants :: "(role \<times> grantMask) list \<Rightarrow> grants \<Rightarrow> exn + grants" where
  "set_map_grants [] g = Inr g"
| "set_map_grants ((role, m) # es) g =
     (if m = 0 then set_map_grants es g
      else (case setRoleGrants role m g of Inl e \<Rightarrow> Inl e | Inr g' \<Rightarrow> set_map_grants es g'))"

definition setAllGrants :: "(role \<times> grantMask) list \<Rightarrow> exn + grants" where
  "setAllGrants entries = set_map_grants (js_map_of_entries entries []) []"

fun set_object_grants :: "(role \<times> grantMask) list \<Rightarrow> grants \<Rightarrow> exn + grants" where
  "set_object_grants [] g = Inr g"
| "set_object_grants ((role, m) # es) g =
     (case setRoleGrants role m g of Inl e \<Rightarrow> Inl e | Inr g' \<Rightarrow> set_object_grants es g')"

text \<open>The last two steps of the constructor: administrators and owners get every permission.\<close>

definition force_full :: "grants \<Rightarrow> exn + grants" where
  "force_full g = (case setRoleGrantNames Administrator [''*''] g of Inl e \<Rightarrow> Inl e
     | Inr g' \<Rightarrow> setRoleGrantNames Owner [''*''] g')"

definition newGrants :: "(role \<times> grantMask) list \<Rightarrow> exn + grants" where
  "newGrants entries = (case setAllGrants entries of Inl e \<Rightarrow> Inl e | Inr g \<Rightarrow> force_full g)"

text \<open>
  The object literal of \<open>defaultPermissions\<close> in the order in which \<open>for (const r in grants)\<close>
  visits its keys: the array-index keys ascending, then the string key \<open>"-1"\<close>.
\<close>

definition default_entries :: "(role \<times> grantMask) list" where
  "default_entries = [
    (UnregisteredUser, parseIntoGrantMask [''playback'', ''manage-queue'', ''chat'',
       ''configure-room.set-title'', ''configure-room.set-description'',
       ''configure-room.set-visibility'', ''configure-room.set-queue-mode'',
       ''configure-room.other'']),
    (RegisteredUser, parseIntoGrantMask []),
    (TrustedUser, parseIntoGrantMask []),
    (Moderator, parseIntoGrantMask [''manage-users.promote-trusted-user'',
       ''manage-users.demote-trusted-user'', ''manage-users.kick'']),
    (Administrator, parseIntoGrantMask [''*'']),
    (Owner, parseIntoGrantMask [''*''])]"

definition newObjectGrants :: "(role \<times> grantMask) list \<Rightarrow> exn + grants" where
  "newObjectGrants entries =
    (case set_object_grants entries [] of Inl e \<Rightarrow> Inl e | Inr g \<Rightarrow> force_full g)"

text \<open>
  \<open>defaultPermissions()\<close> is itself a \<open>new Grants(...)\<close>; the constructor without an argument copies
  its masks through \<open>setAllGrants\<close>.
\<close>

definition defaultPermissions :: "exn + grants" where
  "defaultPermissions = newObjectGrants default_entries"

definition newDefaultGrants :: "exn + grants" where
  "newDefaultGrants = (case defaultPermissions of Inl e \<Rightarrow> Inl e | Inr d \<Rightarrow> newGrants d)"

definition granted_mask :: "grants \<Rightarrow> role \<Rightarrow> grantMask \<Rightarrow> bool" where
  "granted_mask g role checkmask \<longleftrightarrow> mask_num (getMask g role) AND checkmask = checkmask"

definition granted :: "grants \<Rightarrow> role \<Rightarrow> permissionName \<Rightarrow> bool" where
  "granted g role permission \<longleftrightarrow> granted_mask g role (parseIntoGrantMask [permission])"

definition check :: "grants \<Rightarrow> role \<Rightarrow> permissionName \<Rightarrow> exn + unit" where
  "check g role permission =
    (if granted g role permission then Inr () else Inl (PermissionDeniedException permission))"

definition getRoles :: "grants \<Rightarrow> role list" where
  "getRoles g = map fst g"

definition isEmpty :: "grants \<Rightarrow> bool" where
  "isEmpty g \<longleftrightarrow> g = []"

definition deleteRole :: "role \<Rightarrow> grants \<Rightarrow> grants" where
  "deleteRole role g = AList.delete role g"

definition filterRoles :: "role list \<Rightarrow> grants \<Rightarrow> grants" where
  "filterRoles roles g = fold deleteRole (filter (\<lambda>r. r \<notin> set roles) (getRoles g)) g"

text \<open>
  \<open>serialize\<close> and \<open>toJSON\<close> give the entries; \<open>JSON.stringify\<close> and \<open>JSON.parse\<close> are inverse on
  arrays of integer pairs, so the text between them is left out.
\<close>

definition toJSON :: "grants \<Rightarrow> (role \<times> grantMask) list" where
  "toJSON g = g"

definition deserialize :: "(role \<times> grantMask) list \<Rightarrow> exn + grants" where
  "deserialize entries = (case setAllGrants entries of Inl e \<Rightarrow> Inl e
     | Inr g \<Rightarrow> setRoleGrantNames Owner [''*''] g)"

section \<open>Masks as sets of bits\<close>

definition mask_le :: "grantMask \<Rightarrow> grantMask \<Rightarrow> bool" where
  "mask_le a b \<longleftrightarrow> a OR b = b"

lemma mask_le_iff_bits: "mask_le a b \<longleftrightarrow> (\<forall>n. bit a n \<longrightarrow> bit b n)"
proof
  assume "mask_le a b"
  then have "bit (a OR b) n = bit b n" for n by (simp add: mask_le_def)
  then show "\<forall>n. bit a n \<longrightarrow> bit b n" by (auto simp: bit_or_iff)
qed (auto simp: mask_le_def bit_eq_iff bit_or_iff)

lemma mask_le_and: "b AND a = a \<longleftrightarrow> mask_le a b"
proof
  assume "b AND a = a"
  then have "bit (b AND a) n = bit a n" for n by simp
  then show "mask_le a b" by (auto simp: mask_le_iff_bits bit_and_iff)
qed (auto simp: mask_le_iff_bits bit_eq_iff bit_and_iff)

lemma mask_le_refl [simp, intro]: "mask_le a a"
  by (simp add: mask_le_def)

lemma mask_le_zero [simp, intro]: "mask_le 0 a"
  by (simp add: mask_le_def)

lemma mask_le_trans: "mask_le a b \<Longrightarrow> mask_le b c \<Longrightarrow> mask_le a c"
  by (simp add: mask_le_iff_bits)

lemma mask_le_or1 [simp, intro]: "mask_le a (a OR b)"
  by (simp add: mask_le_iff_bits bit_or_iff)

lemma mask_le_or2 [simp, intro]: "mask_le b (a OR b)"
  by (simp add: mask_le_iff_bits bit_or_iff)

lemma mask_le_or_iff [simp]: "mask_le (a OR b) c \<longleftrightarrow> mask_le a c \<and> mask_le b c"
  by (auto simp: mask_le_iff_bits bit_or_iff)

lemma mask_le_orI: "mask_le a b \<or> mask_le a c \<Longrightarrow> mask_le a (b OR c)"
  by (auto simp: mask_le_iff_bits bit_or_iff)

lemma mask_le_and1 [simp, intro]: "mask_le (a AND b) a"
  by (simp add: mask_le_iff_bits bit_and_iff)

lemma mask_le_and2 [simp, intro]: "mask_le (a AND b) b"
  by (simp add: mask_le_iff_bits bit_and_iff)

lemma mask_le_antisym: "mask_le a b \<Longrightarrow> mask_le b a \<Longrightarrow> a = b"
  by (auto simp: mask_le_iff_bits bit_eq_iff)

lemma mask_or_absorb: "mask_le a b \<Longrightarrow> a OR b = b"
  by (simp add: mask_le_def)

lemma mask_and_absorb: "mask_le a b \<Longrightarrow> a AND b = a"
  by (auto simp: mask_le_iff_bits bit_eq_iff bit_and_iff)

lemma or_masks_le: "p \<in> set ps \<Longrightarrow> mask_le (p_mask p) (or_masks ps)"
  by (induction ps) (auto intro: mask_le_orI)

lemma or_masks_mono: "set ps \<subseteq> set qs \<Longrightarrow> mask_le (or_masks ps) (or_masks qs)"
  by (induction ps) (auto intro: mask_le_orI or_masks_le)

lemma parse_star [simp]: "parseIntoGrantMask [''*''] = or_masks PERMISSIONS"
  by (simp add: perm_matches_def)

lemma parse_le_all: "mask_le (parseIntoGrantMask perms) (or_masks PERMISSIONS)"
  by (induction perms) (auto intro: or_masks_mono)

text \<open>A role's ceiling grows with the role, and the owner's is everything.\<close>

lemma validation_mono:
  assumes "0 \<le> r" and "r \<le> r'"
  shows "mask_le (getValidationMask r) (getValidationMask r')"
proof -
  have "filter (\<lambda>p. p_minRole p \<le> r) PERMISSIONS \<noteq> []"
    using assms by (auto simp: PERMISSIONS_def mk_perm_def)
  moreover have "filter (\<lambda>p. p_minRole p \<le> r') PERMISSIONS \<noteq> []"
    using assms by (auto simp: PERMISSIONS_def mk_perm_def)
  ultimately show ?thesis
    using assms by (auto simp: getValidationMask_def Let_def intro!: or_masks_mono)
qed

lemma validation_owner: "getValidationMask Owner = or_masks PERMISSIONS"
  by (simp add: getValidationMask_def PERMISSIONS_def mk_perm_def perm_matches_def)

lemma validation_admin: "getValidationMask Administrator = or_masks PERMISSIONS"
  by (simp add: getValidationMask_def PERMISSIONS_def mk_perm_def)

lemma validation_le_all: "mask_le (getValidationMask r) (or_masks PERMISSIONS)"
  by (auto simp: getValidationMask_def Let_def intro: or_masks_mono)

section \<open>Inheritance\<close>

definition role_mask :: "grants \<Rightarrow> role \<Rightarrow> grantMask" where
  "role_mask g r = mask_num (getMask g r)"

lemma getMask_update [perm_simps]:
  "getMask (AList.update r m g) r' = (if r' = r then Some m else getMask g r')"
  by (simp add: getMask_def)

lemma role_mask_update [perm_simps]:
  "role_mask (AList.update r m g) r' = (if r' = r then m else role_mask g r')"
  by (simp add: role_mask_def getMask_update mask_num_def)

lemma role_cases: "isRoleValid r \<longleftrightarrow> r = - 1 \<or> r = 0 \<or> r = 1 \<or> r = 2 \<or> r = 3 \<or> r = 4"
  by (auto simp: isRoleValid_def)

text \<open>What \<open>_processInheiritance\<close> leaves for each role.\<close>

lemma getMask_inherit [perm_simps]:
  "getMask (processInheiritance g) r =
    (if r = 0 then Some (role_mask g 0)
     else if r = 1 then Some (role_mask g 0 OR role_mask g 1)
     else if r = 2 then Some (role_mask g 0 OR role_mask g 1 OR role_mask g 2)
     else if r = 3 then Some (role_mask g 0 OR role_mask g 1 OR role_mask g 2 OR role_mask g 3)
     else if r = 4 then Some (role_mask g 0 OR role_mask g 1 OR role_mask g 2 OR role_mask g 3 OR role_mask g 4)
     else getMask g r)"
  by (simp add: processInheiritance_def inherited_roles_def Let_def getMask_update role_mask_def
      mask_num_def or.assoc)

lemma role_mask_inherit [perm_simps]:
  "role_mask (processInheiritance g) r =
    (if r = 0 then role_mask g 0
     else if r = 1 then role_mask g 0 OR role_mask g 1
     else if r = 2 then role_mask g 0 OR role_mask g 1 OR role_mask g 2
     else if r = 3 then role_mask g 0 OR role_mask g 1 OR role_mask g 2 OR role_mask g 3
     else if r = 4 then role_mask g 0 OR role_mask g 1 OR role_mask g 2 OR role_mask g 3 OR role_mask g 4
     else role_mask g r)"
  by (simp add: role_mask_def [of "processInheiritance g"] getMask_inherit mask_num_def)
     (simp add: role_mask_def mask_num_def)

text \<open>
  A well-formed \<open>Grants\<close>: keys are valid roles without repetition, every non-owner role has a
  mask, no role exceeds its ceiling, and each role has what the role below it has.
\<close>

definition grants_wf :: "grants \<Rightarrow> bool" where
  "grants_wf g \<longleftrightarrow> js_map_wf g \<and> list_all (\<lambda>(r, _). isRoleValid r) g
     \<and> list_all (\<lambda>r. getMask g r \<noteq> None) inherited_roles
     \<and> list_all (\<lambda>r. mask_le (role_mask g r) (getValidationMask r)) inherited_roles
     \<and> list_all (\<lambda>r. mask_le (role_mask g r) (role_mask g (r + 1))) [0, 1, 2, 3]"

text \<open>The part of it that already holds between two calls, before every role has a mask.\<close>

definition grants_bounded :: "grants \<Rightarrow> bool" where
  "grants_bounded g \<longleftrightarrow> js_map_wf g \<and> list_all (\<lambda>(r, _). isRoleValid r) g
     \<and> list_all (\<lambda>r. mask_le (role_mask g r) (getValidationMask r)) inherited_roles"

lemma grants_wf_bounded: "grants_wf g \<Longrightarrow> grants_bounded g"
  by (simp add: grants_wf_def grants_bounded_def)

lemma grants_bounded_Nil [simp]: "grants_bounded []"
  by (simp add: grants_bounded_def role_mask_def getMask_def mask_num_def inherited_roles_def)

lemma list_all_update_key:
  "list_all (\<lambda>(r, _). P r) g \<Longrightarrow> P r \<Longrightarrow> list_all (\<lambda>(r, _). P r) (AList.update r m g)"
  by (induction g) auto

lemma inherit_keys:
  "js_map_wf g \<Longrightarrow> js_map_wf (processInheiritance g)"
  "list_all (\<lambda>(r, _). isRoleValid r) g \<Longrightarrow> list_all (\<lambda>(r, _). isRoleValid r) (processInheiritance g)"
  by (simp_all add: processInheiritance_def inherited_roles_def Let_def list_all_update_key isRoleValid_def)

lemma inherit_wf:
  assumes "grants_bounded g"
  shows "grants_wf (processInheiritance g)"
proof -
  have ceil: "mask_le (role_mask g i) (getValidationMask j)"
    if "i \<in> set inherited_roles" and "i \<le> j" for i j
    using assms that validation_mono [of i j]
    by (auto simp: grants_bounded_def list_all_iff inherited_roles_def intro: mask_le_trans)
  show ?thesis
    using assms ceil
    by (simp add: grants_wf_def grants_bounded_def inherit_keys perm_simps inherited_roles_def)
       (auto intro: mask_le_orI)
qed

lemma set_mask_bounded:
  assumes "grants_bounded g" and "isRoleValid r"
  shows "grants_bounded (AList.update r (m AND getValidationMask r) g)"
  using assms
  by (auto simp: grants_bounded_def list_all_update_key perm_simps inherited_roles_def)

lemma setRoleGrants_wf:
  "grants_bounded g \<Longrightarrow> setRoleGrants r m g = Inr g' \<Longrightarrow> grants_wf g'"
  by (auto simp: setRoleGrants_def intro!: inherit_wf set_mask_bounded split: if_splits)

section \<open>The constructor and its properties\<close>

lemma set_map_grants_bounded:
  "grants_bounded g \<Longrightarrow> set_map_grants es g = Inr g' \<Longrightarrow> grants_bounded g'"
proof (induction es g rule: set_map_grants.induct)
  case (2 r m es g)
  show ?case
  proof (cases "m = 0")
    case False
    with "2.prems" obtain g1 where g1: "setRoleGrants r m g = Inr g1" "set_map_grants es g1 = Inr g'"
      by (auto split: sum.splits)
    with "2.IH"(2) [OF False g1(1)] "2.prems"(1) show ?thesis
      by (auto intro: grants_wf_bounded setRoleGrants_wf)
  qed (use 2 in auto)
qed simp

lemma setAllGrants_bounded: "setAllGrants es = Inr g \<Longrightarrow> grants_bounded g"
  unfolding setAllGrants_def by (rule set_map_grants_bounded [OF grants_bounded_Nil])

lemma force_full_wf:
  "grants_bounded g \<Longrightarrow> force_full g = Inr g' \<Longrightarrow> grants_wf g'"
  by (auto simp: force_full_def setRoleGrantNames_def split: sum.splits
      intro: setRoleGrants_wf grants_wf_bounded)

lemma newGrants_wf: "newGrants es = Inr g \<Longrightarrow> grants_wf g"
  by (auto simp: newGrants_def split: sum.splits intro: force_full_wf setAllGrants_bounded)

lemma set_mask_full [simp]: "or_masks PERMISSIONS AND or_masks PERMISSIONS = or_masks PERMISSIONS"
  by simp

lemma bounded_le_all:
  "grants_bounded g \<Longrightarrow> r \<in> set inherited_roles \<Longrightarrow> mask_le (role_mask g r) (or_masks PERMISSIONS)"
  by (auto simp: grants_bounded_def list_all_iff intro: mask_le_trans validation_le_all)

lemma force_full_eq:
  "force_full g = Inr (processInheiritance (AList.update Owner (or_masks PERMISSIONS)
     (processInheiritance (AList.update Administrator (or_masks PERMISSIONS) g))))"
  by (simp add: force_full_def setRoleGrantNames_def setRoleGrants_def isRoleValid_def
      validation_admin validation_owner del: parseIntoGrantMask.simps)

lemma force_full_masks:
  assumes "grants_bounded g" and "force_full g = Inr g'"
  shows "role_mask g' Administrator = or_masks PERMISSIONS" and "role_mask g' Owner = or_masks PERMISSIONS"
proof -
  have le: "mask_le (role_mask g i) (or_masks PERMISSIONS)" if "i \<in> {0, 1, 2, 3}" for i
    using bounded_le_all [OF assms(1), of i] that by (auto simp: inherited_roles_def)
  have g': "g' = processInheiritance (AList.update Owner (or_masks PERMISSIONS)
     (processInheiritance (AList.update Administrator (or_masks PERMISSIONS) g)))"
    using assms(2) by (simp add: force_full_eq)
  show "role_mask g' Administrator = or_masks PERMISSIONS"
  proof (rule mask_le_antisym)
    show "mask_le (role_mask g' Administrator) (or_masks PERMISSIONS)"
      using le by (simp add: g' perm_simps)
    show "mask_le (or_masks PERMISSIONS) (role_mask g' Administrator)"
      by (simp add: g' perm_simps mask_le_iff_bits bit_or_iff)
  qed
  show "role_mask g' Owner = or_masks PERMISSIONS"
    by (simp add: g' perm_simps)
qed

lemma newGrants_owner: "newGrants es = Inr g \<Longrightarrow> getMask g Owner = Some (or_masks PERMISSIONS)"
  by (auto simp: newGrants_def force_full_eq perm_simps split: sum.splits)

lemma force_full_total: "\<exists>g'. force_full g = Inr g'"
  by (simp add: force_full_eq)

lemma set_map_grants_total:
  "list_all (\<lambda>(r, m). isRoleValid r \<or> m = 0) es \<Longrightarrow> \<exists>g'. set_map_grants es g = Inr g'"
  by (induction es g rule: set_map_grants.induct) (auto simp: setRoleGrants_def)

lemma set_map_grants_Inr_valid:
  "set_map_grants es g = Inr g' \<Longrightarrow> \<not> list_ex (\<lambda>(r, m). \<not> isRoleValid r \<and> m \<noteq> 0) es"
  by (induction es g rule: set_map_grants.induct) (auto simp: setRoleGrants_def split: sum.splits if_splits)

text \<open>A name that matches no permission parses to the empty mask, which every role has.\<close>

lemma unknown_permission_granted:
  "filter (perm_matches p) PERMISSIONS = [] \<Longrightarrow> granted g r p"
  by (simp add: granted_def granted_mask_def)

lemma role_mask_step: "grants_wf g \<Longrightarrow> 0 \<le> r \<Longrightarrow> r \<le> r' \<Longrightarrow> r' \<le> 4 \<Longrightarrow> mask_le (role_mask g r) (role_mask g r')"
proof -
  assume wf: "grants_wf g" and r: "0 \<le> r" "r \<le> r'" "r' \<le> 4"
  have step: "mask_le (role_mask g 0) (role_mask g 1)" "mask_le (role_mask g 1) (role_mask g 2)"
    "mask_le (role_mask g 2) (role_mask g 3)" "mask_le (role_mask g 3) (role_mask g 4)"
    using wf by (simp_all add: grants_wf_def)
  have "r = 0 \<or> r = 1 \<or> r = 2 \<or> r = 3 \<or> r = 4" "r' = 0 \<or> r' = 1 \<or> r' = 2 \<or> r' = 3 \<or> r' = 4"
    using r by auto
  then show ?thesis
    using r(2) step by (elim disjE) (auto intro: mask_le_trans)
qed

lemma granted_iff: "granted g r p \<longleftrightarrow> mask_le (parseIntoGrantMask [p]) (role_mask g r)"
  by (simp add: granted_def granted_mask_def mask_le_and role_mask_def)

lemma bit_or_masks: "bit (or_masks ps) n \<longleftrightarrow> (\<exists>p\<in>set ps. bit (p_mask p) n)"
  by (induction ps) (auto simp: bit_or_iff)

lemma permission_bits: "map p_mask PERMISSIONS = map (\<lambda>k. push_bit k 1) [0..<27]"
  by (simp add: PERMISSIONS_def mk_perm_def upt_rec)

text \<open>Each permission has a bit of its own.\<close>

lemma permission_bit_unique:
  assumes "q \<in> set PERMISSIONS"
  shows "\<exists>n. bit (p_mask q) n \<and> (\<forall>p\<in>set PERMISSIONS. bit (p_mask p) n \<longrightarrow> p = q)"
proof -
  have len: "length PERMISSIONS = 27" by (simp add: PERMISSIONS_def)
  have mk: "p_mask (PERMISSIONS ! k) = push_bit k 1" if "k < 27" for k
    using arg_cong [OF permission_bits, of "\<lambda>xs. xs ! k"] that len by simp
  from assms obtain k where k: "k < 27" "q = PERMISSIONS ! k"
    by (auto simp: in_set_conv_nth len)
  have "bit (p_mask q) k"
    using k mk by (simp add: bit_exp_iff)
  moreover have "p = q" if p: "p \<in> set PERMISSIONS" and b: "bit (p_mask p) k" for p
  proof -
    from p obtain j where j: "j < 27" "p = PERMISSIONS ! j"
      by (auto simp: in_set_conv_nth len)
    with b mk have "j = k" by (auto simp: bit_exp_iff)
    with j k show ?thesis by simp
  qed
  ultimately show ?thesis by blast
qed

lemma ceiling_min_role:
  assumes "q \<in> set PERMISSIONS" and "perm_matches p q" and "0 \<le> r"
    and "mask_le (parseIntoGrantMask [p]) (getValidationMask r)"
  shows "p_minRole q \<le> r"
proof -
  obtain n where n: "bit (p_mask q) n" "\<forall>p\<in>set PERMISSIONS. bit (p_mask p) n \<longrightarrow> p = q"
    using permission_bit_unique [OF assms(1)] by blast
  have ne: "filter (\<lambda>p. p_minRole p \<le> r) PERMISSIONS \<noteq> []"
    using assms(3) by (auto simp: PERMISSIONS_def mk_perm_def)
  have "bit (parseIntoGrantMask [p]) n"
    using assms(1,2) n(1) by (auto simp: bit_or_masks)
  then have "bit (getValidationMask r) n"
    using assms(4) by (simp add: mask_le_iff_bits)
  with ne n(2) show ?thesis
    by (auto simp: getValidationMask_def Let_def bit_or_masks)
qed

section \<open>Serialisation\<close>

lemma js_map_of_entries_distinct:
  "distinct (map fst (m @ es)) \<Longrightarrow> js_map_of_entries es m = m @ es"
proof (induction es m rule: js_map_of_entries.induct)
  case (2 k v es m)
  have "AList.update k v m = m @ [(k, v)]" if "k \<notin> fst ` set m" for m :: "('a \<times> 'b) list"
    using that by (induction m) auto
  with 2 show ?case by simp
qed simp

text \<open>
  Replaying the entries of a well-formed \<open>Grants\<close>: the masks rebuilt so far never exceed the
  originals, and are equal for every role already replayed.
\<close>

definition replays :: "grants \<Rightarrow> role list \<Rightarrow> grants \<Rightarrow> bool" where
  "replays g done cur \<longleftrightarrow> grants_bounded cur
     \<and> (\<forall>i\<in>set inherited_roles. mask_le (role_mask cur i) (role_mask g i))
     \<and> (\<forall>i\<in>set inherited_roles \<inter> set done. role_mask cur i = role_mask g i)"

lemma replay_inherit:
  assumes wf: "grants_wf g" and c: "grants_bounded c"
    and le: "\<forall>i\<in>set inherited_roles. mask_le (role_mask c i) (role_mask g i)"
    and eq: "\<forall>i\<in>set inherited_roles \<inter> D. role_mask c i = role_mask g i"
    and sub: "set ds \<subseteq> D"
  shows "replays g ds (processInheiritance c)"
proof -
  note mono = role_mask_step [OF wf]
  have up: "mask_le (role_mask c i) (role_mask g j)" if "0 \<le> i" "i \<le> j" "j \<le> 4" for i j
  proof -
    have "i \<in> set inherited_roles" using that by (auto simp: inherited_roles_def)
    with le mono [OF that] show ?thesis by (blast intro: mask_le_trans)
  qed
  have all: "mask_le (role_mask (processInheiritance c) i) (role_mask g i)" if "i \<in> set inherited_roles" for i
    using that up by (auto simp: inherited_roles_def perm_simps)
  moreover have "role_mask (processInheiritance c) i = role_mask g i"
    if i: "i \<in> set inherited_roles" "i \<in> D" for i
  proof (rule mask_le_antisym [OF all [OF i(1)]])
    have "mask_le (role_mask c i) (role_mask (processInheiritance c) i)"
      using i(1) by (auto simp: inherited_roles_def perm_simps intro!: mask_le_orI)
    with eq i show "mask_le (role_mask g i) (role_mask (processInheiritance c) i)" by simp
  qed
  ultimately show ?thesis
    using sub c unfolding replays_def by (auto intro: grants_wf_bounded inherit_wf)
qed

lemma replay_step:
  assumes wf: "grants_wf g" and rep: "replays g ds cur" and r: "isRoleValid r"
  shows "replays g (r # ds) (processInheiritance (AList.update r (role_mask g r AND getValidationMask r) cur))"
proof (rule replay_inherit [OF wf, where D = "set (r # ds)"])
  have full: "role_mask g r AND getValidationMask r = role_mask g r" if "r \<in> set inherited_roles"
    using wf that by (auto simp: grants_wf_def list_all_iff mask_and_absorb)
  show "grants_bounded (AList.update r (role_mask g r AND getValidationMask r) cur)"
    using rep r by (simp add: replays_def set_mask_bounded)
  show "\<forall>i\<in>set inherited_roles. mask_le (role_mask (AList.update r (role_mask g r AND getValidationMask r) cur) i)
      (role_mask g i)"
    using rep by (auto simp: replays_def perm_simps)
  show "\<forall>i\<in>set inherited_roles \<inter> set (r # ds).
      role_mask (AList.update r (role_mask g r AND getValidationMask r) cur) i = role_mask g i"
    using rep full by (auto simp: replays_def perm_simps)
qed simp

lemma replay_all:
  assumes wf: "grants_wf g"
  shows "replays g ds cur \<Longrightarrow> list_all (\<lambda>(r, m). isRoleValid r \<and> role_mask g r = m) es
    \<Longrightarrow> \<exists>g'. set_map_grants es cur = Inr g' \<and> replays g (rev (map fst es) @ ds) g'"
proof (induction es arbitrary: ds cur)
  case (Cons rm es)
  obtain r m where rm: "rm = (r, m)" by (cases rm)
  with Cons.prems have r: "isRoleValid r" "role_mask g r = m" by auto
  show ?case
  proof (cases "m = 0")
    case True
    with Cons.prems(1) r have "replays g (r # ds) cur"
      by (auto simp: replays_def intro: mask_le_antisym)
    from Cons.IH [OF this] Cons.prems(2) show ?thesis
      by (auto simp: rm True)
  next
    case False
    from Cons.IH [OF replay_step [OF wf Cons.prems(1) r(1)]] Cons.prems(2) show ?thesis
      using False r by (auto simp: rm setRoleGrants_def)
  qed
qed simp

lemma entries_masks:
  "js_map_wf g \<Longrightarrow> (r, m) \<in> set g \<Longrightarrow> role_mask g r = m"
  by (simp add: role_mask_def getMask_def mask_num_def js_map_wf_def)

lemma setAllGrants_replays:
  assumes "grants_wf g"
  shows "\<exists>g'. setAllGrants (toJSON g) = Inr g' \<and> grants_bounded g'
    \<and> (\<forall>i\<in>set inherited_roles. role_mask g' i = role_mask g i)"
proof -
  have wf: "js_map_wf g" "list_all (\<lambda>(r, _). isRoleValid r) g" using assms by (simp_all add: grants_wf_def)
  then have "list_all (\<lambda>(r, m). isRoleValid r \<and> role_mask g r = m) g"
    by (auto simp: list_all_iff entries_masks)
  moreover have "replays g [] []"
    by (simp add: replays_def role_mask_def getMask_def mask_num_def)
  ultimately obtain g' where "set_map_grants g [] = Inr g'" "replays g (rev (map fst g) @ []) g'"
    using replay_all [OF assms] by blast
  moreover have "i \<in> fst ` set g" if "i \<in> set inherited_roles" for i
    using assms that by (auto simp: grants_wf_def list_all_iff getMask_def map_of_eq_None_iff)
  ultimately show ?thesis
    using wf(1) by (auto simp: replays_def setAllGrants_def toJSON_def js_map_wf_def js_map_of_entries_distinct)
qed

lemma getMask_role_mask:
  "grants_wf g \<Longrightarrow> r \<noteq> Owner \<Longrightarrow> getMask g r = (if r \<in> set inherited_roles then Some (role_mask g r) else None)"
proof -
  assume wf: "grants_wf g" and r: "r \<noteq> Owner"
  have "getMask g r = None" if "\<not> isRoleValid r"
    using wf that by (auto simp: grants_wf_def list_all_iff getMask_def map_of_eq_None_iff)
  moreover have "r \<in> set inherited_roles \<longleftrightarrow> isRoleValid r"
    using r by (auto simp: inherited_roles_def role_cases)
  ultimately show ?thesis
    using wf by (auto simp: grants_wf_def list_all_iff role_mask_def mask_num_def)
qed

lemma inherit_owner: "grants_wf g \<Longrightarrow> i \<in> set inherited_roles \<Longrightarrow>
  role_mask (processInheiritance (AList.update Owner m g)) i = role_mask g i"
proof -
  assume wf: "grants_wf g" and i: "i \<in> set inherited_roles"
  have "replays g inherited_roles (processInheiritance (AList.update Owner (m AND getValidationMask Owner) g))"
    using wf by (intro replay_inherit [where D = UNIV])
      (auto simp: set_mask_bounded grants_wf_bounded isRoleValid_def perm_simps inherited_roles_def)
  with i show ?thesis by (auto simp: replays_def perm_simps inherited_roles_def)
qed


text \<open>
  The masks a room keeps: well-formed, with administrators and owners holding everything. The
  constructor gives such masks, and changing the mask of a lower role keeps them.
\<close>

definition grants_ok :: "grants \<Rightarrow> bool" where
  "grants_ok g \<longleftrightarrow> grants_wf g \<and> role_mask g Administrator = or_masks PERMISSIONS
     \<and> getMask g Owner = Some (or_masks PERMISSIONS)"

lemma newGrants_ok: "newGrants es = Inr g \<Longrightarrow> grants_ok g"
  unfolding grants_ok_def
  by (auto simp: newGrants_wf newGrants_owner newGrants_def split: sum.splits
      intro: force_full_masks setAllGrants_bounded)

lemma setRoleGrants_ok:
  assumes g: "grants_ok g" and role: "0 \<le> role" "role \<le> 3" and set: "setRoleGrants role m g = Inr g'"
  shows "grants_ok g'"
proof -
  have wf: "grants_wf g" and all: "role_mask g 4 = or_masks PERMISSIONS" "getMask g (-1) = Some (or_masks PERMISSIONS)"
    using g by (auto simp: grants_ok_def)
  let ?u = "AList.update role (m AND getValidationMask role) g"
  have g': "g' = processInheiritance ?u" using set by (auto simp: setRoleGrants_def split: if_splits)
  have le: "mask_le (role_mask ?u i) (or_masks PERMISSIONS)" if "i \<in> set inherited_roles" for i
    using set_mask_bounded [OF grants_wf_bounded [OF wf], of role] role that
    by (intro bounded_le_all) (auto simp: isRoleValid_def)
  have "role_mask g' 4 = or_masks PERMISSIONS"
  proof (rule mask_le_antisym)
    show "mask_le (role_mask g' 4) (or_masks PERMISSIONS)"
      using le unfolding g' role_mask_inherit by (simp add: inherited_roles_def)
    have "role_mask ?u 4 = or_masks PERMISSIONS" using role all by (simp add: role_mask_update)
    then show "mask_le (or_masks PERMISSIONS) (role_mask g' 4)"
      unfolding g' role_mask_inherit by (simp add: mask_le_iff_bits bit_or_iff)
  qed
  moreover have "getMask g' (-1) = Some (or_masks PERMISSIONS)"
    using role all by (simp add: g' perm_simps)
  ultimately show ?thesis
    using setRoleGrants_wf [OF grants_wf_bounded [OF wf] set] by (simp add: grants_ok_def)
qed

lemma inherit_same:
  assumes wf: "grants_wf g" and c: "grants_bounded c"
    and eq: "\<forall>i\<in>set inherited_roles. role_mask c i = role_mask g i"
  shows "\<forall>i\<in>set inherited_roles. role_mask (processInheiritance c) i = role_mask g i"
proof -
  have "replays g inherited_roles (processInheiritance c)"
    by (rule replay_inherit [OF wf c, where D = UNIV]) (use eq in auto)
  then show ?thesis by (simp add: replays_def)
qed

text \<open>
  What the constructor makes of entries that carry the masks of the roles up to moderator: it
  completes them to the masks they came from.
\<close>

lemma newGrants_restores:
  assumes g: "grants_ok g" and g1: "setAllGrants es = Inr g1" "grants_bounded g1"
    and same: "\<forall>i\<in>{0, 1, 2, 3}. role_mask g1 i = role_mask g i"
  shows "\<exists>g'. newGrants es = Inr g' \<and> getMask g' = getMask g \<and> grants_ok g'"
proof -
  have wf: "grants_wf g" and all: "role_mask g 4 = or_masks PERMISSIONS" "getMask g (-1) = Some (or_masks PERMISSIONS)"
    using g by (auto simp: grants_ok_def)
  let ?u = "AList.update 4 (or_masks PERMISSIONS) g1"
  have u: "grants_bounded ?u"
    using set_mask_bounded [OF g1(2), of 4 "or_masks PERMISSIONS"]
    by (simp add: isRoleValid_def validation_admin)
  have u2: "grants_bounded (AList.update (-1) (or_masks PERMISSIONS) (processInheiritance ?u))"
    using set_mask_bounded [OF grants_wf_bounded [OF inherit_wf [OF u]], of "-1" "or_masks PERMISSIONS"]
    by (simp add: isRoleValid_def validation_owner)
  have "\<forall>i\<in>set inherited_roles. role_mask (processInheiritance ?u) i = role_mask g i"
    using same all by (intro inherit_same [OF wf u]) (auto simp: role_mask_update inherited_roles_def)
  then have masks: "\<forall>i\<in>set inherited_roles. role_mask (processInheiritance
      (AList.update (-1) (or_masks PERMISSIONS) (processInheiritance ?u))) i = role_mask g i"
    by (intro inherit_same [OF wf u2]) (auto simp: role_mask_update inherited_roles_def)
  obtain g' where g': "newGrants es = Inr g'"
    "g' = processInheiritance (AList.update (-1) (or_masks PERMISSIONS) (processInheiritance ?u))"
    using g1(1) by (simp add: newGrants_def force_full_eq)
  have "getMask g' r = getMask g r" for r
    using all masks [folded g'(2)] newGrants_owner [OF g'(1)]
    by (cases "r = Owner")
       (simp_all add: getMask_role_mask [OF wf] getMask_role_mask [OF newGrants_wf [OF g'(1)]] flip: g'(2))
  with g'(1) newGrants_ok show ?thesis by blast
qed

lemma grants_ok_replay:
  assumes "grants_ok g"
  shows "\<exists>g'. newGrants (toJSON g) = Inr g' \<and> getMask g' = getMask g \<and> grants_ok g'"
proof -
  obtain g1 where g1: "setAllGrants (toJSON g) = Inr g1" "grants_bounded g1"
    "\<forall>i\<in>set inherited_roles. role_mask g1 i = role_mask g i"
    using setAllGrants_replays assms unfolding grants_ok_def by blast
  show ?thesis by (rule newGrants_restores [OF assms g1(1,2)]) (use g1(3) in \<open>auto simp: inherited_roles_def\<close>)
qed

section \<open>Evaluation\<close>

text \<open>The masks of the table, computed once for the concrete instances below and elsewhere.\<close>

lemma all_permissions_mask [simp]: "or_masks PERMISSIONS = 134217727"
  by (simp add: PERMISSIONS_def mk_perm_def)

lemma validation_masks:
  "getValidationMask Owner = 134217727"
  "getValidationMask UnregisteredUser = 113250303"
  "getValidationMask RegisteredUser = 113283071"
  "getValidationMask TrustedUser = 133222399"
  "getValidationMask Moderator = 134017023"
  "getValidationMask Administrator = 134217727"
  by (simp_all add: getValidationMask_def PERMISSIONS_def mk_perm_def perm_matches_def)

lemmas grants_eval = newGrants_def setAllGrants_def setRoleGrants_def isRoleValid_def
  processInheiritance_def inherited_roles_def force_full_eq validation_masks getMask_def mask_num_def Let_def

lemma parse_skip: "parseIntoGrantMask [''playback.skip''] = 2"
  by (simp add: PERMISSIONS_def mk_perm_def perm_matches_def starts_with_def)

section \<open>Properties\<close>

text \<open>
  Permissions are inherited upwards: in any \<open>Grants\<close> the constructor builds, whatever entries
  it is given, a permission granted to a role is granted to every higher role up to administrator.
\<close>

theorem grants_inheritance:
  assumes "newGrants es = Inr g" and "0 \<le> r" and "r \<le> r'" and "r' \<le> 4" and "granted g r p"
  shows "granted g r' p"
  using role_mask_step [OF newGrants_wf [OF assms(1)] assms(2-4)] assms(5)
  unfolding granted_iff by (rule mask_le_trans [rotated])

lemma newGrants_example:
  "newGrants [(UnregisteredUser, 2)] = Inr [(UnregisteredUser, 2), (RegisteredUser, 2), (TrustedUser, 2),
     (Moderator, 2), (Administrator, 134217727), (Owner, 134217727)]"
  by (simp add: grants_eval)

theorem grants_inheritance_witness:
  "granted [(UnregisteredUser, 2), (RegisteredUser, 2), (TrustedUser, 2), (Moderator, 2),
     (Administrator, 134217727), (Owner, 134217727)] Moderator ''playback.skip''"
  by (rule grants_inheritance [OF newGrants_example, of UnregisteredUser])
     (simp_all add: granted_def granted_mask_def parse_skip getMask_def mask_num_def del: parseIntoGrantMask.simps)

text \<open>
  No entry list lifts a role above its ceiling: if a permission name is granted to a role, every
  permission of the table that the name stands for has a minimum role at or below that role.
\<close>

theorem grants_ceiling:
  assumes "newGrants es = Inr g" and "0 \<le> r" and "r \<le> 4" and "granted g r p"
    and "q \<in> set PERMISSIONS" and "perm_matches p q"
  shows "p_minRole q \<le> r"
proof (rule ceiling_min_role [OF assms(5,6,2)])
  have "r \<in> set inherited_roles" using assms by (auto simp: inherited_roles_def)
  then have "mask_le (role_mask g r) (getValidationMask r)"
    using newGrants_wf [OF assms(1)] by (auto simp: grants_wf_def list_all_iff)
  with assms(4) show "mask_le (parseIntoGrantMask [p]) (getValidationMask r)"
    unfolding granted_iff by (rule mask_le_trans)
qed

theorem grants_ceiling_witness:
  "p_minRole (mk_perm ''playback.skip'' 1 UnregisteredUser) \<le> (RegisteredUser :: role)"
  by (rule grants_ceiling [OF newGrants_example, where p = "''playback.skip''"])
     (simp_all add: granted_def granted_mask_def parse_skip getMask_def mask_num_def PERMISSIONS_def mk_perm_def
        perm_matches_def starts_with_def del: parseIntoGrantMask.simps)

text \<open>
  Administrators and owners hold every permission in any \<open>Grants\<close> the constructor builds,
  even when its entries say otherwise.
\<close>

theorem grants_admin_owner_full:
  assumes "newGrants es = Inr g"
  shows "granted g Administrator p \<and> granted g Owner p"
proof -
  from assms obtain g0 where "setAllGrants es = Inr g0" "force_full g0 = Inr g"
    by (auto simp: newGrants_def split: sum.splits)
  from force_full_masks [OF setAllGrants_bounded [OF this(1)] this(2)] show ?thesis
    using parse_le_all [of "[p]"] by (simp add: granted_iff del: parseIntoGrantMask.simps)
qed

theorem grants_admin_owner_full_witness:
  "granted [(UnregisteredUser, 2), (RegisteredUser, 2), (TrustedUser, 2), (Moderator, 2),
     (Administrator, 134217727), (Owner, 134217727)] Administrator ''manage-users.kick''"
  using grants_admin_owner_full [OF newGrants_example] by blast

text \<open>
  C18. Storing grants loses nothing: \<open>deserialize\<close> of what \<open>toJSON\<close> wrote succeeds and gives every
  role the mask it had.
\<close>

theorem grants_roundtrip:
  assumes "newGrants es = Inr g"
  shows "\<exists>g'. deserialize (toJSON g) = Inr g' \<and> getMask g' = getMask g"
proof -
  note wf = newGrants_wf [OF assms]
  obtain g1 where g1: "setAllGrants (toJSON g) = Inr g1" "grants_bounded g1"
    "\<forall>i\<in>set inherited_roles. role_mask g1 i = role_mask g i"
    using setAllGrants_replays [OF wf] by blast
  obtain g' where g': "setRoleGrantNames Owner [''*''] g1 = Inr g'"
    by (simp add: setRoleGrantNames_def setRoleGrants_def isRoleValid_def)
  have wf': "grants_wf g'"
    using setRoleGrants_wf g1(2) g' by (auto simp: setRoleGrantNames_def)
  have eq: "g' = processInheiritance (AList.update Owner (or_masks PERMISSIONS) g1)"
    using g' by (simp add: setRoleGrantNames_def setRoleGrants_def isRoleValid_def validation_owner
        del: parseIntoGrantMask.simps)
  have "replays g inherited_roles g'"
    unfolding eq using g1
    by (intro replay_inherit [OF wf, where D = UNIV])
       (auto simp: perm_simps inherited_roles_def grants_bounded_def list_all_update_key isRoleValid_def)
  then have "role_mask g' i = role_mask g i" if "i \<in> set inherited_roles" for i
    using that by (simp add: replays_def)
  moreover have "getMask g' Owner = getMask g Owner"
    using newGrants_owner [OF assms] by (simp add: eq perm_simps)
  ultimately have "getMask g' r = getMask g r" for r
    by (cases "r = Owner") (simp_all add: getMask_role_mask wf wf')
  with g1(1) g' show ?thesis
    by (auto simp: deserialize_def)
qed

theorem grants_roundtrip_witness:
  "\<exists>g'. deserialize (toJSON [(UnregisteredUser, 2), (RegisteredUser, 2), (TrustedUser, 2), (Moderator, 2),
     (Administrator, 134217727), (Owner, 134217727)]) = Inr g'
     \<and> getMask g' = getMask [(UnregisteredUser, 2), (RegisteredUser, 2), (TrustedUser, 2), (Moderator, 2),
     (Administrator, 134217727), (Owner, 134217727)]"
  by (rule grants_roundtrip [OF newGrants_example])

text \<open>
  The constructor fails exactly on an entry with a non-zero mask for a number that is no role;
  otherwise it builds a well-formed \<open>Grants\<close>.
\<close>

theorem newGrants_total_iff:
  "(\<exists>g. newGrants es = Inr g \<and> grants_wf g) \<longleftrightarrow>
     \<not> list_ex (\<lambda>(r, m). \<not> isRoleValid r \<and> m \<noteq> 0) (js_map_of_entries es [])"
proof
  assume "\<exists>g. newGrants es = Inr g \<and> grants_wf g"
  then obtain g where "set_map_grants (js_map_of_entries es []) [] = Inr g"
    by (auto simp: newGrants_def setAllGrants_def split: sum.splits)
  then show "\<not> list_ex (\<lambda>(r, m). \<not> isRoleValid r \<and> m \<noteq> 0) (js_map_of_entries es [])"
    by (rule set_map_grants_Inr_valid)
next
  assume "\<not> list_ex (\<lambda>(r, m). \<not> isRoleValid r \<and> m \<noteq> 0) (js_map_of_entries es [])"
  then have "list_all (\<lambda>(r, m). isRoleValid r \<or> m = 0) (js_map_of_entries es [])"
    by (auto simp: list_ex_iff list_all_iff)
  then obtain g0 where "setAllGrants es = Inr g0"
    using set_map_grants_total [of "js_map_of_entries es []" "[]"] by (auto simp: setAllGrants_def)
  moreover obtain g where "force_full g0 = Inr g"
    using force_full_total by blast
  ultimately have "newGrants es = Inr g" by (simp add: newGrants_def)
  with newGrants_wf show "\<exists>g. newGrants es = Inr g \<and> grants_wf g" by blast
qed

end
