(* ===== verification/Messages.thy ===== *)
theory Messages
  imports Permissions
begin

text \<open>
  \<open>common/models/messages.ts\<close> and the settings types of \<open>common/models/types.ts\<close>: what clients ask
  of a room, what the server sends back, and who is asking. An optional property is an \<open>option\<close>.
\<close>

section \<open>Settings\<close>

text \<open>\<open>Partial<RoomSettings>\<close>: a property is present or absent.\<close>

record roomSettings =
  st_title :: "string option"
  st_description :: "string option"
  st_visibility :: "visibility option"
  st_queueMode :: "queueMode option"
  st_grants :: "grants option"
  st_autoSkipSegmentCategories :: "string list option"
  st_restoreQueueBehavior :: "behaviorOption option"
  st_enableVoteSkip :: "bool option"

definition no_settings :: roomSettings where
  "no_settings = \<lparr>st_title = None, st_description = None, st_visibility = None, st_queueMode = None,
     st_grants = None, st_autoSkipSegmentCategories = None, st_restoreQueueBehavior = None,
     st_enableVoteSkip = None\<rparr>"

section \<open>Requests\<close>

text \<open>
  The constructors are the members of \<open>RoomRequest\<close>; an undo request carries the event it undoes,
  which carries a request in turn. \<open>SeekRequest None\<close> is a request without a value.
\<close>

datatype roomRequest =
    JoinRequest clientInfo
  | LeaveRequest
  | PlaybackRequest bool
  | SkipRequest
  | SeekRequest "rat option"
  | AddRequest "videoAdd option" "videoAdd list option" "string option"
  | RemoveRequest videoId
  | OrderRequest int int
  | VoteRequest videoId bool
  | PromoteRequest clientId role
  | UpdateUser clientInfo
  | ChatRequest string
  | UndoRequest serverMessageEvent
  | ApplySettingsRequest roomSettings
  | PlayNowRequest videoAdd
  | ShuffleRequest
  | PlaybackSpeedRequest rat
  | RestoreQueueRequest "bool option"
  | KickRequest clientId
  | UpdateQueueItemRequest videoId queueItemExtras
and serverMessageEvent = ServerMessageEvent roomRequest roomUserInfo roomEventContext

primrec event_request :: "serverMessageEvent \<Rightarrow> roomRequest" where
  "event_request (ServerMessageEvent req u c) = req"

primrec event_additional :: "serverMessageEvent \<Rightarrow> roomEventContext" where
  "event_additional (ServerMessageEvent req u c) = c"

text \<open>The numbers of the enum \<open>RoomRequestType\<close>, in the order of its declaration.\<close>

primrec request_type :: "roomRequest \<Rightarrow> nat" where
  "request_type (JoinRequest i) = 0"
| "request_type LeaveRequest = 1"
| "request_type (PlaybackRequest b) = 2"
| "request_type SkipRequest = 3"
| "request_type (SeekRequest v) = 4"
| "request_type (AddRequest v vs u) = 5"
| "request_type (RemoveRequest v) = 6"
| "request_type (OrderRequest i j) = 7"
| "request_type (VoteRequest v a) = 8"
| "request_type (PromoteRequest c r) = 9"
| "request_type (UpdateUser i) = 10"
| "request_type (ChatRequest t) = 11"
| "request_type (UndoRequest e) = 12"
| "request_type (ApplySettingsRequest s) = 13"
| "request_type (PlayNowRequest v) = 14"
| "request_type ShuffleRequest = 15"
| "request_type (PlaybackSpeedRequest s) = 16"
| "request_type (RestoreQueueRequest d) = 17"
| "request_type (KickRequest c) = 18"
| "request_type (UpdateQueueItemRequest v x) = 19"

record roomRequestAuthorization =
  ra_token :: authToken
  ra_clientId :: "clientId option"

record roomRequestContext =
  rc_username :: string
  rc_role :: role
  rc_clientId :: "clientId option"
  rc_auth :: "roomRequestAuthorization option"

section \<open>Messages to clients\<close>

text \<open>\<open>ServerMessageSync\<close>: any subset of the syncable properties.\<close>

record serverMessageSync =
  sy_name :: "string option"
  sy_title :: "string option"
  sy_description :: "string option"
  sy_isTemporary :: "bool option"
  sy_visibility :: "visibility option"
  sy_queueMode :: "queueMode option"
  sy_isPlaying :: "bool option"
  sy_playbackPosition :: "rat option"
  sy_currentSource :: "queueItem option option"
  sy_queue :: "queueItem list option"
  sy_prevQueue :: "queueItem list option option"
  sy_grants :: "grants option"
  sy_playbackSpeed :: "rat option"
  sy_voteCounts :: "(string \<times> nat) list option"
  sy_hasOwner :: "bool option"
  sy_enableVoteSkip :: "bool option"
  sy_votesToSkip :: "clientId list option"
  sy_autoSkipSegmentCategories :: "string list option"
  sy_videoSegments :: "segment list option"
  sy_restoreQueueBehavior :: "behaviorOption option"

definition empty_sync :: serverMessageSync where
  "empty_sync = \<lparr>sy_name = None, sy_title = None, sy_description = None, sy_isTemporary = None,
     sy_visibility = None, sy_queueMode = None, sy_isPlaying = None, sy_playbackPosition = None,
     sy_currentSource = None, sy_queue = None, sy_prevQueue = None, sy_grants = None,
     sy_playbackSpeed = None, sy_voteCounts = None, sy_hasOwner = None, sy_enableVoteSkip = None,
     sy_votesToSkip = None, sy_autoSkipSegmentCategories = None, sy_videoSegments = None,
     sy_restoreQueueBehavior = None\<rparr>"

record partialUserInfo =
  pu_id :: clientId
  pu_name :: "string option"
  pu_isLoggedIn :: "bool option"
  pu_status :: "playerStatus option"
  pu_role :: "role option"

datatype userUpdate =
    UserInit "roomUserInfo list"
  | UserUpdate partialUserInfo
  | UserRemove clientId

definition full_user_info :: "roomUserInfo \<Rightarrow> partialUserInfo" where
  "full_user_info u = \<lparr>pu_id = ui_id u, pu_name = Some (ui_name u), pu_isLoggedIn = Some (ui_isLoggedIn u),
     pu_status = Some (ui_status u), pu_role = Some (ui_role u)\<rparr>"

datatype serverMessage =
    MsgSync serverMessageSync
  | MsgUnload
  | MsgChat roomUserInfo string
  | MsgEvent serverMessageEvent
  | MsgEventCustom string "rat option"
  | MsgAnnouncement string
  | MsgUser userUpdate
  | MsgYou clientId

section \<open>Messages from clients\<close>

text \<open>\<open>ClientNotify\<close> carries its message text; \<open>usernameChanged\<close> is the one the server knows.\<close>

datatype clientMessage =
    ClientKickMe "int option"
  | ClientStatus playerStatus
  | ClientAuth authToken
  | ClientNotify string
  | ClientReq roomRequest

text \<open>\<open>CmdKick\<close> of \<open>server/clientmanager.ts\<close>, the one command a room sends to the client manager.\<close>

datatype clientManagerCommand = CmdKick clientId

end
