(* ===== verification/VideoQueue.thy ===== *)
theory VideoQueue
  imports Messages
begin

text \<open>
  \<open>server/videoqueue.ts\<close> and its base class \<open>server/util/dirtyable.ts\<close>. Every method runs its body
  under one mutex, so a method is one atomic step on the state below. Calling the \<open>onDirty\<close> callback
  is recorded in \<open>vq_notify\<close>; the owner of the queue reacts to it and clears it.
\<close>

named_theorems queue_defs \<open>the definitions of the queue's methods\<close>

record videoQueue =
  vq_items :: "queueItem list"
  vq_dirty :: bool
  vq_notify :: bool

type_synonym 'a queue_call = "(exn, 'a, videoQueue) outcome"

definition markDirty :: "videoQueue \<Rightarrow> videoQueue" where
  "markDirty q = q\<lparr>vq_dirty := True, vq_notify := True\<rparr>"

definition clean :: "videoQueue \<Rightarrow> videoQueue" where
  "clean q = q\<lparr>vq_dirty := False\<rparr>"

text \<open>The constructor drops null and undefined entries.\<close>

definition newVideoQueue :: "queueItem option list \<Rightarrow> videoQueue" where
  "newVideoQueue items =
    \<lparr>vq_items = map the (filter (\<lambda>v. v \<noteq> None) items), vq_dirty = False, vq_notify = False\<rparr>"

definition isAllVideos :: "queueItem option list \<Rightarrow> bool" where
  "isAllVideos items \<longleftrightarrow> \<not> list_ex (\<lambda>v. v = None) items"

definition set_items :: "queueItem list \<Rightarrow> videoQueue \<Rightarrow> unit queue_call" where
  "set_items items q = Returns () (markDirty (q\<lparr>vq_items := items\<rparr>))"

definition enqueue :: "queueItem option list \<Rightarrow> videoQueue \<Rightarrow> unit queue_call" where
  "enqueue videos q =
    (if videos = [] then Returns () q
     else if \<not> isAllVideos videos then Throws (JsError ''Cannot enqueue null or undefined items'') q
     else Returns () (markDirty (q\<lparr>vq_items := vq_items q @ map the videos\<rparr>)))"

definition dequeue :: "videoQueue \<Rightarrow> queueItem option queue_call" where
  "dequeue q = (case vq_items q of
      [] \<Rightarrow> Returns None (markDirty q)
    | item # rest \<Rightarrow> Returns (Some item) (markDirty (q\<lparr>vq_items := rest\<rparr>)))"

definition pushTop :: "queueItem option list \<Rightarrow> videoQueue \<Rightarrow> unit queue_call" where
  "pushTop videos q =
    (if videos = [] then Returns () q
     else if \<not> isAllVideos videos then Throws (JsError ''Cannot enqueue null or undefined items'') q
     else Returns () (markDirty (q\<lparr>vq_items := map the videos @ vq_items q\<rparr>)))"

definition insert_video :: "queueItem option \<Rightarrow> int \<Rightarrow> videoQueue \<Rightarrow> unit queue_call" where
  "insert_video video index q =
    (if index < 0 \<or> index > int (length (vq_items q)) then Throws (JsError ''Index out of bounds'') q
     else (case video of
         None \<Rightarrow> Throws (JsError ''Cannot enqueue null or undefined items'') q
       | Some v \<Rightarrow> Returns () (markDirty (q\<lparr>vq_items := insert_at (nat index) v (vq_items q)\<rparr>))))"

definition move :: "int \<Rightarrow> int \<Rightarrow> videoQueue \<Rightarrow> unit queue_call" where
  "move fromIdx toIdx q =
    (if fromIdx = toIdx then Returns () q
     else if fromIdx < 0 \<or> fromIdx \<ge> int (length (vq_items q)) then Throws (JsError (squoted ''fromIdx'' @ '' out of bounds'')) q
     else if toIdx < 0 \<or> toIdx \<ge> int (length (vq_items q)) then Throws (JsError (squoted ''toIdx'' @ '' out of bounds'')) q
     else (let item = vq_items q ! nat fromIdx
           in Returns () (markDirty (q\<lparr>vq_items :=
                insert_at (nat toIdx) item (remove_at (nat fromIdx) (vq_items q))\<rparr>))))"

definition findIndex :: "videoId \<Rightarrow> videoQueue \<Rightarrow> nat option" where
  "findIndex video q = find_index (same_video video) (vq_items q)"

definition contains_video :: "videoId \<Rightarrow> videoQueue \<Rightarrow> bool" where
  "contains_video video q \<longleftrightarrow> findIndex video q \<noteq> None"

definition evict :: "videoId \<Rightarrow> videoQueue \<Rightarrow> (nat \<times> queueItem) queue_call" where
  "evict video q = (case findIndex video q of
      Some i \<Rightarrow> Returns (i, vq_items q ! i) (markDirty (q\<lparr>vq_items := remove_at i (vq_items q)\<rparr>))
    | None \<Rightarrow> Throws VideoNotFoundException q)"

definition assign_extras :: "queueItemExtras \<Rightarrow> queueItem \<Rightarrow> queueItem" where
  "assign_extras patch item = item\<lparr>
     v_startAt := nullish (qe_startAt patch) (v_startAt item),
     v_endAt := nullish (qe_endAt patch) (v_endAt item),
     v_subtitleUrl := nullish (qe_subtitleUrl patch) (v_subtitleUrl item)\<rparr>"

definition update_item :: "videoId \<Rightarrow> queueItemExtras \<Rightarrow> videoQueue \<Rightarrow> unit queue_call" where
  "update_item video patch q = (case findIndex video q of
      None \<Rightarrow> Throws VideoNotFoundException q
    | Some i \<Rightarrow> Returns () (markDirty (q\<lparr>vq_items := (vq_items q)[i := assign_extras patch (vq_items q ! i)]\<rparr>)))"

text \<open>
  \<open>orderBy\<close> is called with one numeric criterion and the order \<open>desc\<close>. lodash's \<open>orderBy\<close> is
  stable, as \<open>sort_key\<close> is.
\<close>

definition orderByDesc :: "(queueItem \<Rightarrow> nat) \<Rightarrow> videoQueue \<Rightarrow> unit queue_call" where
  "orderByDesc f q =
    (let sorted = sort_key (\<lambda>v. - int (f v)) (vq_items q); q' = q\<lparr>vq_items := sorted\<rparr>
     in Returns () (if sorted \<noteq> [] \<and> sorted \<noteq> vq_items q then markDirty q' else q'))"

text \<open>\<open>_.shuffle\<close> is random; the permutation it picks is the argument \<open>sh\<close>.\<close>

definition shuffle_items :: "(queueItem list \<Rightarrow> queueItem list) \<Rightarrow> videoQueue \<Rightarrow> unit queue_call" where
  "shuffle_items sh q = Returns () (q\<lparr>vq_items := sh (vq_items q)\<rparr>)"

lemmas [queue_defs] = set_items_def enqueue_def dequeue_def pushTop_def insert_video_def move_def evict_def
  update_item_def orderByDesc_def shuffle_items_def markDirty_def Let_def

section \<open>The queue as a deque\<close>

text \<open>
  What the room relies on when it plays through the queue: pushing at the bottom and at the top, and
  popping from the top. The lemmas of this contract are proved for any provider.
\<close>

locale deque_ops =
  fixes contents :: "'q \<Rightarrow> 'a list"
    and push_back :: "'a list \<Rightarrow> 'q \<Rightarrow> 'q"
    and push_front :: "'a list \<Rightarrow> 'q \<Rightarrow> 'q"
    and pop :: "'q \<Rightarrow> 'a option"
    and rest :: "'q \<Rightarrow> 'q"
  assumes contents_push_back: "contents (push_back xs q) = contents q @ xs"
    and contents_push_front: "contents (push_front xs q) = xs @ contents q"
    and pop_contents: "pop q = (case contents q of [] \<Rightarrow> None | x # _ \<Rightarrow> Some x)"
    and contents_rest: "contents (rest q) = tl (contents q)"
begin

fun pops :: "nat \<Rightarrow> 'q \<Rightarrow> 'a list" where
  "pops 0 q = []"
| "pops (Suc n) q = (case pop q of None \<Rightarrow> [] | Some x \<Rightarrow> x # pops n (rest q))"

lemma pop_push_front: "pop (push_front [x] q) = Some x \<and> contents (rest (push_front [x] q)) = contents q"
  by (simp add: pop_contents contents_push_front contents_rest)

lemma pops_contents: "pops (length (contents q)) q = contents q"
proof (induction "contents q" arbitrary: q)
  case (Cons x xs)
  have "contents (rest q) = xs" using Cons.hyps(2) by (simp add: contents_rest flip: Cons.hyps(2))
  with Cons.hyps(1) [of "rest q"] have "pops (length xs) (rest q) = xs" by simp
  then show ?case by (simp add: pop_contents flip: Cons.hyps(2))
qed simp

text \<open>One round of a queue that re-queues what it plays: the contents rotate.\<close>

lemma requeue_rotates:
  "contents q = x # xs \<Longrightarrow> pop q = Some x \<and> contents (rest (push_back [x] q)) = xs @ [x]"
  by (simp add: pop_contents contents_push_back contents_rest)

lemma fifo: "contents q = [] \<Longrightarrow> pops (length xs) (push_back xs q) = xs"
  using pops_contents [of "push_back xs q"] by (simp add: contents_push_back)

end

definition back_push :: "queueItem list \<Rightarrow> videoQueue \<Rightarrow> videoQueue" where
  "back_push xs q = final_state (enqueue (map Some xs) q)"

definition front_push :: "queueItem list \<Rightarrow> videoQueue \<Rightarrow> videoQueue" where
  "front_push xs q = final_state (pushTop (map Some xs) q)"

definition popped :: "videoQueue \<Rightarrow> queueItem option" where
  "popped q = (case dequeue q of Returns x q' \<Rightarrow> x | Throws e q' \<Rightarrow> None)"

lemma isAllVideos_map_Some [simp]: "isAllVideos (map Some xs)"
  by (simp add: isAllVideos_def list_ex_iff)

interpretation vq: deque_ops vq_items back_push front_push popped "\<lambda>q. final_state (dequeue q)"
  by unfold_locales
     (auto simp: back_push_def front_push_def popped_def queue_defs split: list.splits)

section \<open>One step of any method\<close>

datatype queueOp =
    OpSet "queueItem list"
  | OpEnqueue "queueItem option list"
  | OpDequeue
  | OpPushTop "queueItem option list"
  | OpInsert "queueItem option" int
  | OpMove int int
  | OpEvict videoId
  | OpUpdate videoId queueItemExtras
  | OpOrderBy "queueItem \<Rightarrow> nat"
  | OpShuffle "queueItem list \<Rightarrow> queueItem list"

definition discard :: "('e, 'a, 's) outcome \<Rightarrow> ('e, unit, 's) outcome" where
  "discard c = and_then c (\<lambda>_ s. Returns () s)"

lemma discard_simps [simp]:
  "discard (Returns a s) = Returns () s"
  "discard (Throws e s) = Throws e s"
  by (simp_all add: discard_def)

primrec run_op :: "queueOp \<Rightarrow> videoQueue \<Rightarrow> unit queue_call" where
  "run_op (OpSet items) q = set_items items q"
| "run_op (OpEnqueue vs) q = enqueue vs q"
| "run_op OpDequeue q = discard (dequeue q)"
| "run_op (OpPushTop vs) q = pushTop vs q"
| "run_op (OpInsert v i) q = insert_video v i q"
| "run_op (OpMove i j) q = move i j q"
| "run_op (OpEvict v) q = discard (evict v q)"
| "run_op (OpUpdate v p) q = update_item v p q"
| "run_op (OpOrderBy f) q = orderByDesc f q"
| "run_op (OpShuffle sh) q = shuffle_items sh q"

fun is_shuffle :: "queueOp \<Rightarrow> bool" where
  "is_shuffle (OpShuffle _) = True"
| "is_shuffle _ = False"

lemma run_op_throws_unchanged: "run_op op q = Throws e q' \<Longrightarrow> q' = q"
  by (cases op) (auto simp: queue_defs discard_def split: if_splits option.splits list.splits)

lemma run_op_marks:
  "\<not> is_shuffle op \<Longrightarrow> vq_items (final_state (run_op op q)) \<noteq> vq_items q
    \<Longrightarrow> vq_dirty (final_state (run_op op q)) \<and> vq_notify (final_state (run_op op q))"
  by (cases op) (auto simp: queue_defs discard_def split: if_splits option.splits list.splits)

text \<open>A queue operation that throws has changed nothing, and one that changes the queue says so.\<close>

lemma run_op_notify_mono: "vq_notify q \<Longrightarrow> vq_notify (final_state (run_op op q))"
  by (cases op) (auto simp: queue_defs discard_def split: if_splits option.splits list.splits)

section \<open>Facts about single methods\<close>

lemma findIndex_Some:
  "findIndex v q = Some i \<Longrightarrow> i < length (vq_items q) \<and> videoId_of (vq_items q ! i) = v"
  by (auto simp: findIndex_def same_video_iff dest: find_index_SomeD)

lemma evict_first:
  assumes "evict v q = Returns (i, item) q'"
  shows "i < length (vq_items q) \<and> item = vq_items q ! i \<and> vq_items q' = remove_at i (vq_items q)
    \<and> videoId_of item = v \<and> (\<forall>k<i. videoId_of (vq_items q ! k) \<noteq> v)"
proof -
  from assms have "find_index (same_video v) (vq_items q) = Some i"
    by (auto simp: evict_def findIndex_def split: option.splits)
  from find_index_SomeD [OF this] assms show ?thesis
    by (auto simp: evict_def findIndex_def markDirty_def same_video_iff split: option.splits)
qed

lemma evict_then_insert:
  "evict v q = Returns (i, item) q' \<Longrightarrow>
    \<exists>q''. insert_video (Some item) (int i) q' = Returns () q'' \<and> vq_items q'' = vq_items q"
  using evict_first [of v q i item q'] by (auto simp: insert_video_def markDirty_def insert_remove_at)

lemma contains_video_iff: "contains_video v q \<longleftrightarrow> v \<in> videoId_of ` set (vq_items q)"
  by (auto simp: contains_video_def findIndex_def find_index_None_iff same_video_iff)

lemma filter_stable_sort:
  "filter (\<lambda>v. f v = k) (sort_key (\<lambda>v. - int (f v)) xs) = filter (\<lambda>v. f v = k) xs"
proof -
  have "filter (\<lambda>v. f v = k) ys = filter (\<lambda>v. - int (f v) = - int k) ys" for ys :: "'a list"
    by (rule filter_cong) auto
  then show ?thesis by (simp only: sort_key_stable)
qed

lemma sort_key_descending: "sorted_wrt (\<lambda>a b. f b \<le> f a) (sort_key (\<lambda>v. - int (f v)) xs)"
proof -
  have "sorted (map (\<lambda>v. - int (f v)) (sort_key (\<lambda>v. - int (f v)) xs))"
    by (rule sorted_sort_key)
  then show ?thesis by (simp add: sorted_map)
qed

lemma orderByDesc_sorted:
  "\<exists>q'. orderByDesc f q = Returns () q' \<and> sorted_wrt (\<lambda>a b. f b \<le> f a) (vq_items q')"
  using sort_key_descending [of f "vq_items q"] by (auto simp: orderByDesc_def markDirty_def Let_def)

section \<open>Properties\<close>

text \<open>
  Moving an item: for positions inside the queue, \<open>move\<close> succeeds, the item that was at the
  first position is afterwards at the second, and taking it out leaves exactly what taking it out of
  the original queue leaves, so no other item is lost, duplicated or reordered.
\<close>

theorem move_correct:
  assumes "0 \<le> i" and "i < int (length (vq_items q))" and "0 \<le> j" and "j < int (length (vq_items q))"
  shows "\<exists>q'. move i j q = Returns () q' \<and> vq_items q' ! nat j = vq_items q ! nat i
    \<and> remove_at (nat j) (vq_items q') = remove_at (nat i) (vq_items q)
    \<and> mset (vq_items q') = mset (vq_items q)"
proof -
  have len: "nat i < length (vq_items q)" "nat j \<le> length (remove_at (nat i) (vq_items q))"
    using assms by auto
  then show ?thesis
    using assms by (auto simp: move_def markDirty_def Let_def nth_insert_at mset_remove_at)
qed

definition queue_of :: "queueItem list \<Rightarrow> videoQueue" where
  "queue_of xs = \<lparr>vq_items = xs, vq_dirty = False, vq_notify = False\<rparr>"

theorem move_correct_witness:
  "\<exists>q'. move 0 1 (queue_of [bare_video ''vimeo'' ''1'', bare_video ''vimeo'' ''2'']) = Returns () q'
    \<and> vq_items q' ! 1 = bare_video ''vimeo'' ''1''"
  using move_correct [of 0 "queue_of [bare_video ''vimeo'' ''1'', bare_video ''vimeo'' ''2'']" 1]
  by (auto simp: queue_of_def)

text \<open>
  Evicting a video removes the first item with its service and id, and inserting the evicted
  item at the position that \<open>evict\<close> reported restores the queue: this is what undoing a removal
  relies on.
\<close>

theorem evict_insert_roundtrip:
  assumes "evict v q = Returns (i, item) q'"
  shows "videoId_of item = v \<and> (\<forall>k<i. videoId_of (vq_items q ! k) \<noteq> v)
    \<and> (\<exists>q''. insert_video (Some item) (int i) q' = Returns () q'' \<and> vq_items q'' = vq_items q)"
  using evict_first [OF assms] evict_then_insert [OF assms] by blast

theorem evict_insert_roundtrip_witness:
  "videoId_of (bare_video ''vimeo'' ''2'') = \<lparr>vi_service = ''vimeo'', vi_id = ''2''\<rparr>"
  using evict_insert_roundtrip [of "\<lparr>vi_service = ''vimeo'', vi_id = ''2''\<rparr>"
      "queue_of [bare_video ''vimeo'' ''1'', bare_video ''vimeo'' ''2'']" 1 "bare_video ''vimeo'' ''2''"
      "markDirty (queue_of [bare_video ''vimeo'' ''1''])"]
  by (simp add: evict_def findIndex_def queue_of_def same_video_def bare_video_def markDirty_def remove_at_def)

text \<open>
  Ordering the queue by votes keeps every item, puts it in descending order, and keeps the
  previous order among items with equally many votes.
\<close>

theorem orderByDesc_correct:
  "\<exists>q'. orderByDesc f q = Returns () q' \<and> mset (vq_items q') = mset (vq_items q)
    \<and> sorted_wrt (\<lambda>a b. f b \<le> f a) (vq_items q')
    \<and> (\<forall>k. filter (\<lambda>v. f v = k) (vq_items q') = filter (\<lambda>v. f v = k) (vq_items q))"
  using sort_key_descending [of f "vq_items q"]
  by (auto simp: orderByDesc_def markDirty_def Let_def filter_stable_sort)

text \<open>
  Every method of the queue that throws leaves the queue untouched, and every method except
  \<open>shuffle\<close> that changes the items marks the queue dirty and notifies its owner.
\<close>

theorem queue_changes_reported:
  "(thrown (run_op op q) \<noteq> None \<longrightarrow> final_state (run_op op q) = q)
   \<and> (\<not> is_shuffle op \<and> vq_items (final_state (run_op op q)) \<noteq> vq_items q
       \<longrightarrow> vq_dirty (final_state (run_op op q)) \<and> vq_notify (final_state (run_op op q)))"
proof -
  have "final_state (run_op op q) = q" if "thrown (run_op op q) \<noteq> None"
    using that by (cases "run_op op q") (auto dest: run_op_throws_unchanged)
  then show ?thesis using run_op_marks by blast
qed

theorem queue_changes_reported_witness:
  "vq_notify (final_state (run_op OpDequeue (queue_of [bare_video ''vimeo'' ''1''])))"
  using queue_changes_reported [of OpDequeue "queue_of [bare_video ''vimeo'' ''1'']"]
  by (simp add: queue_of_def dequeue_def markDirty_def)

end
