(* ===== verification/RoomState.thy ===== *)
theory RoomState
  imports VideoQueue
begin

text \<open>
  The state of \<open>server/room.ts\<close>: \<open>RoomUser\<close>, the fields of \<open>Room\<close> with their setters, its
  constructor, and the questions it answers about its users and their roles. Two things of the real
  object are made explicit: \<open>r_effects\<close> is the log of what the room asked of the outside (messages
  published, metrics, writes to redis and to the database), and \<open>r_syncPending\<close>/\<open>r_savePending\<close> say
  that the debounced \<open>throttledSync\<close>/\<open>saveStateToRedisDebounced\<close> is waiting for its timer.

  The outside world is the argument \<open>world\<close>: the clock, the configuration, and the answers of the
  session store, the user manager, the info extractor, Sponsorblock and the random shuffle. One call
  of a handler sees one reading of the clock.
\<close>

named_theorems room_defs \<open>the definitions of the room's setters and small methods\<close>

section \<open>The outside world\<close>

record world =
  w_now :: int
  w_sponsorblock_enabled :: bool
  w_unload_after :: int
  w_expire_after :: int
  w_getUser :: "int \<Rightarrow> exn + user"
  w_getSessionInfo :: "authToken \<Rightarrow> exn + sessionInfo option"
  w_adapterForURL :: "string \<Rightarrow> exn + (string \<times> (exn + string))"
  w_getVideoInfo :: "string \<Rightarrow> string \<Rightarrow> exn + video option"
  w_getManyVideoInfo :: "videoAdd list \<Rightarrow> exn + video option list"
  w_fetchSegments :: "string \<Rightarrow> exn + segment list"
  w_shuffle :: "queueItem list \<Rightarrow> queueItem list"

section \<open>RoomUser\<close>

record roomUser =
  ru_id :: clientId
  ru_token :: authToken
  ru_user_id :: "int option"
  ru_unregisteredUsername :: string
  ru_user :: "user option"
  ru_playerStatus :: playerStatus

definition newRoomUser :: "clientId \<Rightarrow> authToken \<Rightarrow> roomUser" where
  "newRoomUser i token = \<lparr>ru_id = i, ru_token = token, ru_user_id = None,
     ru_unregisteredUsername = '''', ru_user = None, ru_playerStatus = PsNone\<rparr>"

definition isLoggedIn :: "roomUser \<Rightarrow> bool" where
  "isLoggedIn u \<longleftrightarrow> truthy_num (ru_user_id u)"

definition username :: "roomUser \<Rightarrow> string" where
  "username u = (case ru_user u of
      Some a \<Rightarrow> (if isLoggedIn u then u_username a else ru_unregisteredUsername u)
    | None \<Rightarrow> ru_unregisteredUsername u)"

text \<open>
  \<open>user_id\<close> is assigned before the user manager is asked, so a failing lookup leaves it changed and
  the status untouched.
\<close>

definition set_status :: "clientInfo \<Rightarrow> roomUser \<Rightarrow> roomUser" where
  "set_status info u = (case ci_status info of None \<Rightarrow> u | Some st \<Rightarrow> u\<lparr>ru_playerStatus := st\<rparr>)"

definition updateInfo :: "world \<Rightarrow> clientInfo \<Rightarrow> roomUser \<Rightarrow> (exn, unit, roomUser) outcome" where
  "updateInfo w info u =
    (if truthy_num (ci_user_id info)
     then (let uid = nullish (ci_user_id info) 0; u1 = u\<lparr>ru_user_id := Some uid\<rparr>
           in case w_getUser w uid of
                Inl e \<Rightarrow> Throws e u1
              | Inr usr \<Rightarrow> Returns () (set_status info (u1\<lparr>ru_user := Some usr\<rparr>)))
     else if truthy_str (ci_username info)
     then Returns () (set_status info (u\<lparr>ru_unregisteredUsername := nullish (ci_username info) '''',
            ru_user_id := None, ru_user := None\<rparr>))
     else Returns () (set_status info u))"

section \<open>Properties of a room that are synchronised or stored\<close>

text \<open>\<open>keyof RoomStateSyncable\<close>, in the order of \<open>syncableProps\<close>.\<close>

datatype syncProp =
    PName | PTitle | PDescription | PIsTemporary | PVisibility | PQueueMode | PCurrentSource | PQueue
  | PIsPlaying | PPlaybackPosition | PPlaybackSpeed | PGrants | PHasOwner | PVoteCounts
  | PVideoSegments | PAutoSkipSegmentCategories | PPrevQueue | PRestoreQueueBehavior
  | PEnableVoteSkip | PVotesToSkip

definition syncableProps :: "syncProp list" where
  "syncableProps = [PName, PTitle, PDescription, PIsTemporary, PVisibility, PQueueMode, PCurrentSource,
     PQueue, PIsPlaying, PPlaybackPosition, PPlaybackSpeed, PGrants, PHasOwner, PVoteCounts,
     PVideoSegments, PAutoSkipSegmentCategories, PPrevQueue, PRestoreQueueBehavior, PEnableVoteSkip,
     PVotesToSkip]"

text \<open>
  The members of \<open>storableProps\<close> that are syncable too (\<open>userRoles\<close>, \<open>owner\<close> and \<open>_playbackStart\<close>
  are stored but never dirty).
\<close>

definition storableProps :: "syncProp list" where
  "storableProps = [PName, PTitle, PDescription, PIsTemporary, PVisibility, PQueueMode, PCurrentSource,
     PQueue, PIsPlaying, PPlaybackPosition, PPlaybackSpeed, PGrants, PVideoSegments,
     PAutoSkipSegmentCategories, PPrevQueue, PRestoreQueueBehavior, PEnableVoteSkip]"

type_synonym userRoles = "(role, int js_set) js_map"

record roomStateStorable =
  ss_name :: string
  ss_title :: string
  ss_description :: string
  ss_isTemporary :: bool
  ss_visibility :: visibility
  ss_queueMode :: queueMode
  ss_currentSource :: "queueItem option"
  ss_queue :: "queueItem list"
  ss_isPlaying :: bool
  ss_playbackPosition :: rat
  ss_playbackSpeed :: rat
  ss_grants :: "(role \<times> grantMask) list"
  ss_userRoles :: "(role \<times> int list) list"
  ss_owner :: "user option"
  ss_playbackStart :: "int option"
  ss_videoSegments :: "segment list"
  ss_autoSkipSegmentCategories :: "string list"
  ss_prevQueue :: "queueItem list option"
  ss_restoreQueueBehavior :: behaviorOption
  ss_enableVoteSkip :: bool

text \<open>
  The argument of \<open>storage.updateRoom\<close>, a partial persistable room: an absent property is \<open>None\<close>.
\<close>

record roomPersistable =
  rp_name :: string
  rp_title :: "string option"
  rp_description :: "string option"
  rp_visibility :: "visibility option"
  rp_queueMode :: "queueMode option"
  rp_autoSkipSegmentCategories :: "string list option"
  rp_grants :: "grants option"
  rp_userRoles :: "userRoles option"
  rp_owner :: "user option"
  rp_prevQueue :: "queueItem list option option"
  rp_restoreQueueBehavior :: "behaviorOption option"
  rp_enableVoteSkip :: "bool option"

datatype effect =
    Publish serverMessage
  | Command clientManagerCommand
  | SecondsWatched "string option" rat
  | MediaQueued string
  | MediaSkipped string
  | MediaWatched string
  | RoomRequestReceived nat
  | RedisSet string roomStateStorable int
  | RedisExpire string int
  | StorageUpdateRoom roomPersistable

section \<open>Room\<close>

record room =
  r_name :: string
  r_title :: string
  r_description :: string
  r_visibility :: visibility
  r_queueMode :: queueMode
  r_isTemporary :: bool
  r_owner :: "user option"
  r_grants :: grants
  r_userRoles :: userRoles
  r_autoSkipSegmentCategories :: "string list"
  r_restoreQueueBehavior :: behaviorOption
  r_enableVoteSkip :: bool
  r_currentSource :: "queueItem option"
  r_queue :: videoQueue
  r_prevQueue :: "queueItem list option"
  r_isPlaying :: bool
  r_playbackPosition :: rat
  r_playbackSpeed :: rat
  r_realusers :: "roomUser list"
  r_votes :: "(string, clientId js_set) js_map"
  r_videoSegments :: "segment list"
  r_votesToSkip :: "clientId js_set"
  r_dirty :: "syncProp js_set"
  r_playbackStart :: "int option"
  r_keepAlivePing :: int
  r_wantSponsorBlock :: bool
  r_dontSkipSegmentsUntil :: "rat option"
  r_loadEpoch :: int
  r_syncPending :: bool
  r_savePending :: bool
  r_effects :: "effect list"

type_synonym 'a room_call = "(exn, 'a, room) outcome"

definition room_markDirty :: "syncProp \<Rightarrow> room \<Rightarrow> room" where
  "room_markDirty p r = r\<lparr>r_dirty := js_set_add p (r_dirty r), r_syncPending := True\<rparr>"

definition cleanDirty :: "room \<Rightarrow> room" where
  "cleanDirty r = r\<lparr>r_dirty := [], r_queue := clean (r_queue r)\<rparr>"

definition emit :: "effect \<Rightarrow> room \<Rightarrow> room" where
  "emit e r = r\<lparr>r_effects := r_effects r @ [e]\<rparr>"

subsection \<open>Setters\<close>

definition set_name :: "string \<Rightarrow> room \<Rightarrow> room" where
  "set_name v r = room_markDirty PName (r\<lparr>r_name := v\<rparr>)"

definition set_title :: "string \<Rightarrow> room \<Rightarrow> room" where
  "set_title v r = room_markDirty PTitle (r\<lparr>r_title := v\<rparr>)"

definition set_description :: "string \<Rightarrow> room \<Rightarrow> room" where
  "set_description v r = room_markDirty PDescription (r\<lparr>r_description := v\<rparr>)"

definition set_visibility :: "visibility \<Rightarrow> room \<Rightarrow> room" where
  "set_visibility v r = room_markDirty PVisibility (r\<lparr>r_visibility := v\<rparr>)"

definition set_queueMode :: "queueMode \<Rightarrow> room \<Rightarrow> room" where
  "set_queueMode v r = room_markDirty PQueueMode (r\<lparr>r_queueMode := v\<rparr>)"

definition set_autoSkipSegmentCategories :: "string list \<Rightarrow> room \<Rightarrow> room" where
  "set_autoSkipSegmentCategories v r =
     room_markDirty PAutoSkipSegmentCategories (r\<lparr>r_autoSkipSegmentCategories := v\<rparr>)"

definition set_currentSource :: "queueItem option \<Rightarrow> room \<Rightarrow> room" where
  "set_currentSource v r = room_markDirty PCurrentSource (r\<lparr>r_currentSource := v\<rparr>)"

definition set_isPlaying :: "bool \<Rightarrow> room \<Rightarrow> room" where
  "set_isPlaying v r = room_markDirty PIsPlaying (r\<lparr>r_isPlaying := v\<rparr>)"

definition set_playbackPosition :: "rat \<Rightarrow> room \<Rightarrow> room" where
  "set_playbackPosition v r = room_markDirty PPlaybackPosition (r\<lparr>r_playbackPosition := v\<rparr>)"

definition set_playbackSpeed :: "rat \<Rightarrow> room \<Rightarrow> room" where
  "set_playbackSpeed v r = room_markDirty PPlaybackSpeed (r\<lparr>r_playbackSpeed := v\<rparr>)"

definition set_owner :: "user option \<Rightarrow> room \<Rightarrow> room" where
  "set_owner v r = room_markDirty PHasOwner (r\<lparr>r_owner := v\<rparr>)"

definition set_videoSegments :: "segment list \<Rightarrow> room \<Rightarrow> room" where
  "set_videoSegments v r = room_markDirty PVideoSegments (r\<lparr>r_videoSegments := v\<rparr>)"

definition set_prevQueue :: "queueItem list option \<Rightarrow> room \<Rightarrow> room" where
  "set_prevQueue v r =
     (if v = None \<and> r_prevQueue r = None then r
      else room_markDirty PPrevQueue (r\<lparr>r_prevQueue := v\<rparr>))"

definition set_enableVoteSkip :: "bool \<Rightarrow> room \<Rightarrow> room" where
  "set_enableVoteSkip v r = room_markDirty PEnableVoteSkip (r\<lparr>r_enableVoteSkip := v\<rparr>)"

definition set_playbackStart :: "int option \<Rightarrow> room \<Rightarrow> room" where
  "set_playbackStart v r = r\<lparr>r_playbackStart := v\<rparr>"

lemmas [room_defs] = set_name_def set_title_def set_description_def set_visibility_def set_queueMode_def
  set_autoSkipSegmentCategories_def set_currentSource_def set_isPlaying_def set_playbackPosition_def
  set_playbackSpeed_def set_owner_def set_videoSegments_def set_prevQueue_def set_enableVoteSkip_def
  set_playbackStart_def emit_def room_markDirty_def cleanDirty_def

subsection \<open>Calling the queue\<close>

text \<open>
  The callback given to \<open>queue.onDirty\<close> marks the property \<open>queue\<close> dirty; it runs inside the queue's
  method, so its effect is part of the same call.
\<close>

definition settle_queue :: "videoQueue \<Rightarrow> room \<Rightarrow> room" where
  "settle_queue q r =
    (let r' = r\<lparr>r_queue := q\<lparr>vq_notify := False\<rparr>\<rparr>
     in if vq_notify q then room_markDirty PQueue r' else r')"

fun on_queue :: "(videoQueue \<Rightarrow> 'a queue_call) \<Rightarrow> room \<Rightarrow> 'a room_call" where
  "on_queue f r = (case f (r_queue r) of
      Returns a q \<Rightarrow> Returns a (settle_queue q r)
    | Throws e q \<Rightarrow> Throws e (settle_queue q r))"

declare on_queue.simps [simp del]

subsection \<open>Roles\<close>

definition isOwner :: "room \<Rightarrow> roomUser \<Rightarrow> bool" where
  "isOwner r u = (case (ru_user u, r_owner r) of
      (Some a, Some b) \<Rightarrow> u_id a = u_id b
    | _ \<Rightarrow> False)"

definition hasOwner :: "room \<Rightarrow> bool" where
  "hasOwner r \<longleftrightarrow> r_owner r \<noteq> None"

definition has_role :: "room \<Rightarrow> int \<Rightarrow> role \<Rightarrow> bool" where
  "has_role r uid i = (case map_of (r_userRoles r) i of Some s \<Rightarrow> uid \<in> set s | None \<Rightarrow> False)"

text \<open>The loop from administrator down to trusted user.\<close>

definition ranked_role :: "room \<Rightarrow> int \<Rightarrow> role option" where
  "ranked_role r uid = find (has_role r uid) [Administrator, Moderator, TrustedUser]"

definition base_role :: "roomUser \<Rightarrow> role" where
  "base_role u = (if isLoggedIn u then RegisteredUser else UnregisteredUser)"

definition getRole :: "room \<Rightarrow> roomUser option \<Rightarrow> role" where
  "getRole r mu = (case mu of
      None \<Rightarrow> UnregisteredUser
    | Some u \<Rightarrow>
        if isOwner r u then Owner
        else (case ru_user u of
            Some a \<Rightarrow> (case ranked_role r (u_id a) of Some i \<Rightarrow> i | None \<Rightarrow> base_role u)
          | None \<Rightarrow> base_role u))"

definition getRoleFromSession :: "room \<Rightarrow> sessionInfo option \<Rightarrow> role" where
  "getRoleFromSession r session = (case session of
      Some (LoggedIn uid) \<Rightarrow>
        (if (case r_owner r of Some ow \<Rightarrow> u_id ow = uid | None \<Rightarrow> False) then Owner
         else (case ranked_role r uid of Some i \<Rightarrow> i | None \<Rightarrow> RegisteredUser))
    | _ \<Rightarrow> UnregisteredUser)"

definition getRoleFromToken :: "world \<Rightarrow> authToken \<Rightarrow> room \<Rightarrow> exn + role" where
  "getRoleFromToken w token r = (case w_getSessionInfo w token of
      Inl e \<Rightarrow> Inl e | Inr session \<Rightarrow> Inr (getRoleFromSession r session))"

subsection \<open>Users\<close>

definition user_info :: "room \<Rightarrow> roomUser \<Rightarrow> roomUserInfo" where
  "user_info r u = \<lparr>ui_id = ru_id u, ui_name = username u, ui_isLoggedIn = isLoggedIn u,
     ui_status = ru_playerStatus u, ui_role = getRole r (Some u)\<rparr>"

definition users :: "room \<Rightarrow> roomUserInfo list" where
  "users r = map (user_info r) (r_realusers r)"

definition getUser :: "room \<Rightarrow> clientId \<Rightarrow> roomUser option" where
  "getUser r client = find (\<lambda>u. ru_id u = client) (r_realusers r)"

definition getUserFromToken :: "room \<Rightarrow> authToken \<Rightarrow> roomUser option" where
  "getUserFromToken r token = find (\<lambda>u. ru_token u = token) (r_realusers r)"

definition getUserInfo :: "room \<Rightarrow> clientId \<Rightarrow> exn + roomUserInfo" where
  "getUserInfo r client = (case find (\<lambda>i. ui_id i = client) (users r) of
      Some i \<Rightarrow> Inr i | None \<Rightarrow> Inl (JsError ''Client not found''))"

definition getUserInfoFromToken :: "world \<Rightarrow> authToken \<Rightarrow> exn + (string \<times> bool)" where
  "getUserInfoFromToken w token =
    (if token = [] then Inl (JsError ''token is a required parameter.'')
     else (case w_getSessionInfo w token of
         Inl e \<Rightarrow> Inl e
       | Inr None \<Rightarrow> Inl (JsError ''Session info not found.'')
       | Inr (Some (LoggedIn uid)) \<Rightarrow> (case w_getUser w uid of Inl e \<Rightarrow> Inl e | Inr usr \<Rightarrow> Inr (u_username usr, True))
       | Inr (Some (LoggedOut n)) \<Rightarrow> Inr (n, False)))"

definition getClientIdFromToken :: "room \<Rightarrow> authToken \<Rightarrow> exn + clientId" where
  "getClientIdFromToken r token = (case find (\<lambda>u. ru_token u = token) (r_realusers r) of
      Some u \<Rightarrow> Inr (ru_id u) | None \<Rightarrow> Inl (ClientNotFoundInRoomException (r_name r)))"

definition getGrantsForUser :: "room \<Rightarrow> clientId \<Rightarrow> grantMask option" where
  "getGrantsForUser r i = (case getUser r i of
      None \<Rightarrow> Some 0 | Some u \<Rightarrow> getMask (r_grants r) (getRole r (Some u)))"

lemma getUserInfo_eq:
  "getUserInfo r c = (case getUser r c of Some u \<Rightarrow> Inr (user_info r u) | None \<Rightarrow> Inl (JsError ''Client not found''))"
proof -
  have "find (\<lambda>i. ui_id i = c) (map (user_info r) us) = map_option (user_info r) (find (\<lambda>u. ru_id u = c) us)" for us
    by (induction us) (auto simp: user_info_def)
  then show ?thesis
    by (simp add: getUserInfo_def users_def getUser_def split: option.splits)
qed

lemma getUser_SomeD: "getUser r c = Some u \<Longrightarrow> u \<in> set (r_realusers r) \<and> ru_id u = c"
  by (auto simp: getUser_def find_Some_iff)

lemma ranked_role_range: "ranked_role r uid = Some i \<Longrightarrow> i = 4 \<or> i = 3 \<or> i = 2"
  by (auto simp: ranked_role_def split: if_splits)

text \<open>A role computed for a user is always one of the six.\<close>

lemma getRole_valid: "isRoleValid (getRole r mu)"
  by (auto simp: getRole_def base_role_def isRoleValid_def dest: ranked_role_range
      split: option.splits)

section \<open>The constructor\<close>

datatype givenGrants = NoGrants | GrantsObject grants | GrantsEntries "(role \<times> grantMask) list"

datatype givenRoles = NoRoles | RolesMap userRoles | RolesObject "(role \<times> int list) list"

text \<open>\<open>Partial<RoomOptions>\<close> together with the redis state's fields that the constructor picks up.\<close>

record roomOptions =
  ro_name :: "string option"
  ro_title :: "string option"
  ro_description :: "string option"
  ro_visibility :: "visibility option"
  ro_queueMode :: "queueMode option"
  ro_isTemporary :: "bool option"
  ro_owner :: "user option option"
  ro_currentSource :: "queueItem option option"
  ro_queue :: "queueItem option list option"
  ro_playbackPosition :: "rat option"
  ro_isPlaying :: "bool option"
  ro_playbackSpeed :: "rat option"
  ro_autoSkipSegmentCategories :: "string list option"
  ro_prevQueue :: "queueItem list option option"
  ro_restoreQueueBehavior :: "behaviorOption option"
  ro_enableVoteSkip :: "bool option"
  ro_votesToSkip :: "clientId list option"
  ro_grants :: givenGrants
  ro_userRoles :: givenRoles
  ro_playbackStart :: "int option"

definition no_options :: roomOptions where
  "no_options = \<lparr>ro_name = None, ro_title = None, ro_description = None, ro_visibility = None,
     ro_queueMode = None, ro_isTemporary = None, ro_owner = None, ro_currentSource = None,
     ro_queue = None, ro_playbackPosition = None, ro_isPlaying = None, ro_playbackSpeed = None,
     ro_autoSkipSegmentCategories = None, ro_prevQueue = None, ro_restoreQueueBehavior = None,
     ro_enableVoteSkip = None, ro_votesToSkip = None, ro_grants = NoGrants, ro_userRoles = NoRoles,
     ro_playbackStart = None\<rparr>"

text \<open>The field initialisers and the constructor's first statements.\<close>

definition initial_room :: "world \<Rightarrow> grants \<Rightarrow> room" where
  "initial_room w g = set_owner None
    \<lparr>r_name = '''', r_title = '''', r_description = '''', r_visibility = Unlisted, r_queueMode = Manual,
     r_isTemporary = False, r_owner = None, r_grants = g,
     r_userRoles = [(TrustedUser, []), (Moderator, []), (Administrator, [])],
     r_autoSkipSegmentCategories = ALL_SKIP_CATEGORIES, r_restoreQueueBehavior = Prompt,
     r_enableVoteSkip = False, r_currentSource = None, r_queue = newVideoQueue [], r_prevQueue = None,
     r_isPlaying = False, r_playbackPosition = 0, r_playbackSpeed = 1, r_realusers = [], r_votes = [],
     r_videoSegments = [], r_votesToSkip = [], r_dirty = [], r_playbackStart = None,
     r_keepAlivePing = w_now w, r_wantSponsorBlock = False, r_dontSkipSegmentsUntil = None,
     r_loadEpoch = - 1, r_syncPending = False, r_savePending = False, r_effects = []\<rparr>"

definition pick :: "'a option \<Rightarrow> ('a \<Rightarrow> room \<Rightarrow> room) \<Rightarrow> room \<Rightarrow> room" where
  "pick v f r = (case v of None \<Rightarrow> r | Some x \<Rightarrow> f x r)"

text \<open>\<open>Object.assign(this, _.pick(options, ...))\<close>: one setter per key that is present, in order.\<close>

definition assign_options :: "roomOptions \<Rightarrow> room \<Rightarrow> room" where
  "assign_options opts = (\<lambda>r.
    pick (ro_votesToSkip opts) (\<lambda>v r. r\<lparr>r_votesToSkip := js_set_of_list v []\<rparr>)
    (pick (ro_enableVoteSkip opts) set_enableVoteSkip
    (pick (ro_restoreQueueBehavior opts) (\<lambda>v r. r\<lparr>r_restoreQueueBehavior := v\<rparr>)
    (pick (ro_prevQueue opts) set_prevQueue
    (pick (ro_autoSkipSegmentCategories opts) set_autoSkipSegmentCategories
    (pick (ro_playbackSpeed opts) set_playbackSpeed
    (pick (ro_isPlaying opts) set_isPlaying
    (pick (ro_playbackPosition opts) set_playbackPosition
    (pick (ro_queue opts) (\<lambda>v r. r\<lparr>r_queue := newVideoQueue v\<rparr>)
    (pick (ro_currentSource opts) set_currentSource
    (pick (ro_owner opts) set_owner
    (pick (ro_isTemporary opts) (\<lambda>v r. r\<lparr>r_isTemporary := v\<rparr>)
    (pick (ro_queueMode opts) set_queueMode
    (pick (ro_visibility opts) set_visibility
    (pick (ro_description opts) set_description
    (pick (ro_title opts) set_title
    (pick (ro_name opts) set_name r)))))))))))))))))"

definition restore_policy :: "room \<Rightarrow> room" where
  "restore_policy r =
    (let r1 = (if r_restoreQueueBehavior r = Never then set_prevQueue None r else r)
     in case r_prevQueue r1 of
          Some prev \<Rightarrow>
            (if vq_items (r_queue r1) = [] \<and> r_restoreQueueBehavior r1 = Always
             then set_prevQueue None (room_markDirty PQueue
                    (r1\<lparr>r_queue := (r_queue r1)\<lparr>vq_items := vq_items (r_queue r1) @ prev\<rparr>\<rparr>))
             else r1)
        | None \<Rightarrow> r1)"

fun set_role_objects :: "role list \<Rightarrow> (role \<times> int list) list \<Rightarrow> userRoles \<Rightarrow> userRoles" where
  "set_role_objects [] obj m = m"
| "set_role_objects (i # is) obj m = set_role_objects is obj
     (case map_of obj i of Some ids \<Rightarrow> AList.update i (js_set_of_list ids []) m | None \<Rightarrow> m)"

definition given_roles :: "givenRoles \<Rightarrow> userRoles \<Rightarrow> userRoles" where
  "given_roles g m = (case g of
      NoRoles \<Rightarrow> m
    | RolesMap m' \<Rightarrow> m'
    | RolesObject obj \<Rightarrow> set_role_objects [TrustedUser, Moderator, Administrator] obj m)"

definition resolve_grants :: "givenGrants \<Rightarrow> exn + grants" where
  "resolve_grants g = (case g of
      NoGrants \<Rightarrow> newDefaultGrants
    | GrantsObject gr \<Rightarrow> Inr gr
    | GrantsEntries es \<Rightarrow> newGrants es)"

definition newRoom :: "world \<Rightarrow> roomOptions \<Rightarrow> exn + room" where
  "newRoom w opts = (case resolve_grants (ro_grants opts) of
      Inl e \<Rightarrow> Inl e
    | Inr g \<Rightarrow>
       (let r1 = restore_policy (assign_options opts (initial_room w g));
            r2 = r1\<lparr>r_userRoles := given_roles (ro_userRoles opts) (r_userRoles r1)\<rparr>
        in Inr (if ro_playbackStart opts = None then r2
                else r2\<lparr>r_playbackStart := ro_playbackStart opts\<rparr>)))"

end
