(* ===== verification/RoomPlayback.thy ===== *)
theory RoomPlayback
  imports RoomState
begin

text \<open>
  Playback in \<open>server/room.ts\<close>: where the playback head is, moving on to the next item, the periodic
  \<open>update\<close>, play and pause, and what the room publishes. The arithmetic of \<open>common/timestamp.ts\<close>
  and \<open>common/voteskip.ts\<close> is included. Times are milliseconds, positions are seconds.

  A call to the queue whose promise the code does not await runs to its end before the handler's own
  promise settles, since the queue's mutex is free; it is modelled as a plain call. The metrics
  counters are taken to accept every increment.
\<close>

section \<open>Clock arithmetic\<close>

definition calculateCurrentPosition :: "int \<Rightarrow> int \<Rightarrow> rat \<Rightarrow> rat \<Rightarrow> rat" where
  "calculateCurrentPosition start_time now_time offset speed =
    offset + (of_int (now_time - start_time) / 1000) * speed"

definition calcDurationFromPlaybackStart :: "world \<Rightarrow> room \<Rightarrow> rat" where
  "calcDurationFromPlaybackStart w r = (case r_playbackStart r of
      Some t \<Rightarrow> calculateCurrentPosition t (w_now w) 0 (r_playbackSpeed r)
    | None \<Rightarrow> 0)"

definition realPlaybackPosition :: "world \<Rightarrow> room \<Rightarrow> rat" where
  "realPlaybackPosition w r =
    (if r_playbackStart r \<noteq> None \<and> r_isPlaying r
     then r_playbackPosition r + calcDurationFromPlaybackStart w r
     else r_playbackPosition r)"

section \<open>Votes\<close>

definition voteCounts :: "room \<Rightarrow> (string \<times> nat) list" where
  "voteCounts r = map (\<lambda>(vid, votes). (vid, length votes)) (r_votes r)"

definition vote_key :: "string \<Rightarrow> string \<Rightarrow> string" where
  "vote_key service i = service @ i"

definition votes_for :: "room \<Rightarrow> queueItem \<Rightarrow> nat" where
  "votes_for r v = (case map_of (r_votes r) (vote_key (v_service v) (v_id v)) of
      Some votes \<Rightarrow> length votes | None \<Rightarrow> 0)"

text \<open>\<open>Math.ceil(users * 0.5)\<close>\<close>

definition voteSkipThreshold :: "nat \<Rightarrow> nat" where
  "voteSkipThreshold n = (n + 1) div 2"

definition countEligibleVoters :: "roomUserInfo list \<Rightarrow> grants \<Rightarrow> nat" where
  "countEligibleVoters us g = length (filter (\<lambda>u. granted g (ui_role u) ''playback.skip'') us)"

section \<open>Publishing\<close>

definition publish :: "serverMessage \<Rightarrow> room \<Rightarrow> room" where
  "publish msg r = emit (Publish msg) r"

definition command :: "clientManagerCommand \<Rightarrow> room \<Rightarrow> room" where
  "command cmd r = emit (Command cmd) r"

definition publishRoomEvent ::
  "roomRequest \<Rightarrow> roomRequestContext \<Rightarrow> roomEventContext \<Rightarrow> room \<Rightarrow> unit room_call" where
  "publishRoomEvent request context additional r = (case rc_clientId context of
      None \<Rightarrow> Returns () r
    | Some c \<Rightarrow> (case getUserInfo r c of
          Inl e \<Rightarrow> Throws e r
        | Inr usr \<Rightarrow> Returns () (publish (MsgEvent (ServerMessageEvent request usr additional)) r)))"

definition syncUser :: "roomUserInfo \<Rightarrow> room \<Rightarrow> room" where
  "syncUser info r = publish (MsgUser (UserUpdate (full_user_info info))) r"

section \<open>The playback head\<close>

definition source_service :: "room \<Rightarrow> string option" where
  "source_service r = map_option v_service (r_currentSource r)"

definition count_seconds :: "world \<Rightarrow> room \<Rightarrow> room" where
  "count_seconds w r = emit (SecondsWatched (source_service r) (calcDurationFromPlaybackStart w r)) r"

definition clearQueueItemTrim :: "queueItem \<Rightarrow> queueItem" where
  "clearQueueItemTrim v = v\<lparr>v_startAt := None, v_endAt := None\<rparr>"

definition flushPlaybackPosition :: "world \<Rightarrow> room \<Rightarrow> room" where
  "flushPlaybackPosition w r =
    (let r1 = count_seconds w r
     in set_playbackStart (Some (w_now w)) (set_playbackPosition (realPlaybackPosition w r1) r1))"

definition seekRaw :: "world \<Rightarrow> rat \<Rightarrow> room \<Rightarrow> room" where
  "seekRaw w v r = set_playbackStart (Some (w_now w)) (set_playbackPosition v (count_seconds w r))"

definition play :: "world \<Rightarrow> room \<Rightarrow> room" where
  "play w r = (if r_isPlaying r then r else set_playbackStart (Some (w_now w)) (set_isPlaying True r))"

definition pause :: "world \<Rightarrow> room \<Rightarrow> room" where
  "pause w r = (if \<not> r_isPlaying r then r
    else set_isPlaying False (set_playbackStart None (flushPlaybackPosition w r)))"

definition getSegmentForTime :: "rat \<Rightarrow> room \<Rightarrow> segment option" where
  "getSegmentForTime t r = find (\<lambda>s. sg_startTime s \<le> t \<and> t \<le> sg_endTime s) (r_videoSegments r)"

section \<open>Moving on to the next item\<close>

definition clear_skip_votes :: "room \<Rightarrow> room" where
  "clear_skip_votes r =
    (if r_enableVoteSkip r then room_markDirty PVotesToSkip (r\<lparr>r_votesToSkip := []\<rparr>) else r)"

definition clear_segments :: "room \<Rightarrow> room" where
  "clear_segments r = (if r_videoSegments r \<noteq> [] then set_videoSegments [] r else r)"

text \<open>The branch of Dj mode: restart the current item and return early.\<close>

definition restart_current :: "world \<Rightarrow> queueItem \<Rightarrow> room \<Rightarrow> room" where
  "restart_current w cs r = set_playbackStart (Some (w_now w))
     (set_playbackPosition 0 (set_currentSource (Some (clearQueueItemTrim cs)) r))"

definition take_next :: "world \<Rightarrow> room \<Rightarrow> unit room_call" where
  "take_next w r =
    (if vq_items (r_queue r) \<noteq> []
     then and_then (on_queue dequeue r) (\<lambda>next r1.
        (let r2 = set_currentSource next r1;
             pos = (case next of Some v \<Rightarrow> nullish (v_startAt v) 0 | None \<Rightarrow> 0)
         in Returns () (clear_segments (set_playbackStart (Some (w_now w)) (set_playbackPosition pos r2)))))
     else if r_currentSource r \<noteq> None
     then (let r1 = (if r_isPlaying r then set_isPlaying False r else r)
           in Returns () (set_currentSource None
                (set_playbackStart (Some (w_now w)) (set_playbackPosition 0 r1))))
     else Returns () r)"

definition want_segments :: "world \<Rightarrow> room \<Rightarrow> room" where
  "want_segments w r =
    (if w_sponsorblock_enabled w \<and> r_autoSkipSegmentCategories r \<noteq> [] \<and> r_currentSource r \<noteq> None
     then r\<lparr>r_wantSponsorBlock := True\<rparr> else r)"

definition after_dequeue :: "world \<Rightarrow> room \<Rightarrow> room" where
  "after_dequeue w r =
    (let r1 = want_segments w r;
         r2 = (if r_currentSource r1 = None then clear_segments r1 else r1)
     in set_playbackSpeed 1 r2)"

definition dequeueNext :: "world \<Rightarrow> room \<Rightarrow> unit room_call" where
  "dequeueNext w r =
    (let r0 = clear_skip_votes r
     in case r_currentSource r0 of
          None \<Rightarrow> and_then (take_next w r0) (\<lambda>_ r2. Returns () (after_dequeue w r2))
        | Some cs \<Rightarrow>
           (let r1 = count_seconds w r0
            in if r_queueMode r1 = Dj then Returns () (restart_current w cs r1)
               else and_then
                 (if r_queueMode r1 = Loop then on_queue (enqueue [Some (clearQueueItemTrim cs)]) r1
                  else Returns () r1)
                 (\<lambda>_ r2. and_then (take_next w r2) (\<lambda>_ r3. Returns () (after_dequeue w r3)))))"

section \<open>The periodic update\<close>

definition finished :: "world \<Rightarrow> room \<Rightarrow> bool" where
  "finished w r = (case r_currentSource r of
      None \<Rightarrow> False
    | Some cs \<Rightarrow> r_isPlaying r \<and> realPlaybackPosition w r > nullish (v_endAt cs) (nullish (v_length cs) 0))"

definition advance :: "world \<Rightarrow> room \<Rightarrow> unit room_call" where
  "advance w r =
    (if (r_currentSource r = None \<and> vq_items (r_queue r) \<noteq> []) \<or> finished w r
     then (let r1 = (case r_currentSource r of
                 Some cs \<Rightarrow> (if finished w r then emit (MediaWatched (v_service cs)) r else r)
               | None \<Rightarrow> r)
           in dequeueNext w r1)
     else Returns () r)"

definition keep_alive :: "world \<Rightarrow> room \<Rightarrow> room" where
  "keep_alive w r =
    (if users r \<noteq> [] \<and> r_keepAlivePing r + w_unload_after w * 500 < w_now w
     then emit (RedisExpire (''room:'' @ r_name r) (w_expire_after w)) (r\<lparr>r_keepAlivePing := w_now w\<rparr>)
     else r)"

definition order_by_votes :: "room \<Rightarrow> unit room_call" where
  "order_by_votes r =
    (if r_queueMode r = Vote then on_queue (orderByDesc (votes_for r)) r else Returns () r)"

text \<open>A failing request to Sponsorblock is logged and swallowed by \<open>update\<close>.\<close>

definition fetchSponsorBlockSegments :: "world \<Rightarrow> room \<Rightarrow> unit room_call" where
  "fetchSponsorBlockSegments w r = (case r_currentSource r of
      None \<Rightarrow> Returns () (clear_segments r)
    | Some cs \<Rightarrow>
       (if v_service cs \<noteq> ''youtube'' then Returns () (clear_segments r)
        else (case w_fetchSegments w (v_id cs) of
            Inl e \<Rightarrow> Throws e r
          | Inr segs \<Rightarrow> Returns () (set_videoSegments segs r))))"

definition fetch_if_wanted :: "world \<Rightarrow> room \<Rightarrow> room" where
  "fetch_if_wanted w r =
    (if r_wantSponsorBlock r then final_state (fetchSponsorBlockSegments w (r\<lparr>r_wantSponsorBlock := False\<rparr>))
     else r)"

definition resume_skipping :: "world \<Rightarrow> room \<Rightarrow> room" where
  "resume_skipping w r =
    (if truthy_num (r_dontSkipSegmentsUntil r)
        \<and> realPlaybackPosition w r \<ge> nullish (r_dontSkipSegmentsUntil r) 0
     then r\<lparr>r_dontSkipSegmentsUntil := None\<rparr> else r)"

definition skip_segment :: "world \<Rightarrow> room \<Rightarrow> room" where
  "skip_segment w r =
    (if r_isPlaying r \<and> r_videoSegments r \<noteq> [] \<and> r_dontSkipSegmentsUntil r = None
     then (case getSegmentForTime (realPlaybackPosition w r) r of
         None \<Rightarrow> r
       | Some s \<Rightarrow>
          (if sg_category s \<in> set (r_autoSkipSegmentCategories r)
           then publish (MsgEventCustom (''Skipped '' @ sg_category s) None) (seekRaw w (sg_endTime s) r)
           else r))
     else r)"

definition auto_skip :: "world \<Rightarrow> room \<Rightarrow> room" where
  "auto_skip w r =
    (if w_sponsorblock_enabled w \<and> r_autoSkipSegmentCategories r \<noteq> []
     then skip_segment w (resume_skipping w (fetch_if_wanted w r))
     else r)"

definition update :: "world \<Rightarrow> room \<Rightarrow> unit room_call" where
  "update w r = and_then (advance w r) (\<lambda>_ r1.
     and_then (order_by_votes (keep_alive w r1)) (\<lambda>_ r2. Returns () (auto_skip w r2)))"

text \<open>\<open>dayjs().diff(ping, "seconds")\<close> truncates towards zero.\<close>

definition diff_seconds :: "int \<Rightarrow> int \<Rightarrow> int" where
  "diff_seconds a b = (if a \<ge> b then (a - b) div 1000 else - ((b - a) div 1000))"

definition isStale :: "world \<Rightarrow> room \<Rightarrow> bool" where
  "isStale w r \<longleftrightarrow> diff_seconds (w_now w) (r_keepAlivePing r) > w_unload_after w"

definition isVideoInQueue :: "videoId \<Rightarrow> room \<Rightarrow> bool" where
  "isVideoInQueue v r \<longleftrightarrow>
    (case r_currentSource r of Some cs \<Rightarrow> same_video v cs | None \<Rightarrow> False) \<or> contains_video v (r_queue r)"

end
