(* ===== verification/RoomHandlers.thy ===== *)
theory RoomHandlers
  imports RoomPlayback
begin

text \<open>
  The request handlers of \<open>server/room.ts\<close>, one definition per handler, except \<open>undo\<close>, which calls
  back into \<open>processRequest\<close> and stands with it in the next theory. A handler takes the fields of
  its request, the context of the caller and the room, and returns or throws with the room it leaves.
  \<open>canKickUser\<close> is from \<open>common/userutils.ts\<close>.
\<close>

named_theorems handler_defs \<open>the definitions of the request handlers\<close>

section \<open>Playback\<close>

definition playback :: "world \<Rightarrow> bool \<Rightarrow> roomRequestContext \<Rightarrow> room \<Rightarrow> unit room_call" where
  "playback w st context r =
    publishRoomEvent (PlaybackRequest st) context no_context (if st then play w r else pause w r)"

definition toggle_skip_vote :: "roomRequestContext \<Rightarrow> room \<Rightarrow> room" where
  "toggle_skip_vote context r =
    (if truthy_str (rc_clientId context)
     then (let c = nullish (rc_clientId context) ''''
           in room_markDirty PVotesToSkip
                (if c \<in> set (r_votesToSkip r) then r\<lparr>r_votesToSkip := js_set_delete c (r_votesToSkip r)\<rparr>
                 else r\<lparr>r_votesToSkip := js_set_add c (r_votesToSkip r)\<rparr>))
     else r)"

definition do_skip :: "world \<Rightarrow> roomRequestContext \<Rightarrow> room \<Rightarrow> unit room_call" where
  "do_skip w context r = (case r_currentSource r of
      None \<Rightarrow> Returns () r
    | Some current \<Rightarrow>
       (let prevPosition = realPlaybackPosition w r
        in and_then (dequeueNext w (emit (MediaSkipped (v_service current)) r)) (\<lambda>_ r1.
           and_then (publishRoomEvent SkipRequest context
               (no_context\<lparr>ec_video := Some current, ec_prevPosition := Some prevPosition\<rparr>) r1) (\<lambda>_ r2.
           Returns () (set_videoSegments [] r2)))))"

definition skip :: "world \<Rightarrow> roomRequestContext \<Rightarrow> room \<Rightarrow> unit room_call" where
  "skip w context r =
    (if r_currentSource r = None then Returns () r
     else if r_enableVoteSkip r
     then (let r1 = toggle_skip_vote context r;
               eligible = countEligibleVoters (users r1) (r_grants r1)
           in if length (r_votesToSkip r1) \<ge> voteSkipThreshold eligible then do_skip w context r1
              else Returns () r1)
     else do_skip w context r)"

definition seek :: "world \<Rightarrow> rat option \<Rightarrow> roomRequestContext \<Rightarrow> room \<Rightarrow> unit room_call" where
  "seek w mv context r = (case mv of
      None \<Rightarrow> Returns () r
    | Some v \<Rightarrow>
       (let prev = realPlaybackPosition w r
        in and_then (publishRoomEvent (SeekRequest (Some v)) context
              (no_context\<lparr>ec_prevPosition := Some prev\<rparr>) (seekRaw w v r)) (\<lambda>_ r1.
           Returns () (r1\<lparr>r_dontSkipSegmentsUntil :=
             map_option sg_endTime (getSegmentForTime (r_playbackPosition r1) r1)\<rparr>))))"

definition setPlaybackSpeed :: "world \<Rightarrow> rat \<Rightarrow> room \<Rightarrow> unit room_call" where
  "setPlaybackSpeed w speed r = Returns () (set_playbackSpeed speed (flushPlaybackPosition w r))"

section \<open>The queue\<close>

definition is_vtt :: "string \<Rightarrow> bool" where
  "is_vtt url \<longleftrightarrow> last (split_on (CHR ''.'') url) = ''vtt''"

definition resolve_url :: "world \<Rightarrow> string \<Rightarrow> exn + videoAdd" where
  "resolve_url w url = (case w_adapterForURL w url of
      Inl e \<Rightarrow> Inl e
    | Inr (serviceId, Inl e) \<Rightarrow> Inl e
    | Inr (serviceId, Inr i) \<Rightarrow> Inr \<lparr>va_service = serviceId, va_id = i, va_startAt = None,
        va_endAt = None, va_subtitleUrl = None\<rparr>)"

definition add_one ::
  "world \<Rightarrow> videoAdd \<Rightarrow> roomRequest \<Rightarrow> roomRequestContext \<Rightarrow> room \<Rightarrow> unit room_call" where
  "add_one w add request context r =
    (if isVideoInQueue (videoAdd_id add) r then Throws VideoAlreadyQueuedException r
     else (case w_getVideoInfo w (va_service add) (va_id add) of
         Inl e \<Rightarrow> Throws e r
       | Inr None \<Rightarrow> Throws (JsError ''video was undefined'') r
       | Inr (Some video) \<Rightarrow>
          (if truthy_str (va_subtitleUrl add) \<and> \<not> is_vtt (nullish (va_subtitleUrl add) '''')
           then Throws UnsupportedSubtitleType r
           else (let video' = (if truthy_str (va_subtitleUrl add)
                    then video\<lparr>v_subtitleUrl := va_subtitleUrl add\<rparr> else video)
                 in and_then (on_queue (enqueue [Some video']) r) (\<lambda>_ r1.
                    and_then (publishRoomEvent request context (no_context\<lparr>ec_video := Some video'\<rparr>)
                        (set_prevQueue None r1)) (\<lambda>_ r2.
                    Returns () (emit (MediaQueued (v_service video')) r2)))))))"

text \<open>
  The loop over the videos: an undefined entry throws, an entry that is in the queue already is
  dropped.
\<close>

fun keep_new :: "room \<Rightarrow> video option list \<Rightarrow> exn + video list" where
  "keep_new r [] = Inr []"
| "keep_new r (None # vs) = Inl (JsError ''video was undefined'')"
| "keep_new r (Some v # vs) = (case keep_new r vs of
      Inl e \<Rightarrow> Inl e
    | Inr rest \<Rightarrow> Inr (if isVideoInQueue (videoId_of v) r then rest else v # rest))"

definition add_many ::
  "world \<Rightarrow> videoAdd list \<Rightarrow> roomRequest \<Rightarrow> roomRequestContext \<Rightarrow> room \<Rightarrow> unit room_call" where
  "add_many w adds request context r = (case w_getManyVideoInfo w adds of
      Inl e \<Rightarrow> Throws e r
    | Inr found \<Rightarrow> (case keep_new r found of
        Inl e \<Rightarrow> Throws e r
      | Inr videos \<Rightarrow>
         (if videos = [] then Throws VideoAlreadyQueuedException r
          else and_then (on_queue (enqueue (map Some videos)) r) (\<lambda>_ r1.
               and_then (publishRoomEvent request context (no_context\<lparr>ec_videos := Some videos\<rparr>) r1) (\<lambda>_ r2.
               Returns () (fold (\<lambda>v. emit (MediaQueued (v_service v))) videos r2))))))"

definition addToQueue :: "world \<Rightarrow> videoAdd option \<Rightarrow> videoAdd list option \<Rightarrow> string option
    \<Rightarrow> roomRequestContext \<Rightarrow> room \<Rightarrow> unit room_call" where
  "addToQueue w mv mvs murl context r =
    (case (if truthy_str murl then map_sum id Some (resolve_url w (nullish murl '''')) else Inr mv) of
       Inl e \<Rightarrow> Throws e r
     | Inr (Some add) \<Rightarrow> add_one w add (AddRequest (Some add) mvs murl) context r
     | Inr None \<Rightarrow> (case mvs of
           Some adds \<Rightarrow> add_many w adds (AddRequest None mvs murl) context r
         | None \<Rightarrow> Returns () r))"

text \<open>\<open>request.update.subtitleUrl\<close> is a string or absent.\<close>

definition updateQueueItem ::
  "videoId \<Rightarrow> queueItemExtras \<Rightarrow> roomRequestContext \<Rightarrow> room \<Rightarrow> unit room_call" where
  "updateQueueItem vid patch context r =
    (if (case qe_subtitleUrl patch of Some (Some url) \<Rightarrow> \<not> ends_with ''.vtt'' url | _ \<Rightarrow> False)
     then Throws UnsupportedSubtitleType r
     else and_then (on_queue (update_item vid patch) r) (\<lambda>_ r1.
          publishRoomEvent (UpdateQueueItemRequest vid patch) context no_context r1))"

definition removeFromQueue :: "videoId \<Rightarrow> roomRequestContext \<Rightarrow> room \<Rightarrow> unit room_call" where
  "removeFromQueue vid context r =
    (if \<not> contains_video vid (r_queue r) then Throws VideoNotFoundException r
     else and_then (on_queue (evict vid) r) (\<lambda>(matchIdx, removed) r1.
          publishRoomEvent (RemoveRequest vid) context
            (no_context\<lparr>ec_video := Some removed, ec_queueIdx := Some (int matchIdx)\<rparr>) r1))"

definition reorderQueue :: "int \<Rightarrow> int \<Rightarrow> room \<Rightarrow> unit room_call" where
  "reorderQueue fromIdx toIdx r = on_queue (move fromIdx toIdx) r"

definition shuffle :: "world \<Rightarrow> roomRequestContext \<Rightarrow> room \<Rightarrow> unit room_call" where
  "shuffle w context r = (case check (r_grants r) (rc_role context) ''manage-queue.order'' of
      Inl e \<Rightarrow> Throws e r
    | Inr _ \<Rightarrow> on_queue (shuffle_items (w_shuffle w)) r)"

definition restoreQueue :: "bool option \<Rightarrow> room \<Rightarrow> unit room_call" where
  "restoreQueue disc r = (case r_prevQueue r of
      None \<Rightarrow> Throws (JsError ''No previous queue to restore'') r
    | Some prev \<Rightarrow>
       (if truthy_bool disc then Returns () (set_prevQueue None r)
        else and_then (on_queue (enqueue (map Some prev)) r) (\<lambda>_ r1. Returns () (set_prevQueue None r1))))"

text \<open>
  \<open>playNow\<close>: the video comes out of the queue or from the info extractor; the current one goes to
  the top of the queue with its position. An extractor that answers \<open>undefined\<close> leaves the room
  without a current source.
\<close>

definition find_to_play :: "world \<Rightarrow> videoAdd \<Rightarrow> room \<Rightarrow> video option room_call" where
  "find_to_play w add r =
    (if isVideoInQueue (videoAdd_id add) r
     then and_then (on_queue (evict (videoAdd_id add)) r) (\<lambda>(_, item) r1. Returns (Some item) r1)
     else (case w_getVideoInfo w (va_service add) (va_id add) of
         Inl e \<Rightarrow> Throws e r | Inr v \<Rightarrow> Returns v r))"

definition with_subtitle :: "videoAdd \<Rightarrow> video option \<Rightarrow> room \<Rightarrow> video option room_call" where
  "with_subtitle add mv r =
    (if truthy_str (va_subtitleUrl add)
     then (if \<not> is_vtt (nullish (va_subtitleUrl add) '''') then Throws UnsupportedSubtitleType r
           else (case mv of
               None \<Rightarrow> Throws (JsTypeError ''Cannot set properties of undefined'') r
             | Some v \<Rightarrow> Returns (Some (v\<lparr>v_subtitleUrl := va_subtitleUrl add\<rparr>)) r))
     else Returns mv r)"

definition push_current :: "world \<Rightarrow> room \<Rightarrow> unit room_call" where
  "push_current w r = (case r_currentSource r of
      None \<Rightarrow> Returns () r
    | Some cs \<Rightarrow> (let cs' = cs\<lparr>v_startAt := Some (realPlaybackPosition w r)\<rparr>
                in on_queue (pushTop [Some cs']) (r\<lparr>r_currentSource := Some cs'\<rparr>)))"

definition start_playing :: "world \<Rightarrow> video option \<Rightarrow> room \<Rightarrow> room" where
  "start_playing w mv r =
    (let r1 = set_videoSegments [] (set_playbackStart (Some (w_now w)) (set_playbackPosition 0
                (room_markDirty PQueue (set_currentSource mv r))))
     in if r_autoSkipSegmentCategories r1 \<noteq> [] then r1\<lparr>r_wantSponsorBlock := True\<rparr> else r1)"

definition playNow :: "world \<Rightarrow> videoAdd \<Rightarrow> roomRequestContext \<Rightarrow> room \<Rightarrow> unit room_call" where
  "playNow w add context r =
    (if (case r_currentSource r of Some cs \<Rightarrow> same_video (videoAdd_id add) cs | None \<Rightarrow> False)
     then Returns () r
     else (case check (r_grants r) (rc_role context)
             (if isVideoInQueue (videoAdd_id add) r then ''manage-queue.order'' else ''manage-queue.add'') of
         Inl e \<Rightarrow> Throws e r
       | Inr _ \<Rightarrow> and_then (find_to_play w add r) (\<lambda>mv r1.
           and_then (with_subtitle add mv r1) (\<lambda>mv' r2.
           and_then (push_current w r2) (\<lambda>_ r3. Returns () (start_playing w mv' r3))))))"

definition vote :: "videoId \<Rightarrow> bool \<Rightarrow> roomRequestContext \<Rightarrow> room \<Rightarrow> unit room_call" where
  "vote vid add context r =
    (if \<not> truthy_str (rc_clientId context)
     then Throws (OttException ''Can't vote if not connected to room.'') r
     else (let c = nullish (rc_clientId context) ''''; key = vote_key (vi_service vid) (vi_id vid);
               votes' = (case map_of (r_votes r) key of
                   Some vs \<Rightarrow> AList.update key (if add then js_set_add c vs else js_set_delete c vs) (r_votes r)
                 | None \<Rightarrow> (if add then AList.update key [c] (r_votes r) else r_votes r))
           in Returns () (room_markDirty PVoteCounts (r\<lparr>r_votes := votes'\<rparr>))))"

section \<open>Users\<close>

definition joinRoom :: "world \<Rightarrow> clientInfo \<Rightarrow> roomRequestContext \<Rightarrow> room \<Rightarrow> unit room_call" where
  "joinRoom w info context r =
    (case rc_auth context of
       None \<Rightarrow> Throws (JsError ''No auth token'') r
     | Some auth \<Rightarrow>
        (if ra_token auth = [] then Throws (JsError ''No auth token'') r
         else (case updateInfo w info (newRoomUser (ci_id info) (ra_token auth)) of
             Throws e u \<Rightarrow> Throws e r
           | Returns _ u \<Rightarrow>
              and_then (publishRoomEvent (JoinRequest info) context no_context
                  (r\<lparr>r_realusers := r_realusers r @ [u]\<rparr>)) (\<lambda>_ r1.
                (let r2 = publish (MsgSync (empty_sync\<lparr>sy_playbackPosition :=
                       Some (realPlaybackPosition w r1)\<rparr>)) r1
                 in case getUserInfo r2 (ru_id u) of
                      Inl e \<Rightarrow> Throws e r2
                    | Inr i \<Rightarrow> Returns () (syncUser i r2))))))"

fun drop_user :: "clientId \<Rightarrow> roomUser list \<Rightarrow> roomUser list" where
  "drop_user c [] = []"
| "drop_user c (u # us) = (if ru_id u = c then us else u # drop_user c us)"

text \<open>\<open>votes.forEach\<close>: the property is marked only when some vote was deleted.\<close>

definition drop_votes :: "clientId \<Rightarrow> room \<Rightarrow> room" where
  "drop_votes c r =
    (let r1 = r\<lparr>r_votes := map (\<lambda>(k, vs). (k, js_set_delete c vs)) (r_votes r)\<rparr>
     in if list_ex (\<lambda>(k, vs). c \<in> set vs) (r_votes r) then room_markDirty PVoteCounts r1 else r1)"

definition leaveRoom :: "roomRequestContext \<Rightarrow> room \<Rightarrow> unit room_call" where
  "leaveRoom context r = (case rc_clientId context of
      None \<Rightarrow> Throws (JsError ''context.clientId was undefined'') r
    | Some c \<Rightarrow> (case getUserInfo r c of
        Inl e \<Rightarrow> Throws e r
      | Inr removed \<Rightarrow>
         and_then (publishRoomEvent LeaveRequest context (no_context\<lparr>ec_user := Some removed\<rparr>) r) (\<lambda>_ r1.
           (let r2 = (if r_enableVoteSkip r1
                then room_markDirty PVotesToSkip (r1\<lparr>r_votesToSkip := js_set_delete c (r_votesToSkip r1)\<rparr>)
                else r1);
              r3 = (if r_queueMode r2 = Vote then drop_votes (ui_id removed) r2 else r2)
            in Returns () (r3\<lparr>r_realusers := drop_user c (r_realusers r3)\<rparr>)))))"

text \<open>
  \<open>updateInfo\<close> mutates the user in place, so a failing lookup of the account leaves the user with
  the new \<open>user_id\<close>.
\<close>

definition updateUser :: "world \<Rightarrow> clientInfo \<Rightarrow> room \<Rightarrow> unit room_call" where
  "updateUser w info r = (case find_index (\<lambda>u. ru_id u = ci_id info) (r_realusers r) of
      None \<Rightarrow> Returns () r
    | Some i \<Rightarrow> (case updateInfo w info (r_realusers r ! i) of
        Throws e u \<Rightarrow> Throws e (r\<lparr>r_realusers := (r_realusers r)[i := u]\<rparr>)
      | Returns _ u \<Rightarrow>
         (let r1 = r\<lparr>r_realusers := (r_realusers r)[i := u]\<rparr>
          in case getUserInfo r1 (ru_id u) of Inl e \<Rightarrow> Throws e r1 | Inr i' \<Rightarrow> Returns () (syncUser i' r1))))"

definition chat :: "string \<Rightarrow> roomRequestContext \<Rightarrow> room \<Rightarrow> unit room_call" where
  "chat msg context r = (case rc_clientId context of
      None \<Rightarrow> Throws (JsError ''context.clientId was undefined'') r
    | Some c \<Rightarrow> (case getUserInfo r c of
        Inl e \<Rightarrow> Throws e r | Inr usr \<Rightarrow> Returns () (publish (MsgChat usr msg) r)))"

definition canKickUser :: "role \<Rightarrow> role \<Rightarrow> bool" where
  "canKickUser yourRole targetRole \<longleftrightarrow>
    yourRole = Owner \<or> (yourRole > targetRole \<and> targetRole \<noteq> Owner)"

definition kickUser :: "clientId \<Rightarrow> roomRequestContext \<Rightarrow> room \<Rightarrow> unit room_call" where
  "kickUser c context r = (case getUser r c of
      None \<Rightarrow> Throws (ClientNotFoundInRoomException (r_name r)) r
    | Some u \<Rightarrow>
       Returns () (if canKickUser (rc_role context) (getRole r (Some u)) then command (CmdKick c) r else r))"

subsection \<open>Promotion\<close>

definition promotion_perm :: "role \<Rightarrow> string option" where
  "promotion_perm role =
    (if role = Administrator then Some ''manage-users.promote-admin''
     else if role = Moderator then Some ''manage-users.promote-moderator''
     else if role = TrustedUser then Some ''manage-users.promote-trusted-user''
     else None)"

definition demotion_perm :: "role \<Rightarrow> string option" where
  "demotion_perm role =
    (if role = Administrator then Some ''manage-users.demote-admin''
     else if role = Moderator then Some ''manage-users.demote-moderator''
     else if role = TrustedUser then Some ''manage-users.demote-trusted-user''
     else None)"

definition promotion_allowed :: "grants \<Rightarrow> role \<Rightarrow> role \<Rightarrow> role \<Rightarrow> exn + unit" where
  "promotion_allowed g callerRole newRole current =
    (case (case promotion_perm newRole of Some p \<Rightarrow> check g callerRole p | None \<Rightarrow> Inr ()) of
       Inl e \<Rightarrow> Inl e
     | Inr _ \<Rightarrow>
        (case (if newRole < current
               then (case demotion_perm current of
                   Some p \<Rightarrow> check g callerRole p | None \<Rightarrow> Inl ImpossiblePromotionException)
               else Inr ()) of
           Inl e \<Rightarrow> Inl e
         | Inr _ \<Rightarrow> (if current = UnregisteredUser then Inl ImpossiblePromotionException else Inr ())))"

definition modify_role :: "(int js_set \<Rightarrow> int js_set) \<Rightarrow> role \<Rightarrow> userRoles \<Rightarrow> userRoles" where
  "modify_role f i roles = (case map_of roles i of Some s \<Rightarrow> AList.update i (f s) roles | None \<Rightarrow> roles)"

definition assign_role :: "role \<Rightarrow> int \<Rightarrow> userRoles \<Rightarrow> userRoles" where
  "assign_role newRole uid roles =
    (let cleared = fold (modify_role (js_set_delete uid)) [Administrator, Moderator, TrustedUser] roles
     in if newRole \<ge> TrustedUser then modify_role (js_set_add uid) newRole cleared else cleared)"

text \<open>\<open>storage.updateRoom(this)\<close>: every persistable property is present.\<close>

definition whole_room :: "room \<Rightarrow> roomPersistable" where
  "whole_room r = \<lparr>rp_name = r_name r, rp_title = Some (r_title r), rp_description = Some (r_description r),
     rp_visibility = Some (r_visibility r), rp_queueMode = Some (r_queueMode r),
     rp_autoSkipSegmentCategories = Some (r_autoSkipSegmentCategories r), rp_grants = Some (r_grants r),
     rp_userRoles = Some (r_userRoles r), rp_owner = r_owner r, rp_prevQueue = Some (r_prevQueue r),
     rp_restoreQueueBehavior = Some (r_restoreQueueBehavior r), rp_enableVoteSkip = Some (r_enableVoteSkip r)\<rparr>"

definition promoteUser :: "clientId \<Rightarrow> role \<Rightarrow> roomRequestContext \<Rightarrow> room \<Rightarrow> unit room_call" where
  "promoteUser target newRole context r = (case getUser r target of
      None \<Rightarrow> Throws (OttException ''Client not found.'') r
    | Some u \<Rightarrow> (case promotion_allowed (r_grants r) (rc_role context) newRole (getRole r (Some u)) of
        Inl e \<Rightarrow> Throws e r
      | Inr _ \<Rightarrow>
         (let r1 = (case ru_user_id u of
                Some uid \<Rightarrow> r\<lparr>r_userRoles := assign_role newRole uid (r_userRoles r)\<rparr>
              | None \<Rightarrow> r)
          in case getUserInfo r1 (ru_id u) of
               Inl e \<Rightarrow> Throws e r1
             | Inr i \<Rightarrow> (let r2 = syncUser i r1
                       in Returns () (if r_isTemporary r2 then r2
                            else emit (StorageUpdateRoom (whole_room r2)) r2)))))"

end
