(* ===== verification/RoomRequests.thy ===== *)
theory RoomRequests
  imports RoomHandlers
begin

text \<open>
  How \<open>server/room.ts\<close> answers a request: settings, the permission table, the dispatch to a handler,
  \<open>undo\<close>, and the three ways in (\<open>processRequest\<close>, \<open>processUnauthorizedRequest\<close>,
  \<open>processRequestUnsafe\<close>).
\<close>

section \<open>Settings\<close>

definition unless_same :: "'a \<Rightarrow> 'a option \<Rightarrow> 'a option" where
  "unless_same cur v = (if v = Some cur then None else v)"

text \<open>
  \<open>===\<close> compares the array of skip categories by identity, and the request's array is never the
  room's own, so that property is always kept.
\<close>

definition drop_unchanged :: "room \<Rightarrow> roomSettings \<Rightarrow> roomSettings" where
  "drop_unchanged r s = s\<lparr>
     st_title := unless_same (r_title r) (st_title s),
     st_description := unless_same (r_description r) (st_description s),
     st_visibility := unless_same (r_visibility r) (st_visibility s),
     st_queueMode := unless_same (r_queueMode r) (st_queueMode s),
     st_restoreQueueBehavior := unless_same (r_restoreQueueBehavior r) (st_restoreQueueBehavior s),
     st_enableVoteSkip := unless_same (r_enableVoteSkip r) (st_enableVoteSkip s)\<rparr>"

text \<open>The roles of \<open>roleToPerms\<close> with their permissions.\<close>

definition role_to_perm :: "role \<Rightarrow> string option" where
  "role_to_perm role =
    (if role = UnregisteredUser then Some ''configure-room.set-permissions.for-all-unregistered-users''
     else if role = RegisteredUser then Some ''configure-room.set-permissions.for-all-registered-users''
     else if role = TrustedUser then Some ''configure-room.set-permissions.for-trusted-users''
     else if role = Moderator then Some ''configure-room.set-permissions.for-moderator''
     else None)"

definition drop_role :: "grants \<Rightarrow> role \<Rightarrow> grants \<Rightarrow> grants" where
  "drop_role cur role g =
    (if role_to_perm role = None \<or> getMask g role = getMask cur role then deleteRole role g else g)"

definition drop_unchanged_grants :: "room \<Rightarrow> roomSettings \<Rightarrow> roomSettings" where
  "drop_unchanged_grants r s = (case st_grants s of
      None \<Rightarrow> s
    | Some g \<Rightarrow> (let g' = fold (drop_role (r_grants r)) (getRoles g) g
               in s\<lparr>st_grants := (if isEmpty g' then None else Some g')\<rparr>))"

definition prop_perm :: "'a option \<Rightarrow> string \<Rightarrow> string list" where
  "prop_perm v p = (if v = None then [] else [p])"

definition settings_perms :: "roomSettings \<Rightarrow> string list" where
  "settings_perms s =
    prop_perm (st_title s) ''configure-room.set-title''
    @ prop_perm (st_description s) ''configure-room.set-description''
    @ prop_perm (st_visibility s) ''configure-room.set-visibility''
    @ prop_perm (st_queueMode s) ''configure-room.set-queue-mode''
    @ prop_perm (st_autoSkipSegmentCategories s) ''configure-room.other''
    @ prop_perm (st_restoreQueueBehavior s) ''configure-room.other''
    @ prop_perm (st_enableVoteSkip s) ''configure-room.other''
    @ (case st_grants s of None \<Rightarrow> []
       | Some g \<Rightarrow> List.map_filter role_to_perm (getRoles g))"

fun check_all :: "grants \<Rightarrow> role \<Rightarrow> string list \<Rightarrow> exn + unit" where
  "check_all g role [] = Inr ()"
| "check_all g role (p # ps) = (case check g role p of Inl e \<Rightarrow> Inl e | Inr _ \<Rightarrow> check_all g role ps)"

text \<open>
  The categories a request asks for, in canonical order when they differ as a set from the current
  ones; the flag says that they differ.
\<close>

definition normalise_categories :: "room \<Rightarrow> roomSettings \<Rightarrow> roomSettings \<times> bool" where
  "normalise_categories r s = (case st_autoSkipSegmentCategories s of
      None \<Rightarrow> (s, False)
    | Some cats \<Rightarrow>
       (if set cats = set (r_autoSkipSegmentCategories r) then (s, False)
        else (s\<lparr>st_autoSkipSegmentCategories := Some (filter (\<lambda>c. c \<in> set cats) ALL_SKIP_CATEGORIES)\<rparr>, True)))"

definition apply_props :: "roomSettings \<Rightarrow> room \<Rightarrow> room" where
  "apply_props s r =
     pick (st_enableVoteSkip s) set_enableVoteSkip
    (pick (st_restoreQueueBehavior s) (\<lambda>v r. r\<lparr>r_restoreQueueBehavior := v\<rparr>)
    (pick (st_autoSkipSegmentCategories s) set_autoSkipSegmentCategories
    (pick (st_queueMode s) set_queueMode
    (pick (st_visibility s) set_visibility
    (pick (st_description s) set_description
    (pick (st_title s) set_title r))))))"

fun apply_grants :: "grants \<Rightarrow> role list \<Rightarrow> room \<Rightarrow> unit room_call" where
  "apply_grants new [] r = Returns () r"
| "apply_grants new (role # rest) r =
    (if role_to_perm role = None then apply_grants new rest r
     else (case setRoleGrants role (mask_num (getMask new role)) (r_grants r) of
         Inl e \<Rightarrow> Throws e r
       | Inr g \<Rightarrow> apply_grants new rest (room_markDirty PGrants (r\<lparr>r_grants := g\<rparr>))))"

definition want_on_enable :: "bool \<Rightarrow> room \<Rightarrow> room" where
  "want_on_enable changed r =
    (if changed \<and> r_autoSkipSegmentCategories r \<noteq> [] \<and> r_videoSegments r = [] \<and> r_currentSource r \<noteq> None
     then r\<lparr>r_wantSponsorBlock := True\<rparr> else r)"

definition applySettings :: "roomSettings \<Rightarrow> roomRequestContext \<Rightarrow> room \<Rightarrow> unit room_call" where
  "applySettings settings context r =
    (let s1 = drop_unchanged_grants r (drop_unchanged r settings)
     in case check_all (r_grants r) (rc_role context) (settings_perms s1) of
          Inl e \<Rightarrow> Throws e r
        | Inr _ \<Rightarrow>
           (let (s2, changed) = normalise_categories r s1;
                r1 = apply_props s2 r
            in and_then
                 (case st_grants s2 of None \<Rightarrow> Returns () r1 | Some g \<Rightarrow> apply_grants g (getRoles g) r1)
                 (\<lambda>_ r2. Returns () (want_on_enable changed r2))))"

text \<open>
  \<open>setGrants\<close>: the keys of a \<open>Grants\<close> object are valid roles, so the failing branch is not
  reached with one.
\<close>

definition setGrants :: "grants \<Rightarrow> room \<Rightarrow> unit room_call" where
  "setGrants g r = (case setAllGrants g of
      Inl e \<Rightarrow> Throws e r
    | Inr g' \<Rightarrow> Returns () (room_markDirty PGrants (r\<lparr>r_grants := g'\<rparr>)))"

section \<open>Dispatch\<close>

primrec request_perm :: "roomRequest \<Rightarrow> string option" where
  "request_perm (JoinRequest i) = None"
| "request_perm LeaveRequest = None"
| "request_perm (PlaybackRequest b) = Some ''playback.play-pause''"
| "request_perm SkipRequest = Some ''playback.skip''"
| "request_perm (SeekRequest v) = Some ''playback.seek''"
| "request_perm (AddRequest v vs u) = Some ''manage-queue.add''"
| "request_perm (RemoveRequest v) = Some ''manage-queue.remove''"
| "request_perm (OrderRequest i j) = Some ''manage-queue.order''"
| "request_perm (VoteRequest v a) = Some ''manage-queue.vote''"
| "request_perm (PromoteRequest c r) = None"
| "request_perm (UpdateUser i) = None"
| "request_perm (ChatRequest t) = Some ''chat''"
| "request_perm (UndoRequest e) = None"
| "request_perm (ApplySettingsRequest s) = None"
| "request_perm (PlayNowRequest v) = Some ''manage-queue.play-now''"
| "request_perm ShuffleRequest = Some ''manage-queue.order''"
| "request_perm (PlaybackSpeedRequest s) = Some ''playback.speed''"
| "request_perm (RestoreQueueRequest d) = None"
| "request_perm (KickRequest c) = Some ''manage-users.kick''"
| "request_perm (UpdateQueueItemRequest v x) = Some ''manage-queue.edit''"

definition permitted :: "roomRequest \<Rightarrow> roomRequestContext \<Rightarrow> room \<Rightarrow> exn + unit" where
  "permitted request context r = (case request_perm request of
      None \<Rightarrow> Inr () | Some p \<Rightarrow> check (r_grants r) (rc_role context) p)"

text \<open>The handler of every request but an undo.\<close>

primrec run_handler :: "roomRequest \<Rightarrow> world \<Rightarrow> roomRequestContext \<Rightarrow> room \<Rightarrow> unit room_call" where
  "run_handler (JoinRequest i) w context r = joinRoom w i context r"
| "run_handler LeaveRequest w context r = leaveRoom context r"
| "run_handler (PlaybackRequest b) w context r = playback w b context r"
| "run_handler SkipRequest w context r = skip w context r"
| "run_handler (SeekRequest v) w context r = seek w v context r"
| "run_handler (AddRequest v vs u) w context r = addToQueue w v vs u context r"
| "run_handler (RemoveRequest v) w context r = removeFromQueue v context r"
| "run_handler (OrderRequest i j) w context r = reorderQueue i j r"
| "run_handler (VoteRequest v a) w context r = vote v a context r"
| "run_handler (PromoteRequest c ro) w context r = promoteUser c ro context r"
| "run_handler (UpdateUser i) w context r = updateUser w i r"
| "run_handler (ChatRequest t) w context r = chat t context r"
| "run_handler (UndoRequest e) w context r = Returns () r"
| "run_handler (ApplySettingsRequest s) w context r = applySettings s context r"
| "run_handler (PlayNowRequest v) w context r = playNow w v context r"
| "run_handler ShuffleRequest w context r = shuffle w context r"
| "run_handler (PlaybackSpeedRequest s) w context r = setPlaybackSpeed w s r"
| "run_handler (RestoreQueueRequest d) w context r = restoreQueue d r"
| "run_handler (KickRequest c) w context r = kickUser c context r"
| "run_handler (UpdateQueueItemRequest v x) w context r = updateQueueItem v x context r"

primrec undone_event :: "roomRequest \<Rightarrow> serverMessageEvent option" where
  "undone_event (UndoRequest e) = Some e"
| "undone_event (JoinRequest i) = None"
| "undone_event LeaveRequest = None"
| "undone_event (PlaybackRequest b) = None"
| "undone_event SkipRequest = None"
| "undone_event (SeekRequest v) = None"
| "undone_event (AddRequest v vs u) = None"
| "undone_event (RemoveRequest v) = None"
| "undone_event (OrderRequest i j) = None"
| "undone_event (VoteRequest v a) = None"
| "undone_event (PromoteRequest c r) = None"
| "undone_event (UpdateUser i) = None"
| "undone_event (ChatRequest t) = None"
| "undone_event (ApplySettingsRequest s) = None"
| "undone_event (PlayNowRequest v) = None"
| "undone_event ShuffleRequest = None"
| "undone_event (PlaybackSpeedRequest s) = None"
| "undone_event (RestoreQueueRequest d) = None"
| "undone_event (KickRequest c) = None"
| "undone_event (UpdateQueueItemRequest v x) = None"

text \<open>
  The branches of \<open>undo\<close> that do not call back. The queue's promise is not awaited there, so an
  insertion that is out of range rejects a promise nobody waits for: the handler itself returns and
  the queue is as it was.
\<close>

definition undo_skip :: "roomEventContext \<Rightarrow> room \<Rightarrow> unit room_call" where
  "undo_skip add r = and_then
    (case r_currentSource r of None \<Rightarrow> Returns () r | Some cs \<Rightarrow> on_queue (pushTop [Some cs]) r)
    (\<lambda>_ r1. (case (ec_video add, ec_prevPosition add) of
        (Some v, Some p) \<Rightarrow>
          Returns () (if p \<noteq> 0 then set_playbackPosition p (set_currentSource (Some v) r1) else r1)
      | _ \<Rightarrow> Returns () r1))"

definition undo_remove :: "roomEventContext \<Rightarrow> room \<Rightarrow> unit room_call" where
  "undo_remove add r = (case (ec_video add, ec_queueIdx add) of
      (Some v, Some i) \<Rightarrow> Returns () (final_state (on_queue (insert_video (Some v) i) r))
    | _ \<Rightarrow> Returns () r)"

text \<open>What undoing an event amounts to: a new request, or a direct change.\<close>

datatype undoAction = UndoByRequest roomRequest | UndoDirectly "room \<Rightarrow> unit room_call"

definition undo_action :: "serverMessageEvent \<Rightarrow> room \<Rightarrow> undoAction" where
  "undo_action ev r = (case event_request ev of
      SeekRequest _ \<Rightarrow>
        (if truthy_num (ec_prevPosition (event_additional ev))
         then UndoByRequest (SeekRequest (ec_prevPosition (event_additional ev)))
         else UndoDirectly (Returns ()))
    | SkipRequest \<Rightarrow> UndoDirectly (undo_skip (event_additional ev))
    | AddRequest mv _ _ \<Rightarrow>
        (case mv of
           Some v \<Rightarrow> (if vq_items (r_queue r) \<noteq> [] then UndoByRequest (RemoveRequest (videoAdd_id v))
                     else UndoDirectly (\<lambda>r. Returns () (set_currentSource None r)))
         | None \<Rightarrow> UndoDirectly (\<lambda>r. Returns () (set_currentSource None r)))
    | RemoveRequest _ \<Rightarrow> UndoDirectly (undo_remove (event_additional ev))
    | _ \<Rightarrow> UndoDirectly (Returns ()))"

lemma undo_action_no_undo: "undo_action ev r = UndoByRequest req \<Longrightarrow> undone_event req = None"
  by (auto simp: undo_action_def split: roomRequest.splits option.splits if_splits)

function (sequential) processRequest :: "world \<Rightarrow> roomRequest \<Rightarrow> roomRequestContext \<Rightarrow> room \<Rightarrow> unit room_call"
  and undo :: "world \<Rightarrow> serverMessageEvent \<Rightarrow> roomRequestContext \<Rightarrow> room \<Rightarrow> unit room_call" where
  "processRequest w request context r =
    (let r0 = emit (RoomRequestReceived (request_type request)) r
     in case permitted request context r0 of
          Inl e \<Rightarrow> Throws e r0
        | Inr _ \<Rightarrow> (case undone_event request of
              Some ev \<Rightarrow> undo w ev context r0
            | None \<Rightarrow> run_handler request w context r0))"
| "undo w ev context r = (case undo_action ev r of
      UndoByRequest request \<Rightarrow> processRequest w request context r
    | UndoDirectly f \<Rightarrow> f r)"
  by pat_completeness auto

termination
  by (relation "measure (\<lambda>x. case x of
        Inl (w, request, context, r) \<Rightarrow> (if undone_event request = None then 0 else 2)
      | Inr (w, ev, context, r) \<Rightarrow> 1)")
     (auto dest: undo_action_no_undo)

declare processRequest.simps [simp del] undo.simps [simp del]

section \<open>Ways in\<close>

definition deriveRequestContext ::
  "world \<Rightarrow> roomRequestAuthorization \<Rightarrow> room \<Rightarrow> exn + roomRequestContext" where
  "deriveRequestContext w auth r =
    (case (if truthy_str (ra_clientId auth) then getUser r (nullish (ra_clientId auth) '''') else None) of
       Some u \<Rightarrow> Inr \<lparr>rc_username = username u, rc_role = getRole r (Some u),
           rc_clientId = ra_clientId auth, rc_auth = Some auth\<rparr>
     | None \<Rightarrow> (case w_getSessionInfo w (ra_token auth) of
         Inl e \<Rightarrow> Inl e
       | Inr None \<Rightarrow> Inl (JsError ''Invalid token, unauthorized request'')
       | Inr (Some session) \<Rightarrow>
          (case (case session of
                   LoggedIn uid \<Rightarrow> map_sum id u_username (w_getUser w uid)
                 | LoggedOut n \<Rightarrow> Inr n) of
             Inl e \<Rightarrow> Inl e
           | Inr n \<Rightarrow> Inr \<lparr>rc_username = n, rc_role = getRoleFromSession r (Some session),
               rc_clientId = ra_clientId auth, rc_auth = Some auth\<rparr>)))"

definition fill_client_id :: "room \<Rightarrow> roomRequestAuthorization \<Rightarrow> roomRequestAuthorization" where
  "fill_client_id r auth =
    (if truthy_str (ra_clientId auth) then auth
     else (case getClientIdFromToken r (ra_token auth) of
         Inr i \<Rightarrow> auth\<lparr>ra_clientId := Some i\<rparr> | Inl e \<Rightarrow> auth))"

definition processUnauthorizedRequest ::
  "world \<Rightarrow> roomRequest \<Rightarrow> roomRequestAuthorization \<Rightarrow> room \<Rightarrow> unit room_call" where
  "processUnauthorizedRequest w request auth r =
    (case deriveRequestContext w (fill_client_id r auth) r of
       Inl e \<Rightarrow> Throws e r
     | Inr context \<Rightarrow> processRequest w request context r)"

definition processRequestUnsafe :: "world \<Rightarrow> roomRequest \<Rightarrow> clientId \<Rightarrow> room \<Rightarrow> unit room_call" where
  "processRequestUnsafe w request c r = (case getUserInfo r c of
      Inl e \<Rightarrow> Throws e r
    | Inr info \<Rightarrow> processRequest w request
        \<lparr>rc_username = ui_name info, rc_role = ui_role info, rc_clientId = Some c, rc_auth = None\<rparr> r)"

end
