(* ===== verification/RoomSync.thy ===== *)
theory RoomSync
  imports RoomRequests
begin

text \<open>
  What leaves a room of \<open>server/room.ts\<close>: the state sent to clients (\<open>syncableState\<close>, \<open>sync\<close>), the
  state kept in redis (\<open>serializeState\<close>, and \<open>redisStateToState\<close> of \<open>server/roommanager.ts\<close> for the
  way back), and what is written when the room is unloaded. \<open>JSON.stringify\<close> with the \<open>replacer\<close> of
  \<open>common/serialize.ts\<close> turns maps and sets into arrays; the text itself is left out.
\<close>

section \<open>Towards clients\<close>

definition syncableState :: "world \<Rightarrow> room \<Rightarrow> serverMessageSync" where
  "syncableState w r = \<lparr>sy_name = Some (r_name r), sy_title = Some (r_title r),
     sy_description = Some (r_description r), sy_isTemporary = Some (r_isTemporary r),
     sy_visibility = Some (r_visibility r), sy_queueMode = Some (r_queueMode r),
     sy_isPlaying = Some (r_isPlaying r), sy_playbackPosition = Some (realPlaybackPosition w r),
     sy_currentSource = Some (r_currentSource r), sy_queue = Some (vq_items (r_queue r)),
     sy_prevQueue = Some (r_prevQueue r), sy_grants = Some (r_grants r),
     sy_playbackSpeed = Some (r_playbackSpeed r), sy_voteCounts = Some (voteCounts r),
     sy_hasOwner = Some (hasOwner r), sy_enableVoteSkip = Some (r_enableVoteSkip r),
     sy_votesToSkip = Some (r_votesToSkip r),
     sy_autoSkipSegmentCategories = Some (r_autoSkipSegmentCategories r),
     sy_videoSegments = Some (r_videoSegments r),
     sy_restoreQueueBehavior = Some (r_restoreQueueBehavior r)\<rparr>"

definition keep_if :: "bool \<Rightarrow> 'a option \<Rightarrow> 'a option" where
  "keep_if b v = (if b then v else None)"

text \<open>\<open>_.pick(state, ps)\<close>\<close>

definition pick_props :: "syncProp list \<Rightarrow> serverMessageSync \<Rightarrow> serverMessageSync" where
  "pick_props ps m = \<lparr>sy_name = keep_if (PName \<in> set ps) (sy_name m),
     sy_title = keep_if (PTitle \<in> set ps) (sy_title m),
     sy_description = keep_if (PDescription \<in> set ps) (sy_description m),
     sy_isTemporary = keep_if (PIsTemporary \<in> set ps) (sy_isTemporary m),
     sy_visibility = keep_if (PVisibility \<in> set ps) (sy_visibility m),
     sy_queueMode = keep_if (PQueueMode \<in> set ps) (sy_queueMode m),
     sy_isPlaying = keep_if (PIsPlaying \<in> set ps) (sy_isPlaying m),
     sy_playbackPosition = keep_if (PPlaybackPosition \<in> set ps) (sy_playbackPosition m),
     sy_currentSource = keep_if (PCurrentSource \<in> set ps) (sy_currentSource m),
     sy_queue = keep_if (PQueue \<in> set ps) (sy_queue m),
     sy_prevQueue = keep_if (PPrevQueue \<in> set ps) (sy_prevQueue m),
     sy_grants = keep_if (PGrants \<in> set ps) (sy_grants m),
     sy_playbackSpeed = keep_if (PPlaybackSpeed \<in> set ps) (sy_playbackSpeed m),
     sy_voteCounts = keep_if (PVoteCounts \<in> set ps) (sy_voteCounts m),
     sy_hasOwner = keep_if (PHasOwner \<in> set ps) (sy_hasOwner m),
     sy_enableVoteSkip = keep_if (PEnableVoteSkip \<in> set ps) (sy_enableVoteSkip m),
     sy_votesToSkip = keep_if (PVotesToSkip \<in> set ps) (sy_votesToSkip m),
     sy_autoSkipSegmentCategories =
       keep_if (PAutoSkipSegmentCategories \<in> set ps) (sy_autoSkipSegmentCategories m),
     sy_videoSegments = keep_if (PVideoSegments \<in> set ps) (sy_videoSegments m),
     sy_restoreQueueBehavior = keep_if (PRestoreQueueBehavior \<in> set ps) (sy_restoreQueueBehavior m)\<rparr>"

text \<open>The settings that every synchronisation writes to the database.\<close>

definition sync_settings :: "room \<Rightarrow> roomPersistable" where
  "sync_settings r = (whole_room r)\<lparr>rp_restoreQueueBehavior := None, rp_enableVoteSkip := None\<rparr>"

text \<open>
  \<open>sync\<close> awaits the database between publishing the message and clearing the dirty set, so it is two
  steps between which other calls can run. \<open>storage.updateRoom\<close> throws on a room without a name.
\<close>

definition sync_begin :: "world \<Rightarrow> room \<Rightarrow> unit room_call" where
  "sync_begin w r =
    (let msg = pick_props (r_dirty r) (syncableState w r);
         r1 = (if list_ex (\<lambda>p. p \<in> set storableProps) (r_dirty r) then r\<lparr>r_savePending := True\<rparr> else r);
         r2 = publish (MsgSync msg) r1
     in if r_name r2 = [] then Throws (JsError ''Cannot update room with no name'') r2
        else Returns () (emit (StorageUpdateRoom (sync_settings r2)) r2))"

definition sync_end :: "room \<Rightarrow> room" where
  "sync_end r = cleanDirty r"

text \<open>\<open>between\<close> is whatever ran while the database was awaited.\<close>

definition sync_with :: "(room \<Rightarrow> room) \<Rightarrow> world \<Rightarrow> room \<Rightarrow> unit room_call" where
  "sync_with between w r =
    (if r_dirty r = [] then Returns () r
     else and_then (sync_begin w r) (\<lambda>_ r1. Returns () (sync_end (between r1))))"

definition sync :: "world \<Rightarrow> room \<Rightarrow> unit room_call" where
  "sync w r = sync_with id w r"

text \<open>The timer of \<open>throttledSync\<close>.\<close>

definition fire_sync :: "world \<Rightarrow> room \<Rightarrow> unit room_call" where
  "fire_sync w r = (if r_syncPending r then sync w (r\<lparr>r_syncPending := False\<rparr>) else Returns () r)"

section \<open>Towards redis\<close>

definition serializeState :: "room \<Rightarrow> roomStateStorable" where
  "serializeState r = \<lparr>ss_name = r_name r, ss_title = r_title r, ss_description = r_description r,
     ss_isTemporary = r_isTemporary r, ss_visibility = r_visibility r, ss_queueMode = r_queueMode r,
     ss_currentSource = r_currentSource r, ss_queue = vq_items (r_queue r), ss_isPlaying = r_isPlaying r,
     ss_playbackPosition = r_playbackPosition r, ss_playbackSpeed = r_playbackSpeed r,
     ss_grants = toJSON (r_grants r), ss_userRoles = r_userRoles r, ss_owner = r_owner r,
     ss_playbackStart = r_playbackStart r, ss_videoSegments = r_videoSegments r,
     ss_autoSkipSegmentCategories = r_autoSkipSegmentCategories r, ss_prevQueue = r_prevQueue r,
     ss_restoreQueueBehavior = r_restoreQueueBehavior r, ss_enableVoteSkip = r_enableVoteSkip r\<rparr>"

definition saveStateToRedis :: "world \<Rightarrow> room \<Rightarrow> room" where
  "saveStateToRedis w r = emit (RedisSet (''room:'' @ r_name r) (serializeState r) (w_expire_after w))
     (r\<lparr>r_savePending := False\<rparr>)"

text \<open>\<open>flush\<close> of the debounced function, or its timer: nothing happens when no call is pending.\<close>

definition flush_save :: "world \<Rightarrow> room \<Rightarrow> room" where
  "flush_save w r = (if r_savePending r then saveStateToRedis w r else r)"

fun restore_roles :: "(role \<times> int list) list \<Rightarrow> userRoles \<Rightarrow> userRoles" where
  "restore_roles [] m = m"
| "restore_roles ((role, ids) # es) m = restore_roles es (AList.update role (js_set_of_list ids []) m)"

definition redisStateToState :: "roomStateStorable \<Rightarrow> exn + roomOptions" where
  "redisStateToState s = (case newGrants (ss_grants s) of
      Inl e \<Rightarrow> Inl e
    | Inr g \<Rightarrow> Inr \<lparr>ro_name = Some (ss_name s), ro_title = Some (ss_title s),
        ro_description = Some (ss_description s), ro_visibility = Some (ss_visibility s),
        ro_queueMode = Some (ss_queueMode s), ro_isTemporary = Some (ss_isTemporary s),
        ro_owner = Some (ss_owner s), ro_currentSource = Some (ss_currentSource s),
        ro_queue = Some (map Some (ss_queue s)), ro_playbackPosition = Some (ss_playbackPosition s),
        ro_isPlaying = Some (ss_isPlaying s), ro_playbackSpeed = Some (ss_playbackSpeed s),
        ro_autoSkipSegmentCategories = Some (ss_autoSkipSegmentCategories s),
        ro_prevQueue = Some (ss_prevQueue s), ro_restoreQueueBehavior = Some (ss_restoreQueueBehavior s),
        ro_enableVoteSkip = Some (ss_enableVoteSkip s), ro_votesToSkip = None,
        ro_grants = GrantsObject g, ro_userRoles = RolesMap (restore_roles (ss_userRoles s) []),
        ro_playbackStart = ss_playbackStart s\<rparr>)"

section \<open>Unloading\<close>

text \<open>
  \<open>prevQueue\<close> is the queue's own array, which \<open>unshift\<close> changes in place; the room keeps the
  lengthened queue until it is dropped.
\<close>

definition with_current :: "world \<Rightarrow> room \<Rightarrow> queueItem list" where
  "with_current w r = (case r_currentSource r of
      Some cs \<Rightarrow> cs\<lparr>v_startAt := Some (realPlaybackPosition w r)\<rparr> # vq_items (r_queue r)
    | None \<Rightarrow> vq_items (r_queue r))"

definition nothing_persistable :: "string \<Rightarrow> roomPersistable" where
  "nothing_persistable n = \<lparr>rp_name = n, rp_title = None, rp_description = None, rp_visibility = None,
     rp_queueMode = None, rp_autoSkipSegmentCategories = None, rp_grants = None, rp_userRoles = None,
     rp_owner = None, rp_prevQueue = None, rp_restoreQueueBehavior = None, rp_enableVoteSkip = None\<rparr>"

definition onBeforeUnload :: "world \<Rightarrow> room \<Rightarrow> unit room_call" where
  "onBeforeUnload w r =
    (let r1 = flush_save w r
     in if r_isTemporary r1 then Returns () r1
        else (let prev = with_current w r1; r2 = r1\<lparr>r_queue := (r_queue r1)\<lparr>vq_items := prev\<rparr>\<rparr>
              in if r_name r2 = [] then Throws (JsError ''Cannot update room with no name'') r2
                 else Returns () (emit (StorageUpdateRoom ((nothing_persistable (r_name r2))\<lparr>
                     rp_prevQueue := Some (if prev \<noteq> [] then Some prev else None)\<rparr>)) r2)))"

end
