(* ===== verification/RoomFrame.thy ===== *)
theory RoomFrame
  imports RoomSync
begin

text \<open>
  What every request and every update of a room keeps. The locale \<open>room_ops\<close> lists the primitive
  changes a handler can make to a room; a predicate that survives those survives every handler,
  \<open>processRequest\<close> and \<open>update\<close>. It is proved once and interpreted for the well-formedness of
  rooms, for change tracking, for the identity of a room and for its log.

  The flag \<open>silent\<close> says whether the predicate also survives the two changes the code makes without
  marking anything: shuffling the queue, and assigning \<open>restoreQueueBehavior\<close>.
\<close>

section \<open>Well-formed parts\<close>

definition votes_wf :: "(string, clientId js_set) js_map \<Rightarrow> bool" where
  "votes_wf m \<longleftrightarrow> js_map_wf m \<and> list_all (\<lambda>(k, s). distinct s) m"

text \<open>The three role lists exist, have no repetitions, and no account is in two of them.\<close>

definition roles_wf :: "userRoles \<Rightarrow> bool" where
  "roles_wf m \<longleftrightarrow> js_map_wf m
    \<and> (\<forall>i\<in>{2, 3, 4}. \<exists>s. map_of m i = Some s \<and> distinct s)
    \<and> (\<forall>i\<in>{2, 3, 4}. \<forall>j\<in>{2, 3, 4}. i \<noteq> j \<longrightarrow> set (the (map_of m i)) \<inter> set (the (map_of m j)) = {})"

definition q_reports :: "videoQueue \<Rightarrow> videoQueue \<Rightarrow> bool" where
  "q_reports q q' \<longleftrightarrow> (vq_items q' \<noteq> vq_items q \<longrightarrow> vq_notify q')"

lemma q_reports_op: "\<not> is_shuffle op \<Longrightarrow> q_reports q (final_state (run_op op q))"
  using run_op_marks by (auto simp: q_reports_def)

lemma q_reports_calls [simp]:
  "q_reports q (final_state (enqueue vs q))"
  "q_reports q (final_state (dequeue q))"
  "q_reports q (final_state (pushTop vs q))"
  "q_reports q (final_state (insert_video v i q))"
  "q_reports q (final_state (move i j q))"
  "q_reports q (final_state (evict x q))"
  "q_reports q (final_state (update_item x p q))"
  "q_reports q (final_state (orderByDesc f q))"
  by (auto simp: q_reports_def queue_defs split: if_splits option.splits list.splits)

text \<open>The requests whose every change to a syncable property is marked.\<close>

primrec marks_changes :: "roomRequest \<Rightarrow> bool" where
  "marks_changes (JoinRequest i) = True"
| "marks_changes LeaveRequest = True"
| "marks_changes (PlaybackRequest b) = True"
| "marks_changes SkipRequest = True"
| "marks_changes (SeekRequest v) = True"
| "marks_changes (AddRequest v vs u) = True"
| "marks_changes (RemoveRequest v) = True"
| "marks_changes (OrderRequest i j) = True"
| "marks_changes (VoteRequest v a) = True"
| "marks_changes (PromoteRequest c r) = True"
| "marks_changes (UpdateUser i) = True"
| "marks_changes (ChatRequest t) = True"
| "marks_changes (UndoRequest e) = True"
| "marks_changes (ApplySettingsRequest s) = (st_restoreQueueBehavior s = None)"
| "marks_changes (PlayNowRequest v) = True"
| "marks_changes ShuffleRequest = False"
| "marks_changes (PlaybackSpeedRequest s) = True"
| "marks_changes (RestoreQueueRequest d) = True"
| "marks_changes (KickRequest c) = True"
| "marks_changes (UpdateQueueItemRequest v x) = True"

text \<open>Assigning a role keeps the role lists well-formed and puts the account in exactly that list.\<close>

lemma cleared_roles:
  assumes "roles_wf m"
  shows "map_of (fold (modify_role (js_set_delete uid)) [Administrator, Moderator, TrustedUser] m) i
    = (if i \<in> {2, 3, 4} then Some (js_set_delete uid (the (map_of m i))) else map_of m i)"
proof -
  from assms obtain a b c where "map_of m 2 = Some a" "map_of m 3 = Some b" "map_of m 4 = Some c"
    by (auto simp: roles_wf_def)
  then show ?thesis by (auto simp: modify_role_def)
qed

lemma assigned_roles:
  assumes "roles_wf m"
  shows "map_of (assign_role newRole uid m) i =
    (if i \<in> {2, 3, 4}
     then Some ((if i = newRole then js_set_add uid else id) (js_set_delete uid (the (map_of m i))))
     else (if i = newRole \<and> newRole \<ge> 2 then map_option (js_set_add uid) (map_of m i) else map_of m i))"
  using cleared_roles [OF assms, of uid]
  by (auto simp: assign_role_def Let_def modify_role_def split: option.split)

lemma modify_role_map_wf [simp]: "js_map_wf m \<Longrightarrow> js_map_wf (modify_role f i m)"
  by (simp add: modify_role_def split: option.split)

lemma assign_role_wf: "roles_wf m \<Longrightarrow> roles_wf (assign_role newRole uid m)"
proof -
  assume wf: "roles_wf m"
  then have "js_map_wf (assign_role newRole uid m)" by (simp add: roles_wf_def assign_role_def Let_def)
  with wf show ?thesis
    by (subst roles_wf_def) (auto simp: assigned_roles roles_wf_def)
qed

section \<open>Predicates that survive every handler\<close>

locale room_ops =
  fixes P :: "room \<Rightarrow> bool" and silent :: bool
  assumes emit: "P r \<Longrightarrow> P (emit e r)"
    and queue: "P r \<Longrightarrow> q_reports (r_queue r) q \<Longrightarrow> P (settle_queue q r)"
    and mark: "P r \<Longrightarrow> P (room_markDirty p r)"
    and title: "P r \<Longrightarrow> P (set_title s r)"
    and description: "P r \<Longrightarrow> P (set_description s r)"
    and visibility: "P r \<Longrightarrow> P (set_visibility vis r)"
    and queueMode: "P r \<Longrightarrow> P (set_queueMode qm r)"
    and categories: "P r \<Longrightarrow> P (set_autoSkipSegmentCategories cs r)"
    and currentSource: "P r \<Longrightarrow> P (set_currentSource v r)"
    and playbackPosition: "P r \<Longrightarrow> P (set_playbackPosition t r)"
    and playbackSpeed: "P r \<Longrightarrow> P (set_playbackSpeed t r)"
    and videoSegments: "P r \<Longrightarrow> P (set_videoSegments segs r)"
    and prevQueue: "P r \<Longrightarrow> P (set_prevQueue pq r)"
    and enableVoteSkip: "P r \<Longrightarrow> P (set_enableVoteSkip b r)"
    and playbackStart: "P r \<Longrightarrow> P (set_playbackStart (Some n) r)"
    and stop: "P r \<Longrightarrow> P (set_isPlaying False r)"
    and play: "P r \<Longrightarrow> P (play w r)"
    and pause: "P r \<Longrightarrow> P (pause w r)"
    and wantSponsorBlock: "P r \<Longrightarrow> P (r\<lparr>r_wantSponsorBlock := b\<rparr>)"
    and dontSkip: "P r \<Longrightarrow> P (r\<lparr>r_dontSkipSegmentsUntil := d\<rparr>)"
    and keepAlivePing: "P r \<Longrightarrow> P (r\<lparr>r_keepAlivePing := n\<rparr>)"
    and realusers: "P r \<Longrightarrow> P (r\<lparr>r_realusers := us\<rparr>)"
    and skipVotes: "P r \<Longrightarrow> (distinct (r_votesToSkip r) \<longrightarrow> distinct xs)
        \<Longrightarrow> P (room_markDirty PVotesToSkip (r\<lparr>r_votesToSkip := xs\<rparr>))"
    and votes: "P r \<Longrightarrow> (votes_wf (r_votes r) \<longrightarrow> votes_wf vs)
        \<Longrightarrow> P (room_markDirty PVoteCounts (r\<lparr>r_votes := vs\<rparr>))"
    and grants: "P r \<Longrightarrow> (grants_ok (r_grants r) \<longrightarrow> grants_ok g)
        \<Longrightarrow> P (room_markDirty PGrants (r\<lparr>r_grants := g\<rparr>))"
    and userRoles: "P r \<Longrightarrow> (roles_wf (r_userRoles r) \<longrightarrow> roles_wf m) \<Longrightarrow> P (r\<lparr>r_userRoles := m\<rparr>)"
    and replaceCurrent: "P r \<Longrightarrow> q_reports (r_queue r) q
        \<Longrightarrow> P (set_currentSource v (settle_queue q (r\<lparr>r_currentSource := c\<rparr>)))"
    and silently_behavior: "silent \<Longrightarrow> P r \<Longrightarrow> P (r\<lparr>r_restoreQueueBehavior := bh\<rparr>)"
    and silently_queue: "silent \<Longrightarrow> P r \<Longrightarrow> P (settle_queue q r)"
begin

lemmas setters = emit title description visibility queueMode categories currentSource
  playbackPosition playbackSpeed videoSegments prevQueue enableVoteSkip playbackStart stop play pause
  wantSponsorBlock dontSkip keepAlivePing realusers

lemma on_queue: "P r \<Longrightarrow> q_reports (r_queue r) (final_state (f (r_queue r))) \<Longrightarrow> ends_in P (on_queue f r)"
  by (cases "f (r_queue r)") (auto simp: on_queue.simps intro: queue)

lemma on_queue_calls:
  assumes "P r"
  shows "ends_in P (on_queue (enqueue vs) r)" "ends_in P (on_queue dequeue r)"
    "ends_in P (on_queue (pushTop vs) r)" "ends_in P (on_queue (insert_video mv i) r)"
    "ends_in P (on_queue (move i j) r)" "ends_in P (on_queue (evict vid) r)"
    "ends_in P (on_queue (update_item vid x) r)" "ends_in P (on_queue (orderByDesc f) r)"
  using assms by (auto intro!: on_queue)

lemma published: "P r \<Longrightarrow> P (publish m r)" "P r \<Longrightarrow> P (command c r)" "P r \<Longrightarrow> P (syncUser i r)"
  by (simp_all add: publish_def command_def syncUser_def emit)

lemma event: "P r \<Longrightarrow> ends_in P (publishRoomEvent request context additional r)"
  by (auto simp: publishRoomEvent_def published split: option.split sum.split)

subsection \<open>Playback\<close>

lemma head_moves:
  "P r \<Longrightarrow> P (count_seconds w r)" "P r \<Longrightarrow> P (flushPlaybackPosition w r)" "P r \<Longrightarrow> P (seekRaw w t r)"
  "P r \<Longrightarrow> P (restart_current w cs r)" "P r \<Longrightarrow> P (clear_segments r)" "P r \<Longrightarrow> P (want_segments w r)"
  "P r \<Longrightarrow> P (clear_skip_votes r)"
  by (auto simp: count_seconds_def flushPlaybackPosition_def seekRaw_def restart_current_def
      clear_segments_def want_segments_def clear_skip_votes_def Let_def intro!: setters skipVotes)

lemma after_dequeue: "P r \<Longrightarrow> P (after_dequeue w r)"
  by (auto simp: after_dequeue_def Let_def intro!: setters head_moves)

lemma take_next: "P r \<Longrightarrow> ends_in P (take_next w r)"
  unfolding take_next_def Let_def
  by (intro ends_in_if ends_in_seq [where P = P])
     (auto intro!: on_queue_calls setters head_moves)

lemma dequeue_tail:
  "P r \<Longrightarrow> ends_in P (and_then (take_next w r) (\<lambda>_ s. Returns () (after_dequeue w s)))"
  by (intro ends_in_seq [where P = P] take_next) (auto intro: after_dequeue)

lemma dequeueNext:
  assumes "P r" shows "ends_in P (dequeueNext w r)"
proof -
  have r1: "P (count_seconds w (clear_skip_votes r))" "P (clear_skip_votes r)"
    using assms by (auto intro!: head_moves)
  then show ?thesis
    unfolding dequeueNext_def Let_def
    by (auto intro!: ends_in_seq [where P = P] take_next after_dequeue head_moves on_queue_calls
        split: option.split)
qed

lemma advance: "P r \<Longrightarrow> ends_in P (advance w r)"
  by (auto simp: advance_def Let_def intro!: dequeueNext setters split: option.split)

lemma fetch: "P r \<Longrightarrow> ends_in P (fetchSponsorBlockSegments w r)"
  by (auto simp: fetchSponsorBlockSegments_def intro!: head_moves setters split: option.split sum.split)

lemma fetch_if_wanted: "P r \<Longrightarrow> P (fetch_if_wanted w r)"
  using fetch [of "r\<lparr>r_wantSponsorBlock := False\<rparr>" w]
  by (auto simp: fetch_if_wanted_def ends_in_def intro: setters)

lemma auto_skip: "P r \<Longrightarrow> P (auto_skip w r)"
  by (auto simp: auto_skip_def skip_segment_def resume_skipping_def
      intro!: published head_moves fetch_if_wanted setters split: option.split)

lemma update: "P r \<Longrightarrow> ends_in P (update w r)"
  by (auto simp: update_def order_by_votes_def keep_alive_def
      intro!: ends_in_seq [where P = P] advance on_queue_calls auto_skip setters)

subsection \<open>Handlers\<close>

lemma toggle_skip_vote: "P r \<Longrightarrow> P (toggle_skip_vote context r)"
  by (auto simp: toggle_skip_vote_def Let_def intro!: skipVotes)

lemma do_skip: "P r \<Longrightarrow> ends_in P (do_skip w context r)"
  by (auto simp: do_skip_def Let_def intro!: ends_in_seq [where P = P] dequeueNext event setters
      split: option.split)

lemma playing_handlers:
  assumes "P r"
  shows "ends_in P (playback w b context r)" "ends_in P (skip w context r)"
    "ends_in P (seek w mt context r)" "ends_in P (setPlaybackSpeed w t r)"
  using assms
  by (auto simp: playback_def skip_def seek_def setPlaybackSpeed_def Let_def
      intro!: event setters do_skip toggle_skip_vote head_moves ends_in_seq [where P = P] split: option.split)

lemma fold_emit: "P r \<Longrightarrow> P (fold (\<lambda>v. RoomState.emit (f v)) vs r)"
  by (induction vs arbitrary: r) (auto intro: emit)

lemma add_one: "P r \<Longrightarrow> ends_in P (add_one w add request context r)"
  by (auto simp: add_one_def Let_def intro!: ends_in_seq [where P = P] on_queue_calls event setters
      split: sum.split option.split)

lemma add_many: "P r \<Longrightarrow> ends_in P (add_many w adds request context r)"
  by (auto simp: add_many_def Let_def intro!: ends_in_seq [where P = P] on_queue_calls event fold_emit
      split: sum.split)

lemma addToQueue: "P r \<Longrightarrow> ends_in P (addToQueue w mv mvs murl context r)"
  unfolding addToQueue_def by (intro ends_in_sum ends_in_option) (auto intro: add_one add_many)

lemma queue_handlers:
  assumes "P r"
  shows "ends_in P (updateQueueItem vid patch context r)" "ends_in P (removeFromQueue vid context r)"
    "ends_in P (reorderQueue i j r)" "ends_in P (restoreQueue d r)"
  using assms
  by (auto simp: updateQueueItem_def removeFromQueue_def reorderQueue_def restoreQueue_def
      intro!: ends_in_seq [where P = P] on_queue_calls event setters split: option.split)

lemma votes_wf_update: "votes_wf m \<Longrightarrow> distinct vs \<Longrightarrow> votes_wf (AList.update k vs m)"
proof (induction m)
  case (Cons e m)
  then show ?case
    by (cases e) (auto simp: votes_wf_def js_map_wf_def dom_update distinct_update list_all_iff dest: map_of_SomeD
        simp flip: dom_map_of_conv_image_fst)
qed (simp add: votes_wf_def js_map_wf_def)

lemma votes_wf_get: "votes_wf m \<Longrightarrow> map_of m k = Some vs \<Longrightarrow> distinct vs"
  by (auto simp: votes_wf_def list_all_iff dest: map_of_SomeD)

lemma vote: "P r \<Longrightarrow> ends_in P (vote vid add context r)"
  by (auto simp: vote_def Let_def intro: mark intro!: votes votes_wf_update dest: votes_wf_get split: option.split)

lemma find_to_play: "P r \<Longrightarrow> ends_in P (find_to_play w add r)"
  by (auto simp: find_to_play_def intro!: ends_in_seq [where P = P] on_queue_calls split: sum.split)

lemma with_subtitle: "P r \<Longrightarrow> ends_in P (with_subtitle add mv r)"
  by (auto simp: with_subtitle_def split: option.split)

lemma start_playing:
  assumes "P r" and "push_current w r = Returns () r'"
  shows "P (start_playing w mv r')"
proof -
  have "P (set_currentSource mv r')"
    using assms
    by (cases "r_currentSource r")
       (auto simp: push_current_def Let_def on_queue.simps pushTop_def isAllVideos_def q_reports_def markDirty_def
         intro: currentSource intro!: replaceCurrent)
  then show ?thesis
    by (auto simp: start_playing_def Let_def intro!: setters mark)
qed

lemma push_current_returns: "\<exists>r'. push_current w r = Returns () r'"
  by (auto simp: push_current_def Let_def on_queue.simps pushTop_def isAllVideos_def split: option.split)

lemma playNow: "P r \<Longrightarrow> ends_in P (playNow w add context r)"
proof -
  assume P: "P r"
  have last: "ends_in P (and_then (push_current w s) (\<lambda>_ s'. Returns () (start_playing w mv s')))"
    if "P s" for s mv
    using that push_current_returns [of w s] start_playing [of s w] by auto
  show ?thesis
    using P by (auto simp: playNow_def intro!: ends_in_seq [where P = P] find_to_play with_subtitle last
        split: sum.split)
qed

subsection \<open>Users\<close>

lemma joinRoom: "P r \<Longrightarrow> ends_in P (joinRoom w info context r)"
  unfolding joinRoom_def Let_def
  by (auto intro!: ends_in_seq [where P = P] event published realusers
      split: option.split outcome.split sum.split)

lemma drop_votes: "P r \<Longrightarrow> P (drop_votes c r)"
proof -
  assume P: "P r"
  have wf: "votes_wf m \<Longrightarrow> votes_wf (map (\<lambda>(k, vs). (k, js_set_delete c vs)) m)" for m :: "(string, clientId js_set) js_map"
    by (auto simp: votes_wf_def js_map_wf_def list_all_iff comp_def case_prod_unfold)
  have same: "map (\<lambda>(k, vs). (k, js_set_delete c vs)) m = m"
    if "\<not> list_ex (\<lambda>(k, vs). c \<in> set vs) m" for m :: "(string, clientId js_set) js_map"
    using that by (intro map_idI) (auto simp: list_ex_iff js_set_delete_def filter_id_conv)
  show ?thesis
    using P by (auto simp: drop_votes_def Let_def same intro!: votes wf)
qed

lemma leaveRoom: "P r \<Longrightarrow> ends_in P (leaveRoom context r)"
  by (auto simp: leaveRoom_def Let_def intro!: ends_in_seq [where P = P] event drop_votes realusers skipVotes
      split: option.split sum.split)

lemma user_handlers:
  assumes "P r"
  shows "ends_in P (updateUser w info r)" "ends_in P (chat msg context r)" "ends_in P (kickUser c context r)"
  using assms
  by (auto simp: updateUser_def chat_def kickUser_def Let_def intro!: published realusers
      split: option.split outcome.split sum.split)

lemma roles_wf_delete: "roles_wf m \<Longrightarrow> roles_wf (modify_role (js_set_delete uid) i m)"
  by (auto simp: roles_wf_def modify_role_def split: option.split)

lemma promoteUser: "P r \<Longrightarrow> ends_in P (promoteUser target newRole context r)"
  by (auto simp: promoteUser_def Let_def intro!: published userRoles assign_role_wf emit
      split: option.split sum.split)

subsection \<open>Settings\<close>

lemma apply_grants: "P r \<Longrightarrow> ends_in P (apply_grants new ros r)"
proof (induction ros arbitrary: r)
  case (Cons ro ros)
  have "P (room_markDirty PGrants (r\<lparr>r_grants := g\<rparr>))"
    if "setRoleGrants ro x (r_grants r) = Inr g" "role_to_perm ro \<noteq> None" for g x
  proof (rule grants [OF Cons.prems], rule impI)
    from that(2) have "0 \<le> ro" "ro \<le> 3" by (auto simp: role_to_perm_def split: if_splits)
    with that(1) show "grants_ok (r_grants r) \<Longrightarrow> grants_ok g" by (blast intro: setRoleGrants_ok)
  qed
  with Cons show ?case by (auto split: sum.split)
qed simp

lemma apply_props:
  assumes "P r" and "silent \<or> st_restoreQueueBehavior s = None"
  shows "P (apply_props s r)"
proof -
  have step: "P (pick v f x)" if "P x" "\<And>y. v \<noteq> None \<Longrightarrow> P x \<Longrightarrow> P (f y x)" for v :: "'a option" and f x
    using that by (cases v) (auto simp: pick_def)
  show ?thesis
    unfolding apply_props_def using assms
    by (intro step) (auto intro: setters silently_behavior simp: pick_def)
qed

lemma applySettings:
  assumes "P r" and "silent \<or> st_restoreQueueBehavior s = None"
  shows "ends_in P (applySettings s context r)"
proof -
  let ?s1 = "drop_unchanged_grants r (drop_unchanged r s)"
  obtain s2 changed where s2: "normalise_categories r ?s1 = (s2, changed)" by force
  have "silent \<or> st_restoreQueueBehavior s2 = None"
    using assms(2) s2
    by (auto simp: normalise_categories_def drop_unchanged_grants_def drop_unchanged_def unless_same_def Let_def
        split: option.splits if_splits)
  then have "P (apply_props s2 r)" using assms(1) by (intro apply_props)
  then show ?thesis
    using assms(1) s2
    by (auto simp: applySettings_def Let_def want_on_enable_def
        intro!: ends_in_seq [where P = P] apply_grants wantSponsorBlock split: sum.split option.split)
qed

lemma setGrants: "P r \<Longrightarrow> grants_ok g' \<Longrightarrow> setAllGrants g = Inr g' \<Longrightarrow> ends_in P (setGrants g r)"
  by (auto simp: setGrants_def intro: grants)

subsection \<open>Requests\<close>

lemma shuffle: "P r \<Longrightarrow> silent \<Longrightarrow> ends_in P (shuffle w context r)"
  by (auto simp: shuffle_def on_queue.simps shuffle_items_def intro: silently_queue split: sum.split)

lemma run_handler:
  assumes "P r" and "silent \<or> marks_changes request"
  shows "ends_in P (run_handler request w context r)"
  using assms
  by (cases request)
     (auto intro: joinRoom leaveRoom playing_handlers addToQueue queue_handlers vote promoteUser
        user_handlers applySettings playNow shuffle)

lemma undo_direct:
  assumes "P r" and "undo_action ev r0 = UndoDirectly f"
  shows "ends_in P (f r)"
proof -
  have "ends_in P (undo_skip c r)" "ends_in P (undo_remove c r)" for c
    using assms(1)
    by (auto simp: undo_skip_def undo_remove_def ends_in_def [symmetric]
        intro!: ends_in_seq [where P = P] on_queue_calls setters split: option.split)
  with assms show ?thesis
    by (auto simp: undo_action_def split: roomRequest.splits option.splits if_splits intro: setters)
qed

lemma undo_by_request: "undo_action ev r = UndoByRequest request \<Longrightarrow> marks_changes request"
  by (auto simp: undo_action_def split: roomRequest.splits option.splits if_splits)

lemma processRequest:
  "P r \<Longrightarrow> silent \<or> marks_changes request \<Longrightarrow> ends_in P (RoomRequests.processRequest w request ctx r)"
  "P r \<Longrightarrow> ends_in P (undo w ev ctx r)"
proof (induction w request ctx r and w ev ctx r rule: processRequest_undo.induct)
  case (1 w request ctx r)
  then show ?case
    by (subst processRequest.simps)
       (auto simp: Let_def intro: run_handler emit split: sum.split option.split)
next
  case (2 w ev ctx r)
  then show ?case
    by (subst undo.simps)
       (auto intro: undo_direct dest: undo_by_request split: undoAction.split)
qed

lemma processUnauthorizedRequest:
  "P r \<Longrightarrow> silent \<or> marks_changes request \<Longrightarrow> ends_in P (processUnauthorizedRequest w request auth r)"
  by (auto simp: processUnauthorizedRequest_def intro: processRequest split: sum.split)

lemma processRequestUnsafe:
  "P r \<Longrightarrow> silent \<or> marks_changes request \<Longrightarrow> ends_in P (processRequestUnsafe w request c r)"
  by (auto simp: processRequestUnsafe_def intro: processRequest split: sum.split)

end

end
