(* ===== verification/RoomInvariants.thy ===== *)
theory RoomInvariants
  imports RoomFrame
begin

text \<open>
  The interpretations of \<open>room_ops\<close>: the well-formedness of a room, the tracking of changes by the
  dirty set, the identity of a room, and its log of effects; then the room as a state machine.
\<close>

section \<open>Well-formed rooms\<close>

text \<open>
  Grants and role lists are well-formed, a client votes at most once for a video and once to skip,
  and a playing room knows when it started.
\<close>

definition room_wf :: "room \<Rightarrow> bool" where
  "room_wf r \<longleftrightarrow> grants_ok (r_grants r) \<and> roles_wf (r_userRoles r) \<and> votes_wf (r_votes r)
     \<and> distinct (r_votesToSkip r) \<and> distinct (r_dirty r) \<and> (r_isPlaying r \<longrightarrow> r_playbackStart r \<noteq> None)"

interpretation wf: room_ops room_wf True
  by unfold_locales
     (auto simp: room_wf_def room_defs play_def pause_def flushPlaybackPosition_def count_seconds_def
       settle_queue_def Let_def)

section \<open>Change tracking\<close>

definition unmarked :: "syncProp \<Rightarrow> room \<Rightarrow> bool" where
  "unmarked p r \<longleftrightarrow> p \<notin> set (r_dirty r)"

text \<open>Two rooms agree on what is behind a syncable property.\<close>

primrec prop_same :: "syncProp \<Rightarrow> room \<Rightarrow> room \<Rightarrow> bool" where
  "prop_same PName r s = (r_name s = r_name r)"
| "prop_same PTitle r s = (r_title s = r_title r)"
| "prop_same PDescription r s = (r_description s = r_description r)"
| "prop_same PIsTemporary r s = (r_isTemporary s = r_isTemporary r)"
| "prop_same PVisibility r s = (r_visibility s = r_visibility r)"
| "prop_same PQueueMode r s = (r_queueMode s = r_queueMode r)"
| "prop_same PCurrentSource r s = (r_currentSource s = r_currentSource r)"
| "prop_same PQueue r s = (vq_items (r_queue s) = vq_items (r_queue r))"
| "prop_same PIsPlaying r s = (r_isPlaying s = r_isPlaying r)"
| "prop_same PPlaybackPosition r s = (r_playbackPosition s = r_playbackPosition r)"
| "prop_same PPlaybackSpeed r s = (r_playbackSpeed s = r_playbackSpeed r)"
| "prop_same PGrants r s = (r_grants s = r_grants r)"
| "prop_same PHasOwner r s = (r_owner s = r_owner r)"
| "prop_same PVoteCounts r s = (r_votes s = r_votes r)"
| "prop_same PVideoSegments r s = (r_videoSegments s = r_videoSegments r)"
| "prop_same PAutoSkipSegmentCategories r s = (r_autoSkipSegmentCategories s = r_autoSkipSegmentCategories r)"
| "prop_same PPrevQueue r s = (r_prevQueue s = r_prevQueue r)"
| "prop_same PRestoreQueueBehavior r s = (r_restoreQueueBehavior s = r_restoreQueueBehavior r)"
| "prop_same PEnableVoteSkip r s = (r_enableVoteSkip s = r_enableVoteSkip r)"
| "prop_same PVotesToSkip r s = (r_votesToSkip s = r_votesToSkip r)"

lemma all_props: "(\<forall>p. Q p) \<longleftrightarrow> list_all Q syncableProps"
proof -
  have "p \<in> set syncableProps" for p by (cases p) (simp_all add: syncableProps_def)
  then show ?thesis by (auto simp: list_all_iff)
qed

text \<open>
  \<open>tracks r s\<close>: from \<open>r\<close> to \<open>s\<close> no mark was dropped, and every syncable property that is not
  marked in \<open>s\<close> has the value it had in \<open>r\<close>.
\<close>

definition tracks :: "room \<Rightarrow> room \<Rightarrow> bool" where
  "tracks r s \<longleftrightarrow> set (r_dirty r) \<subseteq> set (r_dirty s) \<and> (\<forall>p. unmarked p s \<longrightarrow> prop_same p r s)"

lemma prop_same_refl: "prop_same p r r"
  by (cases p) simp_all

lemma prop_same_trans: "prop_same p r s \<Longrightarrow> prop_same p s t \<Longrightarrow> prop_same p r t"
  by (cases p) simp_all

lemma tracks_refl: "tracks r r"
  by (simp add: tracks_def prop_same_refl)

lemma tracks_trans: "tracks r s \<Longrightarrow> tracks s t \<Longrightarrow> tracks r t"
  unfolding tracks_def unmarked_def by (blast intro: prop_same_trans)

lemmas track_simps = tracks_def all_props syncableProps_def unmarked_def room_defs play_def pause_def
  flushPlaybackPosition_def count_seconds_def settle_queue_def q_reports_def Let_def

lemma tracks_ops:
  "tracks r (emit e r)"
  "q_reports (r_queue r) q \<Longrightarrow> tracks r (settle_queue q r)"
  "tracks r (room_markDirty p r)" "tracks r (set_title s r)" "tracks r (set_description s r)"
  "tracks r (set_visibility vis r)" "tracks r (set_queueMode qm r)"
  "tracks r (set_autoSkipSegmentCategories cs r)" "tracks r (set_currentSource v r)"
  "tracks r (set_playbackPosition t r)" "tracks r (set_playbackSpeed t r)"
  "tracks r (set_videoSegments segs r)" "tracks r (set_prevQueue pq r)" "tracks r (set_enableVoteSkip b r)"
  "tracks r (set_playbackStart n r)" "tracks r (set_isPlaying b r)" "tracks r (play w r)"
  "tracks r (pause w r)" "tracks r (r\<lparr>r_wantSponsorBlock := b\<rparr>)"
  "tracks r (r\<lparr>r_dontSkipSegmentsUntil := d\<rparr>)" "tracks r (r\<lparr>r_keepAlivePing := k\<rparr>)"
  "tracks r (r\<lparr>r_realusers := us\<rparr>)" "tracks r (r\<lparr>r_userRoles := m\<rparr>)"
  "tracks r (room_markDirty PVotesToSkip (r\<lparr>r_votesToSkip := xs\<rparr>))"
  "tracks r (room_markDirty PVoteCounts (r\<lparr>r_votes := vs\<rparr>))"
  "tracks r (room_markDirty PGrants (r\<lparr>r_grants := g\<rparr>))"
  "q_reports (r_queue r) q \<Longrightarrow> tracks r (set_currentSource v (settle_queue q (r\<lparr>r_currentSource := c\<rparr>)))"
  by (auto simp: track_simps)

interpretation tracking: room_ops "tracks r0" False for r0
  by unfold_locales (auto intro: tracks_trans tracks_ops)

section \<open>Identity and log\<close>

text \<open>No request renames a room, makes it permanent, changes its owner, or gives it another epoch.\<close>

definition same_identity :: "room \<Rightarrow> room \<Rightarrow> bool" where
  "same_identity r s \<longleftrightarrow> r_name s = r_name r \<and> r_isTemporary s = r_isTemporary r \<and> r_owner s = r_owner r
     \<and> r_loadEpoch s = r_loadEpoch r"

interpretation identity: room_ops "same_identity r0" True for r0
  by unfold_locales
     (auto simp: same_identity_def room_defs play_def pause_def flushPlaybackPosition_def
       count_seconds_def settle_queue_def Let_def)

definition log_extends :: "room \<Rightarrow> room \<Rightarrow> bool" where
  "log_extends r s \<longleftrightarrow> (\<exists>es. r_effects s = r_effects r @ es)"

interpretation logging: room_ops "log_extends r0" True for r0
  by unfold_locales
     (auto simp: log_extends_def room_defs play_def pause_def flushPlaybackPosition_def
       count_seconds_def settle_queue_def Let_def)

end
