(* ===== verification/RoomMachine.thy ===== *)
theory RoomMachine
  imports RoomInvariants
begin

text \<open>
  A room as a state machine. Its events are everything that can reach a room: a request of a client
  that authenticated itself, a request on behalf of a connected client, the periodic update, the
  timers of the two debounced functions, and the preparation for unloading.
\<close>

datatype roomEvent =
    EvRequest world roomRequest roomRequestAuthorization
  | EvClientRequest world roomRequest clientId
  | EvUpdate world
  | EvSync world
  | EvSave world
  | EvBeforeUnload world

primrec room_step :: "room \<Rightarrow> roomEvent \<Rightarrow> room" where
  "room_step r (EvRequest w request auth) = final_state (processUnauthorizedRequest w request auth r)"
| "room_step r (EvClientRequest w request c) = final_state (processRequestUnsafe w request c r)"
| "room_step r (EvUpdate w) = final_state (update w r)"
| "room_step r (EvSync w) = final_state (sync w r)"
| "room_step r (EvSave w) = flush_save w r"
| "room_step r (EvBeforeUnload w) = final_state (onBeforeUnload w r)"

section \<open>The constructor\<close>

lemma pick_keeps: "(\<And>x s. fld (f x s) = fld s) \<Longrightarrow> fld (pick v f r) = fld r"
  by (simp add: pick_def split: option.split)

lemma pick_invariant: "P r \<Longrightarrow> (\<And>x s. P s \<Longrightarrow> P (f x s)) \<Longrightarrow> P (pick v f r)"
  by (simp add: pick_def split: option.split)

lemma assign_options_keeps [simp]:
  "r_grants (assign_options opts r) = r_grants r"
  "r_userRoles (assign_options opts r) = r_userRoles r"
  "r_votes (assign_options opts r) = r_votes r"
  "r_playbackStart (assign_options opts r) = r_playbackStart r"
  "r_effects (assign_options opts r) = r_effects r"
  "r_realusers (assign_options opts r) = r_realusers r"
  "r_loadEpoch (assign_options opts r) = r_loadEpoch r"
  "r_videoSegments (assign_options opts r) = r_videoSegments r"
  by (simp_all add: assign_options_def pick_keeps room_defs)

lemma assign_options_isPlaying [simp]:
  "r_isPlaying (assign_options opts r) = nullish (ro_isPlaying opts) (r_isPlaying r)"
proof -
  have "r_isPlaying (pick v set_isPlaying s) = nullish v (r_isPlaying s)" for v s
    by (cases v) (simp_all add: pick_def room_defs)
  then show ?thesis by (simp add: assign_options_def pick_keeps [where fld = r_isPlaying] room_defs)
qed

lemma assign_options_distinct:
  "distinct (r_dirty r) \<and> distinct (r_votesToSkip r)
    \<Longrightarrow> distinct (r_dirty (assign_options opts r)) \<and> distinct (r_votesToSkip (assign_options opts r))"
  unfolding assign_options_def
  by (intro pick_invariant [where P = "\<lambda>s. distinct (r_dirty s) \<and> distinct (r_votesToSkip s)"])
     (auto simp: room_defs)

lemma restore_policy_keeps [simp]:
  "r_grants (restore_policy r) = r_grants r" "r_userRoles (restore_policy r) = r_userRoles r"
  "r_votes (restore_policy r) = r_votes r" "r_playbackStart (restore_policy r) = r_playbackStart r"
  "r_isPlaying (restore_policy r) = r_isPlaying r" "r_votesToSkip (restore_policy r) = r_votesToSkip r"
  "r_name (restore_policy r) = r_name r" "r_isTemporary (restore_policy r) = r_isTemporary r"
  "r_effects (restore_policy r) = r_effects r" "r_realusers (restore_policy r) = r_realusers r"
  "distinct (r_dirty r) \<Longrightarrow> distinct (r_dirty (restore_policy r))"
  by (auto simp: restore_policy_def Let_def room_defs split: option.split)

definition initial_roles :: userRoles where
  "initial_roles = [(TrustedUser, []), (Moderator, []), (Administrator, [])]"

text \<open>Options a room can be built from: what is stored for a room, or asked for when creating one.\<close>

definition options_wf :: "roomOptions \<Rightarrow> bool" where
  "options_wf opts \<longleftrightarrow>
    (case ro_grants opts of GrantsObject g \<Rightarrow> grants_ok g | _ \<Rightarrow> True)
    \<and> roles_wf (given_roles (ro_userRoles opts) initial_roles)
    \<and> (ro_isPlaying opts = Some True \<longrightarrow> ro_playbackStart opts \<noteq> None)"

lemma newDefaultGrants_ok: "newDefaultGrants = Inr g \<Longrightarrow> grants_ok g"
proof -
  assume "newDefaultGrants = Inr g"
  then obtain d where "newGrants d = Inr g"
    unfolding newDefaultGrants_def by (metis Inl_Inr_False sum.case(1) sum.case(2) sum.exhaust)
  then show ?thesis by (rule newGrants_ok)
qed

lemma resolve_grants_ok:
  "resolve_grants gg = Inr g \<Longrightarrow> (case gg of GrantsObject g \<Rightarrow> grants_ok g | _ \<Rightarrow> True) \<Longrightarrow> grants_ok g"
  by (auto simp: resolve_grants_def newGrants_ok newDefaultGrants_ok split: givenGrants.splits)

lemma newRoom_wf:
  assumes "newRoom w opts = Inr r" and "options_wf opts"
  shows "room_wf r"
proof -
  from assms(1) obtain g where g: "resolve_grants (ro_grants opts) = Inr g"
    by (auto simp: newRoom_def split: sum.splits)
  let ?r1 = "restore_policy (assign_options opts (initial_room w g))"
  have ini: "r_grants (initial_room w g) = g" "r_userRoles (initial_room w g) = initial_roles"
    "r_votes (initial_room w g) = []" "r_isPlaying (initial_room w g) = False"
    "r_playbackStart (initial_room w g) = None"
    "distinct (r_dirty (initial_room w g)) \<and> distinct (r_votesToSkip (initial_room w g))"
    by (simp_all add: initial_room_def initial_roles_def room_defs)
  note d = assign_options_distinct [OF ini(6), of opts]
  have "grants_ok g" using resolve_grants_ok [OF g] assms(2) by (simp add: options_wf_def)
  moreover have "nullish (ro_isPlaying opts) False \<Longrightarrow> ro_playbackStart opts \<noteq> None"
    using assms(2) by (cases "ro_isPlaying opts") (auto simp: options_wf_def)
  ultimately show ?thesis
    using assms g d
    by (cases "ro_playbackStart opts") (auto simp: newRoom_def Let_def room_wf_def options_wf_def ini votes_wf_def)
qed

section \<open>Every reachable room is well-formed\<close>

lemma sync_wf: "room_wf r \<Longrightarrow> ends_in room_wf (sync w r)"
  by (auto simp: sync_def sync_with_def sync_begin_def sync_end_def publish_def room_defs room_wf_def Let_def)

lemma flush_save_wf: "room_wf r \<Longrightarrow> room_wf (flush_save w r)"
  by (simp add: flush_save_def saveStateToRedis_def room_defs room_wf_def)

lemma onBeforeUnload_wf: "room_wf r \<Longrightarrow> ends_in room_wf (onBeforeUnload w r)"
proof -
  assume "room_wf r"
  then have "room_wf (flush_save w r)" by (rule flush_save_wf)
  then show ?thesis by (auto simp: onBeforeUnload_def Let_def room_defs room_wf_def)
qed

lemma room_step_wf: "room_wf r \<Longrightarrow> room_wf (room_step r e)"
  using wf.processUnauthorizedRequest wf.processRequestUnsafe wf.update sync_wf flush_save_wf onBeforeUnload_wf
  by (cases e) (auto simp: ends_in_def)

interpretation room_machine: invariant_machine room_step room_wf "\<lambda>_. True"
  by unfold_locales (rule room_step_wf)

text \<open>
  C4. Whatever requests, updates and synchronisations a room goes through, in any order and with any
  answers of the outside world, errors included, it stays well-formed: administrators and owners
  keep every permission and no role exceeds its ceiling or has less than the role below; no account
  is in two role lists; nobody votes twice; a playing room knows when playback started.
\<close>

theorem room_reachable_wf:
  assumes "newRoom w opts = Inr r" and "options_wf opts"
  shows "room_wf (run_steps room_step r evs)"
  by (rule room_machine.run_inv [OF newRoom_wf [OF assms]]) (simp add: list_all_iff)

lemma default_grants_total: "\<exists>g. newDefaultGrants = Inr g"
proof -
  have ok: "\<not> list_ex (\<lambda>(r, m). \<not> isRoleValid r \<and> m \<noteq> 0) (js_map_of_entries g [])" if "grants_wf g" for g
    using that by (auto simp: js_map_of_entries_distinct grants_wf_def js_map_wf_def list_ex_iff list_all_iff)
  have "\<exists>g. set_object_grants default_entries [] = Inr g \<and> grants_bounded g"
  proof -
    have "list_all (\<lambda>(r, _). isRoleValid r) es \<Longrightarrow> grants_bounded g0
        \<Longrightarrow> \<exists>g. set_object_grants es g0 = Inr g \<and> grants_bounded g" for es g0
    proof (induction es arbitrary: g0)
      case (Cons e es)
      obtain ro m where e: "e = (ro, m)" by (cases e)
      then obtain g1 where "setRoleGrants ro m g0 = Inr g1"
        using Cons.prems(1) by (auto simp: setRoleGrants_def)
      with Cons e setRoleGrants_wf grants_wf_bounded show ?case by fastforce
    qed simp
    moreover have "list_all (\<lambda>(r, _). isRoleValid r) default_entries"
      by (simp add: default_entries_def isRoleValid_def del: parseIntoGrantMask.simps)
    ultimately show ?thesis using grants_bounded_Nil by blast
  qed
  then obtain g0 where g0: "set_object_grants default_entries [] = Inr g0" "grants_bounded g0" by blast
  obtain d where d: "force_full g0 = Inr d" using force_full_total by blast
  have "grants_wf d" by (rule force_full_wf [OF g0(2) d])
  from setAllGrants_replays [OF this] obtain g1 where "setAllGrants d = Inr g1" by (auto simp: toJSON_def)
  with g0 d force_full_total [of g1] show ?thesis
    by (auto simp: newDefaultGrants_def defaultPermissions_def newObjectGrants_def newGrants_def)
qed

text \<open>A world in which nothing outside answers, for the concrete instances.\<close>

definition quiet_world :: "int \<Rightarrow> world" where
  "quiet_world now = \<lparr>w_now = now, w_sponsorblock_enabled = False, w_unload_after = 240,
     w_expire_after = 120, w_getUser = (\<lambda>_. Inl UserNotFound), w_getSessionInfo = (\<lambda>_. Inr None),
     w_adapterForURL = (\<lambda>u. Inl (UnsupportedServiceException u [])),
     w_getVideoInfo = (\<lambda>s i. Inr (Some (bare_video s i))),
     w_getManyVideoInfo = (\<lambda>vs. Inr (map (\<lambda>v. Some (bare_video (va_service v) (va_id v))) vs)),
     w_fetchSegments = (\<lambda>_. Inr []), w_shuffle = rev\<rparr>"

lemma fresh_room_exists: "\<exists>r. newRoom w no_options = Inr r"
proof -
  obtain g where "resolve_grants (ro_grants no_options) = Inr g"
    using default_grants_total by (auto simp: no_options_def resolve_grants_def)
  then show ?thesis unfolding newRoom_def Let_def by (simp only: sum.case) blast
qed

lemma no_options_wf: "options_wf no_options"
  by (auto simp: options_wf_def no_options_def given_roles_def initial_roles_def roles_wf_def js_map_wf_def)

theorem room_reachable_wf_witness:
  "\<exists>r. newRoom (quiet_world 0) no_options = Inr r
     \<and> room_wf (run_steps room_step r [EvUpdate (quiet_world 1000), EvSync (quiet_world 1050)])"
  using fresh_room_exists [of "quiet_world 0"] room_reachable_wf [OF _ no_options_wf] by blast

section \<open>Changes are marked\<close>

text \<open>
  C3. Change tracking is sound: after a request, whatever it did and however it ended, every
  syncable property that is not in the dirty set still has its old value, and no mark was lost. The
  two exceptions are the requests that shuffle the queue or set \<open>restoreQueueBehavior\<close>.
\<close>

theorem request_changes_marked:
  assumes "marks_changes request"
  shows "set (r_dirty r) \<subseteq> set (r_dirty (final_state (processRequest w request context r)))
    \<and> (\<forall>p. p \<notin> set (r_dirty (final_state (processRequest w request context r)))
          \<longrightarrow> prop_same p r (final_state (processRequest w request context r)))"
  using tracking.processRequest(1) [OF tracks_refl, where request = request and w = w] assms
  by (simp add: ends_in_def tracks_def unmarked_def)

definition small_room :: room where
  "small_room = (initial_room (quiet_world 0) [])\<lparr>r_name := ''a'', r_dirty := [],
     r_currentSource := Some (bare_video ''vimeo'' ''1''),
     r_queue := newVideoQueue [Some (bare_video ''vimeo'' ''2''), Some (bare_video ''vimeo'' ''3'')]\<rparr>"

definition server_context :: "role \<Rightarrow> roomRequestContext" where
  "server_context ro = \<lparr>rc_username = ''x'', rc_role = ro, rc_clientId = None, rc_auth = None\<rparr>"

lemma restored_dirty:
  "r_dirty (final_state (processRequest (quiet_world 0) (RestoreQueueRequest (Some True)) (server_context Owner)
     (small_room\<lparr>r_prevQueue := Some []\<rparr>))) = [PPrevQueue]"
  by (simp add: processRequest.simps permitted_def restoreQueue_def room_defs small_room_def Let_def js_set_add_def)

theorem request_changes_marked_witness:
  "prop_same PQueue (small_room\<lparr>r_prevQueue := Some []\<rparr>) (final_state (processRequest (quiet_world 0)
     (RestoreQueueRequest (Some True)) (server_context Owner) (small_room\<lparr>r_prevQueue := Some []\<rparr>)))"
  using request_changes_marked [of "RestoreQueueRequest (Some True)" "small_room\<lparr>r_prevQueue := Some []\<rparr>" "quiet_world 0" "server_context Owner"]
  unfolding restored_dirty by (simp del: prop_same.simps)

text \<open>
  Shuffling is one of the two: in a room whose grants allow it, the request reorders the queue
  and leaves the dirty set as it was, so that the next synchronisation does not mention the queue.
\<close>

theorem shuffle_not_marked:
  assumes "granted (r_grants r) (rc_role context) ''manage-queue.order''" and "vq_notify (r_queue r) = False"
  shows "\<exists>s. processRequest w ShuffleRequest context r = Returns () s
    \<and> vq_items (r_queue s) = w_shuffle w (vq_items (r_queue r)) \<and> r_dirty s = r_dirty r
    \<and> r_syncPending s = r_syncPending r"
  using assms
  by (simp add: processRequest.simps Let_def permitted_def check_def emit_def shuffle_def on_queue.simps
      shuffle_items_def settle_queue_def)

lemma all_grants_granted:
  "role_mask g ro = or_masks PERMISSIONS \<Longrightarrow> granted g ro p"
  using parse_le_all [of "[p]"] by (simp add: granted_iff del: parseIntoGrantMask.simps)

definition open_grants :: grants where
  "open_grants = [(Owner, 134217727)]"

lemma open_grants_owner: "granted open_grants Owner p"
  by (rule all_grants_granted) (simp add: open_grants_def role_mask_def getMask_def mask_num_def)

theorem shuffle_not_marked_witness:
  "\<exists>s. processRequest (quiet_world 0) ShuffleRequest (server_context Owner) (small_room\<lparr>r_grants := open_grants\<rparr>)
       = Returns () s
     \<and> vq_items (r_queue s) = [bare_video ''vimeo'' ''3'', bare_video ''vimeo'' ''2''] \<and> r_dirty s = []"
  using shuffle_not_marked [of "small_room\<lparr>r_grants := open_grants\<rparr>" "server_context Owner" "quiet_world 0"]
    open_grants_owner
  by (auto simp: server_context_def small_room_def newVideoQueue_def quiet_world_def)

end
