(* ===== verification/ClientStore.thy ===== *)
theory ClientStore
  imports RoomMachine
begin

text \<open>
  The client's picture of a room: the vuex modules \<open>client/src/stores/room.ts\<close>, \<open>users.ts\<close> and
  \<open>toast.ts\<close>, the playback mutations of \<open>client/src/store.ts\<close>, and the position shown by
  \<open>client/src/views/Room.vue\<close>; with what they show of the room of \<open>server/room.ts\<close>.
\<close>

section \<open>The room module\<close>

text \<open>\<open>cs_bufferPercent\<close> is a field of the root store that the action \<open>sync\<close> resets.\<close>

record clientRoom =
  cs_name :: string
  cs_title :: string
  cs_description :: string
  cs_isTemporary :: bool
  cs_visibility :: visibility
  cs_queueMode :: queueMode
  cs_currentSource :: "queueItem option"
  cs_queue :: "queueItem list"
  cs_isPlaying :: bool
  cs_playbackPosition :: rat
  cs_playbackSpeed :: rat
  cs_hasOwner :: bool
  cs_voteCounts :: "(string, nat) js_map option"
  cs_playbackStartTime :: "int option"
  cs_videoSegments :: "segment list"
  cs_grants :: grants
  cs_prevQueue :: "queueItem list option"
  cs_enableVoteSkip :: bool
  cs_votesToSkip :: "clientId js_set"
  cs_bufferPercent :: "rat option"

text \<open>The two tests that restart the client's clock; both read the state before the update.\<close>

definition sync_clock :: "int \<Rightarrow> serverMessageSync \<Rightarrow> clientRoom \<Rightarrow> clientRoom" where
  "sync_clock now m c =
    (let c1 = (case sy_isPlaying m of
           Some b \<Rightarrow> (if cs_isPlaying c \<noteq> b \<and> b then c\<lparr>cs_playbackStartTime := Some now\<rparr> else c)
         | None \<Rightarrow> c)
     in if ((case sy_currentSource m of Some (Some _) \<Rightarrow> True | _ \<Rightarrow> False) \<or> sy_playbackPosition m \<noteq> None)
           \<and> cs_isPlaying c1
        then c1\<lparr>cs_playbackStartTime := Some now\<rparr> else c1)"

definition sync_buffer :: "serverMessageSync \<Rightarrow> clientRoom \<Rightarrow> clientRoom" where
  "sync_buffer m c = (if sy_currentSource m \<noteq> None then c\<lparr>cs_bufferPercent := None\<rparr> else c)"

definition sync_commit :: "serverMessageSync \<Rightarrow> grants option \<Rightarrow> clientRoom \<Rightarrow> clientRoom" where
  "sync_commit m g c = c\<lparr>
     cs_name := nullish (sy_name m) (cs_name c),
     cs_title := nullish (sy_title m) (cs_title c),
     cs_description := nullish (sy_description m) (cs_description c),
     cs_isTemporary := nullish (sy_isTemporary m) (cs_isTemporary c),
     cs_visibility := nullish (sy_visibility m) (cs_visibility c),
     cs_queueMode := nullish (sy_queueMode m) (cs_queueMode c),
     cs_isPlaying := nullish (sy_isPlaying m) (cs_isPlaying c),
     cs_playbackPosition := nullish (sy_playbackPosition m) (cs_playbackPosition c),
     cs_currentSource := nullish (sy_currentSource m) (cs_currentSource c),
     cs_queue := nullish (sy_queue m) (cs_queue c),
     cs_prevQueue := nullish (sy_prevQueue m) (cs_prevQueue c),
     cs_playbackSpeed := nullish (sy_playbackSpeed m) (cs_playbackSpeed c),
     cs_hasOwner := nullish (sy_hasOwner m) (cs_hasOwner c),
     cs_enableVoteSkip := nullish (sy_enableVoteSkip m) (cs_enableVoteSkip c),
     cs_videoSegments := nullish (sy_videoSegments m) (cs_videoSegments c),
     cs_voteCounts := (case sy_voteCounts m of Some vs \<Rightarrow> Some (js_map_of_entries vs []) | None \<Rightarrow> cs_voteCounts c),
     cs_votesToSkip := (case sy_votesToSkip m of Some vs \<Rightarrow> js_set_of_list vs [] | None \<Rightarrow> cs_votesToSkip c),
     cs_grants := nullish g (cs_grants c)\<rparr>"

text \<open>
  \<open>roomModule.actions.sync\<close>: everything is committed at once, unless the grants in the message
  cannot be parsed.
\<close>

definition client_sync :: "int \<Rightarrow> serverMessageSync \<Rightarrow> clientRoom \<Rightarrow> (exn, unit, clientRoom) outcome" where
  "client_sync now m c =
    (let c1 = sync_buffer m (sync_clock now m c)
     in case sy_grants m of
          None \<Rightarrow> Returns () (sync_commit m None c1)
        | Some es \<Rightarrow> (case newGrants es of
              Inl e \<Rightarrow> Throws e c1
            | Inr g \<Rightarrow> Returns () (sync_commit m (Some g) c1)))"

section \<open>The position a client shows\<close>

text \<open>
  \<open>timestampUpdate\<close> of \<open>Room.vue\<close>; \<open>dayjs(undefined)\<close> is the current time, so without a start
  time nothing has elapsed.
\<close>

definition truePosition :: "int \<Rightarrow> clientRoom \<Rightarrow> rat" where
  "truePosition now c =
    (if cs_currentSource c = None then 0
     else if cs_isPlaying c
     then calculateCurrentPosition (nullish (cs_playbackStartTime c) now) now (cs_playbackPosition c) (cs_playbackSpeed c)
     else cs_playbackPosition c)"

section \<open>The users module\<close>

record usersState =
  us_users :: "(clientId, partialUserInfo) js_map"
  us_you :: clientId

definition assign_user :: "partialUserInfo \<Rightarrow> partialUserInfo \<Rightarrow> partialUserInfo" where
  "assign_user new old = \<lparr>pu_id = pu_id new,
     pu_name = (case pu_name new of None \<Rightarrow> pu_name old | v \<Rightarrow> v),
     pu_isLoggedIn = (case pu_isLoggedIn new of None \<Rightarrow> pu_isLoggedIn old | v \<Rightarrow> v),
     pu_status = (case pu_status new of None \<Rightarrow> pu_status old | v \<Rightarrow> v),
     pu_role = (case pu_role new of None \<Rightarrow> pu_role old | v \<Rightarrow> v)\<rparr>"

primrec users_user :: "userUpdate \<Rightarrow> usersState \<Rightarrow> usersState" where
  "users_user (UserInit us) s =
     s\<lparr>us_users := js_map_of_entries (map (\<lambda>u. (ui_id u, full_user_info u)) us) []\<rparr>"
| "users_user (UserUpdate u) s = s\<lparr>us_users := AList.update (pu_id u)
     (case map_of (us_users s) (pu_id u) of None \<Rightarrow> u | Some old \<Rightarrow> assign_user u old) (us_users s)\<rparr>"
| "users_user (UserRemove c) s = s\<lparr>us_users := AList.delete c (us_users s)\<rparr>"

definition users_you :: "clientId \<Rightarrow> usersState \<Rightarrow> usersState" where
  "users_you c s = s\<lparr>us_you := c\<rparr>"

definition users_self :: "usersState \<Rightarrow> partialUserInfo option" where
  "users_self s = map_of (us_users s) (us_you s)"

text \<open>The getter \<open>grants\<close>: the mask of the own role, of the owner when the own user is unknown.\<close>

definition users_grants :: "clientRoom \<Rightarrow> usersState \<Rightarrow> grantMask option" where
  "users_grants c s = getMask (cs_grants c)
     (case users_self s of Some u \<Rightarrow> nullish (pu_role u) Owner | None \<Rightarrow> Owner)"

section \<open>What a client shows of a room\<close>

text \<open>
  The client's value of a property against the server's. The properties the client's room module
  does not keep (\<open>autoSkipSegmentCategories\<close>, \<open>restoreQueueBehavior\<close>) have nothing to compare, and
  the playback position is a matter of time, compared further below.
\<close>

primrec displays :: "syncProp \<Rightarrow> clientRoom \<Rightarrow> room \<Rightarrow> bool" where
  "displays PName c r \<longleftrightarrow> cs_name c = r_name r"
| "displays PTitle c r \<longleftrightarrow> cs_title c = r_title r"
| "displays PDescription c r \<longleftrightarrow> cs_description c = r_description r"
| "displays PIsTemporary c r \<longleftrightarrow> cs_isTemporary c = r_isTemporary r"
| "displays PVisibility c r \<longleftrightarrow> cs_visibility c = r_visibility r"
| "displays PQueueMode c r \<longleftrightarrow> cs_queueMode c = r_queueMode r"
| "displays PCurrentSource c r \<longleftrightarrow> cs_currentSource c = r_currentSource r"
| "displays PQueue c r \<longleftrightarrow> cs_queue c = vq_items (r_queue r)"
| "displays PIsPlaying c r \<longleftrightarrow> cs_isPlaying c = r_isPlaying r"
| "displays PPlaybackPosition c r \<longleftrightarrow> True"
| "displays PPlaybackSpeed c r \<longleftrightarrow> cs_playbackSpeed c = r_playbackSpeed r"
| "displays PGrants c r \<longleftrightarrow> getMask (cs_grants c) = getMask (r_grants r)"
| "displays PHasOwner c r \<longleftrightarrow> cs_hasOwner c = hasOwner r"
| "displays PVoteCounts c r \<longleftrightarrow> cs_voteCounts c = Some (voteCounts r)"
| "displays PVideoSegments c r \<longleftrightarrow> cs_videoSegments c = r_videoSegments r"
| "displays PAutoSkipSegmentCategories c r \<longleftrightarrow> True"
| "displays PPrevQueue c r \<longleftrightarrow> cs_prevQueue c = r_prevQueue r"
| "displays PRestoreQueueBehavior c r \<longleftrightarrow> True"
| "displays PEnableVoteSkip c r \<longleftrightarrow> cs_enableVoteSkip c = r_enableVoteSkip r"
| "displays PVotesToSkip c r \<longleftrightarrow> cs_votesToSkip c = r_votesToSkip r"

lemma displays_prop_same: "displays p c r \<Longrightarrow> prop_same p r s \<Longrightarrow> displays p c s"
  by (cases p) (auto simp: hasOwner_def voteCounts_def)

lemma js_set_of_list_id: "distinct (s @ xs) \<Longrightarrow> js_set_of_list xs s = s @ xs"
  by (induction xs s rule: js_set_of_list.induct) (auto simp: js_set_add_def)

lemma voteCounts_entries: "votes_wf (r_votes r) \<Longrightarrow> js_map_of_entries (voteCounts r) [] = voteCounts r"
proof -
  assume wf: "votes_wf (r_votes r)"
  have "map fst (voteCounts r) = map fst (r_votes r)"
    by (simp add: voteCounts_def comp_def case_prod_unfold)
  with wf show ?thesis
    using js_map_of_entries_distinct [of "[]" "voteCounts r"] by (simp add: votes_wf_def js_map_wf_def)
qed

lemma picked:
  "sy_name (pick_props ps (syncableState w r)) = keep_if (PName \<in> set ps) (Some (r_name r))"
  "sy_title (pick_props ps (syncableState w r)) = keep_if (PTitle \<in> set ps) (Some (r_title r))"
  "sy_description (pick_props ps (syncableState w r)) = keep_if (PDescription \<in> set ps) (Some (r_description r))"
  "sy_isTemporary (pick_props ps (syncableState w r)) = keep_if (PIsTemporary \<in> set ps) (Some (r_isTemporary r))"
  "sy_visibility (pick_props ps (syncableState w r)) = keep_if (PVisibility \<in> set ps) (Some (r_visibility r))"
  "sy_queueMode (pick_props ps (syncableState w r)) = keep_if (PQueueMode \<in> set ps) (Some (r_queueMode r))"
  "sy_isPlaying (pick_props ps (syncableState w r)) = keep_if (PIsPlaying \<in> set ps) (Some (r_isPlaying r))"
  "sy_playbackPosition (pick_props ps (syncableState w r)) = keep_if (PPlaybackPosition \<in> set ps) (Some (realPlaybackPosition w r))"
  "sy_currentSource (pick_props ps (syncableState w r)) = keep_if (PCurrentSource \<in> set ps) (Some (r_currentSource r))"
  "sy_queue (pick_props ps (syncableState w r)) = keep_if (PQueue \<in> set ps) (Some (vq_items (r_queue r)))"
  "sy_prevQueue (pick_props ps (syncableState w r)) = keep_if (PPrevQueue \<in> set ps) (Some (r_prevQueue r))"
  "sy_grants (pick_props ps (syncableState w r)) = keep_if (PGrants \<in> set ps) (Some (r_grants r))"
  "sy_playbackSpeed (pick_props ps (syncableState w r)) = keep_if (PPlaybackSpeed \<in> set ps) (Some (r_playbackSpeed r))"
  "sy_voteCounts (pick_props ps (syncableState w r)) = keep_if (PVoteCounts \<in> set ps) (Some (voteCounts r))"
  "sy_hasOwner (pick_props ps (syncableState w r)) = keep_if (PHasOwner \<in> set ps) (Some (hasOwner r))"
  "sy_enableVoteSkip (pick_props ps (syncableState w r)) = keep_if (PEnableVoteSkip \<in> set ps) (Some (r_enableVoteSkip r))"
  "sy_votesToSkip (pick_props ps (syncableState w r)) = keep_if (PVotesToSkip \<in> set ps) (Some (r_votesToSkip r))"
  "sy_videoSegments (pick_props ps (syncableState w r)) = keep_if (PVideoSegments \<in> set ps) (Some (r_videoSegments r))"
  by (simp_all add: pick_props_def syncableState_def)

lemma committed:
  "cs_name (sync_commit m g c) = nullish (sy_name m) (cs_name c)"
  "cs_title (sync_commit m g c) = nullish (sy_title m) (cs_title c)"
  "cs_description (sync_commit m g c) = nullish (sy_description m) (cs_description c)"
  "cs_isTemporary (sync_commit m g c) = nullish (sy_isTemporary m) (cs_isTemporary c)"
  "cs_visibility (sync_commit m g c) = nullish (sy_visibility m) (cs_visibility c)"
  "cs_queueMode (sync_commit m g c) = nullish (sy_queueMode m) (cs_queueMode c)"
  "cs_isPlaying (sync_commit m g c) = nullish (sy_isPlaying m) (cs_isPlaying c)"
  "cs_playbackPosition (sync_commit m g c) = nullish (sy_playbackPosition m) (cs_playbackPosition c)"
  "cs_currentSource (sync_commit m g c) = nullish (sy_currentSource m) (cs_currentSource c)"
  "cs_queue (sync_commit m g c) = nullish (sy_queue m) (cs_queue c)"
  "cs_prevQueue (sync_commit m g c) = nullish (sy_prevQueue m) (cs_prevQueue c)"
  "cs_playbackSpeed (sync_commit m g c) = nullish (sy_playbackSpeed m) (cs_playbackSpeed c)"
  "cs_hasOwner (sync_commit m g c) = nullish (sy_hasOwner m) (cs_hasOwner c)"
  "cs_enableVoteSkip (sync_commit m g c) = nullish (sy_enableVoteSkip m) (cs_enableVoteSkip c)"
  "cs_videoSegments (sync_commit m g c) = nullish (sy_videoSegments m) (cs_videoSegments c)"
  "cs_voteCounts (sync_commit m g c) =
     (case sy_voteCounts m of Some vs \<Rightarrow> Some (js_map_of_entries vs []) | None \<Rightarrow> cs_voteCounts c)"
  "cs_votesToSkip (sync_commit m g c) =
     (case sy_votesToSkip m of Some vs \<Rightarrow> js_set_of_list vs [] | None \<Rightarrow> cs_votesToSkip c)"
  "cs_grants (sync_commit m g c) = nullish g (cs_grants c)"
  "cs_playbackStartTime (sync_commit m g c) = cs_playbackStartTime c"
  by (simp_all add: sync_commit_def)

text \<open>A synchronisation message brings the client up to date in the properties it carries.\<close>

lemma client_sync_displays:
  assumes wf: "room_wf r"
  shows "\<exists>c'. client_sync now (pick_props ps (syncableState w r)) c = Returns () c'
    \<and> (\<forall>p. p \<in> set ps \<or> displays p c r \<longrightarrow> displays p c' r)"
proof -
  obtain g where g: "newGrants (r_grants r) = Inr g" "getMask g = getMask (r_grants r)"
    using grants_ok_replay [of "r_grants r"] wf by (auto simp: room_wf_def toJSON_def)
  let ?m = "pick_props ps (syncableState w r)"
  let ?c1 = "sync_buffer ?m (sync_clock now ?m c)"
  let ?g = "if PGrants \<in> set ps then Some g else None"
  have ret: "client_sync now ?m c = Returns () (sync_commit ?m ?g ?c1)"
    by (simp add: client_sync_def picked keep_if_def g(1) Let_def)
  have same: "cs_name ?c1 = cs_name c" "cs_title ?c1 = cs_title c" "cs_description ?c1 = cs_description c"
    "cs_isTemporary ?c1 = cs_isTemporary c" "cs_visibility ?c1 = cs_visibility c"
    "cs_queueMode ?c1 = cs_queueMode c" "cs_currentSource ?c1 = cs_currentSource c"
    "cs_queue ?c1 = cs_queue c" "cs_isPlaying ?c1 = cs_isPlaying c"
    "cs_playbackSpeed ?c1 = cs_playbackSpeed c" "cs_hasOwner ?c1 = cs_hasOwner c"
    "cs_voteCounts ?c1 = cs_voteCounts c" "cs_videoSegments ?c1 = cs_videoSegments c"
    "cs_grants ?c1 = cs_grants c" "cs_prevQueue ?c1 = cs_prevQueue c"
    "cs_enableVoteSkip ?c1 = cs_enableVoteSkip c" "cs_votesToSkip ?c1 = cs_votesToSkip c"
    by (auto simp: sync_buffer_def sync_clock_def Let_def split: option.split)
  have "displays p (sync_commit ?m ?g ?c1) r" if "p \<in> set ps \<or> displays p c r" for p
    using that wf js_set_of_list_id [of "[]" "r_votesToSkip r"]
    by (cases p; cases "p \<in> set ps"; simp add: committed picked same keep_if_def g(2) room_wf_def voteCounts_entries)
  with ret show ?thesis by blast
qed

end
