(* ===== verification/RoomConvergence.thy ===== *)
theory RoomConvergence
  imports ClientStore
begin

text \<open>
  Server and client together: a room, a client's picture of it, and the synchronisation messages
  between them. The client first receives the whole state (as \<open>server/clientmanager.ts\<close> sends it on
  joining) and then the messages of \<open>sync\<close>.
\<close>

section \<open>The message of a synchronisation\<close>

definition sync_message :: "world \<Rightarrow> room \<Rightarrow> serverMessageSync" where
  "sync_message w r = pick_props (r_dirty r) (syncableState w r)"

lemma sync_publishes:
  assumes "r_dirty r \<noteq> []"
  shows "\<exists>es. r_effects (final_state (sync w r)) = r_effects r @ Publish (MsgSync (sync_message w r)) # es
    \<and> (\<forall>m. Publish m \<notin> set es)"
  using assms
  by (auto simp: sync_def sync_with_def sync_begin_def sync_end_def sync_message_def publish_def room_defs Let_def)

lemma whole_state_picked: "syncableState w r = pick_props syncableProps (syncableState w r)"
  by (simp add: pick_props_def syncableState_def syncableProps_def keep_if_def)

lemma all_syncable: "p \<in> set syncableProps"
  by (cases p) (simp_all add: syncableProps_def)

lemma sync_same: "prop_same p r (final_state (sync w r))"
  by (cases p)
     (auto simp: sync_def sync_with_def sync_begin_def sync_end_def publish_def room_defs clean_def Let_def)

lemma sync_dirty: "r_name r \<noteq> [] \<Longrightarrow> r_dirty (final_state (sync w r)) = []"
  by (auto simp: sync_def sync_with_def sync_begin_def sync_end_def publish_def room_defs Let_def)

section \<open>The link\<close>

datatype linkEvent =
    LinkRequest world roomRequest roomRequestAuthorization
  | LinkUpdate world
  | LinkSync world int

text \<open>A synchronisation sends a message only when something is marked; the client handles it at its time.\<close>

primrec link_step :: "room \<times> clientRoom \<Rightarrow> linkEvent \<Rightarrow> room \<times> clientRoom" where
  "link_step rc (LinkRequest w request auth) =
     (final_state (processUnauthorizedRequest w request auth (fst rc)), snd rc)"
| "link_step rc (LinkUpdate w) = (final_state (update w (fst rc)), snd rc)"
| "link_step rc (LinkSync w now) = (final_state (sync w (fst rc)),
     if r_dirty (fst rc) = [] then snd rc
     else final_state (client_sync now (sync_message w (fst rc)) (snd rc)))"

primrec reports :: "linkEvent \<Rightarrow> bool" where
  "reports (LinkRequest w request auth) = marks_changes request"
| "reports (LinkUpdate w) = True"
| "reports (LinkSync w now) = True"

definition agree :: "room \<times> clientRoom \<Rightarrow> bool" where
  "agree rc \<longleftrightarrow> room_wf (fst rc) \<and> (\<forall>p. unmarked p (fst rc) \<longrightarrow> displays p (snd rc) (fst rc))"

lemma agree_tracks: "agree (r, c) \<Longrightarrow> tracks r s \<Longrightarrow> room_wf s \<Longrightarrow> agree (s, c)"
  unfolding agree_def tracks_def unmarked_def by (auto intro: displays_prop_same)

lemma link_sync_displays:
  assumes "agree (r, c)"
  shows "displays p (snd (link_step (r, c) (LinkSync w now))) (fst (link_step (r, c) (LinkSync w now)))"
proof (cases "r_dirty r = []")
  case True
  with assms show ?thesis
    by (auto simp: agree_def unmarked_def sync_def sync_with_def)
next
  case False
  obtain c' where c': "client_sync now (sync_message w r) c = Returns () c'"
    "\<forall>p. p \<in> set (r_dirty r) \<or> displays p c r \<longrightarrow> displays p c' r"
    using client_sync_displays [of r now "r_dirty r" w c] assms by (auto simp: agree_def sync_message_def)
  then have "displays p c' r" using assms by (auto simp: agree_def unmarked_def)
  with c'(1) False sync_same [of p r w] show ?thesis by (auto intro: displays_prop_same)
qed

lemma link_step_agree:
  assumes "agree rc" and "reports e"
  shows "agree (link_step rc e)"
proof (cases e)
  case (LinkRequest w request auth)
  have "tracks (fst rc) (final_state (processUnauthorizedRequest w request auth (fst rc)))"
    using tracking.processUnauthorizedRequest [OF tracks_refl, of request] assms(2) LinkRequest
    by (simp add: ends_in_def)
  moreover have "room_wf (final_state (processUnauthorizedRequest w request auth (fst rc)))"
    using wf.processUnauthorizedRequest assms(1) by (simp add: agree_def ends_in_def)
  ultimately show ?thesis using assms(1) LinkRequest by (cases rc) (simp add: agree_tracks)
next
  case (LinkUpdate w)
  have "tracks (fst rc) (final_state (update w (fst rc)))"
    using tracking.update [OF tracks_refl] by (simp add: ends_in_def)
  moreover have "room_wf (final_state (update w (fst rc)))"
    using wf.update assms(1) by (simp add: agree_def ends_in_def)
  ultimately show ?thesis using assms(1) LinkUpdate by (cases rc) (simp add: agree_tracks)
next
  case (LinkSync w now)
  have "room_wf (final_state (sync w (fst rc)))"
    using assms(1) sync_wf by (simp add: agree_def ends_in_def)
  then show ?thesis
    using LinkSync assms(1) link_sync_displays [of "fst rc" "snd rc"] by (cases rc) (simp add: agree_def)
qed

interpretation link: invariant_machine link_step agree reports
  by unfold_locales (rule link_step_agree)

text \<open>The state after joining: the client has handled the whole syncable state.\<close>

definition joined :: "world \<Rightarrow> int \<Rightarrow> room \<Rightarrow> clientRoom \<Rightarrow> room \<times> clientRoom" where
  "joined w now r c = (r, final_state (client_sync now (syncableState w r) c))"

lemma joined_agree: "room_wf r \<Longrightarrow> agree (joined w now r c)"
  using client_sync_displays [of r now syncableProps w c] all_syncable
  by (auto simp: joined_def agree_def whole_state_picked [symmetric])

section \<open>Properties\<close>


definition blank_client :: clientRoom where
  "blank_client = \<lparr>cs_name = '''', cs_title = '''', cs_description = '''', cs_isTemporary = False,
     cs_visibility = Unlisted, cs_queueMode = Manual, cs_currentSource = None, cs_queue = [],
     cs_isPlaying = False, cs_playbackPosition = 0, cs_playbackSpeed = 1, cs_hasOwner = False,
     cs_voteCounts = None, cs_playbackStartTime = None, cs_videoSegments = [], cs_grants = [],
     cs_prevQueue = None, cs_enableVoteSkip = False, cs_votesToSkip = [], cs_bufferPercent = None\<rparr>"


text \<open>
  A synchronisation that carries the position puts the client's clock right: if it is handled at
  the moment it was made, the client shows, from then on and at every later time, exactly the
  position the server computes, as long as the room does not change.
\<close>

theorem client_clock_exact:
  assumes "agree (r, c)" and "PPlaybackPosition \<in> set (r_dirty r)" and "r_currentSource r \<noteq> None"
  shows "truePosition t (snd (link_step (r, c) (LinkSync w (w_now w)))) = realPlaybackPosition (w\<lparr>w_now := t\<rparr>) r"
proof -
  let ?m = "sync_message w r"
  have wf: "room_wf r" and unm: "\<And>p. p \<notin> set (r_dirty r) \<Longrightarrow> displays p c r"
    using assms(1) by (auto simp: agree_def unmarked_def)
  obtain g where g: "newGrants (r_grants r) = Inr g"
    using grants_ok_replay [of "r_grants r"] wf by (auto simp: room_wf_def toJSON_def)
  obtain g' where ret: "client_sync (w_now w) ?m c
      = Returns () (sync_commit ?m g' (sync_buffer ?m (sync_clock (w_now w) ?m c)))"
    using g by (cases "PGrants \<in> set (r_dirty r)")
      (auto simp: client_sync_def sync_message_def picked keep_if_def Let_def)
  let ?c = "sync_commit ?m g' (sync_buffer ?m (sync_clock (w_now w) ?m c))"
  have c: "snd (link_step (r, c) (LinkSync w (w_now w))) = ?c"
    using assms(2) ret by auto
  have disp: "displays p ?c r" for p
    using link_sync_displays [OF assms(1), of p w "w_now w"] sync_same [of p r w] c
    by (cases p) (auto simp: hasOwner_def voteCounts_def)
  have pos: "cs_playbackPosition ?c = realPlaybackPosition w r"
    using assms(2) by (simp add: committed sync_message_def picked keep_if_def)
  have src: "cs_currentSource ?c \<noteq> None" and play: "cs_isPlaying ?c = r_isPlaying r"
    and speed: "cs_playbackSpeed ?c = r_playbackSpeed r"
    using disp [of PCurrentSource] disp [of PIsPlaying] disp [of PPlaybackSpeed] assms(3) by simp_all
  show ?thesis
  proof (cases "r_isPlaying r")
    case False
    then show ?thesis
      using src play pos c by (auto simp: truePosition_def realPlaybackPosition_def)
  next
    case True
    obtain start where start: "r_playbackStart r = Some start" using wf True by (auto simp: room_wf_def)
    have "cs_playbackStartTime (sync_clock (w_now w) ?m c) = Some (w_now w)"
      using assms(2) unm [of PIsPlaying] True
      by (auto simp: sync_clock_def sync_message_def picked keep_if_def Let_def)
    then have "cs_playbackStartTime ?c = Some (w_now w)"
      by (simp add: committed sync_buffer_def)
    then show ?thesis
      using c src play pos speed True start
      by (auto simp: truePosition_def realPlaybackPosition_def calcDurationFromPlaybackStart_def
          calculateCurrentPosition_def field_simps)
  qed
qed

definition demo_grants :: grants where
  "demo_grants = [(UnregisteredUser, 2), (RegisteredUser, 2), (TrustedUser, 2), (Moderator, 2),
     (Administrator, 134217727), (Owner, 134217727)]"

definition demo_room :: room where
  "demo_room = small_room\<lparr>r_grants := demo_grants, r_dirty := [PPlaybackPosition], r_isPlaying := True,
     r_playbackStart := Some 0\<rparr>"

lemma demo_grants_ok: "grants_ok demo_grants"
  using newGrants_ok [OF newGrants_example] by (simp add: demo_grants_def)

lemma demo_room_wf: "room_wf demo_room"
  using demo_grants_ok
  by (auto simp: room_wf_def demo_room_def small_room_def initial_room_def room_defs roles_wf_def votes_wf_def js_map_wf_def)

theorem client_clock_exact_witness:
  "truePosition 5000 (snd (link_step (joined (quiet_world 0) 0 demo_room blank_client) (LinkSync (quiet_world 100) 100))) = 5"
proof -
  have "agree (joined (quiet_world 0) 0 demo_room blank_client)" by (rule joined_agree [OF demo_room_wf])
  then have "truePosition 5000 (snd (link_step (joined (quiet_world 0) 0 demo_room blank_client)
      (LinkSync (quiet_world 100) (w_now (quiet_world 100))))) = realPlaybackPosition ((quiet_world 100)\<lparr>w_now := 5000\<rparr>) demo_room"
    unfolding joined_def
    by (rule client_clock_exact) (simp_all add: demo_room_def small_room_def)
  then show ?thesis
    by (simp add: quiet_world_def realPlaybackPosition_def calcDurationFromPlaybackStart_def
        calculateCurrentPosition_def demo_room_def small_room_def initial_room_def room_defs)
qed

text \<open>
  Convergence needs \<open>sync\<close> to run undisturbed. While it awaits the database another request can
  run, and the marks of that request are cleared with the others: here a paused room starts playing
  in between, no message tells the clients, nothing is marked, and a later synchronisation does
  nothing.
\<close>

theorem sync_loses_update:
  assumes "r_name r \<noteq> []" and "r_dirty r \<noteq> []" and "PIsPlaying \<notin> set (r_dirty r)" and "\<not> r_isPlaying r"
    and "granted (r_grants r) (rc_role context) ''playback.play-pause''" and "rc_clientId context = None"
  shows "\<exists>s. sync_with (\<lambda>x. final_state (processRequest w (PlaybackRequest True) context x)) w r = Returns () s
    \<and> r_isPlaying s \<and> r_dirty s = [] \<and> sync w s = Returns () s
    \<and> (\<forall>m. Publish (MsgSync m) \<in> set (drop (length (r_effects r)) (r_effects s)) \<longrightarrow> sy_isPlaying m = None)"
  using assms
  by (auto simp: sync_with_def sync_def sync_begin_def sync_end_def publish_def processRequest.simps permitted_def
      check_def playback_def play_def publishRoomEvent_def room_defs Let_def picked keep_if_def)

theorem sync_loses_update_witness:
  "\<exists>s. sync_with (\<lambda>x. final_state (processRequest (quiet_world 0) (PlaybackRequest True) (server_context Owner) x))
         (quiet_world 0) (demo_room\<lparr>r_isPlaying := False\<rparr>) = Returns () s
       \<and> r_isPlaying s \<and> r_dirty s = []"
proof -
  have "granted demo_grants Owner p" for p
    using demo_grants_ok by (auto simp: grants_ok_def role_mask_def mask_num_def intro!: all_grants_granted)
  then show ?thesis
    using sync_loses_update [of "demo_room\<lparr>r_isPlaying := False\<rparr>" "server_context Owner" "quiet_world 0"]
    by (auto simp: demo_room_def small_room_def server_context_def)
qed

end
