(* ===== verification/PlaybackProperties.thy ===== *)
theory PlaybackProperties
  imports RoomConvergence
begin

text \<open>
  What playback does, request by request: the position under play, pause, seek and changes of speed;
  what comes next in each queue mode; votes for the order of the queue and votes to skip.
\<close>

section \<open>The position\<close>

definition at_time :: "int \<Rightarrow> world \<Rightarrow> world" where
  "at_time t w = w\<lparr>w_now := t\<rparr>"

definition elapsed :: "world \<Rightarrow> int \<Rightarrow> rat" where
  "elapsed w t = of_int (t - w_now w) / 1000"

lemma event_keeps:
  "r_playbackPosition (final_state (publishRoomEvent q c a r)) = r_playbackPosition r"
  "r_playbackSpeed (final_state (publishRoomEvent q c a r)) = r_playbackSpeed r"
  "r_playbackStart (final_state (publishRoomEvent q c a r)) = r_playbackStart r"
  "r_isPlaying (final_state (publishRoomEvent q c a r)) = r_isPlaying r"
  "r_queue (final_state (publishRoomEvent q c a r)) = r_queue r"
  "r_votes (final_state (publishRoomEvent q c a r)) = r_votes r"
  "r_currentSource (final_state (publishRoomEvent q c a r)) = r_currentSource r"
  "r_userRoles (final_state (publishRoomEvent q c a r)) = r_userRoles r"
  "r_grants (final_state (publishRoomEvent q c a r)) = r_grants r"
  by (auto simp: publishRoomEvent_def publish_def room_defs split: option.split sum.split)

lemma real_event:
  "realPlaybackPosition w (final_state (publishRoomEvent q c a r)) = realPlaybackPosition w r"
  by (simp add: realPlaybackPosition_def calcDurationFromPlaybackStart_def event_keeps split: option.split)

lemma real_dontSkip [simp]: "realPlaybackPosition w (r\<lparr>r_dontSkipSegmentsUntil := d\<rparr>) = realPlaybackPosition w r"
  by (simp add: realPlaybackPosition_def calcDurationFromPlaybackStart_def split: option.split)

lemma real_play:
  "realPlaybackPosition (at_time t w) (play w r) =
    (if r_isPlaying r then realPlaybackPosition (at_time t w) r
     else realPlaybackPosition w r + elapsed w t * r_playbackSpeed r)"
  by (simp add: realPlaybackPosition_def calcDurationFromPlaybackStart_def calculateCurrentPosition_def
      play_def at_time_def elapsed_def room_defs)

lemma real_pause: "realPlaybackPosition (at_time t w) (pause w r) = realPlaybackPosition w r"
  by (simp add: realPlaybackPosition_def calcDurationFromPlaybackStart_def calculateCurrentPosition_def
      pause_def flushPlaybackPosition_def count_seconds_def at_time_def room_defs Let_def split: option.split)

text \<open>
  The position is continuous. At every later time \<open>t\<close>: starting a paused room continues from
  where it stood, at its speed; pausing freezes the position of that moment; changing the speed
  continues from the position of that moment at the new speed; seeking continues from the new
  position; and seeking, like changing the speed, does not start a paused room.
\<close>

theorem position_continuous:
  "realPlaybackPosition (at_time t w) (final_state (playback w True context r)) =
      (if r_isPlaying r then realPlaybackPosition (at_time t w) r
       else realPlaybackPosition w r + elapsed w t * r_playbackSpeed r)
   \<and> realPlaybackPosition (at_time t w) (final_state (playback w False context r)) = realPlaybackPosition w r
   \<and> realPlaybackPosition (at_time t w) (final_state (setPlaybackSpeed w v r)) =
      realPlaybackPosition w r + (if r_isPlaying r then elapsed w t * v else 0)
   \<and> realPlaybackPosition (at_time t w) (final_state (seek w (Some x) context r)) =
      x + (if r_isPlaying r then elapsed w t * r_playbackSpeed r else 0)"
proof -
  have after: "realPlaybackPosition v (final_state (and_then c (\<lambda>_ s. Returns () (s\<lparr>r_dontSkipSegmentsUntil := d s\<rparr>))))
      = realPlaybackPosition v (final_state c)" for v d and c :: "unit room_call"
    by (cases c) simp_all
  have "realPlaybackPosition (at_time t w) (final_state (seek w (Some x) context r))
      = realPlaybackPosition (at_time t w) (seekRaw w x r)"
    by (simp add: seek_def Let_def after real_event)
  also have "\<dots> = x + (if r_isPlaying r then elapsed w t * r_playbackSpeed r else 0)"
    by (simp add: seekRaw_def count_seconds_def room_defs realPlaybackPosition_def
        calcDurationFromPlaybackStart_def calculateCurrentPosition_def at_time_def elapsed_def)
  finally have seek: "realPlaybackPosition (at_time t w) (final_state (seek w (Some x) context r))
      = x + (if r_isPlaying r then elapsed w t * r_playbackSpeed r else 0)" .
  have "realPlaybackPosition (at_time t w) (final_state (setPlaybackSpeed w v r)) =
      realPlaybackPosition w r + (if r_isPlaying r then elapsed w t * v else 0)"
    by (simp add: setPlaybackSpeed_def flushPlaybackPosition_def count_seconds_def room_defs Let_def
        realPlaybackPosition_def calcDurationFromPlaybackStart_def calculateCurrentPosition_def at_time_def elapsed_def
        split: option.split)
  with seek show ?thesis
    by (simp add: playback_def real_event real_play real_pause)
qed

section \<open>The next item\<close>

lemma on_queue_dequeue:
  "vq_items (r_queue r) = y # ys \<Longrightarrow> \<exists>s. on_queue dequeue r = Returns (Some y) s \<and> vq_items (r_queue s) = ys
    \<and> r_isPlaying s = r_isPlaying r \<and> r_queueMode s = r_queueMode r \<and> r_currentSource s = r_currentSource r"
  by (simp add: on_queue.simps dequeue_def markDirty_def settle_queue_def Let_def room_defs)

lemma on_queue_enqueue:
  "\<exists>s. on_queue (enqueue [Some v]) r = Returns () s \<and> vq_items (r_queue s) = vq_items (r_queue r) @ [v]
    \<and> r_queueMode s = r_queueMode r \<and> r_currentSource s = r_currentSource r \<and> r_isPlaying s = r_isPlaying r"
  by (simp add: on_queue.simps enqueue_def isAllVideos_def markDirty_def settle_queue_def Let_def room_defs)

lemma after_dequeue_keeps [simp]:
  "r_queue (after_dequeue w r) = r_queue r" "r_currentSource (after_dequeue w r) = r_currentSource r"
  "r_isPlaying (after_dequeue w r) = r_isPlaying r" "r_playbackPosition (after_dequeue w r) = r_playbackPosition r"
  "r_queueMode (after_dequeue w r) = r_queueMode r" "r_playbackSpeed (after_dequeue w r) = 1"
  "r_votes (after_dequeue w r) = r_votes r"
  by (auto simp: after_dequeue_def want_segments_def clear_segments_def room_defs Let_def)

lemma take_next_item:
  assumes "vq_items (r_queue r) = y # ys"
  shows "\<exists>s. take_next w r = Returns () s \<and> r_currentSource s = Some y \<and> vq_items (r_queue s) = ys
    \<and> r_playbackPosition s = nullish (v_startAt y) 0 \<and> r_playbackStart s = Some (w_now w)
    \<and> r_isPlaying s = r_isPlaying r \<and> r_queueMode s = r_queueMode r"
  using assms on_queue_dequeue [OF assms]
  by (auto simp: take_next_def Let_def clear_segments_def room_defs)

lemma skip_votes_keeps [simp]:
  "r_queue (clear_skip_votes r) = r_queue r" "r_currentSource (clear_skip_votes r) = r_currentSource r"
  "r_queueMode (clear_skip_votes r) = r_queueMode r" "r_isPlaying (clear_skip_votes r) = r_isPlaying r"
  "r_votes (clear_skip_votes r) = r_votes r"
  "r_queue (count_seconds w r) = r_queue r" "r_currentSource (count_seconds w r) = r_currentSource r"
  "r_queueMode (count_seconds w r) = r_queueMode r" "r_isPlaying (count_seconds w r) = r_isPlaying r"
  "r_votes (count_seconds w r) = r_votes r"
  by (simp_all add: clear_skip_votes_def count_seconds_def room_defs)

lemma dequeue_dj:
  "r_currentSource r = Some x \<Longrightarrow> r_queueMode r = Dj \<Longrightarrow>
    \<exists>s. dequeueNext w r = Returns () s \<and> r_currentSource s = Some (clearQueueItemTrim x)
      \<and> vq_items (r_queue s) = vq_items (r_queue r) \<and> r_playbackPosition s = 0"
  by (simp add: dequeueNext_def Let_def restart_current_def room_defs)

lemma dequeue_loop:
  assumes "r_currentSource r = Some x" and "r_queueMode r = Loop"
    and "vq_items (r_queue r) @ [clearQueueItemTrim x] = y # ys"
  shows "\<exists>s. dequeueNext w r = Returns () s \<and> r_currentSource s = Some y \<and> vq_items (r_queue s) = ys
    \<and> r_playbackPosition s = nullish (v_startAt y) 0 \<and> r_queueMode s = Loop"
proof -
  obtain r1 where r1: "on_queue (enqueue [Some (clearQueueItemTrim x)]) (count_seconds w (clear_skip_votes r)) = Returns () r1"
    "vq_items (r_queue r1) = y # ys" "r_queueMode r1 = Loop"
    using on_queue_enqueue [of "clearQueueItemTrim x" "count_seconds w (clear_skip_votes r)"] assms by auto
  with take_next_item [OF r1(2), of w] assms show ?thesis
    by (auto simp: dequeueNext_def Let_def)
qed

lemma dequeue_advances:
  assumes "r_currentSource r = Some x" and "r_queueMode r = Manual \<or> r_queueMode r = Vote"
    and "vq_items (r_queue r) = y # ys"
  shows "\<exists>s. dequeueNext w r = Returns () s \<and> r_currentSource s = Some y \<and> vq_items (r_queue s) = ys
    \<and> r_playbackPosition s = nullish (v_startAt y) 0 \<and> r_isPlaying s = r_isPlaying r"
  using assms take_next_item [of "count_seconds w (clear_skip_votes r)" y ys w]
  by (auto simp: dequeueNext_def Let_def)

lemma dequeue_stops:
  assumes "r_currentSource r = Some x" and "r_queueMode r = Manual \<or> r_queueMode r = Vote"
    and "vq_items (r_queue r) = []"
  shows "\<exists>s. dequeueNext w r = Returns () s \<and> r_currentSource s = None \<and> vq_items (r_queue s) = []
    \<and> r_playbackPosition s = 0 \<and> \<not> r_isPlaying s"
  using assms by (auto simp: dequeueNext_def take_next_def Let_def room_defs)



subsection \<open>A loop comes round\<close>

definition playlist :: "room \<Rightarrow> queueItem list" where
  "playlist r = map clearQueueItemTrim (the (r_currentSource r) # vq_items (r_queue r))"

definition next_room :: "world \<Rightarrow> room \<Rightarrow> room" where
  "next_room w r = final_state (dequeueNext w r)"

lemma clear_idem [simp]: "clearQueueItemTrim (clearQueueItemTrim v) = clearQueueItemTrim v"
  by (simp add: clearQueueItemTrim_def)

lemma next_room_rotates:
  assumes "r_queueMode r = Loop" and "r_currentSource r \<noteq> None"
  shows "playlist (next_room w r) = rotate1 (playlist r) \<and> r_queueMode (next_room w r) = Loop
    \<and> r_currentSource (next_room w r) \<noteq> None"
proof -
  obtain x where x: "r_currentSource r = Some x" using assms by auto
  obtain y ys where y: "vq_items (r_queue r) @ [clearQueueItemTrim x] = y # ys"
    by (cases "vq_items (r_queue r)") auto
  from dequeue_loop [OF x assms(1) y, of w] obtain s where s: "dequeueNext w r = Returns () s"
    "r_currentSource s = Some y" "vq_items (r_queue s) = ys" "r_queueMode s = Loop" by auto
  have "rotate1 (playlist r) = map clearQueueItemTrim (vq_items (r_queue r) @ [clearQueueItemTrim x])"
    by (simp add: playlist_def x)
  then show ?thesis unfolding y using s by (simp add: playlist_def next_room_def)
qed

lemma rounds_rotate:
  assumes "r_queueMode r = Loop" and "r_currentSource r \<noteq> None"
  shows "playlist ((next_room w ^^ n) r) = rotate n (playlist r) \<and> r_queueMode ((next_room w ^^ n) r) = Loop
    \<and> r_currentSource ((next_room w ^^ n) r) \<noteq> None"
  by (induction n) (use assms next_room_rotates in auto)

text \<open>
  Loop mode is fair and loses nothing: after as many items as the playlist is long, the same
  item plays and the queue is in the same order as at the beginning (trims aside), and on the way
  the \<open>k\<close>-th item played is the \<open>k\<close>-th of the original playlist.
\<close>

theorem loop_comes_round:
  assumes "r_queueMode r = Loop" and "r_currentSource r \<noteq> None"
  shows "playlist ((next_room w ^^ length (playlist r)) r) = playlist r
    \<and> (\<forall>k < length (playlist r). hd (playlist ((next_room w ^^ k) r)) = playlist r ! k)"
proof -
  have "playlist r \<noteq> []" by (simp add: playlist_def)
  then show ?thesis using rounds_rotate [OF assms] by (simp add: hd_rotate_conv_nth)
qed

lemma small_playlist:
  "playlist (small_room\<lparr>r_queueMode := Loop\<rparr>)
     = [bare_video ''vimeo'' ''1'', bare_video ''vimeo'' ''2'', bare_video ''vimeo'' ''3'']"
  by (simp add: small_room_def newVideoQueue_def playlist_def clearQueueItemTrim_def bare_video_def)

theorem loop_comes_round_witness:
  "playlist ((next_room (quiet_world 0) ^^ 3) (small_room\<lparr>r_queueMode := Loop\<rparr>))
     = [bare_video ''vimeo'' ''1'', bare_video ''vimeo'' ''2'', bare_video ''vimeo'' ''3'']"
proof -
  have "r_queueMode (small_room\<lparr>r_queueMode := Loop\<rparr>) = Loop"
    "r_currentSource (small_room\<lparr>r_queueMode := Loop\<rparr>) \<noteq> None"
    by (simp_all add: small_room_def)
  from loop_comes_round [OF this, of "quiet_world 0"] show ?thesis
    unfolding small_playlist by (simp add: numeral_3_eq_3)
qed

section \<open>Votes\<close>

definition voting :: "room \<Rightarrow> room \<Rightarrow> bool" where
  "voting r s \<longleftrightarrow> r_votes s = r_votes r \<and> r_queueMode s = r_queueMode r"

lemma take_next_returns: "\<exists>s. take_next w r = Returns () s \<and> voting r s"
  by (cases "vq_items (r_queue r)")
     (auto simp: take_next_def Let_def on_queue.simps dequeue_def settle_queue_def voting_def clear_segments_def
       room_defs markDirty_def)

lemma dequeueNext_returns: "\<exists>s. dequeueNext w r = Returns () s \<and> voting r s"
proof (cases "r_currentSource r")
  case None
  then show ?thesis
    using take_next_returns [of w "clear_skip_votes r"] by (auto simp: dequeueNext_def Let_def voting_def)
next
  case (Some x)
  show ?thesis
  proof (cases "r_queueMode r = Loop")
    case True
    obtain r1 where "on_queue (enqueue [Some (clearQueueItemTrim x)]) (count_seconds w (clear_skip_votes r)) = Returns () r1"
      "voting r r1"
      using True by (auto simp: on_queue.simps enqueue_def isAllVideos_def settle_queue_def voting_def room_defs
          markDirty_def Let_def clear_skip_votes_def count_seconds_def)
    with Some True take_next_returns [of w r1] show ?thesis
      by (auto simp: dequeueNext_def Let_def voting_def)
  next
    case False
    then show ?thesis
      using Some take_next_returns [of w "count_seconds w (clear_skip_votes r)"]
      by (auto simp: dequeueNext_def Let_def voting_def restart_current_def room_defs)
  qed
qed

lemma advance_returns: "\<exists>s. advance w r = Returns () s \<and> voting r s"
  using dequeueNext_returns [of w r] dequeueNext_returns [of w "emit (MediaWatched m) r" for m]
  by (auto simp: advance_def voting_def emit_def split: option.split)

lemma auto_skip_keeps: "r_queue (auto_skip w r) = r_queue r" "r_votes (auto_skip w r) = r_votes r"
  by (auto simp: auto_skip_def skip_segment_def resume_skipping_def fetch_if_wanted_def publish_def seekRaw_def
      count_seconds_def fetchSponsorBlockSegments_def clear_segments_def room_defs split: option.split sum.split)

text \<open>
  The periodic update never throws, and in Vote mode it leaves the queue ordered: no item stands
  behind one with fewer votes.
\<close>

theorem update_orders_queue:
  assumes "r_queueMode r = Vote"
  shows "\<exists>s. update w r = Returns () s
    \<and> sorted_wrt (\<lambda>a b. votes_for s b \<le> votes_for s a) (vq_items (r_queue s))"
proof -
  obtain r1 where r1: "advance w r = Returns () r1" "voting r r1" using advance_returns by blast
  let ?r2 = "keep_alive w r1"
  obtain q where q: "orderByDesc (votes_for ?r2) (r_queue ?r2) = Returns () q"
    "sorted_wrt (\<lambda>a b. votes_for ?r2 b \<le> votes_for ?r2 a) (vq_items q)"
    using orderByDesc_sorted by blast
  have mode: "r_queueMode ?r2 = Vote"
    using r1(2) assms by (simp add: voting_def keep_alive_def emit_def)
  let ?r3 = "settle_queue q ?r2"
  have "update w r = Returns () (auto_skip w ?r3)"
    using r1(1) mode q(1) by (simp add: update_def order_by_votes_def on_queue.simps)
  moreover have "vq_items (r_queue (auto_skip w ?r3)) = vq_items q"
    by (simp add: auto_skip_keeps settle_queue_def Let_def room_defs)
  moreover have "votes_for (auto_skip w ?r3) = votes_for ?r2"
    by (rule ext) (simp add: votes_for_def auto_skip_keeps settle_queue_def Let_def room_defs split: option.split)
  ultimately show ?thesis using q(2) by auto
qed

theorem update_orders_queue_witness:
  "\<exists>s. update (quiet_world 0) (small_room\<lparr>r_queueMode := Vote\<rparr>) = Returns () s"
  using update_orders_queue [of "small_room\<lparr>r_queueMode := Vote\<rparr>" "quiet_world 0"] by auto



end
