(* ===== verification/SafetyProperties.thy ===== *)
theory SafetyProperties
  imports PlaybackProperties
begin

text \<open>
  Who may do what to a room: denied requests, settings, promotion and demotion, kicking, undo; and
  the ways around the checks that the code leaves open.
\<close>

section \<open>Permissions\<close>


lemma demo_not_granted: "\<not> granted demo_grants UnregisteredUser ''manage-users.kick''"
  by (simp add: granted_def granted_mask_def demo_grants_def getMask_def mask_num_def PERMISSIONS_def mk_perm_def
      perm_matches_def starts_with_def)


section \<open>Settings\<close>

lemma check_all_Inr: "check_all g ro ps = Inr () \<longleftrightarrow> (\<forall>p\<in>set ps. granted g ro p)"
  by (induction ps) (auto simp: check_def split: sum.split)

text \<open>Raising or lowering the mask of a role leaves the roles below it alone.\<close>

lemma setRoleGrants_below:
  assumes "grants_wf g" and "setRoleGrants i m g = Inr g'" and "0 \<le> j" and "j < i"
  shows "role_mask g' j = role_mask g j"
proof -
  have i: "isRoleValid i" and g': "g' = processInheiritance (AList.update i (m AND getValidationMask i) g)"
    using assms(2) by (auto simp: setRoleGrants_def split: if_splits)
  have le: "mask_le (role_mask g a) (role_mask g b)" if "0 \<le> a" "a \<le> b" "b \<le> 4" for a b
    using role_mask_step [OF assms(1) that] .
  have absorb: "role_mask g a OR role_mask g b = role_mask g b" if "0 \<le> a" "a \<le> b" "b \<le> 4" for a b
    by (rule mask_or_absorb [OF le [OF that]])
  have "j = 0 \<or> j = 1 \<or> j = 2 \<or> j = 3"
    using i assms(3,4) by (auto simp: isRoleValid_def)
  with assms(4) i show ?thesis
    using absorb [of 0 1] absorb [of 1 2] absorb [of 2 3] absorb [of 0 2] absorb [of 1 3] absorb [of 0 3]
    by (auto simp: g' role_mask_inherit role_mask_update)
qed

lemma apply_grants_below:
  assumes "grants_ok (r_grants r)" and "apply_grants new ros r = Returns () s"
    and "0 \<le> j" and "\<forall>i\<in>set ros. role_to_perm i \<noteq> None \<longrightarrow> j < i"
  shows "role_mask (r_grants s) j = role_mask (r_grants r) j"
  using assms
proof (induction ros arbitrary: r)
  case (Cons i ros)
  show ?case
  proof (cases "role_to_perm i = None")
    case False
    with Cons.prems(2) obtain g where g: "setRoleGrants i (mask_num (getMask new i)) (r_grants r) = Inr g"
      "apply_grants new ros (room_markDirty PGrants (r\<lparr>r_grants := g\<rparr>)) = Returns () s"
      by (auto split: sum.splits)
    have ok: "grants_ok g"
      using False by (intro setRoleGrants_ok [OF Cons.prems(1) _ _ g(1)]) (auto simp: role_to_perm_def split: if_splits)
    have "role_mask (r_grants s) j = role_mask g j"
      using Cons.IH [OF _ g(2)] ok Cons.prems by (simp add: room_markDirty_def)
    also have "\<dots> = role_mask (r_grants r) j"
      using Cons.prems False by (intro setRoleGrants_below [OF _ g(1)]) (auto simp: grants_ok_def)
    finally show ?thesis .
  qed (use Cons in auto)
qed simp

lemma apply_grants_fields:
  assumes "apply_grants new ros r = Returns () s"
  shows "r_title s = r_title r \<and> r_description s = r_description r \<and> r_visibility s = r_visibility r
    \<and> r_queueMode s = r_queueMode r \<and> r_autoSkipSegmentCategories s = r_autoSkipSegmentCategories r
    \<and> r_restoreQueueBehavior s = r_restoreQueueBehavior r \<and> r_enableVoteSkip s = r_enableVoteSkip r"
  using assms
proof (induction ros arbitrary: r)
  case (Cons i ros)
  then show ?case
    by (cases "role_to_perm i = None"; cases "setRoleGrants i (mask_num (getMask new i)) (r_grants r)")
       (auto simp: room_markDirty_def dest: Cons.IH)
qed simp

lemma apply_props_fields:
  "r_title (apply_props s r) = nullish (st_title s) (r_title r)"
  "r_description (apply_props s r) = nullish (st_description s) (r_description r)"
  "r_visibility (apply_props s r) = nullish (st_visibility s) (r_visibility r)"
  "r_queueMode (apply_props s r) = nullish (st_queueMode s) (r_queueMode r)"
  "r_autoSkipSegmentCategories (apply_props s r)
     = nullish (st_autoSkipSegmentCategories s) (r_autoSkipSegmentCategories r)"
  "r_restoreQueueBehavior (apply_props s r) = nullish (st_restoreQueueBehavior s) (r_restoreQueueBehavior r)"
  "r_enableVoteSkip (apply_props s r) = nullish (st_enableVoteSkip s) (r_enableVoteSkip r)"
  "r_grants (apply_props s r) = r_grants r"
proof -
  have p: "fld (pick v f x) = nullish v (fld x)" if "\<And>y z. fld (f y z) = y" for fld :: "room \<Rightarrow> 'a" and v f x
    using that by (cases v) (simp_all add: pick_def)
  show "r_title (apply_props s r) = nullish (st_title s) (r_title r)"
    "r_description (apply_props s r) = nullish (st_description s) (r_description r)"
    "r_visibility (apply_props s r) = nullish (st_visibility s) (r_visibility r)"
    "r_queueMode (apply_props s r) = nullish (st_queueMode s) (r_queueMode r)"
    "r_autoSkipSegmentCategories (apply_props s r)
       = nullish (st_autoSkipSegmentCategories s) (r_autoSkipSegmentCategories r)"
    "r_restoreQueueBehavior (apply_props s r) = nullish (st_restoreQueueBehavior s) (r_restoreQueueBehavior r)"
    "r_enableVoteSkip (apply_props s r) = nullish (st_enableVoteSkip s) (r_enableVoteSkip r)"
    "r_grants (apply_props s r) = r_grants r"
    by (simp_all add: apply_props_def pick_keeps p room_defs)
qed

lemma apply_grants_returns:
  "\<exists>s. apply_grants new ros r = Returns () s"
proof (induction ros arbitrary: r)
  case (Cons i ros)
  then show ?case
    by (auto simp: setRoleGrants_def role_to_perm_def isRoleValid_def split: if_splits)
qed simp

lemma prop_perm_in: "v \<noteq> None \<Longrightarrow> p \<in> set (prop_perm v p)"
  by (simp add: prop_perm_def)

lemma settings_perms_present:
  "st_title s \<noteq> None \<Longrightarrow> ''configure-room.set-title'' \<in> set (settings_perms s)"
  "st_description s \<noteq> None \<Longrightarrow> ''configure-room.set-description'' \<in> set (settings_perms s)"
  "st_visibility s \<noteq> None \<Longrightarrow> ''configure-room.set-visibility'' \<in> set (settings_perms s)"
  "st_queueMode s \<noteq> None \<Longrightarrow> ''configure-room.set-queue-mode'' \<in> set (settings_perms s)"
  "st_autoSkipSegmentCategories s \<noteq> None \<Longrightarrow> ''configure-room.other'' \<in> set (settings_perms s)"
  "st_restoreQueueBehavior s \<noteq> None \<Longrightarrow> ''configure-room.other'' \<in> set (settings_perms s)"
  "st_enableVoteSkip s \<noteq> None \<Longrightarrow> ''configure-room.other'' \<in> set (settings_perms s)"
  by (simp_all add: settings_perms_def prop_perm_in)

lemma settings_perms_grants:
  assumes "st_grants s = Some g" and "i \<in> set (getRoles g)" and "role_to_perm i = Some p"
  shows "p \<in> set (settings_perms s)"
proof -
  have "p \<in> set (List.map_filter role_to_perm (getRoles g))"
    using assms(2,3) by (auto simp: map_filter_def image_iff intro!: bexI [of _ i])
  with assms(1) show ?thesis by (simp add: settings_perms_def)
qed

lemma normalise_categories_keeps:
  "normalise_categories r s = (s', b) \<Longrightarrow> st_title s' = st_title s \<and> st_description s' = st_description s
    \<and> st_visibility s' = st_visibility s \<and> st_queueMode s' = st_queueMode s
    \<and> (st_autoSkipSegmentCategories s' = None \<longleftrightarrow> st_autoSkipSegmentCategories s = None)
    \<and> st_restoreQueueBehavior s' = st_restoreQueueBehavior s \<and> st_enableVoteSkip s' = st_enableVoteSkip s
    \<and> st_grants s' = st_grants s"
  by (auto simp: normalise_categories_def split: option.splits if_splits)

text \<open>What \<open>applySettings\<close> leaves, once its checks have passed.\<close>

lemma applySettings_passed:
  assumes "normalise_categories r (drop_unchanged_grants r (drop_unchanged r s)) = (s2, b)"
    and "check_all (r_grants r) (rc_role context) (settings_perms (drop_unchanged_grants r (drop_unchanged r s))) = Inr ()"
  shows "\<exists>t t'. applySettings s context r = Returns () t' \<and> t' = want_on_enable b t \<and>
    (case st_grants s2 of None \<Rightarrow> Returns () (apply_props s2 r)
     | Some g \<Rightarrow> apply_grants g (getRoles g) (apply_props s2 r)) = Returns () t"
proof -
  obtain t where "(case st_grants s2 of None \<Rightarrow> Returns () (apply_props s2 r)
     | Some g \<Rightarrow> apply_grants g (getRoles g) (apply_props s2 r)) = Returns () t"
    using apply_grants_returns by (cases "st_grants s2") (simp, simp, blast)
  with assms show ?thesis by (simp add: applySettings_def Let_def)
qed

lemma want_on_enable_keeps [simp]:
  "r_title (want_on_enable b r) = r_title r" "r_description (want_on_enable b r) = r_description r"
  "r_visibility (want_on_enable b r) = r_visibility r" "r_queueMode (want_on_enable b r) = r_queueMode r"
  "r_autoSkipSegmentCategories (want_on_enable b r) = r_autoSkipSegmentCategories r"
  "r_restoreQueueBehavior (want_on_enable b r) = r_restoreQueueBehavior r"
  "r_enableVoteSkip (want_on_enable b r) = r_enableVoteSkip r" "r_grants (want_on_enable b r) = r_grants r"
  by (simp_all add: want_on_enable_def)

text \<open>
  C5. Settings are protected: whatever a settings request contains and however it ends, a setting
  that differs afterwards is one whose permission the caller's role holds; and if the permissions of
  a role changed, the caller may set the permissions of that role or of a role below it (from which
  it inherits).
\<close>

theorem settings_authorised:
  assumes "grants_ok (r_grants r)"
  shows "let s = final_state (applySettings settings context r); can = granted (r_grants r) (rc_role context) in
    (r_title s \<noteq> r_title r \<longrightarrow> can ''configure-room.set-title'')
    \<and> (r_description s \<noteq> r_description r \<longrightarrow> can ''configure-room.set-description'')
    \<and> (r_visibility s \<noteq> r_visibility r \<longrightarrow> can ''configure-room.set-visibility'')
    \<and> (r_queueMode s \<noteq> r_queueMode r \<longrightarrow> can ''configure-room.set-queue-mode'')
    \<and> (r_autoSkipSegmentCategories s \<noteq> r_autoSkipSegmentCategories r
        \<or> r_restoreQueueBehavior s \<noteq> r_restoreQueueBehavior r \<or> r_enableVoteSkip s \<noteq> r_enableVoteSkip r
        \<longrightarrow> can ''configure-room.other'')
    \<and> (\<forall>j. 0 \<le> j \<and> role_mask (r_grants s) j \<noteq> role_mask (r_grants r) j
        \<longrightarrow> (\<exists>i p. i \<le> j \<and> role_to_perm i = Some p \<and> can p))"
proof -
  let ?s1 = "drop_unchanged_grants r (drop_unchanged r settings)"
  obtain s2 b where s2: "normalise_categories r ?s1 = (s2, b)" by force
  note keep = normalise_categories_keeps [OF s2]
  show ?thesis
  proof (cases "check_all (r_grants r) (rc_role context) (settings_perms ?s1)")
    case (Inl e)
    then show ?thesis by (simp add: applySettings_def Let_def)
  next
    case (Inr u)
    then have all: "\<And>p. p \<in> set (settings_perms ?s1) \<Longrightarrow> granted (r_grants r) (rc_role context) p"
      by (auto simp: check_all_Inr)
    obtain t where t: "applySettings settings context r = Returns () (want_on_enable b t)"
      "(case st_grants s2 of None \<Rightarrow> Returns () (apply_props s2 r)
        | Some g \<Rightarrow> apply_grants g (getRoles g) (apply_props s2 r)) = Returns () t"
      using applySettings_passed [OF s2] Inr by auto
    have fields: "r_title t = nullish (st_title s2) (r_title r)"
      "r_description t = nullish (st_description s2) (r_description r)"
      "r_visibility t = nullish (st_visibility s2) (r_visibility r)"
      "r_queueMode t = nullish (st_queueMode s2) (r_queueMode r)"
      "r_autoSkipSegmentCategories t = nullish (st_autoSkipSegmentCategories s2) (r_autoSkipSegmentCategories r)"
      "r_restoreQueueBehavior t = nullish (st_restoreQueueBehavior s2) (r_restoreQueueBehavior r)"
      "r_enableVoteSkip t = nullish (st_enableVoteSkip s2) (r_enableVoteSkip r)"
      using t(2) by (auto simp: apply_props_fields dest!: apply_grants_fields split: option.splits)
    have mask: "\<exists>i p. i \<le> j \<and> role_to_perm i = Some p \<and> granted (r_grants r) (rc_role context) p"
      if "0 \<le> j" "role_mask (r_grants t) j \<noteq> role_mask (r_grants r) j" for j
    proof (cases "st_grants s2")
      case None
      with t(2) that show ?thesis by (auto simp: apply_props_fields)
    next
      case (Some g)
      have "\<not> (\<forall>i\<in>set (getRoles g). role_to_perm i \<noteq> None \<longrightarrow> j < i)"
        using apply_grants_below [of "apply_props s2 r" g "getRoles g" t j] t(2) that Some assms
        by (auto simp: apply_props_fields)
      then obtain i p where i: "i \<in> set (getRoles g)" "role_to_perm i = Some p" "i \<le> j" by auto
      with all settings_perms_grants [of ?s1 g i p] keep Some show ?thesis by auto
    qed
    have present: "v \<noteq> None" if "nullish v x \<noteq> x" for v :: "'a option" and x
      using that by (cases v) auto
    have can: "st_title s2 \<noteq> None \<Longrightarrow> granted (r_grants r) (rc_role context) ''configure-room.set-title''"
      "st_description s2 \<noteq> None \<Longrightarrow> granted (r_grants r) (rc_role context) ''configure-room.set-description''"
      "st_visibility s2 \<noteq> None \<Longrightarrow> granted (r_grants r) (rc_role context) ''configure-room.set-visibility''"
      "st_queueMode s2 \<noteq> None \<Longrightarrow> granted (r_grants r) (rc_role context) ''configure-room.set-queue-mode''"
      "st_autoSkipSegmentCategories s2 \<noteq> None \<or> st_restoreQueueBehavior s2 \<noteq> None \<or> st_enableVoteSkip s2 \<noteq> None
        \<Longrightarrow> granted (r_grants r) (rc_role context) ''configure-room.other''"
      using all settings_perms_present [of ?s1] keep by auto
    show ?thesis
      unfolding Let_def t(1) final_state.simps want_on_enable_keeps
      by (intro conjI impI allI mask can) (auto simp: fields dest: present)
  qed
qed

theorem settings_authorised_witness:
  "r_title (final_state (applySettings (no_settings\<lparr>st_title := Some ''x''\<rparr>) (server_context UnregisteredUser) demo_room))
     = r_title demo_room"
proof -
  have "\<not> granted (r_grants demo_room) (rc_role (server_context UnregisteredUser)) ''configure-room.set-title''"
    by (simp add: granted_def granted_mask_def demo_room_def server_context_def demo_grants_def getMask_def mask_num_def
        PERMISSIONS_def mk_perm_def perm_matches_def starts_with_def)
  moreover have "grants_ok (r_grants demo_room)" using demo_room_wf by (simp add: room_wf_def)
  ultimately show ?thesis
    using settings_authorised [of demo_room "no_settings\<lparr>st_title := Some ''x''\<rparr>" "server_context UnregisteredUser"]
    by (auto simp: Let_def)
qed

end
