(* ===== verification/ModerationProperties.thy ===== *)
theory ModerationProperties
  imports SafetyProperties
begin

text \<open>
  Promotion, demotion and kicking in \<open>server/room.ts\<close>, what undo restores, and the requests that get
  around the permission checks.
\<close>

section \<open>Promotion\<close>

definition in_role :: "room \<Rightarrow> int \<Rightarrow> role \<Rightarrow> bool" where
  "in_role r uid i \<longleftrightarrow> has_role r uid i"

lemma promotion_allowed_checks:
  assumes "promotion_allowed g caller newRole current = Inr ()"
  shows "(\<forall>p. promotion_perm newRole = Some p \<longrightarrow> granted g caller p)
    \<and> (newRole < current \<longrightarrow> (\<exists>p. demotion_perm current = Some p \<and> granted g caller p))
    \<and> current \<noteq> UnregisteredUser"
  using assms
  by (auto simp: promotion_allowed_def check_def split: option.splits if_splits sum.splits)

lemma promoteUser_cases:
  assumes "getUser r c = Some u"
  shows "(\<exists>e. promotion_allowed (r_grants r) (rc_role context) newRole (getRole r (Some u)) = Inl e
            \<and> promoteUser c newRole context r = Throws e r)
       \<or> (promotion_allowed (r_grants r) (rc_role context) newRole (getRole r (Some u)) = Inr ()
            \<and> (\<exists>s. promoteUser c newRole context r = Returns () s
               \<and> r_userRoles s = (case ru_user_id u of Some uid \<Rightarrow> assign_role newRole uid (r_userRoles r)
                                   | None \<Rightarrow> r_userRoles r)
               \<and> r_owner s = r_owner r \<and> r_realusers s = r_realusers r \<and> r_grants s = r_grants r))"
proof (cases "promotion_allowed (r_grants r) (rc_role context) newRole (getRole r (Some u))")
  case (Inl e)
  then show ?thesis using assms by (simp add: promoteUser_def)
next
  case (Inr x)
  let ?r1 = "case ru_user_id u of Some uid \<Rightarrow> r\<lparr>r_userRoles := assign_role newRole uid (r_userRoles r)\<rparr> | None \<Rightarrow> r"
  have r1: "r_userRoles ?r1 = (case ru_user_id u of Some uid \<Rightarrow> assign_role newRole uid (r_userRoles r)
                                   | None \<Rightarrow> r_userRoles r)"
    "r_owner ?r1 = r_owner r" "r_realusers ?r1 = r_realusers r" "r_grants ?r1 = r_grants r"
    by (simp_all split: option.split)
  have id: "ru_id u = c" using assms getUser_SomeD by blast
  have "getUser ?r1 c = Some u" using assms r1(3) by (simp add: getUser_def)
  then have info: "getUserInfo ?r1 (ru_id u) = Inr (user_info ?r1 u)" by (simp add: getUserInfo_eq id)
  define s where "s = (let r2 = syncUser (user_info ?r1 u) ?r1
    in if r_isTemporary r2 then r2 else emit (StorageUpdateRoom (whole_room r2)) r2)"
  have "promoteUser c newRole context r = Returns () s"
    unfolding promoteUser_def assms Inr option.case sum.case Let_def info s_def by (rule refl)
  moreover have "r_userRoles s = r_userRoles ?r1 \<and> r_owner s = r_owner ?r1 \<and> r_realusers s = r_realusers ?r1
      \<and> r_grants s = r_grants ?r1"
    unfolding s_def by (simp add: Let_def syncUser_def publish_def emit_def)
  ultimately show ?thesis using r1 Inr by simp
qed

text \<open>
  C6. Promotions are authorised and exact. For a role number that is a role: if the request
  succeeds, the caller's role holds the permission to promote to the new role, and, when it is a
  demotion, the permission to demote from the old one; the account is then in the list of the new
  role and in no other, and nobody else's roles have changed. If the request fails, nothing has
  changed at all.
\<close>

theorem promotion_authorised:
  assumes "roles_wf (r_userRoles r)" and "getUser r c = Some u" and "ru_user_id u = Some uid"
  shows "case promoteUser c newRole context r of
      Throws e s \<Rightarrow> s = r
    | Returns _ s \<Rightarrow>
        (newRole = Administrator \<longrightarrow> granted (r_grants r) (rc_role context) ''manage-users.promote-admin'')
        \<and> (newRole = Moderator \<longrightarrow> granted (r_grants r) (rc_role context) ''manage-users.promote-moderator'')
        \<and> (newRole = TrustedUser \<longrightarrow> granted (r_grants r) (rc_role context) ''manage-users.promote-trusted-user'')
        \<and> (newRole < getRole r (Some u) \<longrightarrow>
             (\<exists>p. demotion_perm (getRole r (Some u)) = Some p \<and> granted (r_grants r) (rc_role context) p))
        \<and> (\<forall>i\<in>{2, 3, 4}. has_role s uid i \<longleftrightarrow> i = newRole)
        \<and> (\<forall>other i. other \<noteq> uid \<longrightarrow> has_role s other i = has_role r other i)"
  using promoteUser_cases [OF assms(2), of "context" newRole]
proof (elim disjE exE conjE)
  fix e assume "promoteUser c newRole context r = Throws e r"
  then show ?thesis by simp
next
  fix s assume ok: "promotion_allowed (r_grants r) (rc_role context) newRole (getRole r (Some u)) = Inr ()"
    and s: "promoteUser c newRole context r = Returns () s"
    "r_userRoles s = (case ru_user_id u of Some uid \<Rightarrow> assign_role newRole uid (r_userRoles r)
       | None \<Rightarrow> r_userRoles r)"
  have roles: "map_of (r_userRoles s) i = (if i \<in> {2, 3, 4}
     then Some ((if i = newRole then js_set_add uid else id) (js_set_delete uid (the (map_of (r_userRoles r) i))))
     else (if i = newRole \<and> newRole \<ge> 2 then map_option (js_set_add uid) (map_of (r_userRoles r) i)
           else map_of (r_userRoles r) i))" for i
    using s(2) assms(3) assigned_roles [OF assms(1)] by simp
  have present: "\<exists>xs. map_of (r_userRoles r) i = Some xs" if "i \<in> {2, 3, 4}" for i
    using assms(1) that by (auto simp: roles_wf_def)
  have "has_role s uid i \<longleftrightarrow> i = newRole" if "i \<in> {2, 3, 4}" for i
    using that by (auto simp: has_role_def roles)
  moreover have "has_role s other i = has_role r other i" if "other \<noteq> uid" for other i
    using that present [of i]
    by (cases "map_of (r_userRoles r) i") (auto simp: has_role_def roles)
  moreover note promotion_allowed_checks [OF ok]
  ultimately show ?thesis
    using s(1) by (auto simp: promotion_perm_def)
qed

definition demo_user :: "clientId \<Rightarrow> int \<Rightarrow> roomUser" where
  "demo_user c uid = (newRoomUser c ''token'')\<lparr>ru_user_id := Some uid,
     ru_user := Some \<lparr>u_id = uid, u_username = ''name'', u_email = None, u_discordId = None\<rparr>\<rparr>"

definition staffed_room :: room where
  "staffed_room = demo_room\<lparr>r_realusers := [demo_user ''a'' 7, demo_user ''b'' 8],
     r_userRoles := [(TrustedUser, []), (Moderator, [7]), (Administrator, [8])]\<rparr>"

lemma staffed_roles: "roles_wf (r_userRoles staffed_room)"
  by (auto simp: roles_wf_def js_map_wf_def staffed_room_def)

lemma staffed_user: "getUser staffed_room ''a'' = Some (demo_user ''a'' 7)" "getUser staffed_room ''b'' = Some (demo_user ''b'' 8)"
  by (simp_all add: getUser_def staffed_room_def demo_user_def newRoomUser_def)

lemma staffed_role:
  "getRole staffed_room (Some (demo_user ''a'' 7)) = Moderator" "getRole staffed_room (Some (demo_user ''b'' 8)) = Administrator"
  by (simp_all add: getRole_def isOwner_def demo_user_def newRoomUser_def staffed_room_def demo_room_def small_room_def
      initial_room_def room_defs ranked_role_def has_role_def)

lemma demo_grants_full:
  "granted demo_grants Owner p" "granted demo_grants Administrator p"
  using demo_grants_ok by (auto simp: grants_ok_def role_mask_def mask_num_def intro!: all_grants_granted)

lemma staffed_grants: "r_grants staffed_room = demo_grants"
  by (simp add: staffed_room_def demo_room_def)

theorem promotion_authorised_witness:
  "\<exists>s. promoteUser ''a'' Administrator (server_context Owner) staffed_room = Returns () s \<and> has_role s 7 Administrator"
proof -
  have "promotion_allowed (r_grants staffed_room) (rc_role (server_context Owner)) Administrator Moderator = Inr ()"
    by (simp add: promotion_allowed_def promotion_perm_def check_def server_context_def staffed_grants demo_grants_full)
  then obtain s where s: "promoteUser ''a'' Administrator (server_context Owner) staffed_room = Returns () s"
    using promoteUser_cases [OF staffed_user(1), of "server_context Owner" Administrator] staffed_role by auto
  have "ru_user_id (demo_user ''a'' 7) = Some 7" by (simp add: demo_user_def newRoomUser_def)
  from promotion_authorised [OF staffed_roles staffed_user(1) this, of Administrator "server_context Owner"] s
  show ?thesis by auto
qed

text \<open>
  The checks assume that the number in the request is a role, which nothing verifies. A role
  number above administrator needs no permission to promote and counts as no demotion, and still
  removes the account from every list: any caller can strip a moderator or administrator of the role.
\<close>

theorem promotion_number_unchecked:
  assumes "roles_wf (r_userRoles r)" and "getUser r c = Some u" and "ru_user_id u = Some uid"
    and "4 < newRole" and "getRole r (Some u) \<noteq> UnregisteredUser"
  shows "\<exists>s. processRequest w (PromoteRequest c newRole) context r = Returns () s
    \<and> (\<forall>i\<in>{2, 3, 4}. \<not> has_role s uid i)"
proof -
  let ?r = "emit (RoomRequestReceived 9) r"
  have u: "getUser ?r c = Some u" "getRole ?r (Some u) = getRole r (Some u)" "r_userRoles ?r = r_userRoles r"
    using assms(2) by (simp_all add: emit_def getUser_def getRole_def isOwner_def ranked_role_def has_role_def [abs_def]
        cong: option.case_cong)
  have "getRole r (Some u) \<le> 4"
    using getRole_valid [of r "Some u"] by (simp add: isRoleValid_def)
  then have "promotion_allowed (r_grants ?r) (rc_role context) newRole (getRole ?r (Some u)) = Inr ()"
    using assms(4,5) u by (simp add: promotion_allowed_def promotion_perm_def)
  with promoteUser_cases [OF u(1), of "context" newRole] obtain s where
    s: "promoteUser c newRole context ?r = Returns () s" by auto
  with promotion_authorised [OF _ u(1) assms(3), of newRole "context"] assms(1,4) u(3)
  show ?thesis by (auto simp: processRequest.simps permitted_def Let_def)
qed

theorem promotion_number_unchecked_witness:
  "\<exists>s. processRequest (quiet_world 0) (PromoteRequest ''b'' 5) (server_context UnregisteredUser) staffed_room = Returns () s
     \<and> (\<forall>i\<in>{2, 3, 4}. \<not> has_role s 8 i)"
  by (rule promotion_number_unchecked [OF staffed_roles staffed_user(2)])
     (simp_all add: staffed_role, simp add: demo_user_def newRoomUser_def)

section \<open>Kicking\<close>

text \<open>
  A kick is sent to the client manager exactly when the caller's role holds the permission, the
  client is in the room, and the caller is the owner or of a higher role than a client who is not
  the owner; so nobody but the owner kicks an owner or someone of their own role.
\<close>

theorem kick_authorised:
  "Command (CmdKick c) \<in> set (drop (length (r_effects r)) (r_effects (final_state (processRequest w (KickRequest c) context r))))
   \<longleftrightarrow> granted (r_grants r) (rc_role context) ''manage-users.kick''
     \<and> (\<exists>u. getUser r c = Some u
          \<and> (rc_role context = Owner \<or> (getRole r (Some u) < rc_role context \<and> getRole r (Some u) \<noteq> Owner)))"
proof -
  let ?r = "emit (RoomRequestReceived 18) r"
  have e: "r_effects (emit x y) = r_effects y @ [x]" "r_grants (emit x y) = r_grants y" for x y
    by (simp_all add: emit_def)
  have u: "getUser ?r c = getUser r c" "\<And>u. getRole ?r (Some u) = getRole r (Some u)"
    by (simp_all add: emit_def getUser_def getRole_def isOwner_def ranked_role_def has_role_def [abs_def]
        cong: option.case_cong)
  show ?thesis
    by (cases "granted (r_grants r) (rc_role context) ''manage-users.kick''"; cases "getUser r c")
       (auto simp: processRequest.simps permitted_def check_def kickUser_def canKickUser_def command_def Let_def u e)
qed

section \<open>Undo\<close>

text \<open>The event published last.\<close>

lemma published_event:
  assumes "publishRoomEvent request context add r = Returns () s" and "rc_clientId context = Some c"
  shows "\<exists>usr. last (r_effects s) = Publish (MsgEvent (ServerMessageEvent request usr add)) \<and> r_queue s = r_queue r"
  using assms by (auto simp: publishRoomEvent_def publish_def emit_def split: sum.splits)

text \<open>
  Undoing a removal restores the queue: whoever removed an item, undoing the event that was
  published for it puts the same item back where it was, whatever the permissions are by then.
\<close>

theorem undo_remove_restores:
  assumes "removeFromQueue v context r = Returns () s" and "rc_clientId context = Some c"
    and "last (r_effects s) = Publish (MsgEvent ev)"
  shows "\<exists>t. undo w ev context' s = Returns () t \<and> vq_items (r_queue t) = vq_items (r_queue r)"
proof -
  obtain i item q where ev: "evict v (r_queue r) = Returns (i, item) q"
    using assms(1) by (cases "evict v (r_queue r)") (auto simp: removeFromQueue_def on_queue.simps split: if_splits)
  then have "publishRoomEvent (RemoveRequest v) context
      (no_context\<lparr>ec_video := Some item, ec_queueIdx := Some (int i)\<rparr>) (settle_queue q r) = Returns () s"
    using assms(1) by (auto simp: removeFromQueue_def on_queue.simps split: if_splits)
  from published_event [OF this assms(2)] assms(3) obtain usr where
    e: "ev = ServerMessageEvent (RemoveRequest v) usr (no_context\<lparr>ec_video := Some item, ec_queueIdx := Some (int i)\<rparr>)"
    and q: "r_queue s = r_queue (settle_queue q r)" by auto
  obtain q2 where "insert_video (Some item) (int i) q = Returns () q2" "vq_items q2 = vq_items (r_queue r)"
    using evict_then_insert [OF ev] by blast
  moreover have "vq_items (r_queue s) = vq_items q"
    by (simp add: q settle_queue_def room_markDirty_def Let_def)
  ultimately show ?thesis
    by (auto simp: e undo.simps undo_action_def undo_remove_def no_context_def on_queue.simps insert_video_def
        markDirty_def settle_queue_def room_markDirty_def Let_def split: if_splits)
qed

definition visited_room :: room where
  "visited_room = demo_room\<lparr>r_realusers := [newRoomUser ''c'' ''token'']\<rparr>"

definition visitor :: roomRequestContext where
  "visitor = (server_context UnregisteredUser)\<lparr>rc_clientId := Some ''c''\<rparr>"

theorem undo_remove_restores_witness:
  "\<exists>t. undo (quiet_world 0) (ServerMessageEvent (RemoveRequest (videoId_of (bare_video ''vimeo'' ''3'')))
        (user_info visited_room (newRoomUser ''c'' ''token''))
        (no_context\<lparr>ec_video := Some (bare_video ''vimeo'' ''3''), ec_queueIdx := Some 1\<rparr>)) visitor
      (final_state (removeFromQueue (videoId_of (bare_video ''vimeo'' ''3'')) visitor visited_room)) = Returns () t
    \<and> vq_items (r_queue t) = [bare_video ''vimeo'' ''2'', bare_video ''vimeo'' ''3'']"
proof -
  let ?v = "videoId_of (bare_video ''vimeo'' ''3'')"
  let ?q = "markDirty ((r_queue visited_room)\<lparr>vq_items := [bare_video ''vimeo'' ''2'']\<rparr>)"
  have items: "vq_items (r_queue visited_room) = [bare_video ''vimeo'' ''2'', bare_video ''vimeo'' ''3'']"
    by (simp add: visited_room_def demo_room_def small_room_def newVideoQueue_def)
  have ne: "same_video ?v (bare_video ''vimeo'' ''2'') = False" "same_video ?v (bare_video ''vimeo'' ''3'') = True"
    by (simp_all add: same_video_iff) (simp add: videoId_of_def bare_video_def)
  have found: "findIndex ?v (r_queue visited_room) = Some 1"
    by (simp add: findIndex_def items ne)
  have usr: "getUserInfo (settle_queue ?q visited_room) ''c''
      = Inr (user_info visited_room (newRoomUser ''c'' ''token''))"
    by (simp add: getUserInfo_eq getUser_def user_info_def getRole_def isOwner_def settle_queue_def markDirty_def
        room_markDirty_def Let_def visited_room_def newRoomUser_def)
  let ?s = "publish (MsgEvent (ServerMessageEvent (RemoveRequest ?v) (user_info visited_room (newRoomUser ''c'' ''token''))
        (no_context\<lparr>ec_video := Some (bare_video ''vimeo'' ''3''), ec_queueIdx := Some 1\<rparr>))) (settle_queue ?q visited_room)"
  have "removeFromQueue ?v visitor visited_room = Returns () ?s"
    using usr by (simp add: removeFromQueue_def contains_video_def found on_queue.simps evict_def items remove_at_def
        publishRoomEvent_def visitor_def)
  from undo_remove_restores [OF this, of "''c''" _ "quiet_world 0" visitor] this items
  show ?thesis by (simp add: visitor_def publish_def emit_def)
qed

text \<open>
  Undo is not protected. Any caller, without any permission, can make any video the current one
  at any position other than zero, by asking to undo a skip event of their own making.
\<close>

theorem undo_skip_unprotected:
  assumes "p \<noteq> 0"
  shows "\<exists>s. processRequest w (UndoRequest (ServerMessageEvent SkipRequest usr
            (no_context\<lparr>ec_video := Some v, ec_prevPosition := Some p\<rparr>))) context r = Returns () s
    \<and> r_currentSource s = Some v \<and> r_playbackPosition s = p"
  using assms
  by (cases "r_currentSource r")
     (auto simp: processRequest.simps undo.simps undo_action_def undo_skip_def permitted_def no_context_def Let_def
       emit_def on_queue.simps pushTop_def isAllVideos_def set_currentSource_def set_playbackPosition_def
       room_markDirty_def)

theorem undo_skip_unprotected_witness:
  "\<exists>s. processRequest (quiet_world 0) (UndoRequest (ServerMessageEvent SkipRequest
          (user_info demo_room (newRoomUser ''c'' ''token''))
          (no_context\<lparr>ec_video := Some (bare_video ''vimeo'' ''9''), ec_prevPosition := Some 1\<rparr>)))
        (server_context UnregisteredUser) demo_room = Returns () s
     \<and> r_currentSource s = Some (bare_video ''vimeo'' ''9'')"
  using undo_skip_unprotected [OF one_neq_zero, of "quiet_world 0"] by blast

section \<open>Identity of users\<close>

text \<open>
  A request to update a user is believed. A client in the room that names the owner's account
  id in such a request is the owner from then on; only the existence of the account is checked.
\<close>

theorem update_user_believed:
  assumes "getUser r c = Some u" and "r_owner r = Some ow" and "u_id ow \<noteq> 0"
    and "w_getUser w (u_id ow) = Inr ow"
  shows "\<exists>s u'. processRequest w (UpdateUser \<lparr>ci_id = c, ci_username = None, ci_user_id = Some (u_id ow),
        ci_status = None\<rparr>) context r = Returns () s
    \<and> getUser s c = Some u' \<and> getRole s (Some u') = Owner"
proof -
  let ?info = "\<lparr>ci_id = c, ci_username = None, ci_user_id = Some (u_id ow), ci_status = None\<rparr>"
  let ?u = "u\<lparr>ru_user_id := Some (u_id ow), ru_user := Some ow\<rparr>"
  obtain i where i: "find_index (\<lambda>x. ru_id x = c) (r_realusers r) = Some i" "r_realusers r ! i = u"
    using assms(1) by (auto simp: getUser_def find_find_index)
  have len: "i < length (r_realusers r)" and u: "ru_id u = c"
    using find_index_SomeD [OF i(1)] i(2) by auto
  let ?r1 = "emit (RoomRequestReceived 10) r"
  let ?s = "?r1\<lparr>r_realusers := (r_realusers r)[i := ?u]\<rparr>"
  have got: "getUser ?s c = Some ?u"
    using find_index_update [OF i(1), of ?u] len u by (simp add: getUser_def find_find_index)
  then have info: "getUserInfo ?s c = Inr (user_info ?s ?u)" by (simp add: getUserInfo_eq)
  have "updateUser w ?info ?r1 = Returns () (syncUser (user_info ?s ?u) ?s)"
    using i assms(3,4) info u by (simp add: updateUser_def updateInfo_def set_status_def Let_def emit_def)
  moreover have "getUser (syncUser (user_info ?s ?u) ?s) c = Some ?u"
    using got by (simp add: syncUser_def publish_def emit_def getUser_def)
  moreover have "getRole (syncUser (user_info ?s ?u) ?s) (Some ?u) = Owner"
    using assms(2) by (simp add: getRole_def isOwner_def syncUser_def publish_def emit_def)
  ultimately show ?thesis
    by (simp add: processRequest.simps permitted_def Let_def)
qed

definition owned_room :: room where
  "owned_room = visited_room\<lparr>r_owner := Some \<lparr>u_id = 3, u_username = ''owner'', u_email = None, u_discordId = None\<rparr>\<rparr>"

theorem update_user_believed_witness:
  "\<exists>s u'. processRequest ((quiet_world 0)\<lparr>w_getUser := (\<lambda>i. Inr \<lparr>u_id = i, u_username = ''owner'', u_email = None,
         u_discordId = None\<rparr>)\<rparr>)
       (UpdateUser \<lparr>ci_id = ''c'', ci_username = None, ci_user_id = Some 3, ci_status = None\<rparr>) visitor owned_room
       = Returns () s
     \<and> getUser s ''c'' = Some u' \<and> getRole s (Some u') = Owner"
proof -
  let ?ow = "\<lparr>u_id = 3, u_username = ''owner'', u_email = None, u_discordId = None\<rparr>"
  let ?w = "(quiet_world 0)\<lparr>w_getUser := (\<lambda>i. Inr \<lparr>u_id = i, u_username = ''owner'', u_email = None,
         u_discordId = None\<rparr>)\<rparr>"
  have "getUser owned_room ''c'' = Some (newRoomUser ''c'' ''token'')" "r_owner owned_room = Some ?ow"
    "u_id ?ow \<noteq> 0" "w_getUser ?w (u_id ?ow) = Inr ?ow"
    by (simp_all add: owned_room_def visited_room_def getUser_def newRoomUser_def)
  from update_user_believed [OF this, of visitor] show ?thesis by simp
qed

end
