(* ===== verification/Storage.thy ===== *)
theory Storage
  imports PlaybackProperties
begin

text \<open>
  \<open>server/storage/room.ts\<close>, the model \<open>server/models/room.ts\<close>, and the row conversions of
  \<open>server/storage/cachedvideo.ts\<close>. Sequelize and the database behind it are the argument \<open>roomTable\<close>:
  what each query answers. A row is a \<open>dbRoom\<close>; the columns \<open>role-trusted\<close>, \<open>role-mod\<close> and
  \<open>role-admin\<close> are \<open>db_roles\<close>, by role.
\<close>

section \<open>Rows\<close>

record dbRoom =
  db_name :: string
  db_title :: string
  db_description :: string
  db_visibility :: visibility
  db_queueMode :: queueMode
  db_ownerId :: "int option"
  db_permissions :: "(role \<times> grantMask) list"
  db_roles :: "(role \<times> int list) list"
  db_autoSkipSegmentCategories :: "string list"
  db_prevQueue :: "queueItem list option"
  db_restoreQueueBehavior :: behaviorOption
  db_enableVoteSkip :: bool

text \<open>A partial row: only the columns that are present are written.\<close>

record dbRoomPartial =
  dp_title :: "string option"
  dp_description :: "string option"
  dp_visibility :: "visibility option"
  dp_queueMode :: "queueMode option"
  dp_ownerId :: "int option"
  dp_permissions :: "(role \<times> grantMask) list option"
  dp_roles :: "(role \<times> int list) list option"
  dp_autoSkipSegmentCategories :: "string list option"
  dp_prevQueue :: "queueItem list option option"
  dp_restoreQueueBehavior :: "behaviorOption option"
  dp_enableVoteSkip :: "bool option"

record roomTable =
  tb_findOne :: "string \<Rightarrow> exn + (dbRoom \<times> user option) option"
  tb_create :: "dbRoom \<Rightarrow> exn + unit"
  tb_update :: "dbRoomPartial \<Rightarrow> string \<Rightarrow> exn + nat"
  tb_destroy :: "string \<Rightarrow> exn + nat"

section \<open>Conversions\<close>

definition stored_grants :: "grants \<Rightarrow> (role \<times> grantMask) list" where
  "stored_grants g = toJSON (deleteRole Owner (deleteRole Administrator g))"

definition stored_roles :: "userRoles \<Rightarrow> (role \<times> int list) list" where
  "stored_roles roles = map (\<lambda>i. (i, case map_of roles i of Some s \<Rightarrow> s | None \<Rightarrow> []))
     [TrustedUser, Moderator, Administrator]"

text \<open>\<open>roomToDb\<close> reads the persistable part of a room.\<close>

definition roomToDb :: "room \<Rightarrow> dbRoom" where
  "roomToDb r = \<lparr>db_name = r_name r, db_title = r_title r, db_description = r_description r,
     db_visibility = r_visibility r, db_queueMode = r_queueMode r,
     db_ownerId = map_option u_id (r_owner r), db_permissions = stored_grants (r_grants r),
     db_roles = stored_roles (r_userRoles r),
     db_autoSkipSegmentCategories = r_autoSkipSegmentCategories r, db_prevQueue = r_prevQueue r,
     db_restoreQueueBehavior = r_restoreQueueBehavior r, db_enableVoteSkip = r_enableVoteSkip r\<rparr>"

text \<open>\<open>_.pickBy(..., v => !!v)\<close> on a string, a boolean and a number that stands for an enum member.\<close>

definition truthy_string :: "string option \<Rightarrow> string option" where
  "truthy_string v = (if truthy_str v then v else None)"

definition truthy_flag :: "bool option \<Rightarrow> bool option" where
  "truthy_flag v = (if truthy_bool v then v else None)"

definition truthy_behavior :: "behaviorOption option \<Rightarrow> behaviorOption option" where
  "truthy_behavior v = (case v of Some b \<Rightarrow> (if behavior_num b \<noteq> 0 then v else None) | None \<Rightarrow> None)"

definition roomToDbPartial :: "roomPersistable \<Rightarrow> dbRoomPartial" where
  "roomToDbPartial rp = \<lparr>dp_title = truthy_string (rp_title rp), dp_description = truthy_string (rp_description rp),
     dp_visibility = rp_visibility rp, dp_queueMode = rp_queueMode rp,
     dp_ownerId = map_option u_id (rp_owner rp), dp_permissions = map_option stored_grants (rp_grants rp),
     dp_roles = map_option stored_roles (rp_userRoles rp),
     dp_autoSkipSegmentCategories = rp_autoSkipSegmentCategories rp, dp_prevQueue = rp_prevQueue rp,
     dp_restoreQueueBehavior = truthy_behavior (rp_restoreQueueBehavior rp),
     dp_enableVoteSkip = truthy_flag (rp_enableVoteSkip rp)\<rparr>"

definition loaded_roles :: "(role \<times> int list) list \<Rightarrow> userRoles" where
  "loaded_roles cols = map (\<lambda>i. (i, js_set_of_list (case map_of cols i of Some s \<Rightarrow> s | None \<Rightarrow> []) []))
     [TrustedUser, Moderator, Administrator]"

definition dbToRoomArgs :: "dbRoom \<Rightarrow> user option \<Rightarrow> exn + roomOptions" where
  "dbToRoomArgs db ow = (case newGrants (db_permissions db) of
      Inl e \<Rightarrow> Inl e
    | Inr g \<Rightarrow> Inr (no_options\<lparr>ro_name := Some (db_name db), ro_title := Some (db_title db),
        ro_description := Some (db_description db), ro_isTemporary := Some False,
        ro_visibility := Some (db_visibility db), ro_queueMode := Some (db_queueMode db),
        ro_owner := Some ow, ro_grants := GrantsObject g,
        ro_userRoles := RolesMap (loaded_roles (db_roles db)),
        ro_autoSkipSegmentCategories := Some (db_autoSkipSegmentCategories db),
        ro_prevQueue := Some (db_prevQueue db),
        ro_restoreQueueBehavior := Some (db_restoreQueueBehavior db),
        ro_enableVoteSkip := Some (db_enableVoteSkip db)\<rparr>))"

section \<open>Operations\<close>

text \<open>A failing query or a row that cannot be converted is logged, and the room counts as absent.\<close>

definition getRoomByName :: "roomTable \<Rightarrow> string \<Rightarrow> roomOptions option" where
  "getRoomByName tb n = (case tb_findOne tb n of
      Inl e \<Rightarrow> None
    | Inr None \<Rightarrow> None
    | Inr (Some (db, ow)) \<Rightarrow> (case dbToRoomArgs db ow of Inl e \<Rightarrow> None | Inr opts \<Rightarrow> Some opts))"

definition isRoomNameTaken :: "roomTable \<Rightarrow> string \<Rightarrow> exn + bool" where
  "isRoomNameTaken tb n = (case tb_findOne tb n of Inl e \<Rightarrow> Inl e | Inr row \<Rightarrow> Inr (row \<noteq> None))"

definition saveRoom :: "roomTable \<Rightarrow> room \<Rightarrow> exn + bool" where
  "saveRoom tb r = (case isRoomNameTaken tb (r_name r) of
      Inl e \<Rightarrow> Inl e
    | Inr True \<Rightarrow> Inr False
    | Inr False \<Rightarrow> (case tb_create tb (roomToDb r) of Inl e \<Rightarrow> Inr False | Inr _ \<Rightarrow> Inr True))"

definition updateRoom :: "roomTable \<Rightarrow> roomPersistable \<Rightarrow> exn + bool" where
  "updateRoom tb rp =
    (if rp_name rp = [] then Inl (JsError ''Cannot update room with no name'')
     else (case tb_update tb (roomToDbPartial rp) (rp_name rp) of
         Inl e \<Rightarrow> Inr False | Inr n \<Rightarrow> Inr (n > 0)))"

definition deleteRoom :: "roomTable \<Rightarrow> string \<Rightarrow> exn + bool" where
  "deleteRoom tb n = (case tb_destroy tb n of Inl e \<Rightarrow> Inl e | Inr k \<Rightarrow> Inr (k > 0))"

text \<open>What writing a partial row does to a row.\<close>

definition write_row :: "dbRoomPartial \<Rightarrow> dbRoom \<Rightarrow> dbRoom" where
  "write_row p db = db\<lparr>
     db_title := nullish (dp_title p) (db_title db),
     db_description := nullish (dp_description p) (db_description db),
     db_visibility := nullish (dp_visibility p) (db_visibility db),
     db_queueMode := nullish (dp_queueMode p) (db_queueMode db),
     db_ownerId := (case dp_ownerId p of Some i \<Rightarrow> Some i | None \<Rightarrow> db_ownerId db),
     db_permissions := nullish (dp_permissions p) (db_permissions db),
     db_roles := nullish (dp_roles p) (db_roles db),
     db_autoSkipSegmentCategories := nullish (dp_autoSkipSegmentCategories p) (db_autoSkipSegmentCategories db),
     db_prevQueue := nullish (dp_prevQueue p) (db_prevQueue db),
     db_restoreQueueBehavior := nullish (dp_restoreQueueBehavior p) (db_restoreQueueBehavior db),
     db_enableVoteSkip := nullish (dp_enableVoteSkip p) (db_enableVoteSkip db)\<rparr>"

section \<open>Cached videos\<close>

record cachedVideo =
  cv_service :: string
  cv_serviceId :: string
  cv_title :: "string option"
  cv_description :: "string option"
  cv_thumbnail :: "string option"
  cv_length :: "rat option"
  cv_mime :: "string option"
  cv_createdAt :: int
  cv_updatedAt :: int

text \<open>\<open>a.diff(b, "days")\<close> in milliseconds, truncated towards zero.\<close>

definition diff_days :: "int \<Rightarrow> int \<Rightarrow> int" where
  "diff_days a b = (if a \<ge> b then (a - b) div 86400000 else - ((b - a) div 86400000))"

definition isCachedInfoValid :: "int \<Rightarrow> cachedVideo \<Rightarrow> bool" where
  "isCachedInfoValid now cv \<longleftrightarrow>
    diff_days (cv_updatedAt cv) now \<le> (if diff_days (cv_createdAt cv) now \<le> 7 then 7 else 30)"

definition filterVideoInfo :: "int \<Rightarrow> cachedVideo \<Rightarrow> video" where
  "filterVideoInfo now cv = (let valid = isCachedInfoValid now cv in
    (bare_video (cv_service cv) (cv_serviceId cv))\<lparr>
      v_title := (if truthy_str (cv_title cv) \<and> valid then cv_title cv else None),
      v_description := (if truthy_str (cv_description cv) \<and> valid then cv_description cv else None),
      v_thumbnail := (if truthy_str (cv_thumbnail cv) \<and> valid then cv_thumbnail cv else None),
      v_length := (if truthy_num (cv_length cv) \<and> valid then cv_length cv else None),
      v_mime := (if truthy_str (cv_mime cv) then cv_mime cv else None)\<rparr>)"

text \<open>The columns are the argument; a failed lookup counts as a miss.\<close>

definition getVideoInfo :: "(string \<Rightarrow> string \<Rightarrow> exn + cachedVideo option) \<Rightarrow> int \<Rightarrow> string \<Rightarrow> string \<Rightarrow> video" where
  "getVideoInfo lookup now service i = (case lookup service i of
      Inr (Some cv) \<Rightarrow> filterVideoInfo now cv
    | _ \<Rightarrow> bare_video service i)"

definition toDbVideo :: "int \<Rightarrow> video \<Rightarrow> cachedVideo" where
  "toDbVideo now v = \<lparr>cv_service = v_service v, cv_serviceId = v_id v, cv_title = v_title v,
     cv_description = v_description v, cv_thumbnail = v_thumbnail v, cv_length = v_length v,
     cv_mime = v_mime v, cv_createdAt = now, cv_updatedAt = now\<rparr>"

definition updateVideoInfo :: "(cachedVideo \<Rightarrow> exn + unit) \<Rightarrow> int \<Rightarrow> video \<Rightarrow> bool" where
  "updateVideoInfo upsert now v \<longleftrightarrow> v_service v \<noteq> [] \<and> v_id v \<noteq> []
     \<and> (case upsert (toDbVideo now v) of Inl e \<Rightarrow> False | Inr _ \<Rightarrow> True)"

definition getVideoInfoFields :: "string list \<Rightarrow> string option \<Rightarrow> string list" where
  "getVideoInfoFields columns service = filter (\<lambda>c.
     c \<notin> set [''id'', ''createdAt'', ''updatedAt'', ''serviceId'', ''service'']
     \<and> \<not> (nullish service '''' \<in> set [''youtube'', ''vimeo''] \<and> c = ''mime'')
     \<and> \<not> (service = Some ''googledrive'' \<and> c = ''description'')) columns"

section \<open>The constructor on given options\<close>

text \<open>Field by field, what \<open>Object.assign\<close> in the constructor leaves.\<close>

lemma pick_value: "(\<And>x s. fld (f x s) = x) \<Longrightarrow> fld (pick v f r) = nullish v (fld r)"
  by (cases v) (simp_all add: pick_def)

lemma pick_prevQueue: "r_prevQueue (pick v set_prevQueue r) = nullish v (r_prevQueue r)"
  by (cases v) (auto simp: pick_def room_defs)

lemma pick_queue: "r_queue (pick v (\<lambda>v r. r\<lparr>r_queue := newVideoQueue v\<rparr>) r) = nullish (map_option newVideoQueue v) (r_queue r)"
  by (cases v) (auto simp: pick_def)

lemma pick_votes: "r_votesToSkip (pick v (\<lambda>v r. r\<lparr>r_votesToSkip := js_set_of_list v []\<rparr>) r)
    = nullish (map_option (\<lambda>v. js_set_of_list v []) v) (r_votesToSkip r)"
  by (cases v) (auto simp: pick_def)

lemma assigned [simp]:
  "r_name (assign_options opts r) = nullish (ro_name opts) (r_name r)"
  "r_title (assign_options opts r) = nullish (ro_title opts) (r_title r)"
  "r_description (assign_options opts r) = nullish (ro_description opts) (r_description r)"
  "r_visibility (assign_options opts r) = nullish (ro_visibility opts) (r_visibility r)"
  "r_queueMode (assign_options opts r) = nullish (ro_queueMode opts) (r_queueMode r)"
  "r_isTemporary (assign_options opts r) = nullish (ro_isTemporary opts) (r_isTemporary r)"
  "r_owner (assign_options opts r) = nullish (ro_owner opts) (r_owner r)"
  "r_currentSource (assign_options opts r) = nullish (ro_currentSource opts) (r_currentSource r)"
  "r_playbackPosition (assign_options opts r) = nullish (ro_playbackPosition opts) (r_playbackPosition r)"
  "r_playbackSpeed (assign_options opts r) = nullish (ro_playbackSpeed opts) (r_playbackSpeed r)"
  "r_autoSkipSegmentCategories (assign_options opts r) = nullish (ro_autoSkipSegmentCategories opts) (r_autoSkipSegmentCategories r)"
  "r_restoreQueueBehavior (assign_options opts r) = nullish (ro_restoreQueueBehavior opts) (r_restoreQueueBehavior r)"
  "r_enableVoteSkip (assign_options opts r) = nullish (ro_enableVoteSkip opts) (r_enableVoteSkip r)"
  "r_queue (assign_options opts r) = nullish (map_option newVideoQueue (ro_queue opts)) (r_queue r)"
  "r_prevQueue (assign_options opts r) = nullish (ro_prevQueue opts) (r_prevQueue r)"
  "r_votesToSkip (assign_options opts r) = nullish (map_option (\<lambda>v. js_set_of_list v []) (ro_votesToSkip opts)) (r_votesToSkip r)"
  unfolding assign_options_def
  subgoal by (simp add: pick_keeps [where fld = r_name] pick_value [where fld = r_name] room_defs)
  subgoal by (simp add: pick_keeps [where fld = r_title] pick_value [where fld = r_title] room_defs)
  subgoal by (simp add: pick_keeps [where fld = r_description] pick_value [where fld = r_description] room_defs)
  subgoal by (simp add: pick_keeps [where fld = r_visibility] pick_value [where fld = r_visibility] room_defs)
  subgoal by (simp add: pick_keeps [where fld = r_queueMode] pick_value [where fld = r_queueMode] room_defs)
  subgoal by (simp add: pick_keeps [where fld = r_isTemporary] pick_value [where fld = r_isTemporary] room_defs)
  subgoal by (simp add: pick_keeps [where fld = r_owner] pick_value [where fld = r_owner] room_defs)
  subgoal by (simp add: pick_keeps [where fld = r_currentSource] pick_value [where fld = r_currentSource] room_defs)
  subgoal by (simp add: pick_keeps [where fld = r_playbackPosition] pick_value [where fld = r_playbackPosition] room_defs)
  subgoal by (simp add: pick_keeps [where fld = r_playbackSpeed] pick_value [where fld = r_playbackSpeed] room_defs)
  subgoal by (simp add: pick_keeps [where fld = r_autoSkipSegmentCategories] pick_value [where fld = r_autoSkipSegmentCategories] room_defs)
  subgoal by (simp add: pick_keeps [where fld = r_restoreQueueBehavior] pick_value [where fld = r_restoreQueueBehavior] room_defs)
  subgoal by (simp add: pick_keeps [where fld = r_enableVoteSkip] pick_value [where fld = r_enableVoteSkip] room_defs)
  subgoal by (simp add: pick_keeps [where fld = r_queue] pick_queue room_defs)
  subgoal by (simp add: pick_keeps [where fld = r_prevQueue] pick_prevQueue room_defs)
  subgoal by (simp add: pick_keeps [where fld = r_votesToSkip] pick_votes room_defs)
  done

lemma restored_queue [simp]:
  "r_prevQueue (restore_policy r) = (if r_restoreQueueBehavior r = Never
     \<or> r_restoreQueueBehavior r = Always \<and> vq_items (r_queue r) = [] then None else r_prevQueue r)"
  "vq_items (r_queue (restore_policy r)) = (if r_restoreQueueBehavior r = Always \<and> vq_items (r_queue r) = []
     then nullish (r_prevQueue r) [] else vq_items (r_queue r))"
  by (cases "r_prevQueue r"; auto simp: restore_policy_def room_defs)+

lemma restore_policy_settings [simp]:
  "r_title (restore_policy r) = r_title r" "r_description (restore_policy r) = r_description r"
  "r_visibility (restore_policy r) = r_visibility r" "r_queueMode (restore_policy r) = r_queueMode r"
  "r_owner (restore_policy r) = r_owner r" "r_restoreQueueBehavior (restore_policy r) = r_restoreQueueBehavior r"
  "r_autoSkipSegmentCategories (restore_policy r) = r_autoSkipSegmentCategories r"
  "r_enableVoteSkip (restore_policy r) = r_enableVoteSkip r" "r_currentSource (restore_policy r) = r_currentSource r"
  "r_playbackPosition (restore_policy r) = r_playbackPosition r" "r_playbackSpeed (restore_policy r) = r_playbackSpeed r"
  "r_videoSegments (restore_policy r) = r_videoSegments r"
  by (auto simp: restore_policy_def Let_def room_defs split: option.split)

lemma initial_values [simp]:
  "r_queue (initial_room w g) = newVideoQueue []" "r_votesToSkip (initial_room w g) = []" "r_votes (initial_room w g) = []"
  "r_videoSegments (initial_room w g) = []" "r_grants (initial_room w g) = g" "r_playbackStart (initial_room w g) = None"
  by (simp_all add: initial_room_def room_defs)

lemma newVideoQueue_items [simp]: "vq_items (newVideoQueue (map Some items)) = items"
  by (simp add: newVideoQueue_def)

section \<open>What is stored comes back\<close>

lemma getMask_delete: "getMask (deleteRole i g) j = (if j = i then None else getMask g j)"
  by (simp add: getMask_def deleteRole_def)

text \<open>
  Masks that lost their administrator and owner entries on the way to the database are made whole
  again by the constructor.
\<close>

lemma stored_grants_restore:
  assumes "grants_ok g"
  shows "\<exists>g'. newGrants (stored_grants g) = Inr g' \<and> getMask g' = getMask g \<and> grants_ok g'"
proof -
  have wf: "grants_wf g" using assms by (simp add: grants_ok_def)
  let ?es = "stored_grants g"
  have "js_map_wf g" using wf by (simp add: grants_wf_def)
  then have es: "js_map_wf ?es" "\<And>r m. (r, m) \<in> set ?es \<longleftrightarrow> (r, m) \<in> set g \<and> r \<noteq> 4 \<and> r \<noteq> -1"
    by (simp add: stored_grants_def toJSON_def deleteRole_def)
       (auto simp: stored_grants_def toJSON_def deleteRole_def AList.delete_eq)
  have "list_all (\<lambda>(r, m). isRoleValid r \<and> role_mask g r = m) ?es"
    using wf es(2) by (auto simp: list_all_iff grants_wf_def entries_masks)
  moreover have "replays g [] []"
    by (simp add: replays_def role_mask_def getMask_def mask_num_def)
  ultimately obtain g1 where g1: "set_map_grants ?es [] = Inr g1" "replays g (rev (map fst ?es) @ []) g1"
    using replay_all [OF wf] by blast
  have ini: "setAllGrants ?es = Inr g1"
    using g1(1) es(1) by (simp add: setAllGrants_def js_map_wf_def js_map_of_entries_distinct)
  have "i \<in> fst ` set ?es" if i: "i \<in> {0, 1, 2, 3}" for i
  proof -
    have "getMask g i \<noteq> None" using wf i by (auto simp: grants_wf_def list_all_iff inherited_roles_def)
    then obtain m where "(i, m) \<in> set g" by (auto simp: getMask_def dest: map_of_SomeD)
    with es(2) i have "(i, m) \<in> set ?es" by auto
    then show ?thesis by force
  qed
  then have same: "role_mask g1 i = role_mask g i" if "i \<in> {0, 1, 2, 3}" for i
    using g1(2) that by (auto simp: replays_def inherited_roles_def)
  have b1: "grants_bounded g1" using g1(2) by (simp add: replays_def)
  show ?thesis using newGrants_restores [OF assms ini b1] same by blast
qed

lemma roles_wf_cong:
  assumes "roles_wf m" and "js_map_wf m'" and "\<forall>i\<in>{2, 3, 4}. map_of m' i = map_of m i"
  shows "roles_wf m'"
  using assms unfolding roles_wf_def by simp

lemma stored_roles_restore:
  assumes "roles_wf m" and "i \<in> {2, 3, 4}"
  shows "map_of (loaded_roles (stored_roles m)) i = map_of m i"
proof -
  obtain s where "map_of m i = Some s" "distinct s" using assms by (auto simp: roles_wf_def)
  then show ?thesis using assms(2) js_set_of_list_id [of "[]" s] by (auto simp: stored_roles_def loaded_roles_def)
qed



text \<open>
  Partial updates forget what was switched off: \<open>roomToDbPartial\<close> drops falsy values, so however
  a room is updated, a row that allows vote skipping keeps allowing it, a row that restores the queue
  on prompt or always never stops doing so, and a title or description is never emptied; and the
  settings that \<open>sync\<close> writes contain neither of the first two.
\<close>

theorem partial_update_keeps_falsy:
  "(db_enableVoteSkip db \<longrightarrow> db_enableVoteSkip (write_row (roomToDbPartial rp) db))
   \<and> (db_restoreQueueBehavior db \<noteq> Never \<longrightarrow> db_restoreQueueBehavior (write_row (roomToDbPartial rp) db) \<noteq> Never)
   \<and> (db_title db \<noteq> [] \<longrightarrow> db_title (write_row (roomToDbPartial rp) db) \<noteq> [])
   \<and> (db_description db \<noteq> [] \<longrightarrow> db_description (write_row (roomToDbPartial rp) db) \<noteq> [])
   \<and> db_enableVoteSkip (write_row (roomToDbPartial (sync_settings r)) db) = db_enableVoteSkip db
   \<and> db_restoreQueueBehavior (write_row (roomToDbPartial (sync_settings r)) db) = db_restoreQueueBehavior db"
proof -
  have b: "nullish (truthy_behavior v) x \<noteq> Never" if "x \<noteq> Never" for v x
    using that by (cases v) (auto simp: truthy_behavior_def)
  have s: "nullish (truthy_string v) x \<noteq> []" if "x \<noteq> []" for v x
    using that by (cases v) (auto simp: truthy_string_def)
  have f: "nullish (truthy_flag v) True" for v
    by (cases v) (auto simp: truthy_flag_def)
  show ?thesis
    using b s f by (auto simp: write_row_def roomToDbPartial_def sync_settings_def truthy_flag_def truthy_behavior_def)
qed

theorem partial_update_keeps_falsy_witness:
  "db_enableVoteSkip (write_row (roomToDbPartial (whole_room demo_room)) ((roomToDb demo_room)\<lparr>db_enableVoteSkip := True\<rparr>))
   \<and> \<not> r_enableVoteSkip demo_room"
  using partial_update_keeps_falsy [of "(roomToDb demo_room)\<lparr>db_enableVoteSkip := True\<rparr>" "whole_room demo_room" demo_room]
  by (simp add: demo_room_def small_room_def initial_room_def room_defs)

text \<open>
  The cache never expires: \<open>diff\<close> of a past date with today is negative, so information from any
  date up to now counts as valid, however old it is.
\<close>

theorem cached_info_always_valid:
  assumes "cv_updatedAt cv \<le> now"
  shows "v_title (filterVideoInfo now cv) = truthy_string (cv_title cv)
    \<and> v_description (filterVideoInfo now cv) = truthy_string (cv_description cv)"
proof -
  have "diff_days (cv_updatedAt cv) now \<le> 0"
    using assms by (auto simp: diff_days_def pos_imp_zdiv_nonneg_iff)
  then have "isCachedInfoValid now cv" by (simp add: isCachedInfoValid_def)
  then show ?thesis by (simp add: filterVideoInfo_def Let_def truthy_string_def)
qed

theorem cached_info_always_valid_witness:
  "v_title (filterVideoInfo (10 ^ 15) (toDbVideo 0 ((bare_video ''vimeo'' ''1'')\<lparr>v_title := Some ''old''\<rparr>))) = Some ''old''"
  using cached_info_always_valid [of "toDbVideo 0 ((bare_video ''vimeo'' ''1'')\<lparr>v_title := Some ''old''\<rparr>)" "10 ^ 15"]
  by (simp add: toDbVideo_def truthy_string_def)

end
