(* ===== verification/Persistence.thy ===== *)
theory Persistence
  imports Storage
begin

text \<open>
  The way of a room through redis: \<open>serializeState\<close> writes it, \<open>redisStateToState\<close> of
  \<open>server/roommanager.ts\<close> reads it, the constructor rebuilds it.
\<close>

lemma restore_roles_lookup:
  assumes "js_map_wf es"
  shows "map_of (restore_roles es m) i = (case map_of es i of Some ids \<Rightarrow> Some (js_set_of_list ids []) | None \<Rightarrow> map_of m i)"
  using assms
proof (induction es arbitrary: m)
  case (Cons e es)
  obtain role ids where e: "e = (role, ids)" by (cases e)
  with Cons.prems have "js_map_wf es" "map_of es role = None"
    by (auto simp: js_map_wf_def map_of_eq_None_iff)
  with Cons.IH show ?case by (auto simp: e split: option.split)
qed simp

lemma restore_roles_id:
  assumes "roles_wf m" and "i \<in> {2, 3, 4}"
  shows "map_of (restore_roles m []) i = map_of m i"
proof -
  obtain s where s: "map_of m i = Some s" "distinct s" using assms by (auto simp: roles_wf_def)
  have "js_map_wf m" using assms by (simp add: roles_wf_def)
  then show ?thesis using s js_set_of_list_id [of "[]" s] by (simp add: restore_roles_lookup)
qed

lemma restore_roles_keys: "js_map_wf m \<Longrightarrow> js_map_wf (restore_roles es m)"
  by (induction es m rule: restore_roles.induct) simp_all

lemma restore_roles_wf: "roles_wf m \<Longrightarrow> roles_wf (restore_roles m [])"
  using restore_roles_keys [of "[]" m] restore_roles_id [of m] by (auto intro: roles_wf_cong)

text \<open>
  C24. Redis keeps a room across a restart: from what \<open>serializeState\<close> writes, the constructor
  rebuilds a room with the same settings, owner, roles and permissions, the same current item, and
  at every later time the same playback position; the queue and the previous queue are the same
  unless the restore behaviour moves the one into the other or drops it. What does not come back are
  the votes, the votes to skip and the segments to skip, although the segments are stored.
\<close>

theorem redis_roundtrip:
  assumes "room_wf r"
  shows "\<exists>opts s. redisStateToState (serializeState r) = Inr opts \<and> newRoom w opts = Inr s
    \<and> r_name s = r_name r \<and> r_title s = r_title r \<and> r_description s = r_description r
    \<and> r_isTemporary s = r_isTemporary r \<and> r_visibility s = r_visibility r \<and> r_queueMode s = r_queueMode r
    \<and> r_owner s = r_owner r \<and> getMask (r_grants s) = getMask (r_grants r)
    \<and> (\<forall>i\<in>{2, 3, 4}. map_of (r_userRoles s) i = map_of (r_userRoles r) i)
    \<and> r_autoSkipSegmentCategories s = r_autoSkipSegmentCategories r
    \<and> r_restoreQueueBehavior s = r_restoreQueueBehavior r \<and> r_enableVoteSkip s = r_enableVoteSkip r
    \<and> r_currentSource s = r_currentSource r \<and> r_isPlaying s = r_isPlaying r
    \<and> (\<forall>t. realPlaybackPosition (at_time t w) s = realPlaybackPosition (at_time t w) r)
    \<and> vq_items (r_queue s) = (if r_restoreQueueBehavior r = Always \<and> vq_items (r_queue r) = []
          then nullish (r_prevQueue r) [] else vq_items (r_queue r))
    \<and> r_prevQueue s = (if r_restoreQueueBehavior r = Never
          \<or> r_restoreQueueBehavior r = Always \<and> vq_items (r_queue r) = [] then None else r_prevQueue r)
    \<and> r_votes s = [] \<and> r_votesToSkip s = [] \<and> r_videoSegments s = [] \<and> room_wf s"
proof -
  have wf: "grants_ok (r_grants r)" "roles_wf (r_userRoles r)" "r_isPlaying r \<Longrightarrow> r_playbackStart r \<noteq> None"
    using assms by (auto simp: room_wf_def)
  obtain g where g: "newGrants (toJSON (r_grants r)) = Inr g" "getMask g = getMask (r_grants r)" "grants_ok g"
    using grants_ok_replay [OF wf(1)] by blast
  define opts where "opts = (case redisStateToState (serializeState r) of Inr x \<Rightarrow> x)"
  have o: "redisStateToState (serializeState r) = Inr opts" "ro_grants opts = GrantsObject g"
    "ro_name opts = Some (r_name r)" "ro_title opts = Some (r_title r)"
    "ro_description opts = Some (r_description r)" "ro_visibility opts = Some (r_visibility r)"
    "ro_queueMode opts = Some (r_queueMode r)" "ro_owner opts = Some (r_owner r)"
    "ro_isTemporary opts = Some (r_isTemporary r)" "ro_userRoles opts = RolesMap (restore_roles (r_userRoles r) [])"
    "ro_autoSkipSegmentCategories opts = Some (r_autoSkipSegmentCategories r)" "ro_prevQueue opts = Some (r_prevQueue r)"
    "ro_restoreQueueBehavior opts = Some (r_restoreQueueBehavior r)" "ro_enableVoteSkip opts = Some (r_enableVoteSkip r)"
    "ro_playbackStart opts = r_playbackStart r" "ro_currentSource opts = Some (r_currentSource r)"
    "ro_queue opts = Some (map Some (vq_items (r_queue r)))" "ro_isPlaying opts = Some (r_isPlaying r)"
    "ro_playbackPosition opts = Some (r_playbackPosition r)" "ro_playbackSpeed opts = Some (r_playbackSpeed r)"
    "ro_votesToSkip opts = None"
    using g(1) by (simp_all add: opts_def redisStateToState_def serializeState_def)
  let ?p = "restore_policy (assign_options opts (initial_room w g))"
  define s where "s = ?p\<lparr>r_userRoles := restore_roles (r_userRoles r) [], r_playbackStart := r_playbackStart r\<rparr>"
  have s: "newRoom w opts = Inr s"
    by (cases "r_playbackStart r") (simp_all add: newRoom_def o resolve_grants_def given_roles_def Let_def s_def)
  have "roles_wf (restore_roles (r_userRoles r) [])"
    by (rule restore_roles_wf [OF wf(2)])
  then have "options_wf opts" using wf(3) g(3) by (simp add: options_wf_def o given_roles_def)
  then have "room_wf s" by (rule newRoom_wf [OF s])
  moreover have "realPlaybackPosition (at_time t w) s = realPlaybackPosition (at_time t w) r" for t
    by (cases "r_playbackStart r") (simp_all add: realPlaybackPosition_def calcDurationFromPlaybackStart_def s_def o)
  ultimately show ?thesis
    using o(1) s g(2) restore_roles_id [OF wf(2)]
    by (intro exI [of _ opts] exI [of _ s]) (simp add: s_def o)
qed

theorem redis_roundtrip_witness:
  "\<exists>opts s. redisStateToState (serializeState demo_room) = Inr opts \<and> newRoom (quiet_world 0) opts = Inr s
     \<and> r_name s = ''a'' \<and> r_currentSource s = Some (bare_video ''vimeo'' ''1'') \<and> length (vq_items (r_queue s)) = 2"
proof -
  have "r_name demo_room = ''a''" "r_currentSource demo_room = Some (bare_video ''vimeo'' ''1'')"
    "length (vq_items (r_queue demo_room)) = 2"
    by (simp_all add: demo_room_def small_room_def newVideoQueue_def)
  moreover have "vq_items (r_queue demo_room) \<noteq> []" using calculation(3) by auto
  ultimately show ?thesis using redis_roundtrip [OF demo_room_wf, of "quiet_world 0"] by metis
qed

end
