(* ===== verification/RoomManager.thy ===== *)
theory RoomManager
  imports Persistence
begin

text \<open>
  \<open>server/roommanager.ts\<close>: the rooms that are loaded on this node, creating, finding, loading and
  unloading them, and the periodic update. Redis and the database are the argument \<open>backend\<close>: what
  each command answers. What the manager tells its listeners (\<open>bus.emit\<close>) and what it deletes from
  redis is logged in order. A room object is the element of the array; two rooms are told apart by
  their names, which \<open>manager_names_unique\<close> shows to be unique.
\<close>

section \<open>State\<close>

datatype managerEvent =
    Loaded string
  | Unloaded string unloadReason
  | RedisDeleted string
  | EpochReset

record roomManager =
  rm_rooms :: "room list"
  rm_log :: "managerEvent list"

type_synonym 'a manager_call = "(exn, 'a, roomManager) outcome"

record backend =
  bk_world :: world
  bk_exists :: "string \<Rightarrow> exn + bool"
  bk_get :: "string \<Rightarrow> exn + roomStateStorable option"
  bk_incr :: "exn + int"
  bk_reset :: "exn + unit"
  bk_del :: "string \<Rightarrow> exn + unit"
  bk_table :: roomTable

definition log_event :: "managerEvent \<Rightarrow> roomManager \<Rightarrow> roomManager" where
  "log_event e m = m\<lparr>rm_log := rm_log m @ [e]\<rparr>"

definition set_room :: "nat \<Rightarrow> room \<Rightarrow> roomManager \<Rightarrow> roomManager" where
  "set_room i r m = m\<lparr>rm_rooms := (rm_rooms m)[i := r]\<rparr>"

definition same_name :: "string \<Rightarrow> room \<Rightarrow> bool" where
  "same_name n r \<longleftrightarrow> to_lower (r_name r) = to_lower n"

definition room_index :: "string \<Rightarrow> roomManager \<Rightarrow> nat option" where
  "room_index n m = find_index (same_name n) (rm_rooms m)"

section \<open>Loading\<close>

text \<open>The room is in the array before redis answers; \<open>addRoom\<close> gives its place.\<close>

definition addRoom :: "backend \<Rightarrow> room \<Rightarrow> roomManager \<Rightarrow> nat manager_call" where
  "addRoom bk r m =
    (let i = length (rm_rooms m); m1 = m\<lparr>rm_rooms := rm_rooms m @ [r]\<rparr>
     in case bk_incr bk of
          Inl e \<Rightarrow> Throws e m1
        | Inr epoch \<Rightarrow>
           (let m2 = set_room i (r\<lparr>r_loadEpoch := epoch\<rparr>) m1
            in if epoch \<ge> 2147483640
               then (case bk_reset bk of
                   Inl e \<Rightarrow> Throws e m2
                 | Inr _ \<Rightarrow> Returns i (log_event (Loaded (r_name r)) (log_event EpochReset m2)))
               else Returns i (log_event (Loaded (r_name r)) m2)))"

definition name_free :: "backend \<Rightarrow> string \<Rightarrow> roomManager \<Rightarrow> exn + unit" where
  "name_free bk n m =
    (if room_index n m \<noteq> None then Inl (RoomNameTakenException n)
     else (case bk_exists bk (''room:'' @ n) of
         Inl e \<Rightarrow> Inl e
       | Inr True \<Rightarrow> Inl (RoomNameTakenException n)
       | Inr False \<Rightarrow> (case isRoomNameTaken (bk_table bk) n of
             Inl e \<Rightarrow> Inl e
           | Inr taken \<Rightarrow> (if taken then Inl (RoomNameTakenException n) else Inr ()))))"

text \<open>\<open>await room.update(); await room.sync()\<close>\<close>

definition tick_room :: "world \<Rightarrow> room \<Rightarrow> unit room_call" where
  "tick_room w r = and_then (update w r) (\<lambda>_ r1. sync w r1)"

text \<open>What \<open>saveRoom\<close> answers is ignored; only a failing check for the name is passed on.\<close>

definition createRoom :: "backend \<Rightarrow> string \<Rightarrow> roomOptions \<Rightarrow> roomManager \<Rightarrow> unit manager_call" where
  "createRoom bk n opts m = (case name_free bk n m of
      Inl e \<Rightarrow> Throws e m
    | Inr _ \<Rightarrow> (case newRoom (bk_world bk) (opts\<lparr>ro_name := Some n\<rparr>) of
        Inl e \<Rightarrow> Throws e m
      | Inr r \<Rightarrow> (case (if r_isTemporary r then Inr True else saveRoom (bk_table bk) r) of
          Inl e \<Rightarrow> Throws e m
        | Inr _ \<Rightarrow> (case tick_room (bk_world bk) r of
            Throws e r1 \<Rightarrow> Throws e m
          | Returns _ r1 \<Rightarrow> and_then (addRoom bk r1 m) (\<lambda>_ m1. Returns () m1)))))"

text \<open>
  The part of \<open>getRoom\<close> after the search among the loaded rooms; between the two the code awaits
  redis, so another call can run in between.
\<close>

definition stored_options :: "backend \<Rightarrow> string \<Rightarrow> exn + roomOptions option" where
  "stored_options bk n = (case bk_get bk (''room:'' @ n) of
      Inl e \<Rightarrow> Inl e
    | Inr (Some state) \<Rightarrow> map_sum id Some (redisStateToState state)
    | Inr None \<Rightarrow> Inr (getRoomByName (bk_table bk) n))"

definition load_room :: "backend \<Rightarrow> string \<Rightarrow> roomManager \<Rightarrow> (exn + nat) manager_call" where
  "load_room bk n m = (case stored_options bk n of
      Inl e \<Rightarrow> Throws e m
    | Inr None \<Rightarrow> Returns (Inl (RoomNotFoundException n)) m
    | Inr (Some opts) \<Rightarrow> (case newRoom (bk_world bk) opts of
        Inl e \<Rightarrow> Throws e m
      | Inr r \<Rightarrow> and_then (addRoom bk r m) (\<lambda>i m1. Returns (Inr i) m1)))"

definition getRoom :: "backend \<Rightarrow> string \<Rightarrow> bool \<Rightarrow> roomManager \<Rightarrow> (exn + nat) manager_call" where
  "getRoom bk n mustAlreadyBeLoaded m = (case room_index n m of
      Some i \<Rightarrow> Returns (Inr i) m
    | None \<Rightarrow> (if mustAlreadyBeLoaded then Returns (Inl (RoomNotFoundException n)) m
              else load_room bk n m))"

section \<open>Unloading\<close>

text \<open>
  \<open>unloadRoom\<close> up to the end of \<open>onBeforeUnload\<close>: \<open>None\<close> when it refuses, otherwise the index it
  found before its await.
\<close>

definition unload_begin :: "backend \<Rightarrow> string \<Rightarrow> unloadReason \<Rightarrow> roomManager \<Rightarrow> (nat \<times> string) option manager_call" where
  "unload_begin bk n reason m = (case room_index n m of
      None \<Rightarrow> Throws (RoomNotFoundException n) m
    | Some i \<Rightarrow>
       (let r = rm_rooms m ! i
        in if reason = Keepalive \<and> users r \<noteq> [] then Returns None m
           else if reason = Commanded then Returns (Some (i, r_name r)) m
           else (case onBeforeUnload (bk_world bk) r of
               Throws e r1 \<Rightarrow> Throws e (set_room i r1 m)
             | Returns _ r1 \<Rightarrow> Returns (Some (i, r_name r)) (set_room i r1 m))))"

text \<open>
  The rest, on the array as it is by then. \<open>rooms[idx].name\<close> fails when the array has become too
  short; \<open>indexOf\<close> gives \<open>-1\<close> when the room has gone, and \<open>splice(-1, 1)\<close> removes the last element.
\<close>

definition removal_index :: "nat \<Rightarrow> string \<Rightarrow> room list \<Rightarrow> nat option" where
  "removal_index i n rooms =
    (if i \<ge> length rooms then None
     else if r_name (rooms ! i) = n then Some i
     else (case find_index (\<lambda>r. r_name r = n) rooms of Some j \<Rightarrow> Some j | None \<Rightarrow> Some (length rooms - 1)))"

definition delete_keys :: "backend \<Rightarrow> string list \<Rightarrow> roomManager \<Rightarrow> unit manager_call" where
  "delete_keys bk keys m = fold (\<lambda>k c. and_then c (\<lambda>_ m. case bk_del bk k of
      Inl e \<Rightarrow> Throws e m | Inr _ \<Rightarrow> Returns () (log_event (RedisDeleted k) m))) keys (Returns () m)"

definition unload_finish :: "backend \<Rightarrow> nat \<Rightarrow> string \<Rightarrow> unloadReason \<Rightarrow> bool \<Rightarrow> roomManager \<Rightarrow> unit manager_call" where
  "unload_finish bk i n reason preserveRedis m = (case removal_index i n (rm_rooms m) of
      None \<Rightarrow> Throws (JsTypeError ''Cannot read properties of undefined (reading 'name')'') m
    | Some j \<Rightarrow> and_then
        (delete_keys bk (if preserveRedis then [] else [''room:'' @ n, ''room-sync:'' @ n])
           (m\<lparr>rm_rooms := remove_at j (rm_rooms m)\<rparr>))
        (\<lambda>_ m1. Returns () (log_event (Unloaded n reason) m1)))"

definition unloadRoom :: "backend \<Rightarrow> string \<Rightarrow> unloadReason \<Rightarrow> bool option \<Rightarrow> roomManager \<Rightarrow> unit manager_call" where
  "unloadRoom bk n reason preserveRedis m = and_then (unload_begin bk n reason m) (\<lambda>found m1. (case found of
      None \<Rightarrow> Returns () m1
    | Some (i, name) \<Rightarrow> unload_finish bk i name reason (nullish preserveRedis (reason = Commanded)) m1))"

text \<open>
  \<open>shutdown\<close> and \<open>unloadAllRooms\<close> start unloading every room before any of them has finished, and
  they finish in the order in which they were started. The failure of one does not stop the others.
\<close>

definition begin_all :: "backend \<Rightarrow> unloadReason \<Rightarrow> roomManager \<Rightarrow> (nat \<times> string) list \<times> roomManager" where
  "begin_all bk reason m = fold (\<lambda>n (pending, m). case unload_begin bk n reason m of
      Returns (Some p) m1 \<Rightarrow> (pending @ [p], m1)
    | Returns None m1 \<Rightarrow> (pending, m1)
    | Throws e m1 \<Rightarrow> (pending, m1)) (map r_name (rm_rooms m)) ([], m)"

definition finish_all :: "backend \<Rightarrow> unloadReason \<Rightarrow> bool \<Rightarrow> (nat \<times> string) list \<Rightarrow> roomManager \<Rightarrow> roomManager" where
  "finish_all bk reason preserveRedis pending m =
    fold (\<lambda>(i, n) m. final_state (unload_finish bk i n reason preserveRedis m)) pending m"

definition shutdown :: "backend \<Rightarrow> roomManager \<Rightarrow> roomManager" where
  "shutdown bk m = (let (pending, m1) = begin_all bk Shutdown m in finish_all bk Shutdown True pending m1)"

definition unloadAllRooms :: "backend \<Rightarrow> roomManager \<Rightarrow> roomManager" where
  "unloadAllRooms bk m = (let (pending, m1) = begin_all bk Admin m in finish_all bk Admin False pending m1)"

definition clearRooms :: "roomManager \<Rightarrow> roomManager" where
  "clearRooms m = m\<lparr>rm_rooms := []\<rparr>"

section \<open>The periodic update\<close>

lemma set_room_simps [simp]:
  "rm_rooms (set_room i r m) = (rm_rooms m)[i := r]" "rm_log (set_room i r m) = rm_log m"
  by (simp_all add: set_room_def)

lemma log_event_simps [simp]:
  "rm_rooms (log_event e m) = rm_rooms m" "rm_log (log_event e m) = rm_log m @ [e]"
  by (simp_all add: log_event_def)

lemma delete_keys_Cons:
  "delete_keys bk (k # ks) m = (case bk_del bk k of
     Inl e \<Rightarrow> Throws e m | Inr _ \<Rightarrow> delete_keys bk ks (log_event (RedisDeleted k) m))"
proof -
  have stuck: "fold (\<lambda>k c. and_then c (\<lambda>_ m. case bk_del bk k of
      Inl e \<Rightarrow> Throws e m | Inr _ \<Rightarrow> Returns () (log_event (RedisDeleted k) m))) ks (Throws e m) = Throws e m"
    for ks e and m :: roomManager
    by (induction ks) simp_all
  show ?thesis by (simp add: delete_keys_def stuck split: sum.split)
qed

lemma delete_keys_Nil [simp]: "delete_keys bk [] m = Returns () m"
  by (simp add: delete_keys_def)

lemma delete_keys_rooms [simp]: "rm_rooms (final_state (delete_keys bk ks m)) = rm_rooms m"
  by (induction ks arbitrary: m) (simp_all add: delete_keys_Cons split: sum.split)

lemma room_index_SomeD: "room_index n m = Some i \<Longrightarrow> i < length (rm_rooms m) \<and> same_name n (rm_rooms m ! i)"
  using find_index_SomeD unfolding room_index_def by blast

lemma removal_index_less: "removal_index i n rooms = Some j \<Longrightarrow> j < length rooms"
  using find_index_SomeD by (fastforce simp: removal_index_def split: if_splits option.splits)

lemma unload_finish_rooms:
  "rm_rooms (final_state (unload_finish bk i n reason keep m)) = (case removal_index i n (rm_rooms m) of
     None \<Rightarrow> rm_rooms m | Some j \<Rightarrow> remove_at j (rm_rooms m))"
proof (cases "removal_index i n (rm_rooms m)")
  case (Some j)
  let ?m = "m\<lparr>rm_rooms := remove_at j (rm_rooms m)\<rparr>"
  let ?keys = "if keep then [] else [''room:'' @ n, ''room-sync:'' @ n]"
  show ?thesis
    using Some delete_keys_rooms [of bk ?keys ?m]
    by (cases "delete_keys bk ?keys ?m") (simp_all add: unload_finish_def)
qed (simp add: unload_finish_def)

lemma unload_begin_rooms:
  "length (rm_rooms (final_state (unload_begin bk n reason m))) = length (rm_rooms m)"
  by (auto simp: unload_begin_def Let_def split: option.split outcome.split)

lemma unloadRoom_length: "length (rm_rooms (final_state (unloadRoom bk n reason keep m))) \<le> length (rm_rooms m)"
proof (cases "unload_begin bk n reason m")
  case (Returns found m1)
  have len: "length (rm_rooms m1) = length (rm_rooms m)"
    using unload_begin_rooms [of bk n reason m] Returns by simp
  show ?thesis
  proof (cases found)
    case (Some p)
    obtain i name where p: "p = (i, name)" by (cases p)
    show ?thesis
      using Returns Some p len removal_index_less [of i name "rm_rooms m1"]
      by (auto simp: unloadRoom_def unload_finish_rooms split: option.split)
  qed (use Returns len in \<open>simp add: unloadRoom_def\<close>)
qed (use unload_begin_rooms [of bk n reason m] in \<open>simp add: unloadRoom_def\<close>)

text \<open>
  The loop \<open>for (const room of rooms)\<close> goes by index, so that a room unloaded on the way moves the
  next one into its place and out of this round. Failures are logged and swallowed.
\<close>

definition visit_room :: "backend \<Rightarrow> nat \<Rightarrow> roomManager \<Rightarrow> roomManager" where
  "visit_room bk i m =
    (let r = final_state (tick_room (bk_world bk) (rm_rooms m ! i)); m1 = set_room i r m
     in if isStale (bk_world bk) r then final_state (unloadRoom bk (r_name r) Keepalive None m1) else m1)"

lemma visit_room_length: "length (rm_rooms (visit_room bk i m)) \<le> length (rm_rooms m)"
  using unloadRoom_length by (fastforce simp: visit_room_def Let_def intro: order_trans)

lemma visit_room_measure:
  "i < length (rm_rooms m) \<Longrightarrow> length (rm_rooms (visit_room bk i m)) - Suc i < length (rm_rooms m) - i"
  using visit_room_length [of bk i m] by linarith

function update_from :: "backend \<Rightarrow> nat \<Rightarrow> roomManager \<Rightarrow> roomManager" where
  "update_from bk i m =
    (if i < length (rm_rooms m) then update_from bk (Suc i) (visit_room bk i m) else m)"
  by pat_completeness auto

termination
  by (relation "measure (\<lambda>(bk, i, m). length (rm_rooms m) - i)")
     (simp_all add: visit_room_measure)

declare update_from.simps [simp del]

definition updateRooms :: "backend \<Rightarrow> roomManager \<Rightarrow> roomManager" where
  "updateRooms bk m = update_from bk 0 m"

end
