(* ===== verification/ManagerProperties.thy ===== *)
theory ManagerProperties
  imports RoomManager
begin

text \<open>
  What the room manager promises: the invariant of the array of loaded rooms as an inductive step
  relation, the behaviour of loading and unloading, and what goes wrong when two calls overlap.
\<close>

section \<open>Names stay\<close>

lemma sync_name: "r_name (final_state (sync w r)) = r_name r"
  by (auto simp: sync_def sync_with_def sync_begin_def sync_end_def publish_def room_defs Let_def)

lemma flush_save_name [simp]: "r_name (flush_save w r) = r_name r"
  by (simp add: flush_save_def saveStateToRedis_def room_defs)

lemma onBeforeUnload_name: "r_name (final_state (onBeforeUnload w r)) = r_name r"
  by (simp add: onBeforeUnload_def Let_def room_defs)

lemma update_name: "r_name (final_state (update w r)) = r_name r"
  using identity.update [of r r w] by (simp add: ends_in_def same_identity_def)

lemma room_step_name: "r_name (room_step r e) = r_name r"
  using identity.processUnauthorizedRequest [of r r] identity.processRequestUnsafe [of r r]
  by (cases e) (auto simp: ends_in_def same_identity_def update_name sync_name onBeforeUnload_name)

lemma tick_room_keeps:
  "r_name (final_state (tick_room w r)) = r_name r"
  "room_wf r \<Longrightarrow> room_wf (final_state (tick_room w r))"
proof -
  show "r_name (final_state (tick_room w r)) = r_name r"
    using update_name [of w r] sync_name by (cases "update w r") (auto simp: tick_room_def)
  show "room_wf (final_state (tick_room w r))" if "room_wf r"
    using wf.update [OF that, of w] sync_wf by (cases "update w r") (auto simp: tick_room_def ends_in_def)
qed

lemma newRoom_name: "newRoom w opts = Inr r \<Longrightarrow> r_name r = nullish (ro_name opts) ''''"
proof -
  assume "newRoom w opts = Inr r"
  moreover have "r_name (initial_room w g) = ''''" for g by (simp add: initial_room_def room_defs)
  ultimately show ?thesis by (auto simp: newRoom_def Let_def split: sum.splits if_splits)
qed

section \<open>What the stores hold\<close>

text \<open>
  The hypothesis on redis and the database: under a room's key is a state that \<open>serializeState\<close> wrote
  for that name, and a query for a name gives a row of that name, ignoring case, with role columns
  that \<open>roomToDb\<close> wrote. The two lemmas after it show that the program's own writes are such.
\<close>

definition state_ok :: "roomStateStorable \<Rightarrow> bool" where
  "state_ok s \<longleftrightarrow> roles_wf (ss_userRoles s) \<and> (ss_isPlaying s \<longrightarrow> ss_playbackStart s \<noteq> None)"

definition backend_ok :: "backend \<Rightarrow> bool" where
  "backend_ok bk \<longleftrightarrow>
    (\<forall>n s. bk_get bk (''room:'' @ n) = Inr (Some s) \<longrightarrow> ss_name s = n \<and> state_ok s)
    \<and> (\<forall>n db ow. tb_findOne (bk_table bk) n = Inr (Some (db, ow)) \<longrightarrow>
         to_lower (db_name db) = to_lower n \<and> roles_wf (loaded_roles (db_roles db)))"

lemma serializeState_ok: "room_wf r \<Longrightarrow> ss_name (serializeState r) = r_name r \<and> state_ok (serializeState r)"
  by (simp add: serializeState_def state_ok_def room_wf_def)

lemma roomToDb_ok:
  assumes "room_wf r"
  shows "db_name (roomToDb r) = r_name r \<and> roles_wf (loaded_roles (db_roles (roomToDb r)))"
proof -
  have "roles_wf (r_userRoles r)" using assms by (simp add: room_wf_def)
  then have "roles_wf (loaded_roles (stored_roles (r_userRoles r)))"
    by (rule roles_wf_cong) (simp add: loaded_roles_def js_map_wf_def, use stored_roles_restore \<open>roles_wf (r_userRoles r)\<close> in blast)
  then show ?thesis by (simp add: roomToDb_def)
qed

lemma redis_options_wf:
  assumes "redisStateToState s = Inr opts" and "state_ok s"
  shows "options_wf opts \<and> ro_name opts = Some (ss_name s)"
  using assms newGrants_ok restore_roles_wf
  by (auto simp: redisStateToState_def options_wf_def state_ok_def given_roles_def split: sum.splits)

lemma database_options_wf:
  assumes "getRoomByName tb n = Some opts"
    and "\<And>db ow. tb_findOne tb n = Inr (Some (db, ow)) \<Longrightarrow> to_lower (db_name db) = to_lower n \<and> roles_wf (loaded_roles (db_roles db))"
  shows "options_wf opts \<and> (\<exists>n'. ro_name opts = Some n' \<and> to_lower n' = to_lower n)"
  using assms newGrants_ok
  by (fastforce simp: getRoomByName_def dbToRoomArgs_def options_wf_def no_options_def given_roles_def
      split: sum.splits option.splits prod.splits)

lemma stored_options_wf:
  assumes "backend_ok bk" and "stored_options bk n = Inr (Some opts)"
  shows "options_wf opts \<and> (\<exists>n'. ro_name opts = Some n' \<and> to_lower n' = to_lower n)"
proof (cases "bk_get bk (''room:'' @ n)")
  case (Inr found)
  show ?thesis
  proof (cases found)
    case (Some s)
    then have "redisStateToState s = Inr opts" "ss_name s = n" "state_ok s"
      using assms Inr by (auto simp: stored_options_def backend_ok_def map_sum_def split: sum.splits)
    then show ?thesis using redis_options_wf by blast
  next
    case None
    then have "getRoomByName (bk_table bk) n = Some opts"
      using assms Inr by (simp add: stored_options_def)
    then show ?thesis using assms(1) database_options_wf unfolding backend_ok_def by blast
  qed
qed (use assms in \<open>simp add: stored_options_def\<close>)

section \<open>The invariant\<close>

definition manager_wf :: "roomManager \<Rightarrow> bool" where
  "manager_wf m \<longleftrightarrow> distinct (map (\<lambda>r. to_lower (r_name r)) (rm_rooms m)) \<and> list_all room_wf (rm_rooms m)"

lemma manager_wf_log [simp]: "manager_wf (log_event e m) = manager_wf m"
  by (simp add: manager_wf_def)

lemma manager_wf_set_room:
  assumes "manager_wf m" and "i < length (rm_rooms m) \<Longrightarrow> r_name r = r_name (rm_rooms m ! i) \<and> room_wf r"
  shows "manager_wf (set_room i r m)"
proof (cases "i < length (rm_rooms m)")
  case True
  have "map (\<lambda>r. to_lower (r_name r)) ((rm_rooms m)[i := r]) = map (\<lambda>r. to_lower (r_name r)) (rm_rooms m)"
    using True assms(2) by (simp add: map_update list_update_same_conv)
  moreover have "list_all room_wf ((rm_rooms m)[i := r])"
    using assms True set_update_subset_insert [of "rm_rooms m" i r] by (auto simp: manager_wf_def list_all_iff)
  ultimately show ?thesis using assms(1) by (simp add: manager_wf_def)
next
  case False
  then have "set_room i r m = m" by (simp add: set_room_def list_update_beyond not_less)
  then show ?thesis using assms(1) by simp
qed

lemma manager_wf_remove:
  assumes "manager_wf m"
  shows "manager_wf (m\<lparr>rm_rooms := remove_at j (rm_rooms m)\<rparr>)"
proof -
  have "map f (remove_at j xs) = remove_at j (map f xs)" for f :: "room \<Rightarrow> string" and xs
    by (simp add: remove_at_def take_map drop_map)
  moreover have "distinct (remove_at j ns)" if "distinct ns" for ns :: "string list"
    using that set_take_disj_set_drop_if_distinct [OF that, of j "Suc j"] by (simp add: remove_at_def)
  ultimately show ?thesis
    using assms set_remove_at_subset [of j "rm_rooms m"] by (auto simp: manager_wf_def list_all_iff)
qed

lemma manager_wf_add:
  assumes "manager_wf m" and "room_wf r" and "room_index n m = None" and "to_lower (r_name r) = to_lower n"
  shows "manager_wf (m\<lparr>rm_rooms := rm_rooms m @ [r]\<rparr>)"
  using assms by (auto simp: manager_wf_def room_index_def find_index_None_iff same_name_def)

lemma addRoom_wf:
  assumes "manager_wf m" and "room_wf r" and "room_index n m = None" and "to_lower (r_name r) = to_lower n"
  shows "manager_wf (final_state (addRoom bk r m))"
proof -
  have "room_wf (r\<lparr>r_loadEpoch := k\<rparr>)" for k using assms(2) by (simp add: room_wf_def)
  then have "manager_wf (set_room (length (rm_rooms m)) (r\<lparr>r_loadEpoch := k\<rparr>) (m\<lparr>rm_rooms := rm_rooms m @ [r]\<rparr>))" for k
    using manager_wf_add [OF assms] by (intro manager_wf_set_room) simp_all
  then show ?thesis
    using manager_wf_add [OF assms] by (auto simp: addRoom_def Let_def split: sum.split)
qed

lemma getRoom_wf:
  assumes "manager_wf m" and "backend_ok bk"
  shows "manager_wf (final_state (getRoom bk n must m))"
proof (cases "room_index n m = None \<and> \<not> must \<and> (\<exists>opts. stored_options bk n = Inr (Some opts))")
  case True
  then obtain opts where opts: "stored_options bk n = Inr (Some opts)" by blast
  then obtain n' where o: "options_wf opts" "ro_name opts = Some n'" "to_lower n' = to_lower n"
    using stored_options_wf [OF assms(2)] by blast
  have "manager_wf (final_state (addRoom bk r m))" if "newRoom (bk_world bk) opts = Inr r" for r
    using addRoom_wf [OF assms(1) newRoom_wf [OF that o(1)], of n] newRoom_name [OF that] o True by simp
  then have "manager_wf (final_state (and_then (addRoom bk r m) (\<lambda>i m1. Returns (Inr i) m1)))"
    if "newRoom (bk_world bk) opts = Inr r" for r
    using that by (cases "addRoom bk r m") fastforce+
  with True opts show ?thesis using assms(1) by (auto simp: getRoom_def load_room_def split: sum.split)
next
  case False
  with assms(1) show ?thesis by (auto simp: getRoom_def load_room_def split: option.splits sum.splits)
qed

lemma createRoom_wf:
  assumes "manager_wf m" and "options_wf opts"
  shows "manager_wf (final_state (createRoom bk n opts m))"
proof (cases "name_free bk n m")
  case (Inr u)
  then have free: "room_index n m = None" by (auto simp: name_free_def split: if_splits)
  have "manager_wf (final_state (and_then (addRoom bk r1 m) (\<lambda>_ m1. Returns () m1)))"
    if r: "newRoom (bk_world bk) (opts\<lparr>ro_name := Some n\<rparr>) = Inr r" and t: "tick_room (bk_world bk) r = Returns u r1" for r r1 u
  proof -
    have "options_wf (opts\<lparr>ro_name := Some n\<rparr>)" using assms(2) by (simp add: options_wf_def)
    then have "room_wf r1" "r_name r1 = n"
      using tick_room_keeps [where w = "bk_world bk" and r = r] newRoom_wf [OF r] newRoom_name [OF r] t by auto
    then have "manager_wf (final_state (addRoom bk r1 m))"
      using addRoom_wf [OF assms(1) _ free] by simp
    then show ?thesis by (cases "addRoom bk r1 m") simp_all
  qed
  with assms(1) Inr show ?thesis
    by (auto simp: createRoom_def split: sum.split outcome.split)
qed (use assms in \<open>simp add: createRoom_def\<close>)

lemma unload_begin_wf:
  assumes "manager_wf m"
  shows "manager_wf (final_state (unload_begin bk n reason m))"
proof (cases "room_index n m")
  case (Some i)
  then have i: "i < length (rm_rooms m)" using room_index_SomeD by blast
  then have "room_wf (rm_rooms m ! i)" using assms by (auto simp: manager_wf_def list_all_iff)
  then have "ends_in (\<lambda>r. room_wf r \<and> r_name r = r_name (rm_rooms m ! i)) (onBeforeUnload (bk_world bk) (rm_rooms m ! i))"
    using onBeforeUnload_wf onBeforeUnload_name by (simp add: ends_in_def)
  then have "manager_wf (set_room i (final_state (onBeforeUnload (bk_world bk) (rm_rooms m ! i))) m)"
    by (intro manager_wf_set_room [OF assms]) (simp add: ends_in_def)
  with assms Some show ?thesis
    by (cases "onBeforeUnload (bk_world bk) (rm_rooms m ! i)") (auto simp: unload_begin_def Let_def)
qed (use assms in \<open>simp add: unload_begin_def\<close>)

lemma manager_wf_rooms: "rm_rooms m' = rm_rooms m \<Longrightarrow> manager_wf m' = manager_wf m"
  by (simp add: manager_wf_def)

lemma unload_finish_wf:
  assumes "manager_wf m"
  shows "manager_wf (final_state (unload_finish bk i n reason keep m))"
proof (cases "removal_index i n (rm_rooms m)")
  case None
  then show ?thesis using assms by (simp add: unload_finish_def)
next
  case (Some j)
  then show ?thesis
    using manager_wf_remove [OF assms, of j] unload_finish_rooms [of bk i n reason keep m]
    by (simp add: manager_wf_def)
qed

lemma unloadRoom_wf:
  assumes "manager_wf m"
  shows "manager_wf (final_state (unloadRoom bk n reason keep m))"
  using unload_begin_wf [OF assms, of bk n reason] unload_finish_wf
  by (cases "unload_begin bk n reason m") (auto simp: unloadRoom_def split: option.split)

lemma visit_room_wf:
  assumes "manager_wf m" and "i < length (rm_rooms m)"
  shows "manager_wf (visit_room bk i m)"
proof -
  have "room_wf (rm_rooms m ! i)" using assms by (auto simp: manager_wf_def list_all_iff)
  then have "manager_wf (set_room i (final_state (tick_room (bk_world bk) (rm_rooms m ! i))) m)"
    using tick_room_keeps by (intro manager_wf_set_room [OF assms(1)]) auto
  then show ?thesis using unloadRoom_wf by (simp add: visit_room_def Let_def)
qed

lemma update_from_wf: "manager_wf m \<Longrightarrow> manager_wf (update_from bk i m)"
  by (induction bk i m rule: update_from.induct) (subst update_from.simps, auto intro: visit_room_wf)

lemma finish_all_wf: "manager_wf m \<Longrightarrow> manager_wf (finish_all bk reason keep pending m)"
  by (induction pending arbitrary: m) (auto simp: finish_all_def unload_finish_wf split: prod.splits)

lemma begin_all_wf: "manager_wf m \<Longrightarrow> manager_wf (snd (begin_all bk reason m))"
proof -
  have "manager_wf (snd p) \<Longrightarrow> manager_wf (snd (fold (\<lambda>n (pending, m). case unload_begin bk n reason m of
      Returns (Some p) m1 \<Rightarrow> (pending @ [p], m1) | Returns None m1 \<Rightarrow> (pending, m1)
    | Throws e m1 \<Rightarrow> (pending, m1)) ns p))" for ns and p :: "(nat \<times> string) list \<times> roomManager"
  proof (induction ns arbitrary: p)
    case (Cons n ns)
    have "manager_wf (final_state (unload_begin bk n reason (snd p)))"
      using Cons.prems by (rule unload_begin_wf)
    then show ?case
      by (cases p; cases "unload_begin bk n reason (snd p)") (auto split: option.split intro!: Cons.IH)
  qed simp
  then show "manager_wf m \<Longrightarrow> manager_wf (snd (begin_all bk reason m))" by (simp add: begin_all_def)
qed

section \<open>The registry as a step relation\<close>

text \<open>Everything that changes the registry, one call at a time, with any backend that holds what was written.\<close>

inductive manager_step :: "roomManager \<Rightarrow> roomManager \<Rightarrow> bool" where
  create: "options_wf opts \<Longrightarrow> manager_step m (final_state (createRoom bk n opts m))"
| load: "backend_ok bk \<Longrightarrow> manager_step m (final_state (getRoom bk n must m))"
| serve: "i < length (rm_rooms m) \<Longrightarrow> manager_step m (set_room i (room_step (rm_rooms m ! i) ev) m)"
| unload: "manager_step m (final_state (unloadRoom bk n reason keep m))"
| tick: "manager_step m (updateRooms bk m)"
| stop: "manager_step m (shutdown bk m)"
| unload_all: "manager_step m (unloadAllRooms bk m)"

lemma manager_step_wf: "manager_step m m' \<Longrightarrow> manager_wf m \<Longrightarrow> manager_wf m'"
proof (induction rule: manager_step.induct)
  case (serve i m ev)
  then have "room_wf (rm_rooms m ! i)" by (auto simp: manager_wf_def list_all_iff)
  then show ?case by (intro manager_wf_set_room [OF serve.prems]) (simp add: room_step_name room_step_wf)
next
  case (stop m bk)
  then show ?case using begin_all_wf [of m bk Shutdown] by (auto simp: shutdown_def finish_all_wf split: prod.split)
next
  case (unload_all m bk)
  then show ?case using begin_all_wf [of m bk Admin] by (auto simp: unloadAllRooms_def finish_all_wf split: prod.split)
qed (auto simp: createRoom_wf getRoom_wf unloadRoom_wf updateRooms_def update_from_wf)

definition no_rooms :: roomManager where
  "no_rooms = \<lparr>rm_rooms = [], rm_log = []\<rparr>"

lemma reachable_wf: "manager_step\<^sup>*\<^sup>* no_rooms m \<Longrightarrow> manager_wf m"
  by (induction rule: rtranclp_induct) (auto simp: no_rooms_def manager_wf_def [of "\<lparr>rm_rooms = [], rm_log = []\<rparr>"] manager_step_wf)

text \<open>
  C25. Room names are unique on a node: as long as calls do not overlap, in every state the manager
  can reach by creating, loading, serving, updating and unloading rooms, no two loaded rooms have
  names that differ only in case, and every loaded room is well-formed.
\<close>

theorem manager_names_unique:
  assumes "manager_step\<^sup>*\<^sup>* no_rooms m"
  shows "distinct (map (\<lambda>r. to_lower (r_name r)) (rm_rooms m)) \<and> (\<forall>r \<in> set (rm_rooms m). room_wf r)"
  using reachable_wf [OF assms] by (simp add: manager_wf_def list_all_iff)

text \<open>A backend with one room in redis, for the concrete instances.\<close>

definition demo_backend :: "room list \<Rightarrow> backend" where
  "demo_backend saved = \<lparr>bk_world = quiet_world 0, bk_exists = (\<lambda>_. Inr False),
     bk_get = (\<lambda>key. Inr (map_option serializeState (find (\<lambda>r. ''room:'' @ r_name r = key) saved))),
     bk_incr = Inr 1, bk_reset = Inr (), bk_del = (\<lambda>_. Inr ()),
     bk_table = \<lparr>tb_findOne = (\<lambda>_. Inr None), tb_create = (\<lambda>_. Inr ()), tb_update = (\<lambda>_ _. Inr 0), tb_destroy = (\<lambda>_. Inr 0)\<rparr>\<rparr>"

lemma demo_backend_ok: "list_all room_wf saved \<Longrightarrow> backend_ok (demo_backend saved)"
  by (auto simp: backend_ok_def demo_backend_def serializeState_ok list_all_iff find_Some_iff)


lemma demo_loaded:
  "\<exists>r. getRoom (demo_backend [demo_room]) ''a'' False no_rooms = Returns (Inr 0) \<lparr>rm_rooms = [r], rm_log = [Loaded ''a'']\<rparr>
     \<and> r_name r = ''a'' \<and> r_realusers r = [] \<and> room_wf r"
proof -
  have wf: "room_wf demo_room" "r_name demo_room = ''a''"
    by (rule demo_room_wf) (simp add: demo_room_def small_room_def)
  then have "grants_ok (r_grants demo_room)" by (simp add: room_wf_def)
  then obtain g where g: "newGrants (toJSON (r_grants demo_room)) = Inr g" "grants_ok g" using grants_ok_replay by blast
  then obtain opts where opts: "redisStateToState (serializeState demo_room) = Inr opts" "ro_name opts = Some ''a''"
    "ro_grants opts = GrantsObject g"
    using wf(2) by (simp add: redisStateToState_def serializeState_def)
  then obtain r where r: "newRoom (quiet_world 0) opts = Inr r" by (simp add: newRoom_def resolve_grants_def Let_def)
  have "options_wf opts" using redis_options_wf [OF opts(1)] serializeState_ok [OF wf(1)] by blast
  then have "room_wf r" by (rule newRoom_wf [OF r])
  moreover have "r_name r = ''a''" using newRoom_name [OF r] opts(2) by simp
  moreover have "r_realusers r = []"
    using r opts(3) by (auto simp: newRoom_def resolve_grants_def Let_def initial_room_def room_defs split: if_splits)
  ultimately show ?thesis
    using r opts(1) wf(2)
    by (intro exI [of _ "r\<lparr>r_loadEpoch := 1\<rparr>"])
       (simp add: getRoom_def room_index_def no_rooms_def load_room_def stored_options_def demo_backend_def
         addRoom_def Let_def set_room_def log_event_def room_wf_def)
qed

definition session_world :: world where
  "session_world = (quiet_world 0)\<lparr>w_getSessionInfo := \<lambda>_. Inr (Some (LoggedOut ''x''))\<rparr>"

definition join_event :: roomEvent where
  "join_event = EvRequest session_world
     (JoinRequest \<lparr>ci_id = ''c'', ci_username = Some ''x'', ci_user_id = None, ci_status = None\<rparr>)
     \<lparr>ra_token = ''t'', ra_clientId = Some ''c''\<rparr>"

lemma join_event_users: "r_realusers r = [] \<Longrightarrow> length (r_realusers (room_step r join_event)) = 1"
  by (simp add: join_event_def processUnauthorizedRequest_def fill_client_id_def deriveRequestContext_def getUser_def
      session_world_def quiet_world_def processRequest.simps permitted_def Let_def joinRoom_def updateInfo_def
      set_status_def newRoomUser_def publishRoomEvent_def getUserInfo_def emit_def publish_def syncUser_def
      split: sum.split option.split)


lemma demo_reachable:
  "\<exists>m r. manager_step\<^sup>*\<^sup>* no_rooms m \<and> rm_rooms m = [r] \<and> r_name r = ''a'' \<and> r_realusers r \<noteq> []"
proof -
  obtain r where r: "getRoom (demo_backend [demo_room]) ''a'' False no_rooms = Returns (Inr 0) \<lparr>rm_rooms = [r], rm_log = [Loaded ''a'']\<rparr>"
    "r_name r = ''a''" "r_realusers r = []" using demo_loaded by blast
  let ?m = "\<lparr>rm_rooms = [r], rm_log = [Loaded ''a'']\<rparr>"
  have "manager_step no_rooms ?m"
    using manager_step.load [OF demo_backend_ok [of "[demo_room]"], of no_rooms "''a''" False] r(1) demo_room_wf by simp
  moreover have "manager_step ?m (set_room 0 (room_step r join_event) ?m)"
    using manager_step.serve [of 0 ?m join_event] by simp
  ultimately have "manager_step\<^sup>*\<^sup>* no_rooms (set_room 0 (room_step r join_event) ?m)"
    by (rule rtranclp.rtrancl_into_rtrancl [OF r_into_rtranclp])
  moreover have "rm_rooms (set_room 0 (room_step r join_event) ?m) = [room_step r join_event]" by simp
  moreover have "r_name (room_step r join_event) = ''a''" using r(2) by (simp add: room_step_name)
  moreover have "r_realusers (room_step r join_event) \<noteq> []" using join_event_users [OF r(3)] by (metis length_0_conv zero_neq_one)
  ultimately show ?thesis by blast
qed

theorem manager_names_unique_witness:
  "\<exists>m. manager_step\<^sup>*\<^sup>* no_rooms m \<and> length (rm_rooms m) = 1 \<and> room_wf (rm_rooms m ! 0)"
proof -
  obtain m r where m: "manager_step\<^sup>*\<^sup>* no_rooms m" "rm_rooms m = [r]" using demo_reachable by blast
  from manager_names_unique [OF m(1)] m show ?thesis by (intro exI [of _ m]) simp
qed

section \<open>The periodic update keeps the rooms that are in use\<close>

lemma users_settle [simp]: "r_realusers (settle_queue q r) = r_realusers r"
  by (simp add: settle_queue_def room_defs Let_def)

lemma users_on_queue [simp]: "r_realusers (final_state (on_queue f r)) = r_realusers r"
  by (simp add: on_queue.simps split: outcome.split)

lemma users_setters [simp]:
  "r_realusers (clear_skip_votes r) = r_realusers r" "r_realusers (count_seconds w r) = r_realusers r"
  "r_realusers (restart_current w v r) = r_realusers r" "r_realusers (after_dequeue w r) = r_realusers r"
  "r_realusers (clear_segments r) = r_realusers r" "r_realusers (emit e r) = r_realusers r"
  "r_realusers (seekRaw w t r) = r_realusers r" "r_realusers (keep_alive w r) = r_realusers r"
  by (auto simp: clear_skip_votes_def count_seconds_def restart_current_def after_dequeue_def clear_segments_def
      want_segments_def seekRaw_def keep_alive_def room_defs Let_def)

lemma users_seq:
  assumes "r_realusers (final_state c) = us" and "\<And>a s. r_realusers s = us \<Longrightarrow> r_realusers (final_state (k a s)) = us"
  shows "r_realusers (final_state (and_then c k)) = us"
  using assms by (cases c) auto

lemma users_take_next: "r_realusers (final_state (take_next w r)) = r_realusers r"
  unfolding take_next_def
  by (auto intro!: users_seq [where us = "r_realusers r"] simp: Let_def room_defs)

lemma users_dequeueNext: "r_realusers (final_state (dequeueNext w r)) = r_realusers r"
  unfolding dequeueNext_def Let_def
  by (auto intro!: users_seq [where us = "r_realusers r"] simp: users_take_next split: option.split)

lemma users_auto_skip: "r_realusers (auto_skip w r) = r_realusers r"
  by (auto simp: auto_skip_def skip_segment_def resume_skipping_def fetch_if_wanted_def fetchSponsorBlockSegments_def
      publish_def room_defs clear_segments_def split: option.split sum.split)

lemma update_users: "r_realusers (final_state (update w r)) = r_realusers r"
  unfolding update_def advance_def order_by_votes_def Let_def
  by (auto intro!: users_seq [where us = "r_realusers r"] simp: users_dequeueNext users_auto_skip split: option.split)

lemma sync_users: "r_realusers (final_state (sync w r)) = r_realusers r"
  by (auto simp: sync_def sync_with_def sync_begin_def sync_end_def publish_def room_defs Let_def)


definition occupied :: "room list \<Rightarrow> (string \<times> roomUser list) list" where
  "occupied rooms = map (\<lambda>r. (r_name r, r_realusers r)) (filter (\<lambda>r. r_realusers r \<noteq> []) rooms)"

lemma occupied_append: "occupied (xs @ ys) = occupied xs @ occupied ys"
  by (simp add: occupied_def)

lemma occupied_update:
  assumes "i < length xs" and "r_name r = r_name (xs ! i)" and "r_realusers r = r_realusers (xs ! i)"
  shows "occupied (xs[i := r]) = occupied xs"
  using assms by (subst (2) id_take_nth_drop [OF assms(1)]) (simp add: upd_conv_take_nth_drop occupied_def)

lemma occupied_remove:
  assumes "i < length xs" and "r_realusers (xs ! i) = []"
  shows "occupied (remove_at i xs) = occupied xs"
  using assms by (subst (2) id_take_nth_drop [OF assms(1)]) (simp add: remove_at_def occupied_def)

lemma room_index_unique:
  assumes "manager_wf m" and "i < length (rm_rooms m)"
  shows "room_index (r_name (rm_rooms m ! i)) m = Some i"
proof -
  obtain j where j: "room_index (r_name (rm_rooms m ! i)) m = Some j"
    using assms(2) by (cases "room_index (r_name (rm_rooms m ! i)) m")
      (force simp: room_index_def find_index_None_iff same_name_def)+
  with room_index_SomeD [OF j] assms have "j = i"
    by (auto simp: manager_wf_def same_name_def distinct_conv_nth)
  with j show ?thesis by simp
qed

lemma removal_index_self:
  "i < length rooms \<Longrightarrow> removal_index i (r_name (rooms ! i)) rooms = Some i"
  by (simp add: removal_index_def)

lemma onBeforeUnload_users: "r_realusers (final_state (onBeforeUnload w r)) = r_realusers r"
  by (simp add: onBeforeUnload_def Let_def room_defs flush_save_def saveStateToRedis_def)

lemma users_Nil_iff: "users r = [] \<longleftrightarrow> r_realusers r = []"
  by (simp add: users_def)

text \<open>Unloading a room of the array by its name leaves the other rooms alone.\<close>

lemma unloadRoom_own:
  assumes "manager_wf m" and "i < length (rm_rooms m)"
  shows "if reason = Keepalive \<and> users (rm_rooms m ! i) \<noteq> [] then unloadRoom bk (r_name (rm_rooms m ! i)) reason keep m = Returns () m
    else (\<exists>r. r_name r = r_name (rm_rooms m ! i) \<and> r_realusers r = r_realusers (rm_rooms m ! i)
      \<and> rm_rooms (final_state (unloadRoom bk (r_name (rm_rooms m ! i)) reason keep m))
        \<in> {(rm_rooms m)[i := r], remove_at i ((rm_rooms m)[i := r])})"
proof -
  let ?r = "rm_rooms m ! i"
  note idx = room_index_unique [OF assms]
  consider "reason = Keepalive" "users ?r \<noteq> []" | "reason = Commanded"
    | e r where "reason \<noteq> Commanded" "reason = Keepalive \<longrightarrow> users ?r = []" "onBeforeUnload (bk_world bk) ?r = Throws e r"
    | u r where "reason \<noteq> Commanded" "reason = Keepalive \<longrightarrow> users ?r = []" "onBeforeUnload (bk_world bk) ?r = Returns u r"
    by (cases "onBeforeUnload (bk_world bk) ?r") auto
  then show ?thesis
  proof cases
    case 2
    then show ?thesis
      using assms(2) removal_index_self [OF assms(2)]
      by (auto simp: unloadRoom_def unload_begin_def idx unload_finish_rooms intro!: exI [of _ ?r])
  next
    case 3
    then show ?thesis
      using onBeforeUnload_name [of "bk_world bk" ?r] onBeforeUnload_users [of "bk_world bk" ?r]
      by (auto simp: unloadRoom_def unload_begin_def idx intro!: exI [of _ r])
  next
    case 4
    then have "r_name r = r_name ?r" "r_realusers r = r_realusers ?r"
      using onBeforeUnload_name [of "bk_world bk" ?r] onBeforeUnload_users [of "bk_world bk" ?r] by auto
    then show ?thesis
      using 4 assms(2) removal_index_self [of i "(rm_rooms m)[i := r]"]
      by (auto simp: unloadRoom_def unload_begin_def idx unload_finish_rooms intro!: exI [of _ r])
  qed (simp add: unloadRoom_def unload_begin_def idx)
qed

lemma visit_room_occupied:
  assumes "manager_wf m" and "i < length (rm_rooms m)"
  shows "occupied (rm_rooms (visit_room bk i m)) = occupied (rm_rooms m)"
proof -
  let ?t = "final_state (tick_room (bk_world bk) (rm_rooms m ! i))"
  let ?m = "set_room i ?t m"
  have "r_realusers ?t = r_realusers (rm_rooms m ! i)"
    using update_users [of "bk_world bk" "rm_rooms m ! i"] sync_users
    by (cases "update (bk_world bk) (rm_rooms m ! i)") (auto simp: tick_room_def)
  then have t: "occupied (rm_rooms ?m) = occupied (rm_rooms m)"
    using assms(2) tick_room_keeps(1) by (simp add: occupied_update)
  have wf: "manager_wf ?m"
    using assms tick_room_keeps by (intro manager_wf_set_room [OF assms(1)]) (auto simp: manager_wf_def list_all_iff)
  have i: "i < length (rm_rooms ?m)" "rm_rooms ?m ! i = ?t" using assms(2) by simp_all
  show ?thesis
  proof (cases "users ?t = []")
    case False
    with unloadRoom_own [OF wf i(1), of Keepalive bk None] t i show ?thesis
      by (simp add: visit_room_def Let_def)
  next
    case True
    with unloadRoom_own [OF wf i(1), of Keepalive bk None] i
    obtain r where r: "r_name r = r_name ?t" "r_realusers r = []"
      "rm_rooms (final_state (unloadRoom bk (r_name ?t) Keepalive None ?m))
         \<in> {(rm_rooms ?m)[i := r], remove_at i ((rm_rooms ?m)[i := r])}"
      by (auto simp: users_Nil_iff)
    have "r_realusers ?t = []" using True by (simp add: users_Nil_iff)
    then have "occupied ((rm_rooms ?m)[i := r]) = occupied (rm_rooms ?m)"
      "occupied (remove_at i ((rm_rooms ?m)[i := r])) = occupied (rm_rooms ?m)"
      using r(1,2) i occupied_update [OF i(1), of r] occupied_remove [of i "(rm_rooms ?m)[i := r]"] by simp_all
    with r(3) have "occupied (rm_rooms (final_state (unloadRoom bk (r_name ?t) Keepalive None ?m))) = occupied (rm_rooms ?m)"
      by auto
    with t show ?thesis by (simp add: visit_room_def Let_def)
  qed
qed

lemma update_from_occupied:
  "manager_wf m \<Longrightarrow> occupied (rm_rooms (update_from bk i m)) = occupied (rm_rooms m)"
proof (induction bk i m rule: update_from.induct)
  case (1 bk i m)
  then show ?case
    by (cases "i < length (rm_rooms m)")
       (simp_all add: update_from.simps [of bk i m] visit_room_wf visit_room_occupied)
qed

text \<open>
  The periodic update never takes a room away from its users: whichever rooms have gone stale
  and whatever the stores answer, the rooms with connected users are afterwards the same, in the same
  order, with the same users.
\<close>

theorem update_keeps_occupied:
  assumes "manager_step\<^sup>*\<^sup>* no_rooms m"
  shows "map (\<lambda>r. (r_name r, r_realusers r)) (filter (\<lambda>r. r_realusers r \<noteq> []) (rm_rooms (updateRooms bk m)))
    = map (\<lambda>r. (r_name r, r_realusers r)) (filter (\<lambda>r. r_realusers r \<noteq> []) (rm_rooms m))"
  using update_from_occupied [OF reachable_wf [OF assms], of bk 0] by (simp add: updateRooms_def occupied_def)

theorem update_keeps_occupied_witness:
  "\<exists>m. manager_step\<^sup>*\<^sup>* no_rooms m
     \<and> (\<exists>r. r \<in> set (rm_rooms (updateRooms (demo_backend []) m)) \<and> r_name r = ''a'' \<and> r_realusers r \<noteq> [])"
proof -
  obtain m r where m: "manager_step\<^sup>*\<^sup>* no_rooms m" "rm_rooms m = [r]" "r_name r = ''a''" "r_realusers r \<noteq> []"
    using demo_reachable by blast
  from update_keeps_occupied [OF m(1), of "demo_backend []"] m(2-)
  have "(''a'', r_realusers r) \<in> set (map (\<lambda>r. (r_name r, r_realusers r))
      (filter (\<lambda>r. r_realusers r \<noteq> []) (rm_rooms (updateRooms (demo_backend []) m))))" by simp
  with m show ?thesis by (intro exI [of _ m]) auto
qed

section \<open>Creating and finding\<close>

lemma addRoom_Returns:
  assumes "addRoom bk r m = Returns i m'"
  shows "i = length (rm_rooms m) \<and> (\<exists>k. rm_rooms m' = rm_rooms m @ [r\<lparr>r_loadEpoch := k\<rparr>])
    \<and> last (rm_log m') = Loaded (r_name r)"
proof (cases "bk_incr bk")
  case (Inr k)
  then have "rm_rooms m' = rm_rooms m @ [r\<lparr>r_loadEpoch := k\<rparr>]"
    using assms by (auto simp: addRoom_def Let_def split: sum.splits if_splits)
  with assms Inr show ?thesis by (auto simp: addRoom_def Let_def split: sum.splits if_splits)
qed (use assms in \<open>simp add: addRoom_def\<close>)

lemma update_returns: "\<exists>s. update w r = Returns () s \<and> r_name s = r_name r"
proof -
  obtain r1 where r1: "advance w r = Returns () r1" using advance_returns by blast
  obtain r2 where r2: "order_by_votes (keep_alive w r1) = Returns () r2"
    using orderByDesc_sorted [of "votes_for (keep_alive w r1)" "r_queue (keep_alive w r1)"]
    by (cases "r_queueMode (keep_alive w r1) = Vote") (auto simp: order_by_votes_def on_queue.simps)
  have "update w r = Returns () (auto_skip w r2)" by (simp add: update_def r1 r2)
  with update_name [of w r] show ?thesis by simp
qed

lemma sync_returns: "r_name r \<noteq> [] \<Longrightarrow> \<exists>s. sync w r = Returns () s"
  by (simp add: sync_def sync_with_def sync_begin_def Let_def room_defs publish_def)

lemma tick_room_returns: "r_name r \<noteq> [] \<Longrightarrow> \<exists>s. tick_room w r = Returns () s"
  using update_returns [of w r] sync_returns by (auto simp: tick_room_def)

lemma demo_created:
  assumes "room_index ''b'' m = None"
  shows "\<exists>m' r. createRoom (demo_backend []) ''b'' (no_options\<lparr>ro_isTemporary := Some True\<rparr>) m = Returns () m'
    \<and> rm_rooms m' = rm_rooms m @ [r] \<and> r_name r = ''b''"
proof -
  let ?o = "no_options\<lparr>ro_isTemporary := Some True, ro_name := Some ''b''\<rparr>"
  obtain g where "resolve_grants (ro_grants ?o) = Inr g"
    using default_grants_total by (auto simp: no_options_def resolve_grants_def)
  then obtain r where r: "newRoom (quiet_world 0) ?o = Inr r" unfolding newRoom_def Let_def by (simp only: sum.case)
  then have n: "r_name r = ''b''" using newRoom_name [OF r] by simp
  have "r_isTemporary r"
    using r by (auto simp: newRoom_def Let_def no_options_def split: sum.splits if_splits)
  moreover obtain r1 where r1: "tick_room (quiet_world 0) r = Returns () r1" using tick_room_returns n by force
  moreover have "r_name r1 = ''b''" using tick_room_keeps(1) [of "quiet_world 0" r] r1 n by simp
  ultimately show ?thesis
    using r assms by (simp add: createRoom_def name_free_def demo_backend_def isRoomNameTaken_def addRoom_def Let_def)
qed

text \<open>
  A room name is given out once: \<open>createRoom\<close> succeeds only when no loaded room has the name in
  any case, redis has no such key and the database no such row; then exactly one room of that name
  has been added and announced, and from then on creating a room of that name, in any case, fails
  and changes nothing, until a room is unloaded.
\<close>

theorem createRoom_guard:
  assumes "createRoom bk n opts m = Returns u m'"
  shows "(\<forall>r. r \<in> set (rm_rooms m) \<longrightarrow> to_lower (r_name r) \<noteq> to_lower n)
    \<and> bk_exists bk (''room:'' @ n) = Inr False \<and> isRoomNameTaken (bk_table bk) n = Inr False
    \<and> (\<exists>r :: room. rm_rooms m' = rm_rooms m @ [r] \<and> r_name r = n) \<and> last (rm_log m') = Loaded n
    \<and> (to_lower n' = to_lower n \<longrightarrow> createRoom bk' n' opts' m' = Throws (RoomNameTakenException n') m')"
proof -
  have free: "name_free bk n m = Inr ()" using assms by (auto simp: createRoom_def split: sum.splits)
  obtain r r1 a i where r: "newRoom (bk_world bk) (opts\<lparr>ro_name := Some n\<rparr>) = Inr r"
    "tick_room (bk_world bk) r = Returns a r1" "addRoom bk r1 m = Returns i m'"
    using assms by (auto simp: createRoom_def and_then_Returns_iff split: sum.splits outcome.splits)
  have name: "r_name r1 = n" using tick_room_keeps(1) [of "bk_world bk" r] newRoom_name [OF r(1)] r(2) by simp
  obtain k where rooms: "rm_rooms m' = rm_rooms m @ [r1\<lparr>r_loadEpoch := k\<rparr>]" "last (rm_log m') = Loaded n"
    using addRoom_Returns [OF r(3)] name by blast
  have "room_index n' m' \<noteq> None" if "to_lower n' = to_lower n" for n'
    using that rooms name by (auto simp: room_index_def find_index_None_iff same_name_def)
  then have "name_free bk' n' m' = Inl (RoomNameTakenException n')" if "to_lower n' = to_lower n"
    using that by (simp add: name_free_def)
  then have "to_lower n' = to_lower n \<longrightarrow> createRoom bk' n' opts' m' = Throws (RoomNameTakenException n') m'"
    by (simp add: createRoom_def)
  moreover have "\<forall>r. r \<in> set (rm_rooms m) \<longrightarrow> to_lower (r_name r) \<noteq> to_lower n"
    using free by (auto simp: name_free_def room_index_def find_index_None_iff same_name_def split: if_splits)
  moreover have "bk_exists bk (''room:'' @ n) = Inr False" "isRoomNameTaken (bk_table bk) n = Inr False"
    using free by (auto simp: name_free_def split: if_splits sum.splits bool.splits)
  ultimately show ?thesis using rooms name by auto
qed

theorem createRoom_guard_witness:
  "\<exists>m. createRoom (demo_backend []) ''b'' (no_options\<lparr>ro_isTemporary := Some True\<rparr>) no_rooms = Returns () m
     \<and> createRoom (demo_backend []) ''B'' no_options m = Throws (RoomNameTakenException ''B'') m"
proof -
  obtain m where m: "createRoom (demo_backend []) ''b'' (no_options\<lparr>ro_isTemporary := Some True\<rparr>) no_rooms = Returns () m"
    using demo_created [of no_rooms] by (auto simp: room_index_def no_rooms_def)
  have "to_lower ''B'' = to_lower ''b''" by code_simp
  with createRoom_guard [OF m, of "''B''" "demo_backend []" no_options] m show ?thesis by blast
qed

text \<open>
  Finding a room loads it at most once: if \<open>getRoom\<close> gives a room, its name is the requested
  one up to case, the rooms that were loaded before are untouched, and asking again for that name, in
  any case, gives the same room without asking redis or the database.
\<close>

theorem getRoom_loads_once:
  assumes "manager_step\<^sup>*\<^sup>* no_rooms m" and "backend_ok bk" and "getRoom bk n must m = Returns (Inr i) m'"
  shows "i < length (rm_rooms m') \<and> to_lower (r_name (rm_rooms m' ! i)) = to_lower n
    \<and> take (length (rm_rooms m)) (rm_rooms m') = rm_rooms m \<and> length (rm_rooms m') \<le> Suc (length (rm_rooms m))
    \<and> (to_lower n' = to_lower n \<longrightarrow> getRoom bk' n' must' m' = Returns (Inr i) m')"
proof -
  have wf: "manager_wf m'" using getRoom_wf [OF reachable_wf [OF assms(1)] assms(2), of n must] assms(3) by simp
  have found: "i < length (rm_rooms m') \<and> to_lower (r_name (rm_rooms m' ! i)) = to_lower n
    \<and> take (length (rm_rooms m)) (rm_rooms m') = rm_rooms m \<and> length (rm_rooms m') \<le> Suc (length (rm_rooms m))"
  proof (cases "room_index n m")
    case (Some j)
    with assms(3) room_index_SomeD [OF Some] show ?thesis by (simp add: getRoom_def same_name_def)
  next
    case None
    then obtain opts r where r: "stored_options bk n = Inr (Some opts)" "newRoom (bk_world bk) opts = Inr r"
      "addRoom bk r m = Returns i m'"
      using assms(3) by (auto simp: getRoom_def load_room_def and_then_Returns_iff split: if_splits sum.splits option.splits)
    have "to_lower (r_name r) = to_lower n"
      using stored_options_wf [OF assms(2) r(1)] newRoom_name [OF r(2)] by auto
    moreover obtain k where "i = length (rm_rooms m)" "rm_rooms m' = rm_rooms m @ [r\<lparr>r_loadEpoch := k\<rparr>]"
      using addRoom_Returns [OF r(3)] by blast
    ultimately show ?thesis by simp
  qed
  have "room_index n' m' = Some i" if "to_lower n' = to_lower n"
  proof -
    have "room_index (r_name (rm_rooms m' ! i)) m' = Some i" using room_index_unique [OF wf] found by blast
    moreover have "same_name n' = same_name (r_name (rm_rooms m' ! i))"
      using that found by (auto simp: same_name_def fun_eq_iff)
    ultimately show ?thesis by (simp add: room_index_def)
  qed
  with found show ?thesis by (auto simp: getRoom_def)
qed

theorem getRoom_loads_once_witness:
  "\<exists>m. getRoom (demo_backend [demo_room]) ''a'' False no_rooms = Returns (Inr 0) m
     \<and> getRoom (demo_backend []) ''A'' True m = Returns (Inr 0) m"
proof -
  obtain m where m: "getRoom (demo_backend [demo_room]) ''a'' False no_rooms = Returns (Inr 0) m" using demo_loaded by blast
  have ok: "backend_ok (demo_backend [demo_room])" by (rule demo_backend_ok) (simp add: demo_room_wf)
  have "to_lower ''A'' = to_lower ''a''" by code_simp
  with getRoom_loads_once [OF rtranclp.rtrancl_refl ok m, of "''A''" "demo_backend []" True] m show ?thesis by blast
qed

end
