(* ===== verification/ManagerRaces.thy ===== *)
theory ManagerRaces
  imports ManagerProperties
begin

text \<open>
  What happens in the room manager when calls overlap: unloading every room at once, loading a room
  twice, and unloading a room twice. Each is a sequence of the parts between awaits that
  \<open>RoomManager\<close> defines.
\<close>

section \<open>Shutting down\<close>

lemma onBeforeUnload_returns: "r_name r \<noteq> [] \<Longrightarrow> \<exists>s. onBeforeUnload w r = Returns () s"
  by (simp add: onBeforeUnload_def Let_def)

lemma unload_begin_own:
  assumes "manager_wf m" and "i < length (rm_rooms m)" and "r_name (rm_rooms m ! i) \<noteq> []"
    and "reason \<in> {Shutdown, Admin}"
  shows "\<exists>m1. unload_begin bk (r_name (rm_rooms m ! i)) reason m = Returns (Some (i, r_name (rm_rooms m ! i))) m1
    \<and> map r_name (rm_rooms m1) = map r_name (rm_rooms m) \<and> manager_wf m1"
proof -
  let ?r = "rm_rooms m ! i"
  obtain s where s: "onBeforeUnload (bk_world bk) ?r = Returns () s" using onBeforeUnload_returns assms(3) by blast
  have n: "r_name s = r_name ?r" using onBeforeUnload_name [of "bk_world bk" ?r] s by simp
  have "unload_begin bk (r_name ?r) reason m = Returns (Some (i, r_name ?r)) (set_room i s m)"
    using assms(4) s n by (auto simp: unload_begin_def room_index_unique [OF assms(1,2)])
  moreover have "manager_wf (set_room i s m)"
    using unload_begin_wf [OF assms(1), of bk "r_name ?r" reason] calculation by simp
  ultimately show ?thesis
    using n assms(2) by (simp add: map_update list_update_same_conv)
qed

lemma begin_all_pending:
  assumes "manager_wf m" and "list_all (\<lambda>r. r_name r \<noteq> []) (rm_rooms m)" and "reason \<in> {Shutdown, Admin}"
  shows "\<exists>m1. begin_all bk reason m = (map (\<lambda>i. (i, r_name (rm_rooms m ! i))) [0..<length (rm_rooms m)], m1)
    \<and> map r_name (rm_rooms m1) = map r_name (rm_rooms m) \<and> manager_wf m1"
proof -
  let ?names = "map r_name (rm_rooms m)" and ?N = "length (rm_rooms m)"
  let ?f = "\<lambda>n (pending, m). case unload_begin bk n reason m of
      Returns (Some p) m1 \<Rightarrow> (pending @ [p], m1) | Returns None m1 \<Rightarrow> (pending, m1) | Throws e m1 \<Rightarrow> (pending, m1)"
  have "k \<le> ?N \<Longrightarrow> \<exists>m1. fold ?f (take k ?names) ([], m) = (map (\<lambda>i. (i, ?names ! i)) [0..<k], m1)
      \<and> map r_name (rm_rooms m1) = ?names \<and> manager_wf m1" for k
  proof (induction k)
    case 0
    with assms(1) show ?case by simp
  next
    case (Suc k)
    then obtain m1 where m1: "fold ?f (take k ?names) ([], m) = (map (\<lambda>i. (i, ?names ! i)) [0..<k], m1)"
      "map r_name (rm_rooms m1) = ?names" "manager_wf m1" by auto
    have len: "k < length (rm_rooms m1)" using m1(2) Suc.prems by (metis Suc_le_lessD length_map)
    have name: "r_name (rm_rooms m1 ! k) = ?names ! k" using m1(2) len by (metis nth_map)
    then have ne: "r_name (rm_rooms m1 ! k) \<noteq> []" using assms(2) Suc.prems by (simp add: list_all_length)
    from unload_begin_own [OF m1(3) len ne assms(3), of bk] m1(1,2) name Suc.prems show ?case
      by (auto simp: take_Suc_conv_app_nth)
  qed
  moreover have "map (\<lambda>i. (i, ?names ! i)) [0..<?N] = map (\<lambda>i. (i, r_name (rm_rooms m ! i))) [0..<?N]" by simp
  ultimately show ?thesis by (metis (no_types, lifting) begin_all_def length_map order_refl take_all_iff)
qed

text \<open>
  Finishing in order: the rooms go from the front, one each time, until the remembered indices are
  past the end of the array.
\<close>

lemma removal_from_front:
  assumes "distinct (map r_name R)" and "2 * i < length R"
  shows "removal_index i (r_name (R ! i)) (drop i R) = Some 0"
proof -
  have "find_index (\<lambda>r. r_name r = r_name (R ! i)) (drop i R) = Some 0"
    using assms(2) by (simp add: Cons_nth_drop_Suc [symmetric])
  moreover have "i = 0" if "r_name (drop i R ! i) = r_name (R ! i)"
  proof -
    have "r_name (R ! (i + i)) = r_name (R ! i)" using that assms(2) by simp
    then show ?thesis using assms nth_eq_iff_index_eq [OF assms(1), of "i + i" i] by simp
  qed
  ultimately show ?thesis using assms(2) by (auto simp: removal_index_def)
qed

lemma removal_past_end: "length rooms \<le> i \<Longrightarrow> removal_index i n rooms = None"
  by (simp add: removal_index_def)

lemma finish_all_half:
  assumes "distinct (map r_name (R :: room list))" and "rm_rooms m = R"
  shows "rm_rooms (finish_all bk reason True (map (\<lambda>i. (i, r_name (R ! i))) [0..<length R]) m)
    = drop ((length R + 1) div 2) R"
proof -
  let ?N = "length R" and ?c = "(length R + 1) div 2"
  have "rm_rooms m' = drop (min k ?c) R \<Longrightarrow> k \<le> ?N \<Longrightarrow>
      rm_rooms (finish_all bk reason True (map (\<lambda>i. (i, r_name (R ! i))) [k..<?N]) m') = drop ?c R" for k m'
  proof (induction "?N - k" arbitrary: k m')
    case 0
    then have "k = ?N" "?c \<le> ?N" by linarith+
    with 0 show ?case by (simp add: finish_all_def min_def split: if_splits)
  next
    case (Suc d)
    then have k: "k < ?N" by linarith
    let ?m = "final_state (unload_finish bk k (r_name (R ! k)) reason True m')"
    have "rm_rooms ?m = drop (min (Suc k) ?c) R"
    proof (cases "k < ?c")
      case True
      then have "2 * k < ?N" by linarith
      with True have "removal_index k (r_name (R ! k)) (drop (min k ?c) R) = Some 0"
        using removal_from_front [OF assms(1)] by (simp add: min_def)
      with True Suc.prems(1) show ?thesis
        by (simp add: unload_finish_rooms min_def remove_at_def drop_Suc tl_drop)
    next
      case False
      then have "removal_index k (r_name (R ! k)) (drop (min k ?c) R) = None"
        by (intro removal_past_end) (simp add: min_def, linarith)
      with False Suc.prems(1) show ?thesis by (simp add: unload_finish_rooms min_def)
    qed
    moreover have "[k..<?N] = k # [Suc k..<?N]" using k by (simp add: upt_conv_Cons)
    ultimately show ?case using Suc.hyps(1) [of "Suc k" ?m] Suc.hyps(2) k by (simp add: finish_all_def)
  qed
  from this [of m 0] assms(2) show ?thesis by simp
qed

text \<open>
  Shutting down unloads only half of the rooms. All calls remember their index before the first
  room is removed, and the check that the index may have moved reads \<open>rooms[idx].name\<close> past the end
  of the array: of \<open>n\<close> rooms the last \<open>n div 2\<close> stay loaded and are never announced as unloaded.
\<close>

theorem shutdown_unloads_half:
  assumes "manager_step\<^sup>*\<^sup>* no_rooms m" and "\<forall>r \<in> set (rm_rooms m). r_name r \<noteq> []"
  shows "map r_name (rm_rooms (shutdown bk m)) = map r_name (drop ((length (rm_rooms m) + 1) div 2) (rm_rooms m))"
proof -
  have ne: "list_all (\<lambda>r. r_name r \<noteq> []) (rm_rooms m)" using assms(2) by (simp add: list_all_iff)
  obtain m1 where m1: "begin_all bk Shutdown m = (map (\<lambda>i. (i, r_name (rm_rooms m ! i))) [0..<length (rm_rooms m)], m1)"
    "map r_name (rm_rooms m1) = map r_name (rm_rooms m)" "manager_wf m1"
    using begin_all_pending [OF reachable_wf [OF assms(1)] ne, of Shutdown bk] by auto
  have len: "length (rm_rooms m1) = length (rm_rooms m)" using m1(2) by (metis length_map)
  have names: "r_name (rm_rooms m ! i) = r_name (rm_rooms m1 ! i)" if "i < length (rm_rooms m)" for i
    using m1(2) len that by (metis nth_map)
  have "distinct (map to_lower (map r_name (rm_rooms m1)))" using m1(3) by (simp add: manager_wf_def comp_def)
  then have "distinct (map r_name (rm_rooms m1))" using distinct_map by blast
  from finish_all_half [OF this refl, of bk Shutdown] have
    "rm_rooms (finish_all bk Shutdown True (map (\<lambda>i. (i, r_name (rm_rooms m1 ! i))) [0..<length (rm_rooms m)]) m1)
       = drop ((length (rm_rooms m) + 1) div 2) (rm_rooms m1)" by (simp add: len)
  moreover have "map (\<lambda>i. (i, r_name (rm_rooms m1 ! i))) [0..<length (rm_rooms m)]
      = map (\<lambda>i. (i, r_name (rm_rooms m ! i))) [0..<length (rm_rooms m)]"
    using names by simp
  ultimately have "rm_rooms (shutdown bk m) = drop ((length (rm_rooms m) + 1) div 2) (rm_rooms m1)"
    by (simp add: shutdown_def m1(1))
  then show ?thesis using m1(2) by (simp add: drop_map [symmetric])
qed

lemma demo_two_rooms:
  "\<exists>m. manager_step\<^sup>*\<^sup>* no_rooms m \<and> map r_name (rm_rooms m) = [''a'', ''b'']"
proof -
  obtain m r where m: "manager_step\<^sup>*\<^sup>* no_rooms m" "rm_rooms m = [r]" "r_name r = ''a''" "r_realusers r \<noteq> []"
    using demo_reachable by blast
  have "to_lower ''a'' \<noteq> to_lower ''b''" by code_simp
  then have "room_index ''b'' m = None" using m(2,3) by (simp add: room_index_def same_name_def)
  from demo_created [OF this] obtain m' r' where m': "createRoom (demo_backend []) ''b'' (no_options\<lparr>ro_isTemporary := Some True\<rparr>) m = Returns () m'"
    "rm_rooms m' = rm_rooms m @ [r']" "r_name r' = ''b''" by blast
  have "options_wf (no_options\<lparr>ro_isTemporary := Some True\<rparr>)" using no_options_wf by (simp add: options_wf_def)
  from manager_step.create [OF this, of m "demo_backend []" "''b''"] m'(1) have "manager_step m m'" by simp
  with m(1) have "manager_step\<^sup>*\<^sup>* no_rooms m'" by (rule rtranclp.rtrancl_into_rtrancl)
  with m m' show ?thesis by auto
qed

theorem shutdown_unloads_half_witness:
  "\<exists>m. map r_name (rm_rooms m) = [''a'', ''b''] \<and> map r_name (rm_rooms (shutdown (demo_backend []) m)) = [''b'']"
proof -
  obtain m where m: "manager_step\<^sup>*\<^sup>* no_rooms m" "map r_name (rm_rooms m) = [''a'', ''b'']"
    using demo_two_rooms by auto
  have "list_all (\<lambda>n. n \<noteq> []) (map r_name (rm_rooms m))" by (simp add: m(2))
  then have "\<forall>r \<in> set (rm_rooms m). r_name r \<noteq> []" by (simp add: list_all_iff)
  from shutdown_unloads_half [OF m(1) this, of "demo_backend []"] have
    "map r_name (rm_rooms (shutdown (demo_backend []) m)) = drop ((length (map r_name (rm_rooms m)) + 1) div 2) (map r_name (rm_rooms m))"
    by (simp add: drop_map)
  with m(2) show ?thesis by (intro exI [of _ m]) simp
qed

section \<open>Overlapping calls\<close>

text \<open>
  Two overlapping calls of \<open>getRoom\<close> load a room twice: when both have searched the loaded rooms
  before either has heard from redis, the second leaves two rooms whose names are equal up to case.
  Searching finds the first from then on, and so does unloading the second when it goes stale.
\<close>

theorem overlapping_loads_duplicate:
  assumes "backend_ok bk" and "room_index n m = None"
    and "load_room bk n m = Returns (Inr i) m1" and "load_room bk n m1 = Returns (Inr j) m2"
  shows "j = Suc i \<and> j < length (rm_rooms m2) \<and> to_lower (r_name (rm_rooms m2 ! i)) = to_lower n
    \<and> to_lower (r_name (rm_rooms m2 ! j)) = to_lower n \<and> room_index (r_name (rm_rooms m2 ! j)) m2 = Some i"
proof -
  have load: "\<exists>r. i = length (rm_rooms m) \<and> rm_rooms m' = rm_rooms m @ [r] \<and> to_lower (r_name r) = to_lower n"
    if load: "load_room bk n m = Returns (Inr i) m'" for m m' i
  proof -
    obtain opts r where r: "stored_options bk n = Inr (Some opts)" "newRoom (bk_world bk) opts = Inr r" "addRoom bk r m = Returns i m'"
      using load by (auto simp: load_room_def and_then_Returns_iff split: sum.splits option.splits)
    have "to_lower (r_name r) = to_lower n" using stored_options_wf [OF assms(1) r(1)] newRoom_name [OF r(2)] by auto
    with addRoom_Returns [OF r(3)] show ?thesis by auto
  qed
  obtain r1 r2 where r: "i = length (rm_rooms m)" "rm_rooms m1 = rm_rooms m @ [r1]" "to_lower (r_name r1) = to_lower n"
    "j = length (rm_rooms m1)" "rm_rooms m2 = rm_rooms m1 @ [r2]" "to_lower (r_name r2) = to_lower n"
    using load [OF assms(3)] load [OF assms(4)] by blast
  have "find_index (same_name (r_name r2)) (rm_rooms m) = None"
    using assms(2) r(6) by (simp add: room_index_def find_index_None_iff same_name_def)
  with r show ?thesis by (simp add: room_index_def nth_append find_index_append same_name_def)
qed

theorem overlapping_loads_duplicate_witness:
  "\<exists>m1 m2. load_room (demo_backend [demo_room]) ''a'' no_rooms = Returns (Inr 0) m1
     \<and> load_room (demo_backend [demo_room]) ''a'' m1 = Returns (Inr 1) m2
     \<and> to_lower (r_name (rm_rooms m2 ! 0)) = to_lower (r_name (rm_rooms m2 ! 1))"
proof -
  let ?bk = "demo_backend [demo_room]"
  have none: "room_index ''a'' no_rooms = None" by (simp add: room_index_def no_rooms_def)
  obtain m1 where m1: "load_room ?bk ''a'' no_rooms = Returns (Inr 0) m1"
    using demo_loaded none by (auto simp: getRoom_def)
  then obtain opts r where r: "stored_options ?bk ''a'' = Inr (Some opts)" "newRoom (bk_world ?bk) opts = Inr r"
    by (auto simp: load_room_def and_then_Returns_iff split: sum.splits option.splits)
  have "length (rm_rooms m1) = 1"
    using m1 r addRoom_Returns [of ?bk r no_rooms 0 m1] by (auto simp: load_room_def and_then_Returns_iff no_rooms_def)
  then obtain m2 where m2: "load_room ?bk ''a'' m1 = Returns (Inr 1) m2"
    using r by (simp add: load_room_def addRoom_def demo_backend_def Let_def)
  have "backend_ok ?bk" by (rule demo_backend_ok) (simp add: demo_room_wf)
  from overlapping_loads_duplicate [OF this none m1 m2] m1 m2 show ?thesis by auto
qed

text \<open>
  Two overlapping calls that unload the same room take another one with it: the second finds
  neither the room at its index nor anywhere else, and \<open>splice(-1, 1)\<close> removes the last room of the
  array, without a word to the clients of that room.
\<close>

theorem overlapping_unloads_remove_another:
  assumes "manager_step\<^sup>*\<^sup>* no_rooms m" and "Suc i < length (rm_rooms m)"
    and "unload_finish bk i (r_name (rm_rooms m ! i)) reason True m = Returns () m1"
  shows "unload_finish bk i (r_name (rm_rooms m ! i)) reason True m1
      = Returns () (log_event (Unloaded (r_name (rm_rooms m ! i)) reason) (m1\<lparr>rm_rooms := butlast (rm_rooms m1)\<rparr>))
    \<and> last (rm_rooms m1) = last (rm_rooms m) \<and> to_lower (r_name (last (rm_rooms m))) \<noteq> to_lower (r_name (rm_rooms m ! i))"
proof -
  let ?n = "r_name (rm_rooms m ! i)"
  have wf: "manager_wf m" by (rule reachable_wf [OF assms(1)])
  have i: "i < length (rm_rooms m)" using assms(2) by simp
  have m1: "rm_rooms m1 = remove_at i (rm_rooms m)"
    using unload_finish_rooms [of bk i ?n reason True m] assms(3) removal_index_self [OF i] by simp
  have len: "length (rm_rooms m1) = length (rm_rooms m) - 1" using i by (simp add: m1)
  have other: "to_lower (r_name (rm_rooms m ! j)) \<noteq> to_lower ?n" if "j < length (rm_rooms m)" "j \<noteq> i" for j
    using wf that i by (auto simp: manager_wf_def distinct_conv_nth)
  have absent: "r_name r \<noteq> ?n" if "r \<in> set (rm_rooms m1)" for r
  proof -
    have "r \<in> set (take i (rm_rooms m)) \<or> r \<in> set (drop (Suc i) (rm_rooms m))" using that by (auto simp: m1 remove_at_def)
    then show ?thesis
    proof
      assume "r \<in> set (take i (rm_rooms m))"
      then obtain k where "k < i" "r = rm_rooms m ! k" using i by (auto simp: in_set_conv_nth)
      with other [of k] i show ?thesis by auto
    next
      assume "r \<in> set (drop (Suc i) (rm_rooms m))"
      then obtain k where "k < length (rm_rooms m) - Suc i" "r = rm_rooms m ! (Suc i + k)" by (auto simp: in_set_conv_nth)
      then have "Suc i + k < length (rm_rooms m)" by linarith
      with other [of "Suc i + k"] \<open>r = rm_rooms m ! (Suc i + k)\<close> show ?thesis by auto
    qed
  qed
  have "find_index (\<lambda>r. r_name r = ?n) (rm_rooms m1) = None" using absent by (simp add: find_index_None_iff)
  then have "removal_index i ?n (rm_rooms m1) = Some (length (rm_rooms m1) - 1)"
    using absent assms(2) len by (simp add: removal_index_def)
  moreover have "remove_at (length xs - 1) xs = butlast xs" for xs :: "room list"
    by (cases xs rule: rev_cases) (simp_all add: remove_at_def butlast_conv_take)
  ultimately have "unload_finish bk i ?n reason True m1
      = Returns () (log_event (Unloaded ?n reason) (m1\<lparr>rm_rooms := butlast (rm_rooms m1)\<rparr>))"
    by (simp add: unload_finish_def)
  moreover have "last (rm_rooms m1) = last (rm_rooms m)"
    using assms(2) by (simp add: m1 remove_at_def last_append last_drop)
  moreover have "to_lower (r_name (last (rm_rooms m))) \<noteq> to_lower ?n"
  proof -
    have "rm_rooms m \<noteq> []" "length (rm_rooms m) - 1 < length (rm_rooms m)" "length (rm_rooms m) - 1 \<noteq> i"
      using assms(2) by auto
    with other show ?thesis by (metis last_conv_nth)
  qed
  ultimately show ?thesis by blast
qed

theorem overlapping_unloads_remove_another_witness:
  "\<exists>m m1. map r_name (rm_rooms m) = [''a'', ''b''] \<and> unload_finish (demo_backend []) 0 ''a'' Admin True m = Returns () m1
     \<and> rm_rooms (final_state (unload_finish (demo_backend []) 0 ''a'' Admin True m1)) = []"
proof -
  obtain m where m: "manager_step\<^sup>*\<^sup>* no_rooms m" "map r_name (rm_rooms m) = [''a'', ''b'']"
    using demo_two_rooms by auto
  then obtain r s where rs: "rm_rooms m = [r, s]" "r_name r = ''a''" by auto
  let ?m1 = "log_event (Unloaded ''a'' Admin) (m\<lparr>rm_rooms := [s]\<rparr>)"
  have "unload_finish (demo_backend []) 0 (r_name (rm_rooms m ! 0)) Admin True m = Returns () ?m1"
    using rs by (simp add: unload_finish_def removal_index_def remove_at_def)
  from overlapping_unloads_remove_another [OF m(1) _ this] rs m(2) this show ?thesis
    by (intro exI [of _ m] exI [of _ ?m1]) simp
qed

end
