(* ===== verification/Clients.thy ===== *)
theory Clients
  imports RoomManager
begin

text \<open>
  \<open>server/client.ts\<close> and the connections of \<open>server/balancer.ts\<close>: the clients connected to this node,
  directly by a websocket or through a load balancer, and what is sent to either. Clients and balancer
  connections are objects that several arrays share, so they live in stores and the arrays hold their
  addresses. What is written to a socket is logged in order. The state has room for the whole server,
  the room manager of \<open>RoomManager\<close> included, since the two call each other.
\<close>

section \<open>Messages between a balancer and the node\<close>

text \<open>\<open>MsgM2B\<close> and \<open>MsgB2M\<close> of \<open>server/generated.ts\<close>.\<close>

record roomMetadata =
  md_name :: string
  md_title :: string
  md_description :: string
  md_isTemporary :: bool
  md_visibility :: visibility
  md_queueMode :: queueMode
  md_currentSource :: "queueItem option"
  md_users :: nat

record gossipRoom =
  gr_room :: roomMetadata
  gr_load_epoch :: int

datatype msgM2B =
    M2BInit
  | M2BLoaded roomMetadata int
  | M2BUnloaded string unloadReason
  | M2BGossip "gossipRoom list"
  | M2BRoomMsg string "clientId option" serverMessage
  | M2BKick clientId int

datatype msgB2M =
    B2MLoad string
  | B2MUnload string
  | B2MJoin string clientId authToken
  | B2MLeave clientId
  | B2MClientMsg clientId clientMessage
  | B2MInit string

section \<open>State\<close>

datatype clientJoinStatus = WaitingForAuth | Joined

text \<open>\<open>DirectClient\<close>, or \<open>BalancerClient\<close> with the address of its connection.\<close>

datatype clientKind = Direct | Balanced nat

record clientObj =
  cl_id :: clientId
  cl_room :: string
  cl_token :: "authToken option"
  cl_session :: "sessionInfo option"
  cl_joinStatus :: clientJoinStatus
  cl_kind :: clientKind

definition newClient :: "clientId \<Rightarrow> string \<Rightarrow> clientKind \<Rightarrow> clientObj" where
  "newClient i n k = \<lparr>cl_id = i, cl_room = n, cl_token = None, cl_session = None,
     cl_joinStatus = WaitingForAuth, cl_kind = k\<rparr>"

datatype wire =
    ToSocket nat serverMessage
  | CloseSocket nat int
  | ToBalancer nat msgM2B
  | CloseBalancer nat int

text \<open>
  Where an asynchronous call waits for redis or the database: \<open>Client.auth\<close> for the session,
  \<open>onClientAuth\<close> and a balancer's \<open>load\<close> for the stored room.
\<close>

datatype waiting =
    AwaitSession nat authToken
  | AwaitRoom nat string
  | AwaitLoad string

text \<open>
  \<open>sv_clients\<close> and \<open>sv_conn_ids\<close> are the stores of client and connection objects, \<open>sv_next\<close> the
  address of the next client. \<open>sv_leaving\<close> holds
  the clients whose \<open>onClientDisconnect\<close> has reached its first await; the event loop continues them as
  soon as the running call returns.
\<close>

record server =
  sv_manager :: roomManager
  sv_clients :: "nat \<Rightarrow> clientObj"
  sv_next :: nat
  sv_connections :: "nat list"
  sv_roomJoins :: "(string, nat list) js_map"
  sv_conn_ids :: "nat \<Rightarrow> string"
  sv_balancers :: "nat list"
  sv_waiting :: "waiting list"
  sv_leaving :: "nat list"
  sv_wire :: "wire list"

type_synonym 'a server_call = "(exn, 'a, server) outcome"

definition set_manager :: "roomManager \<Rightarrow> server \<Rightarrow> server" where
  "set_manager m s = s\<lparr>sv_manager := m\<rparr>"

definition set_client :: "nat \<Rightarrow> clientObj \<Rightarrow> server \<Rightarrow> server" where
  "set_client h c s = s\<lparr>sv_clients := (sv_clients s)(h := c)\<rparr>"

definition transmit :: "wire \<Rightarrow> server \<Rightarrow> server" where
  "transmit x s = s\<lparr>sv_wire := sv_wire s @ [x]\<rparr>"

definition await :: "waiting \<Rightarrow> server \<Rightarrow> server" where
  "await x s = s\<lparr>sv_waiting := sv_waiting s @ [x]\<rparr>"

definition set_joins :: "string \<Rightarrow> nat list \<Rightarrow> server \<Rightarrow> server" where
  "set_joins n hs s = s\<lparr>sv_roomJoins := AList.update n hs (sv_roomJoins s)\<rparr>"

lemmas server_defs = set_manager_def set_client_def transmit_def await_def set_joins_def

section \<open>Client\<close>

definition getClientInfo :: "clientObj \<Rightarrow> clientInfo" where
  "getClientInfo c = (case cl_session c of
      None \<Rightarrow> \<lparr>ci_id = cl_id c, ci_username = None, ci_user_id = None, ci_status = None\<rparr>
    | Some (LoggedIn uid) \<Rightarrow> \<lparr>ci_id = cl_id c, ci_username = None, ci_user_id = Some uid, ci_status = None\<rparr>
    | Some (LoggedOut n) \<Rightarrow> \<lparr>ci_id = cl_id c, ci_username = Some n, ci_user_id = None, ci_status = None\<rparr>)"

text \<open>A message to one client; through a balancer it is wrapped with the room and the client's id.\<close>

definition send :: "nat \<Rightarrow> serverMessage \<Rightarrow> server \<Rightarrow> server" where
  "send h msg s = (let c = sv_clients s h in case cl_kind c of
      Direct \<Rightarrow> transmit (ToSocket h msg) s
    | Balanced conn \<Rightarrow> transmit (ToBalancer conn (M2BRoomMsg (cl_room c) (Some (cl_id c)) msg)) s)"

definition sendRaw :: "nat \<Rightarrow> serverMessage \<Rightarrow> server \<Rightarrow> unit server_call" where
  "sendRaw h msg s = (case cl_kind (sv_clients s h) of
      Direct \<Rightarrow> Returns () (transmit (ToSocket h msg) s)
    | Balanced conn \<Rightarrow> Throws (JsError ''Not implemented'') s)"

text \<open>
  The first part of \<open>onClientDisconnect\<close>, which \<open>leave\<close> and a closing socket run at once: the client
  leaves the two arrays, and if it had joined, its request to leave the room is next.
\<close>

definition disconnect_client :: "nat \<Rightarrow> server \<Rightarrow> server" where
  "disconnect_client h s =
    (let c = sv_clients s h;
         s1 = (if h \<in> set (sv_connections s)
               then (let s0 = s\<lparr>sv_connections := remove1 h (sv_connections s)\<rparr>
                     in case map_of (sv_roomJoins s0) (cl_room c) of
                          None \<Rightarrow> s0
                        | Some hs \<Rightarrow> set_joins (cl_room c) (remove1 h hs) s0)
               else s)
     in if cl_joinStatus c \<noteq> Joined then s1 else s1\<lparr>sv_leaving := sv_leaving s1 @ [h]\<rparr>)"

text \<open>
  A direct client's socket is closed and reports that later; a balancer client leaves at once.
\<close>

definition kick :: "int \<Rightarrow> nat \<Rightarrow> server \<Rightarrow> server" where
  "kick code h s = (let c = sv_clients s h in case cl_kind c of
      Direct \<Rightarrow> transmit (CloseSocket h code) s
    | Balanced conn \<Rightarrow> disconnect_client h (transmit (ToBalancer conn (M2BKick (cl_id c) code)) s))"

text \<open>\<open>auth\<close> up to the session store, and after its answer (\<open>true\<close>: the event \<open>auth\<close> is emitted).\<close>

definition auth :: "authToken \<Rightarrow> nat \<Rightarrow> server \<Rightarrow> server" where
  "auth token h s =
    (if token = [] then kick (ws_code MISSING_TOKEN) h s
     else await (AwaitSession h token) (set_client h ((sv_clients s h)\<lparr>cl_token := Some token\<rparr>) s))"

definition auth_session :: "world \<Rightarrow> authToken \<Rightarrow> nat \<Rightarrow> server \<Rightarrow> bool \<times> server" where
  "auth_session w token h s = (case w_getSessionInfo w token of
      Inl e \<Rightarrow> (False, kick (ws_code MISSING_TOKEN) h s)
    | Inr session \<Rightarrow>
        (True, set_client h ((sv_clients s h)\<lparr>cl_session := session, cl_joinStatus := Joined\<rparr>) s))"

section \<open>Balancer connections\<close>

definition getConnection :: "string \<Rightarrow> server \<Rightarrow> nat option" where
  "getConnection i s = find (\<lambda>conn. sv_conn_ids s conn = i) (sv_balancers s)"

definition broadcastToBalancers :: "msgM2B \<Rightarrow> server \<Rightarrow> server" where
  "broadcastToBalancers msg s = fold (\<lambda>conn. transmit (ToBalancer conn msg)) (sv_balancers s) s"

definition room_metadata :: "room \<Rightarrow> roomMetadata" where
  "room_metadata r = \<lparr>md_name = r_name r, md_title = r_title r, md_description = r_description r,
     md_isTemporary = r_isTemporary r, md_visibility = r_visibility r, md_queueMode = r_queueMode r,
     md_currentSource = r_currentSource r, md_users = length (users r)\<rparr>"

definition buildGossipMessage :: "server \<Rightarrow> msgM2B" where
  "buildGossipMessage s = M2BGossip
    (map (\<lambda>r. \<lparr>gr_room = room_metadata r, gr_load_epoch = r_loadEpoch r\<rparr>) (rm_rooms (sv_manager s)))"

text \<open>\<open>onRoomLoad\<close> looks the room up again by its name. The debounced gossip is an event of its own.\<close>

definition balancer_onRoomLoad :: "string \<Rightarrow> server \<Rightarrow> server" where
  "balancer_onRoomLoad n s = (case room_index n (sv_manager s) of
      None \<Rightarrow> s
    | Some i \<Rightarrow> (let r = rm_rooms (sv_manager s) ! i
        in broadcastToBalancers (M2BLoaded (room_metadata r) (r_loadEpoch r)) s))"

definition balancer_onRoomUnload :: "string \<Rightarrow> unloadReason \<Rightarrow> server \<Rightarrow> server" where
  "balancer_onRoomUnload n reason s = broadcastToBalancers (M2BUnloaded n reason) s"

definition gossip :: "server \<Rightarrow> server" where
  "gossip s = broadcastToBalancers (buildGossipMessage s) s"

end
