(* ===== verification/ClientManager.thy ===== *)
theory ClientManager
  imports Clients
begin

text \<open>
  \<open>server/clientmanager.ts\<close> and the events of \<open>server/balancer.ts\<close>: who is connected, which room a
  client is in, the way of a request from a socket to a room, and of a room's messages back. An
  \<open>async\<close> function is cut where it waits for redis or the database; the code between two such points
  runs without interruption. What a room or the room manager emits while it runs is delivered when its
  call returns, in the order in which it was emitted.
\<close>

section \<open>Deliveries\<close>

text \<open>
  \<open>broadcast\<close>: a direct client in the room gets the message itself, a balancer with clients in the
  room gets it once. \<open>sendRaw\<close> is only called on direct clients.
\<close>

definition direct_only :: "server \<Rightarrow> nat list \<Rightarrow> nat list" where
  "direct_only s hs = filter (\<lambda>h. cl_kind (sv_clients s h) = Direct) hs"

definition balancer_id :: "server \<Rightarrow> nat \<Rightarrow> string option" where
  "balancer_id s h = (case cl_kind (sv_clients s h) of Direct \<Rightarrow> None | Balanced conn \<Rightarrow> Some (sv_conn_ids s conn))"

definition balancer_ids :: "server \<Rightarrow> nat list \<Rightarrow> string js_set" where
  "balancer_ids s hs = js_set_of_list (List.map_filter (balancer_id s) hs) []"

definition send_to_balancer :: "msgM2B \<Rightarrow> string \<Rightarrow> server \<Rightarrow> server" where
  "send_to_balancer msg i s = (case getConnection i s of
      None \<Rightarrow> s | Some conn \<Rightarrow> transmit (ToBalancer conn msg) s)"

definition broadcast :: "string \<Rightarrow> serverMessage \<Rightarrow> server \<Rightarrow> server" where
  "broadcast n msg s = (case map_of (sv_roomJoins s) n of
      None \<Rightarrow> s
    | Some hs \<Rightarrow> fold (send_to_balancer (M2BRoomMsg n None msg)) (balancer_ids s hs)
        (fold (\<lambda>h s. final_state (sendRaw h msg s)) (direct_only s hs) s))"

definition getClient :: "clientId \<Rightarrow> server \<Rightarrow> nat option" where
  "getClient i s = find (\<lambda>h. cl_id (sv_clients s h) = i) (sv_connections s)"

definition handleCommand :: "clientManagerCommand \<Rightarrow> server \<Rightarrow> server" where
  "handleCommand cmd s = (case cmd of CmdKick i \<Rightarrow> (case getClient i s of
      None \<Rightarrow> s | Some h \<Rightarrow> kick (ws_code KICKED) h s))"

definition deliver_effect :: "string \<Rightarrow> effect \<Rightarrow> server \<Rightarrow> server" where
  "deliver_effect n e s = (case e of
      Publish msg \<Rightarrow> broadcast n msg s
    | Command cmd \<Rightarrow> handleCommand cmd s
    | _ \<Rightarrow> s)"

text \<open>Runs an operation of the room at a position of the array, and delivers what it emitted.\<close>

definition on_room :: "nat \<Rightarrow> (room \<Rightarrow> unit room_call) \<Rightarrow> server \<Rightarrow> unit server_call" where
  "on_room i f s =
    (let r = rm_rooms (sv_manager s) ! i; result = f r; r1 = final_state result;
         s1 = fold (deliver_effect (r_name r)) (drop (length (r_effects r)) (r_effects r1))
                (set_manager (set_room i r1 (sv_manager s)) s)
     in case thrown result of None \<Rightarrow> Returns () s1 | Some e \<Rightarrow> Throws e s1)"

section \<open>Unloading a room\<close>

text \<open>
  \<open>for (const client of clients) client.kick(code)\<close> goes by index over the array from which the
  disconnection of a balancer client removes it.
\<close>

definition joined :: "string \<Rightarrow> server \<Rightarrow> nat list" where
  "joined n s = (case map_of (sv_roomJoins s) n of None \<Rightarrow> [] | Some hs \<Rightarrow> hs)"

lemma length_remove1_le: "length (remove1 x xs) \<le> length xs"
  by (simp add: length_remove1)

lemma joined_disconnect_length: "length (joined n (disconnect_client h s)) \<le> length (joined n s)"
  by (auto simp: disconnect_client_def joined_def server_defs Let_def length_remove1_le split: option.split)

lemma joined_kick_length: "length (joined n (kick code h s)) \<le> length (joined n s)"
proof -
  have "joined n (transmit x s) = joined n s" for x by (simp add: joined_def transmit_def)
  then show ?thesis
    using joined_disconnect_length by (auto simp: kick_def Let_def split: clientKind.split) metis
qed

lemma connections_kick_length: "length (sv_connections (kick code h s)) \<le> length (sv_connections s)"
  by (auto simp: kick_def disconnect_client_def server_defs Let_def length_remove1_le
      split: clientKind.split option.split)

lemma measure_step: "length (ys :: 'a list) \<le> n \<Longrightarrow> i < n \<Longrightarrow> length ys - Suc i < n - i"
  by linarith

function kick_joined :: "string \<Rightarrow> int \<Rightarrow> nat \<Rightarrow> server \<Rightarrow> server" where
  "kick_joined n code i s =
    (if i < length (joined n s) then kick_joined n code (Suc i) (kick code (joined n s ! i) s) else s)"
  by pat_completeness auto

termination
  by (relation "measure (\<lambda>(n, code, i, s). length (joined n s) - i)")
     (simp_all add: measure_step joined_kick_length)

function kick_connections :: "int \<Rightarrow> nat \<Rightarrow> server \<Rightarrow> server" where
  "kick_connections code i s =
    (if i < length (sv_connections s)
     then kick_connections code (Suc i) (kick code (sv_connections s ! i) s) else s)"
  by pat_completeness auto

termination
  by (relation "measure (\<lambda>(code, i, s). length (sv_connections s) - i)")
     (simp_all add: measure_step connections_kick_length)

declare kick_joined.simps [simp del] kick_connections.simps [simp del]

primrec roomUnloadReasons :: "unloadReason \<Rightarrow> ottWebsocketError" where
  "roomUnloadReasons Keepalive = ROOM_UNLOADED"
| "roomUnloadReasons Admin = ROOM_UNLOADED"
| "roomUnloadReasons Commanded = AWAY"
| "roomUnloadReasons Shutdown = AWAY"

definition onRoomUnload :: "string \<Rightarrow> unloadReason \<Rightarrow> server \<Rightarrow> server" where
  "onRoomUnload n reason s =
    (let s1 = kick_joined n (ws_code (roomUnloadReasons reason)) 0 s
     in s1\<lparr>sv_roomJoins := AList.delete n (sv_roomJoins s1)\<rparr>)"

text \<open>The client manager subscribes to the room manager before the balancer link does.\<close>

definition deliver_event :: "managerEvent \<Rightarrow> server \<Rightarrow> server" where
  "deliver_event e s = (case e of
      Loaded n \<Rightarrow> balancer_onRoomLoad n s
    | Unloaded n reason \<Rightarrow> balancer_onRoomUnload n reason (onRoomUnload n reason s)
    | _ \<Rightarrow> s)"

text \<open>Takes over what the room manager did, and delivers its new events.\<close>

definition manager_done :: "roomManager \<Rightarrow> server \<Rightarrow> server" where
  "manager_done m s = fold deliver_event (drop (length (rm_log (sv_manager s))) (rm_log m)) (set_manager m s)"

section \<open>Requests\<close>

definition makeRoomRequest :: "backend \<Rightarrow> nat \<Rightarrow> roomRequest \<Rightarrow> server \<Rightarrow> unit server_call" where
  "makeRoomRequest bk h request s = (let c = sv_clients s h in
    if \<not> truthy_str (cl_token c) then Throws MissingToken s
    else (case room_index (cl_room c) (sv_manager s) of
        None \<Rightarrow> Returns () s
      | Some i \<Rightarrow> on_room i (processUnauthorizedRequest (bk_world bk) request
          \<lparr>ra_token = nullish (cl_token c) '''', ra_clientId = Some (cl_id c)\<rparr>) s))"

text \<open>\<open>onClientAuth\<close> once the room is there; a failing join request is only logged.\<close>

definition join_client :: "backend \<Rightarrow> nat \<Rightarrow> nat \<Rightarrow> server \<Rightarrow> server" where
  "join_client bk h i s =
    (let r = rm_rooms (sv_manager s) ! i;
         s1 = set_client h ((sv_clients s h)\<lparr>cl_room := r_name r\<rparr>) s;
         s2 = send h (MsgSync (syncableState (bk_world bk) r)) s1;
         s3 = set_joins (r_name r) (joined (r_name r) s2 @ [h]) s2;
         s4 = final_state (makeRoomRequest bk h (JoinRequest (getClientInfo (sv_clients s3 h))) s3);
         s5 = send h (MsgUser (UserInit (users (rm_rooms (sv_manager s4) ! i)))) s4
     in send h (MsgYou (cl_id (sv_clients s5 h))) s5)"

definition onClientAuth :: "backend \<Rightarrow> nat \<Rightarrow> server \<Rightarrow> server" where
  "onClientAuth bk h s = (let n = cl_room (sv_clients s h) in
    case room_index n (sv_manager s) of
      Some i \<Rightarrow> join_client bk h i s
    | None \<Rightarrow> await (AwaitRoom h n) s)"

text \<open>\<open>onClientAuth\<close> after redis and the database have answered \<open>getRoom\<close>.\<close>

definition client_room_loaded :: "backend \<Rightarrow> nat \<Rightarrow> string \<Rightarrow> server \<Rightarrow> server" where
  "client_room_loaded bk h n s = (case load_room bk n (sv_manager s) of
      Throws e m \<Rightarrow> manager_done m s
    | Returns (Inl e) m \<Rightarrow> kick (ws_code ROOM_NOT_FOUND) h (manager_done m s)
    | Returns (Inr i) m \<Rightarrow> join_client bk h i (manager_done m s))"

text \<open>\<open>getSessionInfo(null)\<close> asks redis for the key \<open>auth:null\<close>.\<close>

definition update_modified :: "backend \<Rightarrow> authToken option \<Rightarrow> nat \<Rightarrow> server \<Rightarrow> unit server_call" where
  "update_modified bk token h s =
    (if cl_token (sv_clients s h) \<noteq> token then Returns () s
     else (case w_getSessionInfo (bk_world bk) (nullish token ''null'') of
         Inl e \<Rightarrow> Throws e s
       | Inr session \<Rightarrow>
          (let s1 = set_client h ((sv_clients s h)\<lparr>cl_session := session\<rparr>) s
           in makeRoomRequest bk h (UpdateUser (getClientInfo (sv_clients s1 h))) s1)))"

definition onUserModified :: "backend \<Rightarrow> authToken option \<Rightarrow> server \<Rightarrow> unit server_call" where
  "onUserModified bk token s =
    fold (\<lambda>h c. and_then c (\<lambda>_. update_modified bk token h)) (sv_connections s) (Returns () s)"

text \<open>
  \<open>onUserModified\<close> is not awaited in \<open>onClientMessage\<close>, so its failure does not reach the \<open>catch\<close>.
\<close>

definition client_action :: "backend \<Rightarrow> nat \<Rightarrow> clientMessage \<Rightarrow> server \<Rightarrow> unit server_call" where
  "client_action bk h msg s = (case msg of
      ClientKickMe reason \<Rightarrow> Returns () (kick (nullish reason (ws_code UNKNOWN)) h s)
    | ClientStatus status \<Rightarrow> makeRoomRequest bk h
        (UpdateUser \<lparr>ci_id = cl_id (sv_clients s h), ci_username = None, ci_user_id = None, ci_status = Some status\<rparr>) s
    | ClientReq request \<Rightarrow> makeRoomRequest bk h request s
    | ClientNotify text \<Rightarrow> Returns () (if text = ''usernameChanged''
        then final_state (onUserModified bk (cl_token (sv_clients s h)) s) else s)
    | ClientAuth token \<Rightarrow> Returns () s)"

definition onClientMessage :: "backend \<Rightarrow> nat \<Rightarrow> clientMessage \<Rightarrow> server \<Rightarrow> server" where
  "onClientMessage bk h msg s = (case client_action bk h msg s of
      Returns _ s1 \<Rightarrow> s1
    | Throws e s1 \<Rightarrow>
       (if e = MissingToken then kick (ws_code MISSING_TOKEN) h s1
        else if is_ott_exception e then s1
        else kick (ws_code UNKNOWN) h s1))"

text \<open>\<open>DirectClient.onData\<close>: the authentication is handled before the message is passed on.\<close>

definition onData :: "backend \<Rightarrow> nat \<Rightarrow> clientMessage \<Rightarrow> server \<Rightarrow> server" where
  "onData bk h msg s = (case msg of ClientAuth token \<Rightarrow> auth token h s | _ \<Rightarrow> onClientMessage bk h msg s)"

text \<open>The rest of \<open>onClientDisconnect\<close>, and the event loop that runs it.\<close>

definition leave_room :: "backend \<Rightarrow> nat \<Rightarrow> server \<Rightarrow> server" where
  "leave_room bk h s = (let c = sv_clients s h in
    case room_index (cl_room c) (sv_manager s) of
      None \<Rightarrow> s
    | Some i \<Rightarrow> (let s1 = final_state (on_room i (processRequestUnsafe (bk_world bk) LeaveRequest (cl_id c)) s)
        in broadcast (r_name (rm_rooms (sv_manager s) ! i)) (MsgUser (UserRemove (cl_id c))) s1))"

definition drain :: "backend \<Rightarrow> server \<Rightarrow> server" where
  "drain bk s = fold (leave_room bk) (sv_leaving s) (s\<lparr>sv_leaving := []\<rparr>)"

section \<open>Connections\<close>

definition addClient :: "clientObj \<Rightarrow> server \<Rightarrow> server" where
  "addClient c s = (let h = sv_next s
    in (set_client h c s)\<lparr>sv_next := Suc h, sv_connections := sv_connections s @ [h]\<rparr>)"

text \<open>
  \<open>onDirectConnect\<close> with the room name of the URL; a bad name closes the socket, which never becomes
  a client.
\<close>

definition onDirectConnect :: "clientId \<Rightarrow> string \<Rightarrow> server \<Rightarrow> server" where
  "onDirectConnect i n s =
    (if ROOM_NAME_REGEX n then addClient (newClient i n Direct) s
     else transmit (CloseSocket (sv_next s) (ws_code INVALID_CONNECTION_URL)) (s\<lparr>sv_next := Suc (sv_next s)\<rparr>))"

definition getClientByToken :: "authToken \<Rightarrow> string \<Rightarrow> server \<Rightarrow> exn + nat" where
  "getClientByToken token n s =
    (case find (\<lambda>h. truthy_str (cl_token (sv_clients s h)) \<and> cl_token (sv_clients s h) = Some token
                  \<and> cl_room (sv_clients s h) = n) (sv_connections s) of
       Some h \<Rightarrow> Inr h | None \<Rightarrow> Inl (ClientNotFoundInRoomException n))"

definition getClientsInRoom :: "string \<Rightarrow> server \<Rightarrow> nat list" where
  "getClientsInRoom n s = joined n s"

definition onAnnouncement :: "serverMessage \<Rightarrow> server \<Rightarrow> server" where
  "onAnnouncement msg s = fold (\<lambda>h s. final_state (sendRaw h msg s)) (sv_connections s) s"

subsection \<open>Balancers\<close>

definition balancer_preconnect :: "nat \<Rightarrow> string \<Rightarrow> server \<Rightarrow> server" where
  "balancer_preconnect conn local s =
    transmit (ToBalancer conn M2BInit) (s\<lparr>sv_conn_ids := (sv_conn_ids s)(conn := local)\<rparr>)"

text \<open>The first init message completes the connection: gossip is sent, then it is registered.\<close>

definition balancer_ready :: "nat \<Rightarrow> string \<Rightarrow> server \<Rightarrow> server" where
  "balancer_ready conn i s =
    (let s1 = s\<lparr>sv_conn_ids := (sv_conn_ids s)(conn := i)\<rparr>;
         s2 = transmit (ToBalancer conn (buildGossipMessage s1)) s1
     in s2\<lparr>sv_balancers := sv_balancers s2 @ [conn]\<rparr>)"

definition behind :: "string \<Rightarrow> server \<Rightarrow> nat list" where
  "behind i s = filter (\<lambda>h. balancer_id s h = Some i) (sv_connections s)"

definition onBalancerDisconnect :: "nat \<Rightarrow> server \<Rightarrow> server" where
  "onBalancerDisconnect conn s =
    (let s1 = fold disconnect_client (behind (sv_conn_ids s conn) s) s
     in s1\<lparr>sv_balancers := remove1 conn (sv_balancers s1)\<rparr>)"

definition balanced_client :: "clientId \<Rightarrow> server \<Rightarrow> nat option" where
  "balanced_client i s = (case getClient i s of
      None \<Rightarrow> None | Some h \<Rightarrow> (if cl_kind (sv_clients s h) = Direct then None else Some h))"

definition onBalancerMessage :: "backend \<Rightarrow> nat \<Rightarrow> msgB2M \<Rightarrow> server \<Rightarrow> server" where
  "onBalancerMessage bk conn msg s = (case msg of
      B2MLoad n \<Rightarrow> (if room_index n (sv_manager s) = None then await (AwaitLoad n) s else s)
    | B2MUnload n \<Rightarrow> manager_done (final_state (unloadRoom bk n Commanded None (sv_manager s))) s
    | B2MJoin n i token \<Rightarrow> auth token (sv_next s) (addClient (newClient i n (Balanced conn)) s)
    | B2MLeave i \<Rightarrow> (case balanced_client i s of None \<Rightarrow> s | Some h \<Rightarrow> disconnect_client h s)
    | B2MClientMsg i payload \<Rightarrow> (case balanced_client i s of None \<Rightarrow> s | Some h \<Rightarrow> onClientMessage bk h payload s)
    | B2MInit i \<Rightarrow> s\<lparr>sv_conn_ids := (sv_conn_ids s)(conn := i)\<rparr>)"

text \<open>What \<open>shutdown\<close> does before anything is awaited.\<close>

definition server_shutdown :: "server \<Rightarrow> server" where
  "server_shutdown s = kick_connections (ws_code AWAY) 0
    (fold (\<lambda>conn. transmit (CloseBalancer conn 1001)) (sv_balancers s) s)"

section \<open>The event loop\<close>

definition remove_waiting :: "nat \<Rightarrow> server \<Rightarrow> server" where
  "remove_waiting k s = s\<lparr>sv_waiting := remove_at k (sv_waiting s)\<rparr>"

definition resume :: "backend \<Rightarrow> waiting \<Rightarrow> server \<Rightarrow> server" where
  "resume bk x s = (case x of
      AwaitSession h token \<Rightarrow>
        (let (ok, s1) = auth_session (bk_world bk) token h s in if ok then onClientAuth bk h s1 else s1)
    | AwaitRoom h n \<Rightarrow> client_room_loaded bk h n s
    | AwaitLoad n \<Rightarrow> manager_done (final_state (load_room bk n (sv_manager s))) s)"

text \<open>
  One round of the room manager's update, room by room: \<open>visit_room\<close> with the deliveries in their
  places.
\<close>

definition visit_and_deliver :: "backend \<Rightarrow> nat \<Rightarrow> server \<Rightarrow> server" where
  "visit_and_deliver bk i s =
    (let s1 = final_state (on_room i (tick_room (bk_world bk)) s);
         r = rm_rooms (sv_manager s1) ! i
     in if isStale (bk_world bk) r
        then manager_done (final_state (unloadRoom bk (r_name r) Keepalive None (sv_manager s1))) s1
        else s1)"

section \<open>What deliveries leave alone\<close>

text \<open>
  The contract of a field that messages, kicks and disconnections do not touch; the second locale adds
  that room operations do not touch it either.
\<close>

lemma fold_keeps: "(\<And>x s. g (f x s) = g s) \<Longrightarrow> g (fold f xs s) = g s"
  by (induction xs arbitrary: s) simp_all

locale untouched =
  fixes g :: "server \<Rightarrow> 'b"
  assumes g_transmit: "g (transmit x s) = g s"
    and g_joins: "g (s\<lparr>sv_roomJoins := js\<rparr>) = g s"
    and g_connections: "g (s\<lparr>sv_connections := cs\<rparr>) = g s"
    and g_leaving: "g (s\<lparr>sv_leaving := ls\<rparr>) = g s"
begin

lemma g_set_joins: "g (set_joins n hs s) = g s"
  by (simp add: set_joins_def g_joins)

lemma g_sendRaw: "g (final_state (sendRaw h msg s)) = g s"
  by (simp add: sendRaw_def g_transmit split: clientKind.split)

lemma g_send: "g (send h msg s) = g s"
  by (simp add: send_def Let_def g_transmit split: clientKind.split)

lemma g_disconnect: "g (disconnect_client h s) = g s"
  by (simp add: disconnect_client_def Let_def g_set_joins g_connections g_leaving split: option.split)

lemma g_kick: "g (kick code h s) = g s"
  by (simp add: kick_def Let_def g_disconnect g_transmit split: clientKind.split)

lemma g_broadcast: "g (broadcast n msg s) = g s"
  by (simp add: broadcast_def send_to_balancer_def fold_keeps [where g = g] g_sendRaw g_transmit split: option.split)

lemma g_deliver_effect: "g (deliver_effect n e s) = g s"
  by (simp add: deliver_effect_def handleCommand_def g_broadcast g_kick
      split: effect.split clientManagerCommand.split option.split)

lemma g_kick_joined: "g (kick_joined n code i s) = g s"
proof (induction n code i s rule: kick_joined.induct)
  case (1 n code i s)
  then show ?case by (subst kick_joined.simps) (simp add: g_kick)
qed

lemma g_kick_connections: "g (kick_connections code i s) = g s"
proof (induction code i s rule: kick_connections.induct)
  case (1 code i s)
  then show ?case by (subst kick_connections.simps) (simp add: g_kick)
qed

lemma g_onRoomUnload: "g (onRoomUnload n reason s) = g s"
  by (simp add: onRoomUnload_def Let_def g_joins g_kick_joined)

lemma g_broadcastToBalancers: "g (broadcastToBalancers msg s) = g s"
  by (simp add: broadcastToBalancers_def fold_keeps [where g = g] g_transmit)

lemma g_deliver_event: "g (deliver_event e s) = g s"
  by (simp add: deliver_event_def balancer_onRoomLoad_def balancer_onRoomUnload_def g_broadcastToBalancers
      g_onRoomUnload Let_def split: managerEvent.split option.split)

end

locale unmanaged = untouched +
  assumes g_set_manager: "g (set_manager m s) = g s"
begin

lemma g_on_room: "g (final_state (on_room i f s)) = g s"
  by (simp add: on_room_def Let_def fold_keeps [where g = g] g_deliver_effect g_set_manager split: option.split)

lemma g_manager_done: "g (manager_done m s) = g s"
  by (simp add: manager_done_def fold_keeps [where g = g] g_deliver_event g_set_manager)

lemma g_makeRoomRequest: "g (final_state (makeRoomRequest bk h req s)) = g s"
  by (simp add: makeRoomRequest_def Let_def g_on_room split: option.split)

lemma g_leave_room: "g (leave_room bk h s) = g s"
  by (simp add: leave_room_def Let_def g_broadcast g_on_room split: option.split)

lemma g_drain: "g (drain bk s) = g s"
  by (simp add: drain_def fold_keeps [where g = g] g_leave_room g_leaving)

end

interpretation manager_kept: untouched sv_manager
  by unfold_locales (simp_all add: server_defs)

interpretation clients_kept: unmanaged sv_clients
  by unfold_locales (simp_all add: server_defs)

interpretation next_kept: unmanaged sv_next
  by unfold_locales (simp_all add: server_defs)

interpretation waiting_kept: unmanaged sv_waiting
  by unfold_locales (simp_all add: server_defs)

interpretation conn_ids_kept: unmanaged sv_conn_ids
  by unfold_locales (simp_all add: server_defs)

interpretation balancers_kept: unmanaged sv_balancers
  by unfold_locales (simp_all add: server_defs)

lemmas manager_kept_simps [simp] = manager_kept.g_transmit manager_kept.g_set_joins manager_kept.g_send
  manager_kept.g_disconnect manager_kept.g_kick manager_kept.g_broadcast manager_kept.g_deliver_effect
  manager_kept.g_deliver_event

lemmas clients_kept_simps [simp] = clients_kept.g_transmit clients_kept.g_set_joins clients_kept.g_send
  clients_kept.g_sendRaw clients_kept.g_disconnect clients_kept.g_kick clients_kept.g_broadcast
  clients_kept.g_deliver_effect clients_kept.g_deliver_event clients_kept.g_on_room
  clients_kept.g_manager_done clients_kept.g_makeRoomRequest clients_kept.g_leave_room
  clients_kept.g_drain clients_kept.g_set_manager clients_kept.g_onRoomUnload clients_kept.g_kick_joined
  clients_kept.g_kick_connections clients_kept.g_broadcastToBalancers

lemmas next_kept_simps [simp] = next_kept.g_transmit next_kept.g_set_joins next_kept.g_send
  next_kept.g_sendRaw next_kept.g_disconnect next_kept.g_kick next_kept.g_broadcast
  next_kept.g_deliver_effect next_kept.g_deliver_event next_kept.g_on_room
  next_kept.g_manager_done next_kept.g_makeRoomRequest next_kept.g_leave_room next_kept.g_drain
  next_kept.g_set_manager next_kept.g_onRoomUnload next_kept.g_kick_joined
  next_kept.g_kick_connections next_kept.g_broadcastToBalancers

lemma manager_basic [simp]:
  "sv_manager (set_client h c s) = sv_manager s" "sv_manager (await y s) = sv_manager s"
  "sv_manager (set_manager m s) = m"
  by (simp_all add: server_defs)

section \<open>The room manager behind the server\<close>

text \<open>Deliveries never touch the rooms, so the round below is the room manager's.\<close>

lemma manager_done_manager [simp]: "sv_manager (manager_done m s) = m"
  by (simp add: manager_done_def fold_keeps [where g = sv_manager])

lemma on_room_manager [simp]:
  "sv_manager (final_state (on_room i f s))
    = set_room i (final_state (f (rm_rooms (sv_manager s) ! i))) (sv_manager s)"
  by (simp add: on_room_def Let_def fold_keeps [where g = sv_manager] split: option.split)

lemma visit_and_deliver_manager:
  "i < length (rm_rooms (sv_manager s)) \<Longrightarrow>
    sv_manager (visit_and_deliver bk i s) = visit_room bk i (sv_manager s)"
  by (simp add: visit_and_deliver_def visit_room_def Let_def)

function update_server_from :: "backend \<Rightarrow> nat \<Rightarrow> server \<Rightarrow> server" where
  "update_server_from bk i s =
    (if i < length (rm_rooms (sv_manager s))
     then update_server_from bk (Suc i) (visit_and_deliver bk i s) else s)"
  by pat_completeness auto

termination
  by (relation "measure (\<lambda>(bk, i, s). length (rm_rooms (sv_manager s)) - i)")
     (simp_all add: visit_and_deliver_manager visit_room_measure)

declare update_server_from.simps [simp del]

definition update_server :: "backend \<Rightarrow> server \<Rightarrow> server" where
  "update_server bk s = update_server_from bk 0 s"

end
