(* ===== verification/ServerMachine.thy ===== *)
theory ServerMachine
  imports ClientManager
begin

text \<open>
  The server as a step relation: connections opening and closing, messages of clients and balancers,
  answers of redis and the database in any order, the periodic update and the timers of the rooms. Its
  invariant says who can be sent what; the update is a round of the room manager.
\<close>

section \<open>Steps\<close>

inductive server_step :: "server \<Rightarrow> server \<Rightarrow> bool" where
  connect: "server_step s (onDirectConnect i n s)"
| data: "h < sv_next s \<Longrightarrow> cl_kind (sv_clients s h) = Direct \<Longrightarrow> server_step s (drain bk (onData bk h msg s))"
| close: "h < sv_next s \<Longrightarrow> cl_kind (sv_clients s h) = Direct \<Longrightarrow> server_step s (drain bk (disconnect_client h s))"
| resume: "k < length (sv_waiting s) \<Longrightarrow>
    server_step s (drain bk (resume bk (sv_waiting s ! k) (remove_waiting k s)))"
| balancer_connect: "server_step s (balancer_preconnect conn i s)"
| balancer_init: "server_step s (balancer_ready conn i s)"
| balancer_message: "server_step s (drain bk (onBalancerMessage bk conn msg s))"
| balancer_close: "server_step s (drain bk (onBalancerDisconnect conn s))"
| gossip: "server_step s (gossip s)"
| tick: "server_step s (drain bk (update_server bk s))"
| sync: "i < length (rm_rooms (sv_manager s)) \<Longrightarrow> server_step s (drain bk (final_state (on_room i (fire_sync w) s)))"
| save: "i < length (rm_rooms (sv_manager s)) \<Longrightarrow>
    server_step s (drain bk (final_state (on_room i (\<lambda>r. Returns () (flush_save w r)) s)))"
| user_modified: "server_step s (drain bk (final_state (onUserModified bk token s)))"
| announce: "server_step s (onAnnouncement (MsgAnnouncement text) s)"
| stop_clients: "server_step s (drain bk (server_shutdown s))"
| stop_rooms: "server_step s (drain bk (manager_done (shutdown bk (sv_manager s)) s))"

definition no_server :: server where
  "no_server = \<lparr>sv_manager = \<lparr>rm_rooms = [], rm_log = []\<rparr>, sv_clients = (\<lambda>_. newClient [] [] Direct), sv_next = 0,
     sv_connections = [], sv_roomJoins = [], sv_conn_ids = (\<lambda>_. []), sv_balancers = [], sv_waiting = [],
     sv_leaving = [], sv_wire = []\<rparr>"

section \<open>Who may hear a room\<close>

text \<open>A client that has shown a token for which the session store had an answer.\<close>

definition authenticated :: "server \<Rightarrow> nat \<Rightarrow> bool" where
  "authenticated s h \<longleftrightarrow> h < sv_next s \<and> cl_joinStatus (sv_clients s h) = Joined \<and> truthy_str (cl_token (sv_clients s h))"

definition wire_ok :: "server \<Rightarrow> wire \<Rightarrow> bool" where
  "wire_ok s x = (case x of
      ToSocket h (MsgAnnouncement text) \<Rightarrow> True
    | ToSocket h msg \<Rightarrow> authenticated s h
    | _ \<Rightarrow> True)"

definition waiting_ok :: "server \<Rightarrow> waiting \<Rightarrow> bool" where
  "waiting_ok s x = (case x of
      AwaitSession h token \<Rightarrow> h < sv_next s \<and> truthy_str (cl_token (sv_clients s h))
    | AwaitRoom h n \<Rightarrow> authenticated s h
    | AwaitLoad n \<Rightarrow> True)"

definition joins_ok :: "server \<Rightarrow> bool" where
  "joins_ok s \<longleftrightarrow> (\<forall>(n, hs)\<in>set (sv_roomJoins s). list_all (authenticated s) hs)"

definition server_ok :: "server \<Rightarrow> bool" where
  "server_ok s \<longleftrightarrow> list_all (wire_ok s) (sv_wire s) \<and> list_all (waiting_ok s) (sv_waiting s) \<and> joins_ok s
     \<and> list_all (\<lambda>h. h < sv_next s) (sv_connections s)"

lemma authenticated_cong:
  "sv_clients s' = sv_clients s \<Longrightarrow> sv_next s' = sv_next s \<Longrightarrow> authenticated s' = authenticated s"
  by (simp add: authenticated_def fun_eq_iff)

lemma ok_cong:
  "sv_clients s' = sv_clients s \<Longrightarrow> sv_next s' = sv_next s \<Longrightarrow> wire_ok s' = wire_ok s \<and> waiting_ok s' = waiting_ok s"
  by (auto simp: fun_eq_iff wire_ok_def waiting_ok_def authenticated_cong [of s' s] split: wire.split waiting.split)

lemma authenticated_kept [simp]:
  "authenticated (transmit x s) = authenticated s" "authenticated (await w s) = authenticated s"
  "authenticated (set_joins n hs s) = authenticated s" "authenticated (set_manager m s) = authenticated s"
  "authenticated (send h msg s) = authenticated s" "authenticated (kick code h s) = authenticated s"
  "authenticated (broadcast n msg s) = authenticated s" "authenticated (disconnect_client h s) = authenticated s"
  "authenticated (final_state (on_room i f s)) = authenticated s"
  "authenticated (manager_done m s) = authenticated s"
  "authenticated (final_state (makeRoomRequest bk h req s)) = authenticated s"
  "authenticated (s\<lparr>sv_connections := cs\<rparr>) = authenticated s" "authenticated (s\<lparr>sv_roomJoins := js\<rparr>) = authenticated s"
  "authenticated (s\<lparr>sv_leaving := ls\<rparr>) = authenticated s" "authenticated (s\<lparr>sv_balancers := bs\<rparr>) = authenticated s"
  "authenticated (s\<lparr>sv_conn_ids := ids\<rparr>) = authenticated s" "authenticated (s\<lparr>sv_waiting := ws\<rparr>) = authenticated s"
  by (rule authenticated_cong; simp add: await_def)+

subsection \<open>The primitives keep the invariant\<close>

lemma ok_frame:
  assumes "server_ok s" and "sv_clients s' = sv_clients s" "sv_next s' = sv_next s"
    and "sv_wire s' = sv_wire s" "sv_waiting s' = sv_waiting s" "sv_roomJoins s' = sv_roomJoins s"
    and "set (sv_connections s') \<subseteq> set (sv_connections s)"
  shows "server_ok s'"
  using assms ok_cong [of s' s] authenticated_cong [of s' s]
  by (auto simp: server_ok_def joins_ok_def list_all_iff)

lemma ok_transmit:
  assumes "server_ok s" and "wire_ok s x"
  shows "server_ok (transmit x s)"
  using assms ok_cong [of "transmit x s" s] authenticated_cong [of "transmit x s" s]
  by (simp add: server_ok_def joins_ok_def transmit_def)

lemma ok_await:
  assumes "server_ok s" and "waiting_ok s x"
  shows "server_ok (await x s)"
  using assms ok_cong [of "await x s" s] authenticated_cong [of "await x s" s]
  by (simp add: server_ok_def joins_ok_def await_def)

lemma ok_set_joins:
  assumes "server_ok s" and "list_all (authenticated s) hs"
  shows "server_ok (set_joins n hs s)"
proof -
  have "set (AList.update n hs js) \<subseteq> insert (n, hs) (set js)" for js :: "(string, nat list) js_map"
    by (induction js) auto
  then have "joins_ok (set_joins n hs s)"
    using assms unfolding joins_ok_def server_ok_def by (fastforce simp: set_joins_def)
  then show ?thesis
    using assms ok_cong [of "set_joins n hs s" s] by (simp add: server_ok_def set_joins_def)
qed

lemma ok_set_client:
  assumes "server_ok s" and "truthy_str (cl_token (sv_clients s h)) \<Longrightarrow> truthy_str (cl_token c)"
    and "cl_joinStatus (sv_clients s h) = Joined \<Longrightarrow> cl_joinStatus c = Joined"
  shows "server_ok (set_client h c s)"
proof -
  have auth: "authenticated s x \<Longrightarrow> authenticated (set_client h c s) x" for x
    using assms(2,3) by (auto simp: authenticated_def set_client_def)
  then have "wire_ok s x \<Longrightarrow> wire_ok (set_client h c s) x" for x
    by (auto simp: wire_ok_def split: wire.split serverMessage.split)
  moreover have "waiting_ok s x \<Longrightarrow> waiting_ok (set_client h c s) x" for x
    using auth assms(2) by (auto simp: waiting_ok_def set_client_def split: waiting.split)
  ultimately show ?thesis
    using assms(1) auth by (auto simp: server_ok_def joins_ok_def list_all_iff set_client_def)
qed

lemma ok_fold:
  "server_ok s \<Longrightarrow> (\<And>x s. x \<in> set xs \<Longrightarrow> server_ok s \<Longrightarrow> server_ok (f x s)) \<Longrightarrow> server_ok (fold f xs s)"
  by (induction xs arbitrary: s) auto

lemma ok_joined: "server_ok s \<Longrightarrow> h \<in> set (joined n s) \<Longrightarrow> authenticated s h"
  by (cases "map_of (sv_roomJoins s) n")
     (use map_of_SomeD in \<open>fastforce simp: server_ok_def joins_ok_def joined_def list_all_iff\<close>)+

lemma wire_ok_simps [simp]:
  "wire_ok s (CloseSocket h code)" "wire_ok s (ToBalancer conn m)" "wire_ok s (CloseBalancer conn code)"
  "authenticated s h \<Longrightarrow> wire_ok s (ToSocket h msg)"
  by (auto simp: wire_ok_def split: serverMessage.split)

lemma ok_send: "server_ok s \<Longrightarrow> authenticated s h \<Longrightarrow> server_ok (send h msg s)"
  by (auto simp: send_def Let_def intro: ok_transmit split: clientKind.split)

lemma ok_sendRaw: "server_ok s \<Longrightarrow> wire_ok s (ToSocket h msg) \<Longrightarrow> server_ok (final_state (sendRaw h msg s))"
  by (auto simp: sendRaw_def intro: ok_transmit split: clientKind.split)

lemma ok_disconnect: "server_ok s \<Longrightarrow> server_ok (disconnect_client h s)"
proof -
  assume ok: "server_ok s"
  let ?s0 = "s\<lparr>sv_connections := remove1 h (sv_connections s)\<rparr>"
  have s0: "server_ok ?s0" by (rule ok_frame [OF ok]) (simp_all add: set_remove1_subset)
  have "list_all (authenticated ?s0) (remove1 h hs)" if "map_of (sv_roomJoins s) n = Some hs" for n hs
    using that ok_joined [OF ok, of _ n] set_remove1_subset [of h hs] by (auto simp: list_all_iff joined_def)
  then have "server_ok (set_joins n (remove1 h hs) ?s0)" if "map_of (sv_roomJoins s) n = Some hs" for n hs
    using that by (intro ok_set_joins [OF s0])
  moreover have "server_ok t \<Longrightarrow> server_ok (t\<lparr>sv_leaving := l\<rparr>)" for t l
    by (erule ok_frame) simp_all
  ultimately show ?thesis
    using ok s0 by (simp add: disconnect_client_def Let_def split: option.split)
qed

lemma ok_kick: "server_ok s \<Longrightarrow> server_ok (kick code h s)"
  by (simp add: kick_def Let_def ok_transmit ok_disconnect split: clientKind.split)

lemma ok_broadcast: "server_ok s \<Longrightarrow> server_ok (broadcast n msg s)"
proof -
  assume ok: "server_ok s"
  have direct: "server_ok s1 \<and> list_all (authenticated s1) hs \<Longrightarrow>
      server_ok (fold (\<lambda>h s. final_state (sendRaw h msg s)) hs s1)" for s1 hs
  proof (induction hs arbitrary: s1)
    case (Cons h hs)
    have "authenticated (final_state (sendRaw h msg s1)) = authenticated s1"
      by (rule authenticated_cong) simp_all
    then show ?case using Cons by (simp add: ok_sendRaw)
  qed simp
  have balancers: "server_ok s1 \<Longrightarrow> server_ok (fold (send_to_balancer m) ids s1)" for s1 m ids
    by (rule ok_fold) (auto simp: send_to_balancer_def intro: ok_transmit split: option.split)
  have "list_all (authenticated s) (direct_only s hs)" if "map_of (sv_roomJoins s) n = Some hs" for hs
    using that ok_joined [OF ok, of _ n] by (auto simp: list_all_iff joined_def direct_only_def)
  then show ?thesis using ok by (auto simp: broadcast_def intro!: balancers direct split: option.split)
qed

lemma ok_deliver_effect: "server_ok s \<Longrightarrow> server_ok (deliver_effect n e s)"
  by (auto simp: deliver_effect_def handleCommand_def ok_broadcast ok_kick
      split: effect.split clientManagerCommand.split option.split)

lemma ok_set_manager: "server_ok s \<Longrightarrow> server_ok (set_manager m s)"
  by (erule ok_frame) (simp_all add: set_manager_def)

lemma ok_on_room: "server_ok s \<Longrightarrow> server_ok (final_state (on_room i f s))"
  by (auto simp: on_room_def Let_def intro!: ok_fold ok_deliver_effect ok_set_manager split: option.split)

lemma ok_kick_joined: "server_ok s \<Longrightarrow> server_ok (kick_joined n code i s)"
proof (induction n code i s rule: kick_joined.induct)
  case (1 n code i s)
  then show ?case by (subst kick_joined.simps) (simp add: ok_kick)
qed

lemma ok_kick_connections: "server_ok s \<Longrightarrow> server_ok (kick_connections code i s)"
proof (induction code i s rule: kick_connections.induct)
  case (1 code i s)
  then show ?case by (subst kick_connections.simps) (simp add: ok_kick)
qed

lemma ok_onRoomUnload: "server_ok s \<Longrightarrow> server_ok (onRoomUnload n reason s)"
proof -
  assume "server_ok s"
  then have ok: "server_ok (kick_joined n c 0 s)" for c by (rule ok_kick_joined)
  have "set (AList.delete n js) \<subseteq> set js" for js :: "(string, nat list) js_map"
    using set_filter [of _ js] by (auto simp: AList.delete_eq)
  then show ?thesis
    using ok [of "ws_code (roomUnloadReasons reason)"]
      ok_cong [of "onRoomUnload n reason s" "kick_joined n (ws_code (roomUnloadReasons reason)) 0 s"]
    by (fastforce simp: onRoomUnload_def Let_def server_ok_def joins_ok_def list_all_iff)
qed

lemma ok_broadcastToBalancers: "server_ok s \<Longrightarrow> server_ok (broadcastToBalancers m s)"
  by (auto simp: broadcastToBalancers_def intro!: ok_fold ok_transmit)

lemma ok_deliver_event: "server_ok s \<Longrightarrow> server_ok (deliver_event e s)"
  by (auto simp: deliver_event_def balancer_onRoomLoad_def balancer_onRoomUnload_def ok_broadcastToBalancers
      ok_onRoomUnload Let_def split: managerEvent.split option.split)

lemma ok_manager_done: "server_ok s \<Longrightarrow> server_ok (manager_done m s)"
  by (auto simp: manager_done_def intro!: ok_fold ok_deliver_event ok_set_manager)

subsection \<open>The handlers keep the invariant\<close>

lemma ok_makeRoomRequest: "server_ok s \<Longrightarrow> server_ok (final_state (makeRoomRequest bk h req s))"
  by (simp add: makeRoomRequest_def Let_def ok_on_room split: option.split)

lemma ok_join_client:
  assumes "server_ok s" and "authenticated s h"
  shows "server_ok (join_client bk h i s)"
proof -
  define s1 where "s1 = set_client h ((sv_clients s h)\<lparr>cl_room := r_name (rm_rooms (sv_manager s) ! i)\<rparr>) s"
  have s1: "server_ok s1" "authenticated s1 h"
    using assms ok_set_client [OF assms(1)] unfolding s1_def by (auto simp: authenticated_def set_client_def)
  have "list_all (authenticated s1) (joined n (send h msg s1) @ [h])" for n :: string and msg
    using s1 ok_joined [OF ok_send [OF s1], of _ n msg] by (auto simp: list_all_iff)
  then show ?thesis
    unfolding join_client_def Let_def s1_def [symmetric]
    using s1 by (intro ok_send ok_makeRoomRequest ok_set_joins) simp_all
qed

lemma ok_onClientAuth:
  assumes "server_ok s" and "authenticated s h"
  shows "server_ok (onClientAuth bk h s)"
  using assms by (auto simp: onClientAuth_def Let_def waiting_ok_def intro: ok_join_client ok_await split: option.split)

lemma ok_client_room_loaded:
  assumes "server_ok s" and "authenticated s h"
  shows "server_ok (client_room_loaded bk h n s)"
  using assms
  by (auto simp: client_room_loaded_def intro!: ok_manager_done ok_kick ok_join_client split: outcome.split sum.split)

lemma ok_auth:
  assumes "server_ok s" and "h < sv_next s"
  shows "server_ok (auth token h s)"
proof (cases "token = []")
  case False
  let ?s = "set_client h ((sv_clients s h)\<lparr>cl_token := Some token\<rparr>) s"
  have "server_ok ?s" using assms(1) False by (intro ok_set_client) simp_all
  moreover have "waiting_ok ?s (AwaitSession h token)"
    using assms(2) False by (simp add: waiting_ok_def set_client_def)
  ultimately show ?thesis using False by (simp add: auth_def ok_await)
qed (simp add: auth_def assms ok_kick)

lemma ok_auth_session:
  assumes "server_ok s" and "h < sv_next s" and "truthy_str (cl_token (sv_clients s h))"
    and "auth_session w token h s = (ok, s1)"
  shows "server_ok s1 \<and> (ok \<longrightarrow> authenticated s1 h)"
proof (cases "w_getSessionInfo w token")
  case (Inr session)
  let ?s = "set_client h ((sv_clients s h)\<lparr>cl_session := session, cl_joinStatus := Joined\<rparr>) s"
  have "server_ok ?s" using assms(1) by (intro ok_set_client) simp_all
  then show ?thesis
    using Inr assms by (auto simp: auth_session_def authenticated_def set_client_def)
qed (use assms ok_kick in \<open>auto simp: auth_session_def\<close>)

lemma ok_remove_waiting: "server_ok s \<Longrightarrow> server_ok (remove_waiting k s)"
proof -
  assume ok: "server_ok s"
  have "wire_ok (remove_waiting k s) = wire_ok s \<and> waiting_ok (remove_waiting k s) = waiting_ok s"
    by (rule ok_cong) (simp_all add: remove_waiting_def)
  then show ?thesis
    using ok set_remove_at_subset [of k "sv_waiting s"]
    by (auto simp: server_ok_def list_all_iff joins_ok_def remove_waiting_def)
qed

lemma ok_resume:
  assumes "server_ok s" and "waiting_ok s x"
  shows "server_ok (resume bk x s)"
proof (cases x)
  case (AwaitSession h token)
  obtain ok s1 where s1: "auth_session (bk_world bk) token h s = (ok, s1)" by fastforce
  have "server_ok s1 \<and> (ok \<longrightarrow> authenticated s1 h)"
    using assms AwaitSession by (intro ok_auth_session [OF assms(1) _ _ s1]) (simp_all add: waiting_ok_def)
  then show ?thesis using AwaitSession s1 by (simp add: resume_def ok_onClientAuth)
qed (use assms in \<open>simp_all add: resume_def waiting_ok_def ok_client_room_loaded ok_manager_done\<close>)

lemma ok_update_modified:
  "server_ok s \<Longrightarrow> server_ok (final_state (update_modified bk token h s))"
  by (auto simp: update_modified_def Let_def intro!: ok_makeRoomRequest ok_set_client split: sum.split)

lemma ok_onUserModified: "server_ok s \<Longrightarrow> server_ok (final_state (onUserModified bk token s))"
proof -
  have "server_ok (final_state c) \<Longrightarrow>
      server_ok (final_state (fold (\<lambda>h c. and_then c (\<lambda>_. update_modified bk token h)) hs c))" for hs c
  proof (induction hs arbitrary: c)
    case (Cons h hs)
    then have "server_ok (final_state (and_then c (\<lambda>_. update_modified bk token h)))"
      by (cases c) (simp_all add: ok_update_modified)
    then show ?case using Cons.IH by simp
  qed simp
  then show "server_ok s \<Longrightarrow> ?thesis" by (simp add: onUserModified_def)
qed

lemma ok_client_action: "server_ok s \<Longrightarrow> server_ok (final_state (client_action bk h msg s))"
  by (cases msg) (simp_all add: client_action_def ok_kick ok_makeRoomRequest ok_onUserModified)

lemma ok_onClientMessage: "server_ok s \<Longrightarrow> server_ok (onClientMessage bk h msg s)"
  using ok_client_action [of s bk h msg]
  by (cases "client_action bk h msg s") (simp_all add: onClientMessage_def ok_kick)

lemma ok_onData: "server_ok s \<Longrightarrow> h < sv_next s \<Longrightarrow> server_ok (onData bk h msg s)"
  by (cases msg) (simp_all add: onData_def ok_auth ok_onClientMessage)

lemma ok_leave_room: "server_ok s \<Longrightarrow> server_ok (leave_room bk h s)"
  by (simp add: leave_room_def Let_def ok_broadcast ok_on_room split: option.split)

lemma ok_drain: "server_ok s \<Longrightarrow> server_ok (drain bk s)"
proof -
  assume "server_ok s"
  then have "server_ok (s\<lparr>sv_leaving := []\<rparr>)" by (rule ok_frame) simp_all
  then show ?thesis by (simp add: drain_def ok_fold ok_leave_room)
qed

lemma ok_addClient: "server_ok s \<Longrightarrow> cl_joinStatus c = WaitingForAuth \<Longrightarrow> server_ok (addClient c s)"
proof -
  assume ok: "server_ok s" and c: "cl_joinStatus c = WaitingForAuth"
  have auth: "authenticated s h \<Longrightarrow> authenticated (addClient c s) h" for h
    by (auto simp: authenticated_def addClient_def Let_def set_client_def)
  then have "wire_ok s x \<Longrightarrow> wire_ok (addClient c s) x" for x
    by (auto simp: wire_ok_def split: wire.split serverMessage.split)
  moreover have "waiting_ok s x \<Longrightarrow> waiting_ok (addClient c s) x" for x
    using auth by (auto simp: waiting_ok_def addClient_def Let_def set_client_def split: waiting.split)
  ultimately show ?thesis
    using ok auth
    by (fastforce simp: server_ok_def joins_ok_def list_all_iff addClient_def Let_def set_client_def)
qed

lemma ok_onDirectConnect: "server_ok s \<Longrightarrow> server_ok (onDirectConnect i n s)"
proof -
  assume ok: "server_ok s"
  let ?s = "s\<lparr>sv_next := Suc (sv_next s)\<rparr>"
  have auth: "authenticated s h \<Longrightarrow> authenticated ?s h" for h by (simp add: authenticated_def)
  then have "wire_ok s x \<Longrightarrow> wire_ok ?s x" "waiting_ok s y \<Longrightarrow> waiting_ok ?s y" for x y
    by (auto simp: wire_ok_def waiting_ok_def split: wire.split serverMessage.split waiting.split)
  then have "server_ok ?s"
    using ok auth by (fastforce simp: server_ok_def joins_ok_def list_all_iff)
  then show ?thesis
    using ok by (simp add: onDirectConnect_def ok_addClient newClient_def ok_transmit)
qed

lemma ok_balancer_fields:
  "server_ok s \<Longrightarrow> server_ok (s\<lparr>sv_conn_ids := ids\<rparr>)" "server_ok s \<Longrightarrow> server_ok (s\<lparr>sv_balancers := bs\<rparr>)"
  by (erule ok_frame, simp_all)+

lemma ok_onBalancerMessage: "server_ok s \<Longrightarrow> server_ok (onBalancerMessage bk conn msg s)"
proof -
  assume ok: "server_ok s"
  have "server_ok (auth token (sv_next s) (addClient (newClient i n k) s))" for token i n k
    using ok by (intro ok_auth ok_addClient) (simp_all add: newClient_def addClient_def Let_def)
  then show ?thesis
    using ok by (cases msg) (simp_all add: onBalancerMessage_def ok_await waiting_ok_def ok_manager_done
        ok_disconnect ok_onClientMessage ok_balancer_fields split: option.split)
qed

lemma ok_onBalancerDisconnect: "server_ok s \<Longrightarrow> server_ok (onBalancerDisconnect conn s)"
  by (simp add: onBalancerDisconnect_def Let_def ok_balancer_fields ok_fold ok_disconnect)

lemma ok_update_server_from: "server_ok s \<Longrightarrow> server_ok (update_server_from bk i s)"
proof (induction bk i s rule: update_server_from.induct)
  case (1 bk i s)
  then show ?case
    by (subst update_server_from.simps) (simp add: visit_and_deliver_def Let_def ok_on_room ok_manager_done)
qed

lemma ok_onAnnouncement: "server_ok s \<Longrightarrow> server_ok (onAnnouncement (MsgAnnouncement text) s)"
  by (simp add: onAnnouncement_def ok_fold ok_sendRaw wire_ok_def)

lemma ok_server_shutdown: "server_ok s \<Longrightarrow> server_ok (server_shutdown s)"
  by (simp add: server_shutdown_def ok_kick_connections ok_fold ok_transmit)

lemma server_step_ok: "server_step s s' \<Longrightarrow> server_ok s \<Longrightarrow> server_ok s'"
proof (induction rule: server_step.induct)
  case (resume k s bk)
  then have "waiting_ok s (sv_waiting s ! k)" by (simp add: server_ok_def list_all_length)
  moreover have "waiting_ok (remove_waiting k s) = waiting_ok s"
    using ok_cong [of "remove_waiting k s" s] by (simp add: remove_waiting_def)
  ultimately show ?case
    using resume.prems by (simp add: ok_drain ok_resume ok_remove_waiting)
qed (simp_all add: ok_onDirectConnect ok_onData ok_drain ok_disconnect ok_transmit ok_balancer_fields
    balancer_preconnect_def balancer_ready_def Let_def ok_onBalancerMessage ok_onBalancerDisconnect
    gossip_def ok_broadcastToBalancers update_server_def ok_update_server_from ok_on_room
    ok_onUserModified ok_onAnnouncement ok_server_shutdown ok_manager_done)

lemma reachable_ok: "server_step\<^sup>*\<^sup>* no_server s \<Longrightarrow> server_ok s"
  by (induction rule: rtranclp_induct)
     (simp_all add: server_step_ok, simp add: server_ok_def joins_ok_def no_server_def)

end
