(* ===== verification/ServerProperties.thy ===== *)
theory ServerProperties
  imports ServerMachine ManagerProperties
begin

text \<open>
  What the client manager promises: who hears a broadcast, what joining and leaving do to a room and
  to its listeners, what happens to the clients of an unloaded room, and the orders of events in which
  a client stays behind in a room it has left.
\<close>

section \<open>What is written to the sockets\<close>

text \<open>The messages written to one direct client's socket.\<close>

definition heard_by :: "nat \<Rightarrow> wire \<Rightarrow> serverMessage option" where
  "heard_by h x = (case x of ToSocket h' msg \<Rightarrow> (if h' = h then Some msg else None) | _ \<Rightarrow> None)"

definition heard :: "nat \<Rightarrow> server \<Rightarrow> serverMessage list" where
  "heard h s = List.map_filter (heard_by h) (sv_wire s)"

lemma map_filter_Cons: "List.map_filter f (x # xs) = (case f x of None \<Rightarrow> [] | Some y \<Rightarrow> [y]) @ List.map_filter f xs"
  by (simp add: List.map_filter_def split: option.split)

lemma map_filter_Nil [simp]: "List.map_filter f [] = []"
  by (simp add: List.map_filter_def)

lemma map_filter_append: "List.map_filter f (xs @ ys) = List.map_filter f xs @ List.map_filter f ys"
  by (simp add: List.map_filter_def)

lemma in_map_filter: "y \<in> set (List.map_filter f xs) \<longleftrightarrow> (\<exists>x \<in> set xs. f x = Some y)"
  by (induction xs) (auto simp: map_filter_Cons split: option.splits)

definition reached_balancers :: "string \<Rightarrow> server \<Rightarrow> nat list" where
  "reached_balancers n s = List.map_filter (\<lambda>i. getConnection i s) (balancer_ids s (joined n s))"

lemma getConnection_transmit [simp]: "getConnection i (transmit x s) = getConnection i s"
  by (simp add: getConnection_def transmit_def)

lemma wire_transmit [simp]: "sv_wire (transmit x s) = sv_wire s @ [x]"
  by (simp add: transmit_def)

lemma fold_sendRaw_wire:
  "list_all (\<lambda>h. cl_kind (sv_clients s h) = Direct) hs \<Longrightarrow>
    fold (\<lambda>h s. final_state (sendRaw h msg s)) hs s = s\<lparr>sv_wire := sv_wire s @ map (\<lambda>h. ToSocket h msg) hs\<rparr>"
  by (induction hs arbitrary: s) (simp_all add: sendRaw_def transmit_def)

lemma fold_balancer_wire:
  "fold (send_to_balancer msg) ids s
    = s\<lparr>sv_wire := sv_wire s @ map (\<lambda>conn. ToBalancer conn msg) (List.map_filter (\<lambda>i. getConnection i s) ids)\<rparr>"
proof (induction ids arbitrary: s)
  case (Cons i ids)
  have "getConnection j (s\<lparr>sv_wire := w\<rparr>) = getConnection j s" for j w by (simp add: getConnection_def)
  moreover have "send_to_balancer msg i s = s\<lparr>sv_wire := sv_wire s
      @ map (\<lambda>conn. ToBalancer conn msg) (case getConnection i s of None \<Rightarrow> [] | Some conn \<Rightarrow> [conn])\<rparr>"
    by (simp add: send_to_balancer_def transmit_def split: option.split)
  ultimately show ?case by (simp add: Cons map_filter_Cons split: option.split)
qed simp

lemma broadcast_wire:
  "broadcast n msg s = s\<lparr>sv_wire := sv_wire s @ map (\<lambda>h. ToSocket h msg) (direct_only s (joined n s))
     @ map (\<lambda>conn. ToBalancer conn (M2BRoomMsg n None msg)) (reached_balancers n s)\<rparr>"
proof (cases "map_of (sv_roomJoins s) n")
  case (Some hs)
  have direct: "list_all (\<lambda>h. cl_kind (sv_clients s h) = Direct) (direct_only s hs)"
    by (simp add: direct_only_def list_all_iff)
  have conn: "getConnection j (s\<lparr>sv_wire := w\<rparr>) = getConnection j s" for j w by (simp add: getConnection_def)
  show ?thesis
    using Some conn
    by (simp add: broadcast_def joined_def reached_balancers_def fold_sendRaw_wire [OF direct] fold_balancer_wire)
qed (simp add: broadcast_def joined_def direct_only_def reached_balancers_def balancer_ids_def)

lemma heard_append: "heard h (s\<lparr>sv_wire := sv_wire s @ xs\<rparr>) = heard h s @ List.map_filter (heard_by h) xs"
  by (simp add: heard_def map_filter_append)

lemma map_filter_sockets:
  "List.map_filter (heard_by h) (map (\<lambda>h. ToSocket h msg) hs) = replicate (count_list hs h) msg"
  by (induction hs) (auto simp: map_filter_Cons heard_by_def)

lemma map_filter_balancers:
  "List.map_filter (heard_by h) (map (\<lambda>conn. ToBalancer conn m) conns) = []"
  by (induction conns) (auto simp: map_filter_Cons heard_by_def)

lemma count_direct_only:
  "count_list (direct_only s hs) h = (if cl_kind (sv_clients s h) = Direct then count_list hs h else 0)"
  by (induction hs) (auto simp: direct_only_def)

lemma heard_broadcast:
  "heard h (broadcast n msg s)
    = heard h s @ replicate (if cl_kind (sv_clients s h) = Direct then count_list (joined n s) h else 0) msg"
  by (simp add: broadcast_wire heard_append map_filter_append map_filter_sockets map_filter_balancers count_direct_only)

lemma heard_transmit [simp]:
  "heard h (transmit (ToSocket h' msg) s) = heard h s @ (if h' = h then [msg] else [])"
  "heard h (transmit (CloseSocket h' code) s) = heard h s"
  "heard h (transmit (ToBalancer conn m) s) = heard h s"
  by (simp_all add: heard_def map_filter_append map_filter_Cons heard_by_def)

lemma heard_kept [simp]:
  "heard h (set_client h' c s) = heard h s" "heard h (set_joins n hs s) = heard h s"
  "heard h (set_manager m s) = heard h s" "heard h (disconnect_client h' s) = heard h s"
  "heard h (kick code h' s) = heard h s"
proof -
  show disc: "heard h (disconnect_client h' s) = heard h s" for h' s
    by (simp add: heard_def disconnect_client_def Let_def server_defs split: option.split)
  show "heard h (kick code h' s) = heard h s"
    by (simp add: kick_def Let_def disc split: clientKind.split)
qed (simp_all add: heard_def server_defs)

lemma clients_set_client [simp]: "sv_clients (set_client h c s) = (sv_clients s)(h := c)"
  by (simp add: set_client_def)

lemma joined_kept [simp]:
  "joined n (transmit x s) = joined n s" "joined n (set_client h c s) = joined n s"
  "joined n (set_manager m s) = joined n s" "joined n (broadcast n' msg s) = joined n s"
  "joined n (send h msg s) = joined n s"
  by (simp_all add: joined_def server_defs broadcast_wire send_def Let_def split: clientKind.split)

lemma joined_set_joins: "joined n (set_joins n' hs s) = (if n = n' then hs else joined n s)"
  by (simp add: joined_def set_joins_def)

section \<open>Broadcasts\<close>

lemma distinct_map_filter_inj:
  assumes "distinct xs" and "\<And>x y z. x \<in> set xs \<Longrightarrow> y \<in> set xs \<Longrightarrow> f x = Some z \<Longrightarrow> f y = Some z \<Longrightarrow> x = y"
  shows "distinct (List.map_filter f xs)"
  using assms
proof (induction xs)
  case (Cons x xs)
  have rest: "distinct (List.map_filter f xs)" using Cons by auto
  have "z \<notin> set (List.map_filter f xs)" if "f x = Some z" for z
  proof
    assume "z \<in> set (List.map_filter f xs)"
    then obtain y where "y \<in> set xs" "f y = Some z" by (auto simp: List.map_filter_def)
    with that Cons.prems show False by fastforce
  qed
  then show ?case using rest by (simp add: map_filter_Cons split: option.split)
qed simp

lemma reached_balancers_distinct: "distinct (reached_balancers n s)"
proof -
  have "sv_conn_ids s conn = i" if "getConnection i s = Some conn" for i conn
    using that by (auto simp: getConnection_def find_Some_iff)
  then show ?thesis
    unfolding reached_balancers_def
    by (intro distinct_map_filter_inj) (auto simp: balancer_ids_def)
qed

lemma reached_balancers_iff:
  "conn \<in> set (reached_balancers n s) \<longleftrightarrow>
    getConnection (sv_conn_ids s conn) s = Some conn
    \<and> (\<exists>h \<in> set (joined n s). balancer_id s h = Some (sv_conn_ids s conn))"
proof -
  have "sv_conn_ids s conn = i" if "getConnection i s = Some conn" for i
    using that by (auto simp: getConnection_def find_Some_iff)
  moreover have "conn \<in> set (reached_balancers n s) \<longleftrightarrow> (\<exists>i \<in> set (balancer_ids s (joined n s)). getConnection i s = Some conn)"
    unfolding reached_balancers_def by (rule in_map_filter)
  moreover have "i \<in> set (balancer_ids s (joined n s)) \<longleftrightarrow> (\<exists>h \<in> set (joined n s). balancer_id s h = Some i)" for i
    unfolding balancer_ids_def by (simp add: in_map_filter)
  ultimately show ?thesis by metis
qed

text \<open>
  A broadcast to a room goes to exactly the clients that joined it: every direct client among them
  gets it once for each time it joined and no other socket gets anything; every load balancer that has
  one of its clients in the room gets it once for the whole room; and the messages come in the order of
  joining, sockets before balancers. Nothing but the log of writes changes.
\<close>
theorem broadcast_reaches_the_room:
  "\<exists>sockets balancers.
     broadcast n msg s = s\<lparr>sv_wire := sv_wire s @ map (\<lambda>h. ToSocket h msg) sockets
       @ map (\<lambda>conn. ToBalancer conn (M2BRoomMsg n None msg)) balancers\<rparr>
     \<and> sockets = filter (\<lambda>h. cl_kind (sv_clients s h) = Direct) (getClientsInRoom n s)
     \<and> distinct balancers
     \<and> set balancers = {conn. getConnection (sv_conn_ids s conn) s = Some conn
         \<and> (\<exists>h \<in> set (getClientsInRoom n s). balancer_id s h = Some (sv_conn_ids s conn))}
     \<and> (\<forall>h. heard h (broadcast n msg s) = heard h s @ replicate (count_list sockets h) msg)"
proof (rule exI [of _ "direct_only s (joined n s)"], rule exI [of _ "reached_balancers n s"], intro conjI allI)
  show "broadcast n msg s = s\<lparr>sv_wire := sv_wire s @ map (\<lambda>h. ToSocket h msg) (direct_only s (joined n s))
     @ map (\<lambda>conn. ToBalancer conn (M2BRoomMsg n None msg)) (reached_balancers n s)\<rparr>"
    by (rule broadcast_wire)
  show "direct_only s (joined n s) = filter (\<lambda>h. cl_kind (sv_clients s h) = Direct) (getClientsInRoom n s)"
    by (simp add: getClientsInRoom_def direct_only_def)
  show "set (reached_balancers n s) = {conn. getConnection (sv_conn_ids s conn) s = Some conn
      \<and> (\<exists>h \<in> set (getClientsInRoom n s). balancer_id s h = Some (sv_conn_ids s conn))}"
    using reached_balancers_iff unfolding getClientsInRoom_def by blast
qed (simp_all add: reached_balancers_distinct heard_broadcast count_direct_only)

section \<open>Joining a room\<close>

text \<open>The room user that a client's join request adds.\<close>

definition joining_user :: "world \<Rightarrow> clientObj \<Rightarrow> roomUser" where
  "joining_user w c = final_state (updateInfo w (getClientInfo c) (newRoomUser (cl_id c) (nullish (cl_token c) '''')))"

text \<open>A client whose session names an account that exists, or no account.\<close>

definition session_usable :: "world \<Rightarrow> clientObj \<Rightarrow> bool" where
  "session_usable w c \<longleftrightarrow> cl_id c \<noteq> [] \<and> (\<exists>token session. cl_token c = Some token \<and> token \<noteq> []
     \<and> cl_session c = Some session \<and> w_getSessionInfo w token = Inr (Some session)
     \<and> (case session of LoggedIn uid \<Rightarrow> uid \<noteq> 0 \<and> (\<exists>u. w_getUser w uid = Inr u) | LoggedOut n \<Rightarrow> True))"

lemma joining_user_identity:
  assumes "session_usable w c"
  shows "updateInfo w (getClientInfo c) (newRoomUser (cl_id c) (nullish (cl_token c) '''')) = Returns () (joining_user w c)"
    and "ru_id (joining_user w c) = cl_id c" "Some (ru_token (joining_user w c)) = cl_token c"
    "cl_session c = Some (LoggedIn uid) \<Longrightarrow> ru_user_id (joining_user w c) = Some uid"
    "cl_session c = Some (LoggedOut n) \<Longrightarrow> \<not> isLoggedIn (joining_user w c) \<and> username (joining_user w c) = n"
proof -
  obtain t session where facts: "cl_token c = Some t" "cl_session c = Some session"
      "case session of LoggedIn uid \<Rightarrow> uid \<noteq> 0 \<and> (\<exists>u. w_getUser w uid = Inr u) | LoggedOut n \<Rightarrow> True"
    using assms by (auto simp: session_usable_def)
  show "updateInfo w (getClientInfo c) (newRoomUser (cl_id c) (nullish (cl_token c) '''')) = Returns () (joining_user w c)"
    using facts by (cases session) (auto simp: joining_user_def updateInfo_def getClientInfo_def)
  show "ru_id (joining_user w c) = cl_id c" "Some (ru_token (joining_user w c)) = cl_token c"
    "cl_session c = Some (LoggedIn uid) \<Longrightarrow> ru_user_id (joining_user w c) = Some uid"
    "cl_session c = Some (LoggedOut n) \<Longrightarrow> \<not> isLoggedIn (joining_user w c) \<and> username (joining_user w c) = n"
    using facts by (cases session; auto simp: joining_user_def updateInfo_def getClientInfo_def newRoomUser_def
        set_status_def isLoggedIn_def username_def split: option.split)+
qed

definition join_event_of :: "world \<Rightarrow> clientObj \<Rightarrow> room \<Rightarrow> serverMessage" where
  "join_event_of w c r = MsgEvent (ServerMessageEvent (JoinRequest (getClientInfo c)) (user_info r (joining_user w c)) no_context)"

definition position_message :: "world \<Rightarrow> room \<Rightarrow> serverMessage" where
  "position_message w r = MsgSync (empty_sync\<lparr>sy_playbackPosition := Some (realPlaybackPosition w r)\<rparr>)"

definition user_message :: "world \<Rightarrow> clientObj \<Rightarrow> room \<Rightarrow> serverMessage" where
  "user_message w c r = MsgUser (UserUpdate (full_user_info (user_info r (joining_user w c))))"

definition with_user :: "world \<Rightarrow> clientObj \<Rightarrow> room \<Rightarrow> room" where
  "with_user w c r = r\<lparr>r_realusers := r_realusers r @ [joining_user w c],
     r_effects := r_effects r @ [RoomRequestReceived 0, Publish (join_event_of w c r),
       Publish (position_message w r), Publish (user_message w c r)]\<rparr>"

lemma ranked_role_kept [simp]:
  "ranked_role (r\<lparr>r_realusers := us\<rparr>) = ranked_role r" "ranked_role (r\<lparr>r_effects := es\<rparr>) = ranked_role r"
  by (simp_all add: fun_eq_iff ranked_role_def has_role_def)

lemma user_info_kept [simp]:
  "user_info (r\<lparr>r_realusers := us\<rparr>) = user_info r" "user_info (r\<lparr>r_effects := es\<rparr>) = user_info r"
  by (simp_all add: fun_eq_iff user_info_def getRole_def isOwner_def split: option.split)

lemma position_kept [simp]:
  "realPlaybackPosition w (r\<lparr>r_realusers := us\<rparr>) = realPlaybackPosition w r"
  "realPlaybackPosition w (r\<lparr>r_effects := es\<rparr>) = realPlaybackPosition w r"
  by (simp_all add: realPlaybackPosition_def calcDurationFromPlaybackStart_def split: option.split)

lemma room_update_order:
  "r\<lparr>r_effects := es, r_realusers := us\<rparr> = r\<lparr>r_realusers := us, r_effects := es\<rparr>"
  by simp

lemma getUserInfo_added:
  "getUser r c = None \<Longrightarrow> ru_id u = c \<Longrightarrow>
    getUserInfo (r\<lparr>r_realusers := r_realusers r @ [u], r_effects := es\<rparr>) c = Inr (user_info r u)"
proof -
  assume none: "getUser r c = None" and u: "ru_id u = c"
  have "find_index (\<lambda>i. ui_id i = c) (map (user_info r) (r_realusers r)) = None"
    using none by (auto simp: getUser_def find_None_iff find_index_None_iff user_info_def)
  then have "find (\<lambda>i. ui_id i = c) (map (user_info r) (r_realusers r) @ [user_info r u]) = Some (user_info r u)"
    using u by (simp add: find_find_index find_index_append nth_append) (simp add: user_info_def)
  then show ?thesis by (simp add: getUserInfo_def users_def)
qed

lemma join_request_adds_user:
  assumes "session_usable w c" and "getUser r (cl_id c) = None"
  shows "processUnauthorizedRequest w (JoinRequest (getClientInfo c))
      \<lparr>ra_token = nullish (cl_token c) '''', ra_clientId = Some (cl_id c)\<rparr> r = Returns () (with_user w c r)"
proof -
  let ?auth = "\<lparr>ra_token = nullish (cl_token c) '''', ra_clientId = Some (cl_id c)\<rparr>"
  have id: "cl_id c \<noteq> []" and token: "nullish (cl_token c) '''' \<noteq> []" using assms(1) by (auto simp: session_usable_def)
  have "\<exists>ctx. deriveRequestContext w ?auth r = Inr ctx \<and> rc_clientId ctx = Some (cl_id c) \<and> rc_auth ctx = Some ?auth"
  proof -
    obtain t session where "cl_token c = Some t" "w_getSessionInfo w t = Inr (Some session)"
      "case session of LoggedIn uid \<Rightarrow> uid \<noteq> 0 \<and> (\<exists>u. w_getUser w uid = Inr u) | LoggedOut n \<Rightarrow> True"
      using assms(1) by (auto simp: session_usable_def)
    then show ?thesis using assms(2) id by (cases session) (auto simp: deriveRequestContext_def)
  qed
  then obtain ctx where "deriveRequestContext w ?auth r = Inr ctx" "rc_clientId ctx = Some (cl_id c)"
    "rc_auth ctx = Some ?auth" by blast
  moreover have "ci_id (getClientInfo c) = cl_id c"
    by (simp add: getClientInfo_def split: option.split sessionInfo.split)
  ultimately show ?thesis
    using id token joining_user_identity(1,2) [OF assms(1)] getUserInfo_added [OF assms(2)]
    by (simp add: processUnauthorizedRequest_def fill_client_id_def processRequest.simps permitted_def Let_def
        joinRoom_def publishRoomEvent_def publish_def syncUser_def emit_def with_user_def join_event_of_def room_update_order
        position_message_def user_message_def)
qed

lemma client_room_kept [simp]:
  "getClientInfo (c\<lparr>cl_room := n\<rparr>) = getClientInfo c" "joining_user w (c\<lparr>cl_room := n\<rparr>) = joining_user w c"
  "session_usable w (c\<lparr>cl_room := n\<rparr>) = session_usable w c" "with_user w (c\<lparr>cl_room := n\<rparr>) r = with_user w c r"
proof -
  show info: "getClientInfo (c\<lparr>cl_room := n\<rparr>) = getClientInfo c"
    by (simp add: getClientInfo_def split: option.split sessionInfo.split)
  then show user: "joining_user w (c\<lparr>cl_room := n\<rparr>) = joining_user w c" by (simp add: joining_user_def)
  show "with_user w (c\<lparr>cl_room := n\<rparr>) r = with_user w c r"
    by (simp add: with_user_def join_event_of_def user_message_def info user)
qed (simp add: session_usable_def)

lemma on_room_adds_user:
  assumes "f (rm_rooms (sv_manager s) ! i) = Returns () (with_user w c r)" and "r = rm_rooms (sv_manager s) ! i"
  shows "on_room i f s = Returns () (broadcast (r_name r) (user_message w c r)
     (broadcast (r_name r) (position_message w r) (broadcast (r_name r) (join_event_of w c r)
       (set_manager (set_room i (with_user w c r) (sv_manager s)) s))))"
proof -
  have "drop (length (r_effects r)) (r_effects (with_user w c r)) = [RoomRequestReceived 0,
      Publish (join_event_of w c r), Publish (position_message w r), Publish (user_message w c r)]"
    by (simp add: with_user_def)
  then show ?thesis using assms by (simp add: on_room_def deliver_effect_def Let_def)
qed

text \<open>The server while a client is joining, before its join request: it has the full state, and it listens.\<close>

definition listening :: "backend \<Rightarrow> nat \<Rightarrow> nat \<Rightarrow> server \<Rightarrow> server" where
  "listening bk h i s = (let r = rm_rooms (sv_manager s) ! i; n = r_name r;
       s2 = send h (MsgSync (syncableState (bk_world bk) r)) (set_client h ((sv_clients s h)\<lparr>cl_room := n\<rparr>) s)
     in set_joins n (joined n s2 @ [h]) s2)"

lemma join_client_steps:
  assumes r: "r = rm_rooms (sv_manager s) ! i" "room_index (r_name r) (sv_manager s) = Some i"
    and c: "session_usable (bk_world bk) (sv_clients s h)" "getUser r (cl_id (sv_clients s h)) = None"
  shows "join_client bk h i s = send h (MsgYou (cl_id (sv_clients s h)))
    (send h (MsgUser (UserInit (users (with_user (bk_world bk) (sv_clients s h) r))))
      (broadcast (r_name r) (user_message (bk_world bk) (sv_clients s h) r)
        (broadcast (r_name r) (position_message (bk_world bk) r)
          (broadcast (r_name r) (join_event_of (bk_world bk) (sv_clients s h) r)
            (set_manager (set_room i (with_user (bk_world bk) (sv_clients s h) r) (sv_manager s)) (listening bk h i s))))))"
proof -
  let ?c = "sv_clients s h" and ?t = "listening bk h i s"
  have t: "sv_manager ?t = sv_manager s" "sv_clients ?t h = ?c\<lparr>cl_room := r_name r\<rparr>"
    using r(1) by (simp_all add: listening_def Let_def set_client_def)
  have i: "i < length (rm_rooms (sv_manager s))" using r(2) room_index_SomeD by blast
  have "processUnauthorizedRequest (bk_world bk) (JoinRequest (getClientInfo ?c))
      \<lparr>ra_token = nullish (cl_token ?c) '''', ra_clientId = Some (cl_id ?c)\<rparr> r = Returns () (with_user (bk_world bk) ?c r)"
    by (rule join_request_adds_user [OF c])
  moreover have "truthy_str (cl_token ?c)" using c(1) by (auto simp: session_usable_def)
  ultimately have "makeRoomRequest bk h (JoinRequest (getClientInfo (sv_clients ?t h))) ?t
      = Returns () (broadcast (r_name r) (user_message (bk_world bk) ?c r)
        (broadcast (r_name r) (position_message (bk_world bk) r)
          (broadcast (r_name r) (join_event_of (bk_world bk) ?c r)
            (set_manager (set_room i (with_user (bk_world bk) ?c r) (sv_manager s)) ?t))))"
    using t r on_room_adds_user [of _ ?t i "bk_world bk" ?c r] by (simp add: makeRoomRequest_def Let_def)
  moreover have "join_client bk h i s = (let s4 = final_state (makeRoomRequest bk h (JoinRequest (getClientInfo (sv_clients ?t h))) ?t);
      s5 = send h (MsgUser (UserInit (users (rm_rooms (sv_manager s4) ! i)))) s4 in send h (MsgYou (cl_id (sv_clients s5 h))) s5)"
    by (simp add: join_client_def listening_def Let_def)
  ultimately show ?thesis using t i by (simp add: Let_def)
qed

lemma heard_send:
  "cl_kind (sv_clients s h) = Direct \<Longrightarrow> heard h' (send h msg s) = heard h' s @ (if h = h' then [msg] else [])"
  by (simp add: send_def Let_def)

text \<open>
  A client whose session is valid joins the room it asked for. The room gets one more user, with the
  client's id and its account or name; the client hears the full state, the news of its own arrival, the
  list of users with itself in it, and its id, in this order; and every other direct client in the room
  hears of the arrival as often as it listens.
\<close>
theorem joining_client_is_told:
  assumes "r = rm_rooms (sv_manager s) ! i" "room_index (r_name r) (sv_manager s) = Some i"
    and "session_usable w (sv_clients s h)" "w = bk_world bk" "getUser r (cl_id (sv_clients s h)) = None"
    and "cl_kind (sv_clients s h) = Direct" "h \<notin> set (getClientsInRoom (r_name r) s)" "other \<noteq> h"
  defines "c \<equiv> sv_clients s h" and "s' \<equiv> join_client bk h i s"
    and "news \<equiv> [join_event_of w (sv_clients s h) r, position_message w r, user_message w (sv_clients s h) r]"
  shows "rm_rooms (sv_manager s') = (rm_rooms (sv_manager s))[i := with_user w c r]
    \<and> map ui_id (users (with_user w c r)) = map ui_id (users r) @ [cl_id c]
    \<and> getClientsInRoom (r_name r) s' = getClientsInRoom (r_name r) s @ [h]
    \<and> heard h s' = heard h s @ [MsgSync (syncableState w r)] @ news
        @ [MsgUser (UserInit (users (with_user w c r))), MsgYou (cl_id c)]
    \<and> heard other s' = heard other s @ concat (map (replicate (if cl_kind (sv_clients s other) = Direct
        then count_list (getClientsInRoom (r_name r) s) other else 0)) news)"
proof -
  let ?t = "listening bk h i s" and ?n = "r_name r"
  have t: "sv_manager ?t = sv_manager s" "joined ?n ?t = joined ?n s @ [h]"
    "cl_kind (sv_clients ?t x) = cl_kind (sv_clients s x)"
    "heard h ?t = heard h s @ [MsgSync (syncableState w r)]" "heard other ?t = heard other s" for x
    using assms(1,4,6,8)
    by (simp_all add: listening_def Let_def joined_set_joins heard_send)
  have count: "count_list (joined ?n s @ [h]) h = 1" using assms(7) by (simp add: getClientsInRoom_def)
  have s': "s' = send h (MsgYou (cl_id c)) (send h (MsgUser (UserInit (users (with_user w c r))))
      (broadcast ?n (user_message w c r) (broadcast ?n (position_message w r) (broadcast ?n (join_event_of w c r)
        (set_manager (set_room i (with_user w c r) (sv_manager s)) ?t)))))"
    using join_client_steps [OF assms(1,2)] assms(3-5) by (simp add: s'_def c_def)
  have "heard h s' = heard h s @ [MsgSync (syncableState w r)] @ news
        @ [MsgUser (UserInit (users (with_user w c r))), MsgYou (cl_id c)]"
    using assms(6) t count by (simp add: s' heard_send heard_broadcast news_def c_def)
  moreover have "heard other s' = heard other s @ concat (map (replicate (if cl_kind (sv_clients s other) = Direct
        then count_list (joined ?n s) other else 0)) news)"
    using assms(6,8) t by (simp add: s' heard_send heard_broadcast news_def c_def)
  moreover have "map ui_id (users (with_user w c r)) = map ui_id (users r) @ [cl_id c]"
    using joining_user_identity(2) assms(3) by (simp add: users_def with_user_def user_info_def c_def comp_def)
  ultimately show ?thesis using t by (simp add: s' getClientsInRoom_def)
qed

section \<open>Leaving a room\<close>

definition leave_event :: "room \<Rightarrow> roomUser \<Rightarrow> serverMessage" where
  "leave_event r u = MsgEvent (ServerMessageEvent LeaveRequest (user_info r u) (no_context\<lparr>ec_user := Some (user_info r u)\<rparr>))"

lemma leave_request_drops_user:
  assumes "getUser r c = Some u"
  shows "\<exists>r'. processRequestUnsafe w LeaveRequest c r = Returns () r' \<and> r_name r' = r_name r
    \<and> r_realusers r' = drop_user c (r_realusers r)
    \<and> r_effects r' = r_effects r @ [RoomRequestReceived 1, Publish (leave_event r u)]"
proof -
  have id: "ru_id u = c" using getUser_SomeD [OF assms] by simp
  have info: "getUserInfo (r\<lparr>r_effects := es\<rparr>) c = Inr (user_info r u)" for es
    using assms by (simp add: getUserInfo_eq getUser_def)
  have "getUserInfo r c = Inr (user_info r u)"
    using assms by (simp add: getUserInfo_eq getUser_def)
  then show ?thesis
    using info id
    by (simp add: processRequestUnsafe_def processRequest.simps permitted_def Let_def leaveRoom_def emit_def
        publishRoomEvent_def publish_def leave_event_def drop_votes_def room_markDirty_def)
qed

text \<open>
  When the socket of a client that has joined closes, the client is gone: from the connections, from
  the room's listeners and from the room's users; everybody else in the room is told twice, by the event
  and by the removal of the user, and nothing more is written to the closed socket.
\<close>
theorem leaving_client_is_forgotten:
  fixes bk :: backend
  assumes "h \<in> set (sv_connections s)" "distinct (sv_connections s)" "distinct (getClientsInRoom (r_name r) s)"
    and "cl_joinStatus (sv_clients s h) = Joined" "cl_room (sv_clients s h) = r_name r"
    and "room_index (r_name r) (sv_manager s) = Some i" "r = rm_rooms (sv_manager s) ! i"
    and "getUser r (cl_id (sv_clients s h)) = Some u" "sv_leaving s = []" "other \<noteq> h"
  defines "s' \<equiv> drain bk (disconnect_client h s)"
  shows "h \<notin> set (sv_connections s') \<and> h \<notin> set (getClientsInRoom (r_name r) s')
    \<and> (\<exists>r'. rm_rooms (sv_manager s') = (rm_rooms (sv_manager s))[i := r']
        \<and> r_realusers r' = drop_user (cl_id (sv_clients s h)) (r_realusers r))
    \<and> heard other s' = heard other s @ concat (map (replicate (if cl_kind (sv_clients s other) = Direct
        then count_list (getClientsInRoom (r_name r) s) other else 0))
        [leave_event r u, MsgUser (UserRemove (cl_id (sv_clients s h)))])
    \<and> heard h s' = heard h s"
proof -
  let ?n = "r_name r" and ?c = "cl_id (sv_clients s h)"
  define t where "t = (disconnect_client h s)\<lparr>sv_leaving := []\<rparr>"
  have joined: "joined ?n t = remove1 h (joined ?n s)"
    using assms(1,5)
    by (simp add: t_def disconnect_client_def Let_def joined_def set_joins_def split: option.split)
  have t: "sv_manager t = sv_manager s" "sv_clients t = sv_clients s" "sv_connections t = remove1 h (sv_connections s)"
    "heard x t = heard x s" for x
    using assms(1) manager_kept.g_disconnect [of h s]
    by (simp_all add: t_def disconnect_client_def heard_def set_joins_def Let_def split: option.split)
  have s': "s' = leave_room bk h t"
    using assms(4,9) by (simp add: s'_def drain_def t_def disconnect_client_def Let_def set_joins_def split: option.split)
  obtain r' where r': "processRequestUnsafe (bk_world bk) LeaveRequest ?c r = Returns () r'" "r_name r' = ?n"
    "r_realusers r' = drop_user ?c (r_realusers r)" "r_effects r' = r_effects r @ [RoomRequestReceived 1, Publish (leave_event r u)]"
    using leave_request_drops_user [OF assms(8)] by blast
  have run: "s' = broadcast ?n (MsgUser (UserRemove ?c)) (broadcast ?n (leave_event r u) (set_manager (set_room i r' (sv_manager s)) t))"
    using assms(5,6,7) r' t by (simp add: s' leave_room_def on_room_def Let_def deliver_effect_def)
  have h: "h \<notin> set (remove1 h (joined ?n s))" using assms(3) by (simp add: getClientsInRoom_def)
  have count: "count_list (remove1 h (joined ?n s)) other = count_list (joined ?n s) other"
    using assms(10) by (simp add: count_list_remove1)
  have gone: "count_list (remove1 h (joined ?n s)) h = 0" using h by (rule count_notin)
  have "heard other s' = heard other s @ concat (map (replicate (if cl_kind (sv_clients s other) = Direct
        then count_list (joined ?n s) other else 0)) [leave_event r u, MsgUser (UserRemove ?c)])"
    using joined t count by (simp add: run heard_broadcast)
  moreover have "heard h s' = heard h s" 
    unfolding run heard_broadcast using joined t gone by simp
  moreover have "sv_connections s' = remove1 h (sv_connections s)"
    using t by (simp add: run broadcast_wire set_manager_def)
  moreover have "\<exists>r'. rm_rooms (sv_manager s') = (rm_rooms (sv_manager s))[i := r']
      \<and> r_realusers r' = drop_user ?c (r_realusers r)"
    using r'(3) by (intro exI [of _ r']) (simp add: run)
  moreover have "joined ?n s' = remove1 h (joined ?n s)" using joined by (simp add: run)
  ultimately show ?thesis
    using h assms(2) by (simp add: getClientsInRoom_def)
qed

section \<open>The clients of an unloaded room\<close>

lemma kick_direct: "cl_kind (sv_clients s h) = Direct \<Longrightarrow> kick code h s = transmit (CloseSocket h code) s"
  by (simp add: kick_def Let_def)

lemma kick_joined_direct:
  "list_all (\<lambda>h. cl_kind (sv_clients s h) = Direct) (joined n s) \<Longrightarrow>
    kick_joined n code i s = s\<lparr>sv_wire := sv_wire s @ map (\<lambda>h. CloseSocket h code) (drop i (joined n s))\<rparr>"
proof (induction n code i s rule: kick_joined.induct)
  case (1 n code i s)
  show ?case
  proof (cases "i < length (joined n s)")
    case True
    then have kick: "kick code (joined n s ! i) s = transmit (CloseSocket (joined n s ! i) code) s"
      using 1 by (simp add: kick_direct list_all_length)
    moreover have "kick_joined n code (Suc i) (kick code (joined n s ! i) s)
        = transmit (CloseSocket (joined n s ! i) code) s\<lparr>sv_wire := sv_wire s
           @ [CloseSocket (joined n s ! i) code] @ map (\<lambda>h. CloseSocket h code) (drop (Suc i) (joined n s))\<rparr>"
      using 1 True by (simp add: kick)
    ultimately show ?thesis
      using True by (subst kick_joined.simps) (simp add: transmit_def Cons_nth_drop_Suc [symmetric])
  qed (subst kick_joined.simps, simp)
qed

text \<open>The elements an index loop visits when each visit removes the element at the index.\<close>

fun every_other :: "'a list \<Rightarrow> 'a list" where
  "every_other [] = []"
| "every_other [x] = [x]"
| "every_other (x # y # zs) = x # every_other zs"

definition kick_message :: "server \<Rightarrow> int \<Rightarrow> nat \<Rightarrow> wire" where
  "kick_message s code h = (case cl_kind (sv_clients s h) of
      Direct \<Rightarrow> CloseSocket h code | Balanced conn \<Rightarrow> ToBalancer conn (M2BKick (cl_id (sv_clients s h)) code))"

definition only_in :: "string \<Rightarrow> server \<Rightarrow> nat \<Rightarrow> bool" where
  "only_in n s h \<longleftrightarrow> cl_kind (sv_clients s h) \<noteq> Direct \<and> cl_room (sv_clients s h) = n \<and> h \<in> set (sv_connections s)"

lemma kick_balanced:
  assumes "only_in n s h" and "map_of (sv_roomJoins s) n = Some (pre @ h # rest)" and "h \<notin> set pre"
  shows "map_of (sv_roomJoins (kick code h s)) n = Some (pre @ rest)"
    "sv_connections (kick code h s) = remove1 h (sv_connections s)"
    "sv_wire (kick code h s) = sv_wire s @ [kick_message s code h]"
  using assms
  by (auto simp: only_in_def kick_def disconnect_client_def Let_def transmit_def set_joins_def kick_message_def
      remove1_append split: clientKind.splits)

lemma kick_joined_balanced:
  "map_of (sv_roomJoins s) n = Some (pre @ rest) \<Longrightarrow> length pre = i \<Longrightarrow> distinct (pre @ rest) \<Longrightarrow>
    list_all (only_in n s) rest \<Longrightarrow>
    sv_wire (kick_joined n code i s) = sv_wire s @ map (kick_message s code) (every_other rest)
    \<and> sv_connections (kick_joined n code i s) = fold remove1 (every_other rest) (sv_connections s)"
proof (induction rest arbitrary: pre i s rule: every_other.induct)
  case (2 x)
  have j: "joined n s = pre @ [x]" using 2(1) by (simp add: joined_def)
  note k = kick_balanced [of n s x pre "[]" code]
  have "joined n (kick code x s) = pre" using k 2 by (simp add: joined_def)
  then have "kick_joined n code i s = kick code x s"
    using j 2(2) by (subst kick_joined.simps) (simp add: kick_joined.simps [of n code "Suc i"] nth_append)
  then show ?case using k 2 by simp
next
  case (3 x y zs)
  have j: "joined n s = pre @ x # y # zs" using 3(2) by (simp add: joined_def)
  let ?t = "kick code x s"
  have k: "map_of (sv_roomJoins ?t) n = Some ((pre @ [y]) @ zs)" "sv_connections ?t = remove1 x (sv_connections s)"
    "sv_wire ?t = sv_wire s @ [kick_message s code x]"
    using kick_balanced [of n s x pre "y # zs" code] 3(2,4,5) by simp_all
  have "list_all (only_in n ?t) zs"
    using 3(4,5) k(2) in_set_remove1 [of _ x "sv_connections s"]
    unfolding list_all_iff only_in_def by (metis clients_kept.g_kick distinct_append distinct.simps(2) list.set_intros(2))
  moreover have "kick_message ?t code = kick_message s code" by (simp add: kick_message_def fun_eq_iff split: clientKind.split)
  moreover have "kick_joined n code i s = kick_joined n code (Suc i) ?t"
    using j 3(3) by (subst kick_joined.simps) (simp add: nth_append)
  ultimately show ?case
    using 3(1) [OF k(1), of "Suc i"] 3(3,4) k by simp
qed (subst kick_joined.simps, simp add: joined_def)+

lemma fold_remove1: "distinct xs \<Longrightarrow> fold remove1 ys xs = filter (\<lambda>x. x \<notin> set ys) xs"
proof (induction ys arbitrary: xs)
  case (Cons y ys)
  then show ?case by (simp add: distinct_remove1_removeAll removeAll_filter_not_eq) (rule filter_cong; auto)
qed simp

text \<open>
  When a room is unloaded, the sockets of all its direct clients are closed, in the order in which
  they joined, with the code that belongs to the reason: the clients may reconnect after a move to another
  node or a shutdown, and are told that the room is gone otherwise. Nobody listens to the room any more.
\<close>
theorem unload_closes_direct_clients:
  assumes "list_all (\<lambda>h. cl_kind (sv_clients s h) = Direct) (getClientsInRoom n s)"
  shows "sv_wire (onRoomUnload n reason s) = sv_wire s @ map (\<lambda>h. CloseSocket h
        (if reason = Commanded \<or> reason = Shutdown then 1001 else 4003)) (getClientsInRoom n s)
    \<and> getClientsInRoom n (onRoomUnload n reason s) = []
    \<and> (m \<noteq> n \<longrightarrow> getClientsInRoom m (onRoomUnload n reason s) = getClientsInRoom m s)"
proof -
  have "ws_code (roomUnloadReasons reason) = (if reason = Commanded \<or> reason = Shutdown then 1001 else 4003)"
    by (cases reason) simp_all
  then show ?thesis
    using assms by (simp add: onRoomUnload_def Let_def getClientsInRoom_def kick_joined_direct) (simp add: joined_def)
qed

text \<open>
  Clients behind a load balancer are not all told: kicking one removes it from the array that the loop
  goes through by index, so every second client is skipped. It stays connected, without a room.
\<close>
theorem unload_skips_every_second:
  assumes "list_all (only_in n s) (getClientsInRoom n s)" and "distinct (getClientsInRoom n s)"
    and "distinct (sv_connections s)"
  shows "sv_wire (onRoomUnload n reason s)
      = sv_wire s @ map (kick_message s (ws_code (roomUnloadReasons reason))) (every_other (getClientsInRoom n s))
    \<and> sv_connections (onRoomUnload n reason s)
      = filter (\<lambda>h. h \<notin> set (every_other (getClientsInRoom n s))) (sv_connections s)"
proof (cases "map_of (sv_roomJoins s) n")
  case (Some hs)
  then show ?thesis
    using assms kick_joined_balanced [of s n "[]" hs 0 "ws_code (roomUnloadReasons reason)"]
    by (simp add: onRoomUnload_def Let_def getClientsInRoom_def joined_def fold_remove1)
next
  case None
  then show ?thesis
    by (simp add: onRoomUnload_def Let_def getClientsInRoom_def joined_def kick_joined.simps)
qed

end
