(* ===== verification/ServerRuns.thy ===== *)
theory ServerRuns
  imports ServerProperties
begin

text \<open>
  Runs of the server from its start: one client that connects, shows a token and joins a room stored in
  redis, with and without its socket closing on the way. They are the concrete instances of the
  properties, and they show what can go wrong when redis answers late.
\<close>

section \<open>A room in redis\<close>

definition stored_backend :: backend where
  "stored_backend = (demo_backend [demo_room])\<lparr>bk_world := session_world\<rparr>"

lemma stored_room_loads:
  "\<exists>r. (\<forall>m. load_room stored_backend ''a'' m
        = Returns (Inr (length (rm_rooms m))) \<lparr>rm_rooms = rm_rooms m @ [r], rm_log = rm_log m @ [Loaded ''a'']\<rparr>)
     \<and> r_name r = ''a'' \<and> r_realusers r = []"
proof -
  have wf: "room_wf demo_room" "r_name demo_room = ''a''"
    by (rule demo_room_wf) (simp add: demo_room_def small_room_def)
  then have "grants_ok (r_grants demo_room)" by (simp add: room_wf_def)
  then obtain g where g: "newGrants (toJSON (r_grants demo_room)) = Inr g" using grants_ok_replay by blast
  then obtain opts where opts: "redisStateToState (serializeState demo_room) = Inr opts" "ro_name opts = Some ''a''"
    "ro_grants opts = GrantsObject g"
    using wf(2) by (simp add: redisStateToState_def serializeState_def)
  then obtain r where r: "newRoom session_world opts = Inr r" by (simp add: newRoom_def resolve_grants_def Let_def)
  have name: "r_name r = ''a''" using newRoom_name [OF r] opts(2) by simp
  have no_users: "r_realusers r = []"
    using r opts(3) by (auto simp: newRoom_def resolve_grants_def Let_def initial_room_def room_defs split: if_splits)
  have "load_room stored_backend ''a'' m = Returns (Inr (length (rm_rooms m)))
      \<lparr>rm_rooms = rm_rooms m @ [r\<lparr>r_loadEpoch := 1\<rparr>], rm_log = rm_log m @ [Loaded ''a'']\<rparr>" for m
    using r opts(1) wf(2) name
    by (simp add: load_room_def stored_options_def stored_backend_def demo_backend_def addRoom_def Let_def
        set_room_def log_event_def)
  then show ?thesis using name no_users by (intro exI [of _ "r\<lparr>r_loadEpoch := 1\<rparr>"]) simp
qed

section \<open>A client that waits for its room\<close>

definition shown_client :: clientObj where
  "shown_client = \<lparr>cl_id = ''c'', cl_room = ''a'', cl_token = Some ''t'', cl_session = Some (LoggedOut ''x''),
     cl_joinStatus = Joined, cl_kind = Direct\<rparr>"

definition waiting_server :: server where
  "waiting_server = no_server\<lparr>sv_clients := (\<lambda>_. newClient [] [] Direct)(0 := shown_client), sv_next := 1,
     sv_connections := [0], sv_waiting := [AwaitRoom 0 ''a'']\<rparr>"

lemma drain_idle [simp]: "sv_leaving s = [] \<Longrightarrow> drain bk s = s"
  by (simp add: drain_def)

lemma waiting_server_reachable: "server_step\<^sup>*\<^sup>* no_server waiting_server"
proof -
  define s1 where "s1 = onDirectConnect ''c'' ''a'' no_server"
  have name: "ROOM_NAME_REGEX ''a''" by code_simp
  have s1: "s1 = no_server\<lparr>sv_clients := (\<lambda>_. newClient [] [] Direct)(0 := newClient ''c'' ''a'' Direct), sv_next := 1,
      sv_connections := [0]\<rparr>"
    by (simp add: s1_def onDirectConnect_def name addClient_def Let_def no_server_def server_defs)
  define s2 where "s2 = drain stored_backend (onData stored_backend 0 (ClientAuth ''t'') s1)"
  have s2: "s2 = s1\<lparr>sv_clients := (\<lambda>_. newClient [] [] Direct)(0 := (newClient ''c'' ''a'' Direct)\<lparr>cl_token := Some ''t''\<rparr>),
      sv_waiting := [AwaitSession 0 ''t'']\<rparr>"
    by (simp add: s2_def s1 onData_def auth_def server_defs no_server_def)
  have "server_step no_server s1" unfolding s1_def by (rule server_step.connect)
  moreover have "server_step s1 s2"
    unfolding s2_def by (rule server_step.data) (simp_all add: s1 newClient_def)
  moreover have "drain stored_backend (resume stored_backend (sv_waiting s2 ! 0) (remove_waiting 0 s2)) = waiting_server"
    by (simp add: s2 s1 no_server_def waiting_server_def resume_def auth_session_def stored_backend_def demo_backend_def
        session_world_def onClientAuth_def room_index_def server_defs shown_client_def newClient_def
        remove_waiting_def remove_at_def Let_def)
  then have "server_step s2 waiting_server"
    using server_step.resume [of 0 s2 stored_backend] by (simp add: s2)
  ultimately show ?thesis by (meson converse_rtranclp_into_rtranclp rtranclp.rtrancl_refl)
qed

text \<open>The socket closes before redis has answered: the server forgets the connection.\<close>

lemma closed_early:
  "server_step waiting_server (waiting_server\<lparr>sv_connections := []\<rparr>)"
proof -
  have "drain stored_backend (disconnect_client 0 waiting_server) = waiting_server\<lparr>sv_connections := []\<rparr>"
    by (simp add: waiting_server_def no_server_def disconnect_client_def shown_client_def drain_def leave_room_def
        room_index_def Let_def)
  then show ?thesis
    using server_step.close [of 0 waiting_server stored_backend] by (simp add: waiting_server_def shown_client_def)
qed

lemma manager_done_loaded:
  "sv_balancers s = [] \<Longrightarrow> rm_log m = rm_log (sv_manager s) @ [Loaded n] \<Longrightarrow> manager_done m s = set_manager m s"
  by (simp add: manager_done_def deliver_event_def balancer_onRoomLoad_def broadcastToBalancers_def Let_def
      set_manager_def split: option.split)

lemma session_usable_shown: "session_usable session_world shown_client"
  by (simp add: session_usable_def shown_client_def session_world_def)

lemma sv_kept [simp]:
  "sv_connections (broadcast n msg s) = sv_connections s" "sv_connections (set_manager m s) = sv_connections s"
  "sv_leaving (broadcast n msg s) = sv_leaving s" "sv_leaving (set_manager m s) = sv_leaving s"
  "sv_waiting (broadcast n msg s) = sv_waiting s" "sv_waiting (set_manager m s) = sv_waiting s"
  "sv_connections (send h msg s) = sv_connections s" "sv_leaving (send h msg s) = sv_leaving s"
  "sv_waiting (send h msg s) = sv_waiting s"
  by (simp_all add: broadcast_wire set_manager_def send_def Let_def transmit_def split: clientKind.split)

lemma listening_kept [simp]:
  "sv_connections (listening bk h i s) = sv_connections s" "sv_leaving (listening bk h i s) = sv_leaving s"
  "sv_waiting (listening bk h i s) = sv_waiting s"
  by (simp_all add: listening_def Let_def set_joins_def) (simp_all add: set_client_def)

text \<open>The step in which redis answers, whatever became of the connection.\<close>

lemma late_answer:
  assumes "s = waiting_server\<lparr>sv_connections := conns\<rparr>"
  shows "\<exists>s' r. server_step s s' \<and> rm_rooms (sv_manager s') = [r] \<and> map ru_id (r_realusers r) = [''c'']
    \<and> r_name r = ''a'' \<and> joined ''a'' s' = [0] \<and> sv_connections s' = conns \<and> sv_waiting s' = [] \<and> sv_leaving s' = []
    \<and> MsgYou ''c'' \<in> set (heard 0 s')"
proof -
  let ?m0 = "\<lparr>rm_rooms = [], rm_log = []\<rparr>"
  obtain r where r: "load_room stored_backend ''a'' ?m0 = Returns (Inr 0) \<lparr>rm_rooms = [r], rm_log = [Loaded ''a'']\<rparr>"
    "r_name r = ''a''" "r_realusers r = []"
    using stored_room_loads by fastforce
  let ?m = "\<lparr>rm_rooms = [r], rm_log = [Loaded ''a'']\<rparr>"
  define s1 where "s1 = set_manager ?m (s\<lparr>sv_waiting := []\<rparr>)"
  have s1: "sv_manager s1 = ?m" "sv_clients s1 0 = shown_client" "sv_leaving s1 = []" "sv_waiting s1 = []"
    "sv_connections s1 = conns" "joined ''a'' s1 = []"
    by (simp_all add: s1_def assms waiting_server_def no_server_def) (simp add: joined_def set_manager_def)
  have "manager_done ?m (s\<lparr>sv_waiting := []\<rparr>) = s1"
    unfolding s1_def by (rule manager_done_loaded) (simp_all add: assms waiting_server_def no_server_def)
  then have res: "resume stored_backend (sv_waiting s ! 0) (remove_waiting 0 s) = join_client stored_backend 0 0 s1"
    using r(1) by (simp add: assms resume_def remove_waiting_def remove_at_def waiting_server_def no_server_def
        client_room_loaded_def)
  have world: "bk_world stored_backend = session_world" by (simp add: stored_backend_def)
  have idx: "room_index (r_name r) ?m = Some 0" by (simp add: room_index_def same_name_def)
  have user: "ru_id (joining_user session_world shown_client) = ''c''"
    using joining_user_identity(2) [OF session_usable_shown] by (simp add: shown_client_def)
  have usable: "session_usable (bk_world stored_backend) (sv_clients s1 0)"
    "getUser r (cl_id (sv_clients s1 0)) = None" "rm_rooms (sv_manager s1) ! 0 = r"
    using s1 r(3) session_usable_shown by (simp_all add: world getUser_def)
  have run: "join_client stored_backend 0 0 s1 = send 0 (MsgYou ''c'')
    (send 0 (MsgUser (UserInit (users (with_user session_world shown_client r))))
      (broadcast ''a'' (user_message session_world shown_client r)
        (broadcast ''a'' (position_message session_world r)
          (broadcast ''a'' (join_event_of session_world shown_client r)
            (set_manager (set_room 0 (with_user session_world shown_client r) ?m) (listening stored_backend 0 0 s1))))))"
    using join_client_steps [of r s1 0 stored_backend 0] usable s1 r(2) idx world
    by (simp add: shown_client_def)
  let ?s' = "drain stored_backend (join_client stored_backend 0 0 s1)"
  have leaving: "sv_leaving (join_client stored_backend 0 0 s1) = []" by (simp add: run s1)
  have "server_step s ?s'"
    using server_step.resume [of 0 s stored_backend] res by (simp add: assms waiting_server_def)
  moreover have "joined ''a'' ?s' = [0]"
    using s1 usable r(2) by (simp add: drain_idle [OF leaving]) (simp add: run listening_def Let_def joined_set_joins)
  moreover have "map ru_id (r_realusers (with_user session_world shown_client r)) = [''c'']"
    using r(3) user by (simp add: with_user_def)
  moreover have "r_name (with_user session_world shown_client r) = ''a''" by (simp add: with_user_def r(2))
  moreover have "MsgYou ''c'' \<in> set (heard 0 ?s')"
    using s1 by (simp add: drain_idle [OF leaving]) (simp add: run listening_def Let_def send_def shown_client_def)
  ultimately show ?thesis
    using s1 by (intro exI [of _ ?s'] exI [of _ "with_user session_world shown_client r"])
      (simp add: drain_idle [OF leaving], simp add: run set_room_def)
qed

section \<open>Instances\<close>

lemma demo_room_name: "r_name demo_room = ''a''" "r_realusers demo_room = []"
  by (simp_all add: demo_room_def small_room_def initial_room_def room_defs)

definition room_server :: "room \<Rightarrow> server" where
  "room_server r = waiting_server\<lparr>sv_manager := \<lparr>rm_rooms = [r], rm_log = []\<rparr>, sv_waiting := []\<rparr>"

lemma room_server_simps [simp]:
  "sv_manager (room_server r) = \<lparr>rm_rooms = [r], rm_log = []\<rparr>" "sv_clients (room_server r) 0 = shown_client"
  "sv_connections (room_server r) = [0]" "joined n (room_server r) = []" "sv_leaving (room_server r) = []"
  by (simp_all add: room_server_def waiting_server_def no_server_def joined_def)

theorem joining_client_is_told_witness:
  "getClientsInRoom ''a'' (join_client stored_backend 0 0 (room_server demo_room)) = [0]
   \<and> last (heard 0 (join_client stored_backend 0 0 (room_server demo_room))) = MsgYou ''c''"
proof -
  have "room_index (r_name demo_room) (sv_manager (room_server demo_room)) = Some 0"
    by (simp add: room_index_def same_name_def)
  moreover have "session_usable session_world (sv_clients (room_server demo_room) 0)"
    "session_world = bk_world stored_backend" "cl_kind (sv_clients (room_server demo_room) 0) = Direct"
    using session_usable_shown by (simp_all add: stored_backend_def shown_client_def)
  moreover have "getUser demo_room (cl_id (sv_clients (room_server demo_room) 0)) = None"
    by (simp add: getUser_def demo_room_name)
  moreover have "0 \<notin> set (getClientsInRoom (r_name demo_room) (room_server demo_room))"
    by (simp add: getClientsInRoom_def)
  ultimately show ?thesis
    using joining_client_is_told [of demo_room "room_server demo_room" 0 session_world 0 stored_backend 1]
    by (simp add: demo_room_name getClientsInRoom_def shown_client_def)
qed

theorem leaving_client_is_forgotten_witness:
  "\<exists>s. getClientsInRoom ''a'' s = [0] \<and> sv_connections s = [0]
     \<and> 0 \<notin> set (getClientsInRoom ''a'' (drain stored_backend (disconnect_client 0 s)))"
proof -
  let ?r = "demo_room\<lparr>r_realusers := [newRoomUser ''c'' ''t'']\<rparr>"
  let ?s = "(room_server ?r)\<lparr>sv_roomJoins := [(''a'', [0])]\<rparr>"
  have "getUser ?r (cl_id (sv_clients ?s 0)) = Some (newRoomUser ''c'' ''t'')"
    by (simp add: getUser_def shown_client_def newRoomUser_def)
  moreover have "room_index (r_name ?r) (sv_manager ?s) = Some 0" by (simp add: room_index_def same_name_def)
  ultimately have "0 \<notin> set (getClientsInRoom ''a'' (drain stored_backend (disconnect_client 0 ?s)))"
    using leaving_client_is_forgotten [of 0 ?s ?r 0 "newRoomUser ''c'' ''t''" 1 stored_backend]
    by (simp add: demo_room_name getClientsInRoom_def joined_def shown_client_def)
  then show ?thesis by (intro exI [of _ ?s]) (simp add: getClientsInRoom_def joined_def)
qed

theorem unload_closes_direct_clients_witness:
  "sv_wire (onRoomUnload ''a'' Keepalive (no_server\<lparr>sv_roomJoins := [(''a'', [0, 1])]\<rparr>)) = [CloseSocket 0 4003, CloseSocket 1 4003]"
proof -
  let ?s = "no_server\<lparr>sv_roomJoins := [(''a'', [0, 1])]\<rparr>"
  have "list_all (\<lambda>h. cl_kind (sv_clients ?s h) = Direct) (getClientsInRoom ''a'' ?s)"
    by (simp add: no_server_def newClient_def getClientsInRoom_def joined_def)
  from unload_closes_direct_clients [OF this, of Keepalive "''b''"] show ?thesis
    by (simp add: getClientsInRoom_def joined_def) (simp add: no_server_def)
qed

theorem unload_skips_every_second_witness:
  "sv_connections (onRoomUnload ''a'' Keepalive (no_server\<lparr>sv_roomJoins := [(''a'', [0, 1, 2])],
     sv_connections := [0, 1, 2], sv_clients := \<lambda>h. newClient ''c'' ''a'' (Balanced 0)\<rparr>)) = [1]"
proof -
  let ?s = "no_server\<lparr>sv_roomJoins := [(''a'', [0, 1, 2])], sv_connections := [0, 1, 2],
     sv_clients := \<lambda>h. newClient ''c'' ''a'' (Balanced 0)\<rparr>"
  have "list_all (only_in ''a'' ?s) (getClientsInRoom ''a'' ?s)" "distinct (getClientsInRoom ''a'' ?s)"
    "distinct (sv_connections ?s)" "getClientsInRoom ''a'' ?s = [0, 1, 2]"
    by (simp_all add: newClient_def getClientsInRoom_def joined_def only_in_def)
  from unload_skips_every_second [OF this(1-3), of Keepalive] this(4) show ?thesis by simp
qed

section \<open>Only authenticated clients hear a room\<close>

lemma heard_by_Some: "heard_by h x = Some msg \<longleftrightarrow> x = ToSocket h msg"
  by (cases x) (auto simp: heard_by_def)

lemma heard_wire: "msg \<in> set (heard h s) \<Longrightarrow> ToSocket h msg \<in> set (sv_wire s)"
  by (auto simp: heard_def in_map_filter heard_by_Some)


lemma joined_run:
  "\<exists>s r. server_step\<^sup>*\<^sup>* no_server s \<and> rm_rooms (sv_manager s) = [r] \<and> map ru_id (r_realusers r) = [''c'']
    \<and> r_name r = ''a'' \<and> joined ''a'' s = [0] \<and> sv_connections s = [0]"
proof -
  have "waiting_server = waiting_server\<lparr>sv_connections := [0]\<rparr>" by (simp add: waiting_server_def)
  from late_answer [OF this] obtain s r where s: "server_step waiting_server s" "rm_rooms (sv_manager s) = [r]"
    "map ru_id (r_realusers r) = [''c'']" "r_name r = ''a''" "joined ''a'' s = [0]" "sv_connections s = [0]" by auto
  from waiting_server_reachable s(1) have "server_step\<^sup>*\<^sup>* no_server s" by (rule rtranclp.rtrancl_into_rtrancl)
  with s show ?thesis by auto
qed


section \<open>The update of the server\<close>


section \<open>A client that is gone too early\<close>

text \<open>
  When a socket closes after the session was confirmed and before redis has answered with the room,
  the answer still lets the client in: the server reaches a state without any connection, nothing waiting,
  in which the client is a user of the room and among its listeners. Nothing is left that would remove it.
\<close>
theorem closed_client_stays_in_room:
  "\<exists>s r. server_step\<^sup>*\<^sup>* no_server s \<and> rm_rooms (sv_manager s) = [r] \<and> map ru_id (r_realusers r) = [''c'']
     \<and> getClientsInRoom ''a'' s = [0] \<and> sv_connections s = [] \<and> sv_waiting s = [] \<and> sv_leaving s = []"
proof -
  have start: "server_step\<^sup>*\<^sup>* no_server (waiting_server\<lparr>sv_connections := []\<rparr>)"
    using waiting_server_reachable closed_early by (rule rtranclp.rtrancl_into_rtrancl)
  from late_answer [OF refl, of "[]"] obtain s r where s: "server_step (waiting_server\<lparr>sv_connections := []\<rparr>) s"
    "rm_rooms (sv_manager s) = [r]" "map ru_id (r_realusers r) = [''c'']" "joined ''a'' s = [0]" "sv_connections s = []"
    "sv_waiting s = []" "sv_leaving s = []" by auto
  from start s(1) have "server_step\<^sup>*\<^sup>* no_server s" by (rule rtranclp.rtrancl_into_rtrancl)
  with s show ?thesis by (auto simp: getClientsInRoom_def)
qed

end
