(* ===== verification/Http.thy ===== *)
theory Http
  imports Exceptions
begin

text \<open>
  What the HTTP handlers share: requests and responses as express and the auth middleware present them,
  the values a handler can throw, \<open>server/rate-limit.ts\<close> and \<open>server/admin.ts\<close>. A handler is a call on
  an \<open>exchange\<close>: the state of the server, the response headers set so far and the responses sent.
\<close>

section \<open>Failures\<close>

text \<open>
  Besides the exceptions of the repository: what \<open>zod\<close> throws on a body that does not fit its schema (its
  issues: the path, the kind of check, and the text the schema gives), the error classes of \<open>usermanager.ts\<close>, and the two errors of the database layer that
  handlers tell apart.
\<close>

record zodIssue =
  zi_path :: string
  zi_code :: string
  zi_message :: "string option"

datatype failure =
    Raised exn
  | ZodError "zodIssue list"
  | BadPasswordError
  | UsernameTakenError
  | EmailAlreadyInUseError
  | UniqueConstraintError "string list"
  | SequelizeValidationError string

definition bad_password_message :: string where
  "bad_password_message = ''Password does not meet minimum requirements. Must be at least 8 characters long, and contain 2 of the following categories of characters: lowercase letters, uppercase letters, numbers, special characters.''"

primrec failure_name :: "failure \<Rightarrow> string" where
  "failure_name (Raised e) = exn_name e"
| "failure_name (ZodError issues) = ''ZodError''"
| "failure_name BadPasswordError = ''BadPasswordError''"
| "failure_name UsernameTakenError = ''UsernameTakenError''"
| "failure_name EmailAlreadyInUseError = ''EmailAlreadyInUseError''"
| "failure_name (UniqueConstraintError fs) = ''SequelizeUniqueConstraintError''"
| "failure_name (SequelizeValidationError m) = ''SequelizeValidationError''"

primrec failure_message :: "failure \<Rightarrow> string" where
  "failure_message (Raised e) = exn_message e"
| "failure_message (ZodError issues) = concat (List.map_filter zi_message issues)"
| "failure_message BadPasswordError = bad_password_message"
| "failure_message UsernameTakenError = ''Username taken.''"
| "failure_message EmailAlreadyInUseError = ''Email taken.''"
| "failure_message (UniqueConstraintError fs) = ''Validation error''"
| "failure_message (SequelizeValidationError m) = m"

primrec is_ott_failure :: "failure \<Rightarrow> bool" where
  "is_ott_failure (Raised e) = is_ott_exception e"
| "is_ott_failure (ZodError issues) = False"
| "is_ott_failure BadPasswordError = True"
| "is_ott_failure UsernameTakenError = True"
| "is_ott_failure EmailAlreadyInUseError = True"
| "is_ott_failure (UniqueConstraintError fs) = False"
| "is_ott_failure (SequelizeValidationError m) = False"

text \<open>Checks of a schema: what \<open>ok\<close> does not satisfy becomes an issue.\<close>

definition issue :: "string \<Rightarrow> string \<Rightarrow> string option \<Rightarrow> bool \<Rightarrow> zodIssue list" where
  "issue path code m ok = (if ok then [] else [\<lparr>zi_path = path, zi_code = code, zi_message = m\<rparr>])"

definition when_given :: "'a option \<Rightarrow> ('a \<Rightarrow> zodIssue list) \<Rightarrow> zodIssue list" where
  "when_given v f = (case v of None \<Rightarrow> [] | Some a \<Rightarrow> f a)"

definition parsed :: "zodIssue list \<Rightarrow> 'a \<Rightarrow> failure + 'a" where
  "parsed issues a = (if issues = [] then Inr a else Inl (ZodError issues))"

text \<open>\<open>z.union\<close>: the first schema that fits.\<close>

fun union_of :: "(failure + 'a) option list \<Rightarrow> failure + 'a" where
  "union_of [] = Inl (ZodError [\<lparr>zi_path = [], zi_code = ''invalid_union'', zi_message = None\<rparr>])"
| "union_of (Some (Inr a) # rest) = Inr a"
| "union_of (_ # rest) = union_of rest"

section \<open>Exchanges\<close>

record apiError =
  ae_name :: "string option"
  ae_message :: "string option"
  ae_arg :: "string option"
  ae_reason :: "string option"
  ae_fields :: "string list option"

definition named_error :: "string \<Rightarrow> string \<Rightarrow> apiError" where
  "named_error n m = \<lparr>ae_name = Some n, ae_message = Some m, ae_arg = None, ae_reason = None, ae_fields = None\<rparr>"

definition message_error :: "string \<Rightarrow> apiError" where
  "message_error m = \<lparr>ae_name = None, ae_message = Some m, ae_arg = None, ae_reason = None, ae_fields = None\<rparr>"

text \<open>
  \<open>Done p\<close>: \<open>success: true\<close> with a payload; \<open>Failed e\<close>: \<open>success: false\<close> with an error;
  \<open>FailedText t\<close> with a text in its place; \<open>FailedBare\<close> without one; \<open>FailedOpen e\<close>: an error without
  the \<open>success\<close> property.
\<close>

datatype 'p body = Done 'p | Failed apiError | FailedText string | FailedBare | FailedOpen apiError

datatype headerValue = HNumber int | HText string | HDate int

record 'p response =
  rs_status :: int
  rs_headers :: "(string \<times> headerValue) list"
  rs_body :: "'p body"

record ('s, 'p) exchange =
  ex_state :: 's
  ex_headers :: "(string \<times> headerValue) list"
  ex_sent :: "'p response list"

type_synonym ('a, 's, 'p) handler_call = "(failure, 'a, ('s, 'p) exchange) outcome"

definition on_state :: "('s \<Rightarrow> 's) \<Rightarrow> ('s, 'p) exchange \<Rightarrow> ('s, 'p) exchange" where
  "on_state f x = x\<lparr>ex_state := f (ex_state x)\<rparr>"

text \<open>A second response, or a header set after the first, is an error of the runtime.\<close>

definition headers_sent :: failure where
  "headers_sent = Raised (JsError ''Cannot set headers after they are sent to the client'')"

definition set_header :: "string \<Rightarrow> headerValue \<Rightarrow> ('s, 'p) exchange \<Rightarrow> (unit, 's, 'p) handler_call" where
  "set_header k v x = (if ex_sent x = [] then Returns () (x\<lparr>ex_headers := AList.update k v (ex_headers x)\<rparr>)
     else Throws headers_sent x)"

definition respond :: "int \<Rightarrow> 'p body \<Rightarrow> ('s, 'p) exchange \<Rightarrow> (unit, 's, 'p) handler_call" where
  "respond status b x =
    (if ex_sent x = []
     then Returns () (x\<lparr>ex_sent := [\<lparr>rs_status = status, rs_headers = ex_headers x, rs_body = b\<rparr>]\<rparr>)
     else Throws headers_sent x)"

text \<open>Turns a call of the server into a step of a handler.\<close>

definition calling :: "('s \<Rightarrow> (exn, 'a, 's) outcome) \<Rightarrow> ('s, 'p) exchange \<Rightarrow> ('a, 's, 'p) handler_call" where
  "calling f x = (case f (ex_state x) of
      Returns a s \<Rightarrow> Returns a (x\<lparr>ex_state := s\<rparr>)
    | Throws e s \<Rightarrow> Throws (Raised e) (x\<lparr>ex_state := s\<rparr>))"

definition checked :: "failure + 'a \<Rightarrow> ('s, 'p) exchange \<Rightarrow> ('a, 's, 'p) handler_call" where
  "checked v x = (case v of Inl e \<Rightarrow> Throws e x | Inr a \<Rightarrow> Returns a x)"

definition raise :: "exn \<Rightarrow> ('s, 'p) exchange \<Rightarrow> ('a, 's, 'p) handler_call" where
  "raise e x = Throws (Raised e) x"

text \<open>\<open>try { h } catch (e) { handler(e) }\<close>\<close>

fun catching :: "(failure \<Rightarrow> 't \<Rightarrow> (failure, 'a, 't) outcome) \<Rightarrow> (failure, 'a, 't) outcome \<Rightarrow> (failure, 'a, 't) outcome" where
  "catching handler (Returns a s) = Returns a s"
| "catching handler (Throws e s) = handler e s"

section \<open>Rate limits\<close>

record limiterRes =
  lr_remainingPoints :: int
  lr_msBeforeNext :: int
  lr_consumedPoints :: int
  lr_isFirstInDuration :: bool

text \<open>
  The limiter itself is a library; \<open>li_consume\<close> is its answer: points consumed, refused, or an error
  of its store.
\<close>

datatype consumeAnswer = Consumed limiterRes | Refused limiterRes | LimiterError exn

record limits =
  li_enabled :: bool
  li_points :: int
  li_now :: int
  li_consume :: "string \<Rightarrow> int \<Rightarrow> consumeAnswer"

definition setRateLimitHeaders :: "limits \<Rightarrow> limiterRes \<Rightarrow> ('s, 'p) exchange \<Rightarrow> (unit, 's, 'p) handler_call" where
  "setRateLimitHeaders l info x =
    and_then (set_header ''X-RateLimit-Limit'' (HNumber (li_points l)) x) (\<lambda>_ x1.
    and_then (set_header ''X-RateLimit-Remaining'' (HNumber (lr_remainingPoints info)) x1) (\<lambda>_ x2.
    set_header ''X-RateLimit-Reset'' (HDate (li_now l + lr_msBeforeNext info)) x2))"

text \<open>\<open>Math.round(ms / 1000) || 1\<close>\<close>

definition retry_seconds :: "int \<Rightarrow> int" where
  "retry_seconds ms = (let secs = (ms + 500) div 1000 in if secs = 0 then 1 else secs)"

definition handleRateLimit :: "limits \<Rightarrow> limiterRes \<Rightarrow> ('s, 'p) exchange \<Rightarrow> (unit, 's, 'p) handler_call" where
  "handleRateLimit l info x =
    and_then (set_header ''Retry-After'' (HText (show_int (retry_seconds (lr_msBeforeNext info)))) x) (\<lambda>_ x1.
    and_then (setRateLimitHeaders l info x1) (\<lambda>_ x2.
    respond 429 (Failed (named_error ''TooManyRequests'' ''Too many requests.'')) x2))"

definition consumeRateLimitPoints ::
  "limits \<Rightarrow> string \<Rightarrow> int \<Rightarrow> ('s, 'p) exchange \<Rightarrow> (bool, 's, 'p) handler_call" where
  "consumeRateLimitPoints l key points x =
    (if \<not> li_enabled l then Returns True x
     else (case li_consume l key points of
         Consumed info \<Rightarrow> and_then (setRateLimitHeaders l info x) (\<lambda>_ x1. Returns True x1)
       | LimiterError e \<Rightarrow> Throws (Raised e) x
       | Refused info \<Rightarrow> and_then (handleRateLimit l info x) (\<lambda>_ x1. Returns False x1)))"

text \<open>\<open>if (!(await consumeRateLimitPoints(res, req.ip, points))) return;\<close> and what follows.\<close>

definition limited :: "limits \<Rightarrow> string \<Rightarrow> int \<Rightarrow> (('s, 'p) exchange \<Rightarrow> (unit, 's, 'p) handler_call)
    \<Rightarrow> ('s, 'p) exchange \<Rightarrow> (unit, 's, 'p) handler_call" where
  "limited l key points h x = and_then (consumeRateLimitPoints l key points x)
     (\<lambda>ok x1. if ok then h x1 else Returns () x1)"

subsection \<open>The limiter for redis 4\<close>

text \<open>
  A counter in redis is a number with the time at which it expires, if any; \<open>incrTtlLuaScript\<close> creates
  it with an expiry when there is none, adds the points and returns the sum and the time to live.
\<close>

type_synonym counter = "(int \<times> int option) option"

definition live_counter :: "int \<Rightarrow> counter \<Rightarrow> counter" where
  "live_counter now c = (case c of Some (n, Some t) \<Rightarrow> (if t \<le> now then None else c) | _ \<Rightarrow> c)"

definition incrTtl :: "int \<Rightarrow> int \<Rightarrow> int \<Rightarrow> counter \<Rightarrow> (int \<times> int) \<times> counter" where
  "incrTtl now points secs c =
    (let (n, expiry) = (case live_counter now c of Some ce \<Rightarrow> ce | None \<Rightarrow> (0, Some (now + 1000 * secs)));
         consumed = n + points
     in case expiry of
          Some t \<Rightarrow> ((consumed, t - now), Some (consumed, Some t))
        | None \<Rightarrow> ((consumed, 1000 * secs), Some (consumed, Some (now + 1000 * secs))))"

definition getRateLimiterRes :: "int \<Rightarrow> int \<Rightarrow> int \<times> int \<Rightarrow> limiterRes" where
  "getRateLimiterRes points changedPoints result = (let (consumed, ttl) = result in
     \<lparr>lr_remainingPoints = max (points - consumed) 0, lr_msBeforeNext = ttl,
      lr_consumedPoints = consumed, lr_isFirstInDuration = (consumed = changedPoints)\<rparr>)"

section \<open>Administration\<close>

definition requireApiKey :: "string \<Rightarrow> string \<Rightarrow> exn + unit" where
  "requireApiKey apikey input =
    (if apikey = [] then Inl (OttException ''apikey is not set'')
     else if input \<noteq> apikey then Inl (OttException ''apikey is invalid'') else Inr ())"

section \<open>What holds of exchanges\<close>

lemma exchange_simps [simp]:
  "ex_sent (on_state f x) = ex_sent x" "ex_state (on_state f x) = f (ex_state x)"
  "ex_headers (on_state f x) = ex_headers x"
  by (simp_all add: on_state_def)

lemma calling_sent [simp]: "ex_sent (final_state (calling f x)) = ex_sent x"
  by (simp add: calling_def split: outcome.split)

lemma calling_state [simp]: "ex_state (final_state (calling f x)) = final_state (f (ex_state x))"
  by (simp add: calling_def split: outcome.split)

lemma respond_state [simp]: "ex_state (final_state (respond st b x)) = ex_state x"
  by (simp add: respond_def)

lemma set_header_state [simp]:
  "ex_state (final_state (set_header k v x)) = ex_state x" "ex_sent (final_state (set_header k v x)) = ex_sent x"
  by (simp_all add: set_header_def)

section \<open>What the limiter counts\<close>

text \<open>A run of the script for one key: requests with their times and points, and what each was answered.\<close>

fun count_points :: "int \<Rightarrow> counter \<Rightarrow> (int \<times> int) list \<Rightarrow> (int \<times> int) list \<times> counter" where
  "count_points secs c [] = ([], c)"
| "count_points secs c ((now, p) # reqs) =
    (let (a, c1) = incrTtl now p secs c; (as, c2) = count_points secs c1 reqs in (a # as, c2))"

lemma incrTtl_live:
  "now < t \<Longrightarrow> incrTtl now p secs (Some (n, Some t)) = ((n + p, t - now), Some (n + p, Some t))"
  by (simp add: incrTtl_def live_counter_def Let_def)

lemma count_points_live:
  assumes "\<forall>(now, p)\<in>set reqs. now < t"
  shows "\<exists>as. count_points secs (Some (n, Some t)) reqs = (as, Some (n + sum_list (map snd reqs), Some t))
    \<and> length as = length reqs
    \<and> (\<forall>k < length reqs. as ! k = (n + sum_list (map snd (take (Suc k) reqs)), t - fst (reqs ! k)))"
  using assms
proof (induction reqs arbitrary: n)
  case (Cons r reqs)
  obtain now p where r: "r = (now, p)" by (cases r)
  with Cons obtain as where as: "count_points secs (Some (n + p, Some t)) reqs = (as, Some (n + p + sum_list (map snd reqs), Some t))"
    "length as = length reqs" "\<forall>k < length reqs. as ! k = (n + p + sum_list (map snd (take (Suc k) reqs)), t - fst (reqs ! k))"
    by force
  have "((n + p, t - now) # as) ! k = (n + sum_list (map snd (take (Suc k) (r # reqs))), t - fst ((r # reqs) ! k))"
    if "k < length (r # reqs)" for k
    using that as(3) r by (cases k) auto
  with as r Cons.prems show ?case by (simp add: incrTtl_live)
qed simp



end
