(* ===== verification/Accounts.thy ===== *)
theory Accounts
  imports Http
begin

text \<open>
  \<open>server/usermanager.ts\<close> with \<open>server/auth\<close> and \<open>server/api/user.ts\<close>: accounts, passwords, sessions, and
  the HTTP interface of both. The database of accounts, redis, argon2, the random source, the mailer and
  passport's own session are code outside the repository: \<open>outside\<close> lists what the code asks of them, on a
  state \<open>'d\<close> of which nothing is known here.
\<close>

section \<open>The outside\<close>

type_synonym bytes = string

record account =
  ua_id :: int
  ua_username :: string
  ua_email :: "string option"
  ua_salt :: "bytes option"
  ua_hash :: "bytes option"
  ua_discordId :: "string option"

record newAccount =
  na_username :: string
  na_email :: "string option"
  na_salt :: "bytes option"
  na_hash :: "bytes option"
  na_discordId :: "string option"

text \<open>
  The five conditions under which accounts are looked for: by email or, without regard to case, by name; by
  id; by Discord id; by exact name; by email.
\<close>

datatype userQuery = ByLogin string | ById int | ByDiscord string | ByUsername string | ByEmail string

record email =
  em_to :: string
  em_subject :: string
  em_body :: string

record 'd outside =
  od_find :: "userQuery \<Rightarrow> 'd \<Rightarrow> failure + account option"
  od_create :: "newAccount \<Rightarrow> 'd \<Rightarrow> (failure + account) \<times> 'd"
  od_save :: "account \<Rightarrow> 'd \<Rightarrow> (failure + unit) \<times> 'd"
  od_destroy :: "int \<Rightarrow> 'd \<Rightarrow> (failure + unit) \<times> 'd"
  od_giveRooms :: "int \<Rightarrow> int \<Rightarrow> 'd \<Rightarrow> (failure + unit) \<times> 'd"
  od_getSession :: "authToken \<Rightarrow> 'd \<Rightarrow> failure + sessionInfo option"
  od_exists :: "authToken \<Rightarrow> 'd \<Rightarrow> failure + bool"
  od_setSession :: "authToken \<Rightarrow> int \<Rightarrow> sessionInfo \<Rightarrow> 'd \<Rightarrow> (failure + unit) \<times> 'd"
  od_getRecovery :: "string \<Rightarrow> 'd \<Rightarrow> failure + string option"
  od_setRecovery :: "string \<Rightarrow> int \<Rightarrow> string \<Rightarrow> 'd \<Rightarrow> (failure + unit) \<times> 'd"
  od_delRecovery :: "string \<Rightarrow> 'd \<Rightarrow> (failure + unit) \<times> 'd"
  od_random :: "nat \<Rightarrow> 'd \<Rightarrow> (failure + bytes) \<times> 'd"
  od_nickname :: "'d \<Rightarrow> (failure + string) \<times> 'd"
  od_hash :: "bytes \<Rightarrow> 'd \<Rightarrow> (failure + bytes) \<times> 'd"
  od_verify :: "bytes \<Rightarrow> bytes \<Rightarrow> 'd \<Rightarrow> failure + bool"
  od_needsRehash :: "bytes \<Rightarrow> bool"
  od_mail :: "email \<Rightarrow> 'd \<Rightarrow> (failure + unit) \<times> 'd"
  od_reqLogin :: "account \<Rightarrow> 'd \<Rightarrow> (failure + unit) \<times> 'd"
  od_reqLogout :: "'d \<Rightarrow> (failure + unit) \<times> 'd"
  od_reward :: "string \<Rightarrow> int \<Rightarrow> 'd \<Rightarrow> (failure + unit) \<times> 'd"
  od_loginFails :: "string \<Rightarrow> 'd \<Rightarrow> failure + limiterRes option"
  od_ipFails :: "string \<Rightarrow> 'd \<Rightarrow> failure + limiterRes option"

record userConf =
  uc_development :: bool
  uc_enable_registration :: bool
  uc_rate_limit :: bool
  uc_mail_enabled :: bool
  uc_hostname :: string
  uc_base_url :: string
  uc_api_key :: string
  uc_maxWrongAttemptsByIPperDay :: int
  uc_maxConsecutiveFails :: int
  uc_limits :: limits

datatype userEvent = UserModified authToken | UserLogIn int authToken | UserLogOut int authToken

text \<open>The user manager's state: the outside, and what it has told its listeners.\<close>

record 'd userState =
  us_store :: 'd
  us_told :: "userEvent list"

type_synonym ('a, 'd) user_call = "(failure, 'a, 'd userState) outcome"

definition ask :: "('d \<Rightarrow> failure + 'a) \<Rightarrow> 'd userState \<Rightarrow> ('a, 'd) user_call" where
  "ask f s = (case f (us_store s) of Inl e \<Rightarrow> Throws e s | Inr a \<Rightarrow> Returns a s)"

definition act :: "('d \<Rightarrow> (failure + 'a) \<times> 'd) \<Rightarrow> 'd userState \<Rightarrow> ('a, 'd) user_call" where
  "act f s = (let (r, d) = f (us_store s); s1 = s\<lparr>us_store := d\<rparr> in
     case r of Inl e \<Rightarrow> Throws e s1 | Inr a \<Rightarrow> Returns a s1)"

definition tell :: "userEvent \<Rightarrow> 'd userState \<Rightarrow> 'd userState" where
  "tell e s = s\<lparr>us_told := us_told s @ [e]\<rparr>"

section \<open>Sessions\<close>

definition EXPIRATION_TIME :: int where
  "EXPIRATION_TIME = 14 * 24 * 60 * 60"

definition EXPIRATION_TIME_LOGGED_IN :: int where
  "EXPIRATION_TIME_LOGGED_IN = 120 * 24 * 60 * 60 * 2"

definition tokens_validate :: "'d outside \<Rightarrow> authToken \<Rightarrow> 'd userState \<Rightarrow> (bool, 'd) user_call" where
  "tokens_validate od token = ask (od_exists od token)"

definition tokens_getSessionInfo :: "'d outside \<Rightarrow> authToken \<Rightarrow> 'd userState \<Rightarrow> (sessionInfo, 'd) user_call" where
  "tokens_getSessionInfo od token s = and_then (ask (od_getSession od token) s) (\<lambda>info s1. case info of
     None \<Rightarrow> Throws (Raised (JsError ''No session info found'')) s1 | Some i \<Rightarrow> Returns i s1)"

definition tokens_setSessionInfo :: "'d outside \<Rightarrow> authToken \<Rightarrow> sessionInfo \<Rightarrow> 'd userState \<Rightarrow> (unit, 'd) user_call" where
  "tokens_setSessionInfo od token session = act (od_setSession od token
     (case session of LoggedIn _ \<Rightarrow> EXPIRATION_TIME_LOGGED_IN | LoggedOut _ \<Rightarrow> EXPIRATION_TIME) session)"

definition createSession :: "'d outside \<Rightarrow> 'd userState \<Rightarrow> (sessionInfo, 'd) user_call" where
  "createSession od s = and_then (act (od_nickname od) s) (\<lambda>n s1. Returns (LoggedOut n) s1)"

section \<open>Finding accounts\<close>

text \<open>\<open>getUser\<close> looks at the first option that is given and truthy.\<close>

definition user_query :: "string option \<Rightarrow> int option \<Rightarrow> string option \<Rightarrow> userQuery option" where
  "user_query user i discordId =
    (if truthy_str user then Some (ByLogin (nullish user []))
     else if truthy_num i then Some (ById (nullish i 0))
     else if truthy_str discordId then Some (ByDiscord (nullish discordId [])) else None)"

definition um_getUser ::
  "'d outside \<Rightarrow> string option \<Rightarrow> int option \<Rightarrow> string option \<Rightarrow> 'd userState \<Rightarrow> (account, 'd) user_call" where
  "um_getUser od user i discordId s = (case user_query user i discordId of
      None \<Rightarrow> Throws (Raised (JsError ''Invalid parameters to find user'')) s
    | Some q \<Rightarrow> and_then (ask (od_find od q) s) (\<lambda>found s1. case found of
        None \<Rightarrow> Throws (Raised UserNotFound) s1 | Some a \<Rightarrow> Returns a s1))"

text \<open>A failing lookup counts as a name that is free.\<close>

definition taken :: "'d outside \<Rightarrow> userQuery \<Rightarrow> 'd userState \<Rightarrow> bool" where
  "taken od q s = (case od_find od q (us_store s) of Inr (Some a) \<Rightarrow> True | _ \<Rightarrow> False)"

definition isUsernameTaken :: "'d outside \<Rightarrow> string \<Rightarrow> 'd userState \<Rightarrow> bool" where
  "isUsernameTaken od n = taken od (ByUsername n)"

definition isEmailTaken :: "'d outside \<Rightarrow> string \<Rightarrow> 'd userState \<Rightarrow> bool" where
  "isEmailTaken od e = taken od (ByEmail e)"

section \<open>Passwords\<close>

text \<open>In the expressions a dot stands for any character but a line break, so only the first line counts.\<close>

definition first_line :: "string \<Rightarrow> string" where
  "first_line = takeWhile (\<lambda>c. c \<noteq> CHR 0x0A \<and> c \<noteq> CHR 0x0D)"

definition char_between :: "char \<Rightarrow> char \<Rightarrow> char \<Rightarrow> bool" where
  "char_between a b c \<longleftrightarrow> (of_char a :: nat) \<le> of_char c \<and> (of_char c :: nat) \<le> of_char b"

definition password_categories :: "string \<Rightarrow> nat" where
  "password_categories pw = (let l = first_line pw in
     of_bool (list_ex (char_between CHR ''a'' CHR ''z'') l) + of_bool (list_ex (char_between CHR ''A'' CHR ''Z'') l)
     + of_bool (list_ex (char_between CHR ''0'' CHR ''9'') l) + of_bool (list_ex (\<lambda>c. c \<in> set ''!@#$%^&*'') l))"

definition isPasswordValid :: "userConf \<Rightarrow> string \<Rightarrow> bool" where
  "isPasswordValid uc pw \<longleftrightarrow> (uc_development uc \<and> pw = ''1'')
     \<or> (password_categories pw \<ge> 2 \<and> length (first_line pw) \<ge> 8)"

definition stored_hash :: "bytes \<Rightarrow> bytes" where
  "stored_hash h = rev (dropWhile (\<lambda>c. c = CHR 0x00) (rev h))"

definition verifyUserPassword :: "'d outside \<Rightarrow> account \<Rightarrow> string \<Rightarrow> 'd userState \<Rightarrow> (bool, 'd) user_call" where
  "verifyUserPassword od a pw s = (case (ua_hash a, ua_salt a) of
      (Some h, Some salt) \<Rightarrow>
        and_then (ask (od_verify od (stored_hash h) (salt @ pw)) s) (\<lambda>ok s1.
          if ok \<and> od_needsRehash od (stored_hash h)
          then and_then (act (od_hash od (salt @ pw)) s1) (\<lambda>h' s2.
            and_then (act (od_save od (a\<lparr>ua_hash := Some h'\<rparr>)) s2) (\<lambda>_ s3. Returns ok s3))
          else Returns ok s1)
    | _ \<Rightarrow> Returns False s)"

text \<open>A new salt and hash for a password.\<close>

definition salted :: "'d outside \<Rightarrow> string \<Rightarrow> 'd userState \<Rightarrow> (bytes \<times> bytes, 'd) user_call" where
  "salted od pw s = and_then (act (od_random od 128) s) (\<lambda>salt s1.
     and_then (act (od_hash od (salt @ pw)) s1) (\<lambda>h s2. Returns (salt, h) s2))"

text \<open>\<open>validate\<close> is the option \<open>validatePassword\<close>.\<close>

definition changeUserPassword ::
  "'d outside \<Rightarrow> userConf \<Rightarrow> account \<Rightarrow> string \<Rightarrow> bool \<Rightarrow> 'd userState \<Rightarrow> (unit, 'd) user_call" where
  "changeUserPassword od uc a pw validate s =
    (if validate \<and> \<not> isPasswordValid uc pw then Throws BadPasswordError s
     else and_then (salted od pw s) (\<lambda>(salt, h) s1.
       act (od_save od (a\<lparr>ua_hash := Some h, ua_salt := Some salt\<rparr>)) s1))"

section \<open>Registration\<close>

record registration =
  rg_email :: "string option"
  rg_username :: "string option"
  rg_password :: "string option"

definition create_account ::
  "'d outside \<Rightarrow> string \<Rightarrow> string option \<Rightarrow> bytes \<Rightarrow> bytes \<Rightarrow> 'd userState \<Rightarrow> (account, 'd) user_call" where
  "create_account od n email salt h s =
    (if isUsernameTaken od n s then Throws UsernameTakenError s
     else if truthy_str email \<and> isEmailTaken od (nullish email []) s then Throws EmailAlreadyInUseError s
     else act (od_create od \<lparr>na_username = n, na_email = email, na_salt = Some salt, na_hash = Some h,
         na_discordId = None\<rparr>) s)"

text \<open>A missing password is tested as the text \<open>undefined\<close>, which is too weak; a missing name has no length.\<close>

definition registerUser :: "'d outside \<Rightarrow> userConf \<Rightarrow> registration \<Rightarrow> 'd userState \<Rightarrow> (account, 'd) user_call" where
  "registerUser od uc rg s =
    (let pw = nullish (rg_password rg) ''undefined''
     in if \<not> uc_enable_registration uc then Throws (Raised (FeatureDisabledException ''Disabled by administrator.'')) s
        else if \<not> isPasswordValid uc pw then Throws BadPasswordError s
        else (case rg_username rg of
            None \<Rightarrow> Throws (Raised (JsTypeError ''Cannot read properties of undefined (reading 'length')'')) s
          | Some n \<Rightarrow>
             (if length n > 48 then Throws (Raised (LengthOutOfRangeException ''Username length'' None (Some 48))) s
              else and_then (salted od pw s)
                (\<lambda>(salt, h). create_account od n (if rg_email rg = Some [] then None else rg_email rg) salt h))))"

definition registerUserSocial :: "'d outside \<Rightarrow> userConf \<Rightarrow> string \<Rightarrow> string \<Rightarrow> 'd userState \<Rightarrow> (account, 'd) user_call" where
  "registerUserSocial od uc n discordId s =
    (if \<not> uc_enable_registration uc then Throws (Raised (FeatureDisabledException ''Disabled by administrator.'')) s
     else act (od_create od \<lparr>na_username = n, na_email = None, na_salt = None, na_hash = None,
         na_discordId = Some discordId\<rparr>) s)"

text \<open>
  Linking an account to Discord: another account with that Discord id and no credentials of its own is merged
  into it. The refusal is a rejection with a text, not with an error.
\<close>

datatype linked = Linked | Rejected string

definition merge_refused :: string where
  "merge_refused = ''Unable to link accounts. Another account is linked to this discord account. Login credentials were found in the other account, so a merge could not be performed.''"

definition connectSocial :: "'d outside \<Rightarrow> account \<Rightarrow> string \<Rightarrow> 'd userState \<Rightarrow> (linked, 'd) user_call" where
  "connectSocial od a discordId s =
    (let save = (\<lambda>s. and_then (act (od_save od (a\<lparr>ua_discordId := Some discordId\<rparr>)) s) (\<lambda>_ s1. Returns Linked s1))
     in case um_getUser od None None (Some discordId) s of
          Throws e s1 \<Rightarrow> save s1
        | Returns other s1 \<Rightarrow>
           (if truthy_str (ua_email other) \<or> ua_salt other \<noteq> None \<or> ua_hash other \<noteq> None
            then Returns (Rejected merge_refused) s1
            else and_then (act (od_giveRooms od (ua_id other) (ua_id a)) s1) (\<lambda>_ s2.
              and_then (act (od_destroy od (ua_id other)) s2) (\<lambda>_ s3. save s3))))"

section \<open>Logging in\<close>

text \<open>What the callbacks tell passport: an error, no user, or a user.\<close>

datatype authResult = AuthError string | AuthNobody | AuthUser account

definition bug_message :: string where
  "bug_message = ''An unknown error occurred. This is a bug.''"

fun contains_text :: "string \<Rightarrow> string \<Rightarrow> bool" where
  "contains_text t [] = (t = [])"
| "contains_text t (c # s) = (starts_with t (c # s) \<or> contains_text t s)"

definition authCallback :: "'d outside \<Rightarrow> string \<Rightarrow> string \<Rightarrow> 'd userState \<Rightarrow> authResult \<times> 'd userState" where
  "authCallback od emailOrUser pw s = (case um_getUser od (Some emailOrUser) None None s of
      Throws e s1 \<Rightarrow> (AuthError (if failure_message e = ''User not found'' then ''Email or password is incorrect.'' else bug_message), s1)
    | Returns a s1 \<Rightarrow> (case (ua_hash a, ua_salt a) of
        (Some h, Some salt) \<Rightarrow> (case verifyUserPassword od a pw s1 of
            Throws e s2 \<Rightarrow> (AuthError bug_message, s2)
          | Returns ok s2 \<Rightarrow>
             (if ok then AuthUser a
              else if contains_text ''$argon2$'' (stored_hash h) then AuthError ''Email or password is incorrect.''
              else AuthNobody, s2))
      | _ \<Rightarrow> (AuthError bug_message, s1)))"

record discordProfile =
  dc_id :: string
  dc_discriminator :: "string option"
  dc_global_name :: "string option"
  dc_username :: string

definition buildUsernameFromDiscordProfile :: "discordProfile \<Rightarrow> string" where
  "buildUsernameFromDiscordProfile p =
    (if dc_discriminator p = Some ''0'' then (if truthy_str (dc_global_name p) then nullish (dc_global_name p) [] else dc_username p)
     else dc_username p @ ''#'' @ nullish (dc_discriminator p) ''undefined'')"

definition authCallbackDiscord ::
  "'d outside \<Rightarrow> userConf \<Rightarrow> account option \<Rightarrow> discordProfile \<Rightarrow> 'd userState \<Rightarrow> authResult \<times> 'd userState" where
  "authCallbackDiscord od uc current p s = (case current of
      Some a \<Rightarrow> (case connectSocial od a (dc_id p) s of
          Returns Linked s1 \<Rightarrow> (AuthUser (a\<lparr>ua_discordId := Some (dc_id p)\<rparr>), s1)
        | Returns (Rejected m) s1 \<Rightarrow> (AuthError m, s1)
        | Throws e s1 \<Rightarrow> (AuthError (failure_message e), s1))
    | None \<Rightarrow> (case um_getUser od None None (Some (dc_id p)) s of
          Returns a s1 \<Rightarrow> (AuthUser a, s1)
        | Throws e s1 \<Rightarrow>
           (let n = buildUsernameFromDiscordProfile p;
                named = (if isUsernameTaken od n s1 then act (od_nickname od) s1 else Returns n s1)
            in case and_then named (\<lambda>n s2. registerUserSocial od uc n (dc_id p) s2) of
                 Returns a s3 \<Rightarrow> (AuthUser a, s3)
               | Throws e s3 \<Rightarrow> (AuthError (failure_message e), s3))))"

definition onUserLogIn :: "account \<Rightarrow> authToken \<Rightarrow> 'd userState \<Rightarrow> 'd userState" where
  "onUserLogIn a token s = tell (UserLogIn (ua_id a) token) (tell (UserModified token) s)"

definition onUserLogOut :: "account \<Rightarrow> authToken \<Rightarrow> 'd userState \<Rightarrow> 'd userState" where
  "onUserLogOut a token s = tell (UserLogOut (ua_id a) token) (tell (UserModified token) s)"

end
