(* ===== verification/RoomApi.thy ===== *)
theory RoomApi
  imports ServerRuns Http "HOL-Library.Char_ord" "HOL-Library.List_Lexorder"
begin

text \<open>
  \<open>server/api/room.ts\<close> with its schemas in \<open>common/models/zod-schemas.ts\<close>: the HTTP interface of rooms.
  A handler runs on an exchange whose state is the \<open>server\<close> of the client manager, from its first line
  to its response; where it awaits the room manager or a room, that call is taken as one step. What
  express parsed from the request is \<open>apiRequest\<close>, bodies are records of the properties the schemas know.
\<close>

section \<open>Requests and replies\<close>

text \<open>\<open>rq_token\<close> and \<open>rq_user\<close> are what the auth middleware found.\<close>

record apiRequest =
  rq_ip :: string
  rq_apikey :: "string option"
  rq_token :: "authToken option"
  rq_user :: "user option"

record apiConf =
  ac_api_key :: string
  ac_enable_create_temporary :: bool
  ac_enable_create_permanent :: bool
  ac_limits :: limits
  ac_backend :: backend
  ac_uuid :: string
  ac_isURL :: "string \<Rightarrow> bool"
  ac_zodText :: "zodIssue list \<Rightarrow> string"

record roomListItem =
  rl_name :: string
  rl_title :: string
  rl_description :: string
  rl_isTemporary :: bool
  rl_visibility :: visibility
  rl_queueMode :: queueMode
  rl_currentSource :: "queueItem option"
  rl_users :: nat

record getRoomReply =
  gr_name :: string
  gr_title :: string
  gr_description :: string
  gr_isTemporary :: bool
  gr_visibility :: visibility
  gr_queueMode :: queueMode
  gr_users :: "roomUserInfo list"
  gr_grants :: grants
  gr_autoSkipSegmentCategories :: "string list"
  gr_restoreQueueBehavior :: behaviorOption
  gr_enableVoteSkip :: bool
  gr_queue :: "queueItem list"
  gr_hasOwner :: bool

datatype roomReply = Plain | Generated string | Listing "roomListItem list" | TheRoom getRoomReply

type_synonym room_handler = "(server, roomReply) exchange \<Rightarrow> (unit, server, roomReply) handler_call"

section \<open>Schemas\<close>

definition RESERVED_ROOM_NAMES :: "string list" where
  "RESERVED_ROOM_NAMES = [''list'', ''create'', ''generate'']"

definition CategorySchema :: "string list \<Rightarrow> zodIssue list" where
  "CategorySchema cats = concat (map (\<lambda>c. issue ''autoSkipSegmentCategories'' ''invalid_enum_value'' None
     (c \<in> set ALL_SKIP_CATEGORIES)) cats)"

definition one_line :: "string \<Rightarrow> bool" where
  "one_line s \<longleftrightarrow> CHR 0x0A \<notin> set s \<and> CHR 0x0D \<notin> set s"

definition title_issues :: "nat \<Rightarrow> string option \<Rightarrow> string \<Rightarrow> zodIssue list" where
  "title_issues limit too_long title = issue ''title'' ''too_big'' too_long (length title \<le> limit)
     @ issue ''title'' ''custom'' (Some ''title must not contain newlines'') (one_line title)"

record createBody =
  cb_name :: string
  cb_title :: "string option"
  cb_description :: "string option"
  cb_isTemporary :: "bool option"
  cb_visibility :: "visibility option"
  cb_queueMode :: "queueMode option"
  cb_categories :: "string list option"

text \<open>The one default that reaches the parsed body: rooms are temporary unless the body says otherwise.\<close>

definition OttApiRequestRoomCreateSchema :: "createBody \<Rightarrow> failure + createBody" where
  "OttApiRequestRoomCreateSchema b = parsed
    (issue ''name'' ''too_small'' (Some ''too short, must be atleast 3 characters'') (length (cb_name b) \<ge> 3)
     @ issue ''name'' ''too_big'' (Some ''too long, must be at most 32 characters'') (length (cb_name b) \<le> 32)
     @ issue ''name'' ''invalid_string'' None (ROOM_NAME_REGEX (cb_name b))
     @ issue ''name'' ''custom'' (Some ''not allowed (reserved)'') (cb_name b \<notin> set RESERVED_ROOM_NAMES)
     @ when_given (cb_title b) (title_issues 255 (Some ''too long, must be at most 255 characters''))
     @ when_given (cb_categories b) CategorySchema)
    (b\<lparr>cb_isTemporary := Some (nullish (cb_isTemporary b) True)\<rparr>)"

definition OttApiRequestRoomGenerateSchema :: "string list option \<Rightarrow> failure + string list option" where
  "OttApiRequestRoomGenerateSchema cats = parsed (when_given cats CategorySchema) cats"

definition VideoIdSchema :: "string \<Rightarrow> zodIssue list" where
  "VideoIdSchema service = issue ''service'' ''invalid_enum_value'' None (service \<in> set ALL_VIDEO_SERVICES)"

definition OttApiRequestVoteSchema :: "videoId \<Rightarrow> failure + videoId" where
  "OttApiRequestVoteSchema v = parsed (VideoIdSchema (vi_service v)) v"

text \<open>\<open>VideoAddSchema\<close> drops every property but these three.\<close>

definition VideoAddSchema :: "(string \<Rightarrow> bool) \<Rightarrow> videoAdd \<Rightarrow> zodIssue list" where
  "VideoAddSchema isURL v = VideoIdSchema (va_service v)
     @ when_given (va_subtitleUrl v) (\<lambda>u. issue ''subtitleUrl'' ''invalid_string'' None (isURL u))"

definition strip_video :: "videoAdd \<Rightarrow> videoAdd" where
  "strip_video v = v\<lparr>va_startAt := None, va_endAt := None\<rparr>"

text \<open>The three kinds of body of \<open>OttApiRequestAddToQueueSchema\<close>; the union tries them in this order.\<close>

record addBody =
  ab_videos :: "videoAdd list option"
  ab_video :: "videoAdd option"
  ab_url :: "string option"

datatype addRequestBody = AddVideos "videoAdd list" | AddVideo videoAdd | AddUrl string

definition OttApiRequestAddToQueueSchema :: "(string \<Rightarrow> bool) \<Rightarrow> addBody \<Rightarrow> failure + addRequestBody" where
  "OttApiRequestAddToQueueSchema isURL b = union_of
    [map_option (\<lambda>vs. parsed (concat (map (VideoAddSchema isURL) vs)) (AddVideos (map strip_video vs))) (ab_videos b),
     map_option (\<lambda>v. parsed (VideoAddSchema isURL v) (AddVideo (strip_video v))) (ab_video b),
     map_option (\<lambda>u. Inr (AddUrl u)) (ab_url b)]"

definition OttApiRequestUpdateQueueItemSchema :: "(string \<Rightarrow> bool) \<Rightarrow> videoAdd \<Rightarrow> failure + videoAdd" where
  "OttApiRequestUpdateQueueItemSchema isURL v = parsed (VideoAddSchema isURL v) (strip_video v)"

text \<open>
  A patch is a claim or settings. \<open>RoomSettingsSchema\<close> is strict, so the property \<open>claim\<close> makes a body a
  claim, and its other properties are dropped.
\<close>

record patchBody =
  pb_claim :: "bool option"
  pb_title :: "string option"
  pb_description :: "string option"
  pb_visibility :: "visibility option"
  pb_queueMode :: "queueMode option"
  pb_grants :: "(role \<times> grantMask) list option"
  pb_categories :: "string list option"
  pb_restoreQueueBehavior :: "behaviorOption option"
  pb_enableVoteSkip :: "bool option"

datatype patchRequestBody = PatchSettings patchBody | PatchClaim bool

definition GrantSchema :: "(role \<times> grantMask) list \<Rightarrow> zodIssue list" where
  "GrantSchema gs = concat (map (\<lambda>(r, m). issue ''grants'' ''invalid_enum_value'' None (r \<in> set all_roles)) gs)"

definition RoomSettingsSchema :: "patchBody \<Rightarrow> failure + patchRequestBody" where
  "RoomSettingsSchema b = parsed
    (issue [] ''unrecognized_keys'' None (pb_claim b = None)
     @ when_given (pb_title b) (title_issues 254 None)
     @ when_given (pb_grants b) GrantSchema
     @ when_given (pb_categories b) CategorySchema)
    (PatchSettings b)"

definition OttApiRequestPatchRoomSchema :: "patchBody \<Rightarrow> failure + patchRequestBody" where
  "OttApiRequestPatchRoomSchema b = union_of
    [Some (RoomSettingsSchema b), map_option (\<lambda>c. Inr (PatchClaim c)) (pb_claim b)]"

section \<open>Calls into the server\<close>

definition manager_call :: "(roomManager \<Rightarrow> 'a manager_call) \<Rightarrow> server \<Rightarrow> 'a server_call" where
  "manager_call f s = (case f (sv_manager s) of
      Returns a m \<Rightarrow> Returns a (manager_done m s)
    | Throws e m \<Rightarrow> Throws e (manager_done m s))"

text \<open>\<open>(await roommanager.getRoom(name)).unwrap()\<close>\<close>

definition unwrap_room :: "backend \<Rightarrow> string \<Rightarrow> server \<Rightarrow> nat server_call" where
  "unwrap_room bk n s = and_then (manager_call (getRoom bk n False) s)
     (\<lambda>found s1. case found of Inl e \<Rightarrow> Throws e s1 | Inr i \<Rightarrow> Returns i s1)"

definition unauthorized_request :: "backend \<Rightarrow> nat \<Rightarrow> roomRequest \<Rightarrow> authToken option \<Rightarrow> server \<Rightarrow> unit server_call" where
  "unauthorized_request bk i request token s = on_room i (processUnauthorizedRequest (bk_world bk) request
     \<lparr>ra_token = nullish token ''undefined'', ra_clientId = None\<rparr>) s"

definition the_room :: "nat \<Rightarrow> server \<Rightarrow> room" where
  "the_room i s = rm_rooms (sv_manager s) ! i"

section \<open>Handlers\<close>

definition list_item :: "room \<Rightarrow> roomListItem" where
  "list_item r = \<lparr>rl_name = r_name r, rl_title = r_title r, rl_description = r_description r,
     rl_isTemporary = r_isTemporary r, rl_visibility = r_visibility r, rl_queueMode = r_queueMode r,
     rl_currentSource = r_currentSource r, rl_users = length (users r)\<rparr>"

text \<open>\<open>_.orderBy\<close> is stable: by name first, then by the number of users downwards.\<close>

definition order_listing :: "roomListItem list \<Rightarrow> roomListItem list" where
  "order_listing items = sort_key (\<lambda>l. - int (rl_users l)) (sort_key rl_name items)"

definition api_authorized :: "apiConf \<Rightarrow> apiRequest \<Rightarrow> bool" where
  "api_authorized ac rq \<longleftrightarrow> rq_apikey rq = Some (ac_api_key ac)"

definition api_listRooms :: "apiConf \<Rightarrow> apiRequest \<Rightarrow> room_handler" where
  "api_listRooms ac rq x =
    (if truthy_str (rq_apikey rq) \<and> \<not> api_authorized ac rq
     then respond 400 (FailedText ''apikey is invalid'') x
     else respond 200 (Done (Listing (order_listing (map list_item
       (filter (\<lambda>r. r_visibility r = Public \<or> api_authorized ac rq) (rm_rooms (sv_manager (ex_state x)))))))) x)"

definition api_generateRoom :: "apiConf \<Rightarrow> apiRequest \<Rightarrow> string list option \<Rightarrow> room_handler" where
  "api_generateRoom ac rq body x =
    (if \<not> ac_enable_create_temporary ac then raise (FeatureDisabledException ''Temporary rooms are disabled.'') x
     else and_then (checked (OttApiRequestRoomGenerateSchema body) x) (\<lambda>cats x1.
       limited (ac_limits ac) (rq_ip rq) 50 (\<lambda>x2.
         and_then (calling (manager_call (createRoom (ac_backend ac) (ac_uuid ac)
             (no_options\<lparr>ro_isTemporary := Some True, ro_owner := map_option Some (rq_user rq),
               ro_autoSkipSegmentCategories := cats\<rparr>))) x2)
           (\<lambda>_ x3. respond 201 (Done (Generated (ac_uuid ac))) x3)) x1))"

definition create_options :: "createBody \<Rightarrow> user option \<Rightarrow> roomOptions" where
  "create_options b owner = no_options\<lparr>ro_title := cb_title b, ro_description := cb_description b,
     ro_isTemporary := cb_isTemporary b, ro_visibility := cb_visibility b, ro_queueMode := cb_queueMode b,
     ro_autoSkipSegmentCategories := cb_categories b, ro_owner := map_option Some owner\<rparr>"

definition api_createRoom :: "apiConf \<Rightarrow> apiRequest \<Rightarrow> createBody \<Rightarrow> room_handler" where
  "api_createRoom ac rq body x = and_then (checked (OttApiRequestRoomCreateSchema body) x) (\<lambda>b x1.
    if truthy_bool (cb_isTemporary b) \<and> \<not> ac_enable_create_temporary ac
    then raise (FeatureDisabledException ''Temporary rooms are disabled.'') x1
    else if \<not> truthy_bool (cb_isTemporary b) \<and> \<not> ac_enable_create_permanent ac
    then raise (FeatureDisabledException ''Permanent rooms are disabled.'') x1
    else limited (ac_limits ac) (rq_ip rq) (if truthy_bool (cb_isTemporary b) then 50 else 200) (\<lambda>x2.
      and_then (calling (manager_call (createRoom (ac_backend ac) (cb_name b) (create_options b (rq_user rq)))) x2)
        (\<lambda>_ x3. respond 201 (Done Plain) x3)) x1)"

definition room_reply :: "room \<Rightarrow> getRoomReply" where
  "room_reply r = \<lparr>gr_name = r_name r, gr_title = r_title r, gr_description = r_description r,
     gr_isTemporary = r_isTemporary r, gr_visibility = r_visibility r, gr_queueMode = r_queueMode r,
     gr_users = users r, gr_grants = r_grants r,
     gr_autoSkipSegmentCategories = r_autoSkipSegmentCategories r,
     gr_restoreQueueBehavior = r_restoreQueueBehavior r, gr_enableVoteSkip = r_enableVoteSkip r,
     gr_queue = vq_items (r_queue r), gr_hasOwner = (r_owner r \<noteq> None)\<rparr>"

definition api_getRoom :: "apiConf \<Rightarrow> string \<Rightarrow> room_handler" where
  "api_getRoom ac n x = and_then (calling (unwrap_room (ac_backend ac) n) x)
     (\<lambda>i x1. respond 200 (Done (TheRoom (room_reply (the_room i (ex_state x1))))) x1)"

text \<open>Taking over a room without an owner; the first user of the account is sent its new role.\<close>

definition claim_room :: "user \<Rightarrow> room \<Rightarrow> unit room_call" where
  "claim_room u r = (let r1 = set_owner (Some u) r in
    case find (\<lambda>ru. ru_user_id ru = Some (u_id u)) (r_realusers r1) of
      None \<Rightarrow> Returns () r1
    | Some ru \<Rightarrow> (case getUserInfo r1 (ru_id ru) of
        Inl e \<Rightarrow> Throws e r1
      | Inr info \<Rightarrow> Returns () (syncUser info r1)))"

definition patch_settings :: "patchBody \<Rightarrow> exn + roomSettings" where
  "patch_settings b = map_sum id
    (\<lambda>g. \<lparr>st_title = pb_title b, st_description = pb_description b, st_visibility = pb_visibility b,
       st_queueMode = pb_queueMode b, st_grants = Some g, st_autoSkipSegmentCategories = pb_categories b,
       st_restoreQueueBehavior = pb_restoreQueueBehavior b, st_enableVoteSkip = pb_enableVoteSkip b\<rparr>)
    (case pb_grants b of None \<Rightarrow> newDefaultGrants | Some es \<Rightarrow> newGrants es)"

text \<open>The last part: a permanent room is written to the database, whose refusal is not looked at.\<close>

definition patch_store :: "apiConf \<Rightarrow> nat \<Rightarrow> room_handler" where
  "patch_store ac i x = (let r = the_room i (ex_state x) in
    case (if r_isTemporary r then Inr True else updateRoom (bk_table (ac_backend ac)) (whole_room r)) of
      Inl e \<Rightarrow> respond 500 FailedBare x
    | Inr _ \<Rightarrow> respond 200 (Done Plain) x)"

definition patch_claim :: "apiConf \<Rightarrow> apiRequest \<Rightarrow> nat \<Rightarrow> room_handler" where
  "patch_claim ac rq i x =
    (if r_owner (the_room i (ex_state x)) \<noteq> None
     then raise (BadApiArgumentException ''claim'' ''Room already has owner.'') x
     else (case rq_user rq of
         Some u \<Rightarrow> and_then (calling (on_room i (claim_room u)) x) (\<lambda>_ x1. patch_store ac i x1)
       | None \<Rightarrow> respond 401 (Failed (message_error ''Must be logged in to claim room ownership.'')) x))"

definition api_patchRoom :: "apiConf \<Rightarrow> apiRequest \<Rightarrow> string \<Rightarrow> patchBody \<Rightarrow> room_handler" where
  "api_patchRoom ac rq n body x = and_then (checked (OttApiRequestPatchRoomSchema body) x) (\<lambda>b x1.
    if \<not> truthy_str (rq_token rq) then raise (OttException ''Missing token'') x1
    else and_then (calling (unwrap_room (ac_backend ac) n) x1) (\<lambda>i x2. (case b of
        PatchClaim c \<Rightarrow> (if c then patch_claim ac rq i x2 else patch_store ac i x2)
      | PatchSettings pb \<Rightarrow> (case patch_settings pb of
          Inl e \<Rightarrow> raise e x2
        | Inr st \<Rightarrow> and_then (calling (unauthorized_request (ac_backend ac) i (ApplySettingsRequest st) (rq_token rq)) x2)
            (\<lambda>_ x3. patch_store ac i x3)))))"

definition unload_named :: "apiConf \<Rightarrow> string \<Rightarrow> room_handler" where
  "unload_named ac n x = calling (manager_call (unloadRoom (ac_backend ac) n Admin None)) x"

definition delete_permanent :: "apiConf \<Rightarrow> user \<Rightarrow> string \<Rightarrow> nat \<Rightarrow> room_handler" where
  "delete_permanent ac u n i x = (let r = the_room i (ex_state x) in
    if r_isTemporary r
    then respond 400 (Failed (named_error ''BadApiArgumentException'' ''Temporary rooms cannot be permanently deleted.'')) x
    else if map_option u_id (r_owner r) \<noteq> Some (u_id u)
    then respond 403 (Failed (named_error ''PermissionDeniedException'' ''Only the owner can permanently delete this room.'')) x
    else and_then (unload_named ac n x) (\<lambda>_ x1. case deleteRoom (bk_table (ac_backend ac)) n of
        Inl e \<Rightarrow> respond 500 (Failed (named_error ''Unknown'' ''Failed to delete room from storage.'')) x1
      | Inr _ \<Rightarrow> respond 200 (Done Plain) x1))"

definition api_deleteRoom :: "apiConf \<Rightarrow> apiRequest \<Rightarrow> string \<Rightarrow> string option \<Rightarrow> room_handler" where
  "api_deleteRoom ac rq n permanent x =
    (if permanent = Some ''true''
     then (case rq_user rq of
         None \<Rightarrow> respond 401 (Failed (named_error ''Unauthorized'' ''Must be logged in to permanently delete a room.'')) x
       | Some u \<Rightarrow> and_then (calling (unwrap_room (ac_backend ac) n) x) (\<lambda>i x1. delete_permanent ac u n i x1))
     else if \<not> api_authorized ac rq
     then respond 400 (Failed (named_error ''Unauthorized'' ''Admin apikey is required to unload a room.'')) x
     else and_then (unload_named ac n x) (\<lambda>_ x1. respond 200 (Done Plain) x1))"

text \<open>Requests on behalf of a connected client, found by its token and the room it is in.\<close>

definition client_request :: "apiConf \<Rightarrow> apiRequest \<Rightarrow> string \<Rightarrow> (exn + roomRequest) \<Rightarrow> room_handler" where
  "client_request ac rq n request x =
    (if \<not> truthy_str (rq_token rq) then raise (OttException ''Missing token'') x
     else (case getClientByToken (nullish (rq_token rq) []) n (ex_state x) of
         Inl e \<Rightarrow> raise e x
       | Inr h \<Rightarrow> (case request of
           Inl e \<Rightarrow> raise e x
         | Inr q \<Rightarrow> and_then (calling (makeRoomRequest (ac_backend ac) h q) x) (\<lambda>_ x1. respond 200 (Done Plain) x1))))"

text \<open>The body of \<open>undo\<close> is not checked: one without \<open>data\<close> is a \<open>TypeError\<close>.\<close>

definition api_undoEvent :: "apiConf \<Rightarrow> apiRequest \<Rightarrow> string \<Rightarrow> serverMessageEvent option \<Rightarrow> room_handler" where
  "api_undoEvent ac rq n event = client_request ac rq n (case event of
      None \<Rightarrow> Inl (JsTypeError ''Cannot read properties of undefined (reading 'event')'')
    | Some ev \<Rightarrow> Inr (UndoRequest ev))"

definition api_vote :: "apiConf \<Rightarrow> apiRequest \<Rightarrow> string \<Rightarrow> videoId \<Rightarrow> bool \<Rightarrow> room_handler" where
  "api_vote ac rq n body add x = and_then (checked (OttApiRequestVoteSchema body) x)
     (\<lambda>v x1. client_request ac rq n (Inr (VoteRequest v add)) x1)"

definition api_addVote :: "apiConf \<Rightarrow> apiRequest \<Rightarrow> string \<Rightarrow> videoId \<Rightarrow> room_handler" where
  "api_addVote ac rq n body = api_vote ac rq n body True"

definition api_removeVote :: "apiConf \<Rightarrow> apiRequest \<Rightarrow> string \<Rightarrow> videoId \<Rightarrow> room_handler" where
  "api_removeVote ac rq n body = api_vote ac rq n body False"

text \<open>Requests that need no connection: the token is enough.\<close>

definition queue_request :: "apiConf \<Rightarrow> apiRequest \<Rightarrow> string \<Rightarrow> int \<Rightarrow> roomRequest \<Rightarrow> room_handler" where
  "queue_request ac rq n points request x = limited (ac_limits ac) (rq_ip rq) points (\<lambda>x1.
     and_then (calling (unwrap_room (ac_backend ac) n) x1) (\<lambda>i x2.
     and_then (calling (unauthorized_request (ac_backend ac) i request (rq_token rq)) x2)
       (\<lambda>_ x3. respond 200 (Done Plain) x3))) x"

definition add_points :: "addRequestBody \<Rightarrow> int" where
  "add_points b = (case b of AddVideos vs \<Rightarrow> 3 * int (length vs) | _ \<Rightarrow> 5)"

definition add_request :: "addRequestBody \<Rightarrow> roomRequest" where
  "add_request b = (case b of
      AddVideos vs \<Rightarrow> AddRequest None (Some vs) None
    | AddUrl u \<Rightarrow> AddRequest None None (Some u)
    | AddVideo v \<Rightarrow> AddRequest (Some v) None None)"

definition api_addToQueue :: "apiConf \<Rightarrow> apiRequest \<Rightarrow> string \<Rightarrow> addBody \<Rightarrow> room_handler" where
  "api_addToQueue ac rq n body x = and_then (checked (OttApiRequestAddToQueueSchema (ac_isURL ac) body) x)
     (\<lambda>b x1. queue_request ac rq n (add_points b) (add_request b) x1)"

definition api_removeFromQueue :: "apiConf \<Rightarrow> apiRequest \<Rightarrow> string \<Rightarrow> videoId \<Rightarrow> room_handler" where
  "api_removeFromQueue ac rq n body x = and_then (checked (OttApiRequestVoteSchema body) x)
     (\<lambda>v x1. queue_request ac rq n 5 (RemoveRequest v) x1)"

definition api_updateQueueItem :: "apiConf \<Rightarrow> apiRequest \<Rightarrow> string \<Rightarrow> videoAdd \<Rightarrow> room_handler" where
  "api_updateQueueItem ac rq n body x = and_then (checked (OttApiRequestUpdateQueueItemSchema (ac_isURL ac) body) x)
     (\<lambda>v x1. queue_request ac rq n 5 (UpdateQueueItemRequest \<lparr>vi_service = va_service v, vi_id = va_id v\<rparr>
        \<lparr>qe_startAt = None, qe_endAt = None, qe_subtitleUrl = Some (va_subtitleUrl v)\<rparr>) x1)"

section \<open>Errors\<close>

definition bad_argument :: "exn \<Rightarrow> apiError" where
  "bad_argument e = (case e of
      BadApiArgumentException arg reason \<Rightarrow> (named_error (exn_name e) (exn_message e))\<lparr>ae_arg := Some arg, ae_reason := Some reason\<rparr>
    | _ \<Rightarrow> named_error (exn_name e) (exn_message e))"

definition ott_error :: "exn \<Rightarrow> int \<times> apiError" where
  "ott_error e =
    (if exn_name e = ''RoomNotFoundException'' then (404, named_error (exn_name e) ''Room not found'')
     else if exn_name e \<in> set [''VideoAlreadyQueuedException'', ''PermissionDeniedException'', ''ClientNotFoundInRoomException'']
     then (400, named_error (exn_name e) (exn_message e))
     else if exn_name e = ''BadApiArgumentException'' then (400, bad_argument e)
     else if exn_name e = ''FeatureDisabledException'' then (403, named_error (exn_name e) (exn_message e))
     else (400, named_error (exn_name e) (exn_message e)))"

definition api_error :: "apiConf \<Rightarrow> failure \<Rightarrow> int \<times> apiError" where
  "api_error ac f = (case f of
      Raised e \<Rightarrow> (if is_ott_exception e then ott_error e
        else (500, named_error ''Unknown'' ''An unknown error occurred. Try again later.''))
    | ZodError issues \<Rightarrow> (400, named_error ''ZodValidationError'' (ac_zodText ac issues))
    | _ \<Rightarrow> (if is_ott_failure f then (400, named_error (failure_name f) (failure_message f))
        else (500, named_error ''Unknown'' ''An unknown error occurred. Try again later.'')))"

definition api_errorHandler :: "apiConf \<Rightarrow> failure \<Rightarrow> room_handler" where
  "api_errorHandler ac f x = (let (status, e) = api_error ac f in respond status (Failed e) x)"

text \<open>The routes: each handler with its errors handled.\<close>

definition route :: "apiConf \<Rightarrow> room_handler \<Rightarrow> room_handler" where
  "route ac h x = catching (api_errorHandler ac) (h x)"

end
