(* ===== verification/UserApi.thy ===== *)
theory UserApi
  imports Accounts RoomApi
begin

text \<open>
  The HTTP handlers of \<open>server/usermanager.ts\<close>, \<open>server/api/user.ts\<close> and \<open>server/auth/index.ts\<close>. What a
  handler throws outside its \<open>try\<close> is an unhandled rejection: the call throws and no response is sent.
\<close>

section \<open>Requests and replies\<close>

text \<open>What the auth middleware leaves on the request.\<close>

record userRequest =
  uq_ip :: string
  uq_token :: "authToken option"
  uq_user :: "account option"
  uq_session :: "sessionInfo option"

datatype userReply =
    UPlain
  | UMe "string option" bool "bool option"
  | UIdentity "string option" string
  | UAccount string "string option" bool bool
  | UToken authToken
  | URooms "roomListItem list"
  | URedirect string

type_synonym 'd user_exchange = "('d userState, userReply) exchange"
type_synonym 'd user_handler = "'d user_exchange \<Rightarrow> (unit, 'd userState, userReply) handler_call"

text \<open>Runs a call of the user manager inside a handler.\<close>

definition running :: "('s \<Rightarrow> (failure, 'a, 's) outcome) \<Rightarrow> ('s, 'p) exchange \<Rightarrow> ('a, 's, 'p) handler_call" where
  "running f x = (case f (ex_state x) of
      Returns a s \<Rightarrow> Returns a (x\<lparr>ex_state := s\<rparr>)
    | Throws e s \<Rightarrow> Throws e (x\<lparr>ex_state := s\<rparr>))"

text \<open>\<open>toJSON\<close> of an exception: its own properties and the message.\<close>

definition error_json :: "failure \<Rightarrow> apiError" where
  "error_json f = \<lparr>ae_name = (case f of Raised (OttException m) \<Rightarrow> None | _ \<Rightarrow> Some (failure_name f)),
     ae_message = Some (failure_message f), ae_arg = None, ae_reason = None, ae_fields = None\<rparr>"

definition unknown_error :: apiError where
  "unknown_error = named_error ''Unknown'' ''An unknown error occurred. Try again later.''"

definition own_token :: "userRequest \<Rightarrow> authToken" where
  "own_token rq = nullish (uq_token rq) ''undefined''"

section \<open>Names\<close>

text \<open>Without an account but with a session that claims one, no response is sent.\<close>

definition um_me :: "userRequest \<Rightarrow> 'd user_handler" where
  "um_me rq x = (case uq_user rq of
      Some a \<Rightarrow> respond 200 (Done (UMe (Some (ua_username a)) True (Some (truthy_str (ua_discordId a))))) x
    | None \<Rightarrow> (case uq_session rq of
        Some (LoggedIn i) \<Rightarrow> Returns () x
      | Some (LoggedOut n) \<Rightarrow> respond 200 (Done (UMe (Some n) False None)) x
      | None \<Rightarrow> respond 200 (Done (UMe None False None)) x))"

definition username_taken_error :: apiError where
  "username_taken_error = named_error ''UsernameTaken'' ''Somebody else is already using that username.''"

definition reload_account :: "'d outside \<Rightarrow> account \<Rightarrow> 'd userState \<Rightarrow> (unit, 'd) user_call" where
  "reload_account od a s = and_then (ask (od_find od (ById (ua_id a))) s) (\<lambda>found s1. case found of
      None \<Rightarrow> Throws (Raised (JsError ''Instance could not be reloaded because it does not exist anymore (find call returned null)'')) s1
    | Some _ \<Rightarrow> Returns () s1)"

definition save_name :: "'d outside \<Rightarrow> account \<Rightarrow> string \<Rightarrow> 'd userState \<Rightarrow> (unit, 'd) user_call" where
  "save_name od a n s =
    (if isUsernameTaken od n s then Throws UsernameTakenError s else act (od_save od (a\<lparr>ua_username := n\<rparr>)) s)"

definition rename_account :: "'d outside \<Rightarrow> userRequest \<Rightarrow> account \<Rightarrow> string \<Rightarrow> 'd user_handler" where
  "rename_account od rq a n x = (case running (save_name od a n) x of
      Throws e x1 \<Rightarrow>
       (if failure_name e \<in> set [''SequelizeUniqueConstraintError'', ''UsernameTakenError'']
        then and_then (running (reload_account od a) x1) (\<lambda>_ x2. respond 400 (Failed username_taken_error) x2)
        else respond 500 (Failed (message_error ''An unknown error occurred.'')) x1)
    | Returns _ x1 \<Rightarrow> and_then (respond 200 (Done UPlain) x1)
        (\<lambda>_ x2. Returns () (on_state (tell (UserModified (own_token rq))) x2)))"

text \<open>A session that says it is logged in although there is no account is replaced first.\<close>

definition rename_guest :: "'d outside \<Rightarrow> userRequest \<Rightarrow> string \<Rightarrow> 'd user_handler" where
  "rename_guest od rq n x = (case uq_session rq of
      None \<Rightarrow> respond 200 FailedBare x
    | Some session \<Rightarrow>
        and_then (case session of
            LoggedIn i \<Rightarrow> running (createSession od) x
          | LoggedOut old \<Rightarrow> Returns session x) (\<lambda>_ x1.
        and_then (running (tokens_setSessionInfo od (own_token rq) (LoggedOut n)) x1) (\<lambda>_ x2.
        and_then (respond 200 (Done UPlain) x2)
          (\<lambda>_ x3. Returns () (on_state (tell (UserModified (own_token rq))) x3)))))"

definition um_rename :: "'d outside \<Rightarrow> userRequest \<Rightarrow> string option \<Rightarrow> 'd user_handler" where
  "um_rename od rq name x =
    (if \<not> truthy_str name then respond 400 (Failed (message_error ''Missing argument (username)'')) x
     else (let n = nullish name [] in
       if length n > 48
       then respond 400 (Failed (named_error ''LengthOutOfRangeException'' ''Username length must be less than or equal to 48'')) x
       else (case uq_user rq of
           Some a \<Rightarrow> rename_account od rq a n x
         | None \<Rightarrow> rename_guest od rq n x)))"

section \<open>Login and logout\<close>

record loginBody =
  lb_user :: "string option"
  lb_email :: "string option"
  lb_username :: "string option"
  lb_password :: "string option"

definition login_name :: "loginBody \<Rightarrow> string option" where
  "login_name b = (case lb_user b of Some u \<Rightarrow> Some u | None \<Rightarrow> (case lb_email b of Some e \<Rightarrow> Some e | None \<Rightarrow> lb_username b))"

definition usernameIPkey :: "loginBody \<Rightarrow> string \<Rightarrow> string" where
  "usernameIPkey b ip = nullish (login_name b) ''undefined'' @ ''_'' @ ip"

text \<open>How long a caller has to wait, zero when not at all.\<close>

definition login_wait :: "userConf \<Rightarrow> limiterRes option \<Rightarrow> limiterRes option \<Rightarrow> int" where
  "login_wait uc resUsernameAndIP resSlowByIP =
    (let over = (\<lambda>res bound. case res of None \<Rightarrow> False | Some r \<Rightarrow> lr_consumedPoints r > bound);
         secs = (\<lambda>res. case res of None \<Rightarrow> 0 | Some r \<Rightarrow> retry_seconds (lr_msBeforeNext r))
     in if over resSlowByIP (uc_maxWrongAttemptsByIPperDay uc) then secs resSlowByIP
        else if over resUsernameAndIP (uc_maxConsecutiveFails uc) then secs resUsernameAndIP else 0)"

text \<open>A missing name or password is reported as no user; otherwise the callback decides.\<close>

definition local_strategy :: "'d outside \<Rightarrow> loginBody \<Rightarrow> 'd userState \<Rightarrow> authResult \<times> 'd userState" where
  "local_strategy od b s =
    (if truthy_str (login_name b) \<and> truthy_str (lb_password b)
     then authCallback od (nullish (login_name b) []) (nullish (lb_password b) []) s else (AuthNobody, s))"

text \<open>Both ways to become logged in end like this: the session is stored, listeners are told, the reply is sent.\<close>

definition logged_in :: "'d outside \<Rightarrow> userRequest \<Rightarrow> int \<Rightarrow> account \<Rightarrow> 'd user_handler" where
  "logged_in od rq status a x =
    and_then (running (tokens_setSessionInfo od (own_token rq) (LoggedIn (ua_id a))) x) (\<lambda>_ x1.
      respond status (Done (UIdentity (ua_email a) (ua_username a))) (on_state (onUserLogIn a (own_token rq)) x1))"

definition login_attempt :: "'d outside \<Rightarrow> userRequest \<Rightarrow> loginBody \<Rightarrow> 'd user_handler" where
  "login_attempt od rq b x =
    (let (result, s1) = local_strategy od b (ex_state x); x1 = x\<lparr>ex_state := s1\<rparr>
     in case result of
          AuthError m \<Rightarrow> respond 401 (Failed (message_error m)) x1
        | AuthNobody \<Rightarrow> respond 401 (Failed (message_error ''Either the user or password was not provided.'')) x1
        | AuthUser a \<Rightarrow> (case running (act (od_reqLogin od a)) x1 of
            Throws e x2 \<Rightarrow> respond 500 (Failed (message_error ''An unknown error occurred when logging in.'')) x2
          | Returns _ x2 \<Rightarrow> logged_in od rq 200 a x2))"

definition um_login :: "'d outside \<Rightarrow> userConf \<Rightarrow> userRequest \<Rightarrow> loginBody \<Rightarrow> 'd user_handler" where
  "um_login od uc rq b x =
    (if \<not> uc_rate_limit uc then login_attempt od rq b x
     else and_then (running (ask (od_loginFails od (usernameIPkey b (uq_ip rq)))) x) (\<lambda>byName x1.
       and_then (running (ask (od_ipFails od (uq_ip rq))) x1) (\<lambda>byIP x2.
         let secs = login_wait uc byName byIP
         in if secs > 0
            then and_then (set_header ''Retry-After'' (HText (show_int secs)) x2) (\<lambda>_ x3.
              respond 429 (FailedOpen (named_error ''TooManyRequests'' ''Too many attempts.'')) x3)
            else login_attempt od rq b x2)))"

definition um_logout :: "'d outside \<Rightarrow> userRequest \<Rightarrow> 'd user_handler" where
  "um_logout od rq x = (case uq_user rq of
      None \<Rightarrow> respond 400 (Failed (message_error ''Not logged in.'')) x
    | Some a \<Rightarrow> (case running (act (od_reqLogout od)) x of
        Throws e x1 \<Rightarrow> Returns () x1
      | Returns _ x1 \<Rightarrow>
          and_then (running (createSession od) x1) (\<lambda>session x2.
          and_then (running (tokens_setSessionInfo od (own_token rq) session) x2) (\<lambda>_ x3.
          respond 200 (Done UPlain) (on_state (onUserLogOut a (own_token rq)) x3)))))"

section \<open>Registering\<close>

fun join_commas :: "string list \<Rightarrow> string" where
  "join_commas [] = []"
| "join_commas [s] = s"
| "join_commas (s # ss) = s @ '','' @ join_commas ss"

definition in_use :: "string list \<Rightarrow> string \<Rightarrow> apiError" where
  "in_use fs m = (named_error ''AlreadyInUse'' m)\<lparr>ae_fields := Some fs\<rparr>"

definition register_error :: "failure \<Rightarrow> int \<times> apiError" where
  "register_error e = (case e of
      UniqueConstraintError fs \<Rightarrow> (400, in_use fs
        (join_commas fs @ '' '' @ (if length fs > 1 then ''are'' else ''is'') @ '' already in use.''))
    | _ \<Rightarrow>
       (if failure_name e = ''FeatureDisabledException'' then (403, error_json e)
        else if failure_name e = ''UsernameTakenError'' then (400, in_use [''username''] ''Username is already in use.'')
        else if failure_name e = ''EmailAlreadyInUseError''
        then (400, in_use [''email''] ''Email is already associated with an account.'')
        else if failure_name e \<in> set [''SequelizeValidationError'', ''BadPasswordError'', ''LengthOutOfRangeException'']
        then (400, named_error ''ValidationError'' (failure_message e))
        else (500, unknown_error)))"

definition um_register :: "'d outside \<Rightarrow> userConf \<Rightarrow> userRequest \<Rightarrow> registration \<Rightarrow> 'd user_handler" where
  "um_register od uc rq rg = limited (uc_limits uc) (uq_ip rq) 100 (\<lambda>x.
     case running (registerUser od uc rg) x of
       Throws e x1 \<Rightarrow> (let (status, er) = register_error e in respond status (Failed er) x1)
     | Returns a x1 \<Rightarrow> logged_in od rq 201 a (final_state (running (act (od_reqLogin od a)) x1)))"

section \<open>Recovering an account\<close>

text \<open>The bytes of the key in hexadecimal.\<close>

definition hex_digit :: "nat \<Rightarrow> char" where
  "hex_digit n = ''0123456789abcdef'' ! n"

definition to_hex :: "bytes \<Rightarrow> string" where
  "to_hex bs = concat (map (\<lambda>c. let n = (of_char c :: nat) in [hex_digit (n div 16), hex_digit (n mod 16)]) bs)"

definition reset_mail :: "userConf \<Rightarrow> string \<Rightarrow> string \<Rightarrow> email" where
  "reset_mail uc to key =
    (let link = (if contains_text ''localhost'' (uc_hostname uc) then ''http'' else ''https'') @ ''://'' @ uc_hostname uc
           @ uc_base_url uc @ ''/passwordreset?verifyKey='' @ key
     in \<lparr>em_to = to, em_subject = ''OpenTogetherTube - Password Reset'',
         em_body = ''Click this link to reset your password for OpenTogetherTube: <a href='' @ quoted link @ ''>'' @ link @ ''</a>''\<rparr>)"

text \<open>With \<open>unwrap\<close>, which turns the error of the result into a throw.\<close>

definition sendPasswordResetEmail :: "'d outside \<Rightarrow> userConf \<Rightarrow> string \<Rightarrow> 'd userState \<Rightarrow> (unit, 'd) user_call" where
  "sendPasswordResetEmail od uc to s =
    (if \<not> uc_mail_enabled uc
     then Throws (Raised (FeatureDisabledException ''This instance does not have email enabled.'')) s
     else and_then (act (od_random od 32) s) (\<lambda>bs s1.
       and_then (act (od_setRecovery od (to_hex bs) (60 * 10) to) s1) (\<lambda>_ s2.
       act (od_mail od (reset_mail uc to (to_hex bs))) s2)))"

datatype recoveryStart = RecoverByEmail string | RecoverByName string

text \<open>What the rate limiter answers is not looked at: the handler goes on after its response.\<close>

definition accountRecoveryStart :: "'d outside \<Rightarrow> userConf \<Rightarrow> userRequest \<Rightarrow> recoveryStart \<Rightarrow> 'd user_handler" where
  "accountRecoveryStart od uc rq body x =
    and_then (if uc_rate_limit uc then consumeRateLimitPoints (uc_limits uc) (uq_ip rq) 100 x else Returns True x) (\<lambda>_ x1.
    and_then (running (um_getUser od (Some (case body of RecoverByEmail e \<Rightarrow> e | RecoverByName n \<Rightarrow> n)) None None) x1) (\<lambda>a x2.
      if \<not> truthy_str (ua_email a) then Throws (Raised NoEmail) x2
      else and_then (running (sendPasswordResetEmail od uc (nullish (ua_email a) [])) x2) (\<lambda>_ x3. respond 200 (Done UPlain) x3)))"

text \<open>What follows once the key has led to an account.\<close>

definition recover_account :: "'d outside \<Rightarrow> userConf \<Rightarrow> userRequest \<Rightarrow> string \<Rightarrow> string \<Rightarrow> account \<Rightarrow> 'd user_handler" where
  "recover_account od uc rq verifyKey newPassword a x =
    and_then (running (changeUserPassword od uc a newPassword False) x) (\<lambda>_ x1.
    and_then (running (act (od_delRecovery od verifyKey)) x1) (\<lambda>_ x2.
    and_then (if truthy_str (uq_token rq) then running (tokens_setSessionInfo od (own_token rq) (LoggedIn (ua_id a))) x2
              else Returns () x2) (\<lambda>_ x3.
    and_then (if uc_rate_limit uc then running (act (od_reward od (uq_ip rq) 100)) x3 else Returns () x3) (\<lambda>_ x4.
      respond 200 (Done UPlain) x4))))"

definition accountRecoveryVerify :: "'d outside \<Rightarrow> userConf \<Rightarrow> userRequest \<Rightarrow> string \<Rightarrow> string \<Rightarrow> 'd user_handler" where
  "accountRecoveryVerify od uc rq verifyKey newPassword x =
    and_then (if uc_rate_limit uc then consumeRateLimitPoints (uc_limits uc) (uq_ip rq) 10 x else Returns True x) (\<lambda>_ x1.
    if \<not> isPasswordValid uc newPassword then Throws BadPasswordError x1
    else and_then (running (ask (od_getRecovery od verifyKey)) x1) (\<lambda>found x2.
      if \<not> truthy_str found then Throws (Raised InvalidVerifyKey) x2
      else and_then (running (ask (od_find od (ByEmail (nullish found [])))) x2) (\<lambda>user x3. (case user of
          None \<Rightarrow> Throws (Raised UserNotFound) x3
        | Some a \<Rightarrow> recover_account od uc rq verifyKey newPassword a x3))))"

definition um_errorHandler :: "failure \<Rightarrow> 'd user_handler" where
  "um_errorHandler f x =
    (if is_ott_failure f then respond 400 (Failed (error_json f)) x
     else (case f of
         ZodError issues \<Rightarrow> respond 400 (Failed \<lparr>ae_name = Some ''ZodValidationError'', ae_message = None, ae_arg = None,
             ae_reason = None, ae_fields = None\<rparr>) x
       | _ \<Rightarrow> respond 500 (Failed unknown_error) x))"

definition um_recover_start :: "'d outside \<Rightarrow> userConf \<Rightarrow> userRequest \<Rightarrow> recoveryStart \<Rightarrow> 'd user_handler" where
  "um_recover_start od uc rq body x = catching um_errorHandler (accountRecoveryStart od uc rq body x)"

definition um_recover_verify :: "'d outside \<Rightarrow> userConf \<Rightarrow> userRequest \<Rightarrow> string \<Rightarrow> string \<Rightarrow> 'd user_handler" where
  "um_recover_verify od uc rq verifyKey newPassword x =
    catching um_errorHandler (accountRecoveryVerify od uc rq verifyKey newPassword x)"

section \<open>The account page\<close>

definition unauthorized :: "'d user_handler" where
  "unauthorized x = respond 401 (Failed (named_error ''Unauthorized'' ''Not logged in.'')) x"

text \<open>Handlers for a logged-in account, with the points they cost.\<close>

definition for_account :: "userConf \<Rightarrow> userRequest \<Rightarrow> int \<Rightarrow> (account \<Rightarrow> 'd user_handler) \<Rightarrow> 'd user_handler" where
  "for_account uc rq points h x = (case uq_user rq of
      None \<Rightarrow> unauthorized x
    | Some a \<Rightarrow> limited (uc_limits uc) (uq_ip rq) points (h a) x)"

definition getAccount :: "userConf \<Rightarrow> userRequest \<Rightarrow> 'd user_handler" where
  "getAccount uc rq = for_account uc rq 1 (\<lambda>a x. respond 200 (Done (UAccount (ua_username a) (ua_email a)
     (truthy_str (ua_discordId a)) (ua_hash a \<noteq> None \<and> ua_salt a \<noteq> None))) x)"

record accountUpdate =
  au_email :: "string option"
  au_currentPassword :: "string option"
  au_newPassword :: "string option"

text \<open>\<open>z.string().email()\<close> is a test of the library, given as an argument.\<close>

definition OttApiRequestAccountUpdateSchema :: "(string \<Rightarrow> bool) \<Rightarrow> accountUpdate \<Rightarrow> zodIssue list" where
  "OttApiRequestAccountUpdateSchema isEmail b =
    when_given (au_email b) (\<lambda>e. issue ''email'' ''invalid_string'' None (isEmail e)
       @ issue ''email'' ''too_small'' None (length e \<ge> 3))
    @ issue [] ''custom'' (Some ''At least one field must be provided'') (au_email b \<noteq> None \<or> au_newPassword b \<noteq> None)"

definition first_message :: "zodIssue list \<Rightarrow> string" where
  "first_message issues = nullish (case issues of [] \<Rightarrow> None | i # _ \<Rightarrow> zi_message i) ''Invalid account update request.''"

text \<open>The check of the current password: \<open>None\<close> when the change may go on.\<close>

definition check_current :: "'d outside \<Rightarrow> account \<Rightarrow> accountUpdate \<Rightarrow> 'd userState \<Rightarrow> (apiError option, 'd) user_call" where
  "check_current od a b s =
    (if ua_hash a = None \<and> ua_salt a = None then Returns None s
     else if \<not> truthy_str (au_currentPassword b)
     then Returns (Some (named_error ''CurrentPasswordRequired'' ''Current password is required.'')) s
     else and_then (verifyUserPassword od a (nullish (au_currentPassword b) []) s) (\<lambda>ok s1.
       Returns (if ok then None else Some (named_error ''InvalidPassword'' ''Current password is incorrect.'')) s1))"

text \<open>The account's fields are assigned in memory; a password change saves them all, else the email alone does.\<close>

definition patch_password :: "'d outside \<Rightarrow> userConf \<Rightarrow> account \<Rightarrow> accountUpdate \<Rightarrow> string \<Rightarrow> 'd user_handler" where
  "patch_password od uc a b pw x = and_then (running (check_current od a b) x) (\<lambda>refused x1. case refused of
      Some e \<Rightarrow> respond 400 (Failed e) x1
    | None \<Rightarrow> (case running (changeUserPassword od uc a pw True) x1 of
        Throws e x2 \<Rightarrow> respond 400 (Failed (named_error (failure_name e) (failure_message e))) x2
      | Returns _ x2 \<Rightarrow> respond 200 (Done UPlain) x2))"

definition email_in_use :: "'d outside \<Rightarrow> account \<Rightarrow> string option \<Rightarrow> 'd userState \<Rightarrow> bool" where
  "email_in_use od a e s = (case e of None \<Rightarrow> False | Some m \<Rightarrow> ua_email a \<noteq> Some m \<and> isEmailTaken od m s)"

definition patchAccount :: "'d outside \<Rightarrow> userConf \<Rightarrow> (string \<Rightarrow> bool) \<Rightarrow> userRequest \<Rightarrow> accountUpdate \<Rightarrow> 'd user_handler" where
  "patchAccount od uc isEmail rq b = for_account uc rq 10 (\<lambda>a x.
    let issues = OttApiRequestAccountUpdateSchema isEmail b in
    if issues \<noteq> [] then respond 400 (Failed (named_error ''ValidationError'' (first_message issues))) x
    else if email_in_use od a (au_email b) (ex_state x)
    then respond 400 (Failed (in_use [''email''] ''Email is already associated with an account.'')) x
    else (let a1 = (case au_email b of None \<Rightarrow> a | Some m \<Rightarrow> a\<lparr>ua_email := Some m\<rparr>) in
      case au_newPassword b of
        Some pw \<Rightarrow> patch_password od uc a1 b pw x
      | None \<Rightarrow> and_then (running (act (od_save od a1)) x) (\<lambda>_ x1. respond 200 (Done UPlain) x1)))"

definition deleteDiscordLink :: "'d outside \<Rightarrow> userConf \<Rightarrow> userRequest \<Rightarrow> 'd user_handler" where
  "deleteDiscordLink od uc rq = for_account uc rq 10 (\<lambda>a x.
    if \<not> truthy_str (ua_discordId a)
    then respond 400 (Failed (named_error ''DiscordNotLinked'' ''This account is not linked to Discord.'')) x
    else if ua_hash a = None \<or> ua_salt a = None
    then respond 400 (Failed (named_error ''PasswordRequired'' ''Add a password before unlinking Discord.'')) x
    else and_then (running (act (od_save od (a\<lparr>ua_discordId := None\<rparr>))) x) (\<lambda>_ x1. respond 200 (Done UPlain) x1))"

text \<open>The rows of the account's rooms are what the query \<open>findAll\<close> answered.\<close>

definition owned_item :: "dbRoom \<Rightarrow> roomListItem" where
  "owned_item db = \<lparr>rl_name = db_name db, rl_title = db_title db, rl_description = db_description db,
     rl_isTemporary = False, rl_visibility = db_visibility db, rl_queueMode = db_queueMode db,
     rl_currentSource = None, rl_users = 0\<rparr>"

definition getOwnedRooms :: "(int \<Rightarrow> failure + dbRoom list) \<Rightarrow> userRequest \<Rightarrow> 'd user_handler" where
  "getOwnedRooms findAll rq x = (case uq_user rq of
      None \<Rightarrow> unauthorized x
    | Some a \<Rightarrow> and_then (checked (findAll (ua_id a)) x)
        (\<lambda>rows x1. respond 200 (Done (URooms (map owned_item rows))) x1))"

section \<open>Authentication of requests\<close>

text \<open>What express knows of a request: its headers and cookies.\<close>

record rawRequest =
  rw_ip :: string
  rw_apikey :: "string option"
  rw_authorization :: "string option"
  rw_cookie :: "authToken option"

text \<open>\<open>authorization.split(' ')[1]\<close>\<close>

definition bearer_token :: "string \<Rightarrow> authToken option" where
  "bearer_token h = (case split_on CHR '' '' h of _ # t # _ \<Rightarrow> Some t | _ \<Rightarrow> None)"

definition request_token :: "rawRequest \<Rightarrow> authToken option" where
  "request_token rw = (case rw_authorization rw of
      Some h \<Rightarrow> (if starts_with ''Bearer'' h then bearer_token h
                else if truthy_str (rw_cookie rw) then rw_cookie rw else None)
    | None \<Rightarrow> (if truthy_str (rw_cookie rw) then rw_cookie rw else None))"

text \<open>
  \<open>Some rq\<close>: the next handler is called with \<open>rq\<close>. A session that names an account that is not found is
  replaced in the store, not on the request.
\<close>

type_synonym 'd user_middleware = "'d user_exchange \<Rightarrow> (userRequest option, 'd userState, userReply) handler_call"

definition session_middleware :: "'d outside \<Rightarrow> authToken \<Rightarrow> userRequest \<Rightarrow> 'd user_middleware" where
  "session_middleware od token rq x = (case running (tokens_getSessionInfo od token) x of
      Throws e x1 \<Rightarrow> and_then (respond 401 (Failed (named_error ''MissingToken''
          ''Missing valid auth token. Get a token from /api/auth/grant first.'')) x1) (\<lambda>_ x2. Returns None x2)
    | Returns (LoggedOut n) x1 \<Rightarrow> Returns (Some (rq\<lparr>uq_session := Some (LoggedOut n)\<rparr>)) x1
    | Returns (LoggedIn i) x1 \<Rightarrow> (case running (um_getUser od None (Some i) None) x1 of
        Returns a x2 \<Rightarrow> Returns (Some (rq\<lparr>uq_user := Some a, uq_session := Some (LoggedIn i)\<rparr>)) x2
      | Throws e x2 \<Rightarrow> and_then (running (createSession od) x2) (\<lambda>session x3.
          and_then (running (tokens_setSessionInfo od token session) x3)
            (\<lambda>_ x4. Returns (Some (rq\<lparr>uq_session := Some (LoggedIn i)\<rparr>)) x4))))"

definition authTokenMiddleware :: "'d outside \<Rightarrow> userConf \<Rightarrow> rawRequest \<Rightarrow> 'd user_middleware" where
  "authTokenMiddleware od uc rw x =
    (let rq = \<lparr>uq_ip = rw_ip rw, uq_token = None, uq_user = None, uq_session = None\<rparr>;
         token = nullish (request_token rw) []
     in if truthy_str (rw_apikey rw)
        then (case requireApiKey (uc_api_key uc) (nullish (rw_apikey rw) []) of
            Inl e \<Rightarrow> and_then (respond 400 (Failed (named_error (exn_name e) (exn_message e))) x) (\<lambda>_ x1. Returns None x1)
          | Inr _ \<Rightarrow> Returns (Some rq) x)
        else if \<not> truthy_str (request_token rw)
        then and_then (respond 400 (Failed (named_error ''MissingToken'' ''Missing auth token. Get a token from /api/auth/grant first.'')) x)
               (\<lambda>_ x1. Returns None x1)
        else session_middleware od token (rq\<lparr>uq_token := Some token\<rparr>) x)"

text \<open>\<open>toString('base64')\<close> of the random bytes is an argument.\<close>

definition tokens_mint :: "'d outside \<Rightarrow> (bytes \<Rightarrow> authToken) \<Rightarrow> 'd userState \<Rightarrow> (authToken, 'd) user_call" where
  "tokens_mint od base64 s = and_then (act (od_random od 512) s) (\<lambda>bs s1. Returns (base64 bs) s1)"

definition auth_grant :: "'d outside \<Rightarrow> (bytes \<Rightarrow> authToken) \<Rightarrow> rawRequest \<Rightarrow> 'd user_handler" where
  "auth_grant od base64 rw x =
    (let bearer = (case rw_authorization rw of
            Some h \<Rightarrow> (if starts_with ''Bearer'' h then Some (nullish (bearer_token h) ''undefined'') else None)
          | None \<Rightarrow> None);
         mint = (\<lambda>x. and_then (running (tokens_mint od base64) x) (\<lambda>token x1.
           and_then (running (createSession od) x1) (\<lambda>session x2.
           and_then (running (tokens_setSessionInfo od token session) x2)
             (\<lambda>_ x3. respond 200 (Done (UToken token)) x3))))
     in case bearer of
          None \<Rightarrow> mint x
        | Some t \<Rightarrow> and_then (running (tokens_validate od t) x)
            (\<lambda>ok x1. if ok then respond 200 (Done (UToken t)) x1 else mint x1))"

text \<open>The end of a login through Discord, with the account passport found and the page to go to.\<close>

definition discord_callback :: "'d outside \<Rightarrow> account option \<Rightarrow> authToken option \<Rightarrow> string option \<Rightarrow> 'd user_handler" where
  "discord_callback od user cookie redirect x = (case user of
      None \<Rightarrow> respond 400 (Failed (message_error ''no user found on request'')) x
    | Some a \<Rightarrow>
       (if \<not> truthy_str cookie then respond 400 (Failed (message_error ''no token found on request'')) x
        else and_then (running (tokens_setSessionInfo od (nullish cookie []) (LoggedIn (ua_id a))) x)
          (\<lambda>_ x1. respond 302 (Done (URedirect (nullish redirect ''/''))) x1)))"

end
