(* ===== verification/RoomApiProperties.thy ===== *)
theory RoomApiProperties
  imports RoomApi ManagerRaces SafetyProperties
begin

text \<open>
  What the HTTP interface of rooms promises: every request is answered exactly once; a refused or rate
  limited request leaves the rooms alone; rooms are only removed for their owner or the administrator;
  ownership is never taken from an owner; lists show public rooms only; and what a patch does to the
  permissions.
\<close>

section \<open>One response to every request\<close>

definition api_statuses :: "int set" where
  "api_statuses = {200, 201, 400, 401, 403, 404, 429, 500}"

text \<open>A handler that has returned has sent one response; one that throws has sent none.\<close>

definition answers :: "('a, 's, 'p) handler_call \<Rightarrow> bool" where
  "answers c \<longleftrightarrow> (case c of
      Returns _ y \<Rightarrow> (\<exists>r. ex_sent y = [r] \<and> rs_status r \<in> api_statuses)
    | Throws e y \<Rightarrow> ex_sent y = [])"

definition silent :: "('a, 's, 'p) handler_call \<Rightarrow> bool" where
  "silent c \<longleftrightarrow> ex_sent (final_state c) = []"

named_theorems answering \<open>how a handler comes to its response\<close>

lemma answers_respond [answering]:
  "ex_sent x = [] \<Longrightarrow> st \<in> api_statuses \<Longrightarrow> answers (respond st b x)"
  by (simp add: answers_def respond_def)

lemma answers_raise [answering]: "ex_sent x = [] \<Longrightarrow> answers (raise e x)"
  by (simp add: answers_def raise_def)

lemma answers_throws [answering]: "ex_sent x = [] \<Longrightarrow> answers (Throws e x)"
  by (simp add: answers_def)

lemma answers_and_then [answering]:
  assumes "silent c" and "\<And>a y. ex_sent y = [] \<Longrightarrow> answers (k a y)"
  shows "answers (and_then c k)"
  using assms by (cases c) (auto simp: answers_def silent_def)

lemma answers_if [answering]: "(b \<Longrightarrow> answers c) \<Longrightarrow> (\<not> b \<Longrightarrow> answers d) \<Longrightarrow> answers (if b then c else d)"
  by simp

lemma answers_option [answering]:
  "(v = None \<Longrightarrow> answers c) \<Longrightarrow> (\<And>a. v = Some a \<Longrightarrow> answers (d a))
    \<Longrightarrow> answers (case v of None \<Rightarrow> c | Some a \<Rightarrow> d a)"
  by (cases v) auto

lemma answers_sum [answering]:
  "(\<And>e. v = Inl e \<Longrightarrow> answers (c e)) \<Longrightarrow> (\<And>a. v = Inr a \<Longrightarrow> answers (d a))
    \<Longrightarrow> answers (case v of Inl e \<Rightarrow> c e | Inr a \<Rightarrow> d a)"
  by (cases v) auto

lemma answers_patch [answering]:
  "(\<And>c. answers (f c)) \<Longrightarrow> (\<And>p. answers (g p)) \<Longrightarrow> answers (case b of PatchClaim c \<Rightarrow> f c | PatchSettings p \<Rightarrow> g p)"
  by (cases b) auto

lemma silent_calls [answering]:
  "ex_sent x = [] \<Longrightarrow> silent (calling f x)" "ex_sent x = [] \<Longrightarrow> silent (checked v x)"
  "ex_sent x = [] \<Longrightarrow> silent (unload_named ac n x)"
  by (simp_all add: silent_def checked_def unload_named_def split: sum.split)

lemma statuses [simp]:
  "200 \<in> api_statuses" "201 \<in> api_statuses" "400 \<in> api_statuses" "401 \<in> api_statuses" "403 \<in> api_statuses"
  "404 \<in> api_statuses" "429 \<in> api_statuses" "500 \<in> api_statuses"
  by (simp_all add: api_statuses_def)

lemma rate_headers_sent:
  assumes "ex_sent x = []"
  shows "\<exists>y. setRateLimitHeaders l info x = Returns () y \<and> ex_sent y = [] \<and> ex_state y = ex_state x"
  using assms by (simp add: setRateLimitHeaders_def set_header_def)

lemma handleRateLimit_answers:
  assumes "ex_sent x = []"
  shows "\<exists>y r. handleRateLimit l info x = Returns () y \<and> ex_sent y = [r] \<and> rs_status r = 429 \<and> ex_state y = ex_state x"
  using assms by (simp add: handleRateLimit_def setRateLimitHeaders_def set_header_def respond_def)

lemma answers_limited [answering]:
  assumes "ex_sent x = []" and "\<And>y. ex_sent y = [] \<Longrightarrow> answers (h y)"
  shows "answers (limited l key points h x)"
proof (cases "li_consume l key points")
  case (Consumed info)
  with rate_headers_sent [OF assms(1), of l info] assms show ?thesis
    by (auto simp: limited_def consumeRateLimitPoints_def)
next
  case (Refused info)
  with handleRateLimit_answers [OF assms(1), of l info] assms show ?thesis
    by (auto simp: limited_def consumeRateLimitPoints_def answers_def)
next
  case (LimiterError e)
  with assms show ?thesis by (auto simp: limited_def consumeRateLimitPoints_def answers_def)
qed

text \<open>The contract of a handler, and what the route around it adds.\<close>

locale http_handler =
  fixes ac :: apiConf and h :: room_handler
  assumes answering: "ex_sent x = [] \<Longrightarrow> answers (h x)"
begin

lemma answered_once:
  assumes "ex_sent x = []"
  shows "\<exists>y r. route ac h x = Returns () y \<and> ex_sent y = [r] \<and> rs_status r \<in> api_statuses"
proof (cases "h x")
  case (Returns u y)
  with answering [OF assms] show ?thesis by (auto simp: route_def answers_def)
next
  case (Throws e y)
  obtain st er where e: "api_error ac e = (st, er)" by force
  have "st \<in> api_statuses" using e by (auto simp: api_error_def ott_error_def split: failure.splits if_splits)
  with Throws answering [OF assms] e show ?thesis
    by (auto simp: route_def answers_def api_errorHandler_def respond_def)
qed

text \<open>A route leaves the server as its handler left it.\<close>

lemma route_state: "ex_state (final_state (route ac h x)) = ex_state (final_state (h x))"
  by (cases "h x") (simp_all add: route_def api_errorHandler_def split: prod.split)

end

interpretation list_route: http_handler ac "api_listRooms ac rq" for ac rq
  by unfold_locales (auto simp: api_listRooms_def intro!: answering)

interpretation generate_route: http_handler ac "api_generateRoom ac rq b" for ac rq b
  by unfold_locales (auto simp: api_generateRoom_def intro!: answering)

interpretation create_route: http_handler ac "api_createRoom ac rq b" for ac rq b
  by unfold_locales (unfold api_createRoom_def, intro answering, auto)

interpretation get_route: http_handler ac "api_getRoom ac n" for ac n
  by unfold_locales (auto simp: api_getRoom_def intro!: answering)

lemma patch_store_answers [answering]: "ex_sent x = [] \<Longrightarrow> answers (patch_store ac i x)"
  by (auto simp: patch_store_def Let_def intro!: answering)

lemma patch_claim_answers [answering]: "ex_sent x = [] \<Longrightarrow> answers (patch_claim ac rq i x)"
  by (auto simp: patch_claim_def intro!: answering)

interpretation patch_route: http_handler ac "api_patchRoom ac rq n b" for ac rq n b
  by unfold_locales (unfold api_patchRoom_def, intro answering, auto intro!: answering split: patchRequestBody.split)

lemma delete_permanent_answers [answering]: "ex_sent x = [] \<Longrightarrow> answers (delete_permanent ac u n i x)"
  by (auto simp: delete_permanent_def Let_def intro!: answering)

interpretation delete_route: http_handler ac "api_deleteRoom ac rq n p" for ac rq n p
  by unfold_locales (auto simp: api_deleteRoom_def intro!: answering)

lemma client_request_answers [answering]: "ex_sent x = [] \<Longrightarrow> answers (client_request ac rq n q x)"
  by (auto simp: client_request_def intro!: answering)

interpretation undo_route: http_handler ac "api_undoEvent ac rq n ev" for ac rq n ev
  by unfold_locales (auto simp: api_undoEvent_def intro!: answering)

interpretation vote_route: http_handler ac "api_vote ac rq n v add" for ac rq n v add
  by unfold_locales (auto simp: api_vote_def intro!: answering)

lemma queue_request_answers [answering]: "ex_sent x = [] \<Longrightarrow> answers (queue_request ac rq n p q x)"
  by (auto simp: queue_request_def intro!: answering)

interpretation add_route: http_handler ac "api_addToQueue ac rq n b" for ac rq n b
  by unfold_locales (auto simp: api_addToQueue_def intro!: answering)

interpretation remove_route: http_handler ac "api_removeFromQueue ac rq n v" for ac rq n v
  by unfold_locales (auto simp: api_removeFromQueue_def intro!: answering)

interpretation update_route: http_handler ac "api_updateQueueItem ac rq n v" for ac rq n v
  by unfold_locales (auto simp: api_updateQueueItem_def intro!: answering)

text \<open>
  C15. Every request is answered: whatever the state of the server, the request and the outside world are,
  each route of the room API comes to an end with exactly one response sent, errors included, and its
  status is one of those the API uses.
\<close>

theorem api_answers_once:
  assumes "ex_sent x = []"
  shows "list_all (\<lambda>h. \<exists>y r. route ac h x = Returns () y \<and> ex_sent y = [r] \<and> rs_status r \<in> api_statuses)
    [api_listRooms ac rq, api_generateRoom ac rq cats, api_createRoom ac rq cb, api_getRoom ac n,
     api_patchRoom ac rq n pb, api_deleteRoom ac rq n perm, api_undoEvent ac rq n ev, api_addVote ac rq n v,
     api_removeVote ac rq n v, api_addToQueue ac rq n ab, api_removeFromQueue ac rq n v, api_updateQueueItem ac rq n va]"
  using list_route.answered_once [OF assms] generate_route.answered_once [OF assms] create_route.answered_once [OF assms]
    get_route.answered_once [OF assms] patch_route.answered_once [OF assms] delete_route.answered_once [OF assms]
    undo_route.answered_once [OF assms] vote_route.answered_once [OF assms] add_route.answered_once [OF assms]
    remove_route.answered_once [OF assms] update_route.answered_once [OF assms]
  by (simp add: api_addVote_def api_removeVote_def)

section \<open>Removing rooms\<close>

abbreviation rooms_of :: "(server, 'p) exchange \<Rightarrow> room list" where
  "rooms_of x \<equiv> rm_rooms (sv_manager (ex_state x))"

lemma manager_call_manager [simp]:
  "sv_manager (final_state (manager_call f s)) = final_state (f (sv_manager s))"
  by (simp add: manager_call_def split: outcome.split)

lemma addRoom_extends: "\<exists>ys. rm_rooms (final_state (addRoom bk r m)) = rm_rooms m @ ys"
proof -
  have "\<exists>ys. (rm_rooms m @ [r])[length (rm_rooms m) := r'] = rm_rooms m @ ys" for r' by simp
  then show ?thesis by (auto simp: addRoom_def Let_def split: sum.split)
qed

lemma final_and_then_Returns: "final_state (and_then c (\<lambda>i m. Returns (f i) m)) = final_state c"
  by (cases c) auto

lemma getRoom_extends: "\<exists>ys. rm_rooms (final_state (getRoom bk n must m)) = rm_rooms m @ ys"
proof (cases "\<exists>opts r. stored_options bk n = Inr (Some opts) \<and> newRoom (bk_world bk) opts = Inr r")
  case True
  then obtain opts r where "stored_options bk n = Inr (Some opts)" "newRoom (bk_world bk) opts = Inr r" by blast
  then show ?thesis
    using addRoom_extends [of bk r m]
    by (auto simp: getRoom_def load_room_def final_and_then_Returns split: option.split)
next
  case False
  then show ?thesis
    by (auto simp: getRoom_def load_room_def split: option.splits sum.splits)
qed

lemma unwrap_room_manager:
  "sv_manager (final_state (unwrap_room bk n s)) = final_state (getRoom bk n False (sv_manager s))"
proof -
  have "sv_manager (final_state (unwrap_room bk n s)) = sv_manager (final_state (manager_call (getRoom bk n False) s))"
    by (cases "manager_call (getRoom bk n False) s") (auto simp: unwrap_room_def split: sum.split)
  then show ?thesis by simp
qed

lemma unwrap_room_extends:
  "\<exists>ys. rm_rooms (sv_manager (final_state (unwrap_room bk n s))) = rm_rooms (sv_manager s) @ ys"
  using getRoom_extends by (simp add: unwrap_room_manager)


lemma unload_admin:
  assumes "manager_wf m" and "i < length (rm_rooms m)" and "r_name (rm_rooms m ! i) \<noteq> []"
    and "\<forall>k. bk_del bk k = Inr ()"
  shows "\<exists>m'. unloadRoom bk (r_name (rm_rooms m ! i)) Admin None m = Returns () m'
    \<and> map r_name (rm_rooms m') = remove_at i (map r_name (rm_rooms m))"
proof -
  let ?n = "r_name (rm_rooms m ! i)"
  obtain m1 where m1: "unload_begin bk ?n Admin m = Returns (Some (i, ?n)) m1"
    "map r_name (rm_rooms m1) = map r_name (rm_rooms m)" "manager_wf m1"
    using unload_begin_own [OF assms(1-3), of Admin bk] by auto
  have i: "i < length (rm_rooms m1)" "r_name (rm_rooms m1 ! i) = ?n"
    using m1(2) assms(2) by (metis length_map, metis length_map nth_map)
  have "removal_index i ?n (rm_rooms m1) = Some i" using i by (simp add: removal_index_def)
  then show ?thesis
    using m1 assms(4) by (simp add: unloadRoom_def unload_finish_def delete_keys_Cons remove_at_def
      take_map [symmetric] drop_map [symmetric])
qed

text \<open>
  An API key is only a secret when one is configured: with the default, the empty string, a request whose
  \<open>apikey\<close> header is present and empty is authorised, and the middleware lets it pass as an ordinary request
  of whoever has a token. It unloads any room.
\<close>

theorem empty_apikey_unloads:
  assumes "ac_api_key ac = []" and "rq_apikey rq = Some []" and "permanent \<noteq> Some ''true''" and "ex_sent x = []"
    and "manager_wf (sv_manager (ex_state x))" and "i < length (rooms_of x)" and "r_name (rooms_of x ! i) \<noteq> []"
    and "\<forall>k. bk_del (ac_backend ac) k = Inr ()"
  shows "\<exists>y r. route ac (api_deleteRoom ac rq (r_name (rooms_of x ! i)) permanent) x = Returns () y
    \<and> ex_sent y = [r] \<and> rs_status r = 200 \<and> map r_name (rooms_of y) = remove_at i (map r_name (rooms_of x))"
proof -
  let ?n = "r_name (rooms_of x ! i)"
  obtain m' where m': "unloadRoom (ac_backend ac) ?n Admin None (sv_manager (ex_state x)) = Returns () m'"
    "map r_name (rm_rooms m') = remove_at i (map r_name (rooms_of x))"
    using unload_admin [OF assms(5-8)] by blast
  then show ?thesis
    using assms(1-4) by (simp add: route_def api_deleteRoom_def api_authorized_def unload_named_def calling_def
        manager_call_def respond_def)
qed

section \<open>Creating rooms\<close>

lemma tick_room_identity:
  "r_owner (final_state (tick_room w r)) = r_owner r \<and> r_isTemporary (final_state (tick_room w r)) = r_isTemporary r"
proof -
  have s: "r_owner (final_state (sync w r)) = r_owner r \<and> r_isTemporary (final_state (sync w r)) = r_isTemporary r" for r
    by (auto simp: sync_def sync_with_def sync_begin_def sync_end_def publish_def room_defs Let_def)
  have u: "r_owner (final_state (update w r)) = r_owner r \<and> r_isTemporary (final_state (update w r)) = r_isTemporary r"
    using identity.update [of r r w] by (simp add: ends_in_def same_identity_def)
  show ?thesis using s u by (cases "update w r") (auto simp: tick_room_def)
qed

lemma newRoom_identity:
  assumes "newRoom w opts = Inr r"
  shows "r_owner r = nullish (ro_owner opts) None" and "r_isTemporary r = nullish (ro_isTemporary opts) False"
proof -
  have i: "r_owner (initial_room w g) = None" "r_isTemporary (initial_room w g) = False" for g
    by (simp_all add: initial_room_def room_defs)
  show "r_owner r = nullish (ro_owner opts) None" "r_isTemporary r = nullish (ro_isTemporary opts) False"
    using assms i by (auto simp: newRoom_def Let_def restore_policy_def room_defs split: sum.splits if_splits option.splits)
qed

lemma addRoom_rooms: "\<exists>k. rm_rooms (final_state (addRoom bk r m)) \<in> {rm_rooms m @ [r], rm_rooms m @ [r\<lparr>r_loadEpoch := k\<rparr>]}"
  by (auto simp: addRoom_def Let_def split: sum.split)

text \<open>What a call of \<open>createRoom\<close> can do to the array, however it ends.\<close>

lemma createRoom_rooms:
  assumes "rm_rooms (final_state (createRoom bk n opts m)) \<noteq> rm_rooms m"
  shows "name_free bk n m = Inr () \<and> (\<exists>r. rm_rooms (final_state (createRoom bk n opts m)) = rm_rooms m @ [r] \<and> r_name r = n
    \<and> r_owner r = nullish (ro_owner opts) None \<and> r_isTemporary r = nullish (ro_isTemporary opts) False)"
proof -
  obtain r r1 where f: "name_free bk n m = Inr ()" and r: "newRoom (bk_world bk) (opts\<lparr>ro_name := Some n\<rparr>) = Inr r"
    and t: "tick_room (bk_world bk) r = Returns () r1"
    and c: "final_state (createRoom bk n opts m) = final_state (addRoom bk r1 m)"
    using assms by (auto simp: createRoom_def final_and_then_Returns split: sum.splits outcome.splits)
  have "r_name r1 = n" "r_owner r1 = nullish (ro_owner opts) None" "r_isTemporary r1 = nullish (ro_isTemporary opts) False"
    using tick_room_keeps(1) [of "bk_world bk" r] tick_room_identity [of "bk_world bk" r] newRoom_name [OF r]
      newRoom_identity [OF r] t by auto
  with f c addRoom_rooms [of bk r1 m] show ?thesis by auto
qed

lemma parsed_Inr: "parsed issues a = Inr b \<longleftrightarrow> issues = [] \<and> b = a"
  by (auto simp: parsed_def)

lemma issue_Nil [simp]: "issue p c m ok = [] \<longleftrightarrow> ok"
  by (simp add: issue_def)

lemma limited_state:
  "ex_state (final_state (limited l key points h x)) \<noteq> ex_state x \<Longrightarrow> ex_sent x = [] \<Longrightarrow>
    (\<exists>y. ex_state y = ex_state x \<and> ex_sent y = [] \<and> limited l key points h x = h y)
    \<and> (li_enabled l \<longrightarrow> (\<exists>info. li_consume l key points = Consumed info))"
proof (cases "li_consume l key points")
  case (Consumed info)
  assume "ex_sent x = []"
  with Consumed rate_headers_sent [of x l info] show ?thesis by (auto simp: limited_def consumeRateLimitPoints_def)
next
  case (Refused info)
  assume "ex_state (final_state (limited l key points h x)) \<noteq> ex_state x" "ex_sent x = []"
  with Refused handleRateLimit_answers [of x l info] show ?thesis by (auto simp: limited_def consumeRateLimitPoints_def)
next
  case (LimiterError e)
  assume "ex_state (final_state (limited l key points h x)) \<noteq> ex_state x" "ex_sent x = []"
  with LimiterError show ?thesis by (auto simp: limited_def consumeRateLimitPoints_def)
qed

text \<open>
  C16. Rooms created through the API are well named and belong to their creator: if \<open>POST /create\<close> changes the
  array of rooms, it has appended one room, whose name is the requested one, has 3 to 32 letters, digits,
  underscores and hyphens, is none of the names the routes reserve and differs from every loaded room's
  without regard to case; the room is temporary as asked (by default), that kind of room is enabled, its
  owner is the account of the request, and the rate limiter has given the points.
\<close>

theorem created_room_well_named:
  assumes "ex_sent x = []" and "rooms_of (final_state (route ac (api_createRoom ac rq b) x)) \<noteq> rooms_of x"
  shows "\<exists>r. rooms_of (final_state (route ac (api_createRoom ac rq b) x)) = rooms_of x @ [r] \<and> r_name r = cb_name b
    \<and> 3 \<le> length (r_name r) \<and> length (r_name r) \<le> 32 \<and> ROOM_NAME_REGEX (r_name r)
    \<and> r_name r \<notin> {''list'', ''create'', ''generate''}
    \<and> (\<forall>r'\<in>set (rooms_of x). to_lower (r_name r') \<noteq> to_lower (r_name r))
    \<and> r_isTemporary r = nullish (cb_isTemporary b) True \<and> r_owner r = rq_user rq
    \<and> (if r_isTemporary r then ac_enable_create_temporary ac else ac_enable_create_permanent ac)
    \<and> (li_enabled (ac_limits ac) \<longrightarrow>
        (\<exists>info. li_consume (ac_limits ac) (rq_ip rq) (if r_isTemporary r then 50 else 200) = Consumed info))"
proof -
  let ?b = "b\<lparr>cb_isTemporary := Some (nullish (cb_isTemporary b) True)\<rparr>" and ?bk = "ac_backend ac"
  let ?temp = "nullish (cb_isTemporary b) True" and ?m = "sv_manager (ex_state x)"
  let ?h = "\<lambda>x2. and_then (calling (manager_call (createRoom ?bk (cb_name b) (create_options ?b (rq_user rq)))) x2)
        (\<lambda>_ x3. respond 201 (Done Plain) x3)"
  have changed: "rooms_of (final_state (api_createRoom ac rq b x)) \<noteq> rooms_of x"
    using assms(2) by (simp add: create_route.route_state)
  then have schema: "OttApiRequestRoomCreateSchema b = Inr ?b"
    by (auto simp: api_createRoom_def checked_def OttApiRequestRoomCreateSchema_def parsed_def split: if_splits)
  then have ok: "3 \<le> length (cb_name b)" "length (cb_name b) \<le> 32" "ROOM_NAME_REGEX (cb_name b)"
    "cb_name b \<notin> set RESERVED_ROOM_NAMES"
    by (simp_all add: OttApiRequestRoomCreateSchema_def parsed_Inr)
  have enabled: "if ?temp then ac_enable_create_temporary ac else ac_enable_create_permanent ac"
    and run: "api_createRoom ac rq b x = limited (ac_limits ac) (rq_ip rq) (if ?temp then 50 else 200) ?h x"
    using changed schema by (auto simp: api_createRoom_def checked_def raise_def split: if_splits)
  from changed run have "ex_state (final_state (limited (ac_limits ac) (rq_ip rq) (if ?temp then 50 else 200) ?h x)) \<noteq> ex_state x"
    by metis
  from limited_state [OF this assms(1)] obtain y where y: "ex_state y = ex_state x" "api_createRoom ac rq b x = ?h y"
    and points: "li_enabled (ac_limits ac) \<longrightarrow>
      (\<exists>info. li_consume (ac_limits ac) (rq_ip rq) (if ?temp then 50 else 200) = Consumed info)"
    using run by auto
  let ?c = "createRoom ?bk (cb_name b) (create_options ?b (rq_user rq)) ?m"
  have "sv_manager (ex_state (final_state (?h y))) = final_state ?c"
    using calling_state [of "manager_call (createRoom ?bk (cb_name b) (create_options ?b (rq_user rq)))" y] y(1)
    by (cases "calling (manager_call (createRoom ?bk (cb_name b) (create_options ?b (rq_user rq)))) y") auto
  then have rooms: "rooms_of (final_state (api_createRoom ac rq b x)) = rm_rooms (final_state ?c)" using y(2) by simp
  with changed have "rm_rooms (final_state ?c) \<noteq> rm_rooms ?m" by simp
  have owner: "nullish (map_option Some (rq_user rq)) None = rq_user rq" by (cases "rq_user rq") simp_all
  from createRoom_rooms [OF \<open>rm_rooms (final_state ?c) \<noteq> rm_rooms ?m\<close>] obtain r where r: "rm_rooms (final_state ?c) = rm_rooms ?m @ [r]" "r_name r = cb_name b"
    "r_owner r = rq_user rq" "r_isTemporary r = ?temp" and free: "name_free ?bk (cb_name b) ?m = Inr ()"
    using owner by (auto simp: create_options_def)
  have "\<forall>r'\<in>set (rm_rooms ?m). to_lower (r_name r') \<noteq> to_lower (cb_name b)"
    using free by (auto simp: name_free_def room_index_def find_index_None_iff same_name_def split: if_splits)
  then show ?thesis
    using r rooms ok enabled points by (auto simp: create_route.route_state RESERVED_ROOM_NAMES_def)
qed

section \<open>The list of rooms\<close>

lemma sorted_by_two_keys:
  assumes "sorted (map f xs)" and "\<And>k. sorted_wrt S (filter (\<lambda>x. f x = k) xs)"
  shows "sorted_wrt (\<lambda>a b. f a < f b \<or> f a = f b \<and> S a b) xs"
  using assms
proof (induction xs)
  case (Cons x xs)
  have "sorted_wrt S (filter (\<lambda>x. f x = k) xs)" for k
    using Cons.prems(2) [of k] by (auto split: if_splits)
  with Cons.IH Cons.prems(1) have "sorted_wrt (\<lambda>a b. f a < f b \<or> f a = f b \<and> S a b) xs" by simp
  moreover have "f x < f y \<or> f x = f y \<and> S x y" if "y \<in> set xs" for y
    using that Cons.prems(1) Cons.prems(2) [of "f x"] by force
  ultimately show ?case by simp
qed simp

lemma order_listing_sorted:
  "sorted_wrt (\<lambda>a b. rl_users a > rl_users b \<or> rl_users a = rl_users b \<and> rl_name a \<le> rl_name b) (order_listing items)"
proof -
  let ?f = "\<lambda>l. - int (rl_users l)"
  have "sorted_wrt (\<lambda>a b. rl_name a \<le> rl_name b) (filter (\<lambda>x. ?f x = k) (order_listing items))" for k
    using sorted_sort_key [of rl_name items]
    unfolding order_listing_def sort_key_stable by (intro sorted_wrt_filter) (simp add: sorted_map)
  from sorted_by_two_keys [OF _ this] show ?thesis
    by (simp add: order_listing_def)
qed

text \<open>
  The list shows public rooms only: a request with a wrong key is refused; otherwise the answer holds
  exactly the rooms of this node that are public, or all of them when the request carries the API key,
  in the order of their users, downwards, and rooms with as many users in the order of their names.
\<close>

theorem listing_shows_public:
  assumes "ex_sent x = []"
  shows "if truthy_str (rq_apikey rq) \<and> rq_apikey rq \<noteq> Some (ac_api_key ac)
    then route ac (api_listRooms ac rq) x = Returns () (x\<lparr>ex_sent := [\<lparr>rs_status = 400, rs_headers = ex_headers x,
      rs_body = FailedText ''apikey is invalid''\<rparr>]\<rparr>)
    else (\<exists>items. route ac (api_listRooms ac rq) x = Returns () (x\<lparr>ex_sent := [\<lparr>rs_status = 200, rs_headers = ex_headers x,
      rs_body = Done (Listing items)\<rparr>]\<rparr>)
      \<and> mset items = mset (map list_item (filter (\<lambda>r. r_visibility r = Public \<or> rq_apikey rq = Some (ac_api_key ac)) (rooms_of x)))
      \<and> sorted_wrt (\<lambda>a b. rl_users a > rl_users b \<or> rl_users a = rl_users b \<and> rl_name a \<le> rl_name b) items)"
proof -
  have "mset (order_listing items) = mset items" for items by (simp add: order_listing_def)
  then show ?thesis
    using assms order_listing_sorted by (auto simp: route_def api_listRooms_def api_authorized_def respond_def)
qed

section \<open>Claiming a room\<close>

lemma claim_room_cases:
  "\<exists>es. claim_room u r = Returns () ((set_owner (Some u) r)\<lparr>r_effects := es\<rparr>)"
proof (cases "find (\<lambda>ru. ru_user_id ru = Some (u_id u)) (r_realusers (set_owner (Some u) r))")
  case None
  then show ?thesis by (simp add: claim_room_def Let_def) (rule exI [of _ "r_effects (set_owner (Some u) r)"], simp)
next
  case (Some ru)
  then have "ru \<in> set (r_realusers (set_owner (Some u) r))" by (auto simp: find_Some_iff)
  then obtain info where "getUserInfo (set_owner (Some u) r) (ru_id ru) = Inr info"
    by (cases "getUserInfo (set_owner (Some u) r) (ru_id ru)")
       (force simp: getUserInfo_def users_def user_info_def find_None_iff split: option.splits)+
  with Some show ?thesis by (auto simp: claim_room_def Let_def syncUser_def publish_def emit_def)
qed

lemma unwrap_loaded:
  "room_index n (sv_manager s) = Some i \<Longrightarrow> unwrap_room bk n s = Returns i (manager_done (sv_manager s) s)"
  by (simp add: unwrap_room_def manager_call_def getRoom_def)

lemma manager_done_idle [simp]: "manager_done (sv_manager s) s = s"
  by (simp add: manager_done_def set_manager_def)

text \<open>
  Ownership is taken, never taken away: claiming a loaded room that has an owner is refused with status 400
  and changes nothing; without a logged-in account it is refused with status 401 and changes nothing;
  otherwise the account becomes the owner of that room, which is marked to be sent, and nothing else about
  this room or any other changes.
\<close>

theorem claim_takes_unowned_only:
  fixes ac rq n b and x :: "(server, roomReply) exchange"
  defines "y \<equiv> final_state (route ac (api_patchRoom ac rq n b) x)"
  assumes "ex_sent x = []" and "truthy_str (rq_token rq)" and "pb_claim b = Some True"
    and "room_index n (sv_manager (ex_state x)) = Some i" and "r_name (rooms_of x ! i) \<noteq> []"
  shows "case (r_owner (rooms_of x ! i), rq_user rq) of
      (Some ow, _) \<Rightarrow> rooms_of y = rooms_of x \<and> map rs_status (ex_sent y) = [400]
    | (None, None) \<Rightarrow> rooms_of y = rooms_of x \<and> map rs_status (ex_sent y) = [401]
    | (None, Some u) \<Rightarrow> map rs_status (ex_sent y) = [200] \<and>
        (\<exists>es. rooms_of y = (rooms_of x)[i := (set_owner (Some u) (rooms_of x ! i))\<lparr>r_effects := es\<rparr>])"
proof -
  have i: "i < length (rooms_of x)" using room_index_SomeD assms(5) by blast
  have "OttApiRequestPatchRoomSchema b = Inr (PatchClaim True)"
    using assms(4) by (simp add: OttApiRequestPatchRoomSchema_def RoomSettingsSchema_def parsed_def)
  then have p: "api_patchRoom ac rq n b x = patch_claim ac rq i x"
    using assms(3,5) by (simp add: api_patchRoom_def checked_def calling_def unwrap_loaded)
  show ?thesis
  proof (cases "r_owner (rooms_of x ! i)")
    case (Some ow)
    then show ?thesis
      using p assms(2) by (simp add: y_def route_def patch_claim_def the_room_def raise_def api_errorHandler_def api_error_def
          ott_error_def is_ott_exception_def respond_def)
  next
    case None
    note unowned = None
    show ?thesis
    proof (cases "rq_user rq")
      case None
      with unowned p assms(2) show ?thesis
        by (simp add: y_def route_def patch_claim_def the_room_def respond_def)
    next
      case (Some u)
      let ?r = "rooms_of x ! i"
      obtain es where es: "claim_room u ?r = Returns () ((set_owner (Some u) ?r)\<lparr>r_effects := es\<rparr>)"
        using claim_room_cases by blast
      let ?r' = "(set_owner (Some u) ?r)\<lparr>r_effects := es\<rparr>"
      obtain s where s: "on_room i (claim_room u) (ex_state x) = Returns () s" "sv_manager s = set_room i ?r' (sv_manager (ex_state x))"
        using es on_room_manager [of i "claim_room u" "ex_state x"] by (auto simp: on_room_def Let_def)
      have "r_name ?r' \<noteq> []" using assms(6) by (simp add: room_defs)
      then have upd: "\<exists>v. updateRoom tb (whole_room ?r') = Inr v" for tb
        by (auto simp: updateRoom_def whole_room_def split: sum.split)
      have "patch_claim ac rq i x = patch_store ac i (x\<lparr>ex_state := s\<rparr>)"
        using unowned Some s(1) by (simp add: patch_claim_def the_room_def calling_def)
      then have "route ac (api_patchRoom ac rq n b) x = respond 200 (Done Plain) (x\<lparr>ex_state := s\<rparr>)"
        using p s(2) i upd [of "bk_table (ac_backend ac)"] assms(2)
        by (auto simp: route_def patch_store_def the_room_def Let_def respond_def split: sum.split)
      then show ?thesis
        using unowned Some s(2) assms(2) by (auto simp: y_def respond_def)
    qed
  qed
qed

section \<open>Patches and permissions\<close>

lemma drop_roles_lookup:
  "getMask (fold (drop_role cur) ks g) i =
    (if i \<in> set ks \<and> (role_to_perm i = None \<or> getMask g i = getMask cur i) then None else getMask g i)"
proof (induction ks arbitrary: g)
  case (Cons k ks)
  have "getMask (drop_role cur k g) i =
      (if i = k \<and> (role_to_perm i = None \<or> getMask g i = getMask cur i) then None else getMask g i)"
    by (auto simp: drop_role_def getMask_delete)
  with Cons.IH [of "drop_role cur k g"] show ?case by auto
qed simp

lemma getRoles_iff: "i \<in> set (getRoles g) \<longleftrightarrow> getMask g i \<noteq> None"
  by (simp add: getRoles_def getMask_def map_of_eq_None_iff image_def)

text \<open>The roles that remain of given grants are those that would change.\<close>

lemma changed_roles_remain:
  assumes "st_grants s = Some d" and "getMask d i \<noteq> None" and "role_to_perm i = Some p"
    and "getMask d i \<noteq> getMask (r_grants r) i"
  shows "\<exists>g. st_grants (drop_unchanged_grants r (drop_unchanged r s)) = Some g \<and> i \<in> set (getRoles g) \<and> getMask g i = getMask d i"
proof -
  let ?g = "fold (drop_role (r_grants r)) (getRoles d) d"
  have m: "getMask ?g i = getMask d i" using assms by (simp add: drop_roles_lookup)
  then have "\<not> isEmpty ?g" using assms(2) by (auto simp: isEmpty_def getMask_def)
  with m assms show ?thesis
    by (auto simp: drop_unchanged_grants_def drop_unchanged_def Let_def getRoles_iff)
qed

lemma check_all_Inl:
  "(\<exists>p\<in>set ps. \<not> granted g ro p) \<Longrightarrow> \<exists>q\<in>set ps. \<not> granted g ro q \<and> check_all g ro ps = Inl (PermissionDeniedException q)"
  by (induction ps) (auto simp: check_def)

text \<open>Applying grants, seen by the role that inherits from none.\<close>

lemma apply_grants_unregistered:
  assumes "grants_ok (r_grants r)" and "apply_grants new ros r = Returns () s"
  shows "role_mask (r_grants s) 0 = (if 0 \<in> set ros then role_mask new 0 AND getValidationMask 0 else role_mask (r_grants r) 0)"
  using assms
proof (induction ros arbitrary: r)
  case (Cons i ros)
  show ?case
  proof (cases "role_to_perm i = None")
    case True
    then have "i \<noteq> 0" by (auto simp: role_to_perm_def)
    with True Cons show ?thesis by simp
  next
    case False
    with Cons.prems(2) obtain g where g: "setRoleGrants i (mask_num (getMask new i)) (r_grants r) = Inr g"
      "apply_grants new ros (room_markDirty PGrants (r\<lparr>r_grants := g\<rparr>)) = Returns () s"
      by (auto split: sum.splits)
    have i: "0 \<le> i" "i \<le> 3" using False by (auto simp: role_to_perm_def split: if_splits)
    have "grants_ok g" by (rule setRoleGrants_ok [OF Cons.prems(1) i g(1)])
    with Cons.IH [OF _ g(2)] have s: "role_mask (r_grants s) 0 = (if 0 \<in> set ros then role_mask new 0 AND getValidationMask 0 else role_mask g 0)"
      by (simp add: room_markDirty_def)
    have "role_mask g 0 = role_mask (r_grants r) 0" if "i \<noteq> 0"
      using setRoleGrants_below [OF _ g(1), of 0] Cons.prems(1) i that by (simp add: grants_ok_def)
    moreover have "role_mask g 0 = role_mask new 0 AND getValidationMask 0" if "i = 0"
      using g(1) that by (auto simp: setRoleGrants_def role_mask_inherit role_mask_update role_mask_def [symmetric]
          split: if_splits)
    ultimately show ?thesis using s by auto
  qed
qed simp

lemma grants_given:
  assumes "grants_ok d" and "role_to_perm i = Some p"
  shows "getMask d i \<noteq> None"
proof -
  have "i \<in> set inherited_roles"
    using assms(2) by (auto simp: role_to_perm_def inherited_roles_def split: if_splits)
  with assms(1) show ?thesis by (auto simp: grants_ok_def grants_wf_def list_all_iff)
qed

lemma settings_grants_denied:
  assumes "st_grants st = Some d" and "grants_ok d" and "role_to_perm i = Some p"
    and "getMask (r_grants r) i \<noteq> getMask d i" and "\<not> granted (r_grants r) (rc_role context) p"
  shows "\<exists>q. applySettings st context r = Throws (PermissionDeniedException q) r"
proof -
  let ?s1 = "drop_unchanged_grants r (drop_unchanged r st)"
  have "getMask d i \<noteq> getMask (r_grants r) i" using assms(4) by simp
  from changed_roles_remain [OF assms(1) grants_given [OF assms(2,3)] assms(3) this]
  obtain g where "st_grants ?s1 = Some g" "i \<in> set (getRoles g)" by blast
  then have "p \<in> set (settings_perms ?s1)" using settings_perms_grants assms(3) by blast
  then obtain q where "check_all (r_grants r) (rc_role context) (settings_perms ?s1) = Inl (PermissionDeniedException q)"
    using check_all_Inl assms(5) by blast
  then show ?thesis by (simp add: applySettings_def Let_def)
qed

lemma settings_grants_unregistered:
  assumes "st_grants st = Some d" and "grants_ok d" and "grants_ok (r_grants r)" and "applySettings st context r = Returns () s"
  shows "role_mask (r_grants s) 0 = role_mask d 0"
proof -
  let ?s1 = "drop_unchanged_grants r (drop_unchanged r st)"
  let ?p = "''configure-room.set-permissions.for-all-unregistered-users''"
  have ok: "check_all (r_grants r) (rc_role context) (settings_perms ?s1) = Inr ()"
    using assms(4) by (auto simp: applySettings_def Let_def split: sum.splits)
  obtain s2 c where s2: "normalise_categories r ?s1 = (s2, c)" by force
  obtain t where t: "s = want_on_enable c t"
    "(case st_grants s2 of None \<Rightarrow> Returns () (apply_props s2 r) | Some g \<Rightarrow> apply_grants g (getRoles g) (apply_props s2 r)) = Returns () t"
    using applySettings_passed [OF s2 ok] assms(4) by auto
  have g2: "st_grants s2 = st_grants ?s1" using normalise_categories_keeps [OF s2] by simp
  have perm: "role_to_perm 0 = Some ?p" by (simp add: role_to_perm_def)
  have bound: "role_mask d 0 AND getValidationMask 0 = role_mask d 0"
    using assms(2) by (auto simp: grants_ok_def grants_wf_def inherited_roles_def intro: mask_and_absorb)
  have t0: "role_mask (r_grants t) 0 = (case st_grants ?s1 of None \<Rightarrow> role_mask (r_grants r) 0
      | Some g \<Rightarrow> if 0 \<in> set (getRoles g) then role_mask g 0 AND getValidationMask 0 else role_mask (r_grants r) 0)"
    using t(2) g2 apply_grants_unregistered [of "apply_props s2 r" _ _ t] assms(3)
    by (auto simp: apply_props_fields split: option.splits)
  have "role_mask (r_grants t) 0 = role_mask d 0"
  proof (cases "getMask d 0 = getMask (r_grants r) 0")
    case False
    from changed_roles_remain [OF assms(1) grants_given [OF assms(2) perm] perm False] t0 bound show ?thesis
      by (auto simp: role_mask_def)
  next
    case True
    then have "getMask (fold (drop_role (r_grants r)) (getRoles d) d) 0 = None"
      by (simp add: drop_roles_lookup getRoles_iff)
    then have "0 \<notin> set (getRoles g)" if "st_grants ?s1 = Some g" for g
      using that assms(1) by (auto simp: drop_unchanged_grants_def drop_unchanged_def Let_def getRoles_iff split: if_splits)
    with t0 True show ?thesis by (auto simp: role_mask_def split: option.splits)
  qed
  with t(1) show ?thesis by simp
qed

text \<open>
  A patch without permissions still sets them: \<open>PATCH\<close> wraps an absent \<open>grants\<close> into \<open>new Grants(undefined)\<close>,
  the default permissions. So in a room where some role's permissions differ from the default, a patch of
  anything, even of the title alone, is denied to whoever may not set that role's permissions; and when it
  is accepted, unregistered users are back at the default permissions.
\<close>

theorem patch_resets_permissions:
  assumes "pb_grants b = None" and "newDefaultGrants = Inr d" and "grants_ok (r_grants r)"
  shows "\<exists>st. patch_settings b = Inr st
    \<and> ((\<exists>i p. role_to_perm i = Some p \<and> getMask (r_grants r) i \<noteq> getMask d i \<and> \<not> granted (r_grants r) (rc_role context) p)
        \<longrightarrow> (\<exists>q. applySettings st context r = Throws (PermissionDeniedException q) r))
    \<and> (\<forall>s. applySettings st context r = Returns () s \<longrightarrow> role_mask (r_grants s) UnregisteredUser = role_mask d UnregisteredUser)"
proof -
  have "\<exists>st. patch_settings b = Inr st \<and> st_grants st = Some d"
    by (simp add: patch_settings_def assms(1,2))
  then obtain st where st: "patch_settings b = Inr st" "st_grants st = Some d" by blast
  have d: "grants_ok d" by (rule newDefaultGrants_ok [OF assms(2)])
  with st settings_grants_denied [OF st(2) d] settings_grants_unregistered [OF st(2) d assms(3)] show ?thesis by blast
qed

section \<open>A server to run requests on\<close>

definition demo_conf :: "string \<Rightarrow> apiConf" where
  "demo_conf key = \<lparr>ac_api_key = key, ac_enable_create_temporary = True, ac_enable_create_permanent = True,
     ac_limits = \<lparr>li_enabled = False, li_points = 1000, li_now = 0, li_consume = (\<lambda>_ _. LimiterError MissingToken)\<rparr>,
     ac_backend = demo_backend [], ac_uuid = ''u'', ac_isURL = (\<lambda>_. True), ac_zodText = (\<lambda>_. [])\<rparr>"

definition demo_request :: apiRequest where
  "demo_request = \<lparr>rq_ip = ''ip'', rq_apikey = None, rq_token = Some ''t'', rq_user = None\<rparr>"

definition demo_exchange :: "server \<Rightarrow> (server, roomReply) exchange" where
  "demo_exchange s = \<lparr>ex_state = s, ex_headers = [], ex_sent = []\<rparr>"

lemma demo_exchange_simps [simp]:
  "ex_state (demo_exchange s) = s" "ex_sent (demo_exchange s) = []" "ac_api_key (demo_conf key) = key"
  "ac_backend (demo_conf key) = demo_backend []" "bk_del (demo_backend rs) k = Inr ()"
  "li_enabled (ac_limits (demo_conf key)) = False" "ac_enable_create_temporary (demo_conf key)"
  by (simp_all add: demo_exchange_def demo_conf_def demo_backend_def)

lemma demo_room_manager: "manager_wf (sv_manager (room_server demo_room))" "r_name demo_room = ''a''"
  using demo_room_wf by (simp_all add: manager_wf_def demo_room_def small_room_def)

lemma demo_unload:
  "\<exists>y r. route (demo_conf key) (api_deleteRoom (demo_conf key) (demo_request\<lparr>rq_apikey := Some key\<rparr>) ''a'' None)
      (demo_exchange (room_server demo_room)) = Returns () y \<and> rooms_of y = []"
proof -
  obtain m' where "unloadRoom (demo_backend []) ''a'' Admin None (sv_manager (room_server demo_room)) = Returns () m'"
    "map r_name (rm_rooms m') = []"
    using unload_admin [OF demo_room_manager(1), of 0 "demo_backend []"] demo_room_manager(2) by (auto simp: remove_at_def)
  then show ?thesis
    by (simp add: route_def api_deleteRoom_def api_authorized_def unload_named_def calling_def manager_call_def respond_def
        demo_exchange_def)
qed

theorem api_answers_once_witness:
  "\<exists>y r. route (demo_conf ''k'') (api_getRoom (demo_conf ''k'') ''a'') (demo_exchange no_server) = Returns () y
     \<and> ex_sent y = [r] \<and> rs_status r \<in> api_statuses"
  using api_answers_once [of "demo_exchange no_server" "demo_conf ''k''"] by simp


theorem empty_apikey_unloads_witness:
  "\<exists>y. route (demo_conf []) (api_deleteRoom (demo_conf []) (demo_request\<lparr>rq_apikey := Some []\<rparr>) ''a'' None)
      (demo_exchange (room_server demo_room)) = Returns () y \<and> map r_name (rooms_of y) = []"
  using empty_apikey_unloads [of "demo_conf []" "demo_request\<lparr>rq_apikey := Some []\<rparr>" None
      "demo_exchange (room_server demo_room)" 0] demo_room_manager
  by (auto simp: remove_at_def)

lemma demo_creates:
  assumes "room_index n m = None" and "n \<noteq> []" and "ro_grants opts = NoGrants" and "ro_isTemporary opts = Some True"
  shows "\<exists>m'. createRoom (demo_backend []) n opts m = Returns () m' \<and> length (rm_rooms m') = Suc (length (rm_rooms m))"
proof -
  let ?o = "opts\<lparr>ro_name := Some n\<rparr>"
  obtain g where "resolve_grants (ro_grants ?o) = Inr g"
    using default_grants_total assms(3) by (auto simp: resolve_grants_def)
  then obtain r where r: "newRoom (quiet_world 0) ?o = Inr r" unfolding newRoom_def Let_def by (simp only: sum.case)
  have "r_name r \<noteq> []" "r_isTemporary r" using newRoom_name [OF r] newRoom_identity [OF r] assms(2,4) by simp_all
  moreover obtain r1 where "tick_room (quiet_world 0) r = Returns () r1" using tick_room_returns calculation(1) by blast
  ultimately show ?thesis
    using r assms by (simp add: createRoom_def name_free_def demo_backend_def isRoomNameTaken_def addRoom_def Let_def)
qed

definition demo_body :: createBody where
  "demo_body = \<lparr>cb_name = ''den'', cb_title = None, cb_description = None, cb_isTemporary = None, cb_visibility = None,
     cb_queueMode = None, cb_categories = None\<rparr>"

theorem created_room_well_named_witness:
  "\<exists>r. rooms_of (final_state (route (demo_conf []) (api_createRoom (demo_conf []) demo_request demo_body)
      (demo_exchange no_server))) = [r] \<and> r_name r = ''den'' \<and> r_isTemporary r"
proof -
  let ?b = "demo_body\<lparr>cb_isTemporary := Some True\<rparr>"
  have s: "OttApiRequestRoomCreateSchema demo_body = Inr ?b"
    by (simp add: OttApiRequestRoomCreateSchema_def parsed_def demo_body_def when_given_def RESERVED_ROOM_NAMES_def
        ROOM_NAME_REGEX_def room_name_char_def is_alnum_def Let_def)
  have "room_index ''den'' (sv_manager no_server) = None" by (simp add: no_server_def room_index_def)
  from demo_creates [OF this, of "create_options ?b None"] obtain m' where
    m': "createRoom (demo_backend []) ''den'' (create_options ?b None) (sv_manager no_server) = Returns () m'"
    "length (rm_rooms m') = Suc (length (rm_rooms (sv_manager no_server)))"
    by (auto simp: create_options_def no_options_def)
  have "rooms_of (final_state (route (demo_conf []) (api_createRoom (demo_conf []) demo_request demo_body) (demo_exchange no_server))) = rm_rooms m'"
    using s m'(1) by (simp add: route_def api_createRoom_def checked_def limited_def consumeRateLimitPoints_def calling_def
        manager_call_def respond_def) (simp add: demo_request_def demo_body_def manager_call_def respond_def demo_exchange_def)
  moreover have none: "rooms_of (demo_exchange no_server) = []" by (simp add: no_server_def)
  moreover have "rm_rooms m' \<noteq> []" using m'(2) by auto
  ultimately have "rooms_of (final_state (route (demo_conf []) (api_createRoom (demo_conf []) demo_request demo_body)
      (demo_exchange no_server))) \<noteq> rooms_of (demo_exchange no_server)" by simp
  from created_room_well_named [OF _ this] none show ?thesis by (auto simp: demo_body_def)
qed

theorem listing_shows_public_witness:
  "\<exists>items. route (demo_conf []) (api_listRooms (demo_conf []) demo_request) (demo_exchange (room_server demo_room))
      = Returns () ((demo_exchange (room_server demo_room))\<lparr>ex_sent := [\<lparr>rs_status = 200, rs_headers = [], rs_body = Done (Listing items)\<rparr>]\<rparr>)
    \<and> items = []"
  using listing_shows_public [of "demo_exchange (room_server demo_room)" demo_request "demo_conf []"]
  by (simp add: demo_request_def demo_exchange_def demo_room_def small_room_def initial_room_def room_defs)

definition demo_patch :: patchBody where
  "demo_patch = \<lparr>pb_claim = Some True, pb_title = None, pb_description = None, pb_visibility = None, pb_queueMode = None,
     pb_grants = None, pb_categories = None, pb_restoreQueueBehavior = None, pb_enableVoteSkip = None\<rparr>"

theorem claim_takes_unowned_only_witness:
  "\<exists>r. rooms_of (final_state (route (demo_conf []) (api_patchRoom (demo_conf [])
      (demo_request\<lparr>rq_user := Some \<lparr>u_id = 7, u_username = ''x'', u_email = None, u_discordId = None\<rparr>\<rparr>) ''a'' demo_patch)
      (demo_exchange (room_server demo_room)))) = [r] \<and> map_option u_id (r_owner r) = Some 7"
proof -
  have i: "room_index ''a'' (sv_manager (ex_state (demo_exchange (room_server demo_room)))) = Some 0"
    using demo_room_manager(2) by (simp add: room_index_def same_name_def)
  have "r_owner demo_room = None" by (simp add: demo_room_def small_room_def initial_room_def room_defs)
  then show ?thesis
    using claim_takes_unowned_only [OF _ _ _ i, of "demo_request\<lparr>rq_user := Some \<lparr>u_id = 7, u_username = ''x'', u_email = None, u_discordId = None\<rparr>\<rparr>"
        demo_patch "demo_conf []"] demo_room_manager(2)
    by (auto simp: demo_request_def demo_patch_def room_defs)
qed

theorem patch_resets_permissions_witness:
  "\<exists>d st. newDefaultGrants = Inr d \<and> patch_settings demo_patch = Inr st
    \<and> (\<forall>s. applySettings st (server_context Owner) demo_room = Returns () s
        \<longrightarrow> role_mask (r_grants s) UnregisteredUser = role_mask d UnregisteredUser)"
proof -
  obtain d where d: "newDefaultGrants = Inr d" using default_grants_total by blast
  have "pb_grants demo_patch = None" "grants_ok (r_grants demo_room)"
    using demo_room_wf by (simp_all add: demo_patch_def room_wf_def)
  from patch_resets_permissions [OF this(1) d this(2), of "server_context Owner"] d show ?thesis by blast
qed

end
