(* ===== verification/AccountProperties.thy ===== *)
theory AccountProperties
  imports UserApi RoomApiProperties
begin

text \<open>
  What accounts promise: registering and logging in, who is taken to be logged in, what a change of the
  password needs; and where the code falls short: failed logins are not counted, a refused password recovery
  goes on, relinking Discord deletes the account, and a lost account is never answered.
\<close>

section \<open>What is assumed of the outside\<close>

text \<open>The conditions of the queries: accounts are looked for by name without regard to case when logging in.\<close>

fun matches :: "userQuery \<Rightarrow> account \<Rightarrow> bool" where
  "matches (ByLogin u) a = (ua_email a = Some u \<or> to_lower (ua_username a) = to_lower u)"
| "matches (ById i) a = (ua_id a = i)"
| "matches (ByDiscord d) a = (ua_discordId a = Some d)"
| "matches (ByUsername n) a = (ua_username a = n)"
| "matches (ByEmail e) a = (ua_email a = Some e)"

text \<open>
  A created account has what it was created with, and a query that found nothing and matches it finds it;
  the other commands of a registration do not change what queries find; a session that was stored is the one
  that is read; argon2 accepts the password it hashed, and such a hash is up to date.
\<close>

definition keeps_accounts :: "'d outside \<Rightarrow> ('d \<Rightarrow> 'r \<times> 'd) \<Rightarrow> bool" where
  "keeps_accounts od f \<longleftrightarrow> (\<forall>q d. od_find od q (snd (f d)) = od_find od q d)"

definition outside_laws :: "'d outside \<Rightarrow> bool" where
  "outside_laws od \<longleftrightarrow>
    (\<forall>na d a d'. od_create od na d = (Inr a, d') \<longrightarrow>
       ua_username a = na_username na \<and> ua_email a = na_email na \<and> ua_salt a = na_salt na \<and> ua_hash a = na_hash na
       \<and> (\<forall>q. matches q a \<longrightarrow> od_find od q d = Inr None \<longrightarrow> od_find od q d' = Inr (Some a)))
    \<and> (\<forall>n. keeps_accounts od (od_random od n)) \<and> (\<forall>pw. keeps_accounts od (od_hash od pw))
    \<and> (\<forall>a. keeps_accounts od (od_reqLogin od a)) \<and> (\<forall>t e i. keeps_accounts od (od_setSession od t e i))
    \<and> (\<forall>t e i d d'. od_setSession od t e i d = (Inr (), d') \<longrightarrow> od_getSession od t d' = Inr (Some i))
    \<and> (\<forall>pw d h d' d''. od_hash od pw d = (Inr h, d') \<longrightarrow>
        od_verify od (stored_hash h) pw d'' = Inr True \<and> \<not> od_needsRehash od (stored_hash h))"

lemma laws_find:
  assumes "outside_laws od"
  shows "od_find od q (snd (od_random od n d)) = od_find od q d" "od_find od q (snd (od_hash od pw d)) = od_find od q d"
    "od_find od q (snd (od_reqLogin od a d)) = od_find od q d" "od_find od q (snd (od_setSession od t e i d)) = od_find od q d"
  using assms by (auto simp: outside_laws_def keeps_accounts_def)

section \<open>Steps\<close>

lemma act_cases:
  "act f s = (case f (us_store s) of (Inl e, d) \<Rightarrow> Throws e (s\<lparr>us_store := d\<rparr>) | (Inr a, d) \<Rightarrow> Returns a (s\<lparr>us_store := d\<rparr>))"
  by (simp add: act_def Let_def split: prod.split sum.split)

lemma act_Returns: "act f s = Returns a s' \<longleftrightarrow> (\<exists>d. f (us_store s) = (Inr a, d) \<and> s' = s\<lparr>us_store := d\<rparr>)"
  by (auto simp: act_cases split: prod.splits sum.splits)

lemma ask_Returns: "ask f s = Returns a s' \<longleftrightarrow> f (us_store s) = Inr a \<and> s' = s"
  by (auto simp: ask_def split: sum.splits)

lemma act_store [simp]: "us_store (final_state (act f s)) = snd (f (us_store s))"
  by (auto simp: act_cases split: prod.split sum.split)

lemma running_Returns: "running f x = Returns a y \<longleftrightarrow> (\<exists>s. f (ex_state x) = Returns a s \<and> y = x\<lparr>ex_state := s\<rparr>)"
  by (auto simp: running_def split: outcome.splits)

lemma running_Throws: "running f x = Throws e y \<longleftrightarrow> (\<exists>s. f (ex_state x) = Throws e s \<and> y = x\<lparr>ex_state := s\<rparr>)"
  by (auto simp: running_def split: outcome.splits)

lemma running_sent [simp]: "ex_sent (final_state (running f x)) = ex_sent x"
  by (simp add: running_def split: outcome.split)

lemma running_state [simp]: "ex_state (final_state (running f x)) = final_state (f (ex_state x))"
  by (simp add: running_def split: outcome.split)

lemma respond_Returns:
  "respond st b x = Returns u y \<longleftrightarrow> ex_sent x = [] \<and> y = x\<lparr>ex_sent := [\<lparr>rs_status = st, rs_headers = ex_headers x, rs_body = b\<rparr>]\<rparr>"
  by (auto simp: respond_def)

section \<open>Registering and logging in\<close>

lemma salted_Returns:
  assumes "salted od pw s = Returns (salt, h) s'"
  shows "\<exists>d d'. od_random od 128 (us_store s) = (Inr salt, d) \<and> od_hash od (salt @ pw) d = (Inr h, d')
    \<and> s' = s\<lparr>us_store := d'\<rparr>"
  using assms by (auto simp: salted_def and_then_Returns_iff act_Returns)

lemma create_account_Returns:
  assumes "create_account od n email salt h s = Returns a s'"
  shows "\<exists>d na. od_create od na (us_store s) = (Inr a, d) \<and> na_username na = n \<and> na_salt na = Some salt
    \<and> na_hash na = Some h \<and> s' = s\<lparr>us_store := d\<rparr>"
  using assms by (fastforce simp: create_account_def act_Returns split: if_splits)

lemma registerUser_Returns:
  assumes "registerUser od uc rg s = Returns a s'" and "rg_username rg = Some n" and "rg_password rg = Some pw"
  shows "isPasswordValid uc pw \<and> (\<exists>salt h d d1 d2 na.
      od_random od 128 (us_store s) = (Inr salt, d) \<and> od_hash od (salt @ pw) d = (Inr h, d1)
      \<and> od_create od na d1 = (Inr a, d2) \<and> na_username na = n \<and> na_salt na = Some salt \<and> na_hash na = Some h
      \<and> s' = s\<lparr>us_store := d2\<rparr>)"
proof -
  have ok: "isPasswordValid uc pw" and run: "and_then (salted od pw s)
      (\<lambda>(salt, h). create_account od n (if rg_email rg = Some [] then None else rg_email rg) salt h) = Returns a s'"
    using assms unfolding registerUser_def Let_def by (simp_all split: if_splits)
  then obtain p s1 where p: "salted od pw s = Returns p s1"
    "(case p of (salt, h) \<Rightarrow> create_account od n (if rg_email rg = Some [] then None else rg_email rg) salt h) s1 = Returns a s'"
    by (auto simp only: and_then_Returns_iff)
  obtain salt h where sh: "p = (salt, h)" by (cases p)
  have s1: "salted od pw s = Returns (salt, h) s1" using p(1) unfolding sh .
  have c: "create_account od n (if rg_email rg = Some [] then None else rg_email rg) salt h s1 = Returns a s'"
    using p(2) unfolding sh by (simp only: prod.case)
  obtain d d1 where d: "od_random od 128 (us_store s) = (Inr salt, d)" "od_hash od (salt @ pw) d = (Inr h, d1)"
    "s1 = s\<lparr>us_store := d1\<rparr>" using salted_Returns [OF s1] by (elim exE conjE) (rule that)
  obtain d2 na where c: "od_create od na (us_store s1) = (Inr a, d2)" "na_username na = n" "na_salt na = Some salt"
    "na_hash na = Some h" "s' = s1\<lparr>us_store := d2\<rparr>" using create_account_Returns [OF c] by (elim exE conjE) (rule that)
  have c': "od_create od na d1 = (Inr a, d2)" "s' = s\<lparr>us_store := d2\<rparr>" using c(1,5) d(3) by simp_all
  show ?thesis
    by (rule conjI, fact ok, intro exI conjI, fact d(1), fact d(2), fact c'(1), fact c(2), fact c(3), fact c(4), fact c'(2))
qed

lemma logged_in_Returns:
  assumes "logged_in od rq st a x = Returns () y"
  shows "\<exists>d. od_setSession od (own_token rq) EXPIRATION_TIME_LOGGED_IN (LoggedIn (ua_id a)) (us_store (ex_state x)) = (Inr (), d)
    \<and> us_store (ex_state y) = d \<and> (\<exists>r. ex_sent y = [r] \<and> rs_status r = st)"
  using assms by (auto simp: logged_in_def and_then_Returns_iff running_Returns tokens_setSessionInfo_def act_Returns
      respond_Returns onUserLogIn_def tell_def)

lemma limited_Returns:
  assumes "limited l key points h x = Returns () y"
  shows "(\<exists>x1. ex_state x1 = ex_state x \<and> h x1 = Returns () y) \<or> (\<exists>r. ex_sent y = [r] \<and> rs_status r = 429 \<and> ex_state y = ex_state x)"
proof (cases "li_enabled l")
  case on: True
  show ?thesis
  proof (cases "li_consume l key points")
    case (Consumed info)
    then obtain x1 where "setRateLimitHeaders l info x = Returns () x1" "h x1 = Returns () y"
      using on assms by (auto simp: limited_def consumeRateLimitPoints_def and_then_Returns_iff)
    then show ?thesis using rate_headers_sent [of x l info]
      by (cases "ex_sent x = []") (auto simp: setRateLimitHeaders_def set_header_def)
  next
    case (Refused info)
    then have r: "handleRateLimit l info x = Returns () y"
      using on assms by (auto simp: limited_def consumeRateLimitPoints_def and_then_Returns_iff)
    show ?thesis
    proof (cases "ex_sent x = []")
      case True
      with r handleRateLimit_answers [of x l info] show ?thesis by auto
    qed (use r in \<open>simp add: handleRateLimit_def set_header_def\<close>)
  next
    case (LimiterError e)
    with on assms show ?thesis by (simp add: limited_def consumeRateLimitPoints_def)
  qed
qed (use assms in \<open>auto simp: limited_def consumeRateLimitPoints_def\<close>)

lemma register_error_status: "register_error e = (status, er) \<Longrightarrow> status \<in> {400, 403, 500}"
  by (auto simp: register_error_def split: failure.splits if_splits)

text \<open>
  C13. Whoever registers can log in: after a registration was answered with status 201, under a name that no
  account had before in any case and as no email, the name and the password log in as the new account, which
  has that name; the password meets the rules; and the session of the token that registered says that it is
  logged in as that account.
\<close>

theorem register_then_login:
  assumes "outside_laws od" and "um_register od uc rq rg x = Returns () y" and "\<exists>r. ex_sent y = [r] \<and> rs_status r = 201"
    and "rg_username rg = Some n" and "rg_password rg = Some pw" and "n \<noteq> []"
    and "od_find od (ByLogin n) (us_store (ex_state x)) = Inr None"
  shows "\<exists>a. authCallback od n pw (ex_state y) = (AuthUser a, ex_state y) \<and> ua_username a = n \<and> isPasswordValid uc pw
    \<and> tokens_getSessionInfo od (own_token rq) (ex_state y) = Returns (LoggedIn (ua_id a)) (ex_state y)"
proof -
  obtain x1 where x1: "ex_state x1 = ex_state x" and run: "(case running (registerUser od uc rg) x1 of
       Throws e x2 \<Rightarrow> (let (status, er) = register_error e in respond status (Failed er) x2)
     | Returns a x2 \<Rightarrow> logged_in od rq 201 a (final_state (running (act (od_reqLogin od a)) x2))) = Returns () y"
    using limited_Returns assms(2,3) unfolding um_register_def by fastforce
  obtain a x2 where a: "running (registerUser od uc rg) x1 = Returns a x2"
    and l: "logged_in od rq 201 a (final_state (running (act (od_reqLogin od a)) x2)) = Returns () y"
    using run assms(3)
    by (cases "running (registerUser od uc rg) x1") (auto simp: respond_Returns dest: register_error_status split: prod.splits)
  from a obtain s2 where s2: "registerUser od uc rg (ex_state x) = Returns a s2" "x2 = x1\<lparr>ex_state := s2\<rparr>"
    using x1 by (auto simp: running_Returns)
  from registerUser_Returns [OF s2(1) assms(4,5)] obtain salt h d d1 d2 na where valid: "isPasswordValid uc pw"
    and c: "od_random od 128 (us_store (ex_state x)) = (Inr salt, d)" "od_hash od (salt @ pw) d = (Inr h, d1)"
      "od_create od na d1 = (Inr a, d2)" "na_username na = n" "na_salt na = Some salt" "na_hash na = Some h"
      "s2 = (ex_state x)\<lparr>us_store := d2\<rparr>" by (elim exE conjE) (rule that)
  have made: "ua_username a = n" "ua_salt a = Some salt" "ua_hash a = Some h"
    "od_find od (ByLogin n) d1 = Inr None \<Longrightarrow> od_find od (ByLogin n) d2 = Inr (Some a)"
    using assms(1) c(3-6) by (auto simp: outside_laws_def)
  have "od_find od (ByLogin n) d1 = Inr None"
    using laws_find [OF assms(1)] c(1,2) assms(7) by (metis snd_conv)
  then have "od_find od (ByLogin n) d2 = Inr (Some a)" by (rule made(4))
  then have "od_find od (ByLogin n) (us_store (ex_state (final_state (running (act (od_reqLogin od a)) x2)))) = Inr (Some a)"
    using laws_find(3) [OF assms(1), of "ByLogin n" a d2] s2(2) c(7) by simp
  moreover obtain dy where dy: "od_setSession od (own_token rq) EXPIRATION_TIME_LOGGED_IN (LoggedIn (ua_id a))
      (us_store (ex_state (final_state (running (act (od_reqLogin od a)) x2)))) = (Inr (), dy)" "us_store (ex_state y) = dy"
    using logged_in_Returns [OF l] by blast
  ultimately have found: "od_find od (ByLogin n) (us_store (ex_state y)) = Inr (Some a)"
    using laws_find(4) [OF assms(1)] by (metis snd_conv)
  have session: "od_getSession od (own_token rq) (us_store (ex_state y)) = Inr (Some (LoggedIn (ua_id a)))"
    using assms(1) dy by (auto simp: outside_laws_def)
  have "od_verify od (stored_hash h) (salt @ pw) d'' = Inr True \<and> \<not> od_needsRehash od (stored_hash h)" for d''
    using assms(1) c(2) unfolding outside_laws_def by blast
  then have "authCallback od n pw (ex_state y) = (AuthUser a, ex_state y)"
    using found made(2,3) assms(6) by (simp add: authCallback_def um_getUser_def user_query_def ask_def verifyUserPassword_def)
  then show ?thesis using made(1) valid session by (simp add: tokens_getSessionInfo_def ask_def)
qed


section \<open>Failed logins\<close>

lemma ask_state [simp]: "final_state (ask f s) = s"
  by (simp add: ask_def split: sum.split)

lemma um_getUser_state [simp]: "final_state (um_getUser od u i d s) = s"
  by (auto simp: um_getUser_def ask_def split: option.split sum.split)

lemma um_getUser_cases:
  obtains (found) a where "um_getUser od u i d s = Returns a s" | (missing) e where "um_getUser od u i d s = Throws e s"
  using um_getUser_state [of od u i d s] by (cases "um_getUser od u i d s") auto

lemma verifyUserPassword_state:
  "\<not> od_needsRehash od (stored_hash (nullish (ua_hash a) [])) \<Longrightarrow> final_state (verifyUserPassword od a pw s) = s"
  by (auto simp: verifyUserPassword_def ask_def split: option.split sum.split)

lemma authCallback_state:
  assumes "\<forall>h. \<not> od_needsRehash od h"
  shows "snd (authCallback od n pw s) = s"
proof -
  have v: "final_state (verifyUserPassword od a pw s) = s" for a by (rule verifyUserPassword_state) (use assms in simp)
  show ?thesis
  proof (cases rule: um_getUser_cases [of od "Some n" None None s])
    case (found a)
    with v [of a] show ?thesis
      by (cases "verifyUserPassword od a pw s") (auto simp: authCallback_def split: option.split)
  qed (simp add: authCallback_def)
qed

lemma local_strategy_state:
  "\<forall>h. \<not> od_needsRehash od h \<Longrightarrow> snd (local_strategy od b s) = s"
  by (simp add: local_strategy_def authCallback_state)

text \<open>An attempt that is answered with 401 has only read.\<close>

lemma login_attempt_refused:
  assumes "login_attempt od rq b x = Returns () y" and "ex_sent y = [r]" and "rs_status r = 401"
    and "\<forall>h. \<not> od_needsRehash od h"
  shows "y = x\<lparr>ex_sent := [r]\<rparr>"
proof -
  obtain res where res: "local_strategy od b (ex_state x) = (res, ex_state x)"
    using local_strategy_state [OF assms(4), of b "ex_state x"] by (metis prod.collapse)
  show ?thesis
  proof (cases res)
    case (AuthUser a)
    with assms res show ?thesis
      by (auto simp: login_attempt_def respond_Returns logged_in_def and_then_Returns_iff split: outcome.splits)
  qed (use assms res in \<open>auto simp: login_attempt_def respond_Returns\<close>)
qed

lemma um_login_refused:
  assumes "um_login od uc rq b x = Returns () y" and "ex_sent y = [r]" and "rs_status r = 401"
    and "\<forall>h. \<not> od_needsRehash od h"
  shows "y = x\<lparr>ex_sent := [r]\<rparr>"
proof (cases "uc_rate_limit uc")
  case True
  then obtain byName byIP where "(let secs = login_wait uc byName byIP
         in if secs > 0
            then and_then (set_header ''Retry-After'' (HText (show_int secs)) x) (\<lambda>_ x3.
              respond 429 (FailedOpen (named_error ''TooManyRequests'' ''Too many attempts.'')) x3)
            else login_attempt od rq b x) = Returns () y"
    using assms(1) by (auto simp: um_login_def and_then_Returns_iff running_Returns ask_Returns)
  then have "login_attempt od rq b x = Returns () y"
    using assms(2,3) by (auto simp: Let_def and_then_Returns_iff respond_Returns split: if_splits)
  with login_attempt_refused [OF _ assms(2-4)] show ?thesis by blast
qed (use assms login_attempt_refused in \<open>auto simp: um_login_def\<close>)

definition attempt_again :: "'d outside \<Rightarrow> userConf \<Rightarrow> userRequest \<Rightarrow> loginBody \<Rightarrow> 'd userState \<Rightarrow> 'd userState" where
  "attempt_again od uc rq b s = ex_state (final_state (um_login od uc rq b \<lparr>ex_state = s, ex_headers = [], ex_sent = []\<rparr>))"

text \<open>
  Failed logins are not counted: an attempt that is refused with status 401 leaves the whole state as
  it was, the counters of failures included, so that whoever guesses passwords can do so any number of times and is
  never told to wait.
\<close>

theorem failed_login_unlimited:
  assumes "um_login od uc rq b \<lparr>ex_state = s, ex_headers = [], ex_sent = []\<rparr> = Returns () y"
    and "ex_sent y = [r]" and "rs_status r = 401" and "\<forall>h. \<not> od_needsRehash od h"
  shows "(attempt_again od uc rq b ^^ k) s = s
    \<and> um_login od uc rq b \<lparr>ex_state = (attempt_again od uc rq b ^^ k) s, ex_headers = [], ex_sent = []\<rparr> = Returns () y"
proof -
  have "attempt_again od uc rq b s = s"
    using um_login_refused [OF assms] assms(1) by (simp add: attempt_again_def)
  then have "(attempt_again od uc rq b ^^ k) s = s" by (induction k) simp_all
  with assms(1) show ?thesis by simp
qed

section \<open>Linking Discord again\<close>

text \<open>
  A logged-in account without password and email of its own that goes through the Discord login once more
  destroys itself: the account with that Discord id, which is to be merged into it, is itself. The caller is
  told that the link succeeded. Of the database it is assumed that a destroyed account is not found any more
  and that saving one that does not exist updates no row.
\<close>

theorem relinking_deletes_account:
  assumes "od_find od (ByDiscord (dc_id p)) (us_store s) = Inr (Some a)" and "dc_id p \<noteq> []"
    and "\<not> truthy_str (ua_email a)" and "ua_salt a = None" and "ua_hash a = None"
    and "od_giveRooms od (ua_id a) (ua_id a) (us_store s) = (Inr (), d1)" and "od_destroy od (ua_id a) d1 = (Inr (), d2)"
    and "\<And>i d d'. od_destroy od i d = (Inr (), d') \<Longrightarrow> od_find od (ById i) d' = Inr None"
    and "\<And>b d. od_find od (ById (ua_id b)) d = Inr None \<Longrightarrow> od_save od b d = (Inr (), d)"
  shows "authCallbackDiscord od uc (Some a) p s = (AuthUser (a\<lparr>ua_discordId := Some (dc_id p)\<rparr>), s\<lparr>us_store := d2\<rparr>)
    \<and> od_find od (ById (ua_id a)) d2 = Inr None"
proof -
  have gone: "od_find od (ById (ua_id a)) d2 = Inr None" using assms(7,8) by blast
  then have "od_save od (a\<lparr>ua_discordId := Some (dc_id p)\<rparr>) d2 = (Inr (), d2)" using assms(9) by simp
  moreover have "um_getUser od None None (Some (dc_id p)) s = Returns a s"
    using assms(1,2) by (simp add: um_getUser_def user_query_def ask_def)
  ultimately have "connectSocial od a (dc_id p) s = Returns Linked (s\<lparr>us_store := d2\<rparr>)"
    using assms(3-7) by (simp add: connectSocial_def act_cases)
  with gone show ?thesis by (simp add: authCallbackDiscord_def)
qed

section \<open>Recovering an account\<close>

lemma consume_state [simp]: "ex_state (final_state (consumeRateLimitPoints l key points x)) = ex_state x"
proof (cases "ex_sent x = []")
  case True
  then show ?thesis
    using rate_headers_sent [OF True, of l] handleRateLimit_answers [OF True, of l]
    by (auto simp: consumeRateLimitPoints_def split: consumeAnswer.split) (metis and_then.simps(1) final_state.simps(1))+
qed (auto simp: consumeRateLimitPoints_def handleRateLimit_def setRateLimitHeaders_def set_header_def split: consumeAnswer.split)

text \<open>
  The rate limit does not limit password recovery: when the limiter refuses the request and has answered
  it with status 429, the mail with a fresh recovery key goes out nevertheless; only then does the handler fail,
  because it has already responded.
\<close>

theorem recovery_ignores_rate_limit:
  assumes "uc_rate_limit uc" and "li_enabled (uc_limits uc)" and "li_consume (uc_limits uc) (uq_ip rq) 100 = Refused info"
    and "ex_sent x = []" and "uc_mail_enabled uc" and "n \<noteq> []"
    and "od_find od (ByLogin n) (us_store (ex_state x)) = Inr (Some a)" and "ua_email a = Some e" and "e \<noteq> []"
    and "od_random od 32 (us_store (ex_state x)) = (Inr bs, d1)" and "od_setRecovery od (to_hex bs) 600 e d1 = (Inr (), d2)"
    and "od_mail od (reset_mail uc e (to_hex bs)) d2 = (Inr (), d3)"
  shows "\<exists>y r. um_recover_start od uc rq (RecoverByName n) x = Throws headers_sent y
    \<and> ex_sent y = [r] \<and> rs_status r = 429 \<and> us_store (ex_state y) = d3"
proof -
  obtain x1 r where x1: "handleRateLimit (uc_limits uc) info x = Returns () x1" "ex_sent x1 = [r]" "rs_status r = 429"
    "ex_state x1 = ex_state x" using handleRateLimit_answers [OF assms(4)] by blast
  have "consumeRateLimitPoints (uc_limits uc) (uq_ip rq) 100 x = Returns False x1"
    using assms(2,3) x1(1) by (simp add: consumeRateLimitPoints_def)
  moreover have "running (um_getUser od (Some n) None None) x1 = Returns a x1"
    using assms(6,7) x1(4) by (simp add: running_def um_getUser_def user_query_def ask_def)
  moreover have "sendPasswordResetEmail od uc e (ex_state x) = Returns () ((ex_state x)\<lparr>us_store := d3\<rparr>)"
    using assms(5,10-12) by (simp add: sendPasswordResetEmail_def act_cases)
  ultimately have "accountRecoveryStart od uc rq (RecoverByName n) x
      = Throws headers_sent (x1\<lparr>ex_state := (ex_state x)\<lparr>us_store := d3\<rparr>\<rparr>)"
    using assms(1,8,9) x1(2,4) by (simp add: accountRecoveryStart_def running_def respond_def)
  then show ?thesis
    using x1(2,3) by (simp add: um_recover_start_def um_errorHandler_def headers_sent_def respond_def)
qed

lemma catching_Returns: "catching h c = Returns a y \<longleftrightarrow> c = Returns a y \<or> (\<exists>e z. c = Throws e z \<and> h e z = Returns a y)"
  by (cases c) auto

lemma consume_Returns_state: "consumeRateLimitPoints l key points x = Returns b y \<Longrightarrow> ex_state y = ex_state x"
  using consume_state [of l key points x] by simp

text \<open>The limiter's part of the recovery handlers.\<close>

lemma perhaps_limited_state:
  "(if enabled then consumeRateLimitPoints l key points x else Returns True x) = Returns b y \<Longrightarrow> ex_state y = ex_state x"
  "(if enabled then consumeRateLimitPoints l key points x else Returns True x) = Throws e y \<Longrightarrow> ex_state y = ex_state x"
  by (metis consume_state final_state.simps outcome.distinct(1) outcome.inject(1))+

lemma um_errorHandler_state [simp]: "ex_state (final_state (um_errorHandler f x)) = ex_state x"
  by (auto simp: um_errorHandler_def split: failure.split)

lemma um_errorHandler_status:
  "um_errorHandler f x = Returns () y \<Longrightarrow> \<exists>r. ex_sent y = [r] \<and> rs_status r \<in> {400, 500}"
  by (auto simp: um_errorHandler_def respond_Returns split: failure.splits if_splits)

lemma recovery_needs_key:
  assumes "\<not> (\<exists>e. od_getRecovery od k (us_store (ex_state x)) = Inr (Some e) \<and> e \<noteq> [])"
  shows "ex_state (final_state (accountRecoveryVerify od uc rq k pw x)) = ex_state x"
proof -
  let ?lim = "if uc_rate_limit uc then consumeRateLimitPoints (uc_limits uc) (uq_ip rq) 10 x else Returns True x"
  show ?thesis
  proof (cases ?lim)
    case (Returns b x1)
    then have s: "ex_state x1 = ex_state x" by (rule perhaps_limited_state(1))
    show ?thesis
    proof (cases "od_getRecovery od k (us_store (ex_state x))")
      case (Inl e)
      with s Returns show ?thesis by (simp add: accountRecoveryVerify_def running_def ask_def)
    next
      case (Inr found)
      with assms have "\<not> truthy_str found" by (cases found) auto
      with s Returns Inr show ?thesis by (simp add: accountRecoveryVerify_def running_def ask_def)
    qed
  next
    case (Throws e x1)
    then have "ex_state x1 = ex_state x" by (rule perhaps_limited_state(2))
    with Throws show ?thesis by (simp add: accountRecoveryVerify_def)
  qed
qed

lemma verify_succeeds:
  assumes "accountRecoveryVerify od uc rq k pw x = Returns () y"
  shows "\<exists>a x3. recover_account od uc rq k pw a x3 = Returns () y"
  using assms by (auto simp: accountRecoveryVerify_def and_then_Returns_iff split: if_splits option.splits)

lemma recovery_succeeds_state:
  assumes "um_recover_verify od uc rq k pw x = Returns () y" and "ex_sent y = [r]" and "rs_status r = 200"
  shows "\<exists>d d1 d2 d3. od_delRecovery od k d = (Inr (), d1)
    \<and> (d2 = d1 \<or> (\<exists>t e i. od_setSession od t e i d1 = (Inr (), d2)))
    \<and> (d3 = d2 \<or> (\<exists>ip n. od_reward od ip n d2 = (Inr (), d3))) \<and> us_store (ex_state y) = d3"
proof -
  have "accountRecoveryVerify od uc rq k pw x = Returns () y"
    using assms um_errorHandler_status by (fastforce simp: um_recover_verify_def catching_Returns)
  then obtain a x3 where "recover_account od uc rq k pw a x3 = Returns () y" using verify_succeeds by blast
  then obtain u5 u6 u7 x4 x5 x6 x7 where x5: "running (act (od_delRecovery od k)) x4 = Returns u5 x5"
    and x6: "(if truthy_str (uq_token rq) then running (tokens_setSessionInfo od (own_token rq) (LoggedIn (ua_id a))) x5
       else Returns () x5) = Returns u6 x6"
    and x7: "(if uc_rate_limit uc then running (act (od_reward od (uq_ip rq) 100)) x6 else Returns () x6) = Returns u7 x7"
    and y: "respond 200 (Done UPlain) x7 = Returns () y"
    unfolding recover_account_def and_then_Returns_iff by blast
  have "\<exists>d. od_delRecovery od k d = (Inr (), us_store (ex_state x5))"
    using x5 by (auto simp: running_Returns act_Returns)
  moreover have "us_store (ex_state x6) = us_store (ex_state x5)
      \<or> (\<exists>t e i. od_setSession od t e i (us_store (ex_state x5)) = (Inr (), us_store (ex_state x6)))"
    using x6 by (auto simp: running_Returns act_Returns tokens_setSessionInfo_def split: if_splits) 
  moreover have "us_store (ex_state x7) = us_store (ex_state x6)
      \<or> (\<exists>ip n. od_reward od ip n (us_store (ex_state x6)) = (Inr (), us_store (ex_state x7)))"
    using x7 by (auto simp: running_Returns act_Returns split: if_splits) 
  moreover have "ex_state y = ex_state x7" using y by (auto simp: respond_Returns)
  ultimately show ?thesis by (metis (no_types))
qed

text \<open>
  A recovery key works once: after a recovery that was answered with 200, no further recovery with the same key,
  whoever sends it and whatever the new password is, changes anything, in particular no password and no session.
  Of redis it is assumed that a deleted key is not read again and that storing a session or giving points back does
  not bring it back.
\<close>

theorem recovery_key_single_use:
  assumes "um_recover_verify od uc rq k pw x = Returns () y" and "ex_sent y = [r]" and "rs_status r = 200"
    and "\<And>k d d'. od_delRecovery od k d = (Inr (), d') \<Longrightarrow> od_getRecovery od k d' = Inr None"
    and "\<And>t e i k d. od_getRecovery od k (snd (od_setSession od t e i d)) = od_getRecovery od k d"
    and "\<And>ip n k d. od_getRecovery od k (snd (od_reward od ip n d)) = od_getRecovery od k d"
    and "ex_state x2 = ex_state y"
  shows "ex_state (final_state (um_recover_verify od uc rq2 k pw2 x2)) = ex_state y"
proof -
  obtain d d1 d2 d3 where d: "od_delRecovery od k d = (Inr (), d1)"
    "d2 = d1 \<or> (\<exists>t e i. od_setSession od t e i d1 = (Inr (), d2))"
    "d3 = d2 \<or> (\<exists>ip n. od_reward od ip n d2 = (Inr (), d3))" "us_store (ex_state y) = d3"
    using recovery_succeeds_state [OF assms(1-3)] by blast
  have "od_getRecovery od k d1 = Inr None" using d(1) assms(4) by blast
  then have "od_getRecovery od k d2 = Inr None" using d(2) assms(5) by (metis snd_conv)
  then have "od_getRecovery od k d3 = Inr None" using d(3) assms(6) by (metis snd_conv)
  then have "\<not> (\<exists>e. od_getRecovery od k (us_store (ex_state x2)) = Inr (Some e) \<and> e \<noteq> [])"
    using d(4) assms(7) by simp
  then have "ex_state (final_state (accountRecoveryVerify od uc rq2 k pw2 x2)) = ex_state x2"
    by (rule recovery_needs_key)
  then show ?thesis
    using assms(7) by (cases "accountRecoveryVerify od uc rq2 k pw2 x2") (auto simp: um_recover_verify_def)
qed

section \<open>Changing the password\<close>

lemma check_current_passes:
  assumes "check_current od a b s = Returns None s'" and "ua_hash a \<noteq> None \<or> ua_salt a \<noteq> None"
  shows "\<exists>cur h salt. au_currentPassword b = Some cur \<and> ua_hash a = Some h \<and> ua_salt a = Some salt
    \<and> od_verify od (stored_hash h) (salt @ cur) (us_store s) = Inr True"
proof -
  obtain cur where cur: "au_currentPassword b = Some cur" "cur \<noteq> []"
    using assms by (cases "au_currentPassword b") (auto simp: check_current_def split: if_splits)
  with assms obtain s1 where v: "verifyUserPassword od a cur s = Returns True s1"
    by (auto simp: check_current_def and_then_Returns_iff split: if_splits)
  then obtain h salt where hs: "ua_hash a = Some h" "ua_salt a = Some salt"
    by (auto simp: verifyUserPassword_def split: option.splits)
  with v have "od_verify od (stored_hash h) (salt @ cur) (us_store s) = Inr True"
    by (auto simp: verifyUserPassword_def and_then_Returns_iff ask_Returns split: if_splits)
  with cur hs show ?thesis by blast
qed

text \<open>
  C12. Nobody changes the password of an account that has one without knowing it: when a change of the account
  with a new password is answered with 200, the request carried the current password, argon2 verified it against
  the stored hash with the stored salt, and the new password meets the rules.
\<close>

theorem password_change_needs_current:
  assumes "patchAccount od uc isEmail rq b x = Returns () y" and "ex_sent y = [r]" and "rs_status r = 200"
    and "au_newPassword b = Some pw" and "uq_user rq = Some a" and "ua_hash a \<noteq> None \<or> ua_salt a \<noteq> None"
  shows "\<exists>cur h salt. au_currentPassword b = Some cur \<and> ua_hash a = Some h \<and> ua_salt a = Some salt
    \<and> od_verify od (stored_hash h) (salt @ cur) (us_store (ex_state x)) = Inr True \<and> isPasswordValid uc pw"
proof -
  let ?a = "case au_email b of None \<Rightarrow> a | Some m \<Rightarrow> a\<lparr>ua_email := Some m\<rparr>"
  have same: "ua_hash ?a = ua_hash a" "ua_salt ?a = ua_salt a" by (simp_all split: option.split)
  obtain x1 where x1: "ex_state x1 = ex_state x" and p: "patch_password od uc ?a b pw x1 = Returns () y"
    using limited_Returns assms(2-) assms(1)[unfolded patchAccount_def for_account_def]
    by (fastforce simp: respond_Returns Let_def split: if_splits)
  then obtain refused x2 where pc: "running (check_current od ?a b) x1 = Returns refused x2" "(case refused of
      Some e \<Rightarrow> respond 400 (Failed e) x2
    | None \<Rightarrow> (case running (changeUserPassword od uc ?a pw True) x2 of
        Throws e x2 \<Rightarrow> respond 400 (Failed (named_error (failure_name e) (failure_message e))) x2
      | Returns _ x2 \<Rightarrow> respond 200 (Done UPlain) x2)) = Returns () y"
    unfolding patch_password_def and_then_Returns_iff by blast
  then have "refused = None" using assms(2,3) by (cases refused) (auto simp: respond_Returns)
  with pc have ok: "running (check_current od ?a b) x1 = Returns None x2"
    and ch: "(case running (changeUserPassword od uc ?a pw True) x2 of
        Throws e x2 \<Rightarrow> respond 400 (Failed (named_error (failure_name e) (failure_message e))) x2
      | Returns _ x2 \<Rightarrow> respond 200 (Done UPlain) x2) = Returns () y" by simp_all
  from ok obtain s where "check_current od ?a b (ex_state x) = Returns None s" using x1 by (auto simp: running_Returns)
  from check_current_passes [OF this] same assms(6) obtain cur h salt where
    c: "au_currentPassword b = Some cur" "ua_hash a = Some h" "ua_salt a = Some salt"
      "od_verify od (stored_hash h) (salt @ cur) (us_store (ex_state x)) = Inr True" by auto
  have "isPasswordValid uc pw"
    using ch assms(2,3) by (auto simp: running_def changeUserPassword_def respond_Returns split: if_splits)
  with c show ?thesis by blast
qed

section \<open>Who a request is from\<close>

lemma running_getUser:
  "running (um_getUser od u i d) x = Returns a y \<longleftrightarrow> y = x \<and> (\<exists>q. user_query u i d = Some q
    \<and> od_find od q (us_store (ex_state x)) = Inr (Some a))"
  by (auto simp: running_def um_getUser_def ask_def split: option.splits sum.splits)

lemma running_session:
  "running (tokens_getSessionInfo od t) x = Returns i y \<longleftrightarrow> y = x \<and> od_getSession od t (us_store (ex_state x)) = Inr (Some i)"
  by (auto simp: running_def tokens_getSessionInfo_def ask_def split: option.splits sum.splits)

lemma middleware_key:
  assumes "truthy_str (rw_apikey rw)" and "authTokenMiddleware od uc rw x = Returns (Some rq) y"
  shows "rw_apikey rw = Some (uc_api_key uc) \<and> uq_user rq = None"
  using assms by (cases "rw_apikey rw") (auto simp: authTokenMiddleware_def Let_def requireApiKey_def and_then_Returns_iff
      split: sum.splits if_splits)

lemma middleware_token:
  assumes "\<not> truthy_str (rw_apikey rw)" and "authTokenMiddleware od uc rw x = Returns (Some rq) y"
  shows "\<exists>t. request_token rw = Some t \<and> t \<noteq> [] \<and> session_middleware od t
    \<lparr>uq_ip = rw_ip rw, uq_token = Some t, uq_user = None, uq_session = None\<rparr> x = Returns (Some rq) y"
  using assms by (cases "request_token rw") (auto simp: authTokenMiddleware_def Let_def and_then_Returns_iff split: if_splits)

lemma session_middleware_Returns:
  assumes "session_middleware od t rq0 x = Returns (Some rq) y"
  shows "\<exists>i. od_getSession od t (us_store (ex_state x)) = Inr (Some i) \<and> uq_token rq = uq_token rq0 \<and> uq_session rq = Some i
    \<and> (uq_user rq = uq_user rq0
       \<or> (\<exists>k a. i = LoggedIn k \<and> uq_user rq = Some a \<and> od_find od (ById k) (us_store (ex_state x)) = Inr (Some a)))"
proof (cases "running (tokens_getSessionInfo od t) x")
  case (Throws e x1)
  with assms show ?thesis by (simp add: session_middleware_def and_then_Returns_iff)
next
  case (Returns i x1)
  then have i: "x1 = x" "od_getSession od t (us_store (ex_state x)) = Inr (Some i)" by (simp_all add: running_session)
  show ?thesis
  proof (cases i)
    case (LoggedOut n)
    with assms Returns i show ?thesis by (auto simp: session_middleware_def)
  next
    case in_: (LoggedIn k)
    show ?thesis
    proof (cases "running (um_getUser od None (Some k) None) x")
      case found: (Returns a x2)
      then have "od_find od (ById k) (us_store (ex_state x)) = Inr (Some a)"
        by (auto simp: running_getUser user_query_def split: if_splits)
      with assms Returns i in_ found show ?thesis by (auto simp: session_middleware_def)
    next
      case (Throws e x2)
      with assms Returns i in_ show ?thesis by (auto simp: session_middleware_def and_then_Returns_iff)
    qed
  qed
qed

text \<open>
  C11. A request is never taken for an account it has not shown to be: when the middleware hands a request on with
  an account, the request carried no API key but a token, whose stored session says that it is logged in, and
  the account is the one with that id; and whatever is handed on carried the configured, non-empty API key or a
  token with a stored session.
\<close>

theorem middleware_authenticates:
  assumes "authTokenMiddleware od uc rw x = Returns (Some rq) y"
  shows "(\<forall>a. uq_user rq = Some a \<longrightarrow> \<not> truthy_str (rw_apikey rw) \<and> (\<exists>t i. request_token rw = Some t \<and> t \<noteq> [] \<and> uq_token rq = Some t
        \<and> od_getSession od t (us_store (ex_state x)) = Inr (Some (LoggedIn i))
        \<and> od_find od (ById i) (us_store (ex_state x)) = Inr (Some a)))
    \<and> (uc_api_key uc \<noteq> [] \<and> rw_apikey rw = Some (uc_api_key uc)
       \<or> (\<exists>t i. request_token rw = Some t \<and> t \<noteq> [] \<and> uq_token rq = Some t
          \<and> od_getSession od t (us_store (ex_state x)) = Inr (Some i)))"
proof (cases "truthy_str (rw_apikey rw)")
  case True
  moreover from True have "rw_apikey rw \<noteq> Some []" by auto
  ultimately show ?thesis using middleware_key [OF True assms] by auto
next
  case False
  then obtain t where "request_token rw = Some t" "t \<noteq> []" "session_middleware od t
      \<lparr>uq_ip = rw_ip rw, uq_token = Some t, uq_user = None, uq_session = None\<rparr> x = Returns (Some rq) y"
    using middleware_token [OF _ assms] by blast
  with session_middleware_Returns [OF this(3)] False show ?thesis by auto
qed

text \<open>
  A caller whose account is gone is never answered when asking who it is: the middleware stores a logged-out
  session, but the request it hands on still says that it is logged in, and for such a request without an
  account no response is sent.
\<close>

theorem lost_account_never_answered:
  assumes "\<not> truthy_str (rw_apikey rw)" and "request_token rw = Some t" and "t \<noteq> []"
    and "od_getSession od t (us_store (ex_state x)) = Inr (Some (LoggedIn i))"
    and "od_find od (ById i) (us_store (ex_state x)) = Inr None" and "ex_sent x = []"
    and "authTokenMiddleware od uc rw x = Returns (Some rq) y"
  shows "um_me rq y = Returns () y \<and> ex_sent y = []"
proof -
  have "session_middleware od t \<lparr>uq_ip = rw_ip rw, uq_token = Some t, uq_user = None, uq_session = None\<rparr> x = Returns (Some rq) y"
    using middleware_token [OF assms(1,7)] assms(2) by auto
  moreover have "running (tokens_getSessionInfo od t) x = Returns (LoggedIn i) x" using assms(4) by (simp add: running_session)
  moreover have "\<exists>e. running (um_getUser od None (Some i) None) x = Throws e x"
    using assms(5) by (auto simp: running_def um_getUser_def user_query_def ask_def)
  ultimately obtain session x3 u where c: "running (createSession od) x = Returns session x3"
    "running (tokens_setSessionInfo od t session) x3 = Returns u y" "uq_user rq = None" "uq_session rq = Some (LoggedIn i)"
    by (auto simp: session_middleware_def and_then_Returns_iff)
  have "ex_sent y = ex_sent x"
    using running_sent [of "createSession od" x] running_sent [of "tokens_setSessionInfo od t session" x3] c by simp
  with c assms(6) show ?thesis by (simp add: um_me_def)
qed

section \<open>Witnesses\<close>

text \<open>An outside that keeps everything in lists: hashing puts a prefix before the text, randomness is a fixed text.\<close>

record listStore =
  st_accounts :: "account list"
  st_sessions :: "(authToken \<times> sessionInfo) list"
  st_keys :: "(string \<times> string) list"
  st_mails :: "email list"

definition new_account :: "int \<Rightarrow> newAccount \<Rightarrow> account" where
  "new_account i na = \<lparr>ua_id = i, ua_username = na_username na, ua_email = na_email na, ua_salt = na_salt na,
     ua_hash = na_hash na, ua_discordId = na_discordId na\<rparr>"

definition list_hash :: "string \<Rightarrow> string" where
  "list_hash pw = ''$argon2id$'' @ pw @ ''.''"

definition list_outside :: "listStore outside" where
  "list_outside = \<lparr>
     od_find = (\<lambda>q d. Inr (find (matches q) (st_accounts d))),
     od_create = (\<lambda>na d. let a = new_account (int (length (st_accounts d)) + 1) na
        in (Inr a, d\<lparr>st_accounts := st_accounts d @ [a]\<rparr>)),
     od_save = (\<lambda>a d. (Inr (), d\<lparr>st_accounts := map (\<lambda>b. if ua_id b = ua_id a then a else b) (st_accounts d)\<rparr>)),
     od_destroy = (\<lambda>i d. (Inr (), d\<lparr>st_accounts := filter (\<lambda>b. ua_id b \<noteq> i) (st_accounts d)\<rparr>)),
     od_giveRooms = (\<lambda>i j d. (Inr (), d)),
     od_getSession = (\<lambda>t d. Inr (map_of (st_sessions d) t)),
     od_exists = (\<lambda>t d. Inr (map_of (st_sessions d) t \<noteq> None)),
     od_setSession = (\<lambda>t e i d. (Inr (), d\<lparr>st_sessions := (t, i) # st_sessions d\<rparr>)),
     od_getRecovery = (\<lambda>k d. Inr (map_of (st_keys d) k)),
     od_setRecovery = (\<lambda>k e m d. (Inr (), d\<lparr>st_keys := (k, m) # st_keys d\<rparr>)),
     od_delRecovery = (\<lambda>k d. (Inr (), d\<lparr>st_keys := filter (\<lambda>(k', m). k' \<noteq> k) (st_keys d)\<rparr>)),
     od_random = (\<lambda>n d. (Inr ''salt'', d)), od_nickname = (\<lambda>d. (Inr ''nick'', d)),
     od_hash = (\<lambda>pw d. (Inr (list_hash pw), d)), od_verify = (\<lambda>h pw d. Inr (h = list_hash pw)),
     od_needsRehash = (\<lambda>h. False), od_mail = (\<lambda>m d. (Inr (), d\<lparr>st_mails := st_mails d @ [m]\<rparr>)),
     od_reqLogin = (\<lambda>a d. (Inr (), d)), od_reqLogout = (\<lambda>d. (Inr (), d)), od_reward = (\<lambda>ip n d. (Inr (), d)),
     od_loginFails = (\<lambda>k d. Inr None), od_ipFails = (\<lambda>k d. Inr None)\<rparr>"

lemma list_outside_simps [simp]:
  "od_find list_outside q d = Inr (find (matches q) (st_accounts d))"
  "od_create list_outside na d = (Inr (new_account (int (length (st_accounts d)) + 1) na),
     d\<lparr>st_accounts := st_accounts d @ [new_account (int (length (st_accounts d)) + 1) na]\<rparr>)"
  "od_save list_outside a d = (Inr (), d\<lparr>st_accounts := map (\<lambda>b. if ua_id b = ua_id a then a else b) (st_accounts d)\<rparr>)"
  "od_destroy list_outside i d = (Inr (), d\<lparr>st_accounts := filter (\<lambda>b. ua_id b \<noteq> i) (st_accounts d)\<rparr>)"
  "od_giveRooms list_outside i j d = (Inr (), d)" "od_getSession list_outside t d = Inr (map_of (st_sessions d) t)"
  "od_setSession list_outside t e info d = (Inr (), d\<lparr>st_sessions := (t, info) # st_sessions d\<rparr>)"
  "od_getRecovery list_outside k d = Inr (map_of (st_keys d) k)"
  "od_setRecovery list_outside k e m d = (Inr (), d\<lparr>st_keys := (k, m) # st_keys d\<rparr>)"
  "od_delRecovery list_outside k d = (Inr (), d\<lparr>st_keys := filter (\<lambda>(k', m). k' \<noteq> k) (st_keys d)\<rparr>)"
  "od_random list_outside n d = (Inr ''salt'', d)" "od_hash list_outside pw d = (Inr (list_hash pw), d)"
  "od_verify list_outside h pw d = Inr (h = list_hash pw)" "\<not> od_needsRehash list_outside h"
  "od_mail list_outside ml d = (Inr (), d\<lparr>st_mails := st_mails d @ [ml]\<rparr>)" "od_reqLogin list_outside a d = (Inr (), d)"
  "od_reward list_outside ip p d = (Inr (), d)" "od_nickname list_outside d = (Inr ''nick'', d)"
  "od_loginFails list_outside k d = Inr None" "od_ipFails list_outside k d = Inr None"
  by (simp_all add: list_outside_def Let_def)

lemma stored_list_hash [simp]: "stored_hash (list_hash pw) = list_hash pw"
  by (simp add: stored_hash_def list_hash_def)

lemma list_outside_laws: "outside_laws list_outside"
  by (auto simp: outside_laws_def keeps_accounts_def new_account_def find_append)

lemma list_outside_keys:
  "od_delRecovery list_outside k d = (Inr (), d') \<Longrightarrow> od_getRecovery list_outside k d' = Inr None"
  by (auto simp: map_of_eq_None_iff)

lemma find_saved:
  "find (matches (ById i)) xs = None \<Longrightarrow> map (\<lambda>b. if ua_id b = i then a else b) xs = xs"
  by (auto simp: find_None_iff intro: map_idI)

definition demo_uc :: userConf where
  "demo_uc = \<lparr>uc_development = False, uc_enable_registration = True, uc_rate_limit = False, uc_mail_enabled = True,
     uc_hostname = ''ott'', uc_base_url = [], uc_api_key = [], uc_maxWrongAttemptsByIPperDay = 100, uc_maxConsecutiveFails = 10,
     uc_limits = \<lparr>li_enabled = False, li_points = 1000, li_now = 0, li_consume = (\<lambda>k p. Refused
       \<lparr>lr_remainingPoints = 0, lr_msBeforeNext = 1000, lr_consumedPoints = 1001, lr_isFirstInDuration = False\<rparr>)\<rparr>\<rparr>"

definition demo_account :: account where
  "demo_account = \<lparr>ua_id = 1, ua_username = ''Ann'', ua_email = Some ''a@b'', ua_salt = Some ''salt'',
     ua_hash = Some (list_hash ''saltpassw0rd''), ua_discordId = Some ''d''\<rparr>"

definition demo_state :: "account list \<Rightarrow> listStore userState" where
  "demo_state as = \<lparr>us_store = \<lparr>st_accounts = as, st_sessions = [(''t'', LoggedIn 1)], st_keys = [(''key'', ''a@b'')],
     st_mails = []\<rparr>, us_told = []\<rparr>"

definition demo_rq :: "account option \<Rightarrow> userRequest" where
  "demo_rq a = \<lparr>uq_ip = ''ip'', uq_token = Some ''t'', uq_user = a, uq_session = None\<rparr>"

lemmas demo_account_defs = demo_uc_def demo_account_def demo_state_def demo_rq_def

definition demo_ux :: "account list \<Rightarrow> listStore user_exchange" where
  "demo_ux as = \<lparr>ex_state = demo_state as, ex_headers = [], ex_sent = []\<rparr>"

lemma demo_ux_simps [simp]: "ex_state (demo_ux as) = demo_state as" "ex_sent (demo_ux as) = []"
  by (simp_all add: demo_ux_def)

lemma demo_password: "isPasswordValid demo_uc ''passw0rd''"
  by (simp add: isPasswordValid_def password_categories_def first_line_def char_between_def demo_uc_def)

definition demo_registration :: registration where
  "demo_registration = \<lparr>rg_email = None, rg_username = Some ''Bob'', rg_password = Some ''passw0rd''\<rparr>"

lemma demo_register:
  "\<exists>y r. um_register list_outside demo_uc (demo_rq None) demo_registration (demo_ux []) = Returns () y
     \<and> ex_sent y = [r] \<and> rs_status r = 201"
proof -
  have "registerUser list_outside demo_uc demo_registration (demo_state []) = Returns (new_account 1
      \<lparr>na_username = ''Bob'', na_email = None, na_salt = Some ''salt'', na_hash = Some (list_hash ''saltpassw0rd''), na_discordId = None\<rparr>)
      ((demo_state [])\<lparr>us_store := (us_store (demo_state []))\<lparr>st_accounts := [new_account 1
        \<lparr>na_username = ''Bob'', na_email = None, na_salt = Some ''salt'', na_hash = Some (list_hash ''saltpassw0rd''), na_discordId = None\<rparr>]\<rparr>\<rparr>)"
    using demo_password
    by (simp add: registerUser_def demo_registration_def salted_def act_cases create_account_def isUsernameTaken_def taken_def
        demo_uc_def demo_state_def Let_def)
  then show ?thesis
    by (simp add: um_register_def limited_def consumeRateLimitPoints_def demo_uc_def running_def logged_in_def act_cases
        tokens_setSessionInfo_def respond_def demo_ux_def)
qed

theorem register_then_login_witness:
  "\<exists>y a. um_register list_outside demo_uc (demo_rq None) demo_registration (demo_ux []) = Returns () y
     \<and> authCallback list_outside ''Bob'' ''passw0rd'' (ex_state y) = (AuthUser a, ex_state y) \<and> ua_username a = ''Bob''"
proof -
  obtain y r where y: "um_register list_outside demo_uc (demo_rq None) demo_registration (demo_ux []) = Returns () y"
    "ex_sent y = [r]" "rs_status r = 201" using demo_register by blast
  have "rg_username demo_registration = Some ''Bob''" "rg_password demo_registration = Some ''passw0rd''"
    by (simp_all add: demo_registration_def)
  from register_then_login [OF list_outside_laws y(1) _ this] y show ?thesis by (auto simp: demo_state_def)
qed

definition wrong_login :: loginBody where
  "wrong_login = \<lparr>lb_user = Some ''Ann'', lb_email = None, lb_username = None, lb_password = Some ''guess''\<rparr>"

lemma demo_wrong_login:
  "um_login list_outside demo_uc (demo_rq None) wrong_login (demo_ux [demo_account])
    = Returns () ((demo_ux [demo_account])\<lparr>ex_sent := [\<lparr>rs_status = 401, rs_headers = [],
        rs_body = Failed (message_error ''Either the user or password was not provided.'')\<rparr>]\<rparr>)"
proof -
  have "\<not> contains_text ''$argon2$'' (list_hash ''saltpassw0rd'')"
    by (simp add: list_hash_def starts_with_def)
  moreover have "list_hash ''saltpassw0rd'' \<noteq> list_hash ''saltguess''" by (simp add: list_hash_def)
  ultimately have "authCallback list_outside ''Ann'' ''guess'' (demo_state [demo_account]) = (AuthNobody, demo_state [demo_account])"
    by (simp add: authCallback_def um_getUser_def user_query_def ask_def verifyUserPassword_def demo_account_def demo_state_def
        to_lower_def)
  then show ?thesis
    by (simp add: um_login_def demo_uc_def login_attempt_def local_strategy_def login_name_def wrong_login_def respond_def demo_ux_def)
qed

theorem failed_login_unlimited_witness:
  "(attempt_again list_outside demo_uc (demo_rq None) wrong_login ^^ 1000) (demo_state [demo_account]) = demo_state [demo_account]"
proof -
  have "um_login list_outside demo_uc (demo_rq None) wrong_login \<lparr>ex_state = demo_state [demo_account], ex_headers = [], ex_sent = []\<rparr>
    = Returns () ((demo_ux [demo_account])\<lparr>ex_sent := [\<lparr>rs_status = 401, rs_headers = [],
        rs_body = Failed (message_error ''Either the user or password was not provided.'')\<rparr>]\<rparr>)"
    using demo_wrong_login by (simp add: demo_ux_def)
  from failed_login_unlimited [OF this, of _ 1000] show ?thesis by simp
qed

definition social_account :: account where
  "social_account = \<lparr>ua_id = 1, ua_username = ''Ann'', ua_email = None, ua_salt = None, ua_hash = None, ua_discordId = Some ''d''\<rparr>"

theorem relinking_deletes_account_witness:
  "authCallbackDiscord list_outside demo_uc (Some social_account)
     \<lparr>dc_id = ''d'', dc_discriminator = None, dc_global_name = None, dc_username = ''ann''\<rparr> (demo_state [social_account])
   = (AuthUser (social_account\<lparr>ua_discordId := Some ''d''\<rparr>), demo_state [])"
proof -
  let ?d = "us_store (demo_state [])"
  have "od_destroy list_outside (ua_id social_account) (us_store (demo_state [social_account])) = (Inr (), ?d)"
    by (simp add: demo_state_def)
  from relinking_deletes_account [of list_outside "\<lparr>dc_id = ''d'', dc_discriminator = None, dc_global_name = None, dc_username = ''ann''\<rparr>"
      "demo_state [social_account]" social_account "us_store (demo_state [social_account])" ?d demo_uc]
  show ?thesis using find_saved by (auto simp: social_account_def demo_state_def find_None_iff)
qed

definition limiting :: userConf where
  "limiting = demo_uc\<lparr>uc_rate_limit := True, uc_limits := (uc_limits demo_uc)\<lparr>li_enabled := True\<rparr>\<rparr>"

theorem recovery_ignores_rate_limit_witness:
  "\<exists>y r m. um_recover_start list_outside limiting (demo_rq None) (RecoverByName ''Ann'') (demo_ux [demo_account]) = Throws headers_sent y
     \<and> ex_sent y = [r] \<and> rs_status r = 429 \<and> st_mails (us_store (ex_state y)) = [m] \<and> em_to m = ''a@b''"
proof -
  let ?d2 = "(us_store (demo_state [demo_account]))\<lparr>st_keys := (to_hex ''salt'', ''a@b'') # st_keys (us_store (demo_state [demo_account]))\<rparr>"
  have "uc_rate_limit limiting" "li_enabled (uc_limits limiting)" "uc_mail_enabled limiting"
    "li_consume (uc_limits limiting) (uq_ip (demo_rq None)) 100 = Refused
       \<lparr>lr_remainingPoints = 0, lr_msBeforeNext = 1000, lr_consumedPoints = 1001, lr_isFirstInDuration = False\<rparr>"
    by (simp_all add: limiting_def demo_uc_def)
  from recovery_ignores_rate_limit [OF this(1,2,4) _ this(3), of "demo_ux [demo_account]" "''Ann''" list_outside demo_account "''a@b''"
      "''salt''" _ ?d2 "?d2\<lparr>st_mails := [reset_mail limiting ''a@b'' (to_hex ''salt'')]\<rparr>"]
  show ?thesis by (auto simp: demo_account_def demo_state_def reset_mail_def)
qed

lemma demo_recover:
  "\<exists>y r. um_recover_verify list_outside demo_uc (demo_rq None) ''key'' ''passw0rd'' (demo_ux [demo_account]) = Returns () y
     \<and> ex_sent y = [r] \<and> rs_status r = 200"
proof -
  have "changeUserPassword list_outside demo_uc demo_account ''passw0rd'' False s = Returns ()
      (s\<lparr>us_store := snd (od_save list_outside (demo_account\<lparr>ua_hash := Some (list_hash (''salt'' @ ''passw0rd'')),
        ua_salt := Some ''salt''\<rparr>) (us_store s))\<rparr>)" for s
    by (simp add: changeUserPassword_def salted_def act_cases)
  moreover have "find (matches (ByEmail ''a@b'')) [demo_account] = Some demo_account" by (simp add: demo_account_def)
  ultimately show ?thesis
    using demo_password by (simp add: um_recover_verify_def accountRecoveryVerify_def recover_account_def running_def ask_def act_cases
        tokens_setSessionInfo_def respond_def catching.simps demo_state_def) (simp add: demo_uc_def demo_rq_def)
qed

theorem recovery_key_single_use_witness:
  "\<exists>y. um_recover_verify list_outside demo_uc (demo_rq None) ''key'' ''passw0rd'' (demo_ux [demo_account]) = Returns () y
     \<and> ex_state (final_state (um_recover_verify list_outside demo_uc (demo_rq None) ''key'' ''another1'' (y\<lparr>ex_sent := []\<rparr>))) = ex_state y"
proof -
  obtain y r where y: "um_recover_verify list_outside demo_uc (demo_rq None) ''key'' ''passw0rd'' (demo_ux [demo_account]) = Returns () y"
    "ex_sent y = [r]" "rs_status r = 200" using demo_recover by blast
  have "ex_state (final_state (um_recover_verify list_outside demo_uc (demo_rq None) ''key'' ''another1'' (y\<lparr>ex_sent := []\<rparr>))) = ex_state y"
    by (rule recovery_key_single_use [OF y]) (auto simp: map_of_eq_None_iff)
  with y(1) show ?thesis by blast
qed

definition demo_update :: accountUpdate where
  "demo_update = \<lparr>au_email = None, au_currentPassword = Some ''passw0rd'', au_newPassword = Some ''passw0rd''\<rparr>"

lemma demo_patch:
  "\<exists>y r. patchAccount list_outside demo_uc (\<lambda>_. True) (demo_rq (Some demo_account)) demo_update (demo_ux [demo_account]) = Returns () y
     \<and> ex_sent y = [r] \<and> rs_status r = 200"
proof -
  have "check_current list_outside demo_account demo_update s = Returns None s" for s
    by (simp add: check_current_def demo_update_def demo_account_def verifyUserPassword_def ask_def)
  moreover have "changeUserPassword list_outside demo_uc demo_account ''passw0rd'' True s = Returns ()
      (s\<lparr>us_store := snd (od_save list_outside (demo_account\<lparr>ua_hash := Some (list_hash (''salt'' @ ''passw0rd'')),
        ua_salt := Some ''salt''\<rparr>) (us_store s))\<rparr>)" for s
    using demo_password by (simp add: changeUserPassword_def salted_def act_cases)
  moreover have "OttApiRequestAccountUpdateSchema (\<lambda>_. True) demo_update = []" "email_in_use list_outside demo_account (au_email demo_update) s = False"
    "au_email demo_update = None" "au_newPassword demo_update = Some ''passw0rd''" for s
    by (simp_all add: OttApiRequestAccountUpdateSchema_def demo_update_def when_given_def issue_def email_in_use_def)
  ultimately show ?thesis
    by (simp add: patchAccount_def for_account_def demo_rq_def limited_def consumeRateLimitPoints_def patch_password_def running_def
        respond_def) (simp add: demo_uc_def)
qed

theorem password_change_needs_current_witness:
  "\<exists>h salt. ua_hash demo_account = Some h \<and> ua_salt demo_account = Some salt
     \<and> od_verify list_outside (stored_hash h) (salt @ ''passw0rd'') (us_store (demo_state [demo_account])) = Inr True"
proof -
  obtain y r where y: "patchAccount list_outside demo_uc (\<lambda>_. True) (demo_rq (Some demo_account)) demo_update (demo_ux [demo_account]) = Returns () y"
    "ex_sent y = [r]" "rs_status r = 200" using demo_patch by blast
  from password_change_needs_current [OF y, of "''passw0rd''" demo_account] show ?thesis
    by (auto simp: demo_update_def demo_rq_def demo_account_def)
qed

definition demo_raw :: rawRequest where
  "demo_raw = \<lparr>rw_ip = ''ip'', rw_apikey = None, rw_authorization = Some ''Bearer t'', rw_cookie = None\<rparr>"

lemma demo_raw_token [simp]: "request_token demo_raw = Some ''t''" "\<not> truthy_str (rw_apikey demo_raw)"
  by (simp_all add: request_token_def demo_raw_def bearer_token_def starts_with_def)

lemma demo_middleware:
  "authTokenMiddleware list_outside demo_uc demo_raw (demo_ux [demo_account])
    = Returns (Some \<lparr>uq_ip = ''ip'', uq_token = Some ''t'', uq_user = Some demo_account, uq_session = Some (LoggedIn 1)\<rparr>) (demo_ux [demo_account])"
proof -
  have "running (tokens_getSessionInfo list_outside ''t'') (demo_ux [demo_account]) = Returns (LoggedIn 1) (demo_ux [demo_account])"
    by (simp add: running_session demo_state_def)
  moreover have "running (um_getUser list_outside None (Some 1) None) (demo_ux [demo_account]) = Returns demo_account (demo_ux [demo_account])"
    by (simp add: running_getUser user_query_def demo_state_def demo_account_def)
  ultimately show ?thesis by (simp add: authTokenMiddleware_def session_middleware_def Let_def) (simp add: demo_raw_def)
qed

theorem middleware_authenticates_witness:
  "\<exists>i. od_find list_outside (ById i) (us_store (demo_state [demo_account])) = Inr (Some demo_account)
     \<and> od_getSession list_outside ''t'' (us_store (demo_state [demo_account])) = Inr (Some (LoggedIn i))"
  using middleware_authenticates [OF demo_middleware] by auto

theorem lost_account_never_answered_witness:
  "\<exists>rq y. authTokenMiddleware list_outside demo_uc demo_raw (demo_ux []) = Returns (Some rq) y \<and> um_me rq y = Returns () y \<and> ex_sent y = []"
proof -
  obtain rq y where y: "authTokenMiddleware list_outside demo_uc demo_raw (demo_ux []) = Returns (Some rq) y"
    by (simp add: authTokenMiddleware_def session_middleware_def running_def tokens_getSessionInfo_def ask_def um_getUser_def user_query_def
        createSession_def tokens_setSessionInfo_def act_cases demo_state_def Let_def)
  from lost_account_never_answered [OF _ _ _ _ _ _ y, of "''t''" 1] y show ?thesis by (auto simp: demo_state_def)
qed

end
