(* ===== verification/ClientConnection.thy ===== *)
theory ClientConnection
  imports Messages
begin

text \<open>
  \<open>client/src/plugins/connection.ts\<close>: the client's connection to a room. A connection outlives its sockets: when
  one closes, a timer opens the next. The browser's part (sockets with their phases, armed timers) is in the state;
  its events (a socket opens, closes or brings a message, a timer fires) are steps. A socket is named by its place in
  the list of all that were created, a timer by its number, and what is random is an argument.
\<close>

section \<open>State\<close>

datatype phase = Connecting | Open | Closing | Closed

record webSocket =
  ws_url :: string
  ws_phase :: phase
  ws_sent :: "clientMessage list"

datatype actionType = AtSync | AtUnload | AtChat | AtEvent | AtEventCustom | AtAnnouncement | AtUser | AtYou

primrec action_of :: "serverMessage \<Rightarrow> actionType" where
  "action_of (MsgSync m) = AtSync"
| "action_of MsgUnload = AtUnload"
| "action_of (MsgChat u t) = AtChat"
| "action_of (MsgEvent e) = AtEvent"
| "action_of (MsgEventCustom t d) = AtEventCustom"
| "action_of (MsgAnnouncement t) = AtAnnouncement"
| "action_of (MsgUser u) = AtUser"
| "action_of (MsgYou i) = AtYou"

datatype connectionEvent = EvConnected | EvDisconnected | EvKicked int

datatype eventKind = KindConnected | KindDisconnected | KindKicked

primrec kind_of :: "connectionEvent \<Rightarrow> eventKind" where
  "kind_of EvConnected = KindConnected"
| "kind_of EvDisconnected = KindDisconnected"
| "kind_of (EvKicked r) = KindKicked"

text \<open>Handlers are functions of the components: each has a number, and \<open>oc_calls\<close> lists the calls.\<close>

type_synonym handlerId = nat

datatype call = CallMessage handlerId serverMessage | CallEvent handlerId connectionEvent

record conn =
  oc_active :: bool
  oc_reconnecting :: bool
  oc_connected :: bool
  oc_roomName :: string
  oc_reconnectAttempts :: nat
  oc_kickReason :: "int option"
  oc_socket :: "nat option"
  oc_reconnectTimeout :: "nat option"
  oc_messageHandlers :: "actionType \<rightharpoonup> handlerId list"
  oc_eventHandlers :: "eventKind \<rightharpoonup> handlerId list"
  oc_sockets :: "webSocket list"
  oc_timers :: "nat list"
  oc_created :: nat
  oc_calls :: "call list"

definition fresh_conn :: conn where
  "fresh_conn = \<lparr>oc_active = False, oc_reconnecting = False, oc_connected = False, oc_roomName = [], oc_reconnectAttempts = 0,
     oc_kickReason = None, oc_socket = None, oc_reconnectTimeout = None, oc_messageHandlers = Map.empty,
     oc_eventHandlers = Map.empty, oc_sockets = [], oc_timers = [], oc_created = 0, oc_calls = []\<rparr>"

type_synonym 'a conn_call = "(exn, 'a, conn) outcome"

definition reconnectDelay :: rat where
  "reconnectDelay = 1000"

definition reconnectDelayIncrease :: rat where
  "reconnectDelayIncrease = 2000"

definition getReconnectDelayMs :: "nat \<Rightarrow> rat \<Rightarrow> rat \<Rightarrow> rat \<Rightarrow> int" where
  "getReconnectDelayMs attempts delay increase randomValue =
    (let baseDelay = delay + increase * of_nat attempts in \<lfloor>baseDelay * (1 / 2 + randomValue) + 1 / 2\<rfloor>)"

definition getReconnectDelay :: "rat \<Rightarrow> conn \<Rightarrow> int" where
  "getReconnectDelay randomValue c = getReconnectDelayMs (oc_reconnectAttempts c) reconnectDelay reconnectDelayIncrease randomValue"

text \<open>What comes from the page: its protocol, its host and the base of the site.\<close>

record page =
  pg_protocol :: string
  pg_host :: string
  pg_base :: "string option"
  pg_token :: authToken

definition connectionUrl :: "page \<Rightarrow> conn \<Rightarrow> string" where
  "connectionUrl pg c = (if starts_with ''https'' (pg_protocol pg) then ''wss'' else ''ws'') @ ''://'' @ pg_host pg
     @ nullish (pg_base pg) [] @ ''/api/room/'' @ oc_roomName c"

section \<open>Sockets\<close>

definition on_socket :: "nat \<Rightarrow> (webSocket \<Rightarrow> webSocket) \<Rightarrow> conn \<Rightarrow> conn" where
  "on_socket i f c = c\<lparr>oc_sockets := (oc_sockets c)[i := f (oc_sockets c ! i)]\<rparr>"

definition doConnect :: "string \<Rightarrow> conn \<Rightarrow> conn" where
  "doConnect url c = c\<lparr>oc_socket := Some (length (oc_sockets c)),
     oc_sockets := oc_sockets c @ [\<lparr>ws_url = url, ws_phase = Connecting, ws_sent = []\<rparr>]\<rparr>"

text \<open>\<open>WebSocket.send\<close> throws while connecting and drops the text once the socket closes.\<close>

definition socket_send :: "nat \<Rightarrow> clientMessage \<Rightarrow> conn \<Rightarrow> unit conn_call" where
  "socket_send i m c = (case ws_phase (oc_sockets c ! i) of
      Connecting \<Rightarrow> Throws (JsError ''InvalidStateError'') c
    | Open \<Rightarrow> Returns () (on_socket i (\<lambda>w. w\<lparr>ws_sent := ws_sent w @ [m]\<rparr>) c)
    | _ \<Rightarrow> Returns () c)"

definition socket_close :: "nat \<Rightarrow> conn \<Rightarrow> conn" where
  "socket_close i c = on_socket i (\<lambda>w. if ws_phase w \<in> set [Connecting, Open] then w\<lparr>ws_phase := Closing\<rparr> else w) c"

section \<open>Operations\<close>

definition connect :: "page \<Rightarrow> string \<Rightarrow> conn \<Rightarrow> conn" where
  "connect pg roomName c =
    (if oc_active c then c
     else (let c1 = c\<lparr>oc_roomName := roomName, oc_active := True, oc_kickReason := None\<rparr> in doConnect (connectionUrl pg c1) c1))"

definition reconnect :: "page \<Rightarrow> conn \<Rightarrow> conn" where
  "reconnect pg c =
    (if \<not> oc_active c then c
     else doConnect (connectionUrl pg c @ ''?reconnect=true'') (c\<lparr>oc_reconnectAttempts := oc_reconnectAttempts c + 1\<rparr>))"

definition null_error :: "string \<Rightarrow> exn" where
  "null_error p = JsTypeError (''Cannot read properties of null (reading '' @ squoted p @ '')'')"

definition conn_send :: "clientMessage \<Rightarrow> conn \<Rightarrow> unit conn_call" where
  "conn_send m c =
    (if \<not> oc_active c then Throws (JsError ''send(): connection is not active'') c
     else if \<not> oc_connected c then Throws (JsError ''send(): connection is not connected'') c
     else (case oc_socket c of None \<Rightarrow> Throws (null_error ''send'') c | Some i \<Rightarrow> socket_send i m c))"

text \<open>\<open>this.reconnecting\<close> is a reference, which is truthy whatever its value is.\<close>

definition disconnect :: "conn \<Rightarrow> unit conn_call" where
  "disconnect c =
    (if \<not> oc_active c then Returns () c
     else (case oc_socket c of
         None \<Rightarrow> Throws (null_error ''close'') c
       | Some i \<Rightarrow>
          (let c1 = (socket_close i c)\<lparr>oc_socket := None\<rparr>;
               c2 = (case oc_reconnectTimeout c1 of
                   None \<Rightarrow> c1
                 | Some t \<Rightarrow> c1\<lparr>oc_timers := filter (\<lambda>u. u \<noteq> t) (oc_timers c1), oc_reconnectTimeout := None\<rparr>)
           in Returns () (c2\<lparr>oc_roomName := [], oc_active := False\<rparr>))))"

section \<open>Handlers\<close>

definition add_handler :: "'k \<Rightarrow> handlerId \<Rightarrow> ('k \<rightharpoonup> handlerId list) \<Rightarrow> ('k \<rightharpoonup> handlerId list)" where
  "add_handler k h m = m(k \<mapsto> nullish (m k) [] @ [h])"

definition remove_handler :: "'k \<Rightarrow> handlerId \<Rightarrow> ('k \<rightharpoonup> handlerId list) \<Rightarrow> ('k \<rightharpoonup> handlerId list)" where
  "remove_handler k h m = (let hs = nullish (m k) [] in if h \<in> set hs then m(k \<mapsto> remove1 h hs) else m)"

definition addMessageHandler :: "actionType \<Rightarrow> handlerId \<Rightarrow> conn \<Rightarrow> conn" where
  "addMessageHandler a h c = c\<lparr>oc_messageHandlers := add_handler a h (oc_messageHandlers c)\<rparr>"

definition removeMessageHandler :: "actionType \<Rightarrow> handlerId \<Rightarrow> conn \<Rightarrow> conn" where
  "removeMessageHandler a h c = c\<lparr>oc_messageHandlers := remove_handler a h (oc_messageHandlers c)\<rparr>"

definition clearAllMessageHandlers :: "conn \<Rightarrow> conn" where
  "clearAllMessageHandlers c = c\<lparr>oc_messageHandlers := Map.empty\<rparr>"

definition addEventHandler :: "eventKind \<Rightarrow> handlerId \<Rightarrow> conn \<Rightarrow> conn" where
  "addEventHandler k h c = c\<lparr>oc_eventHandlers := add_handler k h (oc_eventHandlers c)\<rparr>"

definition removeEventHandler :: "eventKind \<Rightarrow> handlerId \<Rightarrow> conn \<Rightarrow> conn" where
  "removeEventHandler k h c = c\<lparr>oc_eventHandlers := remove_handler k h (oc_eventHandlers c)\<rparr>"

definition handleMessage :: "serverMessage \<Rightarrow> conn \<Rightarrow> conn" where
  "handleMessage m c = c\<lparr>oc_calls := oc_calls c
     @ map (\<lambda>h. CallMessage h m) (nullish (oc_messageHandlers c (action_of m)) [])\<rparr>"

definition dispatchEvent :: "connectionEvent \<Rightarrow> conn \<Rightarrow> conn" where
  "dispatchEvent e c = c\<lparr>oc_calls := oc_calls c @ map (\<lambda>h. CallEvent h e) (nullish (oc_eventHandlers c (kind_of e)) [])\<rparr>"

section \<open>Events of the browser\<close>

definition onOpen :: "page \<Rightarrow> conn \<Rightarrow> unit conn_call" where
  "onOpen pg c = conn_send (ClientAuth (pg_token pg))
     (c\<lparr>oc_connected := True, oc_reconnecting := False, oc_reconnectAttempts := 0\<rparr>)"

definition set_timer :: "conn \<Rightarrow> conn" where
  "set_timer c = c\<lparr>oc_reconnectTimeout := Some (oc_created c), oc_timers := oc_timers c @ [oc_created c],
     oc_created := oc_created c + 1\<rparr>"

definition onClose :: "int \<Rightarrow> conn \<Rightarrow> conn" where
  "onClose code c =
    (let c1 = dispatchEvent EvDisconnected (c\<lparr>oc_connected := False, oc_socket := None\<rparr>)
     in if code \<ge> 4000
        then (dispatchEvent (EvKicked code) (c1\<lparr>oc_kickReason := Some code\<rparr>))\<lparr>oc_active := False\<rparr>
        else if oc_active c1 then set_timer (c1\<lparr>oc_reconnecting := True\<rparr>) else c1)"

text \<open>A text that is not a message is logged and dropped, so \<open>None\<close> changes nothing.\<close>

definition onMessage :: "serverMessage option \<Rightarrow> conn \<Rightarrow> conn" where
  "onMessage data c = (case data of None \<Rightarrow> c | Some m \<Rightarrow> handleMessage m c)"

text \<open>A browser event: the browser first does its own part.\<close>

definition socket_opens :: "page \<Rightarrow> nat \<Rightarrow> conn \<Rightarrow> conn" where
  "socket_opens pg i c = final_state (onOpen pg (on_socket i (\<lambda>w. w\<lparr>ws_phase := Open\<rparr>) c))"

definition socket_closes :: "nat \<Rightarrow> int \<Rightarrow> conn \<Rightarrow> conn" where
  "socket_closes i code c = onClose code (on_socket i (\<lambda>w. w\<lparr>ws_phase := Closed\<rparr>) c)"

definition timer_fires :: "page \<Rightarrow> nat \<Rightarrow> conn \<Rightarrow> conn" where
  "timer_fires pg t c = reconnect pg (c\<lparr>oc_timers := filter (\<lambda>u. u \<noteq> t) (oc_timers c)\<rparr>)"

section \<open>Steps\<close>

definition phase_at :: "conn \<Rightarrow> nat \<Rightarrow> phase option" where
  "phase_at c i = (if i < length (oc_sockets c) then Some (ws_phase (oc_sockets c ! i)) else None)"

definition live :: "conn \<Rightarrow> nat list" where
  "live c = filter (\<lambda>i. phase_at c i \<noteq> Some Closed) [0..<length (oc_sockets c)]"

text \<open>Nothing of an earlier connection is left.\<close>

definition at_rest :: "conn \<Rightarrow> bool" where
  "at_rest c \<longleftrightarrow> live c = [] \<and> oc_timers c = []"

inductive conn_step :: "page \<Rightarrow> conn \<Rightarrow> conn \<Rightarrow> bool" for pg where
  step_connect: "conn_step pg c (connect pg n c)"
| step_disconnect: "conn_step pg c (final_state (disconnect c))"
| step_send: "conn_step pg c (final_state (conn_send m c))"
| step_open: "phase_at c i = Some Connecting \<Longrightarrow> conn_step pg c (socket_opens pg i c)"
| step_close: "phase_at c i \<in> {Some Connecting, Some Open, Some Closing} \<Longrightarrow> conn_step pg c (socket_closes i code c)"
| step_message: "phase_at c i = Some Open \<Longrightarrow> conn_step pg c (onMessage m c)"
| step_timer: "t \<in> set (oc_timers c) \<Longrightarrow> conn_step pg c (timer_fires pg t c)"
| step_handlers: "conn_step pg c (c\<lparr>oc_messageHandlers := mh, oc_eventHandlers := eh\<rparr>)"

text \<open>Steps in which a connection is begun only at rest.\<close>

inductive orderly_step :: "page \<Rightarrow> conn \<Rightarrow> conn \<Rightarrow> bool" for pg where
  orderly_connect: "oc_active c \<or> at_rest c \<Longrightarrow> orderly_step pg c (connect pg n c)"
| orderly_other: "conn_step pg c c' \<Longrightarrow> oc_active c \<or> \<not> oc_active c' \<Longrightarrow> orderly_step pg c c'"

section \<open>The invariant of orderly runs\<close>

abbreviation phase_of :: "conn \<Rightarrow> nat \<Rightarrow> phase" where
  "phase_of c i \<equiv> ws_phase (oc_sockets c ! i)"

abbreviation closed_but :: "nat \<Rightarrow> conn \<Rightarrow> bool" where
  "closed_but i c \<equiv> \<forall>j < length (oc_sockets c). j \<noteq> i \<longrightarrow> phase_of c j = Closed"

text \<open>
  The connection has a socket, which is the only one alive; or it waits for its one timer, all sockets closed; or it
  is not active, and at most one socket is still closing.
\<close>

definition has_socket :: "nat \<Rightarrow> conn \<Rightarrow> bool" where
  "has_socket i c \<longleftrightarrow> oc_active c \<and> oc_socket c = Some i \<and> oc_timers c = [] \<and> i < length (oc_sockets c)
     \<and> (phase_of c i = Connecting \<and> \<not> oc_connected c \<or> phase_of c i = Open \<and> oc_connected c) \<and> closed_but i c"

definition waiting :: "conn \<Rightarrow> bool" where
  "waiting c \<longleftrightarrow> oc_active c \<and> oc_socket c = None \<and> \<not> oc_connected c \<and> (\<exists>t. oc_timers c = [t])
     \<and> (\<forall>j < length (oc_sockets c). phase_of c j = Closed)"

definition inactive :: "nat \<Rightarrow> conn \<Rightarrow> bool" where
  "inactive i c \<longleftrightarrow> \<not> oc_active c \<and> oc_socket c = None \<and> oc_timers c = [] \<and> closed_but i c
     \<and> (i < length (oc_sockets c) \<longrightarrow> phase_of c i \<in> {Closing, Closed})
     \<and> (oc_connected c \<longrightarrow> i < length (oc_sockets c) \<and> phase_of c i = Closing)"

definition conn_ok :: "conn \<Rightarrow> bool" where
  "conn_ok c \<longleftrightarrow> (\<exists>i. has_socket i c) \<or> waiting c \<or> (\<exists>i. inactive i c)"

named_theorems conn_defs \<open>definitions of the connection's operations\<close>

lemmas [conn_defs] = connect_def reconnect_def doConnect_def on_socket_def socket_send_def socket_close_def conn_send_def
  disconnect_def onOpen_def onClose_def set_timer_def dispatchEvent_def handleMessage_def onMessage_def socket_opens_def
  socket_closes_def timer_fires_def Let_def

lemmas conn_ok_defs = has_socket_def waiting_def inactive_def

lemma conn_okI [intro]: "has_socket i c \<Longrightarrow> conn_ok c" "waiting c \<Longrightarrow> conn_ok c" "inactive i c \<Longrightarrow> conn_ok c"
  by (auto simp: conn_ok_def)

lemma fresh_ok: "conn_ok fresh_conn"
  by (rule conn_okI(3) [of 0]) (simp add: inactive_def fresh_conn_def)

lemma phase_at_iff: "phase_at c i = Some p \<longleftrightarrow> i < length (oc_sockets c) \<and> phase_of c i = p"
  by (simp add: phase_at_def)

lemma at_rest_closed: "at_rest c \<Longrightarrow> j < length (oc_sockets c) \<Longrightarrow> phase_of c j = Closed"
  by (auto simp: at_rest_def live_def phase_at_def filter_empty_conv)

lemma connect_rest: "at_rest c \<Longrightarrow> conn_ok c \<Longrightarrow> \<not> oc_active c \<Longrightarrow> has_socket (length (oc_sockets c)) (connect pg n c)"
  using at_rest_closed [of c]
  by (auto simp: conn_ok_def conn_ok_defs conn_defs nth_append less_Suc_eq at_rest_def)

lemma disconnect_ok: "conn_ok c \<Longrightarrow> conn_ok (final_state (disconnect c))"
proof (cases "oc_socket c")
  case (Some i)
  assume "conn_ok c"
  with Some have "has_socket i c" by (auto simp: conn_ok_def conn_ok_defs)
  then have "inactive i (final_state (disconnect c))"
    by (auto simp: conn_ok_defs conn_defs nth_list_update split: option.split)
  then show ?thesis by blast
qed (auto simp: disconnect_def)

lemma send_ok:
  assumes "conn_ok c"
  shows "conn_ok (final_state (conn_send m c))"
proof (cases "\<exists>i. has_socket i c")
  case True
  then obtain i where i: "has_socket i c" by blast
  then have "has_socket i (final_state (conn_send m c))"
    by (auto simp: has_socket_def conn_defs nth_list_update split: phase.split)
  then show ?thesis by blast
next
  case False
  then have "final_state (conn_send m c) = c"
    using assms by (auto simp: conn_ok_def conn_ok_defs conn_send_def split: option.split)
  with assms show ?thesis by simp
qed

text \<open>A socket that opens in orderly runs is the connection's own, and the first thing it sends is the token.\<close>

lemma open_ok:
  assumes "conn_ok c" and "i < length (oc_sockets c)" and "phase_of c i = Connecting"
  shows "has_socket i c \<and> has_socket i (socket_opens pg i c) \<and> oc_connected (socket_opens pg i c)
    \<and> oc_reconnectAttempts (socket_opens pg i c) = 0
    \<and> ws_sent (oc_sockets (socket_opens pg i c) ! i) = ws_sent (oc_sockets c ! i) @ [ClientAuth (pg_token pg)]"
proof -
  obtain k where k: "has_socket k c" using assms by (fastforce simp: conn_ok_def conn_ok_defs)
  with assms have "k = i" by (auto simp: has_socket_def)
  with k have "has_socket i c" by simp
  then show ?thesis using assms(2,3) by (auto simp: has_socket_def conn_defs nth_list_update)
qed

lemma open_keeps: "conn_ok c \<Longrightarrow> i < length (oc_sockets c) \<Longrightarrow> phase_of c i = Connecting \<Longrightarrow> conn_ok (socket_opens pg i c)"
  using open_ok by blast

lemma close_own:
  assumes "has_socket i c"
  shows "if code \<ge> 4000 then inactive i (socket_closes i code c) else waiting (socket_closes i code c)"
  using assms by (auto simp: conn_ok_defs conn_defs nth_list_update)

lemma close_ok:
  assumes "conn_ok c" and "i < length (oc_sockets c)" and "phase_of c i \<noteq> Closed"
  shows "conn_ok (socket_closes i code c)"
proof (cases "has_socket i c")
  case True
  with close_own [OF this, of code] show ?thesis by (auto split: if_splits)
next
  case False
  then have "inactive i c" using assms by (auto simp: conn_ok_def conn_ok_defs)
  then have "inactive i (socket_closes i code c)" by (auto simp: inactive_def conn_defs nth_list_update)
  then show ?thesis by blast
qed

lemma timer_ok:
  assumes "conn_ok c" and "t \<in> set (oc_timers c)"
  shows "waiting c \<and> has_socket (length (oc_sockets c)) (timer_fires pg t c)"
proof -
  have "waiting c" using assms by (auto simp: conn_ok_def conn_ok_defs)
  with assms(2) show ?thesis by (auto simp: conn_ok_defs conn_defs nth_append less_Suc_eq)
qed

lemma timer_keeps: "conn_ok c \<Longrightarrow> t \<in> set (oc_timers c) \<Longrightarrow> conn_ok (timer_fires pg t c)"
  using timer_ok by blast

lemma other_ok:
  "conn_ok c \<Longrightarrow> conn_ok (c\<lparr>oc_messageHandlers := mh, oc_eventHandlers := eh\<rparr>)"
  "conn_ok c \<Longrightarrow> conn_ok (onMessage m c)"
  by (auto simp: conn_ok_def conn_ok_defs conn_defs split: option.split)

inductive_cases conn_stepE: "conn_step pg c c'"

lemma orderly_ok:
  assumes "orderly_step pg c c'" and "conn_ok c"
  shows "conn_ok c'"
  using assms(1)
proof cases
  case (orderly_connect n)
  with assms(2) connect_rest show ?thesis by (cases "oc_active c") (auto simp: connect_def)
next
  case orderly_other
  from this(1) show ?thesis
  proof cases
    case (step_connect n)
    then have "c' = c" using orderly_other(2) by (auto simp: connect_def doConnect_def Let_def split: if_splits)
    with assms(2) show ?thesis by simp
  qed (use assms(2) disconnect_ok send_ok open_keeps close_ok timer_keeps other_ok in \<open>auto simp: phase_at_iff\<close>)
qed

lemma orderly_reachable: "(orderly_step pg)\<^sup>*\<^sup>* fresh_conn c \<Longrightarrow> conn_ok c"
  by (induction rule: rtranclp_induct) (auto intro: fresh_ok orderly_ok)

lemma live_iff: "j \<in> set (live c) \<longleftrightarrow> j < length (oc_sockets c) \<and> phase_of c j \<noteq> Closed"
  by (auto simp: live_def phase_at_def)

lemma distinct_singleton: "distinct xs \<Longrightarrow> set xs = {a} \<Longrightarrow> xs = [a]"
  by (cases xs; cases "tl xs") auto

lemma live_one: "closed_but i c \<Longrightarrow> live c = (if i < length (oc_sockets c) \<and> phase_of c i \<noteq> Closed then [i] else [])"
proof -
  assume c: "closed_but i c"
  have d: "distinct (live c)" by (simp add: live_def)
  show ?thesis
  proof (cases "i < length (oc_sockets c) \<and> phase_of c i \<noteq> Closed")
    case True
    with c have "set (live c) = {i}" by (auto simp: live_iff)
    with d True show ?thesis by (simp add: distinct_singleton)
  next
    case False
    with c have "j \<notin> set (live c)" for j by (auto simp: live_iff)
    then have "live c = []" using hd_in_set [of "live c"] by blast
    then show ?thesis using False by (simp only: if_not_P if_False)
  qed
qed

section \<open>Properties\<close>

lemma conn_ok_live:
  assumes "conn_ok c"
  shows "length (live c) \<le> 1
    \<and> (oc_active c \<longrightarrow> (\<exists>i. oc_socket c = Some i \<and> live c = [i] \<and> oc_timers c = [])
        \<or> (oc_socket c = None \<and> live c = [] \<and> (\<exists>t. oc_timers c = [t])))
    \<and> (\<not> oc_active c \<longrightarrow> oc_timers c = [] \<and> (\<forall>i\<in>set (live c). phase_of c i = Closing))"
  using assms unfolding conn_ok_def
proof (elim disjE exE)
  fix i assume i: "has_socket i c"
  then have "live c = [i]" using live_one [of c i] by (auto simp: has_socket_def)
  with i show ?thesis by (auto simp: has_socket_def)
next
  assume w: "waiting c"
  then have "live c = []" using live_one [of c 0] by (auto simp: waiting_def)
  with w show ?thesis by (auto simp: waiting_def)
next
  fix i assume i: "inactive i c"
  then show ?thesis using live_one [of c i] by (auto simp: inactive_def split: if_splits)
qed

lemma conn_ok_send:
  assumes "conn_ok c" and "oc_active c" and "oc_connected c"
  shows "\<exists>i c'. oc_socket c = Some i \<and> conn_send m c = Returns () c'
    \<and> ws_sent (oc_sockets c' ! i) = ws_sent (oc_sockets c ! i) @ [m]"
  using assms by (auto simp: conn_ok_def conn_ok_defs conn_defs)


text \<open>One failed attempt of a waiting connection: its timer fires, and the socket that this opens closes.\<close>

definition failed_attempt :: "page \<Rightarrow> int \<Rightarrow> conn \<Rightarrow> conn" where
  "failed_attempt pg code c =
    (let c1 = timer_fires pg (hd (oc_timers c)) c in socket_closes (length (oc_sockets c)) code c1)"

lemma connectionUrl_cong: "oc_roomName c = oc_roomName c' \<Longrightarrow> connectionUrl pg c = connectionUrl pg c'"
  by (simp add: connectionUrl_def)

lemma failed_attempt_waits:
  assumes "waiting c" and "code < 4000"
  shows "waiting (failed_attempt pg code c) \<and> oc_roomName (failed_attempt pg code c) = oc_roomName c
    \<and> oc_reconnectAttempts (failed_attempt pg code c) = oc_reconnectAttempts c + 1"
  using assms by (auto simp: waiting_def failed_attempt_def conn_defs nth_append nth_list_update less_Suc_eq)

lemma failed_attempts_wait:
  assumes "waiting c" and "\<forall>code\<in>set codes. code < 4000"
  shows "waiting (fold (failed_attempt pg) codes c) \<and> oc_roomName (fold (failed_attempt pg) codes c) = oc_roomName c
    \<and> oc_reconnectAttempts (fold (failed_attempt pg) codes c) = oc_reconnectAttempts c + length codes"
  using assms
proof (induction codes arbitrary: c)
  case (Cons code codes)
  with failed_attempt_waits [of c code pg] show ?case by simp
qed simp

lemma waiting_reconnects:
  assumes "waiting c"
  shows "\<exists>i. has_socket i (timer_fires pg (hd (oc_timers c)) c)
    \<and> ws_url (oc_sockets (timer_fires pg (hd (oc_timers c)) c) ! i) = connectionUrl pg c @ ''?reconnect=true''
    \<and> phase_of (timer_fires pg (hd (oc_timers c)) c) i = Connecting
    \<and> ws_sent (oc_sockets (timer_fires pg (hd (oc_timers c)) c) ! i) = []"
  using assms
  by (intro exI [of _ "length (oc_sockets c)"])
    (auto simp: conn_ok_defs conn_defs nth_append less_Suc_eq intro!: connectionUrl_cong)

text \<open>
  C20. A connection never gives up by itself: however often in a row the socket that its timer opened closes again,
  with whatever codes below those of the server's kicks, it waits for one timer again, counts the attempt, and at the
  next firing opens a socket to the same room; when that opens, it is connected, the count starts again, and the
  first and only message sent on the socket is the token.
\<close>

theorem reconnects_after_failures:
  assumes "waiting c" and "\<forall>code\<in>set codes. code < 4000"
  shows "let w = fold (failed_attempt pg) codes c; c1 = timer_fires pg (hd (oc_timers w)) w in
    waiting w \<and> oc_reconnectAttempts w = oc_reconnectAttempts c + length codes
    \<and> (\<exists>i. oc_socket c1 = Some i \<and> ws_url (oc_sockets c1 ! i) = connectionUrl pg c @ ''?reconnect=true''
       \<and> oc_connected (socket_opens pg i c1) \<and> oc_reconnectAttempts (socket_opens pg i c1) = 0
       \<and> ws_sent (oc_sockets (socket_opens pg i c1) ! i) = [ClientAuth (pg_token pg)])"
proof -
  let ?w = "fold (failed_attempt pg) codes c"
  let ?c = "timer_fires pg (hd (oc_timers ?w)) ?w"
  have w: "waiting ?w" "oc_roomName ?w = oc_roomName c" "oc_reconnectAttempts ?w = oc_reconnectAttempts c + length codes"
    using failed_attempts_wait [OF assms] by auto
  obtain i where i: "has_socket i ?c" "ws_url (oc_sockets ?c ! i) = connectionUrl pg ?w @ ''?reconnect=true''"
    "phase_of ?c i = Connecting" "ws_sent (oc_sockets ?c ! i) = []"
    using waiting_reconnects [OF w(1), of pg] by blast
  then have "i < length (oc_sockets ?c)" "oc_socket ?c = Some i" by (simp_all add: has_socket_def)
  with open_ok [OF conn_okI(1) [OF i(1)] _ i(3), of pg] i w connectionUrl_cong [OF w(2), of pg] show ?thesis
    by (auto simp: Let_def)
qed

text \<open>
  The wait before an attempt grows with the number of attempts and is never less than half a second; it has no
  upper limit other than that number's: the \<open>n\<close>-th attempt in a row waits between 500 + 1000n and 1500 + 3000n
  milliseconds.
\<close>

theorem reconnect_delay_bounds:
  assumes "0 \<le> r" and "r < 1"
  shows "500 + 1000 * int (oc_reconnectAttempts c) \<le> getReconnectDelay r c
    \<and> getReconnectDelay r c \<le> 1500 + 3000 * int (oc_reconnectAttempts c)"
proof -
  let ?n = "of_nat (oc_reconnectAttempts c) :: rat"
  let ?b = "1000 + 2000 * ?n"
  have b: "0 < ?b" by (simp add: add_pos_nonneg)
  have "?b * (1 / 2) \<le> ?b * (1 / 2 + r)" using assms(1) b by (intro mult_left_mono) auto
  then have lo: "500 + 1000 * ?n \<le> ?b * (1 / 2 + r) + 1 / 2" by (simp add: algebra_simps)
  have "?b * (1 / 2 + r) < ?b * (3 / 2)" using assms(2) b by (intro mult_strict_left_mono) auto
  then have hi: "?b * (1 / 2 + r) + 1 / 2 < 1501 + 3000 * ?n" by (simp add: algebra_simps)
  have "500 + 1000 * int (oc_reconnectAttempts c) \<le> \<lfloor>?b * (1 / 2 + r) + 1 / 2\<rfloor>"
    using lo by (simp add: le_floor_iff)
  moreover have "\<lfloor>?b * (1 / 2 + r) + 1 / 2\<rfloor> < 1501 + 3000 * int (oc_reconnectAttempts c)"
    using hi by (simp add: floor_less_iff)
  ultimately show ?thesis
    by (simp add: getReconnectDelay_def getReconnectDelayMs_def reconnectDelay_def reconnectDelayIncrease_def)
qed

text \<open>
  A connection that waits to reconnect cannot be ended: \<open>disconnect\<close> throws, since there is no socket to close,
  before it stops the timer; the connection stays active, so that connecting to another room is ignored, and the
  timer reconnects to the room that was left.
\<close>

theorem waiting_cannot_disconnect:
  assumes "waiting c"
  shows "disconnect c = Throws (null_error ''close'') c \<and> connect pg n c = c
    \<and> (\<exists>i. oc_socket (timer_fires pg (hd (oc_timers c)) (connect pg n c)) = Some i
       \<and> ws_url (oc_sockets (timer_fires pg (hd (oc_timers c)) (connect pg n c)) ! i) = connectionUrl pg c @ ''?reconnect=true'')"
proof -
  have c: "connect pg n c = c" using assms by (simp add: waiting_def connect_def)
  obtain i where "has_socket i (timer_fires pg (hd (oc_timers c)) c)"
    "ws_url (oc_sockets (timer_fires pg (hd (oc_timers c)) c) ! i) = connectionUrl pg c @ ''?reconnect=true''"
    using waiting_reconnects [OF assms] by blast
  with c assms show ?thesis by (auto simp: has_socket_def waiting_def disconnect_def)
qed

section \<open>A new connection before the old socket has closed\<close>

definition switch_begun :: "page \<Rightarrow> string \<Rightarrow> string \<Rightarrow> conn" where
  "switch_begun pg r1 r2 = connect pg r2 (final_state (disconnect (socket_opens pg 0 (connect pg r1 fresh_conn))))"

definition switch_raced :: "page \<Rightarrow> string \<Rightarrow> string \<Rightarrow> conn" where
  "switch_raced pg r1 r2 = socket_opens pg 1 (socket_closes 0 1000 (switch_begun pg r1 r2))"

lemma switch_reachable: "(conn_step pg)\<^sup>*\<^sup>* fresh_conn (switch_begun pg r1 r2)"
proof -
  have "(conn_step pg)\<^sup>*\<^sup>* fresh_conn (connect pg r1 fresh_conn)" by (rule r_into_rtranclp, rule step_connect)
  moreover have "conn_step pg (connect pg r1 fresh_conn) (socket_opens pg 0 (connect pg r1 fresh_conn))"
    by (rule step_open) (simp add: phase_at_def conn_defs fresh_conn_def)
  ultimately have "(conn_step pg)\<^sup>*\<^sup>* fresh_conn (socket_opens pg 0 (connect pg r1 fresh_conn))"
    by (rule rtranclp.rtrancl_into_rtrancl)
  then have "(conn_step pg)\<^sup>*\<^sup>* fresh_conn (final_state (disconnect (socket_opens pg 0 (connect pg r1 fresh_conn))))"
    by (rule rtranclp.rtrancl_into_rtrancl) (rule step_disconnect)
  then show ?thesis unfolding switch_begun_def by (rule rtranclp.rtrancl_into_rtrancl) (rule step_connect)
qed

lemma switch_facts:
  "oc_active (switch_raced pg r1 r2)" "oc_connected (switch_raced pg r1 r2)" "oc_socket (switch_raced pg r1 r2) = None"
  "phase_at (switch_raced pg r1 r2) 1 = Some Open" "oc_timers (switch_raced pg r1 r2) \<noteq> []"
  "ws_sent (oc_sockets (switch_raced pg r1 r2) ! 1) = []" "phase_at (switch_begun pg r1 r2) 0 = Some Closing"
  "phase_at (socket_closes 0 1000 (switch_begun pg r1 r2)) 1 = Some Connecting"
  by (simp_all add: switch_raced_def switch_begun_def phase_at_def conn_defs fresh_conn_def)

text \<open>
  Leaving a room and connecting to another before the browser has reported the old socket's end breaks the new
  connection: there are runs after which the connection is active and shows as connected with its socket open, yet the
  socket is forgotten: the token was never sent on it, every message throws, and a timer for a second socket runs.
\<close>

theorem switching_rooms_races:
  "\<exists>c. (conn_step pg)\<^sup>*\<^sup>* fresh_conn c \<and> oc_active c \<and> oc_connected c \<and> phase_at c 1 = Some Open
     \<and> ws_sent (oc_sockets c ! 1) = [] \<and> oc_timers c \<noteq> [] \<and> (\<forall>m. conn_send m c = Throws (null_error ''send'') c)"
proof -
  let ?c = "switch_raced pg [] []" and ?b = "switch_begun pg [] []"
  have "(conn_step pg)\<^sup>*\<^sup>* fresh_conn ?b" by (rule switch_reachable)
  moreover have "conn_step pg ?b (socket_closes 0 1000 ?b)" by (rule step_close) (simp add: switch_facts(7))
  ultimately have "(conn_step pg)\<^sup>*\<^sup>* fresh_conn (socket_closes 0 1000 ?b)" by (rule rtranclp.rtrancl_into_rtrancl)
  then have "(conn_step pg)\<^sup>*\<^sup>* fresh_conn ?c"
    unfolding switch_raced_def by (rule rtranclp.rtrancl_into_rtrancl) (rule step_open, rule switch_facts(8))
  moreover have "\<forall>m. conn_send m ?c = Throws (null_error ''send'') ?c" by (simp add: conn_send_def switch_facts(1-3))
  ultimately show ?thesis using switch_facts(1,2,4-6) by blast
qed

section \<open>Witnesses\<close>

definition demo_page :: page where
  "demo_page = \<lparr>pg_protocol = ''https:'', pg_host = ''ott'', pg_base = None, pg_token = ''t''\<rparr>"

definition demo_waiting :: conn where
  "demo_waiting = socket_closes 0 1006 (connect demo_page ''a'' fresh_conn)"

lemma demo_waiting: "waiting demo_waiting"
  by (simp add: demo_waiting_def waiting_def conn_defs fresh_conn_def nth_list_update)


theorem reconnects_after_failures_witness:
  "waiting (fold (failed_attempt demo_page) [1006, 1001] demo_waiting)"
  using reconnects_after_failures [OF demo_waiting, of "[1006, 1001]" demo_page] by (simp add: Let_def)

theorem reconnect_delay_bounds_witness:
  "500 + 1000 * int (oc_reconnectAttempts demo_waiting) \<le> getReconnectDelay (1 / 4) demo_waiting"
  using reconnect_delay_bounds [of "1 / 4" demo_waiting] by simp

theorem waiting_cannot_disconnect_witness:
  "disconnect demo_waiting = Throws (null_error ''close'') demo_waiting"
  using waiting_cannot_disconnect [OF demo_waiting] by simp

end
