(* ===== verification/ServiceAdapters.thy ===== *)
theory ServiceAdapters
  imports Storage
begin

text \<open>
  \<open>server/mime.ts\<close>, \<open>server/serviceadapter.ts\<close> and the direct adapter of \<open>server/services\<close>. An adapter is
  a record of its methods; what \<open>ServiceAdapter\<close> defines for all of them is \<open>base_adapter\<close> and
  \<open>base_fetchManyVideoInfo\<close>. Parsing of URLs and probing of files (\<open>node:url\<close>, ffprobe) are arguments.
\<close>

section \<open>Media types\<close>

definition mime_word :: "string \<Rightarrow> bool" where
  "mime_word s \<longleftrightarrow> s \<noteq> [] \<and> list_all (\<lambda>c. let n = (of_char c :: nat) in
     (97 \<le> n \<and> n \<le> 122) \<or> (48 \<le> n \<and> n \<le> 57) \<or> n = 45) s"

text \<open>The negative lookaheads refuse every type that only starts with an unsupported name.\<close>

definition mime_matches :: "string \<Rightarrow> string list \<Rightarrow> string \<Rightarrow> bool" where
  "mime_matches kind unsupported s \<longleftrightarrow> starts_with kind s
     \<and> (let rest = drop (length kind) s in mime_word rest \<and> \<not> list_ex (\<lambda>u. starts_with u rest) unsupported)"

definition SUPPORTED_VIDEO_MIME_REGEX :: "string \<Rightarrow> bool" where
  "SUPPORTED_VIDEO_MIME_REGEX = mime_matches ''video/'' [''x-flv'', ''x-matroska'', ''x-ms-wmv'', ''x-msvideo'']"

definition SUPPORTED_AUDIO_MIME_REGEX :: "string \<Rightarrow> bool" where
  "SUPPORTED_AUDIO_MIME_REGEX = mime_matches ''audio/'' [''x-aiff'', ''x-wav'', ''aac'', ''flac'']"

definition mimeTypes :: "(string \<times> string list) list" where
  "mimeTypes =
    [(''video/mp4'', [''mp4'', ''mp4v'', ''mpg4'']), (''video/x-matroska'', [''mkv'', ''mk3d'', ''mks'']),
     (''video/quicktime'', [''mov'', ''qt'']), (''video/webm'', [''webm'']), (''video/x-flv'', [''flv'']),
     (''video/x-msvideo'', [''avi'']), (''video/ogg'', [''ogv'']), (''video/x-m4v'', [''m4v'']),
     (''video/h264'', [''h264'']), (''application/x-mpegURL'', [''m3u'', ''m3u8'']),
     (''audio/mpeg'', [''mp3'', ''mp2'', ''mpga'', ''mpega'', ''mp2a'']), (''audio/x-wav'', [''wav'']),
     (''audio/ogg'', [''oga'', ''ogg'', ''spx'']), (''audio/aac'', [''aac'']), (''audio/flac'', [''flac'']),
     (''audio/x-aiff'', [''aif'', ''aiff'', ''aifc'']), (''application/dash+xml'', [''mpd''])]"

definition getMimeType :: "string \<Rightarrow> string option" where
  "getMimeType ext = map_option fst (find (\<lambda>(mime, exts). ext \<in> set exts) mimeTypes)"

definition isSupportedMimeType :: "string \<Rightarrow> bool" where
  "isSupportedMimeType m \<longleftrightarrow> m = ''application/x-mpegURL'' \<or> m = ''application/dash+xml''
     \<or> SUPPORTED_VIDEO_MIME_REGEX m \<or> SUPPORTED_AUDIO_MIME_REGEX m"

section \<open>Adapters\<close>

datatype resolvedVideo = ResolvedUrl string | ResolvedVideo video

datatype resolvedURL = ResolvedList "resolvedVideo list" | ResolvedBulk "video list" "video option"

text \<open>A \<open>VideoRequest\<close> is an id with the names of the missing properties.\<close>

record serviceAdapter =
  sa_serviceId :: string
  sa_isCacheSafe :: bool
  sa_canHandleURL :: "string \<Rightarrow> exn + bool"
  sa_isCollectionURL :: "string \<Rightarrow> exn + bool"
  sa_getVideoId :: "string \<Rightarrow> exn + string"
  sa_fetchVideoInfo :: "string \<Rightarrow> string list \<Rightarrow> exn + video"
  sa_fetchManyVideoInfo :: "(string \<times> string list) list \<Rightarrow> exn + video list"
  sa_resolveURL :: "string \<Rightarrow> exn + resolvedURL"
  sa_searchVideos :: "string \<Rightarrow> exn + video list"
  sa_postProcessVideo :: "video \<Rightarrow> video"

definition base_fetchManyVideoInfo ::
  "(string \<Rightarrow> string list \<Rightarrow> exn + video) \<Rightarrow> (string \<times> string list) list \<Rightarrow> exn + video list" where
  "base_fetchManyVideoInfo fetchOne requests = Inr (List.map_filter
     (\<lambda>(i, missing). case fetchOne i missing of Inl e \<Rightarrow> None | Inr v \<Rightarrow> Some v) requests)"

definition unimplemented :: "string \<Rightarrow> string \<Rightarrow> exn + 'a" where
  "unimplemented service meth = Inl (IncompleteServiceAdapterException
     (''Service '' @ service @ '' does not implement method '' @ meth))"

text \<open>What an adapter inherits when it defines its service id and nothing else.\<close>

definition base_adapter :: "string \<Rightarrow> serviceAdapter" where
  "base_adapter service = \<lparr>sa_serviceId = service, sa_isCacheSafe = True, sa_canHandleURL = (\<lambda>link. Inr False),
     sa_isCollectionURL = (\<lambda>url. unimplemented service ''isCollectionURL''),
     sa_getVideoId = (\<lambda>url. unimplemented service ''getVideoId''),
     sa_fetchVideoInfo = (\<lambda>i props. unimplemented service ''fetchVideoInfo''),
     sa_fetchManyVideoInfo = base_fetchManyVideoInfo (\<lambda>i props. unimplemented service ''fetchVideoInfo''),
     sa_resolveURL = (\<lambda>url. unimplemented service ''resolveURL''),
     sa_searchVideos = (\<lambda>q. Inr []), sa_postProcessVideo = (\<lambda>v. v)\<rparr>"

section \<open>The direct adapter\<close>

text \<open>
  The parts of \<open>URL.parse\<close> the adapters read; what \<open>ffprobe\<close> finds in a file: for each stream whether it
  is video or audio and its duration, and the duration, name and title of the container.
\<close>

record parsedUrl =
  pu_protocol :: "string option"
  pu_path :: "string option"
  pu_pathname :: "string option"
  pu_href :: string

datatype codecType = VideoStream | AudioStream | OtherStream

record fileInfo =
  fi_streams :: "(codecType \<times> rat option) list"
  fi_duration :: "rat option"
  fi_format_name :: "string option"
  fi_title :: "string option"

record customManifest =
  cm_title :: string
  cm_duration :: rat
  cm_thumbnail :: "string option"

record directWorld =
  dw_parse :: "string \<Rightarrow> parsedUrl"
  dw_probe :: "string \<Rightarrow> exn + fileInfo"
  dw_manifest :: "string \<Rightarrow> exn + customManifest"
  dw_decodeURIComponent :: "string \<Rightarrow> exn + string"

definition direct_extensions :: "string list" where
  "direct_extensions = [''.mp3'', ''.mp4'', ''.mp4v'', ''.mpg4'', ''.webm'', ''.flv'', ''.mkv'', ''.avi'', ''.wmv'',
     ''.qt'', ''.mov'', ''.ogv'', ''.m4v'', ''.h261'', ''.h262'', ''.h263'', ''.h264'', ''.ogg'', ''.json'']"

definition media_path :: "parsedUrl \<Rightarrow> string" where
  "media_path u = hd (split_on CHR ''?'' (nullish (pu_path u) ''/''))"

definition direct_canHandleURL :: "directWorld \<Rightarrow> string \<Rightarrow> exn + bool" where
  "direct_canHandleURL w link = Inr (list_ex (\<lambda>ext. ends_with ext (media_path (dw_parse w link))) direct_extensions)"

definition stream_of :: "codecType \<Rightarrow> fileInfo \<Rightarrow> rat option option" where
  "stream_of k fi = map_option snd (find (\<lambda>(k', d). k' = k) (fi_streams fi))"

text \<open>A duration of neither stream nor container is \<open>undefined\<close> for audio, and \<open>Math.ceil\<close> of it no number.\<close>

definition getDuration :: "fileInfo \<Rightarrow> exn + rat option" where
  "getDuration fi = (case stream_of VideoStream fi of
      Some d \<Rightarrow> (if \<not> truthy_num d \<and> \<not> truthy_num (fi_duration fi) then Inl (MissingMetadataException None)
                else Inr (case d of Some x \<Rightarrow> Some x | None \<Rightarrow> fi_duration fi))
    | None \<Rightarrow> (case stream_of AudioStream fi of
        None \<Rightarrow> Inl (MissingMetadataException None)
      | Some d \<Rightarrow> Inr (case d of Some x \<Rightarrow> Some x | None \<Rightarrow> fi_duration fi)))"

definition formatToMime :: "(string \<times> string) list" where
  "formatToMime = [(''mp4'', ''video/mp4''), (''mov'', ''video/quicktime''), (''matroska'', ''video/x-matroska''),
     (''webm'', ''video/webm''), (''avi'', ''video/x-msvideo''), (''flv'', ''video/x-flv''), (''ogg'', ''video/ogg''),
     (''mp3'', ''audio/mpeg''), (''wav'', ''audio/x-wav''), (''aac'', ''audio/aac''), (''flac'', ''audio/flac'')]"

definition getMimeFromFormat :: "string \<Rightarrow> string option" where
  "getMimeFromFormat name = (case find (\<lambda>f. map_of formatToMime f \<noteq> None) (split_on CHR '','' name) of
      None \<Rightarrow> None | Some f \<Rightarrow> map_of formatToMime f)"

definition usable :: "string option \<Rightarrow> bool" where
  "usable m \<longleftrightarrow> (case m of None \<Rightarrow> False | Some s \<Rightarrow> isSupportedMimeType s)"

text \<open>The type by the extension, by the container's name, or by the kinds of streams.\<close>

definition direct_mime :: "string \<Rightarrow> fileInfo \<Rightarrow> string option" where
  "direct_mime ext fi =
    (let m0 = getMimeType ext;
         m1 = (if usable m0 then m0 else if truthy_str (fi_format_name fi)
               \<and> usable (getMimeFromFormat (nullish (fi_format_name fi) ''''))
               then getMimeFromFormat (nullish (fi_format_name fi) '''') else m0)
     in if usable m1 then m1
        else if list_ex (\<lambda>(k, d). k = VideoStream) (fi_streams fi) then Some ''video/mp4''
        else if list_ex (\<lambda>(k, d). k = AudioStream) (fi_streams fi) then Some ''audio/mpeg'' else m1)"

text \<open>\<open>trim\<close>, and the last piece of a split.\<close>

definition js_trim :: "string \<Rightarrow> string" where
  "js_trim s = rev (dropWhile is_js_space (rev (dropWhile is_js_space s)))"

definition url_fileName :: "parsedUrl \<Rightarrow> string" where
  "url_fileName u = js_trim (last (split_on CHR ''/'' (nullish (pu_pathname u) '''')))"

definition url_extension :: "parsedUrl \<Rightarrow> string" where
  "url_extension u = last (split_on CHR ''.'' (url_fileName u))"

definition direct_fetchManifestInfo :: "directWorld \<Rightarrow> string \<Rightarrow> exn + video" where
  "direct_fetchManifestInfo w link = (case dw_manifest w link of
      Inl e \<Rightarrow> Inl e
    | Inr m \<Rightarrow> Inr ((bare_video ''direct'' link)\<lparr>v_title := Some (cm_title m),
        v_description := Some (''Full Link: '' @ link), v_length := Some (of_int \<lceil>cm_duration m\<rceil>),
        v_thumbnail := cm_thumbnail m, v_mime := Some ''application/json''\<rparr>))"

definition drop_extension :: "string \<Rightarrow> string \<Rightarrow> string" where
  "drop_extension ext name = take (length name - (length ext + 1)) name"

definition direct_fetchVideoInfo :: "directWorld \<Rightarrow> string \<Rightarrow> exn + video" where
  "direct_fetchVideoInfo w link =
    (let u = dw_parse w link; ext = url_extension u in
     if pu_protocol u = Some ''file:'' then Inl LocalFileException
     else if ext = ''json'' then direct_fetchManifestInfo w link
     else (case dw_probe w link of
         Inl e \<Rightarrow> Inl e
       | Inr fi \<Rightarrow>
          (if \<not> usable (direct_mime ext fi)
           then Inl (UnsupportedMimeTypeException (nullish (direct_mime ext fi) ''unknown''))
           else (case getDuration fi of
               Inl e \<Rightarrow> Inl e
             | Inr duration \<Rightarrow> (case (case fi_title fi of Some t \<Rightarrow> Inr t
                   | None \<Rightarrow> map_sum id (drop_extension ext) (dw_decodeURIComponent w (url_fileName u))) of
                 Inl e \<Rightarrow> Inl e
               | Inr title \<Rightarrow> Inr ((bare_video ''direct'' link)\<lparr>v_title := Some title,
                   v_description := Some (''Full Link: '' @ link), v_mime := direct_mime ext fi,
                   v_length := map_option (\<lambda>d. of_int \<lceil>d\<rceil>) duration\<rparr>))))))"

definition direct_adapter :: "directWorld \<Rightarrow> serviceAdapter" where
  "direct_adapter w = (base_adapter ''direct'')\<lparr>sa_isCacheSafe := False, sa_canHandleURL := direct_canHandleURL w,
     sa_isCollectionURL := (\<lambda>link. Inr False), sa_getVideoId := Inr,
     sa_fetchVideoInfo := (\<lambda>link props. direct_fetchVideoInfo w link),
     sa_fetchManyVideoInfo := base_fetchManyVideoInfo (\<lambda>link props. direct_fetchVideoInfo w link)\<rparr>"

end
