(* ===== verification/InfoExtractor.thy ===== *)
theory InfoExtractor
  imports ServiceAdapters Http
begin

text \<open>
  \<open>server/infoextractor.ts\<close> with the bulk operations of \<open>server/storage/cachedvideo.ts\<close>, and
  \<open>server/api/data.ts\<close>: finding out about videos from the cache and from the services. The table of cached videos and redis are outside: the record
  \<open>infoWorld\<close> lists what is asked of them, on a state of which nothing is known here. What a service answers is the
  value of a method of its adapter. Writes to the cache that the code does not wait for are made at once.
\<close>

section \<open>The outside\<close>

datatype storedText = Parses "video list" | Garbled

record 'c infoWorld =
  iw_findOne :: "'c \<Rightarrow> string \<Rightarrow> string \<Rightarrow> exn + cachedVideo option"
  iw_findAll :: "'c \<Rightarrow> (string \<times> string) list \<Rightarrow> exn + cachedVideo list"
  iw_upsert :: "cachedVideo \<Rightarrow> 'c \<Rightarrow> (exn + unit) \<times> 'c"
  iw_bulkCreate :: "cachedVideo list \<Rightarrow> 'c \<Rightarrow> (exn + unit) \<times> 'c"
  iw_getSearch :: "string \<Rightarrow> 'c \<Rightarrow> exn + storedText option"
  iw_setSearch :: "string \<Rightarrow> int \<Rightarrow> video list \<Rightarrow> 'c \<Rightarrow> 'c"
  iw_delSearch :: "string \<Rightarrow> 'c \<Rightarrow> (exn + unit) \<times> 'c"
  iw_now :: int
  iw_columns :: "string list"
  iw_isURL :: "string \<Rightarrow> bool"
  iw_pathname :: "string \<Rightarrow> string"
  iw_adapters :: "serviceAdapter list"
  iw_searchMinLength :: int
  iw_enableSearch :: bool
  iw_provider :: string
  iw_limits :: limits

type_synonym ('a, 'c) info_call = "(exn, 'a, 'c) outcome"

definition of_sum :: "exn + 'a \<Rightarrow> 'c \<Rightarrow> ('a, 'c) info_call" where
  "of_sum v c = (case v of Inl e \<Rightarrow> Throws e c | Inr a \<Rightarrow> Returns a c)"

section \<open>Bulk operations of the cache\<close>

text \<open>A row, or a video that is put in the place of one.\<close>

datatype foundVideo = FoundRow cachedVideo | FoundPlain video

text \<open>\<open>_.find(foundVideos, video)\<close>: every property that the video has is the same.\<close>

definition given_same :: "'a option \<Rightarrow> 'a option \<Rightarrow> bool" where
  "given_same asked there \<longleftrightarrow> asked = None \<or> asked = there"

fun found_matches :: "video \<Rightarrow> foundVideo \<Rightarrow> bool" where
  "found_matches v (FoundRow r) \<longleftrightarrow> cv_service r = v_service v \<and> cv_serviceId r = v_id v
     \<and> given_same (v_title v) (cv_title r) \<and> given_same (v_description v) (cv_description r)
     \<and> given_same (v_thumbnail v) (cv_thumbnail r) \<and> given_same (v_length v) (cv_length r) \<and> given_same (v_mime v) (cv_mime r)
     \<and> v_hls_url v = None \<and> v_dash_url v = None \<and> v_src_url v = None \<and> v_subtitleUrl v = None \<and> v_startAt v = None
     \<and> v_endAt v = None \<and> \<not> v_highlight v"
| "found_matches v (FoundPlain p) \<longleftrightarrow> v_service p = v_service v \<and> v_id p = v_id v
     \<and> given_same (v_title v) (v_title p) \<and> given_same (v_description v) (v_description p)
     \<and> given_same (v_thumbnail v) (v_thumbnail p) \<and> given_same (v_length v) (v_length p) \<and> given_same (v_mime v) (v_mime p)
     \<and> given_same (v_hls_url v) (v_hls_url p) \<and> given_same (v_dash_url v) (v_dash_url p) \<and> given_same (v_src_url v) (v_src_url p)
     \<and> given_same (v_subtitleUrl v) (v_subtitleUrl p) \<and> given_same (v_startAt v) (v_startAt p) \<and> given_same (v_endAt v) (v_endAt p)
     \<and> (v_highlight v \<longrightarrow> v_highlight p)"

fun add_missing :: "video list \<Rightarrow> foundVideo list \<Rightarrow> foundVideo list" where
  "add_missing [] found = found"
| "add_missing (v # vs) found = add_missing vs (if list_ex (found_matches v) found then found else found @ [FoundPlain v])"

text \<open>The dates of a video in the place of a row are missing, and a missing date is now.\<close>

fun filter_found :: "int \<Rightarrow> foundVideo \<Rightarrow> video" where
  "filter_found now (FoundRow r) = filterVideoInfo now r"
| "filter_found now (FoundPlain v) = filterVideoInfo now (toDbVideo now v)"

text \<open>When the query fails the videos come back with \<open>serviceId\<close> in the place of \<open>id\<close>, which is then \<open>undefined\<close>.\<close>

definition getManyCached :: "'c infoWorld \<Rightarrow> video list \<Rightarrow> 'c \<Rightarrow> video list" where
  "getManyCached w videos c = (case iw_findAll w c (map (\<lambda>v. (v_service v, v_id v)) videos) of
      Inl e \<Rightarrow> map (\<lambda>v. v\<lparr>v_id := ''undefined''\<rparr>) videos
    | Inr rows \<Rightarrow> map (filter_found (iw_now w))
        (if length videos \<noteq> length rows then add_missing videos (map FoundRow rows) else map FoundRow rows))"

definition updateOne :: "'c infoWorld \<Rightarrow> video \<Rightarrow> 'c \<Rightarrow> 'c" where
  "updateOne w v c = (if v_service v = [] \<or> v_id v = [] then c else snd (iw_upsert w (toDbVideo (iw_now w) v) c))"

definition updateManyVideoInfo :: "'c infoWorld \<Rightarrow> video list \<Rightarrow> 'c \<Rightarrow> bool \<times> 'c" where
  "updateManyVideoInfo w videos c = (case iw_findAll w c (map (\<lambda>v. (v_service v, v_id v)) videos) of
      Inl e \<Rightarrow> (False, c)
    | Inr rows \<Rightarrow>
       (let known = (\<lambda>v. list_ex (\<lambda>r. cv_service r = v_service v \<and> cv_serviceId r = v_id v) rows);
            toUpdate = filter known videos; toCreate = filter (\<lambda>v. \<not> known v) videos;
            c1 = fold (updateOne w) toUpdate c
        in if toCreate = [] then (True, c1)
           else (case iw_bulkCreate w (map (toDbVideo (iw_now w)) toCreate) c1 of
               (Inl e, c2) \<Rightarrow> (False, c2) | (Inr _, c2) \<Rightarrow> (True, c2))))"

section \<open>Videos\<close>

definition over :: "('a option \<Rightarrow> bool) \<Rightarrow> 'a option \<Rightarrow> 'a option \<Rightarrow> 'a option" where
  "over truthy new old = (if truthy new then new else old)"

text \<open>\<open>Object.assign(a, _.pickBy(b, x => !!x))\<close>\<close>

definition mergeVideo :: "video \<Rightarrow> video \<Rightarrow> video" where
  "mergeVideo a b = \<lparr>v_service = (if v_service b \<noteq> [] then v_service b else v_service a),
     v_id = (if v_id b \<noteq> [] then v_id b else v_id a),
     v_title = over truthy_str (v_title b) (v_title a), v_description = over truthy_str (v_description b) (v_description a),
     v_length = over truthy_num (v_length b) (v_length a), v_thumbnail = over truthy_str (v_thumbnail b) (v_thumbnail a),
     v_mime = over truthy_str (v_mime b) (v_mime a), v_highlight = (v_highlight b \<or> v_highlight a),
     v_hls_url = over truthy_str (v_hls_url b) (v_hls_url a), v_dash_url = over truthy_str (v_dash_url b) (v_dash_url a),
     v_src_url = over truthy_str (v_src_url b) (v_src_url a), v_subtitleUrl = over truthy_str (v_subtitleUrl b) (v_subtitleUrl a),
     v_startAt = over truthy_num (v_startAt b) (v_startAt a), v_endAt = over truthy_num (v_endAt b) (v_endAt a)\<rparr>"

text \<open>\<open>!!video[p]\<close>\<close>

definition has_field :: "video \<Rightarrow> string \<Rightarrow> bool" where
  "has_field v p =
    (if p = ''title'' then truthy_str (v_title v) else if p = ''description'' then truthy_str (v_description v)
     else if p = ''thumbnail'' then truthy_str (v_thumbnail v) else if p = ''length'' then truthy_num (v_length v)
     else if p = ''mime'' then truthy_str (v_mime v) else False)"

definition missingInfo :: "'c infoWorld \<Rightarrow> video \<Rightarrow> string list" where
  "missingInfo w v = filter (\<lambda>p. \<not> has_field v p) (getVideoInfoFields (iw_columns w) (Some (v_service v)))"

definition getCachedVideo :: "'c infoWorld \<Rightarrow> string \<Rightarrow> string \<Rightarrow> 'c \<Rightarrow> (video \<times> string list, 'c) info_call" where
  "getCachedVideo w service i c =
    (let v = getVideoInfo (iw_findOne w c) (iw_now w) service i in
     case v_mime v of
       Some m \<Rightarrow> (if m \<noteq> [] \<and> \<not> isSupportedMimeType m then Throws (UnsupportedMimeTypeException m) c
                  else Returns (v, missingInfo w v) c)
     | None \<Rightarrow> Returns (v, missingInfo w v) c)"

definition getServiceAdapter :: "'c infoWorld \<Rightarrow> string \<Rightarrow> exn + serviceAdapter" where
  "getServiceAdapter w service = (case find (\<lambda>a. sa_serviceId a = service) (iw_adapters w) of
      None \<Rightarrow> Inl (OttException (''Unknown service: '' @ service)) | Some a \<Rightarrow> Inr a)"

text \<open>\<open>adapters.find\<close> with a test that may throw, as parsing a text that is no URL does.\<close>

fun first_handler :: "string \<Rightarrow> serviceAdapter list \<Rightarrow> exn + serviceAdapter option" where
  "first_handler url [] = Inr None"
| "first_handler url (a # as) = (case sa_canHandleURL a url of
      Inl e \<Rightarrow> Inl e | Inr handles \<Rightarrow> if handles then Inr (Some a) else first_handler url as)"

definition getServiceAdapterForURL :: "'c infoWorld \<Rightarrow> string \<Rightarrow> exn + serviceAdapter" where
  "getServiceAdapterForURL w url = (case first_handler url (iw_adapters w) of
      Inl e \<Rightarrow> Inl e
    | Inr None \<Rightarrow> Inl (UnsupportedServiceException url (iw_pathname w url))
    | Inr (Some a) \<Rightarrow> Inr a)"

definition is_quota :: "exn \<Rightarrow> bool" where
  "is_quota e = (case e of OutOfQuotaException s \<Rightarrow> True | _ \<Rightarrow> False)"

definition fetch_one :: "'c infoWorld \<Rightarrow> serviceAdapter \<Rightarrow> video \<Rightarrow> string list \<Rightarrow> 'c \<Rightarrow> (video, 'c) info_call" where
  "fetch_one w adapter cached missing c = (case sa_fetchVideoInfo adapter (v_id cached) missing of
      Inl e \<Rightarrow> Throws e c
    | Inr fetched \<Rightarrow>
       (if v_service fetched = v_service cached
        then (let video = mergeVideo cached fetched in
          Returns video (if sa_isCacheSafe adapter then updateOne w video c else c))
        else (case getServiceAdapter w (v_service fetched) of
            Inl e \<Rightarrow> Throws e c
          | Inr newadapter \<Rightarrow> Returns fetched (if sa_isCacheSafe newadapter then updateOne w fetched c else c))))"

definition ie_getVideoInfo :: "'c infoWorld \<Rightarrow> string \<Rightarrow> string \<Rightarrow> 'c \<Rightarrow> (video, 'c) info_call" where
  "ie_getVideoInfo w service i c =
    and_then (of_sum (getServiceAdapter w service) c) (\<lambda>adapter c1.
    and_then (getCachedVideo w service i c1) (\<lambda>(cached, missing) c2.
      if missing = [] then Returns (sa_postProcessVideo adapter cached) c2
      else (case fetch_one w adapter cached missing c2 of
          Returns v c3 \<Rightarrow> Returns v c3
        | Throws e c3 \<Rightarrow>
           (if is_quota e \<and> length missing < length (getVideoInfoFields (iw_columns w) (Some (v_service cached)))
            then Returns cached c3 else Throws e c3))))"

section \<open>Many videos\<close>

text \<open>\<open>_.groupBy(videoIds, "service")\<close> in the order of the keys.\<close>

definition group_services :: "video list \<Rightarrow> (string \<times> video list) list" where
  "group_services vs = map (\<lambda>s. (s, filter (\<lambda>v. v_service v = s) vs)) (rev (remdups (rev (map v_service vs))))"

definition one_service :: "'c infoWorld \<Rightarrow> 'c \<Rightarrow> string \<times> video list \<Rightarrow> exn + video list" where
  "one_service w c g = (case getServiceAdapter w (fst g) of
      Inl e \<Rightarrow> Inl e
    | Inr adapter \<Rightarrow>
       (let cached = (if sa_isCacheSafe adapter then getManyCached w (snd g) c else snd g);
            requests = filter (\<lambda>(i, missing). missing \<noteq> []) (map (\<lambda>v. (v_id v, missingInfo w v)) cached)
        in if requests = [] \<and> sa_isCacheSafe adapter then Inr cached
           else (case sa_fetchManyVideoInfo adapter requests of
               Inl e \<Rightarrow> Inl e
             | Inr fetched \<Rightarrow> Inr (map (\<lambda>v. case find (\<lambda>f. v_id f = v_id v) fetched of
                   Some f \<Rightarrow> mergeVideo v f | None \<Rightarrow> v) cached))))"

text \<open>The filter of what may be cached looks up the adapter of every video and fails with it.\<close>

definition cacheable :: "'c infoWorld \<Rightarrow> video list \<Rightarrow> exn + video list" where
  "cacheable w vs = (case all_ok (map (\<lambda>v. getServiceAdapter w (v_service v)) vs) of
      Inl e \<Rightarrow> Inl e
    | Inr as \<Rightarrow> Inr (map fst (filter (\<lambda>(v, a). sa_isCacheSafe a) (zip vs as))))"

definition ie_getManyVideoInfo :: "'c infoWorld \<Rightarrow> video list \<Rightarrow> 'c \<Rightarrow> (video list, 'c) info_call" where
  "ie_getManyVideoInfo w vs c = (case all_ok (map (one_service w c) (group_services vs)) of
      Inl e \<Rightarrow> Throws e c
    | Inr results \<Rightarrow>
       (let flattened = concat results;
            result = List.map_filter (\<lambda>v. find (\<lambda>f. v_id f = v_id v) flattened) vs
        in case cacheable w result of
             Inl e \<Rightarrow> Throws e c
           | Inr safe \<Rightarrow> Returns result (snd (updateManyVideoInfo w safe c))))"

section \<open>Searching\<close>

definition search_key :: "string \<Rightarrow> string \<Rightarrow> string" where
  "search_key service query = ''search:'' @ service @ '':'' @ query"

definition getCachedSearchResults :: "'c infoWorld \<Rightarrow> string \<Rightarrow> string \<Rightarrow> 'c \<Rightarrow> (video list, 'c) info_call" where
  "getCachedSearchResults w service query c =
    and_then (of_sum (iw_getSearch w (search_key service query) c) c) (\<lambda>value c1. case value of
      None \<Rightarrow> Returns [] c1
    | Some (Parses vs) \<Rightarrow> Returns vs c1
    | Some Garbled \<Rightarrow> (case iw_delSearch w (search_key service query) c1 of
        (Inl e, c2) \<Rightarrow> Throws e c2 | (Inr _, c2) \<Rightarrow> Returns [] c2))"

definition cacheSearchResults :: "'c infoWorld \<Rightarrow> string \<Rightarrow> string \<Rightarrow> video list \<Rightarrow> 'c \<Rightarrow> 'c" where
  "cacheSearchResults w service query results = iw_setSearch w (search_key service query) (60 * 60 * 24) results"

definition ie_searchVideos :: "'c infoWorld \<Rightarrow> string \<Rightarrow> string \<Rightarrow> 'c \<Rightarrow> (video list, 'c) info_call" where
  "ie_searchVideos w service query c =
    (if \<not> iw_enableSearch w
     then Throws (FeatureDisabledException ''Searching has been disabled by an administrator.'') c
     else and_then (getCachedSearchResults w service query c) (\<lambda>cached c1.
       if cached \<noteq> [] then ie_getManyVideoInfo w cached c1
       else and_then (of_sum (getServiceAdapter w service) c1) (\<lambda>adapter c2.
         and_then (of_sum (sa_searchVideos adapter query) c2) (\<lambda>results c3.
         and_then (ie_getManyVideoInfo w results c3) (\<lambda>complete c4.
           Returns complete (cacheSearchResults w service query results c4))))))"

section \<open>Resolving what was typed\<close>

record addPreview =
  ap_videos :: "video list"
  ap_cacheDuration :: int
  ap_highlighted :: "video option"

definition adapter_for :: "'c infoWorld \<Rightarrow> string option \<Rightarrow> string \<Rightarrow> exn + serviceAdapter" where
  "adapter_for w forceAdapter url = (if truthy_str forceAdapter then getServiceAdapter w (nullish forceAdapter [])
     else getServiceAdapterForURL w url)"

definition id_of_link :: "serviceAdapter \<Rightarrow> string \<Rightarrow> exn + video" where
  "id_of_link adapter url = map_sum id (bare_video (sa_serviceId adapter)) (sa_getVideoId adapter url)"

definition resolve_lines :: "'c infoWorld \<Rightarrow> string option \<Rightarrow> string \<Rightarrow> exn + video list" where
  "resolve_lines w forceAdapter query = all_ok (map (\<lambda>line. case adapter_for w forceAdapter line of
      Inl e \<Rightarrow> Inl e | Inr adapter \<Rightarrow> id_of_link adapter line)
    (filter (iw_isURL w) (split_on CHR 0x0A (js_trim query))))"

text \<open>A link in a collection that cannot be resolved, or is a collection itself, is left out.\<close>

definition resolve_member :: "'c infoWorld \<Rightarrow> resolvedVideo \<Rightarrow> video option" where
  "resolve_member w r = (case r of
      ResolvedVideo v \<Rightarrow> Some v
    | ResolvedUrl url \<Rightarrow> (case getServiceAdapterForURL w url of
        Inl e \<Rightarrow> None
      | Inr adapter \<Rightarrow> (case sa_isCollectionURL adapter url of
          Inr False \<Rightarrow> (case id_of_link adapter url of Inl e \<Rightarrow> None | Inr v \<Rightarrow> Some v)
        | _ \<Rightarrow> None)))"

definition resolve_collection :: "'c infoWorld \<Rightarrow> resolvedURL \<Rightarrow> int \<Rightarrow> 'c \<Rightarrow> (addPreview, 'c) info_call" where
  "resolve_collection w fetched duration c = (case fetched of
      ResolvedList rs \<Rightarrow> and_then (ie_getManyVideoInfo w (List.map_filter (resolve_member w) rs) c)
        (\<lambda>vs c1. Returns \<lparr>ap_videos = vs, ap_cacheDuration = duration, ap_highlighted = None\<rparr> c1)
    | ResolvedBulk videos highlighted \<Rightarrow> and_then (ie_getManyVideoInfo w videos c) (\<lambda>vs c1.
        case highlighted of
          None \<Rightarrow> Returns \<lparr>ap_videos = vs, ap_cacheDuration = duration, ap_highlighted = None\<rparr> c1
        | Some h \<Rightarrow> and_then (ie_getVideoInfo w (v_service h) (v_id h) c1)
            (\<lambda>hv c2. Returns \<lparr>ap_videos = vs, ap_cacheDuration = duration, ap_highlighted = Some hv\<rparr> c2)))"

definition resolve_link :: "'c infoWorld \<Rightarrow> string option \<Rightarrow> string \<Rightarrow> 'c \<Rightarrow> (addPreview, 'c) info_call" where
  "resolve_link w forceAdapter query c =
    and_then (of_sum (adapter_for w forceAdapter query) c) (\<lambda>adapter c1.
      let duration = (if sa_isCacheSafe adapter then 60 * 60 * 24 * 7 else 60 * 60) in
      and_then (of_sum (sa_isCollectionURL adapter query) c1) (\<lambda>collection c2.
        if \<not> collection
        then and_then (of_sum (sa_getVideoId adapter query) c2) (\<lambda>i c3.
          and_then (ie_getVideoInfo w (sa_serviceId adapter) i c3)
            (\<lambda>v c4. Returns \<lparr>ap_videos = [v], ap_cacheDuration = duration, ap_highlighted = None\<rparr> c4))
        else and_then (of_sum (sa_resolveURL adapter query) c2) (\<lambda>fetched c3. resolve_collection w fetched duration c3)))"

definition resolveVideoQuery :: "'c infoWorld \<Rightarrow> string \<Rightarrow> string \<Rightarrow> string option \<Rightarrow> 'c \<Rightarrow> (addPreview, 'c) info_call" where
  "resolveVideoQuery w query searchService forceAdapter c =
    (if CHR 0x0A \<in> set query
     then and_then (of_sum (resolve_lines w forceAdapter query) c) (\<lambda>ids c1. and_then (ie_getManyVideoInfo w ids c1)
       (\<lambda>vs c2. Returns \<lparr>ap_videos = vs, ap_cacheDuration = 60 * 60, ap_highlighted = None\<rparr> c2))
     else if iw_isURL w query then resolve_link w forceAdapter query c
     else if int (length query) < iw_searchMinLength w then Throws (InvalidAddPreviewInputException (iw_searchMinLength w)) c
     else and_then (ie_searchVideos w searchService query c)
       (\<lambda>vs c1. Returns \<lparr>ap_videos = vs, ap_cacheDuration = 60 * 60 * 24 * 7, ap_highlighted = None\<rparr> c1))"

section \<open>The route for previews\<close>

type_synonym 'c preview_handler = "('c, addPreview) exchange \<Rightarrow> (unit, 'c, addPreview) handler_call"

record previewRequest =
  pq_ip :: string
  pq_input :: "string option"
  pq_adapter :: "string option"

definition preview_errors :: "string list" where
  "preview_errors = [''UnsupportedServiceException'', ''InvalidAddPreviewInputException'', ''OutOfQuotaException'',
     ''InvalidVideoIdException'', ''FeatureDisabledException'', ''UnsupportedMimeTypeException'', ''LocalFileException'',
     ''MissingMetadataException'', ''UnsupportedVideoType'', ''UpstreamInvidiousException'', ''VideoNotFoundException'',
     ''FfprobeTimeoutError'', ''OdyseeUnavailableVideo'', ''OttException'']"

definition cache_control :: "int \<Rightarrow> string" where
  "cache_control duration = ''public, max-age='' @ show_int duration @ '', immutable, stale-while-revalidate=86400''"

definition send_preview :: "'c infoWorld \<Rightarrow> string \<Rightarrow> string option \<Rightarrow> 'c preview_handler" where
  "send_preview w input adapter x = (case calling (resolveVideoQuery w (js_trim input) (iw_provider w) adapter) x of
      Returns result x1 \<Rightarrow> and_then (set_header ''Cache-Control'' (HText (cache_control (ap_cacheDuration result))) x1)
        (\<lambda>_ x2. respond 200 (Done result) x2)
    | Throws e x1 \<Rightarrow>
       (if failure_name e \<in> set preview_errors
        then respond 400 (Failed (named_error (failure_name e) (failure_message e))) x1
        else respond 500 (Failed (named_error ''Unknown'' ''Unknown error occurred.'')) x1))"

definition preview_points :: "'c infoWorld \<Rightarrow> string \<Rightarrow> int" where
  "preview_points w input = (if iw_isURL w input then 5 else 75)"

definition data_errorHandler :: "failure \<Rightarrow> 'c preview_handler" where
  "data_errorHandler f x =
    (if is_ott_failure f
     then (case f of
         Raised (BadApiArgumentException arg reason) \<Rightarrow> respond 400 (Failed
           \<lparr>ae_name = Some ''BadApiArgumentException'', ae_message = Some (failure_message f), ae_arg = Some arg,
            ae_reason = Some reason, ae_fields = None\<rparr>) x
       | _ \<Rightarrow> respond 400 (Failed (named_error (failure_name f) (failure_message f))) x)
     else respond 500 (Failed (named_error ''Unknown'' ''An unknown error occurred. Try again later.'')) x)"

definition api_previewAdd :: "'c infoWorld \<Rightarrow> previewRequest \<Rightarrow> 'c preview_handler" where
  "api_previewAdd w rq x = catching data_errorHandler
    (if \<not> truthy_str (pq_input rq) then raise (BadApiArgumentException ''input'' ''missing'') x
     else (let input = nullish (pq_input rq) [] in
       limited (iw_limits w) (pq_ip rq) (preview_points w input) (send_preview w input (pq_adapter rq)) x))"

end
