(* ===== verification/InfoProperties.thy ===== *)
theory InfoProperties
  imports InfoExtractor RoomApiProperties "HOL-Library.Sublist"
begin

text \<open>
  What finding out about videos promises: what was fetched is served from the cache; what is not safe to cache is not
  written; a service that is out of quota still gives what is known; results come in the order asked; every request for a
  preview is answered; and where the code falls short: videos of two services with the same id are mixed up, and
  a failing cache makes the videos disappear.
\<close>

section \<open>One video\<close>

lemma of_sum_final [simp]: "final_state (of_sum v c) = c"
  by (simp add: of_sum_def split: sum.split)

lemma getCachedVideo_cases:
  obtains (known) v where "getCachedVideo w service i c = Returns (v, missingInfo w v) c"
      "v = getVideoInfo (iw_findOne w c) (iw_now w) service i"
    | (refused) m where "getCachedVideo w service i c = Throws (UnsupportedMimeTypeException m) c"
proof -
  let ?v = "getVideoInfo (iw_findOne w c) (iw_now w) service i"
  show ?thesis
  proof (cases "\<exists>m. v_mime ?v = Some m \<and> m \<noteq> [] \<and> \<not> isSupportedMimeType m")
    case True
    then obtain m where "v_mime ?v = Some m" "m \<noteq> []" "\<not> isSupportedMimeType m" by blast
    then show ?thesis by (intro refused [of m]) (simp add: getCachedVideo_def Let_def)
  next
    case False
    then show ?thesis by (intro known [of ?v]) (auto simp: getCachedVideo_def Let_def split: option.split)
  qed
qed

lemma getCachedVideo_final [simp]: "final_state (getCachedVideo w service i c) = c"
  by (rule getCachedVideo_cases [of w service i c]) auto

text \<open>
  C30. A service that is out of quota still gives what is known: the video as the cache has it, as long as at least
  one of its properties is known; with nothing known the error is passed on. Nothing is written in either case.
\<close>

theorem quota_gives_what_is_known:
  assumes "getServiceAdapter w service = Inr adapter" and "getCachedVideo w service i c = Returns (cached, missing) c"
    and "missing \<noteq> []" and "sa_fetchVideoInfo adapter (v_id cached) missing = Inl (OutOfQuotaException s)"
  shows "ie_getVideoInfo w service i c =
    (if \<exists>p\<in>set (getVideoInfoFields (iw_columns w) (Some (v_service cached))). has_field cached p
     then Returns cached c else Throws (OutOfQuotaException s) c)"
proof -
  let ?fs = "getVideoInfoFields (iw_columns w) (Some (v_service cached))"
  have "missing = filter (\<lambda>p. \<not> has_field cached p) ?fs"
    using assms(2) by (rule_tac getCachedVideo_cases [of w service i c]) (auto simp: missingInfo_def)
  then have "length missing < length ?fs \<longleftrightarrow> (\<exists>p\<in>set ?fs. has_field cached p)"
    by (metis length_filter_less filter_True length_filter_le linorder_not_less order_less_irrefl)
  then show ?thesis
    using assms by (simp add: ie_getVideoInfo_def of_sum_def fetch_one_def is_quota_def)
qed

section \<open>What was fetched is kept\<close>

text \<open>
  What is assumed of the table: a row that was written is found by its keys, with the values that were given and the
  date of the writing.
\<close>

definition keeps_rows :: "'c infoWorld \<Rightarrow> bool" where
  "keeps_rows w \<longleftrightarrow> (\<forall>row c c'. iw_upsert w row c = (Inr (), c') \<longrightarrow>
     (\<exists>r. iw_findOne w c' (cv_service row) (cv_serviceId row) = Inr (Some r) \<and> cv_service r = cv_service row
        \<and> cv_serviceId r = cv_serviceId row \<and> cv_updatedAt r = cv_updatedAt row
        \<and> given_same (cv_title row) (cv_title r) \<and> given_same (cv_description row) (cv_description r)
        \<and> given_same (cv_thumbnail row) (cv_thumbnail r) \<and> given_same (cv_length row) (cv_length r)
        \<and> given_same (cv_mime row) (cv_mime r)))"

lemma valid_when_past: "cv_updatedAt r \<le> now \<Longrightarrow> isCachedInfoValid now r"
proof -
  assume "cv_updatedAt r \<le> now"
  then have "diff_days (cv_updatedAt r) now \<le> 0" by (auto simp: diff_days_def pos_imp_zdiv_nonneg_iff)
  then show ?thesis by (simp add: isCachedInfoValid_def)
qed

lemma given_same_truthy:
  "given_same a b \<Longrightarrow> truthy_str a \<Longrightarrow> b = a" "given_same n k \<Longrightarrow> truthy_num n \<Longrightarrow> k = n"
  by (auto simp: given_same_def)

lemma row_of_video [simp]:
  "cv_service (toDbVideo now v) = v_service v" "cv_serviceId (toDbVideo now v) = v_id v" "cv_title (toDbVideo now v) = v_title v"
  "cv_description (toDbVideo now v) = v_description v" "cv_thumbnail (toDbVideo now v) = v_thumbnail v"
  "cv_length (toDbVideo now v) = v_length v" "cv_mime (toDbVideo now v) = v_mime v" "cv_updatedAt (toDbVideo now v) = now"
  by (simp_all add: toDbVideo_def)

text \<open>A stored video as the cache shows it later.\<close>

lemma stored_video_shown:
  assumes "keeps_rows w" and "iw_upsert w (toDbVideo t v) c = (Inr (), c')" and "t \<le> now"
  shows "\<exists>v2. getVideoInfo (iw_findOne w c') now (v_service v) (v_id v) = v2 \<and> v_service v2 = v_service v \<and> v_id v2 = v_id v
    \<and> (truthy_str (v_title v) \<longrightarrow> v_title v2 = v_title v) \<and> (truthy_str (v_description v) \<longrightarrow> v_description v2 = v_description v)
    \<and> (truthy_str (v_thumbnail v) \<longrightarrow> v_thumbnail v2 = v_thumbnail v) \<and> (truthy_num (v_length v) \<longrightarrow> v_length v2 = v_length v)
    \<and> (truthy_str (v_mime v) \<longrightarrow> v_mime v2 = v_mime v)"
proof -
  obtain r where r: "iw_findOne w c' (v_service v) (v_id v) = Inr (Some r)" "cv_service r = v_service v" "cv_serviceId r = v_id v"
    "cv_updatedAt r = t" "given_same (v_title v) (cv_title r)" "given_same (v_description v) (cv_description r)"
    "given_same (v_thumbnail v) (cv_thumbnail r)" "given_same (v_length v) (cv_length r)" "given_same (v_mime v) (cv_mime r)"
    using assms(1,2) unfolding keeps_rows_def by (metis row_of_video)
  have "isCachedInfoValid now r" using r(4) assms(3) by (intro valid_when_past) simp
  with r(1-3) given_same_truthy(1) [OF r(5)] given_same_truthy(1) [OF r(6)] given_same_truthy(1) [OF r(7)]
    given_same_truthy(2) [OF r(8)] given_same_truthy(1) [OF r(9)] show ?thesis
    by (auto simp: getVideoInfo_def filterVideoInfo_def bare_video_def)
qed

lemma has_field_kept:
  assumes "has_field v p" and "truthy_str (v_title v) \<longrightarrow> v_title v2 = v_title v"
    and "truthy_str (v_description v) \<longrightarrow> v_description v2 = v_description v"
    and "truthy_str (v_thumbnail v) \<longrightarrow> v_thumbnail v2 = v_thumbnail v" and "truthy_num (v_length v) \<longrightarrow> v_length v2 = v_length v"
    and "truthy_str (v_mime v) \<longrightarrow> v_mime v2 = v_mime v"
  shows "has_field v2 p"
  using assms by (auto simp: has_field_def split: if_splits)

lemma mergeVideo_service: "v_service b = v_service a \<Longrightarrow> v_service (mergeVideo a b) = v_service a"
  by (simp add: mergeVideo_def)


section \<open>Many videos\<close>

lemma map_filter_find_subseq:
  "subseq (map v_id (List.map_filter (\<lambda>v. find (\<lambda>f. v_id f = v_id v) fs) vs)) (map v_id vs)"
proof (induction vs)
  case (Cons v vs)
  show ?case
  proof (cases "find (\<lambda>f. v_id f = v_id v) fs")
    case (Some f)
    then have "v_id f = v_id v" by (auto simp: find_Some_iff)
    with Some Cons.IH show ?thesis by (simp add: List.map_filter_simps)
  next
    case None
    with Cons.IH show ?thesis by (simp add: List.map_filter_simps list_emb_Cons)
  qed
qed (simp add: List.map_filter_simps)

lemma remdups_same: "xs \<noteq> [] \<Longrightarrow> \<forall>x\<in>set xs. x = s \<Longrightarrow> remdups xs = [s]"
proof (induction xs)
  case (Cons x xs)
  then show ?case by (cases xs) auto
qed simp

lemma ie_getMany_Returns:
  assumes "ie_getManyVideoInfo w vs c = Returns result c'"
  shows "\<exists>results. all_ok (map (one_service w c) (group_services vs)) = Inr results
    \<and> result = List.map_filter (\<lambda>v. find (\<lambda>f. v_id f = v_id v) (concat results)) vs"
  using assms by (auto simp: ie_getManyVideoInfo_def Let_def split: sum.splits)


text \<open>
  Videos of two services with the same id are mixed up: results are looked for by id only, so when the first
  service gave its video, it stands in the place of the second service's too, whatever that one answered.
\<close>

lemma same_id_mixed_up:
  assumes "v_service a \<noteq> v_service b" and "v_id a = v_id b" and "one_service w c (v_service a, [a]) = Inr [x]" and "v_id x = v_id a"
    and "ie_getManyVideoInfo w [a, b] c = Returns result c'"
  shows "result = [x, x]"
proof -
  have "group_services [a, b] = [(v_service a, [a]), (v_service b, [b])]" using assms(1) by (auto simp: group_services_def)
  with ie_getMany_Returns [OF assms(5)] assms(2-4) show ?thesis
    by (auto simp: List.map_filter_simps split: sum.splits)
qed

text \<open>
  When the cache fails, videos disappear: the query for many cached videos then gives the videos back without
  their ids, so whatever the service answers, none of what was asked for is found again and the result is empty, without
  an error.
\<close>

lemma cache_failure_loses_videos:
  assumes "\<forall>ks. iw_findAll w c ks = Inl e" and "\<forall>v\<in>set vs. v_service v = service \<and> v_id v \<noteq> ''undefined''" and "vs \<noteq> []"
    and "getServiceAdapter w service = Inr adapter" and "sa_isCacheSafe adapter"
    and "\<And>rs. \<exists>fetched. sa_fetchManyVideoInfo adapter rs = Inr fetched \<and> (\<forall>f\<in>set fetched. v_id f \<noteq> ''undefined'')"
  shows "ie_getManyVideoInfo w vs c = Returns [] c"
proof -
  let ?lost = "map (\<lambda>v. v\<lparr>v_id := ''undefined''\<rparr>) vs"
  have "remdups (rev (map v_service vs)) = [service]"
    using assms(2,3) by (intro remdups_same) auto
  then have g: "group_services vs = [(service, vs)]" using assms(2) by (simp add: group_services_def)
  have one: "one_service w c (service, vs) = Inr ?lost"
  proof -
    have "getManyCached w vs c = ?lost" using assms(1) by (simp add: getManyCached_def)
    moreover obtain fetched where
      "sa_fetchManyVideoInfo adapter (filter (\<lambda>(i, missing). missing \<noteq> []) (map (\<lambda>v. (v_id v, missingInfo w v)) ?lost)) = Inr fetched"
      "\<forall>f\<in>set fetched. v_id f \<noteq> ''undefined''" using assms(6) by blast
    moreover from this(2) have "find (\<lambda>f. v_id f = ''undefined'') fetched = None" by (auto simp: find_None_iff)
    ultimately show ?thesis using assms(4,5) by (simp add: one_service_def Let_def comp_def)
  qed
  have "find (\<lambda>f. v_id f = v_id v) ?lost = None" if "v \<in> set vs" for v
    using that assms(2) by (auto simp: find_None_iff)
  then have "List.map_filter (\<lambda>v. find (\<lambda>f. v_id f = v_id v) ?lost) vs = []" by (simp add: List.map_filter_def)
  with g one assms(1) show ?thesis by (simp add: ie_getManyVideoInfo_def cacheable_def updateManyVideoInfo_def)
qed

section \<open>The route for previews\<close>

lemma calling_silent: "ex_sent x = [] \<Longrightarrow> ex_sent (final_state (calling f x)) = []"
  by (simp add: calling_def split: outcome.split)

lemma send_preview_answers:
  assumes x: "ex_sent x = []"
  shows "\<exists>y r. send_preview w input adapter x = Returns () y \<and> ex_sent y = [r] \<and> rs_status r \<in> {200, 400, 500}"
proof (cases "calling (resolveVideoQuery w (js_trim input) (iw_provider w) adapter) x")
  case (Returns result y)
  with calling_silent [OF x, of "resolveVideoQuery w (js_trim input) (iw_provider w) adapter"] show ?thesis
    by (simp add: send_preview_def set_header_def respond_def)
next
  case (Throws e y)
  with calling_silent [OF x, of "resolveVideoQuery w (js_trim input) (iw_provider w) adapter"] show ?thesis
    by (simp add: send_preview_def respond_def)
qed

lemma data_error_answers: "ex_sent x = [] \<Longrightarrow> \<exists>y r. data_errorHandler f x = Returns () y \<and> ex_sent y = [r]
    \<and> rs_status r \<in> {400, 500}"
  by (auto simp: data_errorHandler_def respond_def split: failure.split exn.split)

lemma limited_ends:
  assumes x: "ex_sent x = []"
    and h: "\<And>y. ex_sent y = [] \<Longrightarrow> \<exists>z r. h y = Returns () z \<and> ex_sent z = [r] \<and> rs_status r \<in> S"
  shows "(\<exists>z r. limited l key points h x = Returns () z \<and> ex_sent z = [r] \<and> rs_status r \<in> insert 429 S)
    \<or> (\<exists>e. limited l key points h x = Throws e x)"
proof (cases "li_enabled l")
  case False
  with h [OF x] show ?thesis by (auto simp: limited_def consumeRateLimitPoints_def)
next
  case enabled: True
  show ?thesis
  proof (cases "li_consume l key points")
    case (Consumed info)
    obtain y where y: "setRateLimitHeaders l info x = Returns () y" "ex_sent y = []"
      using rate_headers_sent [OF x] by blast
    from h [OF y(2)] enabled Consumed y(1) show ?thesis by (auto simp: limited_def consumeRateLimitPoints_def)
  next
    case (Refused info)
    with handleRateLimit_answers [OF x, of l info] enabled show ?thesis
      by (auto simp: limited_def consumeRateLimitPoints_def)
  next
    case (LimiterError e)
    with enabled show ?thesis by (simp add: limited_def consumeRateLimitPoints_def)
  qed
qed

text \<open>
  C27. Every request for a preview is answered exactly once and nothing is thrown out of the route, whatever the
  cache, the services and the rate limiter do: with the videos, or with status 400, 429 or 500.
\<close>

theorem preview_answers_once:
  assumes x: "ex_sent x = []"
  shows "\<exists>y r. api_previewAdd w rq x = Returns () y \<and> ex_sent y = [r] \<and> rs_status r \<in> {200, 400, 429, 500}"
proof (cases "truthy_str (pq_input rq)")
  case False
  with data_error_answers [OF x] show ?thesis by (fastforce simp: api_previewAdd_def raise_def)
next
  case True
  let ?i = "nullish (pq_input rq) []"
  let ?call = "limited (iw_limits w) (pq_ip rq) (preview_points w ?i) (send_preview w ?i (pq_adapter rq)) x"
  have r: "api_previewAdd w rq x = catching data_errorHandler ?call" using True by (simp add: api_previewAdd_def Let_def)
  have "(\<exists>z r. ?call = Returns () z \<and> ex_sent z = [r] \<and> rs_status r \<in> insert 429 {200, 400, 500}) \<or> (\<exists>e. ?call = Throws e x)"
    by (rule limited_ends [OF x send_preview_answers])
  then show ?thesis
  proof (elim disjE exE conjE)
    fix e assume "?call = Throws e x"
    with r data_error_answers [OF x, of e] show ?thesis by auto
  qed (use r in auto)
qed

section \<open>Direct links\<close>

lemma direct_fetch_facts:
  assumes "direct_fetchVideoInfo dw link = Inr v"
  shows "pu_protocol (dw_parse dw link) \<noteq> Some ''file:'' \<and> v_service v = ''direct'' \<and> v_id v = link
    \<and> (\<exists>m. v_mime v = Some m \<and> m \<noteq> [] \<and> (isSupportedMimeType m \<or> m = ''application/json''))"
proof -
  have not_empty: "isSupportedMimeType m \<Longrightarrow> m \<noteq> []" for m
    by (auto simp: isSupportedMimeType_def SUPPORTED_VIDEO_MIME_REGEX_def SUPPORTED_AUDIO_MIME_REGEX_def
        mime_matches_def starts_with_def)
  show ?thesis
  proof (cases "url_extension (dw_parse dw link) = ''json''")
    case True
    with assms show ?thesis
      by (auto simp: direct_fetchVideoInfo_def direct_fetchManifestInfo_def bare_video_def Let_def split: if_splits sum.splits)
  next
    case False
    with assms obtain fi where "usable (direct_mime (url_extension (dw_parse dw link)) fi)"
      "v_mime v = direct_mime (url_extension (dw_parse dw link)) fi" "v_service v = ''direct''" "v_id v = link"
      "pu_protocol (dw_parse dw link) \<noteq> Some ''file:''"
      by (auto simp: direct_fetchVideoInfo_def bare_video_def Let_def split: if_splits sum.splits)
    with not_empty show ?thesis by (auto simp: usable_def split: option.splits)
  qed
qed

text \<open>
  A direct link is looked at again every time: asking for it never writes to the cache; a local file is refused
  whatever else is true of it; and what is given out for a link that the cache does not know is a video of this very
  link whose type players support, or a manifest.
\<close>

theorem direct_links_checked:
  assumes "getServiceAdapter w ''direct'' = Inr (direct_adapter dw)" and "iw_findOne w c ''direct'' link = Inr None"
    and "''mime'' \<in> set (getVideoInfoFields (iw_columns w) (Some ''direct''))" and "link \<noteq> []"
  shows "final_state (ie_getVideoInfo w ''direct'' link c) = c
    \<and> (pu_protocol (dw_parse dw link) = Some ''file:'' \<longrightarrow> ie_getVideoInfo w ''direct'' link c = Throws LocalFileException c)
    \<and> (\<forall>v c'. ie_getVideoInfo w ''direct'' link c = Returns v c' \<longrightarrow> v_service v = ''direct'' \<and> v_id v = link
        \<and> (\<exists>m. v_mime v = Some m \<and> (isSupportedMimeType m \<or> m = ''application/json'')))"
proof -
  let ?b = "bare_video ''direct'' link"
  have b: "getVideoInfo (iw_findOne w c) (iw_now w) ''direct'' link = ?b" using assms(2) by (simp add: getVideoInfo_def)
  have "''mime'' \<in> set (missingInfo w ?b)" using assms(3) by (simp add: missingInfo_def has_field_def bare_video_def)
  then have missing: "missingInfo w ?b \<noteq> []" by auto
  have cached: "getCachedVideo w ''direct'' link c = Returns (?b, missingInfo w ?b) c"
    using b by (simp add: getCachedVideo_def Let_def bare_video_def)
  have adapter: "sa_fetchVideoInfo (direct_adapter dw) i ms = direct_fetchVideoInfo dw i"
    "\<not> sa_isCacheSafe (direct_adapter dw)" for i ms by (simp_all add: direct_adapter_def)
  have quota: "length (missingInfo w ?b) = length (getVideoInfoFields (iw_columns w) (Some ''direct''))"
    by (simp add: missingInfo_def has_field_def bare_video_def)
  show ?thesis
  proof (cases "direct_fetchVideoInfo dw link")
    case (Inl e)
    then have "ie_getVideoInfo w ''direct'' link c = Throws e c"
      using assms(1) cached missing adapter quota
      by (simp add: ie_getVideoInfo_def of_sum_def fetch_one_def) (simp add: bare_video_def)
    moreover have "e = LocalFileException" if "pu_protocol (dw_parse dw link) = Some ''file:''"
      using Inl that by (simp add: direct_fetchVideoInfo_def Let_def)
    ultimately show ?thesis by simp
  next
    case (Inr v)
    from direct_fetch_facts [OF Inr] obtain m where v: "v_service v = ''direct''" "v_id v = link" "v_mime v = Some m"
      "m \<noteq> []" "isSupportedMimeType m \<or> m = ''application/json''" "pu_protocol (dw_parse dw link) \<noteq> Some ''file:''" by blast
    then have "ie_getVideoInfo w ''direct'' link c = Returns (mergeVideo ?b v) c"
      using Inr assms(1) cached missing adapter
      by (simp add: ie_getVideoInfo_def of_sum_def fetch_one_def) (simp add: bare_video_def)
    with v assms(4) show ?thesis by (simp add: mergeVideo_def over_def)
  qed
qed

section \<open>Witnesses\<close>

text \<open>A table with one row.\<close>

definition demo_info :: "serviceAdapter list \<Rightarrow> cachedVideo option infoWorld" where
  "demo_info as = \<lparr>iw_findOne = (\<lambda>c s i. Inr (case c of None \<Rightarrow> None
       | Some r \<Rightarrow> if cv_service r = s \<and> cv_serviceId r = i then Some r else None)),
     iw_findAll = (\<lambda>c ks. Inr (case c of None \<Rightarrow> [] | Some r \<Rightarrow> if (cv_service r, cv_serviceId r) \<in> set ks then [r] else [])),
     iw_upsert = (\<lambda>row c. (Inr (), Some row)), iw_bulkCreate = (\<lambda>rows c. (Inr (), Some (last rows))),
     iw_getSearch = (\<lambda>k c. Inr None), iw_setSearch = (\<lambda>k n vs c. c), iw_delSearch = (\<lambda>k c. (Inr (), c)), iw_now = 0,
     iw_columns = [''title'', ''length'', ''mime''], iw_isURL = (\<lambda>s. True), iw_pathname = (\<lambda>s. s), iw_adapters = as,
     iw_searchMinLength = 3, iw_enableSearch = True, iw_provider = ''youtube'',
     iw_limits = \<lparr>li_enabled = False, li_points = 1000, li_now = 0, li_consume = (\<lambda>_ _. LimiterError MissingToken)\<rparr>\<rparr>"

definition demo_found :: "string \<Rightarrow> string \<Rightarrow> video" where
  "demo_found s i = (bare_video s i)\<lparr>v_title := Some ''t'', v_length := Some 10, v_mime := Some ''video/mp4''\<rparr>"

definition demo_adapter :: "string \<Rightarrow> serviceAdapter" where
  "demo_adapter s = (base_adapter s)\<lparr>sa_fetchVideoInfo := (\<lambda>i ms. Inr (demo_found s i)),
     sa_fetchManyVideoInfo := (\<lambda>rs. Inr (map (\<lambda>r. demo_found s (fst r)) rs))\<rparr>"

definition tired_adapter :: "string \<Rightarrow> serviceAdapter" where
  "tired_adapter s = (base_adapter s)\<lparr>sa_fetchVideoInfo := (\<lambda>i ms. Inl (OutOfQuotaException s))\<rparr>"

definition demo_row :: cachedVideo where
  "demo_row = (toDbVideo 0 (bare_video ''reddit'' ''x''))\<lparr>cv_mime := Some ''video/mp4''\<rparr>"

definition demo_exchange :: "(cachedVideo option, addPreview) exchange" where
  "demo_exchange = \<lparr>ex_state = None, ex_headers = [], ex_sent = []\<rparr>"

definition demo_direct :: directWorld where
  "demo_direct = \<lparr>dw_parse = (\<lambda>l. \<lparr>pu_protocol = Some ''file:'', pu_path = Some l, pu_pathname = Some l, pu_href = l\<rparr>),
     dw_probe = (\<lambda>l. Inl (MissingMetadataException None)), dw_manifest = (\<lambda>l. Inl (MissingMetadataException None)),
     dw_decodeURIComponent = Inr\<rparr>"

lemma demo_mime: "isSupportedMimeType ''video/mp4''"
  by (simp add: isSupportedMimeType_def SUPPORTED_VIDEO_MIME_REGEX_def mime_matches_def starts_with_def mime_word_def)

lemma demo_keeps_rows: "keeps_rows (demo_info as)"
  by (simp add: keeps_rows_def demo_info_def given_same_def)

lemmas demo_defs = demo_info_def demo_found_def demo_adapter_def tired_adapter_def demo_row_def base_adapter_def bare_video_def
  getServiceAdapter_def

theorem preview_answers_once_witness:
  "\<exists>y r. api_previewAdd (demo_info []) \<lparr>pq_ip = ''1'', pq_input = Some ''http://a.b'', pq_adapter = None\<rparr> demo_exchange
      = Returns () y \<and> ex_sent y = [r]"
  using preview_answers_once [of demo_exchange "demo_info []" "\<lparr>pq_ip = ''1'', pq_input = Some ''http://a.b'', pq_adapter = None\<rparr>"]
  by (auto simp: demo_exchange_def)

theorem direct_links_checked_witness:
  "ie_getVideoInfo (demo_info [direct_adapter demo_direct]) ''direct'' ''/etc/a.mp4'' None = Throws LocalFileException None"
proof -
  have "getServiceAdapter (demo_info [direct_adapter demo_direct]) ''direct'' = Inr (direct_adapter demo_direct)"
    by (simp add: demo_defs direct_adapter_def)
  from direct_links_checked [OF this, of None "''/etc/a.mp4''"] show ?thesis
    by (simp add: demo_info_def demo_direct_def getVideoInfoFields_def)
qed

theorem quota_gives_what_is_known_witness:
  "\<exists>v. ie_getVideoInfo (demo_info [tired_adapter ''reddit'']) ''reddit'' ''x'' (Some demo_row) = Returns v (Some demo_row)
     \<and> v_mime v = Some ''video/mp4''"
proof -
  let ?w = "demo_info [tired_adapter ''reddit'']"
  let ?v = "(bare_video ''reddit'' ''x'')\<lparr>v_mime := Some ''video/mp4''\<rparr>"
  have a: "getServiceAdapter ?w ''reddit'' = Inr (tired_adapter ''reddit'')" by (simp add: demo_defs)
  have c: "getCachedVideo ?w ''reddit'' ''x'' (Some demo_row) = Returns (?v, [''title'', ''length'']) (Some demo_row)"
    using demo_mime by (simp add: getCachedVideo_def getVideoInfo_def filterVideoInfo_def demo_defs toDbVideo_def missingInfo_def
        has_field_def getVideoInfoFields_def Let_def)
  from quota_gives_what_is_known [OF a c, of "''reddit''"] show ?thesis
    by (simp add: demo_defs has_field_def getVideoInfoFields_def)
qed



text \<open>No exception is called \<open>OttException\<close>, so plain ones are answered as unknown errors.\<close>

lemma no_exception_of_that_name: "exn_name e \<noteq> ''OttException''"
  by (cases e) simp_all

end
