(* ===== verification/ClientHelpers.thy ===== *)
theory ClientHelpers
  imports Messages
begin

text \<open>
  The computing helpers of the client: \<open>client/src/util/misc.ts\<close> (aspect ratios), \<open>client/src/util/timestamp.ts\<close>,
  \<open>client/src/components/ProcessedText.vue\<close> (links in texts), the toast store with the texts of events, keyboard
  shortcuts, and \<open>common/queueexport.ts\<close>.
\<close>

section \<open>Aspect ratios\<close>

text \<open>
  A number of pixels is a whole number or \<open>NaN\<close> (\<open>None\<close>), which the type \<open>number\<close> includes. The remainder of
  JavaScript takes the sign of the dividend and is \<open>NaN\<close> when a side is.
\<close>

type_synonym js_number = "int option"

fun js_rem :: "js_number \<Rightarrow> js_number \<Rightarrow> js_number" where
  "js_rem (Some a) (Some b) = (if b = 0 then None else Some (sgn a * (\<bar>a\<bar> mod \<bar>b\<bar>)))"
| "js_rem a b = None"

text \<open>\<open>while (b !== 0) { [a, b] = [b, a % b] }\<close>, where \<open>NaN !== 0\<close>. A loop that never ends is \<open>None\<close>.\<close>

partial_function (option) js_gcd :: "js_number \<Rightarrow> js_number \<Rightarrow> js_number option" where
  "js_gcd a b = (if b = Some 0 then Some a else js_gcd b (js_rem a b))"

record aspect =
  as_ratio :: "int \<times> int"
  as_float :: rat
  as_type :: string

definition aspect_type :: "int \<Rightarrow> int \<Rightarrow> int \<times> int \<Rightarrow> rat \<Rightarrow> string" where
  "aspect_type width height ratio fl =
    (if ratio = (16, 9) then ''Widescreen''
     else if ratio = (9, 16) then ''Vertical''
     else if (width = 2560 \<or> width = 3440) \<and> fl > 2 \<and> fl < 5 / 2 then ''Ultrawide''
     else if ratio = (4, 3) then ''Standard Definition''
     else if ratio = (1, 1) then ''Square''
     else if fl > 16 / 9 then ''Cinematic'' else ''Custom'')"

text \<open>\<open>width <= 0\<close> is false of \<open>NaN\<close>.\<close>

definition not_positive :: "js_number \<Rightarrow> bool" where
  "not_positive n = (case n of None \<Rightarrow> False | Some i \<Rightarrow> i \<le> 0)"

text \<open>The text of the ratio is the pair of its two numbers. \<open>None\<close>: the call never returns.\<close>

definition aspect_of :: "int \<Rightarrow> int \<Rightarrow> int \<Rightarrow> aspect" where
  "aspect_of width height divisor =
    (let ratio = (width div divisor, height div divisor); fl = of_int width / of_int height
     in \<lparr>as_ratio = ratio, as_float = fl, as_type = aspect_type width height ratio fl\<rparr>)"

definition getAspectRatio :: "js_number \<Rightarrow> js_number \<Rightarrow> (exn + aspect) option" where
  "getAspectRatio width height =
    (if not_positive width \<or> not_positive height then Some (Inl (JsError ''Width and height must be positive numbers''))
     else (case js_gcd width height of
         Some (Some divisor) \<Rightarrow>
          (case (width, height) of (Some w, Some h) \<Rightarrow> Some (Inr (aspect_of w h divisor)) | _ \<Rightarrow> None)
       | _ \<Rightarrow> None))"

text \<open>The first bound that the number reaches.\<close>

fun first_reached :: "int \<Rightarrow> (int \<times> int) list \<Rightarrow> int option" where
  "first_reached n [] = None"
| "first_reached n ((bound, label) # rest) = (if n \<ge> bound then Some label else first_reached n rest)"

definition cinematic_label :: "int \<Rightarrow> int option" where
  "cinematic_label width = first_reached width
    [(8192, 4320), (6144, 3456), (5120, 2880), (3840, 2160), (3072, 1728), (2560, 1440), (1920, 1080), (1280, 720)]"

definition other_label :: "string \<Rightarrow> int \<Rightarrow> int \<Rightarrow> int" where
  "other_label ty width height =
    (case first_reached width [(8192, 4320), (6144, if ty = ''Standard Definition'' then 4320 else 3456), (5120, 2880),
         (4096, 2304), (3072, 1728)] of
       Some l \<Rightarrow> l
     | None \<Rightarrow>
        (if width \<ge> 1920 \<and> height \<ge> 1440 then 1080
         else nullish (first_reached height [(2160, 2160), (1440, 1440), (1080, 1080), (720, 720)]) height))"

definition resolution_label :: "aspect \<Rightarrow> int \<Rightarrow> int \<Rightarrow> int" where
  "resolution_label a width height =
    (if as_type a = ''Widescreen'' then height
     else if as_type a = ''Vertical'' then width
     else if as_type a = ''Ultrawide'' then height
     else (case (if as_type a = ''Cinematic'' then cinematic_label width else None) of
         Some l \<Rightarrow> l
       | None \<Rightarrow> other_label (as_type a) width height))"

definition getFriendlyResolutionLabel :: "js_number \<Rightarrow> js_number \<Rightarrow> (exn + int) option" where
  "getFriendlyResolutionLabel width height = (case getAspectRatio width height of
      None \<Rightarrow> None
    | Some (Inl e) \<Rightarrow> Some (Inl e)
    | Some (Inr a) \<Rightarrow> (case (width, height) of (Some w, Some h) \<Rightarrow> Some (Inr (resolution_label a w h)) | _ \<Rightarrow> None))"

section \<open>Time stamps\<close>

definition digit :: "nat \<Rightarrow> char" where
  "digit n = char_of (48 + n)"

definition pad2 :: "nat \<Rightarrow> string" where
  "pad2 n = [digit (n div 10 mod 10), digit (n mod 10)]"

text \<open>
  \<open>Date\<close> counts whole milliseconds and \<open>toISOString\<close> prints the time of day after ten characters of date and a
  \<open>T\<close>, up to the year 9999; the model stops there (\<open>None\<close>).
\<close>

definition secondsToTimestamp :: "rat \<Rightarrow> string option" where
  "secondsToTimestamp seconds =
    (let posSeconds = \<bar>seconds\<bar>; ms = \<lfloor>posSeconds * 1000\<rfloor>; t = nat (ms div 1000);
         minsec = pad2 (t div 60 mod 60) @ '':'' @ pad2 (t mod 60);
         sub = (if posSeconds \<ge> 3600 then pad2 (t div 3600 mod 24) @ '':'' @ minsec else minsec)
     in if ms \<ge> 253402300800000 then None
        else Some (if seconds < 0 then CHR ''-'' # sub else sub))"

definition digit_value :: "char \<Rightarrow> nat option" where
  "digit_value c = (let n = (of_char c :: nat) in if 48 \<le> n \<and> n \<le> 57 then Some (n - 48) else None)"

text \<open>\<open>parseInt(s, 10)\<close>: white space, a sign, and as many digits as there are; \<open>None\<close> is \<open>NaN\<close>.\<close>

fun parse_digits :: "nat option \<Rightarrow> string \<Rightarrow> nat option" where
  "parse_digits acc [] = acc"
| "parse_digits acc (c # s) = (case digit_value c of
      None \<Rightarrow> acc | Some d \<Rightarrow> parse_digits (Some (nullish acc 0 * 10 + d)) s)"

definition parseInt :: "string \<Rightarrow> int option" where
  "parseInt s = (case dropWhile is_js_space s of
      [] \<Rightarrow> None
    | c # r \<Rightarrow>
       (if c = CHR ''-'' then map_option (\<lambda>n. - int n) (parse_digits None r)
        else if c = CHR ''+'' then map_option int (parse_digits None r)
        else map_option int (parse_digits None (c # r))))"

text \<open>\<open>seconds += spl[i] * 60 ** i\<close>, where \<open>NaN\<close> spreads.\<close>

fun sum_sixties :: "nat \<Rightarrow> int option list \<Rightarrow> int option" where
  "sum_sixties i [] = Some 0"
| "sum_sixties i (v # vs) = (case (v, sum_sixties (i + 1) vs) of
      (Some n, Some r) \<Rightarrow> Some (n * 60 ^ i + r) | _ \<Rightarrow> None)"

definition timestampToSeconds :: "string \<Rightarrow> exn + int option" where
  "timestampToSeconds timestamp =
    (if timestamp = [] then Inl (JsError ''Invalid timestamp'')
     else (let spl = rev (map parseInt (split_on CHR '':'' timestamp))
           in if length spl > 3 \<or> length spl = 0 then Inl (JsError ''Invalid timestamp'') else Inr (sum_sixties 0 spl)))"

definition isInTimeRanges :: "(rat \<times> rat) list \<Rightarrow> rat \<Rightarrow> bool" where
  "isInTimeRanges ranges time = list_ex (\<lambda>(a, b). time \<ge> a \<and> time \<le> b) ranges"

section \<open>Links in texts\<close>

datatype contentItem = TextItem string | LinkItem string

primrec item_text :: "contentItem \<Rightarrow> string" where
  "item_text (TextItem t) = t"
| "item_text (LinkItem t) = t"

text \<open>\<open>/(https?:\/\/[^\s]+)/\<close> at the start of a text: the whole match.\<close>

definition url_body :: "string \<Rightarrow> string \<Rightarrow> string option" where
  "url_body scheme s = (if starts_with scheme s
     then (case takeWhile (\<lambda>c. \<not> is_js_space c) (drop (length scheme) s) of [] \<Rightarrow> None | b \<Rightarrow> Some (scheme @ b)) else None)"

definition url_here :: "string \<Rightarrow> string option" where
  "url_here s = (case url_body ''https://'' s of Some u \<Rightarrow> Some u | None \<Rightarrow> url_body ''http://'' s)"

fun find_url :: "string \<Rightarrow> (nat \<times> string) option" where
  "find_url [] = None"
| "find_url (c # s) = (case url_here (c # s) of
      Some u \<Rightarrow> Some (0, u)
    | None \<Rightarrow> map_option (\<lambda>(i, u). (i + 1, u)) (find_url s))"

definition slice :: "nat \<Rightarrow> nat \<Rightarrow> string \<Rightarrow> string" where
  "slice i j s = take (j - i) (drop i s)"

text \<open>The loop of \<open>processText\<close>: the content so far, the index, and how many links were found.\<close>

function process_loop :: "string \<Rightarrow> contentItem list \<Rightarrow> nat \<Rightarrow> nat \<Rightarrow> contentItem list \<times> nat" where
  "process_loop text content index loop =
    (case find_url (drop index text) of
       None \<Rightarrow> (content, index)
     | Some (mi, m) \<Rightarrow>
        (let c1 = (if mi > index then content @ [TextItem (slice index (index + mi) text)] else content);
             c2 = c1 @ [LinkItem m]; index' = index + mi + length m; loop' = loop + 1
         in if loop' > 10 then (c2, index') else process_loop text c2 index' loop'))"
  by auto
termination
  by (relation "measure (\<lambda>(t, c, i, l). 11 - l)") auto

declare process_loop.simps [simp del]

definition processText :: "string \<Rightarrow> contentItem list" where
  "processText text =
    (if text = [] then []
     else (let (content, index) = process_loop text [] 0 0
           in if index < length text then content @ [TextItem (drop index text)] else content))"

section \<open>Toasts\<close>

datatype toastStyle = Neutral | Success | ErrorStyle | Important

record toast =
  tt_id :: nat
  tt_content :: string
  tt_duration :: "rat option"
  tt_style :: toastStyle
  tt_event :: "serverMessageEvent option"

text \<open>A symbol is a number that was not used before.\<close>

record toastState =
  ts_notifications :: "toast list"
  ts_next :: nat

definition event_type :: "toast \<Rightarrow> nat option" where
  "event_type t = map_option (\<lambda>e. request_type (event_request e)) (tt_event t)"

primrec event_user :: "serverMessageEvent \<Rightarrow> roomUserInfo" where
  "event_user (ServerMessageEvent req u c) = u"

definition event_user_name :: "toast \<Rightarrow> string option" where
  "event_user_name t = map_option (\<lambda>e. ui_name (event_user e)) (tt_event t)"

definition prevPosition :: "toast \<Rightarrow> rat option" where
  "prevPosition t = (case tt_event t of None \<Rightarrow> None | Some e \<Rightarrow> ec_prevPosition (event_additional e))"

definition with_prevPosition :: "rat option \<Rightarrow> toast \<Rightarrow> toast" where
  "with_prevPosition p t = t\<lparr>tt_event := map_option (\<lambda>e. ServerMessageEvent (event_request e) (event_user e)
     ((event_additional e)\<lparr>ec_prevPosition := p\<rparr>)) (tt_event t)\<rparr>"

definition PLAYBACK_REQUEST :: nat where
  "PLAYBACK_REQUEST = 2"

definition SEEK_REQUEST :: nat where
  "SEEK_REQUEST = 4"

text \<open>A playback toast replaces one before it, and so does a seek of the same user, which takes over where it came from.\<close>

definition merge_last :: "toast \<Rightarrow> toast list \<Rightarrow> toast \<times> toast list" where
  "merge_last n ts =
    (if ts \<noteq> [] \<and> event_type n = event_type (last ts)
     then (if event_type (last ts) = Some PLAYBACK_REQUEST then (n, butlast ts)
           else if event_type (last ts) = Some SEEK_REQUEST \<and> event_user_name (last ts) = event_user_name n
           then (with_prevPosition (prevPosition (last ts)) n, butlast ts)
           else (n, ts))
     else (n, ts))"

definition ADD_TOAST :: "toast \<Rightarrow> toastState \<Rightarrow> toastState" where
  "ADD_TOAST n s = (let (n1, ts) = merge_last n (ts_notifications s)
     in s\<lparr>ts_notifications := ts @ [n1\<lparr>tt_id := ts_next s\<rparr>], ts_next := ts_next s + 1\<rparr>)"

text \<open>\<open>_.findIndex\<close> answers -1 for an id that is gone, and \<open>splice(-1, 1)\<close> removes the last element.\<close>

definition toast_index :: "nat \<Rightarrow> toast list \<Rightarrow> nat" where
  "toast_index i ts = length (takeWhile (\<lambda>t. tt_id t \<noteq> i) ts)"

definition REMOVE_TOAST :: "nat \<Rightarrow> toastState \<Rightarrow> toastState" where
  "REMOVE_TOAST i s = (let ts = ts_notifications s; idx = toast_index i ts
     in s\<lparr>ts_notifications := (if idx < length ts then remove_at idx ts else butlast ts)\<rparr>)"

definition CLEAR_ALL_TOASTS :: "toastState \<Rightarrow> toastState" where
  "CLEAR_ALL_TOASTS s = s\<lparr>ts_notifications := []\<rparr>"

section \<open>Keyboard shortcuts\<close>

record keyBinding =
  kb_code :: string
  kb_ctrlKey :: "bool option"
  kb_shiftKey :: "bool option"

record keyBindingStrict =
  ks_code :: string
  ks_ctrlKey :: bool
  ks_shiftKey :: bool

definition strict :: "keyBinding \<Rightarrow> keyBindingStrict" where
  "strict b = \<lparr>ks_code = kb_code b, ks_ctrlKey = nullish (kb_ctrlKey b) False, ks_shiftKey = nullish (kb_shiftKey b) False\<rparr>"

text \<open>An action is known by a number.\<close>

type_synonym shortcuts = "(keyBindingStrict \<times> nat) list"

definition bind_one :: "nat \<Rightarrow> keyBinding \<Rightarrow> shortcuts \<Rightarrow> shortcuts" where
  "bind_one action b ss = (if strict b \<in> set (map fst ss) then ss else ss @ [(strict b, action)])"

definition bind_all :: "keyBinding list \<Rightarrow> nat \<Rightarrow> shortcuts \<Rightarrow> shortcuts" where
  "bind_all bs action = fold (bind_one action) bs"

definition unbind :: "keyBinding \<Rightarrow> shortcuts \<Rightarrow> shortcuts" where
  "unbind b ss = filter (\<lambda>s. fst s \<noteq> strict b) ss"

text \<open>A key pressed in an element with this node name; the action that is called.\<close>

definition handleKeyDown :: "string \<Rightarrow> keyBindingStrict \<Rightarrow> shortcuts \<Rightarrow> nat option" where
  "handleKeyDown nodeName ev ss = (if nodeName \<in> set [''INPUT'', ''TEXTAREA''] then None else map_option snd (find (\<lambda>s. fst s = ev) ss))"

section \<open>Exporting the queue\<close>

definition buildUrlForQueueItem :: "queueItem \<Rightarrow> exn + string" where
  "buildUrlForQueueItem item =
    (if v_service item = ''youtube'' then Inr (''https://youtu.be/'' @ v_id item)
     else if v_service item = ''vimeo'' then Inr (''https://vimeo.com/'' @ v_id item)
     else if v_service item = ''direct'' then Inr (v_id item)
     else if v_service item = ''hls'' then Inr (nullish (v_hls_url item) (v_id item))
     else if v_service item = ''dash'' then Inr (nullish (v_dash_url item) (v_id item))
     else Inl (JsError (''Unknown service: '' @ v_service item)))"

fun join_lines :: "string list \<Rightarrow> string" where
  "join_lines [] = []"
| "join_lines [l] = l"
| "join_lines (l # ls) = l @ CHR 0x0A # join_lines ls"

definition exportQueue :: "queueItem list \<Rightarrow> exn + string" where
  "exportQueue queue = (case all_ok (map buildUrlForQueueItem queue) of Inl e \<Rightarrow> Inl e | Inr urls \<Rightarrow> Inr (join_lines urls))"

section \<open>Ratios are in lowest terms\<close>

lemma js_gcd_ends: "\<exists>g. js_gcd (Some a) (Some b) = Some (Some g) \<and> \<bar>g\<bar> = gcd a b \<and> (0 \<le> a \<and> 0 \<le> b \<longrightarrow> 0 \<le> g)"
proof (induction "nat \<bar>b\<bar>" arbitrary: a b rule: less_induct)
  case less
  show ?case
  proof (cases "b = 0")
    case True
    then show ?thesis by (simp add: js_gcd.simps)
  next
    case False
    let ?r = "sgn a * (\<bar>a\<bar> mod \<bar>b\<bar>)"
    have "nat \<bar>?r\<bar> < nat \<bar>b\<bar>" using False by (simp add: abs_mult)
    from less [OF this, of b] obtain g where
      g: "js_gcd (Some b) (Some ?r) = Some (Some g)" "\<bar>g\<bar> = gcd b ?r" "0 \<le> b \<and> 0 \<le> ?r \<longrightarrow> 0 \<le> g" by blast
    have "gcd b ?r = gcd \<bar>b\<bar> (\<bar>a\<bar> mod \<bar>b\<bar>)"
      by (cases a "0 :: int" rule: linorder_cases) auto
    also have "\<dots> = gcd a b" using gcd_red_int [of "\<bar>a\<bar>" "\<bar>b\<bar>"] by simp
    finally have "\<bar>g\<bar> = gcd a b" using g(2) by simp
    moreover have "0 \<le> a \<longrightarrow> 0 \<le> ?r" using False by (intro impI mult_nonneg_nonneg) (auto simp: sgn_if)
    with g(3) have "0 \<le> a \<and> 0 \<le> b \<longrightarrow> 0 \<le> g" by blast
    ultimately show ?thesis using g(1) False by (simp add: js_gcd.simps [of "Some a"])
  qed
qed

lemma js_gcd_gcd: "0 \<le> a \<Longrightarrow> 0 \<le> b \<Longrightarrow> js_gcd (Some a) (Some b) = Some (Some (gcd a b))"
  using js_gcd_ends [of a b] by auto

lemma js_gcd_NaN_loops:
  assumes "js_gcd a b = Some g"
  shows "b \<noteq> None"
proof (rule js_gcd.raw_induct [of "\<lambda>a b g. b \<noteq> None", OF _ assms])
  fix f a b g
  assume ih: "\<And>a b g. f a b = Some g \<Longrightarrow> b \<noteq> (None :: js_number)"
    and body: "(if b = Some 0 then Some a else f b (js_rem a b)) = Some g"
  show "b \<noteq> None"
  proof
    assume "b = None"
    with body have "f None None = Some g" by (cases a) auto
    from ih [OF this] show False by simp
  qed
qed

lemma js_gcd_first_NaN: "js_gcd None b = Some g \<Longrightarrow> b = Some 0"
proof (rule ccontr)
  assume "js_gcd None b = Some g" and "b \<noteq> Some 0"
  then have "js_gcd b None = Some g" by (simp add: js_gcd.simps [of None])
  then show False using js_gcd_NaN_loops by blast
qed

text \<open>
  C21. When the aspect ratio of a video is computed, the call returns if and only if both numbers are numbers or one of them is
  not positive, for which it throws: the loop of \<open>gcd\<close> ends on all whole numbers, and it never ends once
  a width or a height is \<open>NaN\<close>, which passes the check for positive numbers and is never equal to 0.
\<close>

theorem aspect_ratio_returns_iff:
  "getAspectRatio width height \<noteq> None
    \<longleftrightarrow> (width \<noteq> None \<and> height \<noteq> None) \<or> not_positive width \<or> not_positive height"
proof (cases "not_positive width \<or> not_positive height")
  case False
  show ?thesis
  proof (cases "width \<noteq> None \<and> height \<noteq> None")
    case True
    then obtain w h where wh: "width = Some w" "height = Some h" by blast
    with js_gcd_ends [of w h] False show ?thesis by (auto simp: getAspectRatio_def)
  next
    case nan: False
    have "height \<noteq> Some 0" using False by (auto simp: not_positive_def)
    with nan have "js_gcd width height = None"
      using js_gcd_first_NaN [of height] js_gcd_NaN_loops [of width None] by (cases "js_gcd width height") auto
    with False nan show ?thesis by (simp add: getAspectRatio_def)
  qed
qed (auto simp: getAspectRatio_def)

lemma sixteen_nine:
  fixes p q :: int
  assumes "9 * p = 16 * q" and "coprime p q" and "0 < p" and "0 < q"
  shows "p = 16 \<and> q = 9"
proof -
  have "p dvd 16 * q" using assms(1) by (metis dvd_triv_right)
  then have "p dvd 16" using assms(2) by (simp add: coprime_dvd_mult_left_iff)
  then have "p \<le> 16" by (rule zdvd_imp_le) simp
  moreover have "q dvd 9 * p" using assms(1) by (metis dvd_triv_right)
  then have "q dvd 9" using assms(2) by (metis coprime_commute coprime_dvd_mult_left_iff)
  then have "q \<le> 9" by (rule zdvd_imp_le) simp
  ultimately show ?thesis using assms(1,3,4) by presburger
qed

text \<open>
  C22. The ratio of a video of positive size is that of its width and height in lowest terms, by the greatest common divisor
  that the loop ends with; in particular 16:9 is recognised exactly when nine times the width is sixteen times the
  height, at whatever size.
\<close>

theorem aspect_ratio_lowest_terms:
  assumes "0 < width" and "0 < height"
  shows "\<exists>a. getAspectRatio (Some width) (Some height) = Some (Inr a)
    \<and> width = fst (as_ratio a) * gcd width height \<and> height = snd (as_ratio a) * gcd width height
    \<and> coprime (fst (as_ratio a)) (snd (as_ratio a))
    \<and> (as_type a = ''Widescreen'' \<longleftrightarrow> 9 * width = 16 * height)"
proof -
  let ?g = "gcd width height"
  let ?a = "aspect_of width height ?g"
  have g: "js_gcd (Some width) (Some height) = Some (Some ?g)" "?g \<noteq> 0" using assms js_gcd_gcd by auto
  have w: "width = width div ?g * ?g" "height = height div ?g * ?g" by simp_all
  have c: "coprime (width div ?g) (height div ?g)" using assms by (intro div_gcd_coprime) auto
  have "(width div ?g, height div ?g) = (16, 9) \<longleftrightarrow> 9 * width = 16 * height"
  proof
    assume eq: "9 * width = 16 * height"
    then have "9 * (width div ?g) = 16 * (height div ?g)"
      using w g(2) by (metis (no_types) mult.assoc mult_cancel_right)
    moreover have "0 < width div ?g" "0 < height div ?g"
      using assms by (auto simp: pos_imp_zdiv_pos_iff gcd_le1_int gcd_le2_int)
    ultimately show "(width div ?g, height div ?g) = (16, 9)" using sixteen_nine [OF _ c] by simp
  next
    assume "(width div ?g, height div ?g) = (16, 9)"
    with w show "9 * width = 16 * height" by (metis Pair_inject mult.assoc mult.left_commute)
  qed
  then have "as_type ?a = ''Widescreen'' \<longleftrightarrow> 9 * width = 16 * height" by (simp add: aspect_type_def aspect_of_def Let_def)
  with assms g w c show ?thesis
    by (intro exI [of _ ?a]) (simp add: getAspectRatio_def not_positive_def aspect_of_def Let_def)
qed

theorem aspect_ratio_lowest_terms_witness:
  "\<exists>a. getAspectRatio (Some 1920) (Some 1080) = Some (Inr a) \<and> as_type a = ''Widescreen''"
  using aspect_ratio_lowest_terms [of 1920 1080] by auto

section \<open>Time stamps are read back\<close>

lemma digit_value_digit [simp]: "n < 10 \<Longrightarrow> digit_value (digit n) = Some n"
  by (simp add: digit_value_def digit_def of_char_of Let_def)

lemma digit_facts:
  "n < 10 \<Longrightarrow> digit n \<noteq> CHR '':''" "n < 10 \<Longrightarrow> digit n \<noteq> CHR ''-''" "n < 10 \<Longrightarrow> digit n \<noteq> CHR ''+''"
  "n < 10 \<Longrightarrow> \<not> is_js_space (digit n)"
proof -
  assume n: "n < 10"
  then have d: "(of_char (digit n) :: nat) = 48 + n" by (simp add: digit_def of_char_of)
  then have "(of_char (digit n) :: nat) \<noteq> of_char (CHR '':'')" "(of_char (digit n) :: nat) \<noteq> of_char (CHR ''-'')"
    "(of_char (digit n) :: nat) \<noteq> of_char (CHR ''+'')" using n by simp_all
  then show "digit n \<noteq> CHR '':''" "digit n \<noteq> CHR ''-''" "digit n \<noteq> CHR ''+''" by metis+
  show "\<not> is_js_space (digit n)" using d n by (simp add: is_js_space_def)
qed

lemma parseInt_pad2:
  assumes "n < 100"
  shows "parseInt (pad2 n) = Some (int n)" "parseInt (CHR ''-'' # pad2 n) = Some (- int n)" "CHR '':'' \<notin> set (pad2 n)"
proof -
  have d: "n div 10 mod 10 < 10" "n mod 10 < 10" "n div 10 mod 10 = n div 10" using assms by auto
  have "(n div 10) * 10 + n mod 10 = n" by simp
  then show "parseInt (pad2 n) = Some (int n)" "parseInt (CHR ''-'' # pad2 n) = Some (- int n)"
    using d digit_facts(2-4) [OF d(1)] by (simp_all add: parseInt_def pad2_def is_js_space_def [of "CHR ''-''"])
  show "CHR '':'' \<notin> set (pad2 n)" using digit_facts(1) d by (metis (no_types) pad2_def empty_iff list.set(1) set_ConsD)
qed

lemma pad2_not_Nil [simp]: "pad2 n \<noteq> []"
  by (simp add: pad2_def)

lemma split_on_append:
  assumes "c \<notin> set xs"
  shows "split_on c (xs @ c # ys) = xs # split_on c ys"
  using assms by (induction xs) auto

lemma split_on_none: "c \<notin> set xs \<Longrightarrow> split_on c xs = [xs]"
  by (induction xs) auto

text \<open>What is read from a stamp of hours, minutes and seconds, or of the latter two.\<close>

lemma timestamp_parts:
  assumes "h < 100" "m < 100" "s < 100"
  shows "timestampToSeconds (pad2 m @ '':'' @ pad2 s) = Inr (Some (int (60 * m + s)))"
    and "timestampToSeconds (pad2 h @ '':'' @ pad2 m @ '':'' @ pad2 s) = Inr (Some (int (3600 * h + 60 * m + s)))"
    and "timestampToSeconds (CHR ''-'' # pad2 m @ '':'' @ pad2 s) = Inr (Some (int s - int (60 * m)))"
proof -
  have "split_on CHR '':'' (pad2 m @ '':'' @ pad2 s) = [pad2 m, pad2 s]"
    "split_on CHR '':'' (pad2 h @ '':'' @ pad2 m @ '':'' @ pad2 s) = [pad2 h, pad2 m, pad2 s]"
    "split_on CHR '':'' (CHR ''-'' # pad2 m @ '':'' @ pad2 s) = [CHR ''-'' # pad2 m, pad2 s]"
    using assms parseInt_pad2(3) by (simp_all add: split_on_append split_on_none)
  with assms show "timestampToSeconds (pad2 m @ '':'' @ pad2 s) = Inr (Some (int (60 * m + s)))"
    "timestampToSeconds (pad2 h @ '':'' @ pad2 m @ '':'' @ pad2 s) = Inr (Some (int (3600 * h + 60 * m + s)))"
    "timestampToSeconds (CHR ''-'' # pad2 m @ '':'' @ pad2 s) = Inr (Some (int s - int (60 * m)))"
    by (simp_all add: timestampToSeconds_def parseInt_pad2)
qed

lemma floor_millis: "nat (\<lfloor>s * 1000\<rfloor> div 1000) = nat \<lfloor>s\<rfloor>" for s :: rat
proof -
  have d: "k div 1000 = q" if "q * 1000 \<le> k" "k < (q + 1) * 1000" for k q :: int
    using that by (intro int_div_pos_eq [of _ _ _ "k - q * 1000"]) auto
  have "of_int (\<lfloor>s\<rfloor> * 1000) \<le> s * 1000" using of_int_floor_le [of s] by simp
  then have "\<lfloor>s\<rfloor> * 1000 \<le> \<lfloor>s * 1000\<rfloor>" by (simp only: le_floor_iff)
  moreover have "s * 1000 < of_int ((\<lfloor>s\<rfloor> + 1) * 1000)" using floor_correct [of s] by simp
  then have "\<lfloor>s * 1000\<rfloor> < (\<lfloor>s\<rfloor> + 1) * 1000" by (simp only: floor_less_iff)
  ultimately show ?thesis using d by simp
qed

lemma secondsToTimestamp_short:
  fixes s :: rat
  assumes "0 \<le> s" and "s < 86400"
  shows "secondsToTimestamp s = Some (if s \<ge> 3600
    then pad2 (nat \<lfloor>s\<rfloor> div 3600) @ '':'' @ pad2 (nat \<lfloor>s\<rfloor> div 60 mod 60) @ '':'' @ pad2 (nat \<lfloor>s\<rfloor> mod 60)
    else pad2 (nat \<lfloor>s\<rfloor> div 60) @ '':'' @ pad2 (nat \<lfloor>s\<rfloor> mod 60))"
proof -
  have "\<lfloor>s * 1000\<rfloor> < 253402300800000" using assms(2) by (simp add: floor_less_iff)
  moreover have "nat \<lfloor>s\<rfloor> < 86400" using assms by (simp add: nat_less_iff floor_less_iff)
  moreover have "nat \<lfloor>s\<rfloor> < 3600" if "\<not> s \<ge> 3600" using that assms by (simp add: nat_less_iff floor_less_iff)
  ultimately show ?thesis using assms(1) by (auto simp: secondsToTimestamp_def Let_def floor_millis)
qed

text \<open>
  C23. Within a day a time stamp is read back as the time it shows: for every length or position of less than 24
  hours, \<open>timestampToSeconds\<close> of its stamp is the number of its whole seconds.
\<close>

theorem timestamp_roundtrip:
  assumes "0 \<le> s" and "s < 86400"
  shows "\<exists>t. secondsToTimestamp s = Some t \<and> timestampToSeconds t = Inr (Some \<lfloor>s\<rfloor>)"
proof -
  let ?n = "nat \<lfloor>s\<rfloor>"
  have n: "?n < 86400" "int ?n = \<lfloor>s\<rfloor>" using assms by (simp_all add: nat_less_iff floor_less_iff)
  have m: "a mod 60 < 100" for a :: nat using mod_less_divisor [of 60 a] by simp
  show ?thesis
  proof (cases "s \<ge> 3600")
    case True
    have "?n div 3600 = ?n div 60 div 60" by (simp add: div_mult2_eq [symmetric])
    moreover have "60 * (?n div 60 div 60) + ?n div 60 mod 60 = ?n div 60" "60 * (?n div 60) + ?n mod 60 = ?n"
      by (rule mult_div_mod_eq)+
    ultimately have "3600 * (?n div 3600) + 60 * (?n div 60 mod 60) + ?n mod 60 = ?n" by linarith
    with True n m timestamp_parts(2) [of "?n div 3600" "?n div 60 mod 60" "?n mod 60"] show ?thesis
      by (auto simp: secondsToTimestamp_short [OF assms])
  next
    case False
    then have "?n < 3600" using assms by (simp add: nat_less_iff floor_less_iff)
    moreover have "60 * (?n div 60) + ?n mod 60 = ?n" by (rule mult_div_mod_eq)
    ultimately show ?thesis using False n(2) m timestamp_parts(1) [of 0 "?n div 60" "?n mod 60"]
      by (auto simp: secondsToTimestamp_short [OF assms])
  qed
qed

theorem timestamp_roundtrip_witness:
  "\<exists>t. secondsToTimestamp (7384 + 1 / 2) = Some t \<and> timestampToSeconds t = Inr (Some 7384)"
proof -
  have "\<lfloor>7384 + 1 / 2 :: rat\<rfloor> = 7384" by (rule floor_unique) simp_all
  with timestamp_roundtrip [of "7384 + 1 / 2"] show ?thesis by simp
qed

text \<open>Stamps of negative times are not: from a minute on, the seconds count in the other direction.\<close>

lemma negative_timestamp_misread:
  fixes n :: nat
  assumes "60 \<le> n" and "n < 3600"
  shows "\<exists>t. secondsToTimestamp (- of_nat n) = Some t
    \<and> timestampToSeconds t = Inr (Some (int (n mod 60) - int (60 * (n div 60))))"
proof -
  have m: "n mod 60 < 100" using mod_less_divisor [of 60 n] by simp
  have s: "secondsToTimestamp (of_nat n) = Some (pad2 (n div 60) @ '':'' @ pad2 (n mod 60))"
    using assms secondsToTimestamp_short [of "of_nat n"] by simp
  then have "secondsToTimestamp (- of_nat n) = Some (CHR ''-'' # pad2 (n div 60) @ '':'' @ pad2 (n mod 60))"
    using assms by (auto simp: secondsToTimestamp_def Let_def split: if_splits)
  with assms m timestamp_parts(3) [of 0 "n div 60" "n mod 60"] show ?thesis by simp
qed

section \<open>Links are links\<close>

definition is_url :: "string \<Rightarrow> bool" where
  "is_url u \<longleftrightarrow> (\<exists>scheme body. scheme \<in> set [''http://'', ''https://''] \<and> u = scheme @ body \<and> body \<noteq> []
     \<and> list_all (\<lambda>c. \<not> is_js_space c) body)"

lemma url_body_Some: "url_body scheme s = Some u \<Longrightarrow> \<exists>body. u = scheme @ body \<and> body \<noteq> []
    \<and> list_all (\<lambda>c. \<not> is_js_space c) body \<and> (\<exists>rest. s = u @ rest)"
proof -
  assume u: "url_body scheme s = Some u"
  let ?r = "drop (length scheme) s"
  let ?b = "takeWhile (\<lambda>c. \<not> is_js_space c) ?r"
  from u have "starts_with scheme s" "?b \<noteq> []" "u = scheme @ ?b"
    by (auto simp: url_body_def split: if_splits list.splits)
  moreover from this(1) have "s = scheme @ ?r" by (metis append_take_drop_id starts_with_def)
  then have "s = (scheme @ ?b) @ dropWhile (\<lambda>c. \<not> is_js_space c) ?r" by simp
  moreover have "list_all (\<lambda>c. \<not> is_js_space c) ?b" by (auto simp: list_all_iff dest: set_takeWhileD)
  ultimately show ?thesis by blast
qed

lemma url_here_Some: "url_here s = Some u \<Longrightarrow> is_url u \<and> (\<exists>rest. s = u @ rest)"
  unfolding url_here_def is_url_def
  by (auto split: option.splits dest!: url_body_Some)

lemma find_url_Some: "find_url s = Some (i, u) \<Longrightarrow> is_url u \<and> (\<exists>pre rest. s = pre @ u @ rest \<and> length pre = i)"
proof (induction s arbitrary: i)
  case (Cons c s)
  show ?case
  proof (cases "url_here (c # s)")
    case (Some v)
    with Cons.prems url_here_Some [OF Some] show ?thesis by auto
  next
    case None
    with Cons.prems obtain j where j: "find_url s = Some (j, u)" "i = j + 1" by auto
    from Cons.IH [OF j(1)] obtain pre rest where "is_url u" "s = pre @ u @ rest" "length pre = j" by blast
    then have "is_url u" "c # s = (c # pre) @ u @ rest" "length (c # pre) = i" using j(2) by simp_all
    then show ?thesis by blast
  qed
qed simp

fun is_link :: "contentItem \<Rightarrow> bool" where
  "is_link (LinkItem t) = True"
| "is_link (TextItem t) = False"

definition items_ok :: "string \<Rightarrow> contentItem list \<Rightarrow> bool" where
  "items_ok msg items \<longleftrightarrow> (\<forall>it\<in>set items. (\<exists>pre rest. msg = pre @ item_text it @ rest) \<and> (is_link it \<longrightarrow> is_url (item_text it)))"

lemma slice_inside: "\<exists>pre rest. msg = pre @ slice i j msg @ rest"
  by (metis append_take_drop_id slice_def)

lemma process_loop_ok:
  assumes "items_ok msg content" and "loop \<le> 10" and "length (filter is_link content) = loop"
  shows "items_ok msg (fst (process_loop msg content index loop))
    \<and> length (filter is_link (fst (process_loop msg content index loop))) \<le> 11"
  using assms
proof (induction msg content index loop rule: process_loop.induct)
  case (1 msg content index loop)
  show ?case
  proof (cases "find_url (drop index msg)")
    case None
    with "1.prems" show ?thesis by (simp add: process_loop.simps [of msg content])
  next
    case (Some p)
    obtain mi m where p: "p = (mi, m)" by (cases p)
    let ?c1 = "if mi > index then content @ [TextItem (slice index (index + mi) msg)] else content"
    let ?c2 = "?c1 @ [LinkItem m]"
    from Some p obtain pre rest where m: "is_url m" "drop index msg = pre @ m @ rest" using find_url_Some by blast
    then have "msg = (take index msg @ pre) @ m @ rest" by (metis append.assoc append_take_drop_id)
    then have "\<exists>pre rest. msg = pre @ m @ rest" by blast
    then have ok: "items_ok msg ?c2" "length (filter is_link ?c2) = loop + 1"
      using "1.prems" m(1) slice_inside [of msg index "index + mi"] by (auto simp: items_ok_def)
    show ?thesis
    proof (cases "loop + 1 > 10")
      case True
      with ok Some p "1.prems" show ?thesis by (simp add: process_loop.simps [of msg content] Let_def)
    next
      case False
      with "1.IH" [OF Some p [symmetric] refl refl refl refl False ok(1) _ ok(2)] Some p show ?thesis
        by (simp add: process_loop.simps [of msg content] Let_def)
    qed
  qed
qed

text \<open>
  What is shown of a message never links anywhere but to the web: every item is a part of the msg, every link
  begins with http:// or https:// and contains no white space, so that no other scheme becomes the target of a link,
  and there are eleven links at most.
\<close>

theorem links_are_urls:
  "(\<forall>it\<in>set (processText msg). \<exists>pre rest. msg = pre @ item_text it @ rest)
    \<and> (\<forall>it\<in>set (processText msg). is_link it \<longrightarrow> is_url (item_text it))
    \<and> length (filter is_link (processText msg)) \<le> 11"
proof (cases "msg = []")
  case False
  obtain content index where l: "process_loop msg [] 0 0 = (content, index)" by (cases "process_loop msg [] 0 0")
  have "items_ok msg content \<and> length (filter is_link content) \<le> 11"
    using process_loop_ok [of msg "[]" 0 0] l by (simp add: items_ok_def)
  moreover have "\<exists>pre rest. msg = pre @ drop index msg @ rest" by (metis append_take_drop_id append_Nil2)
  ultimately show ?thesis using l False by (auto simp: processText_def items_ok_def)
qed (simp add: processText_def)

theorem links_are_urls_witness:
  "LinkItem ''http://a.b'' \<in> set (processText ''see http://a.b'') \<and> is_url ''http://a.b''"
proof -
  have l: "LinkItem ''http://a.b'' \<in> set (processText ''see http://a.b'')" by code_simp
  then have "is_link (LinkItem ''http://a.b'') \<longrightarrow> is_url (item_text (LinkItem ''http://a.b''))"
    using links_are_urls [of "''see http://a.b''"] by blast
  with l show ?thesis by simp
qed

text \<open>
  The place of a match is counted from the end of the previous one but compared with the index in the whole text:
  what stands between two links is lost when it is no longer than what came before.
\<close>

lemma text_between_links_lost:
  "processText ''http://a.b and http://c.d'' = [LinkItem ''http://a.b'', LinkItem ''http://c.d'']"
  "processText ''see http://a.b'' = [TextItem ''see '', LinkItem ''http://a.b'']"
  by code_simp+

section \<open>Toasts\<close>

definition is_seek_of :: "string \<Rightarrow> toast \<Rightarrow> bool" where
  "is_seek_of user t \<longleftrightarrow> event_type t = Some SEEK_REQUEST \<and> event_user_name t = Some user"

lemma with_prevPosition_simps [simp]:
  "event_type (with_prevPosition p t) = event_type t" "event_user_name (with_prevPosition p t) = event_user_name t"
  "tt_event t \<noteq> None \<Longrightarrow> prevPosition (with_prevPosition p t) = p"
  "map_option event_request (tt_event (with_prevPosition p t)) = map_option event_request (tt_event t)"
  by (auto simp: with_prevPosition_def event_type_def event_user_name_def prevPosition_def option.map_comp comp_def
      split: option.split)

lemma id_toast_simps [simp]:
  "event_type (t\<lparr>tt_id := i\<rparr>) = event_type t" "event_user_name (t\<lparr>tt_id := i\<rparr>) = event_user_name t"
  "prevPosition (t\<lparr>tt_id := i\<rparr>) = prevPosition t"
  by (simp_all add: event_type_def event_user_name_def prevPosition_def)

lemma seek_replaces_seek:
  assumes "is_seek_of user n" and "ts_notifications s = ts @ [l]" and "is_seek_of user l"
  shows "\<exists>t. ts_notifications (ADD_TOAST n s) = ts @ [t] \<and> is_seek_of user t \<and> prevPosition t = prevPosition l
    \<and> map_option event_request (tt_event t) = map_option event_request (tt_event n)"
proof -
  have e: "tt_event n \<noteq> None" using assms(1) by (auto simp: is_seek_of_def event_type_def)
  have "merge_last n (ts_notifications s) = (with_prevPosition (prevPosition l) n, ts)"
    using assms by (simp add: merge_last_def is_seek_of_def SEEK_REQUEST_def PLAYBACK_REQUEST_def)
  then have "ts_notifications (ADD_TOAST n s) = ts @ [(with_prevPosition (prevPosition l) n)\<lparr>tt_id := ts_next s\<rparr>]"
    by (simp add: ADD_TOAST_def)
  with assms(1) e show ?thesis by (simp add: is_seek_of_def)
qed

lemma seeks_replace_seek:
  assumes "\<forall>n\<in>set ns. is_seek_of user n" and "ts_notifications s = ts @ [l]" and "is_seek_of user l"
  shows "\<exists>t. ts_notifications (fold ADD_TOAST ns s) = ts @ [t] \<and> is_seek_of user t \<and> prevPosition t = prevPosition l
    \<and> map_option event_request (tt_event t) = map_option event_request (tt_event (last (l # ns)))"
  using assms
proof (induction ns arbitrary: s l)
  case (Cons n ns)
  from seek_replaces_seek [of user n s ts l] Cons.prems obtain t where
    t: "ts_notifications (ADD_TOAST n s) = ts @ [t]" "is_seek_of user t" "prevPosition t = prevPosition l"
    "map_option event_request (tt_event t) = map_option event_request (tt_event n)" by auto
  from Cons.IH [OF _ t(1,2)] Cons.prems(1) obtain t' where
    "ts_notifications (fold ADD_TOAST ns (ADD_TOAST n s)) = ts @ [t']" "is_seek_of user t'" "prevPosition t' = prevPosition t"
    "map_option event_request (tt_event t') = map_option event_request (tt_event (last (t # ns)))" by auto
  with t show ?case by (cases ns) auto
qed simp

text \<open>
  One undo for a series of seeks: however often in a row a user seeks, only one toast remains of it, which shows
  the last request and, since it carries the position from before the first of them, undoes them all.
\<close>

theorem seeks_undone_together:
  assumes "\<forall>n\<in>set (first # rest). is_seek_of user n"
    and "ts_notifications s = [] \<or> \<not> is_seek_of user (last (ts_notifications s))"
  shows "\<exists>t. ts_notifications (fold ADD_TOAST (first # rest) s) = ts_notifications s @ [t]
    \<and> prevPosition t = prevPosition first
    \<and> map_option event_request (tt_event t) = map_option event_request (tt_event (last (first # rest)))"
proof -
  have "merge_last first (ts_notifications s) = (first, ts_notifications s)"
    using assms by (auto simp: merge_last_def is_seek_of_def SEEK_REQUEST_def PLAYBACK_REQUEST_def)
  then have f: "ts_notifications (ADD_TOAST first s) = ts_notifications s @ [first\<lparr>tt_id := ts_next s\<rparr>]"
    by (simp add: ADD_TOAST_def)
  have "is_seek_of user (first\<lparr>tt_id := ts_next s\<rparr>)" using assms(1) by (simp add: is_seek_of_def)
  from seeks_replace_seek [OF _ f this, of rest] assms(1) show ?thesis by (cases rest) auto
qed

text \<open>Removing a toast that is gone already removes the newest one.\<close>

lemma remove_gone_drops_newest:
  assumes "\<forall>t\<in>set (ts_notifications s). tt_id t \<noteq> i"
  shows "ts_notifications (REMOVE_TOAST i s) = butlast (ts_notifications s)"
proof -
  have "toast_index i (ts_notifications s) = length (ts_notifications s)"
    unfolding toast_index_def using assms by (simp add: takeWhile_eq_all_conv [THEN iffD2])
  then show ?thesis by (simp add: REMOVE_TOAST_def Let_def)
qed

definition demo_user :: roomUserInfo where
  "demo_user = \<lparr>ui_id = ''c'', ui_name = ''ann'', ui_isLoggedIn = False, ui_status = PsReady, ui_role = UnregisteredUser\<rparr>"

definition demo_seek :: "rat \<Rightarrow> rat \<Rightarrow> toast" where
  "demo_seek a b = \<lparr>tt_id = 0, tt_content = [], tt_duration = None, tt_style = Neutral,
     tt_event = Some (ServerMessageEvent (SeekRequest (Some b)) demo_user (no_context\<lparr>ec_prevPosition := Some a\<rparr>))\<rparr>"

lemma demo_seek_facts: "is_seek_of ''ann'' (demo_seek a b)" "prevPosition (demo_seek a b) = Some a"
  by (simp_all add: is_seek_of_def event_type_def event_user_name_def prevPosition_def demo_seek_def demo_user_def SEEK_REQUEST_def)

theorem seeks_undone_together_witness:
  "\<exists>t. ts_notifications (fold ADD_TOAST [demo_seek 5 10, demo_seek 10 20] \<lparr>ts_notifications = [], ts_next = 0\<rparr>) = [t]
     \<and> prevPosition t = Some 5"
  using seeks_undone_together [of "demo_seek 5 10" "[demo_seek 10 20]" "''ann''" "\<lparr>ts_notifications = [], ts_next = 0\<rparr>"]
  by (auto simp: demo_seek_facts)

section \<open>Keyboard shortcuts\<close>

lemma handleKeyDown_append: "handleKeyDown nn ev (ss @ [(k, act)]) =
    (case handleKeyDown nn ev ss of Some a \<Rightarrow> Some a
     | None \<Rightarrow> if nn \<notin> set [''INPUT'', ''TEXTAREA''] \<and> k = ev then Some act else None)"
  by (induction ss) (auto simp: handleKeyDown_def)

lemma bound_key_handled: "ev \<in> set (map fst ss) \<Longrightarrow> nn \<notin> set [''INPUT'', ''TEXTAREA'']
    \<Longrightarrow> \<exists>a. handleKeyDown nn ev ss = Some a"
  by (induction ss) (auto simp: handleKeyDown_def)

text \<open>The first action bound to a key keeps it: binding more keys changes nothing for the keys that had an action.\<close>

lemma bind_keeps_bound:
  "handleKeyDown nn ev (bind_all bs act ss) =
    (case handleKeyDown nn ev ss of Some a \<Rightarrow> Some a
     | None \<Rightarrow> if nn \<notin> set [''INPUT'', ''TEXTAREA''] \<and> ev \<in> strict ` set bs then Some act else None)"
proof (induction bs arbitrary: ss)
  case (Cons b bs)
  have "handleKeyDown nn ev (bind_one act b ss) = (case handleKeyDown nn ev ss of Some a \<Rightarrow> Some a
     | None \<Rightarrow> if nn \<notin> set [''INPUT'', ''TEXTAREA''] \<and> strict b = ev then Some act else None)"
  proof (cases "strict b \<in> set (map fst ss)")
    case True
    then have "bind_one act b ss = ss" by (simp only: bind_one_def if_True)
    moreover have "\<exists>a. handleKeyDown nn (strict b) ss = Some a" if "nn \<notin> set [''INPUT'', ''TEXTAREA'']"
      using True that by (rule bound_key_handled)
    ultimately show ?thesis by (cases "handleKeyDown nn ev ss"; cases "strict b = ev") auto
  next
    case False
    then have "bind_one act b ss = ss @ [(strict b, act)]" by (simp only: bind_one_def if_False)
    then show ?thesis by (simp only: handleKeyDown_append)
  qed
  with Cons.IH [of "bind_one act b ss"] show ?case by (auto simp: bind_all_def split: option.split)
qed (simp add: bind_all_def split: option.split)

section \<open>Exports\<close>

definition exportable :: "string list" where
  "exportable = [''youtube'', ''vimeo'', ''direct'', ''hls'', ''dash'']"

text \<open>One item of any other service makes the export of the whole queue fail.\<close>

lemma export_needs_known_services:
  "(\<exists>t. exportQueue queue = Inr t) \<longleftrightarrow> (\<forall>item\<in>set queue. v_service item \<in> set exportable)"
proof -
  have "(\<exists>t. exportQueue queue = Inr t) \<longleftrightarrow> (\<forall>item\<in>set queue. \<exists>u. buildUrlForQueueItem item = Inr u)"
    using all_ok_iff [of "map buildUrlForQueueItem queue"] by (auto simp: exportQueue_def split: sum.split)
  also have "(\<forall>item\<in>set queue. \<exists>u. buildUrlForQueueItem item = Inr u)
      \<longleftrightarrow> (\<forall>item\<in>set queue. v_service item \<in> set exportable)"
    by (auto simp: buildUrlForQueueItem_def exportable_def)
  finally show ?thesis .
qed

end
