(* ===== verification/JsRegex.thy ===== *)
theory JsRegex
  imports Prelude
begin

text \<open>
  Regular expressions of JavaScript, as far as the service adapters use them: a backtracking matcher that lists the
  ways in which an expression matches at a position, the preferred one first, with the captured groups. \<open>exec\<close> tries the
  positions from left to right. The second half relates the matcher to the language of an expression.
\<close>

section \<open>Matching\<close>

datatype rx =
    Eps
  | Chr "char \<Rightarrow> bool"
  | Seq rx rx
  | Alt rx rx
  | Star rx
  | LazyStar rx
  | Group nat rx
  | AtStart
  | AtEnd
  | NotAhead rx

type_synonym captures = "(nat \<times> string) list"

text \<open>
  What is left after a match, with the captures: \<open>n\<close> is the length of the whole text. A repetition goes on only after
  a match that is not empty.
\<close>

fun rx_run :: "nat \<Rightarrow> rx \<Rightarrow> string \<Rightarrow> captures \<Rightarrow> (string \<times> captures) list" where
  "rx_run n Eps s g = [(s, g)]"
| "rx_run n (Chr p) s g = (case s of [] \<Rightarrow> [] | c # r \<Rightarrow> if p c then [(r, g)] else [])"
| "rx_run n (Seq a b) s g = concat (map (\<lambda>(r, h). rx_run n b r h) (rx_run n a s g))"
| "rx_run n (Alt a b) s g = rx_run n a s g @ rx_run n b s g"
| "rx_run n (Star a) s g =
    concat (map (\<lambda>(r, h). if length r < length s then rx_run n (Star a) r h else []) (rx_run n a s g)) @ [(s, g)]"
| "rx_run n (LazyStar a) s g =
    (s, g) # concat (map (\<lambda>(r, h). if length r < length s then rx_run n (LazyStar a) r h else []) (rx_run n a s g))"
| "rx_run n (Group i a) s g = map (\<lambda>(r, h). (r, AList.update i (take (length s - length r) s) h)) (rx_run n a s g)"
| "rx_run n AtStart s g = (if length s = n then [(s, g)] else [])"
| "rx_run n AtEnd s g = (if s = [] then [(s, g)] else [])"
| "rx_run n (NotAhead a) s g = (if rx_run n a s [] = [] then [(s, g)] else [])"

declare rx_run.simps(5,6) [simp del]

record rxMatch =
  rm_index :: nat
  rm_match :: string
  rm_groups :: captures

text \<open>\<open>regex.exec(s)\<close>: the first position with a match.\<close>

fun rx_search :: "nat \<Rightarrow> rx \<Rightarrow> string \<Rightarrow> rxMatch option" where
  "rx_search n a s = (case rx_run n a s [] of
      (r, g) # _ \<Rightarrow> Some \<lparr>rm_index = n - length s, rm_match = take (length s - length r) s, rm_groups = g\<rparr>
    | [] \<Rightarrow> (case s of [] \<Rightarrow> None | c # s' \<Rightarrow> rx_search n a s'))"

declare rx_search.simps [simp del]

definition rx_exec :: "rx \<Rightarrow> string \<Rightarrow> rxMatch option" where
  "rx_exec a s = rx_search (length s) a s"

definition rx_test :: "rx \<Rightarrow> string \<Rightarrow> bool" where
  "rx_test a s \<longleftrightarrow> rx_exec a s \<noteq> None"

definition rx_group :: "nat \<Rightarrow> rxMatch \<Rightarrow> string option" where
  "rx_group i m = map_of (rm_groups m) i"

text \<open>\<open>regex.exec(s)?.[i]\<close>\<close>

definition group_in :: "rx \<Rightarrow> nat \<Rightarrow> string \<Rightarrow> string option" where
  "group_in a i s = Option.bind (rx_exec a s) (rx_group i)"

section \<open>Building expressions\<close>

definition lit :: "string \<Rightarrow> rx" where
  "lit s = foldr (\<lambda>c. Seq (Chr (\<lambda>x. x = c))) s Eps"

definition lit_i :: "string \<Rightarrow> rx" where
  "lit_i s = foldr (\<lambda>c. Seq (Chr (\<lambda>x. ascii_lower x = c))) s Eps"

definition Opt :: "rx \<Rightarrow> rx" where
  "Opt a = Alt a Eps"

definition Plus :: "rx \<Rightarrow> rx" where
  "Plus a = Seq a (Star a)"

definition LazyPlus :: "rx \<Rightarrow> rx" where
  "LazyPlus a = Seq a (LazyStar a)"

fun Times :: "nat \<Rightarrow> rx \<Rightarrow> rx" where
  "Times 0 a = Eps"
| "Times (Suc k) a = Seq a (Times k a)"

definition seq_of :: "rx list \<Rightarrow> rx" where
  "seq_of as = foldr Seq as Eps"

fun any_of :: "rx list \<Rightarrow> rx" where
  "any_of [] = Chr (\<lambda>c. False)"
| "any_of [a] = a"
| "any_of (a # as) = Alt a (any_of as)"

definition is_digit_char :: "char \<Rightarrow> bool" where
  "is_digit_char c = (let n = (of_char c :: nat) in 48 \<le> n \<and> n \<le> 57)"

definition is_lower_char :: "char \<Rightarrow> bool" where
  "is_lower_char c = (let n = (of_char c :: nat) in 97 \<le> n \<and> n \<le> 122)"

text \<open>\<open>\w\<close> and \<open>[A-Za-z0-9_-]\<close>\<close>

definition is_word_char :: "char \<Rightarrow> bool" where
  "is_word_char c \<longleftrightarrow> is_alnum c \<or> c = CHR ''_''"

definition is_id_char :: "char \<Rightarrow> bool" where
  "is_id_char c \<longleftrightarrow> is_word_char c \<or> c = CHR ''-''"

text \<open>The dot, which matches anything but the end of a line.\<close>

definition not_newline :: "char \<Rightarrow> bool" where
  "not_newline c \<longleftrightarrow> c \<noteq> CHR 0x0A \<and> c \<noteq> CHR 0x0D"

text \<open>\<open>^[...]+$\<close>\<close>

definition whole :: "(char \<Rightarrow> bool) \<Rightarrow> rx" where
  "whole p = Seq AtStart (Seq (Plus (Chr p)) AtEnd)"

section \<open>The language of an expression\<close>

inductive rx_lang :: "rx \<Rightarrow> string \<Rightarrow> bool" where
  lang_eps: "rx_lang Eps []"
| lang_chr: "p c \<Longrightarrow> rx_lang (Chr p) [c]"
| lang_seq: "rx_lang a u \<Longrightarrow> rx_lang b v \<Longrightarrow> rx_lang (Seq a b) (u @ v)"
| lang_alt1: "rx_lang a u \<Longrightarrow> rx_lang (Alt a b) u"
| lang_alt2: "rx_lang b u \<Longrightarrow> rx_lang (Alt a b) u"
| lang_star0: "rx_lang (Star a) []"
| lang_star: "rx_lang a u \<Longrightarrow> u \<noteq> [] \<Longrightarrow> rx_lang (Star a) v \<Longrightarrow> rx_lang (Star a) (u @ v)"
| lang_lazy0: "rx_lang (LazyStar a) []"
| lang_lazy: "rx_lang a u \<Longrightarrow> u \<noteq> [] \<Longrightarrow> rx_lang (LazyStar a) v \<Longrightarrow> rx_lang (LazyStar a) (u @ v)"
| lang_group: "rx_lang a u \<Longrightarrow> rx_lang (Group i a) u"
| lang_start: "rx_lang AtStart []"
| lang_end: "rx_lang AtEnd []"
| lang_ahead: "rx_lang (NotAhead a) []"

inductive_cases lang_SeqE: "rx_lang (Seq a b) u"
inductive_cases lang_AltE: "rx_lang (Alt a b) u"
inductive_cases lang_ChrE: "rx_lang (Chr p) u"
inductive_cases lang_EpsE: "rx_lang Eps u"
inductive_cases lang_GroupE: "rx_lang (Group i a) u"
inductive_cases lang_StartE: "rx_lang AtStart u"
inductive_cases lang_EndE: "rx_lang AtEnd u"

text \<open>What the matcher finds is in the language.\<close>

lemma rx_run_sound:
  "(r, h) \<in> set (rx_run n a s g) \<Longrightarrow> \<exists>u. s = u @ r \<and> rx_lang a u"
proof (induction n a s g arbitrary: r h rule: rx_run.induct)
  case (2 n p s g)
  then show ?case by (auto split: list.splits if_splits intro: lang_chr)
next
  case (3 n a b s g)
  from "3.prems" obtain r1 h1 where m: "(r1, h1) \<in> set (rx_run n a s g)" "(r, h) \<in> set (rx_run n b r1 h1)" by auto
  from "3.IH"(1) [OF m(1)] obtain u where u: "s = u @ r1" "rx_lang a u" by blast
  from "3.IH"(2) [OF m(1) refl m(2)] obtain v where "r1 = v @ r" "rx_lang b v" by blast
  with u show ?case by (intro exI [of _ "u @ v"]) (auto intro: lang_seq)
next
  case (4 n a b s g)
  from "4.prems" have "(r, h) \<in> set (rx_run n a s g) \<or> (r, h) \<in> set (rx_run n b s g)" by simp
  with "4.IH" show ?case by (blast intro: lang_alt1 lang_alt2)
next
  case (5 n a s g)
  show ?case
  proof (cases "(r, h) = (s, g)")
    case False
    with "5.prems" obtain r1 h1 where m: "(r1, h1) \<in> set (rx_run n a s g)" "length r1 < length s"
      "(r, h) \<in> set (rx_run n (Star a) r1 h1)" by (auto simp: rx_run.simps(5) [of n a s g] split: if_splits)
    from "5.IH"(1) [OF m(1)] obtain u where u: "s = u @ r1" "rx_lang a u" by blast
    from "5.IH"(2) [OF m(1) refl m(2,3)] obtain v where "r1 = v @ r" "rx_lang (Star a) v" by blast
    with u m(2) show ?thesis by (intro exI [of _ "u @ v"]) (auto intro: lang_star)
  qed (auto intro: lang_star0)
next
  case (6 n a s g)
  show ?case
  proof (cases "(r, h) = (s, g)")
    case False
    with "6.prems" obtain r1 h1 where m: "(r1, h1) \<in> set (rx_run n a s g)" "length r1 < length s"
      "(r, h) \<in> set (rx_run n (LazyStar a) r1 h1)" by (auto simp: rx_run.simps(6) [of n a s g] split: if_splits)
    from "6.IH"(1) [OF m(1)] obtain u where u: "s = u @ r1" "rx_lang a u" by blast
    from "6.IH"(2) [OF m(1) refl m(2,3)] obtain v where "r1 = v @ r" "rx_lang (LazyStar a) v" by blast
    with u m(2) show ?thesis by (intro exI [of _ "u @ v"]) (auto intro: lang_lazy)
  qed (auto intro: lang_lazy0)
next
  case (7 n i a s g)
  then show ?case by (fastforce intro: lang_group)
qed (auto split: if_splits intro: rx_lang.intros)

text \<open>Expressions without anchors match every word of their language.\<close>

fun unanchored :: "rx \<Rightarrow> bool" where
  "unanchored (Seq a b) = (unanchored a \<and> unanchored b)"
| "unanchored (Alt a b) = (unanchored a \<and> unanchored b)"
| "unanchored (Star a) = unanchored a"
| "unanchored (LazyStar a) = unanchored a"
| "unanchored (Group i a) = unanchored a"
| "unanchored AtStart = False"
| "unanchored AtEnd = False"
| "unanchored (NotAhead a) = False"
| "unanchored a = True"

lemma run_SeqI:
  "(r1, h1) \<in> set (rx_run n a s g) \<Longrightarrow> (r, h) \<in> set (rx_run n b r1 h1) \<Longrightarrow> (r, h) \<in> set (rx_run n (Seq a b) s g)"
  by force

lemma run_StarI:
  assumes "(r1, h1) \<in> set (rx_run n a s g)" and "length r1 < length s"
  shows "(r, h) \<in> set (rx_run n (Star a) r1 h1) \<Longrightarrow> (r, h) \<in> set (rx_run n (Star a) s g)"
    and "(r, h) \<in> set (rx_run n (LazyStar a) r1 h1) \<Longrightarrow> (r, h) \<in> set (rx_run n (LazyStar a) s g)"
  by (subst rx_run.simps, use assms in force)+

lemma run_Star0: "(s, g) \<in> set (rx_run n (Star a) s g)" "(s, g) \<in> set (rx_run n (LazyStar a) s g)"
  by (subst rx_run.simps, simp)+

lemma rx_run_complete:
  "rx_lang a u \<Longrightarrow> unanchored a \<Longrightarrow> \<exists>h. (r, h) \<in> set (rx_run n a (u @ r) g)"
proof (induction arbitrary: r g rule: rx_lang.induct)
  case (lang_seq a u b v)
  then have "unanchored a" "unanchored b" by simp_all
  from lang_seq.IH(1) [OF this(1), of "v @ r" g] lang_seq.IH(2) [OF this(2), of r] show ?case
    unfolding append_assoc by (blast intro: run_SeqI)
next
  case (lang_star a u v)
  then have "unanchored a" "unanchored (Star a)" "length (v @ r) < length (u @ v @ r)" by simp_all
  from lang_star.IH(1) [OF this(1), of "v @ r" g] lang_star.IH(2) [OF this(2), of r] this(3) show ?case
    unfolding append_assoc by (blast intro: run_StarI(1))
next
  case (lang_lazy a u v)
  then have "unanchored a" "unanchored (LazyStar a)" "length (v @ r) < length (u @ v @ r)" by simp_all
  from lang_lazy.IH(1) [OF this(1), of "v @ r" g] lang_lazy.IH(2) [OF this(2), of r] this(3) show ?case
    unfolding append_assoc by (blast intro: run_StarI(2))
next
  case (lang_group a u i)
  then obtain h where "(r, h) \<in> set (rx_run n a (u @ r) g)" by fastforce
  then show ?case by (force simp: image_iff)
next
  case (lang_alt1 a u b)
  then show ?case by fastforce
next
  case (lang_alt2 b u a)
  then show ?case by fastforce
qed (auto intro: run_Star0)

section \<open>Facts about particular expressions\<close>

lemma lang_plus_chr: "rx_lang (Plus (Chr p)) u \<longleftrightarrow> u \<noteq> [] \<and> list_all p u"
proof
  have star: "rx_lang b v \<Longrightarrow> b = Star (Chr p) \<Longrightarrow> list_all p v" for b v
    by (induction rule: rx_lang.induct) (auto elim: lang_ChrE)
  assume "rx_lang (Plus (Chr p)) u"
  then show "u \<noteq> [] \<and> list_all p u" by (auto simp: Plus_def elim!: lang_SeqE lang_ChrE dest: star)
next
  have star: "list_all p v \<Longrightarrow> rx_lang (Star (Chr p)) v" for v
  proof (induction v)
    case (Cons c v)
    then have "rx_lang (Star (Chr p)) ([c] @ v)" by (intro lang_star lang_chr) auto
    then show ?case by simp
  qed (rule lang_star0)
  assume "u \<noteq> [] \<and> list_all p u"
  then obtain c v where "u = [c] @ v" "p c" "list_all p v" by (cases u) auto
  then show "rx_lang (Plus (Chr p)) u" unfolding Plus_def by (auto intro: lang_seq lang_chr star simp del: append_Cons append_Nil)
qed

lemma whole_run: "rx_run n (whole p) s g \<noteq> [] \<longleftrightarrow> length s = n \<and> s \<noteq> [] \<and> list_all p s"
proof
  assume "rx_run n (whole p) s g \<noteq> []"
  then obtain r h where "(r, h) \<in> set (rx_run n (whole p) s g)" by (metis list.set_intros(1) neq_Nil_conv surj_pair)
  then have l: "length s = n" "([], h) \<in> set (rx_run n (Seq (Plus (Chr p)) AtEnd) s g)"
    by (auto simp: whole_def split: if_splits)
  from rx_run_sound [OF l(2)] have "rx_lang (Seq (Plus (Chr p)) AtEnd) s" by simp
  then show "length s = n \<and> s \<noteq> [] \<and> list_all p s" using l(1) by (auto elim!: lang_SeqE lang_EndE simp: lang_plus_chr)
next
  assume s: "length s = n \<and> s \<noteq> [] \<and> list_all p s"
  then have "rx_lang (Plus (Chr p)) s" by (simp add: lang_plus_chr)
  from rx_run_complete [OF this, of "[]" n g] obtain h where "([], h) \<in> set (rx_run n (Plus (Chr p)) s g)"
    by (auto simp: Plus_def)
  then have "([], h) \<in> set (rx_run n (Seq (Plus (Chr p)) AtEnd) s g)" by (rule run_SeqI) simp
  then have "([], h) \<in> set (rx_run n (whole p) s g)" unfolding whole_def using s by (intro run_SeqI [of s g n AtStart s g]) simp_all
  then show "rx_run n (whole p) s g \<noteq> []" by auto
qed

text \<open>\<open>/^[...]+$/.test(s)\<close>\<close>

lemma rx_test_whole [simp]: "rx_test (whole p) s \<longleftrightarrow> s \<noteq> [] \<and> list_all p s"
proof -
  have later: "length t < n \<Longrightarrow> rx_search n (whole p) t = None" for t n
  proof (induction t)
    case Nil
    then have "rx_run n (whole p) [] [] = []" using whole_run [of n p "[]" "[]"] by blast
    then show ?case by (simp add: rx_search.simps)
  next
    case (Cons c t)
    then have "rx_run n (whole p) (c # t) [] = []" using whole_run [of n p "c # t" "[]"] by auto
    with Cons show ?case by (simp add: rx_search.simps [of n _ "c # t"])
  qed
  show ?thesis
  proof (cases "rx_run (length s) (whole p) s []")
    case Nil
    then have "\<not> (s \<noteq> [] \<and> list_all p s)" using whole_run [of "length s" p s "[]"] by auto
    moreover have "rx_search (length s) (whole p) s = None"
      using Nil later by (subst rx_search.simps) (simp split: list.split)
    ultimately show ?thesis by (simp add: rx_test_def rx_exec_def)
  next
    case (Cons m ms)
    then have "s \<noteq> [] \<and> list_all p s" using whole_run [of "length s" p s "[]"] by auto
    with Cons show ?thesis by (cases m) (simp add: rx_test_def rx_exec_def rx_search.simps [of "length s" _ s])
  qed
qed

section \<open>Captured groups\<close>

fun group_body :: "nat \<Rightarrow> rx \<Rightarrow> rx list" where
  "group_body i (Seq a b) = group_body i a @ group_body i b"
| "group_body i (Alt a b) = group_body i a @ group_body i b"
| "group_body i (Star a) = group_body i a"
| "group_body i (LazyStar a) = group_body i a"
| "group_body i (Group j a) = (if i = j then [a] else []) @ group_body i a"
| "group_body i a = []"

lemma map_of_update_cases:
  "map_of (AList.update k v xs) i = Some x \<Longrightarrow> i = k \<and> x = v \<or> map_of xs i = Some x"
  by (auto simp: update_conv split: if_splits)

lemma rx_run_captures:
  "(r, h) \<in> set (rx_run n a s g) \<Longrightarrow> map_of h i = Some x
    \<Longrightarrow> map_of g i = Some x \<or> (\<exists>b \<in> set (group_body i a). rx_lang b x)"
proof (induction n a s g arbitrary: r h rule: rx_run.induct)
  case (3 n a b s g)
  from "3.prems"(1) obtain r1 h1 where m: "(r1, h1) \<in> set (rx_run n a s g)" "(r, h) \<in> set (rx_run n b r1 h1)" by auto
  from "3.IH"(2) [OF m(1) refl m(2) "3.prems"(2)] "3.IH"(1) [OF m(1)] show ?case by auto
next
  case (4 n a b s g)
  from "4.prems"(1) have "(r, h) \<in> set (rx_run n a s g) \<or> (r, h) \<in> set (rx_run n b s g)" by simp
  with "4.IH" "4.prems"(2) show ?case by auto
next
  case (5 n a s g)
  show ?case
  proof (cases "(r, h) = (s, g)")
    case False
    with "5.prems" obtain r1 h1 where m: "(r1, h1) \<in> set (rx_run n a s g)" "length r1 < length s"
      "(r, h) \<in> set (rx_run n (Star a) r1 h1)" by (auto simp: rx_run.simps(5) [of n a s g] split: if_splits)
    from "5.IH"(2) [OF m(1) refl m(2,3) "5.prems"(2)] "5.IH"(1) [OF m(1)] show ?thesis by auto
  qed (use "5.prems" in auto)
next
  case (6 n a s g)
  show ?case
  proof (cases "(r, h) = (s, g)")
    case False
    with "6.prems" obtain r1 h1 where m: "(r1, h1) \<in> set (rx_run n a s g)" "length r1 < length s"
      "(r, h) \<in> set (rx_run n (LazyStar a) r1 h1)" by (auto simp: rx_run.simps(6) [of n a s g] split: if_splits)
    from "6.IH"(2) [OF m(1) refl m(2,3) "6.prems"(2)] "6.IH"(1) [OF m(1)] show ?thesis by auto
  qed (use "6.prems" in auto)
next
  case (7 n j a s g)
  from "7.prems"(1) obtain h0 where m: "(r, h0) \<in> set (rx_run n a s g)"
    and h: "h = AList.update j (take (length s - length r) s) h0" by auto
  from rx_run_sound [OF m] obtain u where u: "s = u @ r" "rx_lang a u" by blast
  from map_of_update_cases [OF "7.prems"(2) [unfolded h]] show ?case
  proof
    assume "i = j \<and> x = take (length s - length r) s"
    with u show ?thesis by simp
  next
    assume "map_of h0 i = Some x"
    with "7.IH" [OF m] show ?thesis by auto
  qed
qed (auto split: list.splits if_splits)

lemma rx_search_step:
  assumes "rx_run n a t [] = p # ps" "rx_search n a t = Some m"
  shows "(fst p, rm_groups m) \<in> set (rx_run n a t [])"
proof -
  from assms have "rm_groups m = snd p" by (cases p) (auto simp: rx_search.simps [of n a t])
  with assms(1) show ?thesis by simp
qed

lemma rx_search_some: "rx_search n a s = Some m \<Longrightarrow> \<exists>t r. (r, rm_groups m) \<in> set (rx_run n a t [])"
proof (induction s)
  case Nil
  then obtain p ps where "rx_run n a [] [] = p # ps"
    by (cases "rx_run n a [] []") (auto simp: rx_search.simps [of n a "[]"])
  from rx_search_step [OF this Nil] show ?case by blast
next
  case (Cons c s)
  show ?case
  proof (cases "rx_run n a (c # s) []")
    case Nil
    with Cons show ?thesis by (simp add: rx_search.simps [of n a "c # s"])
  next
    case m: (Cons p ps)
    show ?thesis using rx_search_step [OF m Cons.prems] by blast
  qed
qed

lemma group_in_lang: "group_in a i s = Some x \<Longrightarrow> \<exists>b \<in> set (group_body i a). rx_lang b x"
  unfolding group_in_def rx_exec_def rx_group_def
  by (auto split: Option.bind_splits dest!: rx_search_some dest: rx_run_captures)

lemma group_body_lit [simp]: "group_body i (lit s) = []"
  by (induction s) (simp_all add: lit_def)

lemma group_body_seq_of [simp]: "group_body i (seq_of as) = concat (map (group_body i) as)"
  by (induction as) (simp_all add: seq_of_def)

lemma lang_lit: "rx_lang (lit s) x \<Longrightarrow> x = s"
  by (induction s arbitrary: x) (auto simp: lit_def elim!: lang_EpsE lang_SeqE lang_ChrE)

end
