(* ===== verification/MediaAdapters.thy ===== *)
theory MediaAdapters
  imports ServiceAdapters ClientHelpers JsRegex
begin

text \<open>
  The smaller adapters of \<open>server/services\<close>: Vimeo, HLS, DASH, Reddit, Google Drive, PeerTube and Tubi, with
  \<open>server/services/parsing/iso8601.ts\<close>. The URL parser (\<open>new URL\<close>), what the services answer to a request (as the
  parsed text) and the parsers of manifests are arguments.
\<close>

section \<open>Durations\<close>

definition is_digit :: "char \<Rightarrow> bool" where
  "is_digit c \<longleftrightarrow> digit_value c \<noteq> None"

text \<open>The group \<open>(\d+X)?\<close>: the digits when the unit follows them, and what is left.\<close>

definition unit_group :: "(char \<Rightarrow> bool) \<Rightarrow> char \<Rightarrow> string \<Rightarrow> string option \<times> string" where
  "unit_group ok u s = (case dropWhile ok s of
      c # r \<Rightarrow> (if c = u \<and> takeWhile ok s \<noteq> [] then (Some (takeWhile ok s), r) else (None, s))
    | [] \<Rightarrow> (None, s))"

text \<open>The four groups after the first \<open>P\<close>.\<close>

definition duration_groups :: "string \<Rightarrow> (string option \<times> string option \<times> string option \<times> string option) option" where
  "duration_groups s = (case dropWhile (\<lambda>c. c \<noteq> CHR ''P'') s of
      [] \<Rightarrow> None
    | _ # r \<Rightarrow> (let (d, r1) = unit_group is_digit CHR ''D'' r in
       (case r1 of
          c # r2 \<Rightarrow> (if c = CHR ''T''
            then (let (h, r3) = unit_group is_digit CHR ''H'' r2; (m, r4) = unit_group is_digit CHR ''M'' r3;
                      (sec, r5) = unit_group (\<lambda>c. is_digit c \<or> c = CHR ''.'') CHR ''S'' r4
                  in Some (d, h, m, sec))
            else Some (d, None, None, None))
        | [] \<Rightarrow> Some (d, None, None, None))))"

text \<open>\<open>parseFloat\<close> of digits and points: the whole part, and a fraction after the first point; \<open>None\<close> is \<open>NaN\<close>.\<close>

definition fraction :: "string \<Rightarrow> rat" where
  "fraction s = of_nat (nullish (parse_digits None s) 0) / 10 ^ length (takeWhile is_digit s)"

definition parseFloat :: "string \<Rightarrow> rat option" where
  "parseFloat s = (case dropWhile is_digit s of
      c # r \<Rightarrow> (if c = CHR ''.'' \<and> (takeWhile is_digit s \<noteq> [] \<or> takeWhile is_digit r \<noteq> [])
        then Some (of_nat (nullish (parse_digits None s) 0) + fraction r)
        else map_option of_nat (parse_digits None s))
    | [] \<Rightarrow> map_option of_nat (parse_digits None s))"

definition parseIso8601Duration :: "string \<Rightarrow> exn + rat" where
  "parseIso8601Duration duration = (case duration_groups duration of
      None \<Rightarrow> Inl (JsError (''Failed to parse duration: '' @ duration))
    | Some (d, h, m, s) \<Rightarrow> Inr (of_int (nullish (parseInt (nullish d ''0'')) 0) * (24 * 3600)
        + of_int (nullish (parseInt (nullish h ''0'')) 0) * 3600 + of_int (nullish (parseInt (nullish m ''0'')) 0) * 60
        + nullish (parseFloat (nullish s ''0'')) 0))"

section \<open>URLs and requests\<close>

text \<open>What is read of a \<open>URL\<close>, and how a request can fail: with what is thrown, and what is read of it.\<close>

record webUrl =
  wu_protocol :: string
  wu_host :: string
  wu_hostname :: string
  wu_pathname :: string
  wu_params :: "(string \<times> string) list"
  wu_text :: string

type_synonym url_parser = "string \<Rightarrow> exn + webUrl"

definition search_param :: "string \<Rightarrow> webUrl \<Rightarrow> string option" where
  "search_param k u = map_of (wu_params u) k"

text \<open>The status of the response, if there is one, and the first reason of an error of the service's API in its body.\<close>

record httpError =
  he_exn :: exn
  he_isAxios :: bool
  he_status :: "int option"
  he_apiError :: "string option"
  he_timeout :: bool

type_synonym 'a http = "httpError + 'a"

definition rethrow :: "'a http \<Rightarrow> exn + 'a" where
  "rethrow r = map_sum he_exn id r"

definition undefined_error :: "string \<Rightarrow> exn" where
  "undefined_error p = JsTypeError (''Cannot read properties of undefined (reading '' @ squoted p @ '')'')"

definition last_piece :: "string \<Rightarrow> string" where
  "last_piece path = js_trim (last (split_on CHR ''/'' path))"

definition nth_opt :: "'a list \<Rightarrow> nat \<Rightarrow> 'a option" where
  "nth_opt xs i = (if i < length xs then Some (xs ! i) else None)"

text \<open>\<open>ss.join(sep)\<close>\<close>

fun join_with :: "string \<Rightarrow> string list \<Rightarrow> string" where
  "join_with sep [] = []"
| "join_with sep [s] = s"
| "join_with sep (s # ss) = s @ sep @ join_with sep ss"

text \<open>\<open>s.includes(t)\<close>\<close>

fun js_includes :: "string \<Rightarrow> string \<Rightarrow> bool" where
  "js_includes t [] = (t = [])"
| "js_includes t (c # s) = (starts_with t (c # s) \<or> js_includes t s)"

text \<open>What the adapters have in common that read every property again each time.\<close>

definition on_url :: "url_parser \<Rightarrow> (webUrl \<Rightarrow> exn + 'a) \<Rightarrow> string \<Rightarrow> exn + 'a" where
  "on_url parse f link = (case parse link of Inl e \<Rightarrow> Inl e | Inr u \<Rightarrow> f u)"

section \<open>Vimeo\<close>

record vimeoVideo =
  vm_title :: "string option"
  vm_description :: "string option"
  vm_thumbnail_url :: "string option"
  vm_duration :: "rat option"

record vimeoWorld =
  vw_url :: url_parser
  vw_get :: "string \<Rightarrow> vimeoVideo http"

definition VIMEO_VIDEO_PATH_REGEX :: rx where
  "VIMEO_VIDEO_PATH_REGEX = seq_of [AtStart, lit ''/'', Plus (Chr is_digit_char), AtEnd]"

definition VIMEO_NUMERIC_ID_REGEX :: rx where
  "VIMEO_NUMERIC_ID_REGEX = whole is_digit_char"

definition vimeo_canHandleURL :: "vimeoWorld \<Rightarrow> string \<Rightarrow> exn + bool" where
  "vimeo_canHandleURL w = on_url (vw_url w) (\<lambda>u. Inr
     ((wu_hostname u = ''vimeo.com'' \<or> ends_with ''.vimeo.com'' (wu_hostname u)) \<and> rx_test VIMEO_VIDEO_PATH_REGEX (wu_pathname u)))"

definition vimeo_getVideoId :: "vimeoWorld \<Rightarrow> string \<Rightarrow> exn + string" where
  "vimeo_getVideoId w = on_url (vw_url w) (\<lambda>u. Inr (last_piece (wu_pathname u)))"

definition vimeo_fetchVideoInfo :: "vimeoWorld \<Rightarrow> string \<Rightarrow> exn + video" where
  "vimeo_fetchVideoInfo w videoId =
    (if \<not> rx_test VIMEO_NUMERIC_ID_REGEX videoId then Inl (InvalidVideoIdException ''vimeo'' videoId)
     else map_sum id (\<lambda>d. (bare_video ''vimeo'' videoId)\<lparr>v_title := vm_title d, v_description := vm_description d,
         v_thumbnail := vm_thumbnail_url d, v_length := vm_duration d\<rparr>) (rethrow (vw_get w (''https://vimeo.com/'' @ videoId))))"

definition vimeo_adapter :: "vimeoWorld \<Rightarrow> serviceAdapter" where
  "vimeo_adapter w = (base_adapter ''vimeo'')\<lparr>sa_isCacheSafe := False, sa_canHandleURL := vimeo_canHandleURL w,
     sa_isCollectionURL := (\<lambda>link. Inr False), sa_getVideoId := vimeo_getVideoId w,
     sa_fetchVideoInfo := (\<lambda>i props. vimeo_fetchVideoInfo w i),
     sa_fetchManyVideoInfo := base_fetchManyVideoInfo (\<lambda>i props. vimeo_fetchVideoInfo w i)\<rparr>"

section \<open>HLS\<close>

record playlistItem =
  pl_bandwidth :: "rat option"
  pl_uri :: string

record hlsManifest =
  hm_playlists :: "playlistItem list option"
  hm_segments :: "(rat \<times> string option) list"

record hlsWorld =
  hw_parse :: "string \<Rightarrow> parsedUrl"
  hw_get :: "string \<Rightarrow> exn + hlsManifest"
  hw_resolve :: "string \<Rightarrow> string \<Rightarrow> string"

definition HLS_URL_REGEX :: rx where
  "HLS_URL_REGEX = seq_of [Star (lit ''/''), lit ''.'', lit ''m3u'', Opt (lit ''8''), AtEnd]"

definition hls_canHandleURL :: "hlsWorld \<Rightarrow> string \<Rightarrow> exn + bool" where
  "hls_canHandleURL w link = Inr (rx_test HLS_URL_REGEX (media_path (hw_parse w link)))"

text \<open>The accumulator starts with an infinite bandwidth and no address: \<open>None\<close>.\<close>

definition less_bandwidth :: "playlistItem \<Rightarrow> playlistItem option \<Rightarrow> bool" where
  "less_bandwidth cur acc = (case acc of None \<Rightarrow> True | Some a \<Rightarrow> nullish (pl_bandwidth cur) 0 < nullish (pl_bandwidth a) 0)"

definition lowestBitratePlaylist :: "playlistItem list \<Rightarrow> playlistItem option" where
  "lowestBitratePlaylist ps = fold (\<lambda>cur acc. if less_bandwidth cur acc then Some cur else acc) ps None"

text \<open>The duration and the title of a media playlist.\<close>

definition media_playlist :: "hlsManifest \<Rightarrow> exn + rat \<times> string option" where
  "media_playlist m = (case hm_segments m of
      [] \<Rightarrow> Inl (undefined_error ''title'')
    | (d, t) # rest \<Rightarrow> Inr (sum_list (map fst (hm_segments m)), t))"

definition hls_playlist :: "hlsWorld \<Rightarrow> string \<Rightarrow> hlsManifest \<Rightarrow> exn + rat \<times> string option" where
  "hls_playlist w href m = (case lowestBitratePlaylist (nullish (hm_playlists m) []) of
      None \<Rightarrow> media_playlist m
    | Some p \<Rightarrow> (case hw_get w (hw_resolve w href (pl_uri p)) of Inl e \<Rightarrow> Inl e | Inr m2 \<Rightarrow> media_playlist m2))"

definition handleM3u8 :: "hlsWorld \<Rightarrow> string \<Rightarrow> exn + video" where
  "handleM3u8 w href = (case hw_get w href of
      Inl e \<Rightarrow> Inl e
    | Inr m \<Rightarrow> (case hls_playlist w href m of
        Inl e \<Rightarrow> Inl e
      | Inr (duration, title) \<Rightarrow>
         (if duration = 0 then Inl (M3u8ParseError ''Duration of the selected playlist is 0'')
          else Inr ((bare_video ''hls'' href)\<lparr>v_title := Some (nullish title href), v_description := Some (''Full Link: '' @ href),
            v_mime := Some ''application/x-mpegURL'', v_length := Some duration, v_hls_url := Some href\<rparr>))))"

text \<open>What HLS and DASH check before they fetch the manifest.\<close>

definition manifest_link :: "parsedUrl \<Rightarrow> (string \<Rightarrow> exn + video) \<Rightarrow> exn + video" where
  "manifest_link u handle =
    (let mime = nullish (getMimeType (url_extension u)) ''unknown'' in
     if pu_protocol u = Some ''file:'' then Inl LocalFileException
     else if \<not> isSupportedMimeType mime then Inl (UnsupportedMimeTypeException mime) else handle (pu_href u))"

definition hls_fetchVideoInfo :: "hlsWorld \<Rightarrow> string \<Rightarrow> exn + video" where
  "hls_fetchVideoInfo w link = manifest_link (hw_parse w link) (handleM3u8 w)"

definition link_adapter :: "string \<Rightarrow> (string \<Rightarrow> exn + bool) \<Rightarrow> (string \<Rightarrow> exn + video) \<Rightarrow> serviceAdapter" where
  "link_adapter service canHandle fetch = (base_adapter service)\<lparr>sa_isCacheSafe := False, sa_canHandleURL := canHandle,
     sa_isCollectionURL := (\<lambda>link. Inr False), sa_getVideoId := Inr, sa_fetchVideoInfo := (\<lambda>link props. fetch link),
     sa_fetchManyVideoInfo := base_fetchManyVideoInfo (\<lambda>link props. fetch link)\<rparr>"

definition hls_adapter :: "hlsWorld \<Rightarrow> serviceAdapter" where
  "hls_adapter w = link_adapter ''hls'' (hls_canHandleURL w) (hls_fetchVideoInfo w)"

section \<open>DASH\<close>

text \<open>
  A manifest, as far as it is read; an array or an object that is missing is \<open>None\<close>, and so is the title of a
  representation without one.
\<close>

record mpdManifest =
  mp_duration :: "string option"
  mp_programTitle :: "string option option"
  mp_periods :: "string option list option list option list option"

record dashWorld =
  dw2_parse :: "string \<Rightarrow> parsedUrl"
  dw2_get :: "string \<Rightarrow> exn + mpdManifest"

datatype 'a search = Found 'a | Absent | Broken

text \<open>A loop over what may be missing, up to the first hit.\<close>

fun search_each :: "('a \<Rightarrow> 'b search) \<Rightarrow> 'a list \<Rightarrow> 'b search" where
  "search_each f [] = Absent"
| "search_each f (x # xs) = (case f x of Absent \<Rightarrow> search_each f xs | r \<Rightarrow> r)"

definition search_in :: "('a \<Rightarrow> 'b search) \<Rightarrow> 'a list option \<Rightarrow> 'b search" where
  "search_in f xs = (case xs of None \<Rightarrow> Broken | Some ys \<Rightarrow> search_each f ys)"

definition extractTitle :: "mpdManifest \<Rightarrow> string option" where
  "extractTitle m = (case mp_programTitle m of
      Some t \<Rightarrow> t
    | None \<Rightarrow> (case search_in (search_in (search_in (\<lambda>t. case t of None \<Rightarrow> Absent | Some s \<Rightarrow> Found s))) (mp_periods m) of
        Found s \<Rightarrow> Some s | _ \<Rightarrow> None))"

definition parseMpdManifest :: "parsedUrl \<Rightarrow> mpdManifest \<Rightarrow> exn + video" where
  "parseMpdManifest u m =
    (if \<not> truthy_str (mp_duration m) then Inl (UnsupportedVideoType ''livestream'')
     else (case parseIso8601Duration (nullish (mp_duration m) []) of
         Inl e \<Rightarrow> Inl e
       | Inr duration \<Rightarrow> Inr ((bare_video ''dash'' (pu_href u))\<lparr>
           v_title := Some (nullish (extractTitle m) (nullish (map_option (\<lambda>p. last (split_on CHR ''/'' p)) (pu_pathname u)) (pu_href u))),
           v_description := Some (''Full Link: '' @ pu_href u), v_mime := Some ''application/dash+xml'',
           v_length := Some duration, v_dash_url := Some (pu_href u)\<rparr>)))"

definition DASH_URL_REGEX :: rx where
  "DASH_URL_REGEX = seq_of [Star (lit ''/''), lit ''.'', lit ''mpd'', AtEnd]"

definition dash_canHandleURL :: "dashWorld \<Rightarrow> string \<Rightarrow> exn + bool" where
  "dash_canHandleURL w link = Inr (rx_test DASH_URL_REGEX (media_path (dw2_parse w link)))"

definition dash_fetchVideoInfo :: "dashWorld \<Rightarrow> string \<Rightarrow> exn + video" where
  "dash_fetchVideoInfo w link = manifest_link (dw2_parse w link) (\<lambda>href.
     case dw2_get w href of Inl e \<Rightarrow> Inl e | Inr m \<Rightarrow> parseMpdManifest (dw2_parse w link) m)"

definition dash_adapter :: "dashWorld \<Rightarrow> serviceAdapter" where
  "dash_adapter w = link_adapter ''dash'' (dash_canHandleURL w) (dash_fetchVideoInfo w)"

section \<open>Reddit\<close>

record redditVideo =
  rv_hls_url :: string
  rv_duration :: rat

text \<open>The property \<open>media\<close> of a post may be missing, \<open>null\<close>, a video, or something embedded.\<close>

datatype redditMedia = MediaMissing | MediaNull | MediaVideo redditVideo | MediaEmbed

record redditPost =
  rp_id :: string
  rp_title :: string
  rp_permalink :: string
  rp_url :: string
  rp_thumbnail :: string
  rp_is_video :: bool
  rp_media :: redditMedia

datatype redditThing = Listing "redditThing list" | Post redditPost | Comment

text \<open>An answer is a list of listings or a single one.\<close>

datatype redditReply = Many "redditThing list" | Single redditThing

record redditWorld =
  rw_url :: url_parser
  rw_set_pathname :: "webUrl \<Rightarrow> string \<Rightarrow> string"
  rw_get :: "string \<Rightarrow> redditReply http"

definition REDDIT_SUBREDDIT_PATH_REGEX :: rx where
  "REDDIT_SUBREDDIT_PATH_REGEX = seq_of [AtStart, lit ''/r/'', Plus (Chr not_newline), AtEnd]"

definition REDDIT_COMMENTS_PATH_REGEX :: rx where
  "REDDIT_COMMENTS_PATH_REGEX = seq_of [lit ''/comments/'', Plus (Chr not_newline)]"

definition reddit_canHandleURL :: "redditWorld \<Rightarrow> string \<Rightarrow> exn + bool" where
  "reddit_canHandleURL w = on_url (rw_url w) (\<lambda>u. Inr (ends_with ''reddit.com'' (wu_host u)
     \<and> (rx_test REDDIT_SUBREDDIT_PATH_REGEX (wu_pathname u) \<or> rx_test REDDIT_COMMENTS_PATH_REGEX (wu_pathname u))))"

definition reddit_isCollectionURL :: "string \<Rightarrow> exn + bool" where
  "reddit_isCollectionURL link = Inr (\<not> js_includes ''comments'' link)"

definition reddit_post :: "redditPost \<Rightarrow> exn + resolvedVideo list" where
  "reddit_post p =
    (if rp_is_video p \<and> rp_media p \<noteq> MediaMissing
     then (case rp_media p of
         MediaVideo rv \<Rightarrow> Inr [ResolvedVideo ((bare_video ''reddit'' (rp_id p))\<lparr>v_title := Some (rp_title p),
           v_description := Some (rp_permalink p), v_length := Some (rv_duration rv), v_thumbnail := Some (rp_thumbnail p),
           v_hls_url := Some (rv_hls_url rv), v_mime := Some ''application/x-mpegURL''\<rparr>)]
       | MediaNull \<Rightarrow> Inl (JsTypeError ''Cannot use 'in' operator to search for 'reddit_video' in null'')
       | _ \<Rightarrow> Inr [])
     else Inr (if rp_url p \<noteq> [] then [ResolvedUrl (rp_url p)] else []))"

fun extractVideos :: "redditThing \<Rightarrow> exn + resolvedVideo list" where
  "extractVideos (Listing things) = map_sum id concat (all_ok (map extractVideos things))"
| "extractVideos (Post p) = reddit_post p"
| "extractVideos Comment = Inr []"

definition reddit_resolveURL :: "redditWorld \<Rightarrow> string \<Rightarrow> exn + resolvedURL" where
  "reddit_resolveURL w = on_url (rw_url w) (\<lambda>u.
     let link = (if ends_with ''.json'' (wu_pathname u) then wu_text u else rw_set_pathname w u (wu_pathname u @ ''.json''))
     in (case rethrow (rw_get w link) of
         Inl e \<Rightarrow> Inl e
       | Inr (Many []) \<Rightarrow> Inl (undefined_error ''kind'')
       | Inr (Many (t # ts)) \<Rightarrow> map_sum id ResolvedList (extractVideos t)
       | Inr (Single t) \<Rightarrow> map_sum id ResolvedList (extractVideos t)))"

text \<open>The piece after \<open>comments\<close>; a missing piece is \<open>undefined\<close>, which later becomes that text.\<close>

definition reddit_getVideoId :: "string \<Rightarrow> exn + string" where
  "reddit_getVideoId url =
    (let fragments = split_on CHR ''/'' url;
         next_one = (case find_index (\<lambda>f. f = ''comments'') fragments of None \<Rightarrow> 0 | Some i \<Rightarrow> i + 1)
     in Inr (nullish (nth_opt fragments next_one) ''undefined''))"

definition reddit_fetchVideoInfo :: "redditWorld \<Rightarrow> string \<Rightarrow> exn + video" where
  "reddit_fetchVideoInfo w i = (case rethrow (rw_get w (''https://reddit.com/comments/'' @ i @ ''.json'')) of
      Inl e \<Rightarrow> Inl e
    | Inr (Many (t # ts)) \<Rightarrow> (case extractVideos t of
        Inl e \<Rightarrow> Inl e
      | Inr (ResolvedVideo v # rest) \<Rightarrow> Inr v
      | Inr (ResolvedUrl u # rest) \<Rightarrow> Inl (InvalidVideoIdException ''reddit'' i)
      | Inr [] \<Rightarrow> Inl (JsTypeError ''Cannot use 'in' operator to search for 'url' in undefined''))
    | Inr _ \<Rightarrow> Inl (undefined_error ''kind''))"

definition reddit_adapter :: "redditWorld \<Rightarrow> serviceAdapter" where
  "reddit_adapter w = (base_adapter ''reddit'')\<lparr>sa_isCacheSafe := False, sa_canHandleURL := reddit_canHandleURL w,
     sa_isCollectionURL := reddit_isCollectionURL, sa_getVideoId := reddit_getVideoId,
     sa_fetchVideoInfo := (\<lambda>i props. reddit_fetchVideoInfo w i),
     sa_fetchManyVideoInfo := base_fetchManyVideoInfo (\<lambda>i props. reddit_fetchVideoInfo w i),
     sa_resolveURL := reddit_resolveURL w\<rparr>"

section \<open>Google Drive\<close>

record googleFile =
  gf_id :: string
  gf_name :: string
  gf_thumbnailLink :: "string option"
  gf_durationMillis :: "rat option"
  gf_mimeType :: string

record googleWorld =
  gw_url :: url_parser
  gw_apiKey :: string
  gw_file :: "string \<Rightarrow> googleFile http"
  gw_folder :: "string \<Rightarrow> googleFile list http"

definition GOOGLE_DRIVE_FOLDER_PATH_REGEX :: rx where
  "GOOGLE_DRIVE_FOLDER_PATH_REGEX = seq_of [AtStart, lit ''/drive/u/'', Chr is_digit_char, lit ''/folders/'']"

definition GOOGLE_DRIVE_VIDEO_ID_REGEX :: rx where
  "GOOGLE_DRIVE_VIDEO_ID_REGEX = whole is_id_char"

definition google_canHandleURL :: "googleWorld \<Rightarrow> string \<Rightarrow> exn + bool" where
  "google_canHandleURL w = on_url (gw_url w) (\<lambda>u. Inr (ends_with ''drive.google.com'' (wu_host u)))"

definition isFolderURL :: "webUrl \<Rightarrow> bool" where
  "isFolderURL u = starts_with ''/drive'' (wu_pathname u)"

text \<open>\<open>split("/")[i].split("?")[0].trim()\<close>\<close>

definition folder_piece :: "nat \<Rightarrow> string \<Rightarrow> exn + string" where
  "folder_piece i path = (case nth_opt (split_on CHR ''/'' path) i of
      None \<Rightarrow> Inl (undefined_error ''split'') | Some p \<Rightarrow> Inr (js_trim (hd (split_on CHR ''?'' p))))"

definition getFolderId :: "webUrl \<Rightarrow> exn + string" where
  "getFolderId u =
    (if rx_test GOOGLE_DRIVE_FOLDER_PATH_REGEX (wu_pathname u) then folder_piece 5 (wu_pathname u)
     else if starts_with ''/drive/folders'' (wu_pathname u) then folder_piece 3 (wu_pathname u)
     else Inl (ServiceLinkParseException ''googledrive'' (wu_text u)))"

definition getVideoIdFromURL :: "webUrl \<Rightarrow> string" where
  "getVideoIdFromURL u =
    (if starts_with ''/file/d/'' (wu_pathname u) then nullish (nth_opt (split_on CHR ''/'' (wu_pathname u)) 3) ''undefined''
     else nullish (search_param ''id'' u) [])"

definition google_videoLink :: "googleWorld \<Rightarrow> string \<Rightarrow> string" where
  "google_videoLink w i = ''https://www.googleapis.com/drive/v3/files/'' @ i @ ''?key='' @ gw_apiKey w @ ''&alt=media&aknowledgeAbuse=true''"

definition google_parseFile :: "googleWorld \<Rightarrow> googleFile \<Rightarrow> exn + video" where
  "google_parseFile w f = (case gf_durationMillis f of
      None \<Rightarrow> Inl (undefined_error ''durationMillis'')
    | Some ms \<Rightarrow> Inr ((bare_video ''googledrive'' (gf_id f))\<lparr>v_title := Some (gf_name f), v_thumbnail := gf_thumbnailLink f,
        v_length := Some (of_int \<lceil>ms / 1000\<rceil>), v_mime := Some (gf_mimeType f), v_src_url := Some (google_videoLink w (gf_id f))\<rparr>))"

definition google_fetchVideoInfo :: "googleWorld \<Rightarrow> string \<Rightarrow> exn + video" where
  "google_fetchVideoInfo w i =
    (if \<not> rx_test GOOGLE_DRIVE_VIDEO_ID_REGEX i then Inl (InvalidVideoIdException ''googledrive'' i)
     else (case rethrow (gw_file w i) of Inl e \<Rightarrow> Inl e | Inr f \<Rightarrow> google_parseFile w f))"

definition fetchFolderVideos :: "googleWorld \<Rightarrow> string \<Rightarrow> exn + video list" where
  "fetchFolderVideos w folder = (case gw_folder w folder of
      Inl err \<Rightarrow> Inl (if he_isAxios err \<and> he_apiError err = Some ''dailyLimitExceeded'' then OutOfQuotaException ''googledrive''
                      else he_exn err)
    | Inr files \<Rightarrow> all_ok (map (google_parseFile w) files))"

definition google_resolveURL :: "googleWorld \<Rightarrow> string \<Rightarrow> exn + resolvedURL" where
  "google_resolveURL w = on_url (gw_url w) (\<lambda>u.
     if isFolderURL u
     then (case getFolderId u of
         Inl e \<Rightarrow> Inl e | Inr folder \<Rightarrow> map_sum id (\<lambda>vs. ResolvedList (map ResolvedVideo vs)) (fetchFolderVideos w folder))
     else map_sum id (\<lambda>v. ResolvedList [ResolvedVideo v]) (google_fetchVideoInfo w (getVideoIdFromURL u)))"

definition google_adapter :: "googleWorld \<Rightarrow> serviceAdapter" where
  "google_adapter w = (base_adapter ''googledrive'')\<lparr>sa_canHandleURL := google_canHandleURL w,
     sa_isCollectionURL := on_url (gw_url w) (\<lambda>u. Inr (isFolderURL u)),
     sa_getVideoId := on_url (gw_url w) (\<lambda>u. Inr (getVideoIdFromURL u)),
     sa_fetchVideoInfo := (\<lambda>i props. google_fetchVideoInfo w i),
     sa_fetchManyVideoInfo := base_fetchManyVideoInfo (\<lambda>i props. google_fetchVideoInfo w i),
     sa_resolveURL := google_resolveURL w,
     sa_postProcessVideo := (\<lambda>v. v\<lparr>v_src_url := Some (google_videoLink w (v_id v))\<rparr>)\<rparr>"

section \<open>PeerTube\<close>

record peertubeVideo =
  pv_name :: string
  pv_description :: "string option"
  pv_duration :: rat
  pv_thumbnailPath :: string
  pv_files :: "(int \<times> string) list option"
  pv_streamingPlaylists :: "string list option"

record peertubeWorld =
  pw_url :: url_parser
  pw_instances :: "string list"
  pw_emit_as_direct :: bool
  pw_get :: "string \<Rightarrow> string \<Rightarrow> peertubeVideo http"

definition PEERTUBE_WATCH_PATH_REGEX :: rx where
  "PEERTUBE_WATCH_PATH_REGEX = seq_of [AtStart, lit ''/w/'', Plus (Chr is_word_char)]"

definition peertube_canHandleURL :: "peertubeWorld \<Rightarrow> string \<Rightarrow> exn + bool" where
  "peertube_canHandleURL w = on_url (pw_url w) (\<lambda>u. Inr
     (wu_host u \<in> set (pw_instances w) \<and> rx_test PEERTUBE_WATCH_PATH_REGEX (wu_pathname u)))"

definition peertube_getVideoId :: "peertubeWorld \<Rightarrow> string \<Rightarrow> exn + string" where
  "peertube_getVideoId w = on_url (pw_url w) (\<lambda>u. Inr (wu_host u @ '':'' @ last_piece (wu_pathname u)))"

definition peertube_base :: "string \<Rightarrow> peertubeVideo \<Rightarrow> video \<Rightarrow> video" where
  "peertube_base host d v = v\<lparr>v_title := Some (pv_name d), v_description := pv_description d, v_length := Some (pv_duration d),
     v_thumbnail := Some (''https://'' @ host @ pv_thumbnailPath d)\<rparr>"

definition parseVideoAsPeertube :: "peertubeVideo \<Rightarrow> string \<Rightarrow> string \<Rightarrow> video" where
  "parseVideoAsPeertube d host i = peertube_base host d (bare_video ''peertube'' (host @ '':'' @ i))"

definition parseAsDirect :: "peertubeVideo \<Rightarrow> string \<Rightarrow> exn + video" where
  "parseAsDirect d host = (case nullish (pv_streamingPlaylists d) [] of
      url # rest \<Rightarrow> Inr (peertube_base host d ((bare_video ''hls'' url)\<lparr>v_hls_url := Some url\<rparr>))
    | [] \<Rightarrow> (case nullish (pv_files d) [] of
        f # fs \<Rightarrow> Inr (peertube_base host d (bare_video ''direct'' (snd (nullish (find (\<lambda>(res, url). res = 1080) (f # fs)) f))))
      | [] \<Rightarrow> Inl (JsError ''Unable to extract video URL from Peertube video'')))"

definition peertube_fetchVideoInfo :: "peertubeWorld \<Rightarrow> string \<Rightarrow> exn + video" where
  "peertube_fetchVideoInfo w videoId =
    (if CHR '':'' \<notin> set videoId then Inl (InvalidVideoIdException ''peertube'' videoId)
     else (let parts = split_on CHR '':'' videoId; host = parts ! 0; i = parts ! 1
       in (case rethrow (pw_get w host i) of
           Inl e \<Rightarrow> Inl e
         | Inr d \<Rightarrow> (if pw_emit_as_direct w then parseAsDirect d host else Inr (parseVideoAsPeertube d host i)))))"

definition peertube_adapter :: "peertubeWorld \<Rightarrow> serviceAdapter" where
  "peertube_adapter w = (base_adapter ''peertube'')\<lparr>sa_isCacheSafe := False, sa_canHandleURL := peertube_canHandleURL w,
     sa_isCollectionURL := (\<lambda>link. Inr False), sa_getVideoId := peertube_getVideoId w,
     sa_fetchVideoInfo := (\<lambda>i props. peertube_fetchVideoInfo w i),
     sa_fetchManyVideoInfo := base_fetchManyVideoInfo (\<lambda>i props. peertube_fetchVideoInfo w i)\<rparr>"

section \<open>Tubi\<close>

record tubiVideo =
  tv_id :: string
  tv_title :: string
  tv_description :: "string option"
  tv_thumbnails :: "string list"
  tv_manifests :: "(string \<times> rat) list"

datatype tubiEntry = TubiVideo tubiVideo | TubiSeries "string list list"

record tubiWorld =
  tw_url :: url_parser
  tw_content :: "string \<Rightarrow> tubiVideo http"
  tw_page :: "string \<Rightarrow> string http"
  tw_parse :: "string \<Rightarrow> exn + (string \<rightharpoonup> tubiEntry)"

definition TUBI_URL_REGEX :: rx where
  "TUBI_URL_REGEX = seq_of [lit ''http'', Opt (lit ''s''), lit ''://'', Opt (lit ''www.''), lit ''tubitv.com/'',
     any_of [lit ''video'', lit ''movies'', lit ''tv-shows'', lit ''oz/videos'', lit ''series''], lit ''/'',
     Group 1 (Plus (Chr is_digit_char))]"

definition TUBI_SERIES_DATA_REGEX :: rx where
  "TUBI_SERIES_DATA_REGEX = seq_of [lit ''window.__data'', Star (Chr is_js_space), lit ''='', Star (Chr is_js_space),
     Group 1 (seq_of [lit ''{'', LazyPlus (Chr not_newline), lit ''}'']), lit '';'', Star (Chr is_js_space), lit ''</script>'']"

definition tubi_isCollectionURL :: "string \<Rightarrow> bool" where
  "tubi_isCollectionURL link = js_includes ''series'' link"

definition tubi_getVideoId :: "tubiWorld \<Rightarrow> string \<Rightarrow> exn + string" where
  "tubi_getVideoId w url = on_url (tw_url w) (\<lambda>u.
     let path = split_on CHR ''/'' (wu_pathname u); kind = nullish (nth_opt path 1) []
     in if kind = ''tv-shows'' \<or> kind = ''movies'' then Inr (nullish (nth_opt path 2) ''undefined'')
        else if kind = ''oz'' then Inr (nullish (nth_opt path 3) ''undefined'')
        else Inl (JsError (''Unable to get video id from '' @ url))) url"

definition tubi_extractVideo :: "tubiVideo \<Rightarrow> exn + video" where
  "tubi_extractVideo d = (case tv_manifests d of
      [] \<Rightarrow> Inl (undefined_error ''manifest'')
    | (url, duration) # rest \<Rightarrow> Inr ((bare_video ''tubi'' (tv_id d))\<lparr>v_title := Some (tv_title d), v_description := tv_description d,
        v_thumbnail := nth_opt (tv_thumbnails d) 0, v_length := Some duration, v_hls_url := Some url,
        v_mime := Some ''application/x-mpegURL''\<rparr>))"

definition tubi_fetchVideoInfo :: "tubiWorld \<Rightarrow> string \<Rightarrow> exn + video" where
  "tubi_fetchVideoInfo w i =
    (if \<not> rx_test (whole is_digit_char) i then Inl (JsError (''Invalid Tubi video id: '' @ i))
     else (case rethrow (tw_content w i) of Inl e \<Rightarrow> Inl e | Inr d \<Rightarrow> tubi_extractVideo d))"

text \<open>\<open>split(":undefined").join(":null")\<close>\<close>

fun undefined_to_null :: "string \<Rightarrow> string" where
  "undefined_to_null [] = []"
| "undefined_to_null (c # s) = (if starts_with '':undefined'' (c # s) then '':null'' @ undefined_to_null (drop 9 s)
     else c # undefined_to_null s)"

definition tubi_episode :: "(string \<rightharpoonup> tubiEntry) \<Rightarrow> string \<Rightarrow> exn + video" where
  "tubi_episode byId e = (case byId e of Some (TubiVideo d) \<Rightarrow> tubi_extractVideo d
    | Some (TubiSeries s) \<Rightarrow> Inl (undefined_error ''0'') | None \<Rightarrow> Inl (undefined_error ''id''))"

definition fetchSeriesInfo :: "tubiWorld \<Rightarrow> string \<Rightarrow> exn + video list" where
  "fetchSeriesInfo w i =
    (if \<not> rx_test (whole is_digit_char) i then Inl (JsError (''Invalid Tubi series id: '' @ i))
     else (case rethrow (tw_page w i) of
         Inl e \<Rightarrow> Inl e
       | Inr html \<Rightarrow> (case Option.bind (rx_exec TUBI_SERIES_DATA_REGEX html) (rx_group 1) of
           None \<Rightarrow> Inl (JsError (''Unable to get series info from '' @ i))
         | Some json \<Rightarrow> (case tw_parse w (undefined_to_null json) of
             Inl e \<Rightarrow> Inl e
           | Inr byId \<Rightarrow> (case (case byId (CHR ''0'' # i) of None \<Rightarrow> byId i | s \<Rightarrow> s) of
               Some (TubiSeries seasons) \<Rightarrow> all_ok (map (tubi_episode byId) (concat seasons))
             | Some (TubiVideo d) \<Rightarrow> Inl (JsTypeError ''series.seasons is not iterable'')
             | None \<Rightarrow> Inl (undefined_error ''seasons''))))))"

definition tubi_resolveURL :: "tubiWorld \<Rightarrow> string \<Rightarrow> exn + resolvedURL" where
  "tubi_resolveURL w url =
    (if tubi_isCollectionURL url
     then on_url (tw_url w) (\<lambda>u. map_sum id (\<lambda>vs. ResolvedList (map ResolvedVideo vs))
       (fetchSeriesInfo w (nullish (nth_opt (split_on CHR ''/'' (wu_pathname u)) 2) ''undefined''))) url
     else (case tubi_getVideoId w url of
         Inl e \<Rightarrow> Inl e | Inr i \<Rightarrow> map_sum id (\<lambda>v. ResolvedList [ResolvedVideo v]) (tubi_fetchVideoInfo w i)))"

definition tubi_adapter :: "tubiWorld \<Rightarrow> serviceAdapter" where
  "tubi_adapter w = (base_adapter ''tubi'')\<lparr>sa_isCacheSafe := False,
     sa_canHandleURL := (\<lambda>link. Inr (rx_test TUBI_URL_REGEX link)),
     sa_isCollectionURL := (\<lambda>link. Inr (tubi_isCollectionURL link)), sa_getVideoId := tubi_getVideoId w,
     sa_fetchVideoInfo := (\<lambda>i props. tubi_fetchVideoInfo w i),
     sa_fetchManyVideoInfo := base_fetchManyVideoInfo (\<lambda>i props. tubi_fetchVideoInfo w i),
     sa_resolveURL := tubi_resolveURL w\<rparr>"

end
