(* ===== verification/YouTube.thy ===== *)
theory YouTube
  imports MediaAdapters
begin

text \<open>
  \<open>server/services/youtube.ts\<close>. The answers of the YouTube API and of pages are arguments of the model; its state
  is what the adapter writes: the uploads playlists of channels in redis, and the lists of videos handed to the cache.
\<close>

section \<open>The outside\<close>

record ytThumbnails =
  yn_medium :: "string option"
  yn_default :: string

record ytSnippet =
  ys_title :: string
  ys_description :: string
  ys_thumbnails :: "ytThumbnails option"
  ys_liveBroadcastContent :: string

record ytItem =
  yi_id :: string
  yi_snippet :: "ytSnippet option"
  yi_duration :: "string option"

record ytPlaylistItem =
  yp_privacyStatus :: string
  yp_videoId :: string
  yp_title :: string
  yp_description :: string
  yp_thumbnails :: "ytThumbnails option"

text \<open>The requests: for videos by ids, parts and fields; for channels by a parameter, whose value may be missing.\<close>

record ytWorld =
  yw_url :: url_parser
  yw_truncate :: nat
  yw_videos :: "string list \<Rightarrow> string list \<Rightarrow> string \<Rightarrow> ytItem list http"
  yw_channels :: "string \<Rightarrow> string option \<Rightarrow> (string \<times> string) list http"
  yw_playlistItems :: "string \<Rightarrow> ytPlaylistItem list http"
  yw_search :: "string \<Rightarrow> string list http"
  yw_page :: "string \<Rightarrow> string http"

record ytState =
  yt_redis :: "string \<rightharpoonup> string"
  yt_stored :: "video list list"

type_synonym 'a yt_call = "(exn, 'a, ytState) outcome"

definition yt_result :: "exn + 'a \<Rightarrow> ytState \<Rightarrow> 'a yt_call" where
  "yt_result r s = (case r of Inl e \<Rightarrow> Throws e s | Inr a \<Rightarrow> Returns a s)"

definition store_videos :: "video list \<Rightarrow> ytState \<Rightarrow> ytState" where
  "store_videos vs s = s\<lparr>yt_stored := yt_stored s @ [vs]\<rparr>"

section \<open>Links\<close>

definition knownPrivateLists :: "string list" where
  "knownPrivateLists = [''LL'', ''WL'']"

definition longer_path :: "string \<Rightarrow> nat \<Rightarrow> webUrl \<Rightarrow> bool" where
  "longer_path pre n u \<longleftrightarrow> starts_with pre (wu_pathname u) \<and> length (wu_pathname u) > n"

definition yt_handles :: "webUrl \<Rightarrow> bool" where
  "yt_handles u =
    (if ends_with ''youtube.com'' (wu_host u)
     then (starts_with ''/watch'' (wu_pathname u) \<and> truthy_str (search_param ''v'' u))
       \<or> longer_path ''/channel/'' 9 u \<or> longer_path ''/user/'' 6 u \<or> longer_path ''/c/'' 3 u
       \<or> (starts_with ''/playlist'' (wu_pathname u) \<and> truthy_str (search_param ''list'' u))
       \<or> starts_with ''/shorts/'' (wu_pathname u) \<or> starts_with ''/live/'' (wu_pathname u) \<or> longer_path ''/@'' 2 u
       \<or> (wu_host u = ''studio.youtube.com'' \<and> starts_with ''/video/'' (wu_pathname u))
     else if ends_with ''youtu.be'' (wu_host u) then length (wu_pathname u) > 1 else False)"

definition yt_canHandleURL :: "ytWorld \<Rightarrow> string \<Rightarrow> exn + bool" where
  "yt_canHandleURL w = on_url (yw_url w) (\<lambda>u. Inr (yt_handles u))"

definition public_list :: "webUrl \<Rightarrow> string option" where
  "public_list u = (case search_param ''list'' u of
      Some l \<Rightarrow> (if l \<noteq> [] \<and> l \<notin> set knownPrivateLists then Some l else None) | None \<Rightarrow> None)"

definition yt_is_collection :: "webUrl \<Rightarrow> bool" where
  "yt_is_collection u \<longleftrightarrow> list_ex (\<lambda>pre. starts_with pre (wu_pathname u)) [''/channel/'', ''/c/'', ''/user/'', ''/playlist'', ''/@'']
     \<or> public_list u \<noteq> None"

definition yt_isCollectionURL :: "ytWorld \<Rightarrow> string \<Rightarrow> exn + bool" where
  "yt_isCollectionURL w = on_url (yw_url w) (\<lambda>u. Inr (yt_is_collection u))"

text \<open>\<open>pathname.replace("/", "")\<close> removes the first slash.\<close>

definition yt_id_of :: "webUrl \<Rightarrow> exn + string" where
  "yt_id_of u =
    (if ends_with ''youtu.be'' (wu_host u) then Inr (js_trim (remove1 CHR ''/'' (wu_pathname u)))
     else if starts_with ''/watch'' (wu_pathname u)
     then (if \<not> truthy_str (search_param ''v'' u) then Inl (BadApiArgumentException ''input'' ''No video ID found in URL'')
           else Inr (js_trim (nullish (search_param ''v'' u) [])))
     else Inr (nullish (nth_opt (split_on CHR ''/'' (wu_pathname u)) 2) ''undefined''))"

definition yt_getVideoId :: "ytWorld \<Rightarrow> string \<Rightarrow> exn + string" where
  "yt_getVideoId w = on_url (yw_url w) yt_id_of"

record channelData =
  cd_channel :: "string option"
  cd_user :: "string option"
  cd_customUrl :: "string option"
  cd_handle :: "string option"

definition no_channel :: channelData where
  "no_channel = \<lparr>cd_channel = None, cd_user = None, cd_customUrl = None, cd_handle = None\<rparr>"

definition channel_char :: "char \<Rightarrow> bool" where
  "channel_char c \<longleftrightarrow> is_id_char c \<or> c = CHR ''.''"

text \<open>\<open>/\/(?!(?:c(?:hannel)?|user)\/)(@?[.a-z0-9_-]+)/gi\<close>\<close>

definition YOUTUBE_CHANNEL_REGEX :: rx where
  "YOUTUBE_CHANNEL_REGEX = seq_of [lit ''/'',
     NotAhead (Seq (Alt (Seq (lit_i ''c'') (Opt (lit_i ''hannel''))) (lit_i ''user'')) (lit ''/'')),
     Group 1 (Seq (Opt (lit ''@'')) (Plus (Chr channel_char)))]"

definition getChannelId :: "webUrl \<Rightarrow> exn + channelData" where
  "getChannelId u = (case Option.bind (rx_exec YOUTUBE_CHANNEL_REGEX (wu_pathname u)) (rx_group 1) of
      None \<Rightarrow> Inl (OttException ''Invalid channel url'')
    | Some i \<Rightarrow> Inr
       (if starts_with ''/channel/'' (wu_pathname u) then no_channel\<lparr>cd_channel := Some i\<rparr>
        else if starts_with ''/user/'' (wu_pathname u) then no_channel\<lparr>cd_user := Some i\<rparr>
        else if starts_with ''/@'' (wu_pathname u) then no_channel\<lparr>cd_handle := Some i\<rparr>
        else no_channel\<lparr>cd_customUrl := Some i\<rparr>))"

section \<open>Videos\<close>

definition YOUTUBE_VIDEO_ID_REGEX :: rx where
  "YOUTUBE_VIDEO_ID_REGEX = whole is_id_char"

text \<open>\<open>None\<close> asks for everything.\<close>

definition getNeededParts :: "string list option \<Rightarrow> exn + string list" where
  "getNeededParts only = (case only of
      None \<Rightarrow> Inr [''snippet'', ''contentDetails'']
    | Some ps \<Rightarrow>
       (let parts = (if list_ex (\<lambda>p. p \<in> set ps) [''title'', ''description'', ''thumbnail''] then [''snippet''] else [])
              @ (if ''length'' \<in> set ps then [''contentDetails''] else [])
        in if parts = [] then Inl (JsError ''onlyProperties must have valid values or be null!'') else Inr parts))"

definition getNeededFields :: "string list \<Rightarrow> string" where
  "getNeededFields parts = ''items(id''
     @ (if ''snippet'' \<in> set parts
        then '',snippet(title,description,thumbnails(default(url),medium(url)),liveBroadcastContent)'' else [])
     @ (if ''contentDetails'' \<in> set parts then '',contentDetails(duration)'' else []) @ '')''"

definition yt_thumbnail :: "ytThumbnails option \<Rightarrow> string option" where
  "yt_thumbnail t = map_option (\<lambda>n. nullish (yn_medium n) (yn_default n)) t"

definition truncated :: "nat \<Rightarrow> string \<Rightarrow> string" where
  "truncated n d = (if n \<noteq> 0 \<and> length d > n then take n d @ ''...'' else d)"

definition parseVideoItem :: "ytWorld \<Rightarrow> ytItem \<Rightarrow> exn + video" where
  "parseVideoItem w item =
    (let v = (case yi_snippet item of
         None \<Rightarrow> bare_video ''youtube'' (yi_id item)
       | Some sn \<Rightarrow> (bare_video ''youtube'' (yi_id item))\<lparr>v_title := Some (ys_title sn),
           v_description := Some (truncated (yw_truncate w) (ys_description sn)), v_thumbnail := yt_thumbnail (ys_thumbnails sn)\<rparr>)
     in (case yi_duration item of
         None \<Rightarrow> Inr v
       | Some d \<Rightarrow> map_sum id (\<lambda>n. v\<lparr>v_length := Some n\<rparr>) (parseIso8601Duration d)))"

definition is_live :: "ytItem \<Rightarrow> bool" where
  "is_live item \<longleftrightarrow> (case yi_snippet item of None \<Rightarrow> False | Some sn \<Rightarrow> ys_liveBroadcastContent sn \<noteq> ''none'')"

section \<open>Without quota: the pages of the videos\<close>

definition backslash :: string where
  "backslash = [CHR 0x5C]"

definition YOUTUBE_LENGTH_FALLBACK_REGEXES :: "rx list" where
  "YOUTUBE_LENGTH_FALLBACK_REGEXES =
    [Seq (lit (''length_seconds'' @ dquote @ '':'' @ dquote)) (Plus (Chr is_digit_char)),
     Seq (lit (''lengthSeconds'' @ backslash @ dquote @ '':'' @ backslash @ dquote)) (Plus (Chr is_digit_char)),
     Seq (lit (''lengthSeconds'' @ dquote @ '':'' @ dquote)) (Plus (Chr is_digit_char))]"

text \<open>\<open>split(":")[1].substring(k)\<close> of the first match; \<open>r\<close> counts the expressions.\<close>

fun fallback_length :: "nat \<Rightarrow> rx list \<Rightarrow> string \<Rightarrow> int option" where
  "fallback_length r [] html = None"
| "fallback_length r (a # as) html = (case rx_exec a html of
      None \<Rightarrow> fallback_length (r + 1) as html
    | Some m \<Rightarrow> parseInt (drop (if r = 1 then 2 else 1) (nullish (nth_opt (split_on CHR '':'' (rm_match m)) 1) [])))"

definition getVideoLengthFallback :: "ytWorld \<Rightarrow> string \<Rightarrow> exn + int option" where
  "getVideoLengthFallback w i = map_sum id (fallback_length 0 YOUTUBE_LENGTH_FALLBACK_REGEXES)
     (rethrow (yw_page w (''https://youtube.com/watch?v='' @ i)))"

definition fallback_video :: "string \<Rightarrow> int option \<Rightarrow> video" where
  "fallback_video i len = (bare_video ''youtube'' i)\<lparr>v_length := map_option of_int len,
     v_thumbnail := Some (''https://i.ytimg.com/vi/'' @ i @ ''/default.jpg'')\<rparr>"

definition getManyVideoLengthsFallback :: "ytWorld \<Rightarrow> string list \<Rightarrow> ytState \<Rightarrow> video list yt_call" where
  "getManyVideoLengthsFallback w ids s = (case all_ok (map (getVideoLengthFallback w) ids) of
      Inl e \<Rightarrow> Throws e s
    | Inr lengths \<Rightarrow> (let videos = map2 fallback_video ids lengths in Returns videos (store_videos videos s)))"

section \<open>Requests for videos\<close>

definition parse_items :: "ytWorld \<Rightarrow> ytItem list \<Rightarrow> exn + video list" where
  "parse_items w items = (case all_ok (map (parseVideoItem w) (filter (\<lambda>i. \<not> is_live i) items)) of
      Inl e \<Rightarrow> Inl e
    | Inr results \<Rightarrow> (if results = [] \<and> list_ex is_live items then Inl (UnsupportedVideoType ''livestream'') else Inr results))"

definition request_failed :: "ytWorld \<Rightarrow> string list \<Rightarrow> string list option \<Rightarrow> httpError \<Rightarrow> ytState \<Rightarrow> video list yt_call" where
  "request_failed w ids only err s =
    (if he_isAxios err \<and> he_status err = Some 403 \<and> he_apiError err \<noteq> None
     then (if (case only of None \<Rightarrow> True | Some ps \<Rightarrow> ''length'' \<in> set ps) then getManyVideoLengthsFallback w ids s
           else Throws (OutOfQuotaException ''youtube'') s)
     else Throws (he_exn err) s)"

definition videoApiRequest :: "ytWorld \<Rightarrow> string list \<Rightarrow> string list option \<Rightarrow> ytState \<Rightarrow> video list yt_call" where
  "videoApiRequest w ids only s = (case find (\<lambda>i. \<not> rx_test YOUTUBE_VIDEO_ID_REGEX i) ids of
      Some i \<Rightarrow> Throws (InvalidVideoIdException ''youtube'' i) s
    | None \<Rightarrow> (case getNeededParts only of
        Inl e \<Rightarrow> Throws e s
      | Inr parts \<Rightarrow> (case yw_videos w ids parts (getNeededFields parts) of
          Inl err \<Rightarrow> request_failed w ids only err s
        | Inr items \<Rightarrow> (case parse_items w items of
            Inl e \<Rightarrow> Throws e s
          | Inr results \<Rightarrow> Returns results (store_videos results s)))))"

definition yt_fetchVideoInfo :: "ytWorld \<Rightarrow> string \<Rightarrow> string list option \<Rightarrow> ytState \<Rightarrow> video yt_call" where
  "yt_fetchVideoInfo w i only s = and_then (videoApiRequest w [i] only s) (\<lambda>result s1. case result of
      [] \<Rightarrow> Throws VideoNotFoundException s1 | v # vs \<Rightarrow> Returns v s1)"

text \<open>\<open>_.groupBy\<close> on the list of missing properties: groups in the order of their first members.\<close>

fun group_requests :: "(string \<times> string list) list \<Rightarrow> (string list \<times> string list) list" where
  "group_requests [] = []"
| "group_requests ((i, ms) # rs) =
    (ms, i # map fst (filter (\<lambda>r. snd r = ms) rs)) # group_requests (filter (\<lambda>r. snd r \<noteq> ms) rs)"

definition is_unsupported_type :: "exn \<Rightarrow> bool" where
  "is_unsupported_type e = (case e of UnsupportedVideoType t \<Rightarrow> True | _ \<Rightarrow> False)"

fun request_groups :: "ytWorld \<Rightarrow> (string list \<times> string list) list \<Rightarrow> ytState \<Rightarrow> video list yt_call" where
  "request_groups w [] s = Returns [] s"
| "request_groups w ((ms, ids) # gs) s = (case videoApiRequest w ids (Some ms) s of
      Returns vs s1 \<Rightarrow> and_then (request_groups w gs s1) (\<lambda>rest s2. Returns (vs @ rest) s2)
    | Throws e s1 \<Rightarrow> (if is_unsupported_type e then request_groups w gs s1 else Throws e s1))"

definition yt_fetchManyVideoInfo :: "ytWorld \<Rightarrow> (string \<times> string list) list \<Rightarrow> ytState \<Rightarrow> video list yt_call" where
  "yt_fetchManyVideoInfo w requests = request_groups w (group_requests requests)"

section \<open>Playlists and channels\<close>

definition playlist_video :: "ytPlaylistItem \<Rightarrow> video" where
  "playlist_video item = (bare_video ''youtube'' (yp_videoId item))\<lparr>v_title := Some (yp_title item),
     v_description := Some (yp_description item), v_thumbnail := yt_thumbnail (yp_thumbnails item)\<rparr>"

definition fetchPlaylistVideos :: "ytWorld \<Rightarrow> string \<Rightarrow> exn + video list" where
  "fetchPlaylistVideos w listId = (case yw_playlistItems w listId of
      Inl err \<Rightarrow> Inl (if he_isAxios err \<and> he_apiError err \<noteq> None \<and> he_status err = Some 403
                      then OutOfQuotaException ''youtube'' else he_exn err)
    | Inr items \<Rightarrow> Inr (map playlist_video
        (filter (\<lambda>i. yp_privacyStatus i \<notin> set [''private'', ''privacyStatusUnspecified'']) items)))"

definition channel_keys :: "channelData \<Rightarrow> (string \<times> string) list" where
  "channel_keys d = List.map_filter (\<lambda>(k, v). map_option (Pair k) v)
     [(''customUrl'', cd_customUrl d), (''channel'', cd_channel d), (''user'', cd_user d), (''handle'', cd_handle d)]"

definition redis_key :: "string \<times> string \<Rightarrow> string" where
  "redis_key kv = ''ytchannel:'' @ fst kv @ '':'' @ snd kv"

definition getCachedPlaylistId :: "channelData \<Rightarrow> ytState \<Rightarrow> string option" where
  "getCachedPlaylistId d s = (case channel_keys d of [] \<Rightarrow> None | kv # rest \<Rightarrow> yt_redis s (redis_key kv))"

definition cachePlaylistId :: "channelData \<Rightarrow> string \<Rightarrow> ytState \<Rightarrow> ytState" where
  "cachePlaylistId d listId s = s\<lparr>yt_redis := fold (\<lambda>kv m. m(redis_key kv \<mapsto> listId)) (channel_keys d) (yt_redis s)\<rparr>"

definition YOUTUBE_EXTERNAL_ID_REGEX :: rx where
  "YOUTUBE_EXTERNAL_ID_REGEX = Seq (lit (''externalId'' @ dquote @ '':'' @ dquote @ ''UC'')) (Times 22 (Chr is_id_char))"

definition getChannelIdFromYoutubeCustomOrHandleUrl :: "ytWorld \<Rightarrow> channelData \<Rightarrow> exn + string option" where
  "getChannelIdFromYoutubeCustomOrHandleUrl w d =
    (if \<not> truthy_str (cd_handle d) \<and> \<not> truthy_str (cd_customUrl d) then Inr None
     else (case rethrow (yw_page w (if truthy_str (cd_handle d) then ''https://youtube.com/'' @ nullish (cd_handle d) []
                                    else ''https://youtube.com/c/'' @ nullish (cd_customUrl d) [])) of
         Inl e \<Rightarrow> Inl e
       | Inr html \<Rightarrow> Inr (map_option (\<lambda>m. drop 1 (nullish (nth_opt (split_on CHR '':'' (rm_match m)) 1) []))
           (rx_exec YOUTUBE_EXTERNAL_ID_REGEX html))))"

definition channel_request :: "ytWorld \<Rightarrow> channelData \<Rightarrow> (string \<times> string) list http" where
  "channel_request w d = yw_channels w
     (if truthy_str (cd_customUrl d) \<or> truthy_str (cd_channel d) then ''id'' else ''forUsername'')
     (if truthy_str (cd_channel d) then cd_channel d else cd_user d)"

definition fetch_uploads :: "ytWorld \<Rightarrow> channelData \<Rightarrow> ytState \<Rightarrow> video list yt_call" where
  "fetch_uploads w d s = (case channel_request w d of
      Inl err \<Rightarrow> Throws (if he_isAxios err \<and> he_status err = Some 403 then OutOfQuotaException ''youtube'' else he_exn err) s
    | Inr [] \<Rightarrow> Throws (undefined_error ''contentDetails'') s
    | Inr ((i, uploads) # rest) \<Rightarrow>
        yt_result (fetchPlaylistVideos w uploads) (cachePlaylistId (d\<lparr>cd_channel := Some i\<rparr>) uploads s))"

definition fetchChannelVideos :: "ytWorld \<Rightarrow> channelData \<Rightarrow> ytState \<Rightarrow> video list yt_call" where
  "fetchChannelVideos w d s =
    (if truthy_str (getCachedPlaylistId d s)
     then yt_result (fetchPlaylistVideos w (nullish (getCachedPlaylistId d s) [])) s
     else if truthy_str (cd_customUrl d) \<or> truthy_str (cd_handle d)
     then (case getChannelIdFromYoutubeCustomOrHandleUrl w d of
         Inl e \<Rightarrow> Throws e s | Inr c \<Rightarrow> fetch_uploads w (d\<lparr>cd_channel := c\<rparr>) s)
     else fetch_uploads w d s)"

definition fetchVideoWithPlaylist :: "ytWorld \<Rightarrow> string \<Rightarrow> string \<Rightarrow> ytState \<Rightarrow> (video list \<times> video option) yt_call" where
  "fetchVideoWithPlaylist w i listId s = (case fetchPlaylistVideos w listId of
      Inl e \<Rightarrow> Throws e s
    | Inr vs \<Rightarrow> (case find (\<lambda>v. v_id v = i) vs of
        Some h \<Rightarrow> Returns (vs, Some h) s
      | None \<Rightarrow> (case yt_fetchVideoInfo w i None s of
          Returns h s1 \<Rightarrow> Returns (vs, Some h) s1 | Throws e s1 \<Rightarrow> Returns (vs, None) s1)))"

section \<open>Resolving links\<close>

definition single_video :: "ytWorld \<Rightarrow> webUrl \<Rightarrow> ytState \<Rightarrow> (video list \<times> video option) yt_call" where
  "single_video w u s = and_then (yt_result (yt_id_of u) s) (\<lambda>i s1.
     and_then (yt_fetchVideoInfo w i None s1) (\<lambda>v s2. Returns ([v], None) s2))"

definition yt_resolve :: "ytWorld \<Rightarrow> webUrl \<Rightarrow> ytState \<Rightarrow> (video list \<times> video option) yt_call" where
  "yt_resolve w u s =
    (if list_ex (\<lambda>pre. starts_with pre (wu_pathname u)) [''/c/'', ''/channel/'', ''/user/'', ''/@'']
     then and_then (yt_result (getChannelId u) s) (\<lambda>d s1. and_then (fetchChannelVideos w d s1) (\<lambda>vs s2. Returns (vs, None) s2))
     else if wu_pathname u = ''/playlist''
     then (if truthy_str (search_param ''list'' u)
           then and_then (yt_result (fetchPlaylistVideos w (nullish (search_param ''list'' u) [])) s) (\<lambda>vs s1. Returns (vs, None) s1)
           else Throws (BadApiArgumentException ''input'' ''Link is missing playlist ID'') s)
     else (case public_list u of
         None \<Rightarrow> single_video w u s
       | Some listId \<Rightarrow>
          (case and_then (yt_result (yt_id_of u) s) (\<lambda>i s1. fetchVideoWithPlaylist w i listId s1) of
             Returns r s1 \<Rightarrow> Returns r s1 | Throws e s1 \<Rightarrow> single_video w u s1)))"

definition yt_resolveURL :: "ytWorld \<Rightarrow> string \<Rightarrow> ytState \<Rightarrow> (video list \<times> video option) yt_call" where
  "yt_resolveURL w link s = and_then (yt_result (yw_url w link) s) (\<lambda>u s1. yt_resolve w u s1)"

definition yt_searchVideos :: "ytWorld \<Rightarrow> string \<Rightarrow> exn + video list" where
  "yt_searchVideos w query = (case yw_search w query of
      Inl err \<Rightarrow> Inl (if he_status err = Some 403 then OutOfQuotaException ''youtube'' else he_exn err)
    | Inr ids \<Rightarrow> Inr (map (bare_video ''youtube'') ids))"

text \<open>The adapter as the info extractor uses it, in a state whose changes it does not see.\<close>

definition answer :: "'a yt_call \<Rightarrow> exn + 'a" where
  "answer c = (case c of Returns a s \<Rightarrow> Inr a | Throws e s \<Rightarrow> Inl e)"

definition youtube_adapter :: "ytWorld \<Rightarrow> ytState \<Rightarrow> serviceAdapter" where
  "youtube_adapter w s = (base_adapter ''youtube'')\<lparr>sa_canHandleURL := yt_canHandleURL w,
     sa_isCollectionURL := yt_isCollectionURL w, sa_getVideoId := yt_getVideoId w,
     sa_fetchVideoInfo := (\<lambda>i props. answer (yt_fetchVideoInfo w i (Some props) s)),
     sa_fetchManyVideoInfo := (\<lambda>rs. answer (yt_fetchManyVideoInfo w rs s)),
     sa_resolveURL := (\<lambda>link. map_sum id (\<lambda>(vs, h). ResolvedBulk vs h) (answer (yt_resolveURL w link s))),
     sa_searchVideos := yt_searchVideos w\<rparr>"

end
