(* ===== verification/StreamAdapters.thy ===== *)
theory StreamAdapters
  imports MediaAdapters
begin

text \<open>
  \<open>server/services/pluto.ts\<close> and \<open>server/services/invidious.ts\<close>. Requests, the URL class, random identifiers and the
  parsers of manifests are arguments.
\<close>

section \<open>Pluto TV\<close>

definition lower_alnum :: "char \<Rightarrow> bool" where
  "lower_alnum c \<longleftrightarrow> is_lower_char c \<or> is_digit_char c"

definition movies_or_series :: rx where
  "movies_or_series = Alt (lit ''movies'') (lit ''series'')"

definition PLUTO_URL_REGEX :: rx where
  "PLUTO_URL_REGEX = seq_of [lit ''http'', Opt (lit ''s''), lit ''://'', Opt (lit ''www.''), lit ''pluto.tv/'',
     Times 2 (Chr is_lower_char), lit ''/on-demand/'', movies_or_series, lit ''/'', Star (Chr not_newline), Opt (lit ''/''), AtEnd]"

definition PLUTO_SERIES_PATH_REGEX :: rx where
  "PLUTO_SERIES_PATH_REGEX = seq_of [lit ''/'', Group 1 movies_or_series, lit ''/'', Group 2 (Plus (Chr lower_alnum))]"

definition PLUTO_EPISODE_PATH_REGEX :: rx where
  "PLUTO_EPISODE_PATH_REGEX = seq_of [lit ''episode/'', Group 1 (Plus (Chr lower_alnum))]"

definition PLUTO_SEASON_PATH_REGEX :: rx where
  "PLUTO_SEASON_PATH_REGEX = seq_of [lit ''season/'', Group 1 (Plus (Chr is_digit_char))]"

record plutoParsedIds =
  pi_type :: string
  pi_id :: string
  pi_subid :: "string option"
  pi_season :: "int option"

text \<open>What is played: a film or an episode; a \<open>Vod\<close> also has seasons.\<close>

record plutoClip =
  pc_id :: string
  pc_name :: string
  pc_description :: string
  pc_duration :: rat
  pc_path :: "string option"
  pc_paths :: "(string \<times> string) list option"
  pc_covers :: "(string \<times> string) list"

record plutoSeason =
  ps_number :: int
  ps_episodes :: "plutoClip list"

record plutoVod = plutoClip +
  pd_seasons :: "plutoSeason list option"

record plutoBootResponse =
  pb_stitcher :: string
  pb_sessionID :: string
  pb_VOD :: "plutoVod list"

text \<open>\<open>xw_with_search\<close> sets the parameters of a URL; \<open>xw_uuid\<close> is random.\<close>

record plutoWorld =
  xw_url :: url_parser
  xw_boot :: "string \<Rightarrow> plutoBootResponse http"
  xw_with_search :: "string \<Rightarrow> (string \<times> string) list \<Rightarrow> exn + string"
  xw_uuid :: string
  xw_cors_proxy :: "string option"

definition pluto_isCollectionURL :: "string \<Rightarrow> exn + bool" where
  "pluto_isCollectionURL link = Inr (\<not> js_includes ''episode'' link \<and> \<not> js_includes ''movies'' link)"

definition pluto_parseUrl :: "plutoWorld \<Rightarrow> string \<Rightarrow> exn + plutoParsedIds" where
  "pluto_parseUrl w url = on_url (xw_url w) (\<lambda>u.
     let path = wu_pathname u; ty = group_in PLUTO_SERIES_PATH_REGEX 1 path; series = group_in PLUTO_SERIES_PATH_REGEX 2 path;
         episode = group_in PLUTO_EPISODE_PATH_REGEX 1 path
     in if \<not> truthy_str ty \<or> \<not> truthy_str series then Inl (JsError (''Unable to parse series from '' @ url))
        else Inr \<lparr>pi_type = nullish ty [], pi_id = nullish series [], pi_subid = episode,
          pi_season = (if rx_test PLUTO_EPISODE_PATH_REGEX path then None
                       else Option.bind (group_in PLUTO_SEASON_PATH_REGEX 1 path) parseInt)\<rparr>) url"

definition videoIdToSlugs :: "string \<Rightarrow> exn + plutoParsedIds" where
  "videoIdToSlugs i =
    (if CHR ''/'' \<notin> set i then Inl (InvalidVideoIdException ''pluto'' i)
     else (let spl = split_on CHR ''/'' i
       in Inr \<lparr>pi_type = spl ! 0, pi_id = spl ! 1, pi_subid = nth_opt spl 2, pi_season = None\<rparr>))"

definition parsedIdsToVideoId :: "plutoParsedIds \<Rightarrow> string" where
  "parsedIdsToVideoId p = pi_type p @ ''/'' @ pi_id p @ (if truthy_str (pi_subid p) then ''/'' @ nullish (pi_subid p) [] else [])"

definition pluto_getVideoId :: "plutoWorld \<Rightarrow> string \<Rightarrow> exn + string" where
  "pluto_getVideoId w url = map_sum id parsedIdsToVideoId (pluto_parseUrl w url)"

definition buildHlsQueryParams :: "plutoWorld \<Rightarrow> plutoBootResponse \<Rightarrow> (string \<times> string) list" where
  "buildHlsQueryParams w resp =
    [(''appName'', ''web''), (''appVersion'', ''7.3.0-61c941df65e64c5f6a98944137c6e21c21cef2e7''), (''deviceDNT'', ''1''),
     (''deviceType'', ''web''), (''deviceModel'', ''web''), (''deviceMake'', ''unknown''), (''deviceId'', xw_uuid w),
     (''deviceVersion'', ''1''), (''sid'', pb_sessionID resp)]"

definition parseStitchedIntoHlsPath :: "('a plutoClip_scheme) \<Rightarrow> string" where
  "parseStitchedIntoHlsPath c =
    (if truthy_str (pc_path c) then nullish (pc_path c) []
     else (case find (\<lambda>(t, p). t = ''hls'') (nullish (pc_paths c) []) of Some (t, p) \<Rightarrow> p | None \<Rightarrow> []))"

definition findEpisodeInVod :: "string \<Rightarrow> plutoVod \<Rightarrow> plutoClip option" where
  "findEpisodeInVod subid v = find (\<lambda>e. pc_id e = subid) (concat (map ps_episodes (nullish (pd_seasons v) [])))"

definition findBestCover :: "string \<Rightarrow> (string \<times> string) list \<Rightarrow> (string \<times> string) option" where
  "findBestCover ty covers =
    (if ty = ''series''
     then (case find (\<lambda>(ratio, url). ratio = ''16:9'') covers of Some c \<Rightarrow> Some c | None \<Rightarrow> nth_opt covers 0)
     else nth_opt covers 0)"

text \<open>What videos of both kinds have in common.\<close>

definition pluto_video :: "plutoWorld \<Rightarrow> plutoBootResponse \<Rightarrow> string \<Rightarrow> string \<Rightarrow> string \<Rightarrow> ('a plutoClip_scheme) \<Rightarrow> exn + video" where
  "pluto_video w resp i ty description c =
    (case xw_with_search w (pb_stitcher resp @ parseStitchedIntoHlsPath c) (buildHlsQueryParams w resp) of
       Inl e \<Rightarrow> Inl e
     | Inr hls \<Rightarrow> Inr ((bare_video ''pluto'' i)\<lparr>v_title := Some (pc_name c), v_description := Some description,
         v_thumbnail := map_option snd (findBestCover ty (pc_covers c)), v_length := Some (pc_duration c / 1000),
         v_mime := Some ''application/x-mpegURL'',
         v_hls_url := Some (if truthy_str (xw_cors_proxy w) then ''https://'' @ nullish (xw_cors_proxy w) [] @ ''/'' @ hls else hls)\<rparr>))"

definition find_vod :: "string \<Rightarrow> plutoBootResponse \<Rightarrow> exn + plutoVod" where
  "find_vod i resp =
    (if pb_stitcher resp = [] then Inl (JsError ''No stitcher server found in boot response'')
     else (case find (\<lambda>v. pc_id v = i) (pb_VOD resp) of
         None \<Rightarrow> Inl (JsError (''Unable to find VOD '' @ i @ '' in boot response'')) | Some v \<Rightarrow> Inr v))"

definition parseBootResponseIntoVideo :: "plutoWorld \<Rightarrow> plutoParsedIds \<Rightarrow> plutoBootResponse \<Rightarrow> exn + video" where
  "parseBootResponseIntoVideo w p resp = (case find_vod (pi_id p) resp of
      Inl e \<Rightarrow> Inl e
    | Inr v \<Rightarrow>
       (if truthy_str (pi_subid p)
        then (case findEpisodeInVod (nullish (pi_subid p) []) v of
            None \<Rightarrow> Inl (JsError (''Unable to find episode '' @ nullish (pi_subid p) [] @ '' in VOD '' @ pc_id v))
          | Some e \<Rightarrow> pluto_video w resp (parsedIdsToVideoId p) (pi_type p) (pc_description e) e)
        else pluto_video w resp (parsedIdsToVideoId p) (pi_type p) (pc_description v) v))"

definition season_videos :: "plutoWorld \<Rightarrow> plutoBootResponse \<Rightarrow> string \<Rightarrow> plutoSeason \<Rightarrow> (exn + video) list" where
  "season_videos w resp vod s = map (\<lambda>(n, e). pluto_video w resp (''series/'' @ vod @ ''/'' @ pc_id e) ''series''
       (''S'' @ show_int (ps_number s) @ ''E'' @ show_nat n @ '' - '' @ pc_description e) e)
     (zip [1..<Suc (length (ps_episodes s))] (ps_episodes s))"

definition parseBootResponseIntoSeries :: "plutoWorld \<Rightarrow> plutoParsedIds \<Rightarrow> plutoBootResponse \<Rightarrow> exn + video list" where
  "parseBootResponseIntoSeries w p resp = (case find_vod (pi_id p) resp of
      Inl e \<Rightarrow> Inl e
    | Inr v \<Rightarrow> all_ok (concat (map (season_videos w resp (pc_id v))
        (filter (\<lambda>s. \<not> truthy_num (pi_season p) \<or> Some (ps_number s) = pi_season p) (nullish (pd_seasons v) [])))))"

definition pluto_fetchVideoInfo :: "plutoWorld \<Rightarrow> string \<Rightarrow> exn + video" where
  "pluto_fetchVideoInfo w i = (case videoIdToSlugs i of
      Inl e \<Rightarrow> Inl e
    | Inr p \<Rightarrow> (case rethrow (xw_boot w (pi_id p)) of Inl e \<Rightarrow> Inl e | Inr resp \<Rightarrow> parseBootResponseIntoVideo w p resp))"

text \<open>\<open>_.groupBy(parsedIds, r => r.id)\<close>: the requests in the order of the first of their series, whose ids are not array indices.\<close>

fun by_series :: "plutoParsedIds list \<Rightarrow> plutoParsedIds list list" where
  "by_series [] = []"
| "by_series (p # ps) = (p # filter (\<lambda>q. pi_id q = pi_id p) ps) # by_series (filter (\<lambda>q. pi_id q \<noteq> pi_id p) ps)"

definition pluto_fetchManyVideoInfo :: "plutoWorld \<Rightarrow> (string \<times> string list) list \<Rightarrow> exn + video list" where
  "pluto_fetchManyVideoInfo w requests = (case all_ok (map (\<lambda>r. videoIdToSlugs (fst r)) requests) of
      Inl e \<Rightarrow> Inl e
    | Inr ps \<Rightarrow> (case rethrow (xw_boot w (join_with '','' (map (\<lambda>g. pi_id (hd g)) (by_series ps)))) of
        Inl e \<Rightarrow> Inl e
      | Inr resp \<Rightarrow> Inr (List.map_filter
          (\<lambda>p. case parseBootResponseIntoVideo w p resp of Inl e \<Rightarrow> None | Inr v \<Rightarrow> Some v) (concat (by_series ps)))))"

definition pluto_resolveURL :: "plutoWorld \<Rightarrow> string \<Rightarrow> exn + resolvedURL" where
  "pluto_resolveURL w url = (case pluto_parseUrl w url of
      Inl e \<Rightarrow> Inl e
    | Inr p \<Rightarrow> map_sum id (\<lambda>vs. ResolvedList (map ResolvedVideo vs))
       (if pi_type p = ''series'' \<and> (pi_subid p = None \<or> pi_season p \<noteq> None)
        then (case rethrow (xw_boot w (pi_id p)) of Inl e \<Rightarrow> Inl e | Inr resp \<Rightarrow> parseBootResponseIntoSeries w p resp)
        else map_sum id (\<lambda>v. [v]) (pluto_fetchVideoInfo w (parsedIdsToVideoId p))))"

definition pluto_adapter :: "plutoWorld \<Rightarrow> serviceAdapter" where
  "pluto_adapter w = (base_adapter ''pluto'')\<lparr>sa_isCacheSafe := False,
     sa_canHandleURL := (\<lambda>link. Inr (rx_test PLUTO_URL_REGEX link)), sa_isCollectionURL := pluto_isCollectionURL,
     sa_getVideoId := pluto_getVideoId w, sa_fetchVideoInfo := (\<lambda>i props. pluto_fetchVideoInfo w i),
     sa_fetchManyVideoInfo := pluto_fetchManyVideoInfo w, sa_resolveURL := pluto_resolveURL w\<rparr>"

section \<open>Invidious\<close>

text \<open>\<open>encodeURIComponent\<close>, with characters up to 255 in two bytes of UTF-8.\<close>

definition hex_digit :: "nat \<Rightarrow> char" where
  "hex_digit n = (if n < 10 then char_of (48 + n) else char_of (55 + n))"

definition percent :: "nat \<Rightarrow> string" where
  "percent n = [CHR ''%'', hex_digit (n div 16), hex_digit (n mod 16)]"

definition encode_char :: "char \<Rightarrow> string" where
  "encode_char c = (let n = (of_char c :: nat) in
     if is_id_char c \<or> c \<in> set ''.!~*()'' \<or> n = 39 then [c]
     else if n < 128 then percent n else percent (192 + n div 64) @ percent (128 + n mod 64))"

definition encodeURIComponent :: "string \<Rightarrow> string" where
  "encodeURIComponent s = concat (map encode_char s)"

record invFormat =
  if_itag :: "int option"
  if_url :: string
  if_type :: "string option"
  if_container :: "string option"
  if_qualityLabel :: "string option"
  if_bitrate :: "rat option"

datatype lengthSeconds = LengthNumber rat | LengthText string

record invVideo =
  iv_title :: "string option"
  iv_description :: "string option"
  iv_shortDescription :: "string option"
  iv_lengthSeconds :: lengthSeconds
  iv_formatStreams :: "invFormat list option"
  iv_videoThumbnails :: "(string \<times> rat option \<times> rat option) list option"

text \<open>
  A DASH manifest: its text, and the bandwidths that the parser found in the representations of all periods and
  sets (\<open>None\<close> is no finite number). An HLS manifest: the bandwidths of its playlists. A request for a manifest
  that fails, or whose text the parser refuses, is \<open>None\<close>. \<open>nw_with_params\<close> builds a URL with search parameters.
\<close>

record invWorld =
  nw_url :: url_parser
  nw_instances :: "string list"
  nw_video :: "string \<Rightarrow> invVideo option http"
  nw_with_params :: "string \<Rightarrow> (string \<times> string) list \<Rightarrow> exn + string"
  nw_dash :: "string \<Rightarrow> (string \<times> rat option list) option"
  nw_hls :: "string \<Rightarrow> rat option list option"

definition INVIDIOUS_SHORT_WATCH_RE :: rx where
  "INVIDIOUS_SHORT_WATCH_RE = seq_of [AtStart, lit ''/w/'', Plus (Chr is_id_char), AtEnd]"

definition inv_canHandleURL :: "invWorld \<Rightarrow> string \<Rightarrow> exn + bool" where
  "inv_canHandleURL w link = (case nw_url w link of
      Inl e \<Rightarrow> Inr False
    | Inr u \<Rightarrow> Inr
       (if wu_protocol u \<notin> set [''http:'', ''https:''] then False
        else if wu_host u \<notin> set (nw_instances w) \<and> wu_hostname u \<notin> set (nw_instances w) then False
        else if wu_pathname u = ''/watch'' then search_param ''v'' u \<noteq> None
        else rx_test INVIDIOUS_SHORT_WATCH_RE (wu_pathname u)))"

definition inv_id_in :: "webUrl \<Rightarrow> string option" where
  "inv_id_in u =
    (if wu_pathname u = ''/watch'' then search_param ''v'' u
     else if rx_test INVIDIOUS_SHORT_WATCH_RE (wu_pathname u) then Some (last (split_on CHR ''/'' (wu_pathname u)))
     else None)"

definition inv_getVideoId :: "invWorld \<Rightarrow> string \<Rightarrow> exn + string" where
  "inv_getVideoId w link = (case nw_url w link of
      Inl e \<Rightarrow> Inl (InvalidVideoIdException ''invidious'' link)
    | Inr u \<Rightarrow> (if \<not> truthy_str (inv_id_in u) then Inl (InvalidVideoIdException ''invidious'' link)
        else Inr (wu_host u @ '':'' @ js_trim (nullish (inv_id_in u) []))))"

definition manifestUrl :: "invWorld \<Rightarrow> string \<Rightarrow> string \<Rightarrow> string \<Rightarrow> exn + string" where
  "manifestUrl w host i kind = nw_with_params w
     (''https://'' @ host @ ''/api/manifest/'' @ kind @ ''/id/'' @ encodeURIComponent i) [(''local'', ''1''), (''source'', ''youtube'')]"

definition proxiedProgressive :: "invWorld \<Rightarrow> string \<Rightarrow> string \<Rightarrow> int option \<Rightarrow> exn + string" where
  "proxiedProgressive w host i itag = nw_with_params w (''https://'' @ host @ ''/latest_version'')
     ((''id'', i) # (if truthy_num itag then [(''itag'', show_int (nullish itag 0))] else []) @ [(''local'', ''1''), (''source'', ''youtube'')])"

text \<open>\<open>_.maxBy\<close>: the first of the greatest.\<close>

definition maxBy :: "('a \<Rightarrow> rat) \<Rightarrow> 'a list \<Rightarrow> 'a option" where
  "maxBy f xs = fold (\<lambda>x acc. case acc of None \<Rightarrow> Some x | Some a \<Rightarrow> if f x > f a then Some x else acc) xs None"

definition pickBestThumbnail :: "(string \<times> rat option \<times> rat option) list option \<Rightarrow> string option" where
  "pickBestThumbnail ts = map_option fst (maxBy (\<lambda>(u, wd, ht). nullish wd 0 * nullish ht 0) (nullish ts []))"

section \<open>Probing manifests\<close>

definition REPRESENTATION_TAG :: rx where
  "REPRESENTATION_TAG = seq_of [lit_i ''<representation'', NotAhead (Chr is_word_char),
     Star (Chr (\<lambda>c. c \<noteq> CHR ''>'')), Opt (lit ''/''), lit ''>'']"

definition REPRESENTATION_BANDWIDTH_REGEX :: rx where
  "REPRESENTATION_BANDWIDTH_REGEX = seq_of [Alt AtStart (Chr is_js_space), lit_i ''bandwidth'', Star (Chr is_js_space), lit ''='',
     Star (Chr is_js_space), Chr (\<lambda>c. c = CHR 0x22 \<or> c = CHR 0x27), Group 1 (Plus (Chr is_digit_char)),
     Chr (\<lambda>c. c = CHR 0x22 \<or> c = CHR 0x27)]"

text \<open>The matches of a global expression, one after the other; none of them is empty.\<close>

function all_matches :: "rx \<Rightarrow> string \<Rightarrow> string list" where
  "all_matches a s = (case rx_exec a s of
      None \<Rightarrow> []
    | Some m \<Rightarrow> (if rm_match m = [] \<or> s = [] then [] else rm_match m # all_matches a (drop (rm_index m + length (rm_match m)) s)))"
  by auto
termination
  by (relation "measure (\<lambda>(a, s). length s)") auto

declare all_matches.simps [simp del]

definition tag_bandwidth :: "string \<Rightarrow> rat option" where
  "tag_bandwidth tag = map_option of_int (Option.bind (group_in REPRESENTATION_BANDWIDTH_REGEX 1 tag) parseInt)"

text \<open>The loops over bandwidths keep the greatest.\<close>

fun top_bandwidth :: "rat \<Rightarrow> rat option list \<Rightarrow> rat" where
  "top_bandwidth best [] = best"
| "top_bandwidth best (b # bs) = top_bandwidth (case b of None \<Rightarrow> best | Some bw \<Rightarrow> if bw > best then bw else best) bs"

definition dash_bandwidth :: "string \<Rightarrow> rat option list \<Rightarrow> rat" where
  "dash_bandwidth content reps = (let best = top_bandwidth 0 reps
     in if best = 0 then top_bandwidth 0 (map tag_bandwidth (all_matches REPRESENTATION_TAG content)) else best)"

datatype probeKind = ProbeDash | ProbeHls

definition js_round :: "rat \<Rightarrow> int" where
  "js_round r = \<lfloor>r + 1 / 2\<rfloor>"

text \<open>The kind, the address, and the best rate in kilobits.\<close>

type_synonym probe = "probeKind \<times> string \<times> int"

definition probeManifest :: "invWorld \<Rightarrow> string \<Rightarrow> string \<Rightarrow> probeKind \<Rightarrow> probe option" where
  "probeManifest w host i kind = (case manifestUrl w host i (if kind = ProbeDash then ''dash'' else ''hls'') of
      Inl e \<Rightarrow> None
    | Inr url \<Rightarrow> (case kind of
        ProbeDash \<Rightarrow> map_option (\<lambda>(content, reps). (kind, url, js_round (dash_bandwidth content reps / 1000))) (nw_dash w url)
      | ProbeHls \<Rightarrow> map_option (\<lambda>bs. (kind, url, js_round (top_bandwidth 0 bs / 1000))) (nw_hls w url)))"

definition pick_probe :: "probe option \<Rightarrow> probe option \<Rightarrow> probe option" where
  "pick_probe dash hls = (case (dash, hls) of
      (Some d, Some h) \<Rightarrow> (if snd (snd d) \<ge> snd (snd h) then Some d else Some h)
    | (Some d, None) \<Rightarrow> Some d | (None, h) \<Rightarrow> h)"

section \<open>Formats\<close>

definition QUALITY_LABEL_NUMBER_REGEX :: rx where
  "QUALITY_LABEL_NUMBER_REGEX = Group 1 (Plus (Chr is_digit_char))"

definition quality_number :: "string option \<Rightarrow> int" where
  "quality_number label = nullish (Option.bind (group_in QUALITY_LABEL_NUMBER_REGEX 1 (nullish label [])) parseInt) 0"

definition SCORE_RES_WEIGHT :: rat where
  "SCORE_RES_WEIGHT = 1000000"

definition format_score :: "invFormat \<Rightarrow> rat" where
  "format_score f = of_int (quality_number (if_qualityLabel f)) * SCORE_RES_WEIGHT + nullish (if_bitrate f) 0"

definition ITAG_TO_MIME :: "(int \<times> string) list" where
  "ITAG_TO_MIME = [(18, ''video/mp4''), (22, ''video/mp4''), (59, ''video/mp4''), (43, ''video/webm''), (44, ''video/webm''),
     (45, ''video/webm'')]"

definition is_mp4 :: "invFormat \<Rightarrow> bool" where
  "is_mp4 f \<longleftrightarrow> if_container f = Some ''mp4'' \<or> js_includes ''mp4'' (to_lower (nullish (if_type f) []))"

text \<open>For a list that is not empty.\<close>

definition choose_format :: "invFormat list \<Rightarrow> invFormat" where
  "choose_format fs = (case maxBy format_score (filter is_mp4 fs) of
      Some f \<Rightarrow> f | None \<Rightarrow> nullish (maxBy format_score fs) (hd fs))"

definition format_mime :: "invFormat \<Rightarrow> string" where
  "format_mime f =
    (let named = js_trim (hd (split_on CHR '';'' (nullish (if_type f) [])))
     in if named \<noteq> [] then named
        else if if_container f = Some ''webm'' then ''video/webm''
        else if if_container f = Some ''mp4'' then ''video/mp4''
        else nullish (Option.bind (if_itag f) (map_of ITAG_TO_MIME)) ''video/mp4'')"

section \<open>Videos of an instance\<close>

definition inv_length :: "lengthSeconds \<Rightarrow> rat option" where
  "inv_length l = (case l of LengthNumber n \<Rightarrow> Some n | LengthText t \<Rightarrow> map_option of_int (parseInt t))"

definition inv_base :: "invVideo \<Rightarrow> video \<Rightarrow> video" where
  "inv_base d v =
    (let raw = js_trim (nullish (iv_description d) (nullish (iv_shortDescription d) []))
     in v\<lparr>v_title := iv_title d, v_description := (if raw \<noteq> [] then Some raw else iv_title d),
       v_length := inv_length (iv_lengthSeconds d), v_thumbnail := pickBestThumbnail (iv_videoThumbnails d)\<rparr>)"

definition progressive :: "invWorld \<Rightarrow> invVideo \<Rightarrow> string \<Rightarrow> string \<Rightarrow> exn + video" where
  "progressive w d host i =
    (let fs = filter (\<lambda>f. if_url f \<noteq> []) (nullish (iv_formatStreams d) []); f = choose_format fs;
         itag = (if fs = [] then None else if_itag f); mime = (if fs = [] then ''video/mp4'' else format_mime f)
     in map_sum id (\<lambda>url. (inv_base d (bare_video ''direct'' url))\<lparr>v_mime := Some mime\<rparr>) (proxiedProgressive w host i itag))"

definition inv_parseAsDirect :: "invWorld \<Rightarrow> invVideo \<Rightarrow> string \<Rightarrow> string \<Rightarrow> exn + video" where
  "inv_parseAsDirect w d host i = (case pick_probe (probeManifest w host i ProbeDash) (probeManifest w host i ProbeHls) of
      Some (ProbeDash, url, kbps) \<Rightarrow>
        Inr ((inv_base d (bare_video ''dash'' url))\<lparr>v_dash_url := Some url, v_mime := Some ''application/dash+xml''\<rparr>)
    | Some (ProbeHls, url, kbps) \<Rightarrow>
        Inr ((inv_base d (bare_video ''hls'' url))\<lparr>v_hls_url := Some url, v_mime := Some ''application/x-mpegURL''\<rparr>)
    | None \<Rightarrow> progressive w d host i)"

text \<open>\<open>lastIndexOf(":")\<close>: host and id, unless there is no colon.\<close>

definition split_last_colon :: "string \<Rightarrow> (string \<times> string) option" where
  "split_last_colon s = (case dropWhile (\<lambda>c. c \<noteq> CHR '':'') (rev s) of
      [] \<Rightarrow> None | c # r \<Rightarrow> Some (rev r, rev (takeWhile (\<lambda>c. c \<noteq> CHR '':'') (rev s))))"

definition upstream :: "string \<Rightarrow> int \<Rightarrow> exn + 'a" where
  "upstream host st = Inl (UpstreamInvidiousException host (Some st))"

text \<open>The second request, when the first one failed but was not refused for its rate.\<close>

definition inv_plain_request :: "invWorld \<Rightarrow> string \<Rightarrow> string \<Rightarrow> exn + invVideo option" where
  "inv_plain_request w host base = (case nw_video w base of
      Inr d \<Rightarrow> Inr d
    | Inl err \<Rightarrow> (if he_isAxios err
        then (case he_status err of Some st \<Rightarrow> upstream host st | None \<Rightarrow> upstream host (if he_timeout err then 504 else 502))
        else upstream host 502))"

definition inv_request :: "invWorld \<Rightarrow> string \<Rightarrow> string \<Rightarrow> exn + invVideo" where
  "inv_request w host base = (case (case nw_video w (base @ ''?local=1'') of
       Inr d \<Rightarrow> Inr d
     | Inl err \<Rightarrow> (if he_isAxios err \<and> he_status err = Some 429 then upstream host 429 else inv_plain_request w host base)) of
     Inl e \<Rightarrow> Inl e
   | Inr None \<Rightarrow> upstream host 502
   | Inr (Some d) \<Rightarrow> (if truthy_str (iv_title d) then Inr d else upstream host 502))"

text \<open>A video that was found is also handed to the cache: the state lists these.\<close>

definition inv_fetchVideoInfo :: "invWorld \<Rightarrow> string \<Rightarrow> video list \<Rightarrow> (exn, video, video list) outcome" where
  "inv_fetchVideoInfo w videoId stored = (case split_last_colon videoId of
      None \<Rightarrow> Throws (InvalidVideoIdException ''invidious'' videoId) stored
    | Some (host, i) \<Rightarrow>
       (case inv_request w host (''https://'' @ host @ ''/api/v1/videos/'' @ encodeURIComponent i) of
          Inl e \<Rightarrow> Throws e stored
        | Inr d \<Rightarrow> (case inv_parseAsDirect w d host i of
            Inl e \<Rightarrow> Throws e stored | Inr v \<Rightarrow> Returns v (stored @ [v]))))"

definition inv_answer :: "(exn, video, video list) outcome \<Rightarrow> exn + video" where
  "inv_answer c = (case c of Returns v s \<Rightarrow> Inr v | Throws e s \<Rightarrow> Inl e)"

definition invidious_adapter :: "invWorld \<Rightarrow> serviceAdapter" where
  "invidious_adapter w = (base_adapter ''invidious'')\<lparr>sa_canHandleURL := inv_canHandleURL w,
     sa_isCollectionURL := (\<lambda>link. Inr False), sa_getVideoId := inv_getVideoId w,
     sa_fetchVideoInfo := (\<lambda>i props. inv_answer (inv_fetchVideoInfo w i [])),
     sa_fetchManyVideoInfo := base_fetchManyVideoInfo (\<lambda>i props. inv_answer (inv_fetchVideoInfo w i []))\<rparr>"

end
