(* ===== verification/Odysee.thy ===== *)
theory Odysee
  imports MediaAdapters
begin

text \<open>
  \<open>server/services/odysee.ts\<close>: links of Odysee, the calls of its JSON-RPC, and the choice of a stream that plays. The
  state is the token of a guest, which the module keeps. Arguments: the URL class, the answers to requests (those that axios
  refuses for their status are failures, and a request has the same answer during one call) and the parser of playlists.
\<close>

section \<open>The outside\<close>

record odyseeUrl = webUrl +
  wu_origin :: string

text \<open>An answer that may hold the token of a guest: its cookies, and the three places in its body.\<close>

record tokenReply =
  tk_cookies :: "string list"
  tk_inner :: "string option"
  tk_result :: "string option"
  tk_data :: "string option"

datatype thumbnailValue = ThumbText string | ThumbObject "string option"

record claimValue =
  cl_title :: "string option"
  cl_license :: "string option"
  cl_description :: "string option"
  cl_thumbnail :: "thumbnailValue option"
  cl_sd_hash :: "string option"
  cl_duration :: "rat option"
  cl_reposted :: "string option"

record channelValue =
  ch_thumbnail :: "thumbnailValue option"
  ch_cover :: "thumbnailValue option"

record resolvedClaim =
  rs_canonical_url :: "string option"
  rs_permanent_url :: "string option"
  rs_claim_id :: "string option"
  rs_value_type :: "string option"
  rs_value :: "claimValue option"
  rs_channel :: "channelValue option"

record lbryGetResult =
  lg_claim_id :: "string option"
  lg_name :: "string option"
  lg_mime_type :: "string option"
  lg_streaming_url :: "string option"
  lg_value :: "claimValue option"
  lg_channel :: "channelValue option"

record claimSearchItem =
  ci_value :: "claimValue option"
  ci_channel :: "channelValue option"

text \<open>An envelope has a result, or the message of an error, or neither.\<close>

record 'a rpcEnvelope =
  re_result :: "'a option"
  re_error :: "string option"

record streamReply =
  sr_status :: int
  sr_mime :: "string option"
  sr_responseUrl :: "string option"
  sr_location :: "string option"

record streamFailure =
  sf_status :: "int option"
  sf_message :: string
  sf_body :: "string option"

record hlsVariant =
  va_bandwidth :: "rat option"
  va_height :: "rat option"
  va_uri :: "string option"
  va_attrUri :: "string option"

text \<open>\<open>ow_normalize\<close> gives the host of a link and its decoded path; a \<open>None\<close> is a request or a parser that failed.\<close>

record odyseeWorld =
  ow_url :: "string \<Rightarrow> exn + odyseeUrl"
  ow_normalize :: "string \<Rightarrow> exn + string \<times> string"
  ow_resolve_url :: "string \<Rightarrow> string \<Rightarrow> string option"
  ow_auth_get :: "tokenReply option"
  ow_user_new :: "tokenReply option"
  ow_resolve :: "string option \<Rightarrow> string \<Rightarrow> exn + (string \<times> resolvedClaim) list rpcEnvelope"
  ow_get :: "string option \<Rightarrow> string \<Rightarrow> bool \<Rightarrow> exn + lbryGetResult rpcEnvelope"
  ow_claim_search :: "string option \<Rightarrow> string \<Rightarrow> exn + claimSearchItem list rpcEnvelope"
  ow_head :: "string \<Rightarrow> streamReply option"
  ow_range :: "string \<Rightarrow> streamFailure + streamReply"
  ow_master :: "string \<Rightarrow> hlsVariant list option"

section \<open>Links\<close>

definition RE_ODYSEE_HOST :: rx where
  "RE_ODYSEE_HOST = seq_of [Alt AtStart (lit ''.''), lit_i ''odysee'', lit ''.'', lit_i ''com'', AtEnd]"

definition RE_ODYCDN_HOST :: rx where
  "RE_ODYCDN_HOST = seq_of [Alt AtStart (lit ''.''), lit_i ''odycdn'', lit ''.'', lit_i ''com'', AtEnd]"

definition without_dot :: "string \<Rightarrow> string" where
  "without_dot h = (if ends_with ''.'' h then butlast h else h)"

definition isHostUnderDomain :: "string \<Rightarrow> string \<Rightarrow> bool" where
  "isHostUnderDomain host domain = (let h = without_dot (to_lower host); d = to_lower domain
     in h = d \<or> ends_with (CHR ''.'' # d) h)"

text \<open>\<open>name:id\<close> becomes \<open>name#id\<close>, and an empty id is left out.\<close>

definition with_hash :: "string \<Rightarrow> string" where
  "with_hash part = (let ps = split_on CHR '':'' part; i = nullish (nth_opt ps 1) []
     in hd ps @ (if i \<noteq> [] then CHR ''#'' # i else []))"

definition lbry_of_parts :: "string list \<Rightarrow> string option" where
  "lbry_of_parts parts = (case parts of
      [] \<Rightarrow> None
    | p # ps \<Rightarrow>
       (if starts_with ''@'' p
        then Some (''lbry://'' @ with_hash p @ (case ps of [] \<Rightarrow> [] | q # qs \<Rightarrow> CHR ''/'' # with_hash q))
        else if ps = [] \<and> CHR '':'' \<in> set p then Some (''lbry://'' @ with_hash p)
        else None))"

definition parseOdyseeUrlToLbry :: "odyseeWorld \<Rightarrow> string \<Rightarrow> string option" where
  "parseOdyseeUrlToLbry w link =
    (if link = [] then None
     else if starts_with ''lbry://'' link then Some link
     else (case ow_normalize w link of
         Inl e \<Rightarrow> None
       | Inr (hostname, path) \<Rightarrow> (if \<not> rx_test RE_ODYSEE_HOST hostname then None
           else lbry_of_parts (filter (\<lambda>p. p \<noteq> []) (split_on CHR ''/'' path)))))"

definition ody_canHandleURL :: "odyseeWorld \<Rightarrow> string \<Rightarrow> exn + bool" where
  "ody_canHandleURL w link = Inr (link \<noteq> [] \<and> (case ow_normalize w link of
      Inl e \<Rightarrow> False | Inr (hostname, path) \<Rightarrow> rx_test RE_ODYSEE_HOST hostname \<or> rx_test RE_ODYCDN_HOST hostname))"

definition isOdyCdnHost :: "odyseeWorld \<Rightarrow> string \<Rightarrow> bool" where
  "isOdyCdnHost w link = (case ow_url w link of Inl e \<Rightarrow> False | Inr u \<Rightarrow> isHostUnderDomain (wu_hostname u) ''odycdn.com'')"

definition ody_getVideoId :: "odyseeWorld \<Rightarrow> string \<Rightarrow> exn + string" where
  "ody_getVideoId w link = (case ow_url w link of
      Inl e \<Rightarrow> Inl (InvalidVideoIdException ''odysee'' link)
    | Inr u \<Rightarrow>
       (if isHostUnderDomain (wu_hostname u) ''odycdn.com'' then Inr link
        else if isHostUnderDomain (wu_hostname u) ''odysee.com'' \<and> truthy_str (parseOdyseeUrlToLbry w link)
        then Inr (nullish (parseOdyseeUrlToLbry w link) [])
        else Inl (InvalidVideoIdException ''odysee'' link)))"

section \<open>The token of a guest\<close>

definition cookie_token :: "string list \<Rightarrow> string option" where
  "cookie_token cookies = Option.bind (find (starts_with ''auth_token='') cookies)
     (\<lambda>c. nth_opt (split_on CHR ''='' (hd (split_on CHR '';'' c))) 1)"

definition long_enough :: "string option \<Rightarrow> string option" where
  "long_enough t = (case t of Some s \<Rightarrow> (if length s > 10 then Some s else None) | None \<Rightarrow> None)"

text \<open>\<open>a || b || c\<close> in the first answer, \<open>a ?? b ?? c\<close> in the second.\<close>

definition first_truthy :: "string option \<Rightarrow> string option \<Rightarrow> string option" where
  "first_truthy a b = (if truthy_str a then a else b)"

definition first_given :: "'a option \<Rightarrow> 'a option \<Rightarrow> 'a option" where
  "first_given a b = (case a of None \<Rightarrow> b | Some x \<Rightarrow> Some x)"

definition body_token :: "(string option \<Rightarrow> string option \<Rightarrow> string option) \<Rightarrow> tokenReply \<Rightarrow> string option" where
  "body_token orelse r = long_enough (orelse (orelse (tk_inner r) (tk_result r)) (tk_data r))"

definition reply_token :: "(string option \<Rightarrow> string option \<Rightarrow> string option) \<Rightarrow> tokenReply \<Rightarrow> string option" where
  "reply_token orelse r = first_given (cookie_token (tk_cookies r)) (body_token orelse r)"

definition fetchGuestAuthToken :: "odyseeWorld \<Rightarrow> string option" where
  "fetchGuestAuthToken w = (case ow_auth_get w of
      None \<Rightarrow> None
    | Some r \<Rightarrow> first_given (reply_token first_truthy r) (Option.bind (ow_user_new w) (reply_token first_given)))"

text \<open>The token is asked for by the first call that finds none.\<close>

definition with_token :: "odyseeWorld \<Rightarrow> string option \<Rightarrow> string option" where
  "with_token w token = (if truthy_str token then token
     else if truthy_str (fetchGuestAuthToken w) then fetchGuestAuthToken w else token)"

type_synonym 'a ody_call = "(exn, 'a, string option) outcome"

definition rpc :: "odyseeWorld \<Rightarrow> string \<Rightarrow> (string option \<Rightarrow> exn + 'a rpcEnvelope) \<Rightarrow> string option \<Rightarrow> 'a ody_call" where
  "rpc w meth request token0 = (let token = with_token w token0 in (case request token of
      Inl e \<Rightarrow> Throws e token
    | Inr env \<Rightarrow> (case re_result env of
        Some r \<Rightarrow> Returns r token
      | None \<Rightarrow> Throws (OdyseeUnavailableVideo (Some (''Odysee RPC did not return a result for '' @ meth
          @ (if truthy_str (re_error env) then '' ('' @ nullish (re_error env) [] @ '')'' else [])))) token)))"

definition claim_entry :: "string \<Rightarrow> (string \<times> resolvedClaim) list \<Rightarrow> resolvedClaim option" where
  "claim_entry uri res = (case map_of res uri of Some c \<Rightarrow> Some c | None \<Rightarrow> map_option snd (nth_opt res 0))"

definition canonical_of :: "resolvedClaim \<Rightarrow> string option" where
  "canonical_of c = first_truthy
     (if rs_value_type c = Some ''repost'' then Option.bind (rs_value c) cl_reposted else None) (rs_canonical_url c)"

definition resolveCanonicalUri :: "odyseeWorld \<Rightarrow> string \<Rightarrow> string option \<Rightarrow> (string \<times> resolvedClaim) ody_call" where
  "resolveCanonicalUri w uri token = and_then (rpc w ''resolve'' (\<lambda>t. ow_resolve w t uri) token) (\<lambda>res t. case claim_entry uri res of
      None \<Rightarrow> Throws (OdyseeUnavailableVideo None) t
    | Some c \<Rightarrow> (if truthy_str (canonical_of c) then Returns (nullish (canonical_of c) [], c) t
        else Throws (OdyseeUnavailableVideo None) t))"

section \<open>Thumbnails and types\<close>

definition extractThumbnails :: "thumbnailValue option \<Rightarrow> string list" where
  "extractThumbnails t = (case t of
      Some (ThumbText s) \<Rightarrow> [s]
    | Some (ThumbObject (Some u)) \<Rightarrow> (if u \<noteq> [] then [u] else [])
    | _ \<Rightarrow> [])"

definition thumb_truthy :: "thumbnailValue option \<Rightarrow> bool" where
  "thumb_truthy t = (case t of None \<Rightarrow> False | Some (ThumbText s) \<Rightarrow> s \<noteq> [] | Some (ThumbObject u) \<Rightarrow> True)"

text \<open>The next place, when the ones before gave nothing.\<close>

definition or_from :: "string list \<Rightarrow> thumbnailValue option \<Rightarrow> string list" where
  "or_from found t = (if found = [] \<and> thumb_truthy t then extractThumbnails t else found)"

definition claim_thumbnail :: "string \<Rightarrow> string" where
  "claim_thumbnail cid = ''https://thumbnails.lbry.com/'' @ cid"

definition collectThumbnails :: "resolvedClaim \<Rightarrow> lbryGetResult \<Rightarrow> string list" where
  "collectThumbnails rs got =
    (let channel = first_given (lg_channel got) (rs_channel rs); cid = first_given (rs_claim_id rs) (lg_claim_id got);
         t0 = extractThumbnails (Option.bind (first_given (lg_value got) (rs_value rs)) cl_thumbnail);
         t1 = or_from t0 (Option.bind (rs_value rs) cl_thumbnail);
         t2 = or_from t1 (Option.bind channel ch_thumbnail);
         t3 = or_from t2 (Option.bind channel ch_cover)
     in if t3 = [] \<and> truthy_str cid then [claim_thumbnail (nullish cid [])] else t3)"

definition hls_mimes :: "string list" where
  "hls_mimes = [''application/x-mpegurl'', ''application/vnd.apple.mpegurl'', ''application/mpegurl'', ''audio/mpegurl'']"

definition link_extension :: "string \<Rightarrow> string" where
  "link_extension link = to_lower (last (split_on CHR ''.'' (last (split_on CHR ''/''
     (hd (split_on CHR ''?'' (hd (split_on CHR ''#'' link))))))))"

definition isHlsMimeOrUrl :: "string option \<Rightarrow> string \<Rightarrow> bool" where
  "isHlsMimeOrUrl mime link \<longleftrightarrow> to_lower (nullish mime []) \<in> set hls_mimes
     \<or> (link \<noteq> [] \<and> link_extension link \<noteq> [] \<and> getMimeType (link_extension link) = Some ''application/x-mpegURL'')"

definition normalizeMime :: "string option \<Rightarrow> string \<Rightarrow> string" where
  "normalizeMime mime link =
    (if isHlsMimeOrUrl mime link then ''application/x-mpegURL''
     else if starts_with ''video/'' (nullish mime []) then nullish mime [] else ''video/mp4'')"

section \<open>Streams that play\<close>

record verification =
  ver_ok :: bool
  ver_status :: "int option"
  ver_mime :: "string option"
  ver_finalUrl :: "string option"
  ver_message :: "string option"

definition responseFinalUrl :: "string option \<Rightarrow> string option \<Rightarrow> string \<Rightarrow> string" where
  "responseFinalUrl responseUrl location fallback = nullish responseUrl (nullish location fallback)"

definition verified :: "bool \<Rightarrow> string \<Rightarrow> streamReply \<Rightarrow> verification" where
  "verified good url r = \<lparr>ver_ok = good, ver_status = Some (sr_status r), ver_mime = sr_mime r,
     ver_finalUrl = Some (responseFinalUrl (sr_responseUrl r) (sr_location r) url), ver_message = None\<rparr>"

definition combined_message :: "streamFailure \<Rightarrow> string" where
  "combined_message f = (let extra = js_trim (nullish (sf_body f) [])
     in if extra \<noteq> [] \<and> \<not> js_includes extra (sf_message f) then sf_message f @ '' | '' @ extra else sf_message f)"

definition verifyStream :: "odyseeWorld \<Rightarrow> string \<Rightarrow> verification" where
  "verifyStream w url = (case ow_head w url of
      Some r \<Rightarrow> verified (200 \<le> sr_status r \<and> sr_status r < 300) url r
    | None \<Rightarrow> (case ow_range w url of
        Inr r \<Rightarrow> verified True url r
      | Inl f \<Rightarrow> \<lparr>ver_ok = False, ver_status = sf_status f, ver_mime = None, ver_finalUrl = None,
          ver_message = Some (combined_message f)\<rparr>))"

definition http_url :: "verification \<Rightarrow> string \<Rightarrow> string" where
  "http_url v url = (case ver_finalUrl v of Some u \<Rightarrow> (if starts_with ''http'' u then u else url) | None \<Rightarrow> url)"

fun firstVerifyingUrl :: "odyseeWorld \<Rightarrow> string list \<Rightarrow> string option" where
  "firstVerifyingUrl w [] = None"
| "firstVerifyingUrl w (u # us) =
    (if ver_ok (verifyStream w u) then Some (http_url (verifyStream w u) u) else firstVerifyingUrl w us)"

definition guessHlsCandidatesFromMp4 :: "odyseeWorld \<Rightarrow> string \<Rightarrow> string list" where
  "guessHlsCandidatesFromMp4 w link = (case ow_url w link of
      Inl e \<Rightarrow> []
    | Inr u \<Rightarrow> [wu_origin u @ join_with ''/'' (butlast (split_on CHR ''/'' (wu_pathname u))) @ ''/master.m3u8''])"

text \<open>The comparison sorts by falling bandwidth and then by falling height; \<open>sort\<close> is stable.\<close>

definition compare_variants :: "hlsVariant \<Rightarrow> hlsVariant \<Rightarrow> rat" where
  "compare_variants a b = (let bwDiff = nullish (va_bandwidth b) 0 - nullish (va_bandwidth a) 0
     in if bwDiff \<noteq> 0 then bwDiff else nullish (va_height b) 0 - nullish (va_height a) 0)"

fun insert_by :: "('a \<Rightarrow> 'a \<Rightarrow> rat) \<Rightarrow> 'a \<Rightarrow> 'a list \<Rightarrow> 'a list" where
  "insert_by cmp x [] = [x]"
| "insert_by cmp x (y # ys) = (if cmp x y \<le> 0 then x # y # ys else y # insert_by cmp x ys)"

definition sort_by :: "('a \<Rightarrow> 'a \<Rightarrow> rat) \<Rightarrow> 'a list \<Rightarrow> 'a list" where
  "sort_by cmp xs = foldr (insert_by cmp) xs []"

definition pickBestHlsVariant :: "odyseeWorld \<Rightarrow> string \<Rightarrow> string" where
  "pickBestHlsVariant w master =
    (if \<not> ver_ok (verifyStream w master) then master
     else (case ow_master w master of
         None \<Rightarrow> master
       | Some vs \<Rightarrow> (case sort_by compare_variants vs of
           [] \<Rightarrow> master
         | best # rest \<Rightarrow>
            (let uri = first_given (va_uri best) (va_attrUri best) in
             if \<not> truthy_str uri then master
             else (case ow_url w master of
                 Inl e \<Rightarrow> master | Inr u \<Rightarrow> nullish (ow_resolve_url w master (nullish uri [])) (nullish uri []))))))"

definition exact_stream :: "string \<Rightarrow> string \<Rightarrow> string" where
  "exact_stream claimId sd = ''https://player.odycdn.com/v6/streams/'' @ claimId @ ''/'' @ sd @ ''/master.m3u8''"

text \<open>The playlist built from the claim and its hash, if both are known and it plays.\<close>

definition exact_hls :: "odyseeWorld \<Rightarrow> string option \<Rightarrow> string option \<Rightarrow> string option" where
  "exact_hls w claimId sd = (case (claimId, sd) of
      (Some c, Some h) \<Rightarrow> firstVerifyingUrl w [exact_stream c h] | _ \<Rightarrow> None)"

definition guessed_hls :: "odyseeWorld \<Rightarrow> string \<Rightarrow> string option" where
  "guessed_hls w link = firstVerifyingUrl w (guessHlsCandidatesFromMp4 w link)"

text \<open>The last check; the end of the message of a failure is what the user reads.\<close>

definition user_message :: "verification \<Rightarrow> string option" where
  "user_message v = map_option (\<lambda>m. js_trim (last (split_on CHR ''|'' m))) (ver_message v)"

definition must_play :: "odyseeWorld \<Rightarrow> video \<Rightarrow> string option \<Rightarrow> video ody_call" where
  "must_play w v token = (if ver_ok (verifyStream w (v_id v)) then Returns v token
     else Throws (OdyseeUnavailableVideo (user_message (verifyStream w (v_id v)))) token)"

section \<open>Links to the content network\<close>

definition streams_claim :: "odyseeWorld \<Rightarrow> string \<Rightarrow> string option" where
  "streams_claim w link = (case ow_url w link of
      Inl e \<Rightarrow> None
    | Inr u \<Rightarrow> (let path = split_on CHR ''/'' (wu_pathname u) in
        (case find_index (\<lambda>p. p = ''streams'') path of
           None \<Rightarrow> None
         | Some i \<Rightarrow> (if truthy_str (nth_opt path (i + 1)) then nth_opt path (i + 1) else None))))"

text \<open>What is known of the stream so far.\<close>

record cdnStream =
  cs_url :: string
  cs_isHls :: bool
  cs_title :: string
  cs_description :: string
  cs_length :: "rat option"
  cs_thumbnail :: string

definition first_thumbnail :: "string list \<Rightarrow> string \<Rightarrow> string" where
  "first_thumbnail found thumbnail = (if thumbnail = [] \<and> found \<noteq> [] then hd found else thumbnail)"

definition from_value :: "odyseeWorld \<Rightarrow> string \<Rightarrow> claimValue \<Rightarrow> cdnStream \<Rightarrow> cdnStream" where
  "from_value w claimId v s =
    (let h = exact_hls w (Some claimId) (cl_sd_hash v); playable = truthy_str h
     in s\<lparr>cs_title := nullish (cl_title v) (cs_title s), cs_description := nullish (cl_description v) (cs_description s),
       cs_length := first_given (cl_duration v) (cs_length s),
       cs_url := (if playable then nullish h [] else cs_url s), cs_isHls := (playable \<or> cs_isHls s),
       cs_thumbnail := first_thumbnail (extractThumbnails (cl_thumbnail v)) (cs_thumbnail s)\<rparr>)"

definition channel_thumbnails :: "channelValue \<Rightarrow> string list" where
  "channel_thumbnails c = (if extractThumbnails (ch_thumbnail c) \<noteq> [] then extractThumbnails (ch_thumbnail c)
     else (case ch_cover c of Some (ThumbObject (Some u)) \<Rightarrow> (if u \<noteq> [] then [u] else []) | _ \<Rightarrow> []))"

definition from_item :: "odyseeWorld \<Rightarrow> string \<Rightarrow> claimSearchItem \<Rightarrow> cdnStream \<Rightarrow> cdnStream" where
  "from_item w claimId item s =
    (let s1 = (case ci_value item of None \<Rightarrow> s | Some v \<Rightarrow> from_value w claimId v s)
     in (case ci_channel item of None \<Rightarrow> s1
         | Some c \<Rightarrow> s1\<lparr>cs_thumbnail := first_thumbnail (channel_thumbnails c) (cs_thumbnail s1)\<rparr>))"

text \<open>A search that fails changes nothing but the token.\<close>

definition search_claim :: "odyseeWorld \<Rightarrow> string option \<Rightarrow> cdnStream \<Rightarrow> string option \<Rightarrow> cdnStream \<times> string option" where
  "search_claim w claimId s token = (case claimId of
      None \<Rightarrow> (s, token)
    | Some c \<Rightarrow> (case rpc w ''claim_search'' (\<lambda>t. ow_claim_search w t c) token of
        Throws e t \<Rightarrow> (s, t)
      | Returns [] t \<Rightarrow> (s, t)
      | Returns (item # items) t \<Rightarrow> (from_item w c item s, t)))"

definition cdn_fetch :: "odyseeWorld \<Rightarrow> string \<Rightarrow> string option \<Rightarrow> video ody_call" where
  "cdn_fetch w videoId token =
    (let ver = verifyStream w videoId;
         url = (if ver_ok ver then http_url ver videoId else videoId);
         mime = normalizeMime (ver_mime ver) url;
         claimId = streams_claim w url;
         (s, t) = search_claim w claimId \<lparr>cs_url = url, cs_isHls = isHlsMimeOrUrl (Some mime) url, cs_title = [],
           cs_description = [], cs_length = None,
           cs_thumbnail = (case claimId of None \<Rightarrow> [] | Some c \<Rightarrow> claim_thumbnail c)\<rparr> token;
         hls = (if cs_isHls s then Some (cs_url s) else guessed_hls w (cs_url s));
         isHls = (cs_isHls s \<or> truthy_str hls);
         final = (if truthy_str hls then nullish hls [] else cs_url s)
     in must_play w ((bare_video ''odysee'' final)\<lparr>v_title := Some (cs_title s), v_description := Some (cs_description s),
       v_length := cs_length s, v_thumbnail := Some (cs_thumbnail s),
       v_mime := Some (if isHls then ''application/x-mpegURL'' else mime),
       v_hls_url := (if isHls then Some final else None)\<rparr>) t)"

section \<open>Claims\<close>

definition try_get :: "odyseeWorld \<Rightarrow> string \<Rightarrow> string option \<Rightarrow> lbryGetResult ody_call" where
  "try_get w uri token = and_then (rpc w ''get'' (\<lambda>t. ow_get w t uri True) token) (\<lambda>got t.
     if truthy_str (lg_streaming_url got) then Returns got t else rpc w ''get'' (\<lambda>t. ow_get w t uri False) t)"

text \<open>Without a streaming URL, the playlist that the claim and its hash give.\<close>

definition recover_stream :: "odyseeWorld \<Rightarrow> lbryGetResult \<Rightarrow> lbryGetResult" where
  "recover_stream w got =
    (if truthy_str (lg_streaming_url got) then got
     else (case (lg_claim_id got, Option.bind (lg_value got) cl_sd_hash) of
         (Some c, Some h) \<Rightarrow> (let ver = verifyStream w (exact_stream c h) in
            if ver_ok ver then got\<lparr>lg_streaming_url := Some (exact_stream c h), lg_mime_type := ver_mime ver\<rparr> else got)
       | _ \<Rightarrow> got))"

text \<open>A variant of a master playlist, and a playlist in the place of a file.\<close>

definition chosen_stream :: "odyseeWorld \<Rightarrow> resolvedClaim \<Rightarrow> lbryGetResult \<Rightarrow> string option \<Rightarrow> string \<Rightarrow> string \<times> string \<times> bool" where
  "chosen_stream w rs got mime0 url0 =
    (let url = (if isHlsMimeOrUrl mime0 url0 then pickBestHlsVariant w url0 else url0);
         mime = normalizeMime mime0 url; isHls = isHlsMimeOrUrl (Some mime) url;
         exact = exact_hls w (first_given (rs_claim_id rs) (lg_claim_id got))
           (Option.bind (first_given (lg_value got) (rs_value rs)) cl_sd_hash);
         better = (if truthy_str exact then exact else guessed_hls w url)
     in if \<not> isHls \<and> isOdyCdnHost w url \<and> truthy_str better then (nullish better [], ''application/x-mpegURL'', True)
        else (url, mime, isHls))"

definition claim_video :: "odyseeWorld \<Rightarrow> resolvedClaim \<Rightarrow> lbryGetResult \<Rightarrow> string \<Rightarrow> string option \<Rightarrow> video ody_call" where
  "claim_video w rs got url0 token =
    (let ver = verifyStream w url0 in
     if \<not> ver_ok ver then Throws (OdyseeUnavailableVideo (user_message ver)) token
     else (let (url, mime, isHls) = chosen_stream w rs got (first_truthy (ver_mime ver) (lg_mime_type got)) (http_url ver url0);
               value = first_given (lg_value got) (rs_value rs)
       in must_play w ((bare_video ''odysee'' url)\<lparr>
         v_title := Some (nullish (first_truthy (first_truthy (Option.bind value cl_title) (lg_name got)) (Some [])) []),
         v_description := Some (nullish (first_truthy (Option.bind value cl_description) (Some [])) []),
         v_length := Option.bind value cl_duration, v_thumbnail := nth_opt (collectThumbnails rs got) 0,
         v_mime := Some mime, v_hls_url := (if isHls then Some url else None)\<rparr>) token))"

definition copyrighted :: "resolvedClaim \<Rightarrow> bool" where
  "copyrighted rs \<longleftrightarrow> js_includes ''copyright'' (to_lower (nullish (Option.bind (rs_value rs) cl_license) []))"

definition claim_fetch :: "odyseeWorld \<Rightarrow> string \<Rightarrow> string option \<Rightarrow> video ody_call" where
  "claim_fetch w videoId token = and_then (resolveCanonicalUri w videoId token) (\<lambda>(canonical, rs) t.
     if copyrighted rs then Throws (OdyseeUnavailableVideo (Some ''Video is copyrighted and not playable.'')) t
     else and_then (try_get w (nullish (rs_permanent_url rs) canonical) t) (\<lambda>got0 t2.
       let got = recover_stream w got0 in
       if \<not> truthy_str (lg_streaming_url got) then Throws (OdyseeUnavailableVideo None) t2
       else claim_video w rs got (nullish (lg_streaming_url got) []) t2))"

definition ody_fetchVideoInfo :: "odyseeWorld \<Rightarrow> string \<Rightarrow> string option \<Rightarrow> video ody_call" where
  "ody_fetchVideoInfo w videoId token =
    (if isOdyCdnHost w videoId then cdn_fetch w videoId token else claim_fetch w videoId token)"

definition ody_answer :: "'a ody_call \<Rightarrow> exn + 'a" where
  "ody_answer c = (case c of Returns a t \<Rightarrow> Inr a | Throws e t \<Rightarrow> Inl e)"

definition odysee_adapter :: "odyseeWorld \<Rightarrow> string option \<Rightarrow> serviceAdapter" where
  "odysee_adapter w token = (base_adapter ''odysee'')\<lparr>sa_canHandleURL := ody_canHandleURL w,
     sa_isCollectionURL := (\<lambda>link. Inr False), sa_getVideoId := ody_getVideoId w,
     sa_fetchVideoInfo := (\<lambda>i props. ody_answer (ody_fetchVideoInfo w i token)),
     sa_fetchManyVideoInfo := base_fetchManyVideoInfo (\<lambda>i props. ody_answer (ody_fetchVideoInfo w i token))\<rparr>"

end
