(* ===== verification/AdapterProperties.thy ===== *)
theory AdapterProperties
  imports YouTube StreamAdapters Odysee
begin

text \<open>Properties of the service adapters.\<close>

section \<open>Pluto: ids name the video of the link\<close>

lemma split_on_piece [simp]: "c \<notin> set a \<Longrightarrow> split_on c (a @ c # s) = a # split_on c s"
  by (induction a) auto

lemma split_on_single [simp]: "c \<notin> set a \<Longrightarrow> split_on c a = [a]"
  by (induction a) auto

lemma slash_not_lower_alnum: "list_all lower_alnum s \<Longrightarrow> CHR ''/'' \<notin> set s"
  by (auto simp: list_all_iff lower_alnum_def is_lower_char_def is_digit_char_def Let_def)

lemma series_path_groups:
  assumes "group_in PLUTO_SERIES_PATH_REGEX 1 path = Some ty" "group_in PLUTO_SERIES_PATH_REGEX 2 path = Some i"
  shows "CHR ''/'' \<notin> set ty" "CHR ''/'' \<notin> set i"
  using group_in_lang [OF assms(1)] group_in_lang [OF assms(2)]
  by (auto simp: PLUTO_SERIES_PATH_REGEX_def movies_or_series_def Plus_def lang_plus_chr [unfolded Plus_def]
      elim!: lang_AltE dest!: lang_lit dest: slash_not_lower_alnum)

lemma episode_path_group:
  assumes "group_in PLUTO_EPISODE_PATH_REGEX 1 path = Some e"
  shows "CHR ''/'' \<notin> set e \<and> e \<noteq> []"
  using group_in_lang [OF assms]
  by (auto simp: PLUTO_EPISODE_PATH_REGEX_def Plus_def lang_plus_chr [unfolded Plus_def] dest: slash_not_lower_alnum)

lemma slugs_of_ids:
  assumes "CHR ''/'' \<notin> set (pi_type p)" "CHR ''/'' \<notin> set (pi_id p)"
    and "\<And>e. pi_subid p = Some e \<Longrightarrow> CHR ''/'' \<notin> set e \<and> e \<noteq> []"
  shows "videoIdToSlugs (parsedIdsToVideoId p) = Inr (p\<lparr>pi_season := None\<rparr>)"
  using assms by (cases "pi_subid p") (auto simp: videoIdToSlugs_def parsedIdsToVideoId_def Let_def nth_opt_def)

lemma map_sum_id_Inr: "map_sum id f x = Inr y \<longleftrightarrow> (\<exists>z. x = Inr z \<and> y = f z)"
  by (cases x) auto

lemma parsed_ids_clean:
  assumes "pluto_parseUrl w url = Inr p"
  shows "CHR ''/'' \<notin> set (pi_type p) \<and> CHR ''/'' \<notin> set (pi_id p)
    \<and> (\<forall>e. pi_subid p = Some e \<longrightarrow> CHR ''/'' \<notin> set e \<and> e \<noteq> [])"
proof -
  from assms obtain u where u: "xw_url w url = Inr u"
    by (auto simp: pluto_parseUrl_def on_url_def split: sum.splits)
  let ?path = "wu_pathname u"
  from assms u obtain ty i where g: "group_in PLUTO_SERIES_PATH_REGEX 1 ?path = Some ty"
    "group_in PLUTO_SERIES_PATH_REGEX 2 ?path = Some i"
    by (cases "group_in PLUTO_SERIES_PATH_REGEX 1 ?path"; cases "group_in PLUTO_SERIES_PATH_REGEX 2 ?path")
      (simp_all add: pluto_parseUrl_def on_url_def)
  with assms u have "pi_type p = ty" "pi_id p = i" "pi_subid p = group_in PLUTO_EPISODE_PATH_REGEX 1 ?path"
    by (auto simp: pluto_parseUrl_def on_url_def Let_def split: if_splits)
  with series_path_groups [OF g(1,2)] episode_path_group show ?thesis by simp
qed

text \<open>
  C34. The id that the Pluto adapter gives to a link is read back, when the video is fetched, as the type, the series
  and the episode that were found in the link.
\<close>

theorem pluto_ids_roundtrip:
  assumes "pluto_getVideoId w url = Inr i"
  shows "\<exists>p. pluto_parseUrl w url = Inr p \<and> videoIdToSlugs i = Inr (p\<lparr>pi_season := None\<rparr>)"
proof -
  from assms obtain p where p: "pluto_parseUrl w url = Inr p" "i = parsedIdsToVideoId p"
    by (auto simp: pluto_getVideoId_def map_sum_id_Inr)
  have "videoIdToSlugs (parsedIdsToVideoId p) = Inr (p\<lparr>pi_season := None\<rparr>)"
    using parsed_ids_clean [OF p(1)] by (intro slugs_of_ids) auto
  with p show ?thesis by blast
qed

definition demo_url :: "string \<Rightarrow> string \<Rightarrow> webUrl" where
  "demo_url host path = \<lparr>wu_protocol = ''https:'', wu_host = host, wu_hostname = host, wu_pathname = path, wu_params = [],
     wu_text = ''https://'' @ host @ path\<rparr>"

definition demo_pluto :: plutoWorld where
  "demo_pluto = \<lparr>xw_url = (\<lambda>link. Inr (demo_url ''pluto.tv'' ''/us/on-demand/series/abc1/season/2/episode/def2'')),
     xw_boot = (\<lambda>i. Inr \<lparr>pb_stitcher = ''s'', pb_sessionID = ''1'', pb_VOD = []\<rparr>), xw_with_search = (\<lambda>l ps. Inr l),
     xw_uuid = ''u'', xw_cors_proxy = None\<rparr>"

lemma demo_pluto_id: "pluto_getVideoId demo_pluto ''l'' = Inr ''series/abc1/def2''"
  by code_simp

theorem pluto_ids_roundtrip_witness:
  "\<exists>p. pluto_parseUrl demo_pluto ''l'' = Inr p \<and> videoIdToSlugs ''series/abc1/def2'' = Inr (p\<lparr>pi_season := None\<rparr>)"
  by (rule pluto_ids_roundtrip [OF demo_pluto_id])

section \<open>Sorting by a comparison\<close>

text \<open>What \<open>sort\<close> needs of its comparison function, and what it then gives.\<close>

locale comparison =
  fixes cmp :: "'a \<Rightarrow> 'a \<Rightarrow> rat"
  assumes cmp_total: "cmp a b \<le> 0 \<or> cmp b a \<le> 0"
    and cmp_trans: "cmp a b \<le> 0 \<Longrightarrow> cmp b c \<le> 0 \<Longrightarrow> cmp a c \<le> 0"
begin

lemma mset_insert_by: "mset (insert_by cmp x ys) = add_mset x (mset ys)"
  by (induction ys) auto

lemma set_insert_by: "set (insert_by cmp x ys) = insert x (set ys)"
  by (metis mset_insert_by set_mset_add_mset_insert set_mset_mset)

lemma sorted_insert_by: "sorted_wrt (\<lambda>a b. cmp a b \<le> 0) ys \<Longrightarrow> sorted_wrt (\<lambda>a b. cmp a b \<le> 0) (insert_by cmp x ys)"
proof (induction ys)
  case (Cons y ys)
  then show ?case using cmp_total [of x y] by (auto simp: set_insert_by intro: cmp_trans)
qed simp

lemma mset_sort_by: "mset (sort_by cmp xs) = mset xs"
  by (induction xs) (simp_all add: sort_by_def mset_insert_by)

lemma sorted_sort_by: "sorted_wrt (\<lambda>a b. cmp a b \<le> 0) (sort_by cmp xs)"
  by (induction xs) (simp_all add: sort_by_def sorted_insert_by)

lemma sort_by_first:
  assumes "xs \<noteq> []"
  obtains best rest where "sort_by cmp xs = best # rest" "best \<in> set xs" "\<And>x. x \<in> set xs \<Longrightarrow> cmp best x \<le> 0"
proof -
  have same: "set (sort_by cmp xs) = set xs" by (metis mset_sort_by set_mset_mset)
  with assms obtain best rest where b: "sort_by cmp xs = best # rest" by (cases "sort_by cmp xs") auto
  have "cmp best x \<le> 0" if "x \<in> set xs" for x
    using that same b sorted_sort_by [of xs] cmp_total [of best best] by auto
  with b same show thesis by (intro that) auto
qed

end

definition bandwidth_of :: "hlsVariant \<Rightarrow> rat" where
  "bandwidth_of v = nullish (va_bandwidth v) 0"

definition height_of :: "hlsVariant \<Rightarrow> rat" where
  "height_of v = nullish (va_height v) 0"

lemma compare_variants_le: "compare_variants a b \<le> 0 \<longleftrightarrow>
    bandwidth_of b < bandwidth_of a \<or> (bandwidth_of b = bandwidth_of a \<and> height_of b \<le> height_of a)"
  by (auto simp: compare_variants_def bandwidth_of_def height_of_def Let_def)

interpretation variants: comparison compare_variants
  by unfold_locales (auto simp: compare_variants_le)

text \<open>
  C33. From a master playlist of Odysee that can be read, a variant of the greatest bandwidth is played, and among those one
  of the greatest height, at its address relative to the playlist.
\<close>

theorem best_variant_played:
  assumes "ver_ok (verifyStream w master)" "ow_master w master = Some vs" "ow_url w master = Inr u" "vs \<noteq> []"
    and "\<forall>v \<in> set vs. truthy_str (va_uri v)"
  shows "\<exists>best \<in> set vs. (\<forall>v \<in> set vs. bandwidth_of v < bandwidth_of best
      \<or> (bandwidth_of v = bandwidth_of best \<and> height_of v \<le> height_of best))
    \<and> pickBestHlsVariant w master = nullish (ow_resolve_url w master (nullish (va_uri best) [])) (nullish (va_uri best) [])"
proof -
  obtain best rest where b: "sort_by compare_variants vs = best # rest" "best \<in> set vs"
    "\<And>v. v \<in> set vs \<Longrightarrow> compare_variants best v \<le> 0"
    by (rule variants.sort_by_first [OF assms(4)]) (rule that)
  from assms(5) b(2) obtain uri where "va_uri best = Some uri" "uri \<noteq> []" by (auto simp: truthy_str_iff)
  then have "pickBestHlsVariant w master = nullish (ow_resolve_url w master (nullish (va_uri best) [])) (nullish (va_uri best) [])"
    using assms(1-3) b(1) by (simp add: pickBestHlsVariant_def first_given_def Let_def)
  with b(2,3) show ?thesis by (intro bexI [of _ best]) (auto simp: compare_variants_le)
qed

definition demo_variant :: "rat \<Rightarrow> rat \<Rightarrow> string \<Rightarrow> hlsVariant" where
  "demo_variant bw h uri = \<lparr>va_bandwidth = Some bw, va_height = Some h, va_uri = Some uri, va_attrUri = None\<rparr>"

definition demo_variants :: "hlsVariant list" where
  "demo_variants = [demo_variant 100 480 ''low'', demo_variant 200 720 ''mid'', demo_variant 200 1080 ''high'']"

text \<open>Every address plays, the claim \<open>c\<close> has a free license, and the master playlist has the variants above.\<close>

definition demo_claim :: claimValue where
  "demo_claim = \<lparr>cl_title = Some ''T'', cl_license = Some ''CC'', cl_description = None, cl_thumbnail = None, cl_sd_hash = None,
     cl_duration = Some 10, cl_reposted = None\<rparr>"

definition demo_odysee :: odyseeWorld where
  "demo_odysee = \<lparr>ow_url = (\<lambda>l. Inr (webUrl.extend (demo_url ''odysee.com'' ''/x'') \<lparr>wu_origin = ''https://odysee.com''\<rparr>)),
     ow_normalize = (\<lambda>l. Inr (''odysee.com'', ''/x'')), ow_resolve_url = (\<lambda>b r. Some (b @ ''/'' @ r)), ow_auth_get = None,
     ow_user_new = None,
     ow_resolve = (\<lambda>t u. Inr \<lparr>re_result = Some [(u, \<lparr>rs_canonical_url = Some ''lbry://c'', rs_permanent_url = None,
       rs_claim_id = Some ''1'', rs_value_type = Some ''stream'', rs_value = Some demo_claim, rs_channel = None\<rparr>)], re_error = None\<rparr>),
     ow_get = (\<lambda>t u b. Inr \<lparr>re_result = Some \<lparr>lg_claim_id = Some ''1'', lg_name = Some ''n'', lg_mime_type = Some ''video/mp4'',
       lg_streaming_url = Some ''https://odysee.com/v.mp4'', lg_value = Some demo_claim, lg_channel = None\<rparr>, re_error = None\<rparr>),
     ow_claim_search = (\<lambda>t c. Inr \<lparr>re_result = Some [], re_error = None\<rparr>),
     ow_head = (\<lambda>l. Some \<lparr>sr_status = 200, sr_mime = None, sr_responseUrl = None, sr_location = None\<rparr>),
     ow_range = (\<lambda>l. Inl \<lparr>sf_status = None, sf_message = ''x'', sf_body = None\<rparr>), ow_master = (\<lambda>l. Some demo_variants)\<rparr>"

theorem best_variant_played_witness:
  "pickBestHlsVariant demo_odysee ''m'' = ''m/high''"
proof -
  have ok: "ver_ok (verifyStream demo_odysee ''m'')" by (simp add: verifyStream_def verified_def demo_odysee_def)
  have uris: "\<forall>v \<in> set demo_variants. truthy_str (va_uri v)" "demo_variants \<noteq> []"
    by (simp_all add: demo_variants_def demo_variant_def)
  obtain u where "ow_url demo_odysee ''m'' = Inr u" by (simp add: demo_odysee_def)
  moreover have "ow_master demo_odysee ''m'' = Some demo_variants" by (simp add: demo_odysee_def)
  ultimately obtain best where b: "best \<in> set demo_variants" "\<And>v. v \<in> set demo_variants \<Longrightarrow> bandwidth_of v < bandwidth_of best
      \<or> (bandwidth_of v = bandwidth_of best \<and> height_of v \<le> height_of best)"
    and p: "pickBestHlsVariant demo_odysee ''m'' = nullish (ow_resolve_url demo_odysee ''m'' (nullish (va_uri best) [])) (nullish (va_uri best) [])"
    using best_variant_played [OF ok _ _ uris(2,1)] by blast
  have "best = demo_variant 200 1080 ''high''"
    using b(1) b(2) [of "demo_variant 200 1080 ''high''"]
    by (auto simp: demo_variants_def demo_variant_def bandwidth_of_def height_of_def)
  with p show ?thesis by (simp add: demo_variant_def demo_odysee_def)
qed

section \<open>HLS: the lowest rate\<close>

definition rate_of :: "playlistItem \<Rightarrow> rat" where
  "rate_of p = nullish (pl_bandwidth p) 0"

definition first_lowest :: "playlistItem list \<Rightarrow> playlistItem option" where
  "first_lowest ps = (if ps = [] then None else find (\<lambda>p. rate_of p = Min (rate_of ` set ps)) ps)"

lemma first_lowest_some:
  assumes "ps \<noteq> []"
  shows "\<exists>a. first_lowest ps = Some a \<and> a \<in> set ps \<and> rate_of a = Min (rate_of ` set ps)"
proof -
  have "Min (rate_of ` set ps) \<in> rate_of ` set ps" using assms by (intro Min_in) auto
  then have "find (\<lambda>p. rate_of p = Min (rate_of ` set ps)) ps \<noteq> None" by (auto simp: find_None_iff)
  with assms show ?thesis by (auto simp: first_lowest_def find_Some_iff)
qed

text \<open>
  C35. \<open>lowestBitratePlaylist\<close>, which folds over the playlists with an accumulator, is the first playlist whose bandwidth
  is the least of all, and nothing when there is none.
\<close>

theorem lowest_bitrate_is_first_minimum: "lowestBitratePlaylist ps = first_lowest ps"
proof (induction ps rule: rev_induct)
  case Nil
  then show ?case by (simp add: lowestBitratePlaylist_def first_lowest_def)
next
  case (snoc p ps)
  show ?case
  proof (cases "ps = []")
    case True
    then show ?thesis by (simp add: lowestBitratePlaylist_def first_lowest_def less_bandwidth_def)
  next
    case False
    from first_lowest_some [OF this] obtain a where a: "first_lowest ps = Some a" "rate_of a = Min (rate_of ` set ps)" by blast
    have step: "lowestBitratePlaylist (ps @ [p]) = (if rate_of p < rate_of a then Some p else Some a)"
      using snoc.IH a(1) by (simp add: lowestBitratePlaylist_def less_bandwidth_def rate_of_def)
    have f: "find (\<lambda>q. rate_of q = rate_of a) ps = Some a" using a False by (simp add: first_lowest_def)
    have m: "Min (rate_of ` set (ps @ [p])) = min (rate_of p) (rate_of a)" using False a(2) by simp
    have whole_list: "first_lowest (ps @ [p]) = (case find (\<lambda>q. rate_of q = min (rate_of p) (rate_of a)) ps of
        None \<Rightarrow> find (\<lambda>q. rate_of q = min (rate_of p) (rate_of a)) [p] | Some x \<Rightarrow> Some x)"
      unfolding first_lowest_def m find_append by simp
    show ?thesis
    proof (cases "rate_of p < rate_of a")
      case True
      then have "find (\<lambda>q. rate_of q = rate_of p) ps = None"
        using a(2) False by (auto simp: find_None_iff)
      with True step whole_list show ?thesis by simp
    next
      case not_less: False
      then have "min (rate_of p) (rate_of a) = rate_of a" by simp
      with not_less step whole_list f show ?thesis by simp
    qed
  qed
qed

section \<open>Reddit: all posts in order\<close>

fun posts_of :: "redditThing \<Rightarrow> redditPost list" where
  "posts_of (Listing ts) = concat (map posts_of ts)"
| "posts_of (Post p) = [p]"
| "posts_of Comment = []"

lemma all_ok_append: "all_ok (xs @ ys) = (case all_ok xs of Inl e \<Rightarrow> Inl e | Inr as \<Rightarrow> map_sum id ((@) as) (all_ok ys))"
proof (induction xs)
  case (Cons x xs)
  then show ?case by (cases x; cases "all_ok xs"; cases "all_ok ys") simp_all
qed (cases "all_ok ys"; simp)

lemma extract_each:
  assumes "\<And>t. t \<in> set ts \<Longrightarrow> extractVideos t = map_sum id concat (all_ok (map reddit_post (posts_of t)))"
  shows "map_sum id concat (all_ok (map extractVideos ts))
    = map_sum id concat (all_ok (map reddit_post (concat (map posts_of ts))))"
  using assms
proof (induction ts)
  case (Cons t ts)
  then have "extractVideos t = map_sum id concat (all_ok (map reddit_post (posts_of t)))" by (simp add: id_def)
  with Cons show ?case
    by (cases "all_ok (map reddit_post (posts_of t))"; cases "all_ok (map extractVideos ts)";
        cases "all_ok (map reddit_post (concat (map posts_of ts)))") (simp_all add: all_ok_append)
qed simp

text \<open>
  \<open>extractVideos\<close>, which recurses over the listings of an answer of Reddit, gives what the posts anywhere in it give,
  in their order, and fails as the first of them that fails.
\<close>

theorem reddit_posts_in_order:
  "extractVideos t = map_sum id concat (all_ok (map reddit_post (posts_of t)))"
proof (induction t)
  case (Listing ts)
  from extract_each [OF this] show ?case by (simp add: id_def)
next
  case (Post p)
  then show ?case by (cases "reddit_post p") simp_all
qed simp

section \<open>Durations\<close>

lemma show_nat_digits: "list_all is_digit (show_nat n) \<and> show_nat n \<noteq> []"
proof (induction n rule: show_nat.induct)
  case (1 n)
  then show ?case by (cases "n < 10") (auto simp: show_nat.simps [of n] is_digit_def digit_value_def Let_def)
qed

lemma parse_digits_append: "list_all is_digit a \<Longrightarrow> parse_digits acc (a @ b) = parse_digits (parse_digits acc a) b"
  by (induction a arbitrary: acc) (auto simp: is_digit_def split: option.splits)

lemma parse_show_nat: "parse_digits None (show_nat n) = Some n"
proof (induction n rule: show_nat.induct)
  case (1 n)
  show ?case
  proof (cases "n < 10")
    case True
    then show ?thesis by (simp add: show_nat.simps [of n] digit_value_def)
  next
    case False
    with 1 show_nat_digits [of "n div 10"] show ?thesis
      by (simp add: show_nat.simps [of n] parse_digits_append digit_value_def)
  qed
qed

lemma digit_not_sign: "is_digit c \<Longrightarrow> \<not> is_js_space c \<and> c \<noteq> CHR ''-'' \<and> c \<noteq> CHR ''+''"
  by (auto simp: is_digit_def digit_value_def is_js_space_def Let_def split: if_splits)

lemma parseInt_show_nat [simp]: "parseInt (show_nat n) = Some (int n)"
proof -
  obtain c r where s: "show_nat n = c # r" "is_digit c"
    using show_nat_digits [of n] by (cases "show_nat n") auto
  with parse_show_nat [of n] digit_not_sign [OF s(2)] show ?thesis by (simp add: parseInt_def)
qed

lemma unit_group_show_nat:
  assumes "\<And>c. is_digit c \<Longrightarrow> ok c" "\<not> ok u"
  shows "unit_group ok u (show_nat n @ u # r) = (Some (show_nat n), r)"
proof -
  have d: "\<forall>c \<in> set (show_nat n). ok c" using show_nat_digits [of n] assms(1) by (auto simp: list_all_iff)
  then have "dropWhile ok (show_nat n @ u # r) = u # r" "takeWhile ok (show_nat n @ u # r) = show_nat n"
    using assms(2) by (simp_all add: dropWhile_append3 takeWhile_append2 dropWhile_append2)
  then show ?thesis using show_nat_digits [of n] by (simp add: unit_group_def)
qed

lemma parseFloat_show_nat [simp]: "parseFloat (show_nat n) = Some (of_nat n)"
proof -
  have "dropWhile is_digit (show_nat n) = []" using show_nat_digits [of n] by (simp add: list_all_iff)
  then show ?thesis by (simp add: parseFloat_def parse_show_nat del: dropWhile_eq_Nil_conv)
qed

definition iso8601 :: "nat \<Rightarrow> nat \<Rightarrow> nat \<Rightarrow> nat \<Rightarrow> string" where
  "iso8601 d h m s = CHR ''P'' # show_nat d @ CHR ''D'' # CHR ''T'' # show_nat h @ CHR ''H''
     # show_nat m @ CHR ''M'' # show_nat s @ [CHR ''S'']"

lemma duration_groups_iso8601:
  "duration_groups (iso8601 d h m s) = Some (Some (show_nat d), Some (show_nat h), Some (show_nat m), Some (show_nat s))"
proof -
  have nd: "\<not> is_digit CHR ''D''" "\<not> is_digit CHR ''H''" "\<not> is_digit CHR ''M''" "\<not> is_digit CHR ''S''"
    by (simp_all add: is_digit_def digit_value_def)
  have sec: "unit_group (\<lambda>c. is_digit c \<or> c = CHR ''.'') CHR ''S'' (show_nat s @ [CHR ''S'']) = (Some (show_nat s), [])"
    using nd by (intro unit_group_show_nat) auto
  show ?thesis using nd sec
    by (simp add: duration_groups_def iso8601_def unit_group_show_nat Let_def)
qed


section \<open>YouTube\<close>

lemma parsed_item_id: "parseVideoItem w item = Inr v \<Longrightarrow> v_id v = yi_id item"
  by (auto simp: parseVideoItem_def Let_def bare_video_def map_sum_id_Inr split: option.splits)

lemma all_ok_ids:
  "all_ok (map (parseVideoItem w) items) = Inr vs \<Longrightarrow> map v_id vs = map yi_id items"
  by (induction items arbitrary: vs) (auto dest: parsed_item_id split: sum.splits elim!: all_ok.elims)

text \<open>
  When the API answers, the videos are those of the items that are not live or upcoming, in the order of the answer;
  they are also handed to the cache, and an answer without any video had no live stream in it.
\<close>

theorem no_livestream_answered:
  assumes "videoApiRequest w ids only s = Returns vs s1" "getNeededParts only = Inr parts"
    and "yw_videos w ids parts (getNeededFields parts) = Inr items"
  shows "map v_id vs = map yi_id (filter (\<lambda>i. \<not> is_live i) items) \<and> s1 = store_videos vs s \<and> (vs = [] \<longrightarrow> \<not> list_ex is_live items)"
proof -
  from assms have r: "parse_items w items = Inr vs" "s1 = store_videos vs s"
    by (auto simp: videoApiRequest_def split: option.splits sum.splits)
  then have "all_ok (map (parseVideoItem w) (filter (\<lambda>i. \<not> is_live i) items)) = Inr vs" "vs = [] \<longrightarrow> \<not> list_ex is_live items"
    by (auto simp: parse_items_def split: sum.splits if_splits)
  with r all_ok_ids show ?thesis by blast
qed

definition demo_item :: "string \<Rightarrow> string \<Rightarrow> ytItem" where
  "demo_item i live = \<lparr>yi_id = i, yi_snippet = Some \<lparr>ys_title = ''t'', ys_description = ''d'', ys_thumbnails = None,
     ys_liveBroadcastContent = live\<rparr>, yi_duration = Some ''PT1M''\<rparr>"

definition demo_youtube :: "ytItem list http \<Rightarrow> ytWorld" where
  "demo_youtube reply = \<lparr>yw_url = (\<lambda>l. Inr (demo_url ''youtu.be'' ''/a'')), yw_truncate = 50, yw_videos = (\<lambda>i p f. reply),
     yw_channels = (\<lambda>k v. Inr []), yw_playlistItems = (\<lambda>l. Inr []), yw_search = (\<lambda>q. Inr []), yw_page = (\<lambda>l. Inr ''p'')\<rparr>"

definition demo_yt_state :: ytState where
  "demo_yt_state = \<lparr>yt_redis = Map.empty, yt_stored = []\<rparr>"

definition demo_items :: "ytItem list" where
  "demo_items = [demo_item ''a'' ''none'', demo_item ''b'' ''live'']"

theorem no_livestream_answered_witness:
  "\<exists>vs s1. videoApiRequest (demo_youtube (Inr demo_items)) [''a'', ''b''] None demo_yt_state = Returns vs s1 \<and> map v_id vs = [''a'']"
proof -
  have "thrown (videoApiRequest (demo_youtube (Inr demo_items)) [''a'', ''b''] None demo_yt_state) = None" by code_simp
  then obtain vs s1 where r: "videoApiRequest (demo_youtube (Inr demo_items)) [''a'', ''b''] None demo_yt_state = Returns vs s1"
    by (cases "videoApiRequest (demo_youtube (Inr demo_items)) [''a'', ''b''] None demo_yt_state") auto
  have p: "getNeededParts None = Inr [''snippet'', ''contentDetails'']" by (simp add: getNeededParts_def)
  have "yw_videos (demo_youtube (Inr demo_items)) [''a'', ''b''] [''snippet'', ''contentDetails''] f = Inr demo_items" for f
    by (simp add: demo_youtube_def)
  from no_livestream_answered [OF r p this] have "map v_id vs = [''a'']"
    by (simp add: demo_items_def demo_item_def is_live_def)
  with r show ?thesis by (intro exI conjI)
qed

lemma fallback_lengths:
  assumes "\<forall>i \<in> set ids. \<exists>html. yw_page w (''https://youtube.com/watch?v='' @ i) = Inr html"
  shows "\<exists>ls. all_ok (map (getVideoLengthFallback w) ids) = Inr ls \<and> length ls = length ids"
  using assms
proof (induction ids)
  case (Cons i ids)
  then obtain ls where "all_ok (map (getVideoLengthFallback w) ids) = Inr ls" "length ls = length ids" by auto
  moreover from Cons.prems obtain l where "getVideoLengthFallback w i = Inr l"
    by (auto simp: getVideoLengthFallback_def rethrow_def)
  ultimately show ?case by simp
qed simp

lemma map2_fallback_ids: "length ls = length ids \<Longrightarrow> map v_id (map2 fallback_video ids ls) = ids"
  by (induction ids ls rule: list_induct2') (simp_all add: fallback_video_def bare_video_def)

text \<open>
  When the API is out of quota and lengths are asked for, every requested video is still answered, in the order of the
  request, from the pages of the videos, as long as these can be read.
\<close>

theorem quota_answers_from_pages:
  assumes "\<forall>i \<in> set ids. i \<noteq> [] \<and> list_all is_id_char i" "getNeededParts only = Inr parts"
    and "only = None \<or> (\<exists>ps. only = Some ps \<and> ''length'' \<in> set ps)"
    and "yw_videos w ids parts (getNeededFields parts) = Inl err"
    and "he_isAxios err" "he_status err = Some 403" "he_apiError err \<noteq> None"
    and "\<forall>i \<in> set ids. \<exists>html. yw_page w (''https://youtube.com/watch?v='' @ i) = Inr html"
  shows "\<exists>vs. videoApiRequest w ids only s = Returns vs (store_videos vs s) \<and> map v_id vs = ids"
proof -
  obtain ls where ls: "all_ok (map (getVideoLengthFallback w) ids) = Inr ls" "length ls = length ids"
    using fallback_lengths [OF assms(8)] by blast
  have "find (\<lambda>i. \<not> rx_test YOUTUBE_VIDEO_ID_REGEX i) ids = None"
    using assms(1) by (simp add: find_None_iff YOUTUBE_VIDEO_ID_REGEX_def)
  then have "videoApiRequest w ids only s = request_failed w ids only err s"
    using assms(2,4) by (simp add: videoApiRequest_def)
  also have "\<dots> = getManyVideoLengthsFallback w ids s"
    using assms(3,5-7) by (auto simp: request_failed_def)
  also have "\<dots> = Returns (map2 fallback_video ids ls) (store_videos (map2 fallback_video ids ls) s)"
    using ls by (simp add: getManyVideoLengthsFallback_def Let_def)
  finally show ?thesis using map2_fallback_ids [OF ls(2)] by blast
qed

definition no_quota :: httpError where
  "no_quota = \<lparr>he_exn = JsError ''x'', he_isAxios = True, he_status = Some 403, he_apiError = Some ''quotaExceeded'', he_timeout = False\<rparr>"

theorem quota_answers_from_pages_witness:
  "\<exists>vs. videoApiRequest (demo_youtube (Inl no_quota)) [''a'', ''b''] None demo_yt_state = Returns vs (store_videos vs demo_yt_state)
    \<and> map v_id vs = [''a'', ''b'']"
proof (rule quota_answers_from_pages)
  show "getNeededParts None = Inr [''snippet'', ''contentDetails'']" by (simp add: getNeededParts_def)
  show "yw_videos (demo_youtube (Inl no_quota)) [''a'', ''b''] [''snippet'', ''contentDetails'']
    (getNeededFields [''snippet'', ''contentDetails'']) = Inl no_quota" by (simp add: demo_youtube_def)
qed (simp_all add: no_quota_def demo_youtube_def is_id_char_def is_word_char_def is_alnum_def)

section \<open>Odysee\<close>

lemma video_type_is_not_hls: "starts_with ''video/'' m \<Longrightarrow> to_lower m \<notin> set hls_mimes"
  by (cases m) (auto simp: hls_mimes_def starts_with_def to_lower_def ascii_lower_def)

lemma hls_type:
  assumes "isHlsMimeOrUrl (Some (normalizeMime mime link)) link"
  shows "normalizeMime mime link = ''application/x-mpegURL''"
proof (cases "isHlsMimeOrUrl mime link")
  case True
  then show ?thesis by (simp add: normalizeMime_def)
next
  case False
  then have "starts_with ''video/'' (normalizeMime mime link)" by (simp add: normalizeMime_def starts_with_def)
  with assms False show ?thesis using video_type_is_not_hls by (auto simp: isHlsMimeOrUrl_def)
qed

definition playable :: "odyseeWorld \<Rightarrow> video \<Rightarrow> bool" where
  "playable w v \<longleftrightarrow> ver_ok (verifyStream w (v_id v)) \<and> v_service v = ''odysee''
     \<and> (v_hls_url v = None \<or> (v_hls_url v = Some (v_id v) \<and> v_mime v = Some ''application/x-mpegURL''))"

lemma must_play_returns: "must_play w u t = Returns v t' \<Longrightarrow> v = u \<and> ver_ok (verifyStream w (v_id v))"
  by (auto simp: must_play_def split: if_splits)

lemma cdn_playable: "cdn_fetch w i t = Returns v t' \<Longrightarrow> playable w v"
  by (auto simp: cdn_fetch_def Let_def playable_def bare_video_def split: prod.splits dest!: must_play_returns)

lemma chosen_hls: "chosen_stream w rs got mime0 url0 = (url, mime, True) \<Longrightarrow> mime = ''application/x-mpegURL''"
  by (auto simp: chosen_stream_def Let_def dest: hls_type split: if_splits)

lemma claim_playable: "claim_video w rs got url t = Returns v t' \<Longrightarrow> playable w v"
  by (auto simp: claim_video_def Let_def playable_def bare_video_def split: prod.splits if_splits
      dest!: must_play_returns dest: chosen_hls)


definition demo_played :: video where
  "demo_played = (bare_video ''odysee'' ''https://odysee.com/v.mp4'')\<lparr>v_title := Some ''T'', v_description := Some [],
     v_length := Some 10, v_thumbnail := Some ''https://thumbnails.lbry.com/1'', v_mime := Some ''video/mp4''\<rparr>"

lemma demo_fetched: "ody_fetchVideoInfo demo_odysee ''lbry://c'' None = Returns demo_played None"
  by code_simp


text \<open>A server that does not allow \<open>HEAD\<close> is never asked again with \<open>GET\<close>.\<close>

lemma head_405_not_retried:
  "ow_head w url = Some r \<Longrightarrow> sr_status r = 405 \<Longrightarrow> ow_range w url = Inr r' \<Longrightarrow> \<not> ver_ok (verifyStream w url)"
  by (simp add: verifyStream_def verified_def)

section \<open>Invidious\<close>

lemma split_last_colon_append: "CHR '':'' \<notin> set i \<Longrightarrow> split_last_colon (host @ '':'' @ i) = Some (host, i)"
proof -
  assume "CHR '':'' \<notin> set i"
  then have c: "\<And>c. c \<in> set (rev i) \<Longrightarrow> c \<noteq> CHR '':''" by auto
  have "dropWhile (\<lambda>c. c \<noteq> CHR '':'') (rev i @ CHR '':'' # rev host) = CHR '':'' # rev host"
    using c by (subst dropWhile_append2) simp_all
  moreover have "takeWhile (\<lambda>c. c \<noteq> CHR '':'') (rev i @ CHR '':'' # rev host) = rev i"
    using c by (subst takeWhile_append2) simp_all
  ultimately show ?thesis by (simp add: split_last_colon_def)
qed

lemma split_last_colon_parts: "split_last_colon s = Some (host, i) \<Longrightarrow> s = host @ '':'' @ i"
proof -
  assume a: "split_last_colon s = Some (host, i)"
  obtain c r where d: "dropWhile (\<lambda>c. c \<noteq> CHR '':'') (rev s) = c # r" "host = rev r"
    "i = rev (takeWhile (\<lambda>c. c \<noteq> CHR '':'') (rev s))"
    using a by (auto simp: split_last_colon_def split: list.splits)
  then have "c = CHR '':''" by (metis (mono_tags, lifting) dropWhile_eq_Cons_conv)
  then have "rev s = rev i @ '':'' @ rev host" using d takeWhile_dropWhile_id [of "\<lambda>c. c \<noteq> CHR '':''" "rev s"] by simp
  then have "rev (rev s) = host @ '':'' @ i" by simp
  then show ?thesis by simp
qed

lemma set_js_trim: "set (js_trim s) \<subseteq> set s"
proof -
  have "set (dropWhile p t) \<subseteq> set t" for p and t :: string by (induction t) auto
  then show ?thesis unfolding js_trim_def by (metis (no_types, lifting) order_trans set_rev)
qed

text \<open>
  From the id that the Invidious adapter gives to a link, the instance, with its port, and the id of the video are read
  back when the video is fetched.
\<close>

theorem invidious_ids_roundtrip:
  assumes "inv_getVideoId w link = Inr vid" "nw_url w link = Inr u" "inv_id_in u = Some i" "CHR '':'' \<notin> set i"
  shows "split_last_colon vid = Some (wu_host u, js_trim i)"
proof -
  have "CHR '':'' \<notin> set (js_trim i)" using assms(4) set_js_trim by blast
  moreover have "vid = wu_host u @ '':'' @ js_trim i" using assms(1-3) by (auto simp: inv_getVideoId_def split: if_splits)
  ultimately show ?thesis using split_last_colon_append by simp
qed

definition demo_invidious :: "nat \<Rightarrow> invWorld" where
  "demo_invidious n = \<lparr>nw_url = (\<lambda>l. Inr (demo_url ''inv.example:8080'' ''/w/abc'')), nw_instances = [''inv.example''],
     nw_video = (\<lambda>l. Inl \<lparr>he_exn = JsError ''x'', he_isAxios = True, he_status = Some (int n), he_apiError = None, he_timeout = False\<rparr>),
     nw_with_params = (\<lambda>b ps. Inr b), nw_dash = (\<lambda>l. None), nw_hls = (\<lambda>l. None)\<rparr>"

theorem invidious_ids_roundtrip_witness:
  "split_last_colon ''inv.example:8080:abc'' = Some (''inv.example:8080'', ''abc'')"
proof -
  have "inv_getVideoId (demo_invidious 429) ''l'' = Inr ''inv.example:8080:abc''" by code_simp
  moreover have "inv_id_in (demo_url ''inv.example:8080'' ''/w/abc'') = Some ''abc''" by code_simp
  moreover have "nw_url (demo_invidious 429) ''l'' = Inr (demo_url ''inv.example:8080'' ''/w/abc'')" by (simp add: demo_invidious_def)
  ultimately show ?thesis using invidious_ids_roundtrip [of "demo_invidious 429" "''l''"]
    by (fastforce simp: demo_url_def js_trim_def is_js_space_def)
qed

lemma inv_request_error: "inv_request w host base = Inl e \<Longrightarrow> \<exists>st. e = UpstreamInvidiousException host (Some st)"
  by (auto simp: inv_request_def inv_plain_request_def upstream_def split: sum.splits option.splits if_splits)

lemma inv_video_answers:
  assumes "\<forall>base ps. \<exists>url. nw_with_params w base ps = Inr url"
  shows "\<exists>v. inv_parseAsDirect w d host i = Inr v"
proof -
  have "\<exists>url. proxiedProgressive w host i tag = Inr url" for tag using assms by (simp add: proxiedProgressive_def)
  then have "\<exists>v. progressive w d host i = Inr v" unfolding progressive_def Let_def by (metis map_sum.simps(2))
  then show ?thesis by (auto simp: inv_parseAsDirect_def split: option.splits probeKind.splits)
qed

text \<open>
  Fetching a video of an Invidious instance fails only because its id has no instance, or as an error of that instance
  with a status, and then nothing is handed to the cache.
\<close>

theorem invidious_errors_named:
  assumes "inv_fetchVideoInfo w i stored = Throws e stored'" "\<forall>base ps. \<exists>url. nw_with_params w base ps = Inr url"
  shows "stored' = stored \<and> ((CHR '':'' \<notin> set i \<and> e = InvalidVideoIdException ''invidious'' i)
    \<or> (\<exists>host rest st. i = host @ '':'' @ rest \<and> e = UpstreamInvidiousException host (Some st)))"
proof (cases "split_last_colon i")
  case None
  then have "CHR '':'' \<notin> set i" by (auto simp: split_last_colon_def split: list.splits)
  with None assms(1) show ?thesis by (simp add: inv_fetchVideoInfo_def)
next
  case (Some p)
  then obtain host rest where p: "split_last_colon i = Some (host, rest)" by (cases p) auto
  have no_error: "inv_parseAsDirect w d host rest \<noteq> Inl e'" for d e'
    using inv_video_answers [OF assms(2), of d host rest] by auto
  from assms(1) p show ?thesis using inv_request_error split_last_colon_parts [OF p]
    by (auto simp: inv_fetchVideoInfo_def no_error split: sum.splits)
qed

lemma demo_refused:
  "inv_fetchVideoInfo (demo_invidious 429) ''h:abc'' [] = Throws (UpstreamInvidiousException ''h'' (Some 429)) []"
  by code_simp

theorem invidious_errors_named_witness:
  "\<exists>host rest st. ''h:abc'' = host @ '':'' @ rest \<and> UpstreamInvidiousException ''h'' (Some 429) = UpstreamInvidiousException host (Some st)"
proof -
  have "\<forall>base ps. \<exists>url. nw_with_params (demo_invidious 429) base ps = Inr url" by (simp add: demo_invidious_def)
  from invidious_errors_named [OF demo_refused this] show ?thesis by blast
qed

text \<open>PeerTube splits the same kind of id at every colon, and asks the instance's port for a video.\<close>

lemma peertube_port_lost:
  assumes "pw_url w link = Inr u" "wu_host u = ''tube.example:8080''" "wu_pathname u = ''/w/abc''"
  shows "peertube_getVideoId w link = Inr ''tube.example:8080:abc''
    \<and> peertube_fetchVideoInfo w ''tube.example:8080:abc'' = (case rethrow (pw_get w ''tube.example'' ''8080'') of
        Inl e \<Rightarrow> Inl e
      | Inr d \<Rightarrow> (if pw_emit_as_direct w then parseAsDirect d ''tube.example'' else Inr (parseVideoAsPeertube d ''tube.example'' ''8080'')))"
  using assms
  by (simp add: peertube_getVideoId_def on_url_def last_piece_def js_trim_def is_js_space_def peertube_fetchVideoInfo_def Let_def split: sum.split)

end
