(* ===== verification/Extractor.thy ===== *)
theory Extractor
  imports InfoProperties AdapterProperties
begin

text \<open>
  The adapters that \<open>initExtractor\<close> of \<open>server/infoextractor.ts\<close> registers, in their order, and what becomes of
  the links that \<open>common/queueexport.ts\<close> writes when they are added again.
\<close>

section \<open>The registered adapters\<close>

text \<open>What is configured, and the outside of every adapter.\<close>

record services =
  sv_enabled :: "string list"
  sv_youtube_key :: "string option"
  sv_google_key :: "string option"
  sv_youtube :: "ytWorld \<times> ytState"
  sv_vimeo :: vimeoWorld
  sv_google :: googleWorld
  sv_reddit :: redditWorld
  sv_tubi :: tubiWorld
  sv_peertube :: peertubeWorld
  sv_direct :: directWorld
  sv_hls :: hlsWorld
  sv_dash :: dashWorld
  sv_pluto :: plutoWorld
  sv_invidious :: invWorld
  sv_odysee :: odyseeWorld

definition enabled :: "services \<Rightarrow> string \<Rightarrow> serviceAdapter \<Rightarrow> serviceAdapter list" where
  "enabled s service adapter = (if service \<in> set (sv_enabled s) then [adapter] else [])"

text \<open>YouTube and Google Drive also need an API key; a new Odysee adapter has no token.\<close>

definition initExtractor :: "services \<Rightarrow> serviceAdapter list" where
  "initExtractor s =
    (if truthy_str (sv_youtube_key s) then enabled s ''youtube'' (youtube_adapter (fst (sv_youtube s)) (snd (sv_youtube s))) else [])
    @ enabled s ''vimeo'' (vimeo_adapter (sv_vimeo s))
    @ (if truthy_str (sv_google_key s)
       then enabled s ''googledrive'' (google_adapter ((sv_google s)\<lparr>gw_apiKey := nullish (sv_google_key s) []\<rparr>)) else [])
    @ enabled s ''reddit'' (reddit_adapter (sv_reddit s)) @ enabled s ''tubi'' (tubi_adapter (sv_tubi s))
    @ enabled s ''peertube'' (peertube_adapter (sv_peertube s)) @ enabled s ''direct'' (direct_adapter (sv_direct s))
    @ enabled s ''hls'' (hls_adapter (sv_hls s)) @ enabled s ''dash'' (dash_adapter (sv_dash s))
    @ enabled s ''pluto'' (pluto_adapter (sv_pluto s)) @ enabled s ''invidious'' (invidious_adapter (sv_invidious s))
    @ enabled s ''odysee'' (odysee_adapter (sv_odysee s) None)"

lemmas adapter_fields = youtube_adapter_def vimeo_adapter_def base_adapter_def

section \<open>Exported links are found again\<close>

text \<open>How a URL class reads a link with a host and one piece of path.\<close>

definition reads_plain_links :: "url_parser \<Rightarrow> bool" where
  "reads_plain_links parse \<longleftrightarrow> (\<forall>host i. host \<in> {''youtu.be'', ''vimeo.com''} \<longrightarrow> i \<noteq> [] \<longrightarrow> list_all is_id_char i \<longrightarrow>
     (\<exists>u. parse (''https://'' @ host @ ''/'' @ i) = Inr u \<and> wu_host u = host \<and> wu_hostname u = host
       \<and> wu_pathname u = CHR ''/'' # i \<and> wu_params u = []))"

lemma reads_plain_linksD:
  assumes "reads_plain_links parse" "host \<in> {''youtu.be'', ''vimeo.com''}" "i \<noteq> []" "list_all is_id_char i"
  obtains u where "parse (''https://'' @ host @ ''/'' @ i) = Inr u" "wu_host u = host" "wu_hostname u = host"
    "wu_pathname u = CHR ''/'' # i" "wu_params u = []"
  using assms unfolding reads_plain_links_def by blast

lemma id_char_plain: "is_id_char c \<Longrightarrow> \<not> is_js_space c \<and> c \<noteq> CHR ''/''"
  by (auto simp: is_id_char_def is_word_char_def is_alnum_def is_js_space_def Let_def)

lemma js_trim_id [simp]: "list_all is_id_char i \<Longrightarrow> js_trim i = i"
proof -
  assume a: "list_all is_id_char i"
  have "dropWhile is_js_space s = s" if "\<forall>c \<in> set s. is_id_char c" for s
    using that by (cases s) (auto dest: id_char_plain)
  with a show ?thesis by (simp add: js_trim_def list_all_iff)
qed

lemma digits_are_ids: "list_all is_digit_char i \<Longrightarrow> list_all is_id_char i"
  by (auto simp: list_all_iff is_digit_char_def is_id_char_def is_word_char_def is_alnum_def Let_def)

lemma rx_test_here:
  assumes "rx_run (length s) a s [] \<noteq> []"
  shows "rx_test a s"
  using assms by (cases "rx_run (length s) a s []") (auto simp: rx_test_def rx_exec_def rx_search.simps [of "length s" a s])

lemma vimeo_path: "i \<noteq> [] \<Longrightarrow> list_all is_digit_char i \<Longrightarrow> rx_test VIMEO_VIDEO_PATH_REGEX (CHR ''/'' # i)"
proof (rule rx_test_here)
  assume i: "i \<noteq> []" "list_all is_digit_char i"
  let ?n = "length (CHR ''/'' # i)"
  from i have "rx_lang (Plus (Chr is_digit_char)) i" by (simp add: lang_plus_chr)
  from rx_run_complete [OF this, of "[]" ?n "[]"] obtain h where h: "([], h) \<in> set (rx_run ?n (Plus (Chr is_digit_char)) i [])"
    by (auto simp: Plus_def)
  then have "([], h) \<in> set (rx_run ?n (Seq (Plus (Chr is_digit_char)) (Seq AtEnd Eps)) i [])" by (rule run_SeqI) simp
  then have "([], h) \<in> set (rx_run ?n (Seq (lit ''/'') (Seq (Plus (Chr is_digit_char)) (Seq AtEnd Eps))) (CHR ''/'' # i) [])"
    by (rule run_SeqI [of i "[]", rotated]) (simp add: lit_def)
  then have "([], h) \<in> set (rx_run ?n VIMEO_VIDEO_PATH_REGEX (CHR ''/'' # i) [])"
    unfolding VIMEO_VIDEO_PATH_REGEX_def seq_of_def by (simp only: foldr.simps comp_def) (rule run_SeqI, simp, simp)
  then show "rx_run ?n VIMEO_VIDEO_PATH_REGEX (CHR ''/'' # i) [] \<noteq> []" by auto
qed

lemma youtube_link_found:
  assumes "reads_plain_links (yw_url w)" "i \<noteq> []" "list_all is_id_char i"
  shows "yt_canHandleURL w (''https://youtu.be/'' @ i) = Inr True" "yt_getVideoId w (''https://youtu.be/'' @ i) = Inr i"
proof -
  obtain u where u: "yw_url w (''https://youtu.be/'' @ i) = Inr u" "wu_host u = ''youtu.be''" "wu_pathname u = CHR ''/'' # i"
    by (rule reads_plain_linksD [OF assms(1) _ assms(2,3), of "''youtu.be''"]) (use that in auto)
  then show "yt_canHandleURL w (''https://youtu.be/'' @ i) = Inr True" "yt_getVideoId w (''https://youtu.be/'' @ i) = Inr i"
    using assms(2,3) by (simp_all add: yt_canHandleURL_def yt_getVideoId_def on_url_def yt_handles_def yt_id_of_def ends_with_def)
qed

lemma vimeo_link_found:
  assumes "reads_plain_links (vw_url w)" "i \<noteq> []" "list_all is_digit_char i"
  shows "vimeo_canHandleURL w (''https://vimeo.com/'' @ i) = Inr True" "vimeo_getVideoId w (''https://vimeo.com/'' @ i) = Inr i"
proof -
  note ids = digits_are_ids [OF assms(3)]
  obtain u where u: "vw_url w (''https://vimeo.com/'' @ i) = Inr u" "wu_hostname u = ''vimeo.com''" "wu_pathname u = CHR ''/'' # i"
    by (rule reads_plain_linksD [OF assms(1) _ assms(2) ids, of "''vimeo.com''"]) (use that in auto)
  have "CHR ''/'' \<notin> set i" using ids id_char_plain by (auto simp: list_all_iff)
  then have "last_piece (CHR ''/'' # i) = i" using ids by (simp add: last_piece_def)
  with u show "vimeo_canHandleURL w (''https://vimeo.com/'' @ i) = Inr True" "vimeo_getVideoId w (''https://vimeo.com/'' @ i) = Inr i"
    using assms(2,3) ids
    by (simp_all add: vimeo_canHandleURL_def vimeo_getVideoId_def on_url_def vimeo_path)
qed

lemma youtube_leaves_vimeo:
  assumes "reads_plain_links (yw_url w)" "i \<noteq> []" "list_all is_id_char i"
  shows "yt_canHandleURL w (''https://vimeo.com/'' @ i) = Inr False"
proof -
  obtain u where u: "yw_url w (''https://vimeo.com/'' @ i) = Inr u" "wu_host u = ''vimeo.com''"
    by (rule reads_plain_linksD [OF assms(1) _ assms(2,3), of "''vimeo.com''"]) (use that in auto)
  then show ?thesis by (simp add: yt_canHandleURL_def on_url_def yt_handles_def ends_with_def)
qed

text \<open>
  C31. A link that the export of a queue wrote for a video of YouTube or Vimeo is given, when it is added again, to the adapter
  of that service, which finds the same video.
\<close>

theorem exported_link_found:
  assumes "iw_adapters w = initExtractor s" "{''youtube'', ''vimeo''} \<subseteq> set (sv_enabled s)" "truthy_str (sv_youtube_key s)"
    and "reads_plain_links (yw_url (fst (sv_youtube s)))" "reads_plain_links (vw_url (sv_vimeo s))"
    and "(v_service item = ''youtube'' \<and> list_all is_id_char (v_id item)) \<or> (v_service item = ''vimeo'' \<and> list_all is_digit_char (v_id item))"
    and "v_id item \<noteq> []"
  shows "\<exists>link adapter. buildUrlForQueueItem item = Inr link \<and> getServiceAdapterForURL w link = Inr adapter
    \<and> id_of_link adapter link = Inr (bare_video (v_service item) (v_id item))"
  using assms(6)
proof
  assume y: "v_service item = ''youtube'' \<and> list_all is_id_char (v_id item)"
  note found = youtube_link_found [OF assms(4,7) conjunct2 [OF y]]
  have "getServiceAdapterForURL w (''https://youtu.be/'' @ v_id item)
    = Inr (youtube_adapter (fst (sv_youtube s)) (snd (sv_youtube s)))"
    using assms(1-3) found(1) by (simp add: getServiceAdapterForURL_def initExtractor_def enabled_def adapter_fields)
  with y found(2) show ?thesis by (simp add: buildUrlForQueueItem_def id_of_link_def adapter_fields)
next
  assume v: "v_service item = ''vimeo'' \<and> list_all is_digit_char (v_id item)"
  note found = vimeo_link_found [OF assms(5,7) conjunct2 [OF v]]
  note not_youtube = youtube_leaves_vimeo [OF assms(4,7) digits_are_ids [OF conjunct2 [OF v]]]
  have "getServiceAdapterForURL w (''https://vimeo.com/'' @ v_id item) = Inr (vimeo_adapter (sv_vimeo s))"
    using assms(1-3) found(1) not_youtube by (simp add: getServiceAdapterForURL_def initExtractor_def enabled_def adapter_fields)
  with v found(2) show ?thesis by (simp add: buildUrlForQueueItem_def id_of_link_def adapter_fields)
qed

definition demo_parser :: url_parser where
  "demo_parser link =
    (if starts_with ''https://youtu.be/'' link then Inr (demo_url ''youtu.be'' (CHR ''/'' # drop 17 link))
     else Inr (demo_url ''vimeo.com'' (CHR ''/'' # drop 18 link)))"

lemma demo_parser_reads: "reads_plain_links demo_parser"
  by (auto simp: reads_plain_links_def demo_parser_def demo_url_def starts_with_def)

definition no_answer :: "'a http" where
  "no_answer = Inl \<lparr>he_exn = JsError ''offline'', he_isAxios = True, he_status = None, he_apiError = None, he_timeout = False\<rparr>"

definition no_parsed :: "string \<Rightarrow> parsedUrl" where
  "no_parsed l = \<lparr>pu_protocol = Some ''https:'', pu_path = Some l, pu_pathname = Some l, pu_href = l\<rparr>"

definition demo_services :: services where
  "demo_services = \<lparr>sv_enabled = [''youtube'', ''vimeo''], sv_youtube_key = Some ''k'', sv_google_key = None,
     sv_youtube = ((demo_youtube no_answer)\<lparr>yw_url := demo_parser\<rparr>, demo_yt_state),
     sv_vimeo = \<lparr>vw_url = demo_parser, vw_get = (\<lambda>l. no_answer)\<rparr>,
     sv_google = \<lparr>gw_url = demo_parser, gw_apiKey = [], gw_file = (\<lambda>i. no_answer), gw_folder = (\<lambda>i. no_answer)\<rparr>,
     sv_reddit = \<lparr>rw_url = demo_parser, rw_set_pathname = (\<lambda>u p. p), rw_get = (\<lambda>l. no_answer)\<rparr>,
     sv_tubi = \<lparr>tw_url = demo_parser, tw_content = (\<lambda>i. no_answer), tw_page = (\<lambda>i. no_answer), tw_parse = (\<lambda>t. Inl (JsError t))\<rparr>,
     sv_peertube = \<lparr>pw_url = demo_parser, pw_instances = [], pw_emit_as_direct = False, pw_get = (\<lambda>h i. no_answer)\<rparr>,
     sv_direct = \<lparr>dw_parse = no_parsed, dw_probe = (\<lambda>l. Inl (JsError l)), dw_manifest = (\<lambda>l. Inl (JsError l)), dw_decodeURIComponent = Inr\<rparr>,
     sv_hls = \<lparr>hw_parse = no_parsed, hw_get = (\<lambda>l. Inl (JsError l)), hw_resolve = (\<lambda>b r. r)\<rparr>,
     sv_dash = \<lparr>dw2_parse = no_parsed, dw2_get = (\<lambda>l. Inl (JsError l))\<rparr>,
     sv_pluto = demo_pluto, sv_invidious = demo_invidious 429, sv_odysee = demo_odysee\<rparr>"

definition demo_link :: queueItem where
  "demo_link = bare_video ''vimeo'' ''123456''"

theorem exported_link_found_witness:
  "\<exists>link adapter. buildUrlForQueueItem demo_link = Inr link
    \<and> getServiceAdapterForURL (demo_info (initExtractor demo_services)) link = Inr adapter
    \<and> id_of_link adapter link = Inr (bare_video ''vimeo'' ''123456'')"
proof -
  have i: "v_service demo_link = ''vimeo''" "v_id demo_link = ''123456''" by (simp_all add: demo_link_def bare_video_def)
  have d: "list_all is_digit_char ''123456''" by (simp add: is_digit_char_def)
  have w: "iw_adapters (demo_info (initExtractor demo_services)) = initExtractor demo_services" by (simp add: demo_info_def)
  have s: "{''youtube'', ''vimeo''} \<subseteq> set (sv_enabled demo_services)" "truthy_str (sv_youtube_key demo_services)"
    "reads_plain_links (yw_url (fst (sv_youtube demo_services)))" "reads_plain_links (vw_url (sv_vimeo demo_services))"
    using demo_parser_reads by (simp_all add: demo_services_def)
  show ?thesis using exported_link_found [OF w s, of demo_link] i d by simp
qed

end
