(* ===== verification/AnnounceApi.thy ===== *)
theory AnnounceApi
  imports Http
begin

text \<open>
  \<open>server/api/announce.ts\<close>: an announcement to everyone, for whoever knows the API key. Publishing on the channel in
  redis is an argument.
\<close>

record announceRequest =
  an_apikey :: "string option"
  an_text :: "string option"

definition announce :: "string \<Rightarrow> (string \<Rightarrow> 's \<Rightarrow> (exn, unit, 's) outcome) \<Rightarrow> announceRequest
    \<Rightarrow> ('s, unit) exchange \<Rightarrow> (unit, 's, unit) handler_call" where
  "announce api_key publish rq x =
    (if truthy_str (an_apikey rq)
     then (if an_apikey rq \<noteq> Some api_key then respond 400 (Failed (named_error ''InvalidApiKey'' ''apikey is invalid'')) x
           else if \<not> truthy_str (an_text rq) then raise (BadApiArgumentException ''text'' ''missing'') x
           else and_then (calling (publish (nullish (an_text rq) [])) x) (\<lambda>_ x1. respond 200 (Done ()) x1))
     else respond 400 (Failed (named_error ''MissingApiKey'' ''apikey was not supplied'')) x)"

text \<open>An exception as JSON: the properties its class defines; the message of an \<open>Error\<close> is not enumerable.\<close>

definition error_value :: "failure \<Rightarrow> apiError" where
  "error_value f = (case f of
      Raised (BadApiArgumentException arg reason) \<Rightarrow>
        \<lparr>ae_name = Some (failure_name f), ae_message = None, ae_arg = Some arg, ae_reason = Some reason, ae_fields = None\<rparr>
    | _ \<Rightarrow> \<lparr>ae_name = (if failure_name f = ''Error'' then None else Some (failure_name f)), ae_message = None, ae_arg = None,
        ae_reason = None, ae_fields = None\<rparr>)"

definition announce_errors :: "failure \<Rightarrow> ('s, unit) exchange \<Rightarrow> (unit, 's, unit) handler_call" where
  "announce_errors f x =
    (if is_ott_failure f then respond 400 (Failed (error_value f)) x
     else respond 500 (Failed (named_error ''Unknown'' ''Unknown, check logs'')) x)"

definition api_announce :: "string \<Rightarrow> (string \<Rightarrow> 's \<Rightarrow> (exn, unit, 's) outcome) \<Rightarrow> announceRequest
    \<Rightarrow> ('s, unit) exchange \<Rightarrow> (unit, 's, unit) handler_call" where
  "api_announce api_key publish rq x = catching announce_errors (announce api_key publish rq x)"

text \<open>
  An announcement is published only for a request with the API key, which is not empty, and with a text; every request is
  answered once, and with success only when its text was published.
\<close>

theorem announcing_needs_key:
  assumes "ex_sent x = []"
  shows "\<exists>r. ex_sent (final_state (api_announce key publish rq x)) = [r]
    \<and> (ex_state (final_state (api_announce key publish rq x)) \<noteq> ex_state x \<or> rs_body r = Done () \<longrightarrow>
        key \<noteq> [] \<and> an_apikey rq = Some key \<and> (\<exists>t. an_text rq = Some t \<and> t \<noteq> []
          \<and> ex_state (final_state (api_announce key publish rq x)) = final_state (publish t (ex_state x))
          \<and> (rs_body r = Done () \<longleftrightarrow> thrown (publish t (ex_state x)) = None)))"
proof (cases "truthy_str (an_apikey rq) \<and> an_apikey rq = Some key \<and> truthy_str (an_text rq)")
  case True
  then obtain t where t: "an_text rq = Some t" "t \<noteq> []" "key \<noteq> []" "an_apikey rq = Some key" by (auto simp: truthy_str_iff)
  then show ?thesis using assms
    by (cases "publish t (ex_state x)")
      (simp_all add: api_announce_def announce_def announce_errors_def calling_def respond_def)
next
  case False
  then show ?thesis using assms
    by (auto simp: api_announce_def announce_def announce_errors_def raise_def respond_def truthy_str_iff)
qed

definition demo_publish :: "string \<Rightarrow> string list \<Rightarrow> (exn, unit, string list) outcome" where
  "demo_publish t s = Returns () (s @ [t])"

theorem announcing_needs_key_witness:
  "\<exists>r. ex_sent (final_state (api_announce ''k'' demo_publish \<lparr>an_apikey = Some ''x'', an_text = Some ''hi''\<rparr>
      \<lparr>ex_state = [], ex_headers = [], ex_sent = []\<rparr>)) = [r] \<and> rs_body r \<noteq> Done ()"
proof -
  have "ex_sent \<lparr>ex_state = [] :: string list, ex_headers = [], ex_sent = [] :: unit response list\<rparr> = []" by simp
  from announcing_needs_key [OF this, of "''k''" demo_publish "\<lparr>an_apikey = Some ''x'', an_text = Some ''hi''\<rparr>"]
  show ?thesis by auto
qed

end
