(* ===== verification/BalancerLink.thy ===== *)
theory BalancerLink
  imports ClientManager
begin

text \<open>
  The socket to a load balancer, in \<open>server/balancer.ts\<close>: what is accepted as a message, and the handshake, in which a
  connection is registered only after the balancer has said who it is, within ten seconds. The rest of
  \<open>addBalancerConnection\<close> runs as a step of its own after the promise is settled, so that whatever comes in between is covered. The event \<open>open\<close>, which the sockets of a server never emit, is left out.
\<close>

section \<open>Checking messages\<close>

datatype jsonValue =
    JNull
  | JBool bool
  | JNumber rat
  | JText string
  | JArray "jsonValue list"
  | JObject "(string \<times> jsonValue) list"

text \<open>\<open>typeof\<close>; \<open>None\<close> is \<open>undefined\<close>, and \<open>typeof null\<close> is \<open>object\<close>.\<close>

fun js_typeof :: "jsonValue option \<Rightarrow> string" where
  "js_typeof None = ''undefined''"
| "js_typeof (Some (JBool _)) = ''boolean''"
| "js_typeof (Some (JNumber _)) = ''number''"
| "js_typeof (Some (JText _)) = ''string''"
| "js_typeof (Some _) = ''object''"

text \<open>
  \<open>v.name\<close> for a name that no value inherits; of \<open>null\<close> it is a \<open>TypeError\<close>.
\<close>

fun member :: "jsonValue \<Rightarrow> string \<Rightarrow> unit + jsonValue option" where
  "member JNull name = Inl ()"
| "member (JObject entries) name = Inr (map_of entries name)"
| "member _ name = Inr None"

definition member_is :: "jsonValue \<Rightarrow> string \<Rightarrow> string \<Rightarrow> unit + bool" where
  "member_is v name t = map_sum id (\<lambda>m. js_typeof m = t) (member v name)"

definition both :: "unit + bool \<Rightarrow> unit + bool \<Rightarrow> unit + bool" where
  "both a b = (case a of Inl e \<Rightarrow> Inl e | Inr False \<Rightarrow> Inr False | Inr True \<Rightarrow> b)"

definition validate_payload :: "string \<Rightarrow> jsonValue \<Rightarrow> unit + bool" where
  "validate_payload ty payload =
    (if ty = ''join'' then both (member_is payload ''room'' ''string'') (member_is payload ''client'' ''string'')
     else if ty = ''leave'' then member_is payload ''client'' ''string''
     else if ty = ''client_msg'' then both (member_is payload ''client_id'' ''string'') (member_is payload ''payload'' ''object'')
     else if ty = ''load'' then member_is payload ''room'' ''string''
     else if ty = ''unload'' then member_is payload ''room'' ''string''
     else if ty = ''init'' then member_is payload ''id'' ''string''
     else Inr False)"

definition validateB2M :: "jsonValue \<Rightarrow> unit + bool" where
  "validateB2M message =
    (if js_typeof (Some message) \<noteq> ''object'' \<or> message = JNull then Inr False
     else (case member message ''type'' of
         Inr (Some (JText ty)) \<Rightarrow>
           (case member message ''payload'' of
              Inr (Some payload) \<Rightarrow> (if js_typeof (Some payload) \<noteq> ''object'' then Inr False else validate_payload ty payload)
            | _ \<Rightarrow> Inr False)
       | _ \<Rightarrow> Inr False))"

text \<open>What the socket emits for incoming data, \<open>Inl\<close> when the handler throws; text that is no JSON is logged.\<close>

definition onSocketMessage :: "(string \<Rightarrow> jsonValue option) \<Rightarrow> string \<Rightarrow> unit + jsonValue option" where
  "onSocketMessage parse data = (case parse data of
      None \<Rightarrow> Inr None
    | Some v \<Rightarrow> (case validateB2M v of Inl e \<Rightarrow> Inl e | Inr ok \<Rightarrow> Inr (if ok then Some v else None)))"

definition known_types :: "string list" where
  "known_types = [''join'', ''leave'', ''client_msg'', ''load'', ''unload'', ''init'']"

lemma js_typeof_object: "js_typeof (Some v) = ''object'' \<longleftrightarrow> v = JNull \<or> (\<exists>xs. v = JArray xs) \<or> (\<exists>es. v = JObject es)"
  by (cases v) simp_all

lemma js_typeof_string: "js_typeof m = ''string'' \<longleftrightarrow> (\<exists>s. m = Some (JText s))"
  by (cases m rule: js_typeof.cases) simp_all

lemma validate_null: "validate_payload ty JNull = (if ty \<in> set known_types then Inl () else Inr False)"
  by (simp add: validate_payload_def member_is_def both_def known_types_def)

lemma both_total: "(\<And>e. a \<noteq> Inl e) \<Longrightarrow> (\<And>e. b \<noteq> Inl e) \<Longrightarrow> both a b \<noteq> Inl e"
  by (cases a; cases b) (simp_all add: both_def split: bool.split)

lemma member_is_total: "p \<noteq> JNull \<Longrightarrow> member_is p name t \<noteq> Inl e"
  by (cases p) (simp_all add: member_is_def)

lemma if_neqI: "(c \<Longrightarrow> a \<noteq> z) \<Longrightarrow> (\<not> c \<Longrightarrow> b \<noteq> z) \<Longrightarrow> (if c then a else b) \<noteq> z"
  by simp

lemma validate_total:
  assumes "p \<noteq> JNull"
  shows "validate_payload ty p \<noteq> Inl e"
  unfolding validate_payload_def by (intro if_neqI both_total member_is_total assms) simp

text \<open>The check itself throws, out of the handler of the socket, for exactly the messages of a known type whose payload is null.\<close>

theorem validate_throws_iff:
  "validateB2M message = Inl () \<longleftrightarrow>
    (\<exists>es ty. message = JObject es \<and> map_of es ''type'' = Some (JText ty) \<and> map_of es ''payload'' = Some JNull \<and> ty \<in> set known_types)"
proof (cases message)
  case (JObject es)
  show ?thesis
  proof (cases "\<exists>ty p. map_of es ''type'' = Some (JText ty) \<and> map_of es ''payload'' = Some p")
    case True
    then obtain ty p where tp: "map_of es ''type'' = Some (JText ty)" "map_of es ''payload'' = Some p" by blast
    have "validateB2M message = (if js_typeof (Some p) \<noteq> ''object'' then Inr False else validate_payload ty p)"
      using JObject tp by (simp add: validateB2M_def)
    then have "validateB2M message = Inl () \<longleftrightarrow> p = JNull \<and> ty \<in> set known_types"
      using validate_total [of p ty] validate_null [of ty] by (cases "p = JNull") auto
    then show ?thesis using JObject tp by simp
  next
    case False
    then show ?thesis using JObject by (auto simp: validateB2M_def split: option.splits jsonValue.splits)
  qed
qed (simp_all add: validateB2M_def)

section \<open>The handshake\<close>

datatype linkPhase = AwaitingInit | InitSeen | Registered | GivenUp

text \<open>What the manager's bus and the socket get to see: \<open>connect\<close>, \<open>disconnect\<close>, a message, and the closing with code 1002.\<close>

datatype balancerEvent = BusConnect | BusDisconnect | BusMessage msgB2M | CloseLink int

record balancerLink =
  bl_id :: string
  bl_phase :: linkPhase
  bl_timer :: bool
  bl_init_handlers :: bool
  bl_listed :: bool
  bl_events :: "balancerEvent list"

text \<open>\<open>addBalancerConnection\<close> up to where it waits: the handlers are registered and the timer is set.\<close>

definition newLink :: "string \<Rightarrow> balancerLink" where
  "newLink i = \<lparr>bl_id = i, bl_phase = AwaitingInit, bl_timer = True, bl_init_handlers = True, bl_listed = False, bl_events = []\<rparr>"

definition link_emit :: "balancerEvent \<Rightarrow> balancerLink \<Rightarrow> balancerLink" where
  "link_emit e l = l\<lparr>bl_events := bl_events l @ [e]\<rparr>"

text \<open>A promise is settled once.\<close>

definition settle :: "linkPhase \<Rightarrow> balancerLink \<Rightarrow> balancerLink" where
  "settle p l = (if bl_phase l = AwaitingInit then l\<lparr>bl_phase := p\<rparr> else l)"

text \<open>
  A message reaches the handler that waits for the first init message, and the one that passes messages on, if it is
  registered.
\<close>

definition link_message :: "msgB2M \<Rightarrow> balancerLink \<Rightarrow> balancerLink" where
  "link_message msg l =
    (let l1 = (case msg of
           B2MInit i \<Rightarrow> (if bl_init_handlers l
             then settle InitSeen (l\<lparr>bl_id := i, bl_init_handlers := False, bl_timer := False\<rparr>) else l)
         | _ \<Rightarrow> l)
     in if bl_phase l = Registered then link_emit (BusMessage msg) l1 else l1)"

definition link_closed :: "balancerLink \<Rightarrow> balancerLink" where
  "link_closed l =
    (let l1 = (link_emit BusDisconnect l)\<lparr>bl_listed := False\<rparr>
     in if bl_init_handlers l then settle GivenUp (l1\<lparr>bl_timer := False\<rparr>) else l1)"

definition link_timeout :: "balancerLink \<Rightarrow> balancerLink" where
  "link_timeout l = (if bl_timer l then settle GivenUp ((link_emit (CloseLink 1002) l)\<lparr>bl_timer := False\<rparr>) else l)"

text \<open>The rest of \<open>addBalancerConnection\<close>, after the promise was settled.\<close>

definition link_continue :: "balancerLink \<Rightarrow> balancerLink" where
  "link_continue l = (if bl_phase l = InitSeen then (link_emit BusConnect l)\<lparr>bl_phase := Registered, bl_listed := True\<rparr> else l)"

inductive handshake_step :: "balancerLink \<Rightarrow> balancerLink \<Rightarrow> bool" where
  received: "handshake_step l (link_message msg l)"
| closed: "handshake_step l (link_closed l)"
| timed_out: "handshake_step l (link_timeout l)"
| continued: "handshake_step l (link_continue l)"

definition is_message :: "balancerEvent \<Rightarrow> bool" where
  "is_message e = (case e of BusMessage _ \<Rightarrow> True | _ \<Rightarrow> False)"

text \<open>
  Messages reach the client manager only after \<open>connect\<close>, which is emitted once at most, and exactly for a connection that
  was registered; the timer runs only while the init message is awaited.
\<close>

definition handshake_ok :: "balancerLink \<Rightarrow> bool" where
  "handshake_ok l \<longleftrightarrow> list_all (\<lambda>e. \<not> is_message e) (takeWhile (\<lambda>e. e \<noteq> BusConnect) (bl_events l))
    \<and> (count_list (bl_events l) BusConnect = (if bl_phase l = Registered then 1 else 0))
    \<and> (bl_timer l \<longrightarrow> bl_phase l = AwaitingInit \<and> bl_init_handlers l)
    \<and> (bl_phase l = AwaitingInit \<longrightarrow> bl_timer l)
    \<and> (bl_listed l \<longrightarrow> bl_phase l = Registered)"

lemma takeWhile_snoc:
  "takeWhile P (xs @ [x]) = (if \<forall>y\<in>set xs. P y then xs @ (if P x then [x] else []) else takeWhile P xs)"
  by (auto simp: takeWhile_append)

lemma before_connect:
  "list_all q (takeWhile (\<lambda>e. e \<noteq> BusConnect) (es @ [e])) \<longleftrightarrow>
    list_all q (takeWhile (\<lambda>e. e \<noteq> BusConnect) es) \<and> (BusConnect \<in> set es \<or> e = BusConnect \<or> q e)"
  by (auto simp: takeWhile_snoc list_all_iff takeWhile_eq_all_conv [THEN iffD2])

lemma connected_once: "handshake_ok l \<Longrightarrow> bl_phase l = Registered \<Longrightarrow> BusConnect \<in> set (bl_events l)"
  by (metis count_list_0_iff handshake_ok_def zero_neq_one)

lemma handshake_step_ok: "handshake_step l l' \<Longrightarrow> handshake_ok l \<Longrightarrow> handshake_ok l'"
proof (induction rule: handshake_step.induct)
  case (received l msg)
  then show ?case using connected_once [OF received]
    by (cases msg; cases "bl_phase l = Registered")
      (auto simp: handshake_ok_def link_message_def settle_def link_emit_def Let_def before_connect)
next
  case (closed l)
  then show ?case by (auto simp: handshake_ok_def link_closed_def settle_def link_emit_def Let_def before_connect is_message_def)
next
  case (timed_out l)
  then show ?case by (auto simp: handshake_ok_def link_timeout_def settle_def link_emit_def before_connect is_message_def)
next
  case (continued l)
  then show ?case by (auto simp: handshake_ok_def link_continue_def link_emit_def before_connect)
qed



text \<open>
  If a message follows the init message before the function has gone on, it is lost; and a socket that closes there is listed
  for good.
\<close>

lemma early_message_lost:
  "link_continue (link_message msg (link_message (B2MInit i) (newLink j))) = link_continue (link_message (B2MInit i) (newLink j))"
  by (cases msg) (simp_all add: link_message_def newLink_def settle_def link_continue_def link_emit_def)

lemma closed_link_listed: "bl_listed (link_continue (link_closed (link_message (B2MInit i) (newLink j))))"
  by (simp add: link_message_def newLink_def settle_def link_continue_def link_emit_def link_closed_def)

end
