(* ===== verification/Visualiser.thy ===== *)
theory Visualiser
  imports Prelude
begin

text \<open>
  The dashboard over a whole installation: \<open>packages/ott-vis-panel/src/aggregate.ts\<close> joins what the balancers report of the
  same monolith or room, \<open>treeutils.ts\<close> builds, merges and stacks the trees that are drawn, \<open>chartutils.ts\<close> zooms so that
  everything is seen. Numbers are rationals. The layout of a tree and the drawing are d3's and not modelled; of a node of
  \<open>d3.hierarchy\<close> the model has its data and its children, which d3 leaves undefined for a leaf.
\<close>

section \<open>The state of an installation\<close>

record visClient =
  vc_id :: string
  vc_edge_region :: string

record visRoom =
  vr_name :: string
  vr_clients :: "visClient list"

record visMonolith =
  vm_id :: string
  vm_region :: string
  vm_rooms :: "visRoom list"

record visBalancer =
  vb_id :: string
  vb_region :: string
  vb_monoliths :: "visMonolith list"

section \<open>Removing duplicates\<close>

fun dedupe_into :: "('a \<Rightarrow> string) \<Rightarrow> ('a \<Rightarrow> 'a \<Rightarrow> string + 'a) \<Rightarrow> 'a list \<Rightarrow> (string, 'a) js_map
    \<Rightarrow> string + (string, 'a) js_map" where
  "dedupe_into getKey reduce [] itemMap = Inr itemMap"
| "dedupe_into getKey reduce (item # items) itemMap = (case map_of itemMap (getKey item) of
      None \<Rightarrow> dedupe_into getKey reduce items (AList.update (getKey item) item itemMap)
    | Some existing \<Rightarrow> (case reduce existing item of
          Inl e \<Rightarrow> Inl e
        | Inr reduced \<Rightarrow> dedupe_into getKey reduce items (AList.update (getKey item) reduced itemMap)))"

definition dedupeItems :: "('a \<Rightarrow> string) \<Rightarrow> ('a \<Rightarrow> 'a \<Rightarrow> string + 'a) \<Rightarrow> 'a list \<Rightarrow> string + 'a list" where
  "dedupeItems getKey reduce items = (case dedupe_into getKey reduce items [] of
      Inl e \<Rightarrow> Inl e | Inr itemMap \<Rightarrow> Inr (map snd itemMap))"

definition reduceRoom :: "visRoom \<Rightarrow> visRoom \<Rightarrow> string + visRoom" where
  "reduceRoom rA rB = (if vr_name rA \<noteq> vr_name rB then Inl ''Cannot reduce rooms with different names''
     else Inr \<lparr>vr_name = vr_name rA, vr_clients = vr_clients rA @ vr_clients rB\<rparr>)"

definition dedupeRooms :: "visRoom list \<Rightarrow> string + visRoom list" where
  "dedupeRooms rooms = dedupeItems vr_name reduceRoom rooms"

definition reduceMonolith :: "visMonolith \<Rightarrow> visMonolith \<Rightarrow> string + visMonolith" where
  "reduceMonolith mA mB = (if vm_id mA \<noteq> vm_id mB then Inl ''Cannot reduce monoliths with different ids''
     else (case dedupeRooms (vm_rooms mA @ vm_rooms mB) of
         Inl e \<Rightarrow> Inl e
       | Inr rooms \<Rightarrow> Inr \<lparr>vm_id = vm_id mA, vm_region = vm_region mA, vm_rooms = rooms\<rparr>))"

definition dedupeMonoliths :: "visMonolith list \<Rightarrow> string + visMonolith list" where
  "dedupeMonoliths monoliths = dedupeItems vm_id reduceMonolith monoliths"

lemma concat_filter_absent: "k \<notin> key ` set xs \<Longrightarrow> concat (map f (filter (\<lambda>x. key x = k) xs)) = []"
  by (induction xs) auto

lemma concat_filter_one:
  assumes "distinct (map key out)" and "v \<in> set out"
  shows "concat (map f (filter (\<lambda>x. key x = key v) out)) = f v"
  using assms
proof (induction out)
  case (Cons x out)
  show ?case
  proof (cases "x = v")
    case True
    then have "key v \<notin> key ` set out" using Cons.prems(1) by simp
    then show ?thesis using True by (simp add: concat_filter_absent)
  next
    case False
    then have "key x \<noteq> key v" using Cons.prems by (auto simp: image_iff)
    then show ?thesis using False Cons by simp
  qed
qed simp

lemma set_js_keys: "map key out = js_set_of_list (map key xs) [] \<Longrightarrow> key ` set out = key ` set xs"
  by (metis js_set_of_list_simps list.set_map sup_bot.right_neutral list.set(1))

text \<open>
  What \<open>dedupeItems\<close> relies on: items of one key can be reduced, and the result has their key.
\<close>

locale keyed_reduction =
  fixes key :: "'a \<Rightarrow> string"
    and red :: "'a \<Rightarrow> 'a \<Rightarrow> string + 'a"
  assumes reduces: "key a = key b \<Longrightarrow> \<exists>c. red a b = Inr c \<and> key c = key a"
begin

definition keyed :: "(string, 'a) js_map \<Rightarrow> bool" where
  "keyed m \<longleftrightarrow> distinct (map fst m) \<and> (\<forall>k v. map_of m k = Some v \<longrightarrow> key v = k)"

lemma keyed_get: "keyed m \<Longrightarrow> map_of m k = Some v \<Longrightarrow> key v = k"
  by (simp add: keyed_def)

lemma keyed_update: "keyed m \<Longrightarrow> key v = k \<Longrightarrow> keyed (AList.update k v m)"
  by (simp add: keyed_def distinct_update)

lemma dedupe_into_ok:
  assumes "keyed m"
  shows "\<exists>m'. dedupe_into key red xs m = Inr m' \<and> keyed m' \<and> map fst m' = js_set_of_list (map key xs) (map fst m)"
  using assms
proof (induction xs arbitrary: m)
  case (Cons x xs)
  show ?case
  proof (cases "map_of m (key x)")
    case None
    then have "map fst (AList.update (key x) x m) = js_set_add (key x) (map fst m)"
      by (simp add: update_keys js_set_add_def map_of_eq_None_iff)
    then show ?thesis using None Cons.IH [OF keyed_update [OF Cons.prems refl, of x]] by simp
  next
    case (Some a)
    then have a: "key a = key x" and kx: "key x \<in> set (map fst m)" 
      using keyed_get [OF Cons.prems Some] by (auto dest: map_of_SomeD intro: rev_image_eqI)
    from reduces [OF a] obtain c where c: "red a x = Inr c" "key c = key x" using a by auto
    have "map fst (AList.update (key x) c m) = js_set_add (key x) (map fst m)"
      using kx by (simp add: update_keys js_set_add_def)
    then show ?thesis using Some c Cons.IH [OF keyed_update [OF Cons.prems c(2)]] by simp
  qed
qed simp

text \<open>The keys of the result are those of the items, each once, in the order of their first occurrence.\<close>

lemma dedupe_runs:
  "\<exists>out. dedupeItems key red xs = Inr out \<and> map key out = js_set_of_list (map key xs) [] \<and> distinct (map key out)"
proof -
  obtain m where m: "dedupe_into key red xs [] = Inr m" "keyed m" "map fst m = js_set_of_list (map key xs) []"
    using dedupe_into_ok [of "[]" xs] by (auto simp: keyed_def)
  have "key v = k" if "(k, v) \<in> set m" for k v
    using that m(2) by (simp add: keyed_def)
  then have "map key (map snd m) = map fst m" by auto
  then show ?thesis using m by (simp add: dedupeItems_def)
qed

text \<open>
  A list that is read off an item, and is appended when items are reduced: nothing of it is lost, doubled or moved to another
  key.
\<close>

lemma dedupe_into_collects:
  assumes hom: "\<And>a b c. key a = key b \<Longrightarrow> ok a \<Longrightarrow> ok b \<Longrightarrow> red a b = Inr c \<Longrightarrow> ok c \<and> f c = f a @ f b"
    and "keyed m" and "\<And>k v. map_of m k = Some v \<Longrightarrow> ok v" and "list_all ok xs" and "dedupe_into key red xs m = Inr m'"
  shows "(\<forall>k v. map_of m' k = Some v \<longrightarrow> ok v)
    \<and> (\<forall>k. (case map_of m' k of None \<Rightarrow> [] | Some v \<Rightarrow> f v)
        = (case map_of m k of None \<Rightarrow> [] | Some v \<Rightarrow> f v) @ concat (map f (filter (\<lambda>x. key x = k) xs)))"
  using assms(2-)
proof (induction xs arbitrary: m)
  case (Cons x xs)
  show ?case
  proof (cases "map_of m (key x)")
    case None
    then have run: "dedupe_into key red xs (AList.update (key x) x m) = Inr m'" using Cons.prems(4) by simp
    have "ok v" if "map_of (AList.update (key x) x m) k = Some v" for k v
      using that Cons.prems(2,3) by (auto split: if_splits)
    from Cons.IH [OF keyed_update [OF Cons.prems(1) refl] this _ run] Cons.prems(3) None
    show ?thesis by auto
  next
    case (Some a)
    have a: "key a = key x" "ok a" using keyed_get [OF Cons.prems(1) Some] Cons.prems(2) [OF Some] by auto
    from reduces [OF a(1)] obtain c where c: "red a x = Inr c" "key c = key x" using a by auto
    have oc: "ok c \<and> f c = f a @ f x" using hom [OF a(1,2) _ c(1)] Cons.prems(3) by simp
    have run: "dedupe_into key red xs (AList.update (key x) c m) = Inr m'" using Cons.prems(4) Some c by simp
    have "ok v" if "map_of (AList.update (key x) c m) k = Some v" for k v
      using that Cons.prems(2) oc by (auto split: if_splits)
    from Cons.IH [OF keyed_update [OF Cons.prems(1) c(2)] this _ run] Cons.prems(3) Some oc
    show ?thesis by auto
  qed
qed simp

lemma dedupe_collects:
  assumes hom: "\<And>a b c. key a = key b \<Longrightarrow> ok a \<Longrightarrow> ok b \<Longrightarrow> red a b = Inr c \<Longrightarrow> ok c \<and> f c = f a @ f b"
    and "list_all ok xs" and "dedupeItems key red xs = Inr out" and "v \<in> set out"
  shows "ok v \<and> f v = concat (map f (filter (\<lambda>x. key x = key v) xs))"
proof -
  obtain m where m: "dedupe_into key red xs [] = Inr m" "out = map snd m" 
    using assms(3) by (auto simp: dedupeItems_def split: sum.splits)
  have k: "keyed m" using dedupe_into_ok [of "[]" xs] m(1) by (auto simp: keyed_def)
  obtain k where "(k, v) \<in> set m" using m(2) assms(4) by auto
  then have v: "map_of m k = Some v" using k by (simp add: keyed_def)
  have kv: "key v = k" using keyed_get [OF k v] .
  have n: "keyed []" by (simp add: keyed_def)
  have "(\<forall>k v. map_of m k = Some v \<longrightarrow> ok v)
    \<and> (\<forall>k. (case map_of m k of None \<Rightarrow> [] | Some v \<Rightarrow> f v)
        = (case map_of [] k of None \<Rightarrow> [] | Some v \<Rightarrow> f v) @ concat (map f (filter (\<lambda>x. key x = k) xs)))"
  proof (rule dedupe_into_collects [OF _ n _ assms(2) m(1)])
    show "ok c \<and> f c = f a @ f b" if "key a = key b" "ok a" "ok b" "red a b = Inr c" for a b c
      using that by (rule hom)
  qed simp
  then show ?thesis using v kv by (auto dest!: spec [of _ k])
qed

lemma dedupe_keeps:
  assumes hom: "\<And>a b c. key a = key b \<Longrightarrow> red a b = Inr c \<Longrightarrow> f c = f a @ f b" and out: "dedupeItems key red xs = Inr out"
  shows "concat (map f (filter (\<lambda>x. key x = k) out)) = concat (map f (filter (\<lambda>x. key x = k) xs))"
proof -
  have keys: "map key out = js_set_of_list (map key xs) []" "distinct (map key out)"
    using dedupe_runs [of xs] out by auto
  show ?thesis
  proof (cases "k \<in> key ` set out")
    case True
    then obtain v where v: "v \<in> set out" "key v = k" by auto
    have "True \<and> f v = concat (map f (filter (\<lambda>x. key x = key v) xs))"
    proof (rule dedupe_collects [OF _ _ out v(1)])
      show "True \<and> f c = f a @ f b" if "key a = key b" "red a b = Inr c" for a b c using hom [OF that] by simp
    qed (simp add: list_all_iff)
    then show ?thesis using concat_filter_one [OF keys(2) v(1), of f] v(2) by simp
  next
    case False
    then show ?thesis using set_js_keys [OF keys(1)] by (simp add: concat_filter_absent)
  qed
qed

end

interpretation vis_rooms: keyed_reduction vr_name reduceRoom
  by unfold_locales (simp add: reduceRoom_def)

text \<open>The clients reported of a room, in their order.\<close>

definition clients_of_room :: "string \<Rightarrow> visRoom list \<Rightarrow> visClient list" where
  "clients_of_room n rooms = concat (map vr_clients (filter (\<lambda>r. vr_name r = n) rooms))"

lemma reduceRoom_clients: "reduceRoom a b = Inr c \<Longrightarrow> vr_clients c = vr_clients a @ vr_clients b"
  by (auto simp: reduceRoom_def split: if_splits)

lemma dedupeRooms_clients: "dedupeRooms rooms = Inr out \<Longrightarrow> clients_of_room n out = clients_of_room n rooms"
  unfolding clients_of_room_def dedupeRooms_def by (rule vis_rooms.dedupe_keeps [OF reduceRoom_clients])

interpretation vis_monoliths: keyed_reduction vm_id reduceMonolith
proof
  fix a b :: visMonolith assume "vm_id a = vm_id b"
  then show "\<exists>c. reduceMonolith a b = Inr c \<and> vm_id c = vm_id a"
    using vis_rooms.dedupe_runs [of "vm_rooms a @ vm_rooms b"] by (auto simp: reduceMonolith_def dedupeRooms_def)
qed

text \<open>
  The clients reported in a room of a monolith, by whichever balancer, in their order.
\<close>

definition clients_in :: "string \<Rightarrow> string \<Rightarrow> visMonolith list \<Rightarrow> visClient list" where
  "clients_in i n ms = concat (map (\<lambda>m. clients_of_room n (vm_rooms m)) (filter (\<lambda>m. vm_id m = i) ms))"

lemma clients_of_room_append [simp]: "clients_of_room n (xs @ ys) = clients_of_room n xs @ clients_of_room n ys"
  by (simp add: clients_of_room_def)

lemma reduceMonolith_clients:
  "reduceMonolith a b = Inr c \<Longrightarrow> clients_of_room n (vm_rooms c) = clients_of_room n (vm_rooms a) @ clients_of_room n (vm_rooms b)"
  using dedupeRooms_clients [of "vm_rooms a @ vm_rooms b" _ n] by (auto simp: reduceMonolith_def split: sum.splits if_splits)

lemma dedupeMonoliths_clients: "dedupeMonoliths ms = Inr out \<Longrightarrow> clients_in i n out = clients_in i n ms"
  unfolding clients_in_def dedupeMonoliths_def by (rule vis_monoliths.dedupe_keeps [OF reduceMonolith_clients])

text \<open>
  C38. Joining what several balancers report loses nothing: it never fails, each monolith appears once, in the order of the
  first reports, and every room of every monolith has exactly the clients that were reported in it, each as often and in the
  same order.
\<close>

theorem dedupe_loses_no_client:
  "\<exists>out. dedupeMonoliths ms = Inr out \<and> map vm_id out = js_set_of_list (map vm_id ms) [] \<and> distinct (map vm_id out)
    \<and> (\<forall>i n. clients_in i n out = clients_in i n ms)"
proof -
  obtain out where out: "dedupeMonoliths ms = Inr out" "map vm_id out = js_set_of_list (map vm_id ms) []" "distinct (map vm_id out)"
    using vis_monoliths.dedupe_runs [of ms] unfolding dedupeMonoliths_def [symmetric] by (elim exE conjE) (rule that)
  then show ?thesis using dedupeMonoliths_clients [OF out(1)] by blast
qed

section \<open>Building the tree\<close>

datatype treeNode = TreeNode (tn_id: string) (tn_region: string) (tn_group: string) (tn_children: "treeNode list")

definition buildRoomSubtree :: "visRoom \<Rightarrow> string \<Rightarrow> treeNode" where
  "buildRoomSubtree r region = TreeNode (vr_name r) region ''room''
     (map (\<lambda>c. TreeNode (vc_id c) region ''client'' []) (vr_clients r))"

definition buildRoomSubtrees :: "visMonolith \<Rightarrow> treeNode list" where
  "buildRoomSubtrees m = map (\<lambda>r. buildRoomSubtree r (vm_region m)) (vm_rooms m)"

definition buildMonolithTrees :: "visMonolith list \<Rightarrow> treeNode list" where
  "buildMonolithTrees monoliths = map (\<lambda>m. TreeNode (vm_id m) (vm_region m) ''monolith'' (buildRoomSubtrees m)) monoliths"

fun push_child :: "treeNode \<Rightarrow> treeNode \<Rightarrow> treeNode" where
  "push_child child (TreeNode i region g cs) = TreeNode i region g (cs @ [child])"

text \<open>One round of the loop: the node of the balancer's region is found or made, and gets the balancer as its last child.\<close>

definition add_balancer :: "(string, treeNode) js_map \<Rightarrow> visBalancer \<Rightarrow> (string, treeNode) js_map" where
  "add_balancer regions b =
    (let regionNode = nullish (map_of regions (vb_region b)) (TreeNode (vb_region b) (vb_region b) ''region'' []);
         balancerNode = TreeNode (vb_id b) (vb_region b) ''balancer'' (buildMonolithTrees (vb_monoliths b))
     in AList.update (tn_region regionNode) (push_child balancerNode regionNode) regions)"

definition buildFullTree :: "visBalancer list \<Rightarrow> treeNode" where
  "buildFullTree systemState = TreeNode ''root'' ''global'' ''root'' (map snd (foldl add_balancer [] systemState))"

definition balancer_node :: "visBalancer \<Rightarrow> treeNode" where
  "balancer_node b = TreeNode (vb_id b) (vb_region b) ''balancer'' (buildMonolithTrees (vb_monoliths b))"

definition region_node :: "visBalancer list \<Rightarrow> string \<Rightarrow> treeNode" where
  "region_node bs region = TreeNode region region ''region'' (map balancer_node (filter (\<lambda>b. vb_region b = region) bs))"

lemma map_of_tabulate: "map_of (map (\<lambda>k. (k, f k)) ks) k = (if k \<in> set ks then Some (f k) else None)"
  by (induction ks) auto

lemma update_tabulate:
  "distinct ks \<Longrightarrow> AList.update k (f k) (map (\<lambda>j. (j, g j)) ks)
    = map (\<lambda>j. (j, if j = k then f k else g j)) (js_set_add k ks)"
proof (induction ks)
  case (Cons j ks)
  then show ?case by (auto simp: js_set_add_def)
qed (simp add: js_set_add_def)

lemma js_set_of_list_snoc: "js_set_of_list (xs @ [x]) s = js_set_add x (js_set_of_list xs s)"
  by (induction xs s rule: js_set_of_list.induct) simp_all

lemma regions_after:
  "foldl add_balancer [] bs = map (\<lambda>r. (r, region_node bs r)) (js_set_of_list (map vb_region bs) [])"
proof (induction bs rule: rev_induct)
  case (snoc b bs)
  let ?ks = "js_set_of_list (map vb_region bs) []" and ?r = "vb_region b"
  have old: "region_node bs ?r = TreeNode ?r ?r ''region'' []" if "?r \<notin> set ?ks"
    using that by (simp add: region_node_def filter_empty_conv image_iff) metis
  have new: "push_child (balancer_node b) (region_node bs ?r) = region_node (bs @ [b]) ?r" by (simp add: region_node_def)
  have same: "region_node (bs @ [b]) r = region_node bs r" if "r \<noteq> ?r" for r using that by (simp add: region_node_def)
  have "add_balancer (map (\<lambda>r. (r, region_node bs r)) ?ks) b
      = AList.update ?r (region_node (bs @ [b]) ?r) (map (\<lambda>r. (r, region_node bs r)) ?ks)"
  proof (cases "?r \<in> set ?ks")
    case True
    then show ?thesis using new by (simp add: add_balancer_def map_of_tabulate balancer_node_def [symmetric] Let_def)
      (simp add: region_node_def)
  next
    case False
    then show ?thesis using new old
      by (simp add: add_balancer_def map_of_tabulate balancer_node_def [symmetric] Let_def)
  qed
  then show ?case
    by (simp add: snoc.IH update_tabulate js_set_of_list_snoc) (use same in auto)
qed simp

text \<open>The tree has each region once, in the order of their first balancers, with all its balancers in their order.\<close>

theorem full_tree_by_region:
  "buildFullTree bs = TreeNode ''root'' ''global'' ''root'' (map (region_node bs) (js_set_of_list (map vb_region bs) []))"
  by (simp add: buildFullTree_def regions_after comp_def)

section \<open>Merging trees\<close>

text \<open>
  A node of \<open>d3.hierarchy\<close>: its data and its children, which are undefined for a leaf. The model is for trees in which no
  node object occurs twice, so that pushing to the children of a node changes no other; the parents of nodes are left out.
\<close>

datatype hierarchyNode = HierarchyNode (hn_data: treeNode) (hn_children: "hierarchyNode list option")

definition hn_id :: "hierarchyNode \<Rightarrow> string" where
  "hn_id n = tn_id (hn_data n)"

text \<open>\<open>a.children?.push(...b.children)\<close>\<close>

definition push_children :: "hierarchyNode \<Rightarrow> hierarchyNode list \<Rightarrow> hierarchyNode" where
  "push_children a cs = HierarchyNode (hn_data a) (map_option (\<lambda>xs. xs @ cs) (hn_children a))"

definition adopt :: "hierarchyNode \<Rightarrow> hierarchyNode \<Rightarrow> string + hierarchyNode" where
  "adopt a b = Inr (push_children a (nullish (hn_children b) []))"

fun see_trees :: "hierarchyNode list \<Rightarrow> (string, hierarchyNode) js_map \<Rightarrow> (string, hierarchyNode) js_map" where
  "see_trees [] seen = seen"
| "see_trees (tree # trees) seen = (case hn_children tree of
      None \<Rightarrow> see_trees trees seen
    | Some [] \<Rightarrow> see_trees trees seen
    | Some cs \<Rightarrow> see_trees trees (case map_of seen (hn_id tree) of
          None \<Rightarrow> AList.update (hn_id tree) tree seen
        | Some existing \<Rightarrow> AList.update (hn_id tree) (push_children existing cs) seen))"

text \<open>The children after \<open>dedupeItems\<close>; \<open>adopt\<close> does not throw.\<close>

definition deduped :: "hierarchyNode list \<Rightarrow> hierarchyNode list" where
  "deduped cs = (case dedupeItems hn_id adopt cs of Inl e \<Rightarrow> [] | Inr out \<Rightarrow> out)"

fun node_count :: "hierarchyNode \<Rightarrow> nat" where
  "node_count (HierarchyNode d cs) = Suc (case cs of None \<Rightarrow> 0 | Some ts \<Rightarrow> sum_list (map node_count ts))"

interpretation vis_nodes: keyed_reduction hn_id adopt
  by unfold_locales (simp add: adopt_def push_children_def hn_id_def)

lemma deduped_runs: "dedupeItems hn_id adopt cs = Inr (deduped cs)"
  using vis_nodes.dedupe_runs [of cs] by (auto simp: deduped_def)

lemma deduped_keys: "map hn_id (deduped cs) = js_set_of_list (map hn_id cs) []" "distinct (map hn_id (deduped cs))"
  using vis_nodes.dedupe_runs [of cs] by (auto simp: deduped_def)

lemma adopt_count: "adopt a b = Inr c \<Longrightarrow> node_count c \<le> node_count a + node_count b"
  by (cases a; cases b) (auto simp: adopt_def push_children_def split: option.splits)

text \<open>Merging never makes a tree bigger, so the recursion ends.\<close>

lemma dedupe_into_count:
  assumes "dedupe_into hn_id adopt xs m = Inr m'"
  shows "sum_list (map (\<lambda>e. node_count (snd e)) m') \<le> sum_list (map (\<lambda>e. node_count (snd e)) m) + sum_list (map node_count xs)"
  using assms
proof (induction xs arbitrary: m)
  case (Cons x xs)
  have upd: "sum_list (map (\<lambda>e. node_count (snd e)) (AList.update k v m))
      + (case map_of m k of None \<Rightarrow> 0 | Some a \<Rightarrow> node_count a) = sum_list (map (\<lambda>e. node_count (snd e)) m) + node_count v" for k v
    by (induction m) auto
  show ?case
  proof (cases "map_of m (hn_id x)")
    case None
    then show ?thesis using Cons.prems Cons.IH [of "AList.update (hn_id x) x m"] upd [of "hn_id x" x] by simp
  next
    case (Some a)
    then obtain c where c: "adopt a x = Inr c" by (simp add: adopt_def)
    then show ?thesis using Some Cons.prems Cons.IH [of "AList.update (hn_id x) c m"] upd [of "hn_id x" c] adopt_count [OF c] by simp
  qed
qed simp

lemma deduped_count: "sum_list (map node_count (deduped cs)) \<le> sum_list (map node_count cs)"
proof -
  from deduped_runs [of cs] obtain m where "dedupe_into hn_id adopt cs [] = Inr m" "deduped cs = map snd m"
    by (auto simp: dedupeItems_def split: sum.splits)
  then show ?thesis using dedupe_into_count [of cs "[]" m] by (simp add: comp_def)
qed

lemma member_count: "c \<in> set cs \<Longrightarrow> node_count c \<le> sum_list (map node_count cs)"
  by (induction cs) auto

text \<open>
  What a call does to a tree that it has seen: its children are joined by their ids, and \<open>mergeTrees([child])\<close> does the same to
  each of them, unless it has no children.
\<close>

function merge_seen :: "hierarchyNode \<Rightarrow> hierarchyNode" where
  "merge_seen tree = HierarchyNode (hn_data tree) (Some (map (\<lambda>child. (case hn_children child of
      None \<Rightarrow> child | Some [] \<Rightarrow> child | Some (_ # _) \<Rightarrow> merge_seen child)) (deduped (nullish (hn_children tree) []))))"
  by pat_completeness auto

lemma child_smaller:
  assumes "child \<in> set (deduped (nullish (hn_children tree) []))"
  shows "node_count child < node_count tree"
proof -
  have "sum_list (map node_count (nullish (hn_children tree) [])) < node_count tree"
    by (cases tree; cases "hn_children tree") simp_all
  then show ?thesis using member_count [OF assms] deduped_count [of "nullish (hn_children tree) []"] by linarith
qed

termination merge_seen
  by (relation "measure node_count") (simp_all add: child_smaller)

declare merge_seen.simps [simp del]

definition mergeTrees :: "hierarchyNode list \<Rightarrow> hierarchyNode list" where
  "mergeTrees trees = map (\<lambda>e. merge_seen (snd e)) (see_trees trees [])"

subsection \<open>What merging keeps\<close>

abbreviation nodes_below :: "hierarchyNode \<Rightarrow> hierarchyNode list" where
  "nodes_below n \<equiv> nullish (hn_children n) []"

text \<open>
  The paths of ids from a root to the nodes that have an array of children, and to those that have none.
\<close>

fun paths :: "bool \<Rightarrow> hierarchyNode \<Rightarrow> string list set" where
  "paths b (HierarchyNode d cs) = (if (cs \<noteq> None) = b then {[tn_id d]} else {})
     \<union> (#) (tn_id d) ` (\<Union>c \<in> set (case cs of None \<Rightarrow> [] | Some ts \<Rightarrow> ts). paths b c)"

definition all_paths :: "bool \<Rightarrow> hierarchyNode list \<Rightarrow> string list set" where
  "all_paths b ns = (\<Union>n \<in> set ns. paths b n)"

fun ids_distinct_below :: "hierarchyNode \<Rightarrow> bool" where
  "ids_distinct_below (HierarchyNode d cs) = (case cs of None \<Rightarrow> True | Some ts \<Rightarrow>
     distinct (map hn_id ts) \<and> list_all ids_distinct_below ts)"

lemma paths_unfold:
  "paths b n = (if (hn_children n \<noteq> None) = b then {[hn_id n]} else {}) \<union> (#) (hn_id n) ` all_paths b (nodes_below n)"
  by (cases n; cases "hn_children n") (simp_all add: hn_id_def all_paths_def)

lemma all_paths_cong:
  "(\<And>n. n \<in> set ns \<Longrightarrow> paths b (f n) = paths b n) \<Longrightarrow> all_paths b (map f ns) = all_paths b ns"
  by (simp add: all_paths_def)

lemma all_paths_mono: "set xs \<subseteq> set ys \<Longrightarrow> all_paths b xs \<subseteq> all_paths b ys"
  by (auto simp: all_paths_def)

definition separated :: "hierarchyNode list \<Rightarrow> bool" where
  "separated ns \<longleftrightarrow> all_paths True ns \<inter> all_paths False ns = {}"

lemma separated_below:
  assumes "separated ns" and "n \<in> set ns"
  shows "separated (nodes_below n)"
proof -
  have "(#) (hn_id n) ` all_paths b (nodes_below n) \<subseteq> all_paths b ns" for b
    using assms(2) paths_unfold [of b n] by (auto simp: all_paths_def)
  from this [of True] this [of False] show ?thesis using assms(1) unfolding separated_def by blast
qed

lemma separated_member: "separated ns \<Longrightarrow> n \<in> set ns \<Longrightarrow> separated [n]"
  using all_paths_mono [of "[n]" ns True] all_paths_mono [of "[n]" ns False] unfolding separated_def by auto

lemma separated_kinds:
  assumes "separated ns" and "a \<in> set ns" and "b \<in> set ns" and "hn_id a = hn_id b"
  shows "hn_children a = None \<longleftrightarrow> hn_children b = None"
proof -
  have here: "[hn_id n] \<in> paths (hn_children n \<noteq> None) n" for n
    by (subst paths_unfold) simp
  have "[hn_id n] \<in> all_paths (hn_children n \<noteq> None) ns" if "n \<in> set ns" for n
    using that here [of n] by (auto simp only: all_paths_def)
  from this [OF assms(2)] this [OF assms(3)] show ?thesis using assms(1,4) unfolding separated_def
    by (cases "hn_children a = None"; cases "hn_children b = None") auto
qed

text \<open>Joining the nodes of one id keeps both kinds of paths, if they are separated.\<close>

lemma deduped_members:
  assumes "separated ns" and v: "v \<in> set (deduped ns)"
  shows "(\<exists>n \<in> set ns. hn_id n = hn_id v \<and> (hn_children n = None \<longleftrightarrow> hn_children v = None))
    \<and> nodes_below v = concat (map nodes_below (filter (\<lambda>n. hn_id n = hn_id v) ns))"
proof -
  define I where "I = hn_id ` {x \<in> set ns. hn_children x \<noteq> None}"
  let ?ok = "\<lambda>n. hn_children n = None \<longleftrightarrow> hn_id n \<notin> I"
  have okn: "?ok n" if n: "n \<in> set ns" for n
  proof
    assume none: "hn_children n = None"
    show "hn_id n \<notin> I"
    proof
      assume "hn_id n \<in> I"
      then obtain x where x: "hn_id n = hn_id x" "x \<in> {x \<in> set ns. hn_children x \<noteq> None}" unfolding I_def by (rule imageE)
      then have "x \<in> set ns" and some: "hn_children x \<noteq> None" by simp_all
      from separated_kinds [OF assms(1) n this(1) x(1)] none some show False by simp
    qed
  next
    assume "hn_id n \<notin> I"
    then show "hn_children n = None" using n unfolding I_def by (metis (mono_tags, lifting) imageI mem_Collect_eq)
  qed
  then have ok: "list_all ?ok ns" unfolding list_all_iff by (rule ballI)
  have "?ok v \<and> nodes_below v = concat (map nodes_below (filter (\<lambda>n. hn_id n = hn_id v) ns))"
  proof (rule vis_nodes.dedupe_collects [OF _ ok deduped_runs v])
    show "?ok c \<and> nodes_below c = nodes_below a @ nodes_below b"
      if "hn_id a = hn_id b" "?ok a" "?ok b" "adopt a b = Inr c" for a b c
      using that by (cases "hn_children a"; cases "hn_children b") (auto simp: adopt_def push_children_def hn_id_def)
  qed
  moreover obtain n where "n \<in> set ns" "hn_id n = hn_id v"
    using set_js_keys [OF deduped_keys(1) [of ns]] v by (metis imageE imageI)
  ultimately show ?thesis using okn by metis
qed

lemma all_pathsI: "n \<in> set ns \<Longrightarrow> p \<in> paths b n \<Longrightarrow> p \<in> all_paths b ns"
  by (simp only: all_paths_def UN_I)

lemma in_paths_iff:
  "p \<in> paths b n \<longleftrightarrow> (hn_children n \<noteq> None) = b \<and> p = [hn_id n]
     \<or> (\<exists>c \<in> set (nodes_below n). \<exists>q \<in> paths b c. p = hn_id n # q)"
  by (subst paths_unfold) (auto simp: all_paths_def)

lemma root_path: "(hn_children n \<noteq> None) = b \<Longrightarrow> [hn_id n] \<in> paths b n"
  by (rule iffD2 [OF in_paths_iff]) simp

lemma paths_of_alike:
  assumes "hn_id v = hn_id n" and "hn_children v = None \<longleftrightarrow> hn_children n = None" and "set (nodes_below n) \<subseteq> set (nodes_below v)"
  shows "paths b n \<subseteq> paths b v"
proof
  fix p assume "p \<in> paths b n"
  then show "p \<in> paths b v" unfolding in_paths_iff using assms by (elim disjE bexE) (simp, intro disjI2 bexI, simp, assumption, auto)
qed

lemma paths_deduped:
  assumes sep: "separated ns"
  shows "all_paths b (deduped ns) = all_paths b ns"
proof
  show "all_paths b ns \<subseteq> all_paths b (deduped ns)"
  proof
    fix p assume "p \<in> all_paths b ns"
    then obtain n where n: "n \<in> set ns" "p \<in> paths b n" by (auto simp only: all_paths_def)
    obtain v where v: "v \<in> set (deduped ns)" "hn_id v = hn_id n"
      using set_js_keys [OF deduped_keys(1) [of ns]] n(1) by (metis imageE imageI)
    note m = deduped_members [OF sep v(1)]
    from m obtain x where "x \<in> set ns" "hn_id x = hn_id v" "hn_children x = None \<longleftrightarrow> hn_children v = None"
      by (elim conjE bexE) (rule that)
    then have "hn_children v = None \<longleftrightarrow> hn_children n = None"
      using separated_kinds [OF sep n(1) \<open>x \<in> set ns\<close>] v(2) by simp
    moreover have "set (nodes_below n) \<subseteq> set (nodes_below v)"
    proof -
      have "n \<in> set (filter (\<lambda>n. hn_id n = hn_id v) ns)" using n(1) v(2) by simp
      then show ?thesis unfolding conjunct2 [OF m] set_concat set_map by blast
    qed
    ultimately have "p \<in> paths b v" by (rule subsetD [OF paths_of_alike [OF v(2)] n(2)])
    then show "p \<in> all_paths b (deduped ns)" by (rule all_pathsI [OF v(1)])
  qed
next
  show "all_paths b (deduped ns) \<subseteq> all_paths b ns"
  proof
    fix p assume "p \<in> all_paths b (deduped ns)"
    then obtain v where v: "v \<in> set (deduped ns)" "p \<in> paths b v" by (auto simp only: all_paths_def)
    note m = deduped_members [OF sep v(1)]
    from iffD1 [OF in_paths_iff v(2)] consider "(hn_children v \<noteq> None) = b" "p = [hn_id v]"
      | c q where "c \<in> set (nodes_below v)" "q \<in> paths b c" "p = hn_id v # q" by blast
    then show "p \<in> all_paths b ns"
    proof cases
      case 1
      from m obtain x where x: "x \<in> set ns" "hn_id x = hn_id v" "hn_children x = None \<longleftrightarrow> hn_children v = None"
        by (elim conjE bexE) (rule that)
      have "[hn_id x] \<in> paths b x" by (rule root_path) (use x 1 in simp)
      then show ?thesis using all_pathsI [OF x(1)] x 1 by simp
    next
      case 2
      with m obtain n where n: "n \<in> set ns" "hn_id n = hn_id v" "c \<in> set (nodes_below n)"
        by (auto simp only: set_concat set_map set_filter UN_iff mem_Collect_eq)
      then have "p \<in> paths b n" unfolding in_paths_iff using 2
        by (intro disjI2 bexI [of _ c] bexI [of _ q]) simp_all
      then show ?thesis by (rule all_pathsI [OF n(1)])
    qed
  qed
qed

definition has_children :: "hierarchyNode \<Rightarrow> bool" where
  "has_children n \<longleftrightarrow> nodes_below n \<noteq> []"

lemma merge_seen_unfold:
  "merge_seen t = HierarchyNode (hn_data t) (Some (map (\<lambda>c. if has_children c then merge_seen c else c) (deduped (nodes_below t))))"
  by (subst merge_seen.simps) (auto simp: has_children_def split: option.splits list.splits)

lemma list_all_mapI: "(\<And>x. x \<in> set xs \<Longrightarrow> P (f x)) \<Longrightarrow> list_all P (map f xs)"
  by (simp add: list_all_iff)

lemma hn_id_merge_seen [simp]: "hn_id (merge_seen t) = hn_id t"
  by (subst merge_seen_unfold) (simp add: hn_id_def)

lemma no_children_distinct: "\<not> has_children n \<Longrightarrow> ids_distinct_below n"
  by (cases n; cases "hn_children n") (simp_all add: has_children_def)

lemma separated_deduped: "separated ns \<Longrightarrow> separated (deduped ns)"
  using paths_deduped [of ns] by (simp add: separated_def)

lemma merge_seen_sound:
  "separated [t] \<Longrightarrow> has_children t \<Longrightarrow> (\<forall>b. paths b (merge_seen t) = paths b t) \<and> ids_distinct_below (merge_seen t)"
proof (induction "node_count t" arbitrary: t rule: less_induct)
  case less
  let ?f = "\<lambda>c. if has_children c then merge_seen c else c" and ?ds = "deduped (nodes_below t)"
  have sep: "separated (nodes_below t)" by (rule separated_below [OF less.prems(1)]) simp
  have step: "(\<forall>b. paths b (?f d) = paths b d) \<and> ids_distinct_below (?f d) \<and> hn_id (?f d) = hn_id d" if d: "d \<in> set ?ds" for d
    using less.hyps [OF child_smaller [OF d] separated_member [OF separated_deduped [OF sep] d]] by (simp add: no_children_distinct)
  have "all_paths b (map ?f ?ds) = all_paths b (nodes_below t)" for b
    using all_paths_cong [of ?ds b ?f] step paths_deduped [OF sep, of b] by simp
  moreover have "hn_children t \<noteq> None" using less.prems(2) by (cases "hn_children t") (simp_all add: has_children_def)
  ultimately have "paths b (merge_seen t) = paths b t" for b
    unfolding paths_unfold [of b t] by (subst paths_unfold) (simp, simp add: merge_seen_unfold [of t])
  moreover have "distinct (map (hn_id \<circ> ?f) ?ds)"
  proof -
    have "map (hn_id \<circ> ?f) ?ds = map hn_id ?ds" by (rule map_cong [OF refl]) simp
    then show ?thesis using deduped_keys(2) by (simp only:)
  qed
  moreover have "list_all ids_distinct_below (map ?f ?ds)" by (rule list_all_mapI) (use step in blast)
  ultimately show ?case by (simp add: merge_seen_unfold [of t])
qed

lemma see_trees_dedupe: "dedupe_into hn_id adopt (filter has_children trees) seen = Inr (see_trees trees seen)"
  by (induction trees seen rule: see_trees.induct)
     (auto simp: has_children_def adopt_def split: option.splits list.splits)

lemma mergeTrees_deduped: "mergeTrees trees = map merge_seen (deduped (filter has_children trees))"
proof -
  have "deduped (filter has_children trees) = map snd (see_trees trees [])"
    using deduped_runs [of "filter has_children trees"] by (simp add: dedupeItems_def see_trees_dedupe)
  then show ?thesis by (simp add: mergeTrees_def comp_def)
qed

text \<open>
  If no path of ids leads both to a node with an array of children and to one without, then merging keeps all paths, and no
  two siblings have the same id afterwards.
\<close>

theorem merged_tree_complete:
  assumes "separated (filter has_children trees)"
  shows "(\<forall>b. all_paths b (mergeTrees trees) = all_paths b (filter has_children trees))
    \<and> distinct (map hn_id (mergeTrees trees)) \<and> list_all ids_distinct_below (mergeTrees trees)"
proof (intro conjI allI)
  let ?ds = "deduped (filter has_children trees)"
  have hc: "has_children d" if d: "d \<in> set ?ds" for d
  proof -
    note m = deduped_members [OF assms d]
    from m obtain n where n: "n \<in> set (filter has_children trees)" "hn_id n = hn_id d"
      by (elim conjE bexE) (rule that)
    have "n \<in> set (filter (\<lambda>n. hn_id n = hn_id d) (filter has_children trees))" using n by simp
    then have "set (nodes_below n) \<subseteq> set (nodes_below d)" unfolding conjunct2 [OF m] set_concat set_map by blast
    then show ?thesis using n(1) by (auto simp: has_children_def)
  qed
  have step: "(\<forall>b. paths b (merge_seen d) = paths b d) \<and> ids_distinct_below (merge_seen d)" if d: "d \<in> set ?ds" for d
    by (rule merge_seen_sound [OF separated_member [OF separated_deduped [OF assms] d] hc [OF d]])
  show "all_paths b (mergeTrees trees) = all_paths b (filter has_children trees)" for b
    using all_paths_cong [of ?ds b merge_seen] step paths_deduped [OF assms, of b] by (simp add: mergeTrees_deduped)
  show "distinct (map hn_id (mergeTrees trees))"
    using deduped_keys(2) [of "filter has_children trees"] by (simp add: mergeTrees_deduped comp_def)
  show "list_all ids_distinct_below (mergeTrees trees)"
    unfolding mergeTrees_deduped by (rule list_all_mapI) (use step in blast)
qed

section \<open>Boxes\<close>

text \<open>Left, upper, right and lower edge; \<open>y\<close> grows downwards.\<close>

datatype boundingBox = BoundingBox (bb_left: rat) (bb_top: rat) (bb_right: rat) (bb_bottom: rat)

text \<open>
  \<open>treeBoundingBox\<close> over the positions that the layout has given to the nodes. The accumulators start as infinities, which
  every position replaces; a tree has at least its root.
\<close>

fun enclose :: "rat \<times> rat \<Rightarrow> boundingBox option \<Rightarrow> boundingBox option" where
  "enclose (x, y) None = Some (BoundingBox x y x y)"
| "enclose (x, y) (Some b) = Some (BoundingBox (min (bb_left b) x) (min (bb_top b) y) (max (bb_right b) x) (max (bb_bottom b) y))"

definition treeBoundingBox :: "(rat \<times> rat) list \<Rightarrow> boundingBox option" where
  "treeBoundingBox positions = fold enclose positions None"

definition sizeOfTree :: "(rat \<times> rat) list \<Rightarrow> (rat \<times> rat) option" where
  "sizeOfTree positions = map_option (\<lambda>b. (bb_right b - bb_left b, bb_bottom b - bb_top b)) (treeBoundingBox positions)"

definition flipBoundingBoxH :: "boundingBox \<Rightarrow> boundingBox" where
  "flipBoundingBoxH b = BoundingBox (- bb_right b) (bb_top b) (- bb_left b) (bb_bottom b)"

definition combineBBoxes :: "boundingBox \<Rightarrow> boundingBox \<Rightarrow> boundingBox" where
  "combineBBoxes a b = BoundingBox (min (bb_left a) (bb_left b)) (min (bb_top a) (bb_top b))
     (max (bb_right a) (bb_right b)) (max (bb_bottom a) (bb_bottom b))"

text \<open>\<open>reduce\<close> without an initial value throws a \<open>TypeError\<close> for an empty array: \<open>None\<close>.\<close>

fun superBoundingBox :: "boundingBox list \<Rightarrow> boundingBox option" where
  "superBoundingBox [] = None"
| "superBoundingBox (b # bs) = Some (foldl combineBBoxes b bs)"

definition offsetBBox :: "boundingBox \<Rightarrow> rat \<Rightarrow> rat \<Rightarrow> boundingBox" where
  "offsetBBox b x y = BoundingBox (bb_left b + x) (bb_top b + y) (bb_right b + x) (bb_bottom b + y)"

definition expandBBox :: "boundingBox \<Rightarrow> rat \<Rightarrow> boundingBox" where
  "expandBBox b padding = BoundingBox (bb_left b - padding) (bb_top b - padding) (bb_right b + padding) (bb_bottom b + padding)"

definition bboxCenter :: "boundingBox \<Rightarrow> rat \<times> rat" where
  "bboxCenter b = ((bb_left b + bb_right b) / 2, (bb_top b + bb_bottom b) / 2)"

definition bboxSize :: "boundingBox \<Rightarrow> rat \<times> rat" where
  "bboxSize b = (bb_right b - bb_left b, bb_bottom b - bb_top b)"

text \<open>The rounds of the loop after the first, which look at the box before and the position it got.\<close>

fun stack_after :: "rat \<Rightarrow> boundingBox \<Rightarrow> rat \<Rightarrow> boundingBox list \<Rightarrow> rat list" where
  "stack_after padding prev y [] = []"
| "stack_after padding prev y (b # bs) =
    (let spacing = - bb_top b + bb_bottom prev + padding; y1 = y + max spacing padding
     in y1 # stack_after padding b y1 bs)"

fun stackBoxes :: "boundingBox list \<Rightarrow> rat \<Rightarrow> rat list" where
  "stackBoxes [] padding = []"
| "stackBoxes (b # bs) padding = 0 # stack_after padding b 0 bs"

text \<open>
  The two columns of monoliths in \<open>TreeView\<close>: the first half to the right, the others mirrored to the left, and the shorter
  column moved down by half of what it lacks. The result has the boxes and their vertical positions.
\<close>

definition last_or_zero :: "rat list \<Rightarrow> rat" where
  "last_or_zero ys = (if ys = [] then 0 else last ys)"

definition monolith_columns :: "boundingBox list \<Rightarrow> rat \<Rightarrow> (boundingBox list \<times> rat list) \<times> (boundingBox list \<times> rat list)" where
  "monolith_columns boxes baseNodeRadius =
    (let half = length boxes div 2; right = take half boxes; left = map flipBoundingBoxH (drop half boxes);
         padding = baseNodeRadius * 2 + 10;
         ysRight = stackBoxes right padding; ysLeft = stackBoxes left padding;
         largestRight = last_or_zero ysRight; largestLeft = last_or_zero ysLeft;
         offsetY = \<bar>largestRight - largestLeft\<bar> / 2
     in ((right, if largestLeft > largestRight then map (\<lambda>y. y + offsetY) ysRight else ysRight),
         (left, if largestRight > largestLeft then map (\<lambda>y. y + offsetY) ysLeft else ysLeft)))"

text \<open>What is passed to d3's \<open>translate\<close> and \<open>scale\<close>: two distances and a factor.\<close>

definition calcZoomTransform :: "boundingBox \<Rightarrow> rat \<Rightarrow> rat \<Rightarrow> (rat \<times> rat) \<times> rat" where
  "calcZoomTransform bbox width height =
    (let center = bboxCenter bbox; size = bboxSize bbox; scale = min (width / fst size) (height / snd size)
     in ((width / 2 - fst center * scale, height / 2 - snd center * scale), scale))"

text \<open>The box that \<open>TreeView\<close> zooms to: all placed boxes of monoliths and the circles of the balancers, with a margin.\<close>

definition whole_picture :: "(boundingBox \<times> rat \<times> rat) list \<Rightarrow> (rat \<times> rat) list \<Rightarrow> rat \<Rightarrow> boundingBox option" where
  "whole_picture monoliths balancers r =
    map_option (\<lambda>b. expandBBox b 50) (superBoundingBox (map (\<lambda>(b, x, y). offsetBBox b x y) monoliths
      @ map (\<lambda>(x, y). BoundingBox (x - r) (y - r) (x + r) (y + r)) balancers))"

subsection \<open>Boxes in a column do not overlap, and everything is seen\<close>

definition proper_box :: "boundingBox \<Rightarrow> bool" where
  "proper_box b \<longleftrightarrow> bb_left b \<le> bb_right b \<and> bb_top b \<le> bb_bottom b"

definition inside_box :: "boundingBox \<Rightarrow> boundingBox \<Rightarrow> bool" where
  "inside_box a b \<longleftrightarrow> bb_left b \<le> bb_left a \<and> bb_top b \<le> bb_top a \<and> bb_right a \<le> bb_right b \<and> bb_bottom a \<le> bb_bottom b"

text \<open>Of the boxes with their vertical positions, each one lies wholly above all that come after it, with the padding between.\<close>

fun apart :: "rat \<Rightarrow> (boundingBox \<times> rat) list \<Rightarrow> bool" where
  "apart padding [] = True"
| "apart padding ((a, y) # rest) \<longleftrightarrow>
    list_all (\<lambda>(b, z). y + bb_bottom a + padding \<le> z + bb_top b) rest \<and> apart padding rest"

lemma length_stack_after [simp]: "length (stack_after padding prev y bs) = length bs"
  by (induction bs arbitrary: prev y) (simp_all add: Let_def)

lemma length_stackBoxes [simp]: "length (stackBoxes bs padding) = length bs"
  by (cases bs) simp_all

lemma stack_after_apart:
  assumes "0 \<le> padding" and "list_all proper_box bs"
  shows "list_all (\<lambda>(b, z). y + bb_bottom prev + padding \<le> z + bb_top b) (zip bs (stack_after padding prev y bs))
    \<and> apart padding (zip bs (stack_after padding prev y bs))"
  using assms(2)
proof (induction bs arbitrary: prev y)
  case (Cons b bs)
  define y1 where "y1 = y + max (- bb_top b + bb_bottom prev + padding) padding"
  have b: "bb_top b \<le> bb_bottom b" and here: "y + bb_bottom prev + padding \<le> y1 + bb_top b"
    using Cons.prems unfolding y1_def by (simp_all add: proper_box_def)
  have rest: "list_all (\<lambda>(c, z). y1 + bb_bottom b + padding \<le> z + bb_top c) (zip bs (stack_after padding b y1 bs))"
    and ap: "apart padding (zip bs (stack_after padding b y1 bs))" using Cons by simp_all
  from rest have "list_all (\<lambda>(c, z). y + bb_bottom prev + padding \<le> z + bb_top c) (zip bs (stack_after padding b y1 bs))"
    by (rule list.pred_mono_strong) (use here b assms(1) in auto)
  then show ?case using here rest ap
    by (simp only: stack_after.simps Let_def y1_def [symmetric] zip_Cons_Cons list.pred_inject prod.case apart.simps simp_thms)
qed simp

lemma stackBoxes_apart: "0 \<le> padding \<Longrightarrow> list_all proper_box bs \<Longrightarrow> apart padding (zip bs (stackBoxes bs padding))"
  using stack_after_apart [of padding "tl bs" 0 "hd bs"] by (cases bs) simp_all

lemma apart_shift: "apart padding (map (\<lambda>(b, y). (b, y + d)) bys) = apart padding bys"
  by (induction bys) (auto simp: list.pred_map list_all_iff split: prod.splits)

lemma apart_shift_zip: "apart padding (zip bs (map (\<lambda>y. y + d) ys)) = apart padding (zip bs ys)"
  using apart_shift [of padding d "zip bs ys"] by (simp add: zip_map2)

lemma proper_flip: "proper_box (flipBoundingBoxH b) = proper_box b"
  by (auto simp: proper_box_def flipBoundingBoxH_def)

lemma enclose_proper: "pred_option proper_box acc \<Longrightarrow> pred_option proper_box (enclose p acc)"
  by (cases p; cases acc) (auto simp: proper_box_def min_def max_def)

lemma treeBoundingBox_proper: "treeBoundingBox ps = Some b \<Longrightarrow> proper_box b"
proof -
  have "pred_option proper_box (fold enclose ps acc)" if "pred_option proper_box acc" for acc
    using that by (induction ps arbitrary: acc) (simp_all add: enclose_proper)
  from this [of None] show "treeBoundingBox ps = Some b \<Longrightarrow> proper_box b" by (simp add: treeBoundingBox_def)
qed

lemma shift_if: "(if c then map (\<lambda>y. y + d) ys else ys) = map (\<lambda>y. y + (if c then d else 0)) ys" for d :: rat
  by simp

lemma monolith_columns_shift:
  assumes "monolith_columns boxes radius = ((right, ysRight), (left, ysLeft))"
  shows "\<exists>d e. ysRight = map (\<lambda>y. y + d) (stackBoxes right (radius * 2 + 10)) \<and> ysLeft = map (\<lambda>y. y + e) (stackBoxes left (radius * 2 + 10))"
  using assms unfolding monolith_columns_def Let_def shift_if prod.inject by blast

text \<open>
  C39. The two columns of monoliths show every tree once, and no two boxes of a column overlap: of two boxes, the upper one
  ends above the start of the other, with the padding between, whatever the trees look like.
\<close>

theorem columns_do_not_overlap:
  assumes "map Some boxes = map treeBoundingBox trees" and "0 \<le> radius"
    and "monolith_columns boxes radius = ((right, ysRight), (left, ysLeft))"
  shows "right @ map flipBoundingBoxH left = boxes \<and> length ysRight = length right \<and> length ysLeft = length left
    \<and> apart (radius * 2 + 10) (zip right ysRight) \<and> apart (radius * 2 + 10) (zip left ysLeft)"
proof -
  let ?half = "length boxes div 2"
  have cols: "right = take ?half boxes" "left = map flipBoundingBoxH (drop ?half boxes)"
    using assms(3) by (simp_all add: monolith_columns_def Let_def)
  have pr: "list_all proper_box boxes"
  proof -
    have "\<exists>ps. treeBoundingBox ps = Some b" if "b \<in> set boxes" for b
    proof -
      from that have "Some b \<in> set (map Some boxes)" by simp
      then show ?thesis unfolding assms(1) by auto
    qed
    then show ?thesis using treeBoundingBox_proper by (auto simp: list_all_iff)
  qed
  have "list_all proper_box right" "list_all proper_box left"
    using pr by (auto simp: cols list_all_iff proper_flip dest: in_set_takeD in_set_dropD)
  from stackBoxes_apart [OF _ this(1), of "radius * 2 + 10"] stackBoxes_apart [OF _ this(2), of "radius * 2 + 10"]
  have "apart (radius * 2 + 10) (zip right (stackBoxes right (radius * 2 + 10)))"
    "apart (radius * 2 + 10) (zip left (stackBoxes left (radius * 2 + 10)))" using assms(2) by simp_all
  moreover obtain d e where "ysRight = map (\<lambda>y. y + d) (stackBoxes right (radius * 2 + 10))"
    "ysLeft = map (\<lambda>y. y + e) (stackBoxes left (radius * 2 + 10))"
    using monolith_columns_shift [OF assms(3)] by blast
  moreover have "map flipBoundingBoxH left = drop ?half boxes"
    unfolding cols by (simp add: comp_def flipBoundingBoxH_def)
  ultimately show ?thesis unfolding cols(1) by (auto simp: apart_shift_zip)
qed

theorem columns_do_not_overlap_witness:
  "apart 50 (zip [BoundingBox 0 0 2 3, BoundingBox (-1) (-2) 1 4] [0, 55])
    \<and> map flipBoundingBoxH [BoundingBox (-1) 0 0 1, BoundingBox (-3) 0 2 (1 :: rat)] = [BoundingBox 0 0 1 1, BoundingBox (-2) 0 3 1]"
proof -
  let ?boxes = "[BoundingBox 0 0 2 3, BoundingBox (-1) (-2) 1 4, BoundingBox 0 0 1 1, BoundingBox (-2) 0 3 (1 :: rat)]"
  let ?trees = "[[(0, 0), (2, 3)], [(-1, 4), (1, -2)], [(0, 0), (1, 1)], [(-2, 0), (3, 1 :: rat)]] :: (rat \<times> rat) list list"
  let ?left = "[BoundingBox (-1) 0 0 1, BoundingBox (-3) 0 2 (1 :: rat)]"
  have b: "map Some ?boxes = map treeBoundingBox ?trees" by (simp add: treeBoundingBox_def)
  have c: "monolith_columns ?boxes 20 = (([BoundingBox 0 0 2 3, BoundingBox (-1) (-2) 1 4], [0, 55]), (?left, [2, 53]))"
    by (simp add: monolith_columns_def last_or_zero_def flipBoundingBoxH_def Let_def)
  have r: "0 \<le> (20 :: rat)" by simp
  from columns_do_not_overlap [OF b r c] show ?thesis by simp
qed

text \<open>A box is on the screen: a point is first scaled and then moved.\<close>

fun shown_box :: "(rat \<times> rat) \<times> rat \<Rightarrow> rat \<Rightarrow> rat \<Rightarrow> boundingBox \<Rightarrow> bool" where
  "shown_box ((tx, ty), k) width height b \<longleftrightarrow>
    0 \<le> bb_left b * k + tx \<and> bb_right b * k + tx \<le> width \<and> 0 \<le> bb_top b * k + ty \<and> bb_bottom b * k + ty \<le> height"

lemma inside_box_trans: "inside_box a b \<Longrightarrow> inside_box b c \<Longrightarrow> inside_box a c"
  by (auto simp: inside_box_def)

lemma inside_combine: "inside_box a (combineBBoxes a b)" "inside_box b (combineBBoxes a b)"
  by (simp_all add: inside_box_def combineBBoxes_def)

lemma inside_foldl: "a = b \<or> a \<in> set bs \<Longrightarrow> inside_box a (foldl combineBBoxes b bs)"
proof (induction bs arbitrary: b a)
  case (Cons c bs)
  then show ?case
    using inside_box_trans [OF inside_combine(1) Cons.IH [of "combineBBoxes b c" "combineBBoxes b c"]]
      inside_box_trans [OF inside_combine(2) Cons.IH [of "combineBBoxes b c" "combineBBoxes b c"]] by auto
qed (simp add: inside_box_def)

lemma superBoundingBox_contains: "superBoundingBox bs = Some s \<Longrightarrow> a \<in> set bs \<Longrightarrow> inside_box a s"
  by (cases bs) (auto simp: inside_foldl)

lemma fits_side:
  fixes k w l u :: rat
  assumes "l < u" and "0 < k" and "k \<le> w / (u - l)" and "l \<le> x" and "y \<le> u"
  shows "0 \<le> x * k + (w / 2 - (l + u) / 2 * k)" and "y * k + (w / 2 - (l + u) / 2 * k) \<le> w"
proof -
  have w: "u * k - l * k \<le> w" using assms(1,3) by (simp add: field_simps)
  have lx: "l * k \<le> x * k" and yu: "y * k \<le> u * k" using assms(2,4,5) by simp_all
  have m: "(l + u) / 2 * k = (l * k + u * k) / 2" by (simp add: field_simps)
  show "0 \<le> x * k + (w / 2 - (l + u) / 2 * k)" unfolding m using w lx by (simp add: field_simps)
  show "y * k + (w / 2 - (l + u) / 2 * k) \<le> w" unfolding m using w yu by (simp add: field_simps)
qed

lemma zoom_shows:
  assumes "inside_box a b" and "bb_left b < bb_right b" and "bb_top b < bb_bottom b" and "0 < width" and "0 < height"
  shows "shown_box (calcZoomTransform b width height) width height a"
proof -
  define k where "k = min (width / (bb_right b - bb_left b)) (height / (bb_bottom b - bb_top b))"
  have k: "0 < k" "k \<le> width / (bb_right b - bb_left b)" "k \<le> height / (bb_bottom b - bb_top b)"
    using assms(2-5) by (simp_all add: k_def)
  have a: "bb_left b \<le> bb_left a" "bb_right a \<le> bb_right b" "bb_top b \<le> bb_top a" "bb_bottom a \<le> bb_bottom b"
    using assms(1) by (simp_all add: inside_box_def)
  show ?thesis
    using fits_side [OF assms(2) k(1,2) a(1,2)] fits_side [OF assms(3) k(1,3) a(3,4)]
    by (simp add: calcZoomTransform_def bboxCenter_def bboxSize_def Let_def k_def [symmetric])
qed


text \<open>
  Joining the nodes of one id loses what is below a second node when the first has no array of children.
\<close>

lemma merging_into_leaf_loses_children:
  "mergeTrees [HierarchyNode (TreeNode ''region'' ''r'' ''region'' [])
      (Some [HierarchyNode (TreeNode ''m'' ''r'' ''monolith'' []) None,
             HierarchyNode (TreeNode ''m'' ''r'' ''monolith'' []) (Some [HierarchyNode (TreeNode ''a'' ''r'' ''room'' []) None])])]
    = [HierarchyNode (TreeNode ''region'' ''r'' ''region'' [])
        (Some [HierarchyNode (TreeNode ''m'' ''r'' ''monolith'' []) None])]"
  by (simp add: mergeTrees_def merge_seen.simps deduped_def dedupeItems_def adopt_def push_children_def hn_id_def)

text \<open>Of an empty installation there is no picture: the view throws.\<close>

lemma no_picture_of_nothing: "whole_picture [] [] r = None"
  by (simp add: whole_picture_def)


end
