(* ===== verification/Spec2Isabelle.thy ===== *)
theory Spec2Isabelle
  imports ModerationProperties ManagerRaces ServerRuns AccountProperties ClientConnection Extractor AnnounceApi BalancerLink Visualiser
begin

text \<open>
  A verified model of the server of OpenTogetherTube (rooms, connections, accounts, and what it finds out about videos), and of
  the client state that follows it.

  \<^bold>\<open>The program.\<close> People watch a video together in a room. The server keeps the room (its settings,
  the queue, the current item, the position, who is connected, which permissions each role has),
  changes it on requests from clients and once a second by itself, and tells the clients what has
  changed (rooms are also created, listed, claimed and removed through an HTTP interface, which knows who is
  asking from accounts and sessions): every setter of \<open>server/room.ts\<close> marks its property dirty, and a debounced \<open>sync\<close> sends
  the dirty properties to the clients, stores the room in redis and its settings in the database.
  A client keeps a copy of the room (\<open>client/src/stores/room.ts\<close>) and computes the playback position
  from it between messages.

  \<^bold>\<open>The theories\<close>, in the order of their dependencies:
  \<^item> \<open>Prelude\<close>: the outcome of an operation that returns or throws and leaves a state either way,
    maps and sets in insertion order (JavaScript's \<open>Map\<close> and \<open>Set\<close>), truthiness, strings, and the
    locale \<open>invariant_machine\<close> of machines that preserve an invariant.
  \<^item> \<open>Ott_Types\<close>, \<open>Exceptions\<close>, \<open>Messages\<close>: the data of \<open>common/models\<close>, the exception classes and
    the messages.
  \<^item> \<open>Permissions\<close>: \<open>common/permissions.ts\<close>. Grant masks are 32-bit words; \<open>Grants\<close> is a map from
    roles to masks.
  \<^item> \<open>VideoQueue\<close>: \<open>server/videoqueue.ts\<close> and \<open>server/util/dirtyable.ts\<close>, with the queue as a
    deque (locale and interpretation).
  \<^item> \<open>RoomState\<close>, \<open>RoomPlayback\<close>, \<open>RoomHandlers\<close>, \<open>RoomRequests\<close>, \<open>RoomSync\<close>: the class \<open>Room\<close> of
    \<open>server/room.ts\<close>: fields, constructor and setters; playback and the periodic update; the request
    handlers; the dispatch of requests; synchronisation and persistence. \<open>common/voteskip.ts\<close>,
    \<open>common/timestamp.ts\<close> and \<open>common/userutils.ts\<close> stand where they are used.
  \<^item> \<open>RoomFrame\<close>: the locale \<open>room_ops\<close>, a relation between the room before and after that every
    primitive of the room respects; inside it every operation is shown to respect it, once.
    \<open>RoomInvariants\<close> interprets it four times: for the well-formedness of rooms, for the soundness
    of the dirty marks, for the identity of a room, and for the log of effects.
  \<^item> \<open>RoomMachine\<close>: the room as a machine of requests, updates and synchronisations.
  \<^item> \<open>ClientStore\<close>: \<open>client/src/stores/room.ts\<close>, \<open>client/src/stores/users.ts\<close> and the position that
    \<open>client/src/views/Room.vue\<close> shows.
  \<^item> \<open>RoomConvergence\<close>: a room and a client joined by the messages between them.
  \<^item> \<open>PlaybackProperties\<close>, \<open>SafetyProperties\<close>, \<open>ModerationProperties\<close>: what the room promises.
  \<^item> \<open>Storage\<close>: \<open>server/storage/room.ts\<close> and \<open>server/storage/cachedvideo.ts\<close>.
  \<^item> \<open>Persistence\<close>: a room stored in redis and restored from it.
  \<^item> \<open>RoomManager\<close>: \<open>server/roommanager.ts\<close>, the rooms loaded on this node: creating, finding,
    loading, updating and unloading them. \<open>ManagerProperties\<close> states what it keeps when its
    operations run one after the other, \<open>ManagerRaces\<close> what happens when they overlap at their awaits.
  \<^item> \<open>Clients\<close>, \<open>ClientManager\<close>: \<open>server/client.ts\<close>, \<open>server/clientmanager.ts\<close> and the link to
    the load balancers in \<open>server/balancer.ts\<close>: who is connected, who listens to which room, and how
    messages and requests travel. What a room or the manager emits is delivered here. The locales
    \<open>untouched\<close> and \<open>unmanaged\<close> say which fields deliveries leave alone.
  \<^item> \<open>ServerMachine\<close>: the server as an inductive step relation, with an invariant on who may be sent
    what. \<open>ServerProperties\<close> has broadcasts, joining, leaving and unloading, \<open>ServerRuns\<close> runs from the
    start of the server.

  \<^item> \<open>Http\<close>: what HTTP handlers share (requests, responses, errors), \<open>server/rate-limit.ts\<close> and
    \<open>server/admin.ts\<close>, with the property of the limiter's count.
  \<^item> \<open>RoomApi\<close>: \<open>server/api/room.ts\<close> with the schemas of \<open>common/models/zod-schemas.ts\<close>.
    \<open>RoomApiProperties\<close>: every route answers once (locale \<open>http_handler\<close>, interpreted for each route), and
    what routes may do to rooms.
  \<^item> \<open>Accounts\<close>, \<open>UserApi\<close>: \<open>server/usermanager.ts\<close>, \<open>server/auth\<close> and \<open>server/api/user.ts\<close>. The
    database of accounts, redis, argon2, the mailer and passport are the record \<open>outside\<close>.
    \<open>AccountProperties\<close>: registering and logging in, who a request is taken to be from, changing and
    recovering a password.

  \<^item> \<open>ClientConnection\<close>: \<open>client/src/plugins/connection.ts\<close>, the connection with its socket and its timer as a
    machine, with its invariant and its return after failures. \<open>ClientHelpers\<close>: aspect ratios, time stamps, toasts, keyboard
    shortcuts, text with links and the export of a queue.
  \<^item> \<open>ServiceAdapters\<close>: \<open>server/mime.ts\<close>, \<open>server/serviceadapter.ts\<close> and \<open>server/services/direct.ts\<close>.
    \<open>InfoExtractor\<close>: \<open>server/infoextractor.ts\<close>, the bulk operations of \<open>server/storage/cachedvideo.ts\<close> and the route of
    \<open>server/api/data.ts\<close>. \<open>InfoProperties\<close>: that route answers once, what is cached and in which order videos come back.
  \<^item> \<open>JsRegex\<close>: the regular expressions of the adapters, as a backtracking matcher with captures that is sound and complete
    for the language of an expression. \<open>MediaAdapters\<close>: Vimeo, HLS, DASH, Reddit, Google Drive, PeerTube and Tubi with
    \<open>server/services/parsing/iso8601.ts\<close>; \<open>YouTube\<close>; \<open>StreamAdapters\<close>: Pluto and Invidious; \<open>Odysee\<close>.
    Each adapter is the record of its methods, over a record of its outside (URL parser, answers to requests, manifests).
  \<^item> \<open>AdapterProperties\<close>: ids read back from links, the choice of streams (locale \<open>comparison\<close>, interpreted on the variants
    of a playlist), errors and quota. \<open>Extractor\<close>: the adapters that \<open>initExtractor\<close> registers, and exported links
    that are found again.
  \<^item> \<open>AnnounceApi\<close>: \<open>server/api/announce.ts\<close>, which publishes only for the API key.
  \<^item> \<open>BalancerLink\<close>: the check of a balancer's messages and the handshake of \<open>addBalancerConnection\<close> as a step relation
    with its invariant. \<open>Visualiser\<close>: the dashboard under \<open>packages/ott-vis-panel/src\<close>: joining reports (locale
    \<open>keyed_reduction\<close>, interpreted on rooms, monoliths and nodes of trees), building and merging trees, stacking boxes, zooming.

  \<^bold>\<open>Modelling decisions.\<close> A handler is one function from room to outcome; two handlers do not
  interleave inside the model of one, except where a property says so: \<open>sync\<close> is split at its awaits
  into \<open>sync_begin\<close> and \<open>sync_end\<close>, with any change to the room in between (\<open>sync_with\<close>). Effects on
  the outside (messages, redis, the database, metrics) are appended to a log in the room,
  \<open>r_effects\<close>. What the code asks of the outside (the clock in milliseconds, sessions, accounts, video
  metadata, Sponsorblock, the random permutation of a shuffle, the configuration) is an argument, the
  record \<open>world\<close>; its fields answer with a value or an exception, and nothing is assumed of them.
  JavaScript numbers used as positions, lengths and speeds are rationals, without the rounding of
  floating point. JSON texts are not modelled: a message or a stored state is the value it encodes.

  A service that is asked several times during one call answers the same, and the writes to the cache that the info extractor
  does not wait for are made at once.

  \<^bold>\<open>Termination.\<close> Recursions that are not structural: \<open>undo\<close>, which may issue another request and
  terminates because that request is never an undo; the matcher of regular expressions and the loops over texts, where what is
  left of the text shrinks; \<open>merge_seen\<close>, because joining nodes never makes a tree bigger; \<open>gcd\<close> in \<open>client/src/util/misc.ts\<close>, which does not end for every number, so \<open>js_gcd\<close> is a partial
  function and \<open>aspect_ratio_returns_iff\<close> says when it ends.

  \<^bold>\<open>Not modelled.\<close> The websocket servers with their timeouts and pings, and the wiring of the HTTP server: input and output
  around libraries. \<open>server/ffprobe.ts\<close>: the result of its subprocess is an argument of the direct adapter. The user interface,
  apart from the parts above: rendering. The balancer and the collectors in Rust: other programs. Of the dashboard, what d3
  and Grafana do, and pruning and filtering trees, which work on the nodes of d3 with their links to parents. Metrics, logging,
  configuration and migrations.
\<close>

end
